(* ===== verification/Prelude.thy ===== *)
theory Prelude
  imports Main "HOL-Library.Multiset"
begin

text \<open>
  Shared vocabulary of the development.  Results of fallible code are values of
  a sum type (\<open>Inl\<close> the error, \<open>Inr\<close> the value), composed with \<open>rbind\<close>;
  \<open>ensure\<close> is the guard \<open>if (!c) throw e\<close>.  Row identifiers and business codes
  are strings, monetary amounts (the bigint columns, in cents) are \<open>int\<close>, and
  time values are milliseconds since the epoch.  The list helpers mirror the
  JavaScript idioms the code uses: \<open>dedupe\<close> is \<open>[...new Set(xs)]\<close>, \<open>sum_by\<close> is
  a \<open>reduce\<close> with \<open>+\<close>, \<open>upd_row\<close> is an update of the rows a filter selects.
\<close>

named_theorems state_defs "definitions of state-changing operations"
named_theorems row_simps "facts on tables as lists of rows"
named_theorems date_simps "evaluation rules for time values"

type_synonym id = string
type_synonym amount = int
type_synonym time = int
type_synonym ('e, 'a) result = "'e + 'a"

section \<open>Results\<close>

fun rbind :: "('e, 'a) result \<Rightarrow> ('a \<Rightarrow> ('e, 'b) result) \<Rightarrow> ('e, 'b) result" where
  "rbind (Inl e) f = Inl e"
| "rbind (Inr x) f = f x"

definition ensure :: "bool \<Rightarrow> 'e \<Rightarrow> ('e, unit) result" where
  "ensure c e = (if c then Inr () else Inl e)"

fun is_ok :: "('e, 'a) result \<Rightarrow> bool" where
  "is_ok (Inr x) = True"
| "is_ok (Inl e) = False"

lemma rbind_Inr_iff [simp]:
  "rbind r f = Inr y \<longleftrightarrow> (\<exists>x. r = Inr x \<and> f x = Inr y)"
  by (cases r) auto

lemma ensure_Inr_iff [simp]: "ensure c e = Inr u \<longleftrightarrow> c"
  by (simp add: ensure_def)

lemma ensure_Inl_iff [simp]: "ensure c e = Inl e' \<longleftrightarrow> \<not> c \<and> e' = e"
  by (auto simp: ensure_def)

lemma ensure_True [simp]: "ensure True e = Inr ()"
  by (simp add: ensure_def)

lemma ensure_False [simp]: "ensure False e = Inl e"
  by (simp add: ensure_def)

lemma is_ok_iff: "is_ok r \<longleftrightarrow> (\<exists>x. r = Inr x)"
  by (cases r) auto

section \<open>JSON values\<close>

text \<open>The JSON snapshots the code stores; an object is its list of entries.\<close>

datatype json = JNull | JBool bool | JNum int | JStr string | JArr "json list"
  | JObj "(string \<times> json) list"

type_synonym json_object = "(string \<times> json) list"

section \<open>Lists of rows\<close>

fun dedupe_acc :: "'a list \<Rightarrow> 'a list \<Rightarrow> 'a list" where
  "dedupe_acc seen [] = []"
| "dedupe_acc seen (x # xs) =
     (if x \<in> set seen then dedupe_acc seen xs else x # dedupe_acc (x # seen) xs)"

definition dedupe :: "'a list \<Rightarrow> 'a list" where
  "dedupe xs = dedupe_acc [] xs"

lemma set_dedupe_acc: "set (dedupe_acc seen xs) = set xs - set seen"
  by (induction seen xs rule: dedupe_acc.induct) auto

lemma set_dedupe [simp]: "set (dedupe xs) = set xs"
  by (simp add: dedupe_def set_dedupe_acc)

lemma distinct_dedupe_acc: "distinct (dedupe_acc seen xs)"
  by (induction seen xs rule: dedupe_acc.induct) (auto simp: set_dedupe_acc)

lemma distinct_dedupe [simp]: "distinct (dedupe xs)"
  by (simp add: dedupe_def distinct_dedupe_acc)

definition sum_by :: "('a \<Rightarrow> int) \<Rightarrow> 'a list \<Rightarrow> int" where
  "sum_by f xs = sum_list (map f xs)"

lemma sum_by_Nil [simp]: "sum_by f [] = 0"
  by (simp add: sum_by_def)

lemma sum_by_Cons [simp]: "sum_by f (x # xs) = f x + sum_by f xs"
  by (simp add: sum_by_def)

lemma sum_by_append [simp]: "sum_by f (xs @ ys) = sum_by f xs + sum_by f ys"
  by (simp add: sum_by_def)

lemma sum_by_nonneg: "(\<And>x. x \<in> set xs \<Longrightarrow> 0 \<le> f x) \<Longrightarrow> 0 \<le> sum_by f xs"
  by (induction xs) auto

lemma sum_by_cong: "(\<And>x. x \<in> set xs \<Longrightarrow> f x = g x) \<Longrightarrow> sum_by f xs = sum_by g xs"
  by (induction xs) auto

lemma sum_by_zero: "(\<And>x. x \<in> set xs \<Longrightarrow> f x = 0) \<Longrightarrow> sum_by f xs = 0"
  by (induction xs) auto

lemma sum_by_add: "sum_by (\<lambda>x. f x + g x) xs = sum_by f xs + sum_by g xs"
  by (induction xs) auto

lemma sum_by_filter_split:
  "sum_by f xs = sum_by f (filter P xs) + sum_by f (filter (\<lambda>x. \<not> P x) xs)"
  by (induction xs) auto

lemma foldl_sum: "foldl (\<lambda>s x. s + f x) a xs = a + sum_by f xs" for a :: int
  by (induction xs arbitrary: a) auto

section \<open>Tables with a key\<close>

definition find_row :: "('a \<Rightarrow> 'k) \<Rightarrow> 'k \<Rightarrow> 'a list \<Rightarrow> 'a option" where
  "find_row key k rows = List.find (\<lambda>r. key r = k) rows"

definition upd_row :: "('a \<Rightarrow> 'k) \<Rightarrow> 'k \<Rightarrow> ('a \<Rightarrow> 'a) \<Rightarrow> 'a list \<Rightarrow> 'a list" where
  "upd_row key k f rows = map (\<lambda>r. if key r = k then f r else r) rows"

lemma find_row_Some:
  "find_row key k rows = Some r \<Longrightarrow> r \<in> set rows \<and> key r = k"
  by (induction rows) (auto simp: find_row_def split: if_splits)

lemma find_row_None:
  "find_row key k rows = None \<longleftrightarrow> k \<notin> key ` set rows"
  by (induction rows) (auto simp: find_row_def)

lemma find_row_unique:
  "distinct (map key rows) \<Longrightarrow> r \<in> set rows \<Longrightarrow> find_row key (key r) rows = Some r"
  by (induction rows) (auto simp: find_row_def image_iff)

lemma find_row_upd_same:
  "(\<And>r. key (f r) = key r) \<Longrightarrow>
   find_row key k (upd_row key k f rows) = map_option f (find_row key k rows)"
  by (induction rows) (auto simp: find_row_def upd_row_def)

lemma find_row_upd_other:
  "(\<And>r. key (f r) = key r) \<Longrightarrow> j \<noteq> k \<Longrightarrow>
   find_row key j (upd_row key k f rows) = find_row key j rows"
  by (induction rows) (auto simp: find_row_def upd_row_def)

lemma map_key_upd_row [row_simps]:
  "(\<And>r. key (f r) = key r) \<Longrightarrow> map key (upd_row key k f rows) = map key rows"
  by (induction rows) (auto simp: upd_row_def)

lemma set_upd_row:
  "r \<in> set (upd_row key k f rows) \<Longrightarrow>
   (r \<in> set rows \<and> key r \<noteq> k) \<or> (\<exists>r0 \<in> set rows. key r0 = k \<and> r = f r0)"
  by (auto simp: upd_row_def)

lemma length_upd_row [row_simps, simp]: "length (upd_row key k f rows) = length rows"
  by (simp add: upd_row_def)

lemma sum_by_upd_row:
  assumes "distinct (map key rows)" and "r \<in> set rows" and "key r = k"
  shows "sum_by g (upd_row key k f rows) = sum_by g rows - g r + g (f r)"
proof -
  have noop: "k \<notin> key ` set rows' \<Longrightarrow> upd_row key k f rows' = rows'" for rows'
    by (induction rows') (auto simp: upd_row_def)
  show ?thesis using assms
  proof (induction rows)
    case (Cons a rows)
    show ?case
    proof (cases "key a = k")
      case True
      then have "a = r" using Cons.prems by (auto simp: image_iff)
      moreover have "upd_row key k f rows = rows"
        using Cons.prems(1) True by (intro noop) auto
      ultimately show ?thesis using True by (simp add: upd_row_def)
    next
      case False
      then show ?thesis using Cons by (auto simp: upd_row_def)
    qed
  qed simp
qed

end
