(* ===== verification/JsDate.thy ===== *)
theory JsDate
  imports Prelude
begin

text \<open>
  The part of the ECMAScript \<open>Date\<close> the calendars use.  A \<open>Date\<close> is a time
  value: \<open>Some t\<close>, \<open>t\<close> milliseconds since the epoch with
  \<open>abs t \<le> 8.64e15\<close>, or \<open>None\<close>, an Invalid Date.  \<open>day_from_year\<close>, \<open>make_day\<close> and
  \<open>js_utc\<close> follow the clauses of the specification (month overflow, day
  overflow, TimeClip, the two-digit years of \<open>Date.UTC\<close>); \<open>year_of_day\<close>,
  \<open>month_of_day\<close> and \<open>date_of_day\<close> are the getters' calendar arithmetic.  The
  lemmas show that the getters invert \<open>make_day\<close> and give day arithmetic as
  plain arithmetic on time values.
\<close>

type_synonym js_date = "time option"

datatype range_error = RangeError string

abbreviation ms_per_day :: int where "ms_per_day \<equiv> 86400000"

definition time_clip :: "int \<Rightarrow> js_date" where
  "time_clip t = (if \<bar>t\<bar> \<le> 8640000000000000 then Some t else None)"

definition is_leap :: "int \<Rightarrow> bool" where
  "is_leap y = (y mod 4 = 0 \<and> (y mod 100 \<noteq> 0 \<or> y mod 400 = 0))"

definition day_from_year :: "int \<Rightarrow> int" where
  "day_from_year y =
     365 * (y - 1970) + (y - 1969) div 4 - (y - 1901) div 100 + (y - 1601) div 400"

definition year_of_day :: "int \<Rightarrow> int" where
  "year_of_day d =
     (let y = 1970 + (400 * d) div 146097 in
      if d < day_from_year y then y - 1
      else if day_from_year (y + 1) \<le> d then y + 1
      else y)"

definition days_in_month :: "bool \<Rightarrow> int \<Rightarrow> int" where
  "days_in_month leap m =
     (if m = 1 then (if leap then 29 else 28)
      else if m = 3 \<or> m = 5 \<or> m = 8 \<or> m = 10 then 30 else 31)"

definition month_offset :: "bool \<Rightarrow> int \<Rightarrow> int" where
  "month_offset leap m =
     (let b = (if leap then 1 else 0) in
      if m \<le> 0 then 0 else if m = 1 then 31 else if m = 2 then 59 + b
      else if m = 3 then 90 + b else if m = 4 then 120 + b
      else if m = 5 then 151 + b else if m = 6 then 181 + b
      else if m = 7 then 212 + b else if m = 8 then 243 + b
      else if m = 9 then 273 + b else if m = 10 then 304 + b
      else 334 + b)"

definition month_in_year :: "bool \<Rightarrow> int \<Rightarrow> int" where
  "month_in_year leap yd =
     (if yd < month_offset leap 1 then 0 else if yd < month_offset leap 2 then 1
      else if yd < month_offset leap 3 then 2 else if yd < month_offset leap 4 then 3
      else if yd < month_offset leap 5 then 4 else if yd < month_offset leap 6 then 5
      else if yd < month_offset leap 7 then 6 else if yd < month_offset leap 8 then 7
      else if yd < month_offset leap 9 then 8 else if yd < month_offset leap 10 then 9
      else if yd < month_offset leap 11 then 10 else 11)"

definition month_of_day :: "int \<Rightarrow> int" where
  "month_of_day d =
     (let y = year_of_day d in month_in_year (is_leap y) (d - day_from_year y))"

definition date_of_day :: "int \<Rightarrow> int" where
  "date_of_day d =
     (let y = year_of_day d in
      d - day_from_year y - month_offset (is_leap y) (month_of_day d) + 1)"

text \<open>MakeDay: the month overflows into the year, the date is added at the end.\<close>

definition make_day :: "int \<Rightarrow> int \<Rightarrow> int \<Rightarrow> int" where
  "make_day y m dt =
     (let ym = y + m div 12; mn = m mod 12 in
      day_from_year ym + month_offset (is_leap ym) mn + dt - 1)"

definition make_time :: "int \<Rightarrow> int \<Rightarrow> int \<Rightarrow> int \<Rightarrow> int" where
  "make_time h mi s ms = h * 3600000 + mi * 60000 + s * 1000 + ms"

text \<open>\<open>Date.UTC\<close> reads the years 0 to 99 as 1900 to 1999.\<close>

definition full_year :: "int \<Rightarrow> int" where
  "full_year y = (if 0 \<le> y \<and> y \<le> 99 then 1900 + y else y)"

definition js_utc :: "int \<Rightarrow> int \<Rightarrow> int \<Rightarrow> int \<Rightarrow> int \<Rightarrow> int \<Rightarrow> int \<Rightarrow> js_date" where
  "js_utc y m dt h mi s ms =
     time_clip (make_day (full_year y) m dt * ms_per_day + make_time h mi s ms)"

definition js_utc_date :: "int \<Rightarrow> int \<Rightarrow> int \<Rightarrow> js_date" where
  "js_utc_date y m dt = js_utc y m dt 0 0 0 0"

definition utc_year :: "time \<Rightarrow> int" where
  "utc_year t = year_of_day (t div ms_per_day)"

definition utc_month :: "time \<Rightarrow> int" where
  "utc_month t = month_of_day (t div ms_per_day)"

definition utc_date :: "time \<Rightarrow> int" where
  "utc_date t = date_of_day (t div ms_per_day)"

definition utc_hours :: "time \<Rightarrow> int" where
  "utc_hours t = (t div 3600000) mod 24"

definition utc_minutes :: "time \<Rightarrow> int" where
  "utc_minutes t = (t div 60000) mod 60"

definition utc_seconds :: "time \<Rightarrow> int" where
  "utc_seconds t = (t div 1000) mod 60"

definition utc_millis :: "time \<Rightarrow> int" where
  "utc_millis t = t mod 1000"

definition set_utc_date :: "time \<Rightarrow> int \<Rightarrow> js_date" where
  "set_utc_date t dt =
     time_clip (make_day (utc_year t) (utc_month t) dt * ms_per_day + t mod ms_per_day)"

section \<open>Years\<close>

lemma int_div_step:
  fixes x n :: int
  assumes n: "0 < n"
  shows "(x + 1) div n = x div n + (if (x + 1) mod n = 0 then 1 else 0)"
proof -
  have bnd: "0 \<le> x mod n" "x mod n < n" using n by simp_all
  have split_x: "x + 1 = (x mod n + 1) + n * (x div n)" by simp
  show ?thesis
  proof (cases "x mod n + 1 = n")
    case True
    then have "x + 1 = n * (x div n + 1)" using split_x by (simp add: algebra_simps)
    then show ?thesis using n by simp
  next
    case False
    then have "(x mod n + 1) div n = 0" "(x mod n + 1) mod n = x mod n + 1"
      using bnd by (auto intro: div_pos_pos_trivial mod_pos_pos_trivial)
    then have "(x + 1) div n = x div n" "(x + 1) mod n = x mod n + 1"
      using split_x n
      by (metis add.commute add.right_neutral div_mult_self2 less_irrefl mult.commute,
          metis mod_mult_self2 split_x)
    then show ?thesis using bnd by simp
  qed
qed

lemma day_from_year_step: "day_from_year (y + 1) = day_from_year y + (if is_leap y then 366 else 365)"
proof -
  have a: "(y - 1968) mod 4 = 0 \<longleftrightarrow> y mod 4 = 0"
    using mod_mult_self1 [of "y - 1968" 492 4] by simp
  have b: "(y - 1900) mod 100 = 0 \<longleftrightarrow> y mod 100 = 0"
    using mod_mult_self1 [of "y - 1900" 19 100] by simp
  have c: "(y - 1600) mod 400 = 0 \<longleftrightarrow> y mod 400 = 0"
    using mod_mult_self1 [of "y - 1600" 4 400] by simp
  have m400: "y mod 400 mod 100 = y mod 100" and m100: "y mod 100 mod 4 = y mod 4"
    by (rule mod_mod_cancel, simp)+
  have d: "y mod 400 = 0 \<Longrightarrow> y mod 100 = 0" "y mod 100 = 0 \<Longrightarrow> y mod 4 = 0"
    by (metis m400 mod_0) (metis m100 mod_0)
  have s4: "(y - 1968) div 4 = (y - 1969) div 4 + (if y mod 4 = 0 then 1 else 0)"
    using int_div_step [of 4 "y - 1969"] a by simp
  have s100: "(y - 1900) div 100 = (y - 1901) div 100 + (if y mod 100 = 0 then 1 else 0)"
    using int_div_step [of 100 "y - 1901"] b by simp
  have s400: "(y - 1600) div 400 = (y - 1601) div 400 + (if y mod 400 = 0 then 1 else 0)"
    using int_div_step [of 400 "y - 1601"] c by simp
  have aux: "\<lbrakk>p400 \<Longrightarrow> p100; p100 \<Longrightarrow> p4\<rbrakk> \<Longrightarrow>
      x + (i + (if p4 then 1 else 0)) - (j + (if p100 then 1 else 0)) + (k + (if p400 then 1 else 0))
      = x - 365 + i - j + k + (if p4 \<and> (\<not> p100 \<or> p400) then 366 else 365)"
    for p4 p100 p400 and x i j k :: int
    by (cases p4; cases p100; cases p400) simp_all
  have e: "day_from_year (y + 1) =
      365 * (y - 1969) + (y - 1968) div 4 - (y - 1900) div 100 + (y - 1600) div 400"
    by (simp add: day_from_year_def)
  show ?thesis
    unfolding e unfolding day_from_year_def is_leap_def s4 s100 s400
    using aux [OF d, where x = "365 * (y - 1969)"] by simp
qed

lemma day_from_year_less: "y < z \<Longrightarrow> day_from_year y + 365 \<le> day_from_year z"
proof (induction z rule: int_gr_induct)
  case base
  then show ?case by (simp add: day_from_year_step)
next
  case (step i)
  then show ?case using day_from_year_step [of i] by (auto split: if_splits)
qed

lemma day_from_year_mono: "y \<le> z \<Longrightarrow> day_from_year y \<le> day_from_year z"
  using day_from_year_less [of y z] by (cases "y = z") auto

lemma year_of_day_bounds:
  "day_from_year (year_of_day d) \<le> d \<and> d < day_from_year (year_of_day d + 1)"
proof -
  define q r where "q = 400 * d div 146097" and "r = 400 * d mod 146097"
  define y where "y = 1970 + q"
  have qr: "q * 146097 + r = 400 * d" "0 \<le> r" "r < 146097"
    by (simp_all add: q_def r_def)
  have y1: "146097 * (y - 1970) \<le> 400 * d" and y2: "400 * d < 146097 * (y - 1970) + 146097"
    using qr by (simp_all add: y_def)
  have dm: "4 * (x div 4) \<le> x \<and> x \<le> 4 * (x div 4) + 3"
    "100 * (x div 100) \<le> x \<and> x \<le> 100 * (x div 100) + 99"
    "400 * (x div 400) \<le> x \<and> x \<le> 400 * (x div 400) + 399" for x :: int
    by auto
  have lin: "146097 * (z - 1970) - 508 \<le> 400 * day_from_year z
     \<and> 400 * day_from_year z \<le> 146097 * (z - 1970) + 592" for z
  proof -
    define i j k where "i = (z - 1969) div 4" and "j = (z - 1901) div 100"
      and "k = (z - 1601) div 400"
    have "day_from_year z = 365 * (z - 1970) + i - j + k"
      by (simp add: day_from_year_def i_def j_def k_def)
    moreover note dm(1) [of "z - 1969", folded i_def] dm(2) [of "z - 1901", folded j_def]
      dm(3) [of "z - 1601", folded k_def]
    ultimately show ?thesis by auto
  qed
  have lo: "day_from_year (y - 1) \<le> d" using lin [of "y - 1"] y1 y2 by auto
  have hi: "d < day_from_year (y + 2)" using lin [of "y + 2"] y1 y2 by auto
  show ?thesis
    using lo hi
    by (auto simp: year_of_day_def Let_def q_def [symmetric] y_def add.commute)
qed

lemma year_of_day_unique:
  assumes "day_from_year y \<le> d" and "d < day_from_year (y + 1)"
  shows "year_of_day d = y"
proof -
  have "\<not> year_of_day d < y"
    using day_from_year_mono [of "year_of_day d + 1" y] year_of_day_bounds [of d] assms by auto
  moreover have "\<not> y < year_of_day d"
    using day_from_year_mono [of "y + 1" "year_of_day d"] year_of_day_bounds [of d] assms by auto
  ultimately show ?thesis by simp
qed

section \<open>Months and dates\<close>

lemma month_cases:
  fixes m :: int
  assumes "0 \<le> m" and "m \<le> 11"
  obtains "m = 0" | "m = 1" | "m = 2" | "m = 3" | "m = 4" | "m = 5" | "m = 6"
    | "m = 7" | "m = 8" | "m = 9" | "m = 10" | "m = 11"
proof -
  have "m \<in> set [0 .. 11]" using assms by simp
  also have "[0 .. 11] = [0, 1, 2, 3, 4, 5, 6, 7, 8, 9, 10, 11 :: int]" by code_simp
  finally show thesis using that by auto
qed

lemma days_in_month_bounds: "28 \<le> days_in_month l m \<and> days_in_month l m \<le> 31"
  by (simp add: days_in_month_def)

lemma month_offset_step:
  assumes "0 \<le> m" and "m \<le> 10"
  shows "month_offset l (m + 1) = month_offset l m + days_in_month l m"
proof -
  have "m \<le> 11" using assms by simp
  with assms(1) show ?thesis
    by (rule month_cases) (use assms in \<open>simp_all add: month_offset_def days_in_month_def\<close>)
qed

lemma month_offset_end:
  "month_offset l 11 + days_in_month l 11 = (if l then 366 else 365)"
  by (simp add: month_offset_def days_in_month_def)

lemma month_in_year_inverse:
  assumes "0 \<le> m" and "m \<le> 11" and "1 \<le> dt" and "dt \<le> days_in_month l m"
  shows "month_in_year l (month_offset l m + dt - 1) = m"
  using assms(1,2)
  by (rule month_cases)
     (use assms in \<open>simp_all add: month_in_year_def month_offset_def days_in_month_def
       split: if_splits\<close>)

lemma month_in_year_bounds:
  assumes "0 \<le> yd" and "yd < (if l then 366 else 365)"
  shows "0 \<le> month_in_year l yd" and "month_in_year l yd \<le> 11"
    and "month_offset l (month_in_year l yd) \<le> yd"
    and "yd < month_offset l (month_in_year l yd) + days_in_month l (month_in_year l yd)"
  using assms
  by (cases l; simp add: month_in_year_def month_offset_def days_in_month_def)+

text \<open>A year, a month and a date in the month, as the getters return them.\<close>

definition valid_ymd :: "int \<Rightarrow> int \<Rightarrow> int \<Rightarrow> bool" where
  "valid_ymd y m dt = (0 \<le> m \<and> m \<le> 11 \<and> 1 \<le> dt \<and> dt \<le> days_in_month (is_leap y) m)"

lemma make_day_in_year:
  assumes "0 \<le> m" and "m \<le> 11"
  shows "make_day y m dt = day_from_year y + month_offset (is_leap y) m + dt - 1"
  using assms by (simp add: make_day_def)

lemma make_day_date: "make_day y m (dt + k) = make_day y m dt + k"
  by (simp add: make_day_def Let_def)

lemma make_day_year_bounds:
  assumes "valid_ymd y m dt"
  shows "day_from_year y \<le> make_day y m dt" and "make_day y m dt < day_from_year (y + 1)"
proof -
  have m: "0 \<le> m" "m \<le> 11" and dt: "1 \<le> dt" "dt \<le> days_in_month (is_leap y) m"
    using assms by (auto simp: valid_ymd_def)
  have "0 \<le> month_offset (is_leap y) m"
    by (simp add: month_offset_def)
  moreover have "month_offset (is_leap y) m + days_in_month (is_leap y) m
      \<le> (if is_leap y then 366 else 365)"
    using m by (rule month_cases) (simp_all add: month_offset_def days_in_month_def)
  ultimately show "day_from_year y \<le> make_day y m dt" "make_day y m dt < day_from_year (y + 1)"
    using dt m by (auto simp: make_day_in_year day_from_year_step split: if_splits)
qed

lemma make_day_inverse:
  assumes "valid_ymd y m dt"
  shows "year_of_day (make_day y m dt) = y" and "month_of_day (make_day y m dt) = m"
    and "date_of_day (make_day y m dt) = dt"
proof -
  show y: "year_of_day (make_day y m dt) = y"
    using make_day_year_bounds [OF assms] by (rule year_of_day_unique)
  have m: "0 \<le> m" "m \<le> 11" "1 \<le> dt" "dt \<le> days_in_month (is_leap y) m"
    using assms by (auto simp: valid_ymd_def)
  show mo: "month_of_day (make_day y m dt) = m"
    using month_in_year_inverse [OF m] m(1,2)
    unfolding month_of_day_def Let_def y by (simp add: make_day_in_year algebra_simps)
  show "date_of_day (make_day y m dt) = dt"
    using m(1,2) unfolding date_of_day_def Let_def y mo by (simp add: make_day_in_year)
qed

lemma day_fields:
  "valid_ymd (year_of_day d) (month_of_day d) (date_of_day d)"
  "make_day (year_of_day d) (month_of_day d) (date_of_day d) = d"
proof -
  define y where "y = year_of_day d"
  have b: "0 \<le> d - day_from_year y" "d - day_from_year y < (if is_leap y then 366 else 365)"
    using year_of_day_bounds [of d] day_from_year_step [of y] by (auto simp: y_def)
  note mb = month_in_year_bounds [OF b]
  show "valid_ymd (year_of_day d) (month_of_day d) (date_of_day d)"
    using mb by (simp add: valid_ymd_def date_of_day_def month_of_day_def Let_def y_def [symmetric])
  show "make_day (year_of_day d) (month_of_day d) (date_of_day d) = d"
    using mb(1,2)
    by (simp add: make_day_in_year date_of_day_def month_of_day_def Let_def y_def [symmetric])
qed

section \<open>Months counted from year 0\<close>

definition month_start :: "int \<Rightarrow> int" where
  "month_start k = make_day 0 k 1"

definition month_len :: "int \<Rightarrow> int" where
  "month_len k = days_in_month (is_leap (k div 12)) (k mod 12)"

definition clamped_day :: "int \<Rightarrow> int \<Rightarrow> int" where
  "clamped_day k dt = month_start k + min dt (month_len k) - 1"

lemma make_day_month_start: "make_day y m dt = month_start (12 * y + m) + dt - 1"
  by (simp add: month_start_def make_day_def Let_def)

lemma month_len_bounds: "28 \<le> month_len k \<and> month_len k \<le> 31"
  by (simp add: month_len_def days_in_month_bounds)

lemma month_start_parts:
  "0 \<le> m \<Longrightarrow> m \<le> 11 \<Longrightarrow>
   month_start (12 * q + m) = day_from_year q + month_offset (is_leap q) m"
  by (simp add: month_start_def make_day_def)

lemma month_len_parts:
  "0 \<le> m \<Longrightarrow> m \<le> 11 \<Longrightarrow> month_len (12 * q + m) = days_in_month (is_leap q) m"
  by (simp add: month_len_def)

lemma month_start_step: "month_start (k + 1) = month_start k + month_len k"
proof -
  define q m where "q = k div 12" and "m = k mod 12"
  have k: "k = 12 * q + m" by (simp add: q_def m_def)
  have m: "0 \<le> m" "m \<le> 11" using pos_mod_bound [of 12 k] by (simp_all add: m_def)
  show ?thesis
  proof (cases "m = 11")
    case True
    have "k + 1 = 12 * (q + 1) + 0" using k True by simp
    then have "month_start (k + 1) = day_from_year (q + 1) + month_offset (is_leap (q + 1)) 0"
      using month_start_parts [of 0 "q + 1"] by (simp add: add.commute)
    moreover have "month_start k = day_from_year q + month_offset (is_leap q) 11"
      "month_len k = days_in_month (is_leap q) 11"
      using month_start_parts [of 11 q] month_len_parts [of 11 q] k True by simp_all
    ultimately show ?thesis
      using month_offset_end [of "is_leap q"] day_from_year_step [of q]
      by (simp add: month_offset_def)
  next
    case False
    then have "month_start (12 * q + (m + 1)) = day_from_year q + month_offset (is_leap q) (m + 1)"
      using m by (intro month_start_parts) auto
    then show ?thesis
      using month_offset_step [of m "is_leap q"] m False month_start_parts [of m q]
        month_len_parts [of m q] by (simp add: k add.assoc)
  qed
qed

lemma month_start_bounds:
  "j \<le> k \<Longrightarrow> month_start j + 28 * (k - j) \<le> month_start k
    \<and> month_start k \<le> month_start j + 31 * (k - j)"
proof (induction k rule: int_ge_induct)
  case (step i)
  then show ?case using month_start_step [of i] month_len_bounds [of i] by auto
qed simp

lemma clamped_day_step:
  assumes "1 \<le> dt" and "dt \<le> 31"
  shows "clamped_day k dt + 28 \<le> clamped_day (k + 1) dt"
    and "clamped_day (k + 1) dt \<le> clamped_day k dt + 31"
  using month_start_step [of k] month_len_bounds [of k] month_len_bounds [of "k + 1"] assms
  by (auto simp: clamped_day_def)

lemma month_start_fields:
  assumes "1 \<le> dt" and "dt \<le> month_len k"
  shows "year_of_day (month_start k + dt - 1) = k div 12"
    and "month_of_day (month_start k + dt - 1) = k mod 12"
    and "date_of_day (month_start k + dt - 1) = dt"
proof -
  have "valid_ymd (k div 12) (k mod 12) dt"
    using assms by (auto simp: valid_ymd_def month_len_def)
  moreover have "month_start k + dt - 1 = make_day (k div 12) (k mod 12) dt"
    by (simp add: make_day_month_start)
  ultimately show "year_of_day (month_start k + dt - 1) = k div 12"
    and "month_of_day (month_start k + dt - 1) = k mod 12"
    and "date_of_day (month_start k + dt - 1) = dt"
    using make_day_inverse by simp_all
qed

definition month_index :: "int \<Rightarrow> int" where
  "month_index d = 12 * year_of_day d + month_of_day d"

lemma month_index_split:
  "month_index d div 12 = year_of_day d" "month_index d mod 12 = month_of_day d"
  using day_fields(1) [of d] by (auto simp: month_index_def valid_ymd_def)

lemma date_of_day_bounds: "1 \<le> date_of_day d" "date_of_day d \<le> month_len (month_index d)"
  "date_of_day d \<le> 31"
  using day_fields(1) [of d] month_len_bounds [of "month_index d"]
  by (auto simp: valid_ymd_def month_len_def month_index_split)

lemma clamped_day_self: "clamped_day (month_index d) (date_of_day d) = d"
  using day_fields(2) [of d] date_of_day_bounds [of d]
  by (simp add: clamped_day_def make_day_month_start month_index_def min_def)

lemma clamped_day_fields:
  assumes "1 \<le> dt"
  shows "year_of_day (clamped_day k dt) = k div 12" and "month_of_day (clamped_day k dt) = k mod 12"
    and "date_of_day (clamped_day k dt) = min dt (month_len k)"
  using month_start_fields [of "min dt (month_len k)" k] month_len_bounds [of k] assms
  by (simp_all add: clamped_day_def)

section \<open>Time values of days\<close>

text \<open>
  \<open>ok_month k\<close>: the month \<open>k\<close> lies in the years 100 to 200000, where neither
  TimeClip nor the two-digit years of \<open>Date.UTC\<close> interfere.
\<close>

definition ok_month :: "int \<Rightarrow> bool" where
  "ok_month k = (1200 \<le> k \<and> k \<le> 2400011)"

lemma month_start_range:
  assumes "ok_month k"
  shows "- 700000 \<le> month_start k" and "month_start k \<le> 80000000"
proof -
  have "month_start 1200 = -683003" by code_simp
  then show "- 700000 \<le> month_start k" "month_start k \<le> 80000000"
    using month_start_bounds [of 1200 k] assms by (auto simp: ok_month_def)
qed

lemma js_utc_ok:
  assumes "ok_month (12 * y + m)" and "100 \<le> y" and "0 \<le> dt" and "dt \<le> 1000"
    and "- 100 \<le> h" and "h \<le> 100" and "0 \<le> mi" and "mi \<le> 59"
    and "0 \<le> sec" and "sec \<le> 59" and "0 \<le> ms" and "ms \<le> 999"
  shows "js_utc y m dt h mi sec ms =
    Some ((month_start (12 * y + m) + dt - 1) * ms_per_day + make_time h mi sec ms)"
  using month_start_range [OF assms(1)] assms
  by (simp add: js_utc_def full_year_def time_clip_def make_day_month_start make_time_def)

lemma js_utc_date_ok:
  assumes "ok_month (12 * y + m)" and "100 \<le> y" and "0 \<le> dt" and "dt \<le> 1000"
  shows "js_utc_date y m dt = Some ((month_start (12 * y + m) + dt - 1) * ms_per_day)"
  using js_utc_ok [OF assms, of 0 0 0 0] by (simp add: js_utc_date_def make_time_def)

lemma set_utc_date_shift:
  "set_utc_date t (utc_date t + k) = time_clip (t + k * ms_per_day)"
proof -
  have "make_day (utc_year t) (utc_month t) (utc_date t + k) = t div ms_per_day + k"
    using day_fields(2) [of "t div ms_per_day"]
    by (simp add: make_day_date utc_year_def utc_month_def utc_date_def)
  then show ?thesis by (simp add: set_utc_date_def algebra_simps)
qed

lemma time_clip_day:
  "\<bar>d\<bar> \<le> 100000000 \<Longrightarrow> time_clip (d * ms_per_day) = Some (d * ms_per_day)"
  by (simp add: time_clip_def abs_mult)

lemma utc_of_day [date_simps]:
  "utc_year (d * ms_per_day) = year_of_day d"
  "utc_month (d * ms_per_day) = month_of_day d"
  "utc_date (d * ms_per_day) = date_of_day d"
  by (simp_all add: utc_year_def utc_month_def utc_date_def)

section \<open>ISO date strings\<close>

definition digit :: "int \<Rightarrow> char" where
  "digit n = char_of (48 + nat (n mod 10))"

fun digits :: "nat \<Rightarrow> int \<Rightarrow> string" where
  "digits 0 n = []"
| "digits (Suc k) n = digits k (n div 10) @ [digit n]"

text \<open>The first ten characters of \<open>toISOString()\<close>; years outside 0..9999 are expanded.\<close>

definition iso_date :: "time \<Rightarrow> string" where
  "iso_date t =
     (let y = utc_year t; mo = utc_month t + 1; dt = utc_date t in
      if 0 \<le> y \<and> y \<le> 9999
      then digits 4 y @ ''-'' @ digits 2 mo @ ''-'' @ digits 2 dt
      else (if y < 0 then ''-'' else ''+'') @ digits 6 \<bar>y\<bar> @ ''-'' @ digits 2 mo)"

lemma digits_inj:
  "0 \<le> m \<Longrightarrow> m < 10 ^ k \<Longrightarrow> 0 \<le> n \<Longrightarrow> n < 10 ^ k \<Longrightarrow> digits k m = digits k n \<Longrightarrow> m = n"
proof (induction k arbitrary: m n)
  case (Suc k)
  have "m div 10 = n div 10"
    using Suc.prems by (intro Suc.IH) (auto simp: div_less_iff_less_mult)
  moreover have "m mod 10 = n mod 10"
  proof -
    have "(of_char (digit m) :: nat) = of_char (digit n)" using Suc.prems by simp
    moreover have "(of_char (digit x) :: nat) = 48 + nat (x mod 10)" for x
      using pos_mod_bound [of 10 x] pos_mod_sign [of 10 x]
      by (simp add: digit_def)
    ultimately show ?thesis by simp
  qed
  ultimately show ?case by (metis div_mult_mod_eq)
qed simp

lemma length_digits [simp]: "length (digits k n) = k"
  by (induction k arbitrary: n) auto

lemma iso_date_inj:
  assumes "0 \<le> utc_year s" "utc_year s \<le> 9999" "0 \<le> utc_year t" "utc_year t \<le> 9999"
    and eq: "iso_date s = iso_date t"
  shows "s div ms_per_day = t div ms_per_day"
proof -
  note f = day_fields(1) [of "s div ms_per_day"] day_fields(1) [of "t div ms_per_day"]
    date_of_day_bounds [of "s div ms_per_day"] date_of_day_bounds [of "t div ms_per_day"]
  have parts: "digits 4 (utc_year s) = digits 4 (utc_year t)"
    "digits 2 (utc_month s + 1) = digits 2 (utc_month t + 1)"
    "digits 2 (utc_date s) = digits 2 (utc_date t)"
    using eq assms(1-4) by (auto simp: iso_date_def Let_def)
  have "utc_year s = utc_year t"
    using parts(1) assms(1-4) by (intro digits_inj [of _ 4]) auto
  moreover have "utc_month s + 1 = utc_month t + 1"
    using parts(2) f by (intro digits_inj [of _ 2]) (auto simp: valid_ymd_def utc_month_def)
  moreover have "utc_date s = utc_date t"
    using parts(3) f by (intro digits_inj [of _ 2]) (auto simp: utc_date_def)
  ultimately show ?thesis
    using day_fields(2) by (metis add_right_cancel utc_date_def utc_month_def utc_year_def)
qed

end
