(* ===== verification/Interfaces.thy ===== *)
theory Interfaces
  imports Prelude
begin

text \<open>
  The contracts several components share, as locales: a calendar of adjoining
  periods (\<open>cycle_calendar\<close>), a status machine with absorbing terminal states
  (\<open>status_machine\<close>) and one whose every transition lowers a rank
  (\<open>ranked_machine\<close>), and a state whose operations may fail and keep an
  invariant (\<open>guarded_ops\<close>).  Each is interpreted in the theories of the
  components that provide it.
\<close>

section \<open>Adjoining periods\<close>

locale cycle_calendar =
  fixes start :: "nat \<Rightarrow> int"
  assumes start_step: "start n < start (Suc n)"
begin

lemma start_mono_add: "start n + int k \<le> start (n + k)"
proof (induction k)
  case (Suc k)
  then show ?case using start_step [of "n + k"] by simp
qed simp

lemma start_less: "m < n \<Longrightarrow> start m < start n"
  using start_mono_add [of m "n - m"] by simp

lemma start_le: "m \<le> n \<Longrightarrow> start m \<le> start n"
  using start_less [of m n] by (cases "m = n") auto

lemma start_inject: "start m = start n \<Longrightarrow> m = n"
  by (metis less_irrefl nat_neq_iff start_less)

lemma covering_unique:
  assumes "start m \<le> x" "x < start (Suc m)" "start n \<le> x" "x < start (Suc n)"
  shows "m = n"
proof (rule ccontr)
  assume "m \<noteq> n"
  then have "Suc m \<le> n \<or> Suc n \<le> m" by auto
  then show False using start_le [of "Suc m" n] start_le [of "Suc n" m] assms by auto
qed

lemma covering_exists:
  assumes "start 0 \<le> x"
  shows "\<exists>n. start n \<le> x \<and> x < start (Suc n)"
proof -
  have "x < start (Suc (nat (x - start 0)))"
    using start_mono_add [of 0 "Suc (nat (x - start 0))"] assms by simp
  then have ex: "\<exists>n. x < start (Suc n)" by blast
  define n where "n = (LEAST n. x < start (Suc n))"
  have "x < start (Suc n)" using ex unfolding n_def by (rule LeastI_ex)
  moreover have "start n \<le> x"
  proof (cases n)
    case (Suc j)
    then have "\<not> x < start (Suc j)" using not_less_Least [of j "\<lambda>n. x < start (Suc n)"]
      by (simp add: n_def)
    then show ?thesis using Suc by simp
  qed (use assms in simp)
  ultimately show ?thesis by blast
qed

lemma covering_ex1: "start 0 \<le> x \<Longrightarrow> \<exists>!n. start n \<le> x \<and> x < start (Suc n)"
  using covering_exists covering_unique by blast

end

section \<open>Status machines\<close>

locale status_machine =
  fixes step :: "'s \<Rightarrow> 's \<Rightarrow> bool" and terminal :: "'s \<Rightarrow> bool"
  assumes terminal_step: "terminal s \<Longrightarrow> \<not> step s t"
begin

lemma terminal_absorbing:
  assumes "step\<^sup>*\<^sup>* s t" and "terminal s"
  shows "t = s"
  using assms by (induction rule: rtranclp_induct) (auto simp: terminal_step)

end

locale ranked_machine = status_machine +
  fixes rank :: "'s \<Rightarrow> nat"
  assumes rank_step: "step s t \<Longrightarrow> rank t < rank s"
begin

lemma rank_run: "step\<^sup>*\<^sup>* s t \<Longrightarrow> rank t \<le> rank s"
  by (induction rule: rtranclp_induct) (auto dest: rank_step)

lemma run_antisym: "step\<^sup>*\<^sup>* s t \<Longrightarrow> step\<^sup>*\<^sup>* t s \<Longrightarrow> s = t"
  by (metis leD rank_run rank_step rtranclp.cases order_trans converse_rtranclpE)

lemma run_length: "(step ^^ n) s t \<Longrightarrow> rank t + n \<le> rank s"
proof (induction n arbitrary: t)
  case (Suc n)
  then obtain u where "(step ^^ n) s u" "step u t" by auto
  then show ?case using Suc.IH [of u] rank_step [of u t] by simp
qed simp

lemma no_infinite_run: "\<not> (\<forall>i. step (f i) (f (Suc i)))"
proof
  assume run: "\<forall>i. step (f i) (f (Suc i))"
  have "rank (f n) + n \<le> rank (f 0)" for n
  proof (induction n)
    case (Suc n)
    then show ?case using rank_step [of "f n" "f (Suc n)"] run by fastforce
  qed simp
  from this [of "Suc (rank (f 0))"] show False by simp
qed

end

section \<open>Operations that keep an invariant\<close>

locale guarded_ops =
  fixes apply_op :: "'op \<Rightarrow> 's \<Rightarrow> ('e, 's) result" and inv :: "'s \<Rightarrow> bool"
  assumes op_inv: "inv s \<Longrightarrow> apply_op c s = Inr s' \<Longrightarrow> inv s'"
begin

text \<open>A transaction that throws is rolled back: the state stays.\<close>

definition commit :: "'op \<Rightarrow> 's \<Rightarrow> 's" where
  "commit c s = (case apply_op c s of Inl e \<Rightarrow> s | Inr s' \<Rightarrow> s')"

definition run :: "'op list \<Rightarrow> 's \<Rightarrow> 's" where
  "run cs s = fold commit cs s"

lemma commit_inv: "inv s \<Longrightarrow> inv (commit c s)"
  by (auto simp: commit_def op_inv split: sum.splits)

lemma run_inv: "inv s \<Longrightarrow> inv (run cs s)"
  unfolding run_def by (induction cs arbitrary: s) (auto simp: commit_inv)

end

section \<open>A queue of leased jobs\<close>

text \<open>
  \<open>holds q j t\<close>: job \<open>j\<close> is being processed under the lease token \<open>t\<close>.  A claim
  hands out jobs under a token; a settlement (complete, reschedule, defer, dead
  letter) reports whether it took effect.
\<close>

locale leased_queue =
  fixes okq :: "'q \<Rightarrow> bool"
    and holds :: "'q \<Rightarrow> 'j \<Rightarrow> 't \<Rightarrow> bool"
    and settle :: "'o \<Rightarrow> 'j \<Rightarrow> 't \<Rightarrow> 'q \<Rightarrow> bool \<times> 'q"
    and claim :: "'c \<Rightarrow> 't \<Rightarrow> 'q \<Rightarrow> 'j list \<times> 'q"
  assumes settle_ok: "okq q \<Longrightarrow> okq (snd (settle a j t q))"
    and claim_ok: "okq q \<Longrightarrow> okq (snd (claim c t q))"
    and holds_unique: "okq q \<Longrightarrow> holds q j t \<Longrightarrow> holds q j t' \<Longrightarrow> t = t'"
    and settle_effect: "okq q \<Longrightarrow> fst (settle a j t q) \<longleftrightarrow> holds q j t"
    and settle_stale: "okq q \<Longrightarrow> \<not> holds q j t \<Longrightarrow> snd (settle a j t q) = q"
    and settle_releases: "okq q \<Longrightarrow> holds q j t \<Longrightarrow> \<not> holds (snd (settle a j t q)) j t'"
    and settle_frame: "okq q \<Longrightarrow> i \<noteq> j \<Longrightarrow> holds (snd (settle a j t q)) i t' \<longleftrightarrow> holds q i t'"
    and claim_holds: "okq q \<Longrightarrow> j \<in> set (fst (claim c t q)) \<Longrightarrow> holds (snd (claim c t q)) j t"
    and claim_frame: "okq q \<Longrightarrow> j \<notin> set (fst (claim c t q)) \<Longrightarrow>
      holds (snd (claim c t q)) j t' \<longleftrightarrow> holds q j t'"
begin

text \<open>A lease is settled at most once, whoever tries the second time.\<close>

lemma settle_once:
  "okq q \<Longrightarrow> fst (settle a j t q) \<Longrightarrow> \<not> fst (settle b j t' (snd (settle a j t q)))"
  by (simp add: settle_effect settle_ok settle_releases)

text \<open>Once another worker has claimed the job, the old token has no effect any more.\<close>

lemma reclaim_fences:
  assumes "okq q" and "j \<in> set (fst (claim c t' q))" and "t \<noteq> t'"
  shows "settle a j t (snd (claim c t' q)) = (False, snd (claim c t' q))"
proof -
  have "\<not> holds (snd (claim c t' q)) j t"
    using claim_holds holds_unique claim_ok assms by blast
  then show ?thesis
    using settle_effect settle_stale claim_ok [OF assms(1)] by (metis prod.collapse)
qed

lemma unclaimed_stays:
  assumes "okq q" and "\<forall>t. \<not> holds q j t" and "j \<notin> set (fst (claim c t q))"
  shows "\<forall>t'. \<not> holds (snd (claim c t q)) j t'"
  using assms claim_frame by blast

end

end
