(* ===== verification/Calendars.thy ===== *)
theory Calendars
  imports JsDate Interfaces
begin

text \<open>
  The calendars of the API: \<open>billing-automation.calendar.ts\<close> (monthly rent
  cycles), \<open>subscription-performance-calendar.ts\<close> (the contract's own period),
  \<open>mileage-review.calendar.ts\<close> (mileage reviews), \<open>auto-debit.calendar.ts\<close> (the
  runs of a debit) and \<open>renewal-calendar.ts\<close>.  Dates are the time values of
  JsDate, a \<open>RangeError\<close> is the \<open>Inl\<close> of a result.  The lemmas reduce every
  calendar to \<open>clamped_day\<close> (a month counted from year 0 and a day of the
  month), which is strictly increasing in the month; the contract
  \<open>cycle_calendar\<close> then gives that the cycles adjoin and that each date has
  exactly one of them.
\<close>

section \<open>Billing cycles\<close>

definition safe_integer :: "int \<Rightarrow> bool" where
  "safe_integer v = (\<bar>v\<bar> \<le> 9007199254740991)"

abbreviation "china_offset_ms \<equiv> (28800000 :: int)"

record billing_cycle =
  bc_anchorDate :: js_date
  bc_cycleNo :: int
  bc_dueDate :: js_date
  bc_generateAt :: js_date
  bc_overdueAt :: js_date
  bc_periodEnd :: js_date
  bc_periodStart :: js_date

definition assertValidDate :: "js_date \<Rightarrow> (range_error, time) result" where
  "assertValidDate v = (case v of None \<Rightarrow> Inl (RangeError ''Billing automation date must be valid.'')
     | Some t \<Rightarrow> Inr t)"

definition assertPositiveCycleNo :: "int \<Rightarrow> (range_error, unit) result" where
  "assertPositiveCycleNo v = ensure (safe_integer v \<and> 0 < v)
     (RangeError ''Billing cycle number must be a positive integer.'')"

definition toBillingBusinessDate :: "js_date \<Rightarrow> (range_error, js_date) result" where
  "toBillingBusinessDate v =
     rbind (assertValidDate v) (\<lambda>t. Inr (case time_clip (t + china_offset_ms) of
        None \<Rightarrow> None
      | Some s \<Rightarrow> js_utc_date (utc_year s) (utc_month s) (utc_date s)))"

definition dateOnly :: "js_date \<Rightarrow> (range_error, js_date) result" where
  "dateOnly v = rbind (assertValidDate v)
     (\<lambda>t. Inr (js_utc_date (utc_year t) (utc_month t) (utc_date t)))"

definition addDays :: "js_date \<Rightarrow> int \<Rightarrow> (range_error, js_date) result" where
  "addDays v days = rbind (assertValidDate v)
     (\<lambda>t. Inr (set_utc_date t (utc_date t + days)))"

definition addMonthsClamped :: "js_date \<Rightarrow> int \<Rightarrow> js_date" where
  "addMonthsClamped v months = (case v of None \<Rightarrow> None | Some t \<Rightarrow>
     (case js_utc_date (utc_year t) (utc_month t + months) 1 of None \<Rightarrow> None | Some f \<Rightarrow>
       (let targetYear = utc_year f; targetMonth = utc_month f in
        (case js_utc_date targetYear (targetMonth + 1) 0 of None \<Rightarrow> None | Some l \<Rightarrow>
          js_utc_date targetYear targetMonth (min (utc_date t) (utc_date l))))))"

definition buildBillingCycle :: "js_date \<Rightarrow> int \<Rightarrow> (range_error, billing_cycle) result" where
  "buildBillingCycle anchorDate cycleNo =
     rbind (assertValidDate anchorDate) (\<lambda>_.
     rbind (assertPositiveCycleNo cycleNo) (\<lambda>_.
     rbind (dateOnly anchorDate) (\<lambda>normalizedAnchor.
     let periodStart = addMonthsClamped normalizedAnchor cycleNo in
     rbind (addDays (addMonthsClamped normalizedAnchor (cycleNo + 1)) (- 1)) (\<lambda>periodEnd.
     rbind (addDays periodStart (- 3)) (\<lambda>generateAt.
     rbind (addDays periodStart 5) (\<lambda>overdueAt.
     Inr \<lparr> bc_anchorDate = normalizedAnchor, bc_cycleNo = cycleNo, bc_dueDate = periodStart,
           bc_generateAt = generateAt, bc_overdueAt = overdueAt, bc_periodEnd = periodEnd,
           bc_periodStart = periodStart \<rparr>))))))"

definition buildBillingCycleForDelivery ::
    "js_date \<Rightarrow> int \<Rightarrow> (range_error, billing_cycle) result" where
  "buildBillingCycleForDelivery actualDeliveryAt cycleNo =
     rbind (toBillingBusinessDate actualDeliveryAt) (\<lambda>d. buildBillingCycle d cycleNo)"

definition buildInitialBillingCycle :: "js_date \<Rightarrow> (range_error, billing_cycle) result" where
  "buildInitialBillingCycle actualDeliveryAt = buildBillingCycleForDelivery actualDeliveryAt 1"

definition buildNextBillingCycle :: "billing_cycle \<Rightarrow> (range_error, billing_cycle) result" where
  "buildNextBillingCycle current =
     rbind (assertPositiveCycleNo (bc_cycleNo current)) (\<lambda>_.
       buildBillingCycle (bc_anchorDate current) (bc_cycleNo current + 1))"

definition dateKey :: "js_date \<Rightarrow> (range_error, string) result" where
  "dateKey v = rbind (dateOnly v) (\<lambda>d. case d of
       None \<Rightarrow> Inl (RangeError ''Invalid time value'')
     | Some t \<Rightarrow> Inr (iso_date t))"

definition billingSourceKey :: "id \<Rightarrow> js_date \<Rightarrow> (range_error, string) result" where
  "billingSourceKey orderId periodStart =
     rbind (dateKey periodStart) (\<lambda>k. Inr (''monthly-rent:'' @ orderId @ '':'' @ k))"

definition dueNoticeJobKey :: "id \<Rightarrow> string" where
  "dueNoticeJobKey billId = ''bill-due-notice:'' @ billId"

definition overdueJobKey :: "id \<Rightarrow> js_date \<Rightarrow> (range_error, string) result" where
  "overdueJobKey billId dueDate = rbind (addDays dueDate 5) (\<lambda>d. rbind (dateKey d)
     (\<lambda>k. Inr (''bill-overdue:'' @ billId @ '':'' @ k)))"

definition overdueNoticeJobKey :: "id \<Rightarrow> string" where
  "overdueNoticeJobKey billId = ''bill-overdue-notice:'' @ billId"

section \<open>The contract period\<close>

record performance_period =
  pp_startDate :: js_date
  pp_endDate :: js_date

definition addMonthsClampedUtc :: "js_date \<Rightarrow> int \<Rightarrow> js_date" where
  "addMonthsClampedUtc v months = (case v of None \<Rightarrow> None | Some t \<Rightarrow>
     (case js_utc_date (utc_year t) (utc_month t + months) 1 of None \<Rightarrow> None | Some f \<Rightarrow>
       (case js_utc_date (utc_year f) (utc_month f + 1) 0 of None \<Rightarrow> None | Some l \<Rightarrow>
          js_utc_date (utc_year f) (utc_month f) (min (utc_date t) (utc_date l)))))"

definition addDaysUtc :: "js_date \<Rightarrow> int \<Rightarrow> js_date" where
  "addDaysUtc v days = (case v of None \<Rightarrow> None | Some t \<Rightarrow>
     js_utc_date (utc_year t) (utc_month t) (utc_date t + days))"

definition deriveOriginalSubscriptionPeriod ::
    "js_date \<Rightarrow> int \<Rightarrow> (range_error, performance_period) result" where
  "deriveOriginalSubscriptionPeriod activatedAt periodMonths = (case activatedAt of
       None \<Rightarrow> Inl (RangeError ''SUBSCRIPTION_ACTIVATION_DATE_INVALID'')
     | Some t \<Rightarrow>
       rbind (ensure (safe_integer periodMonths \<and> 0 < periodMonths)
           (RangeError ''SUBSCRIPTION_PERIOD_MONTHS_INVALID'')) (\<lambda>_.
       let startDate = (case time_clip (t + china_offset_ms) of None \<Rightarrow> None
             | Some s \<Rightarrow> js_utc_date (utc_year s) (utc_month s) (utc_date s));
           exclusiveEnd = addMonthsClampedUtc startDate periodMonths in
       Inr \<lparr> pp_startDate = startDate, pp_endDate = addDaysUtc exclusiveEnd (- 1) \<rparr>))"

section \<open>Mileage review cycles\<close>

record mileage_cycle =
  mc_periodStart :: js_date
  mc_periodEnd :: js_date
  mc_scheduledReviewAt :: js_date
  mc_dueAt :: js_date

definition addShanghaiMonthsClamped :: "time \<Rightarrow> int \<Rightarrow> js_date" where
  "addShanghaiMonthsClamped t months = (case time_clip (t + china_offset_ms) of None \<Rightarrow> None
     | Some l \<Rightarrow>
       (case js_utc_date (utc_year l) (utc_month l + months) 1 of None \<Rightarrow> None | Some f \<Rightarrow>
         (let targetYear = utc_year f; targetMonth = utc_month f in
          (case js_utc_date targetYear (targetMonth + 1) 0 of None \<Rightarrow> None | Some e \<Rightarrow>
            (case js_utc targetYear targetMonth (min (utc_date l) (utc_date e))
               (utc_hours l) (utc_minutes l) (utc_seconds l) (utc_millis l) of None \<Rightarrow> None
             | Some s \<Rightarrow> time_clip (s - china_offset_ms))))))"

definition shift_date :: "js_date \<Rightarrow> int \<Rightarrow> js_date" where
  "shift_date v k = (case v of None \<Rightarrow> None | Some t \<Rightarrow> time_clip (t + k))"

definition buildMileageReviewCycle :: "js_date \<Rightarrow> int \<Rightarrow> (range_error, mileage_cycle) result" where
  "buildMileageReviewCycle actualDeliveryAt cycleNo = (case actualDeliveryAt of
       None \<Rightarrow> Inl (RangeError ''Delivery time must be valid.'')
     | Some t \<Rightarrow>
       rbind (ensure (safe_integer cycleNo \<and> 0 < cycleNo)
           (RangeError ''Mileage review cycle number must be a positive integer.'')) (\<lambda>_.
       let periodStart = addShanghaiMonthsClamped t (cycleNo - 1);
           scheduledReviewAt = addShanghaiMonthsClamped t cycleNo in
       Inr \<lparr> mc_periodStart = periodStart, mc_periodEnd = shift_date scheduledReviewAt (- 1),
             mc_scheduledReviewAt = scheduledReviewAt,
             mc_dueAt = shift_date scheduledReviewAt ms_per_day \<rparr>))"

section \<open>Mileage settlement\<close>

record mileage_settlement =
  ms_actualUsageKm :: int
  ms_consumedAllowanceKm :: int
  ms_unusedAllowanceKm :: int
  ms_overMileageKm :: int
  ms_overMileageAmount :: amount

definition assertMileageValues :: "int list \<Rightarrow> (range_error, unit) result" where
  "assertMileageValues values = ensure (\<not> list_ex (\<lambda>v. \<not> safe_integer v \<or> v < 0) values)
     (RangeError ''Mileage values must be non-negative safe integers.'')"

definition calculateMileageSettlement ::
    "int \<Rightarrow> int \<Rightarrow> int \<Rightarrow> amount \<Rightarrow> (range_error, mileage_settlement) result" where
  "calculateMileageSettlement baselineMileageKm submittedMileageKm allowanceKm overMileageFeeAmount =
     rbind (assertMileageValues [baselineMileageKm, submittedMileageKm, allowanceKm]) (\<lambda>_.
     rbind (ensure (\<not> overMileageFeeAmount < 0)
       (RangeError ''Over-mileage fee must be non-negative.'')) (\<lambda>_.
     rbind (ensure (\<not> submittedMileageKm < baselineMileageKm)
       (RangeError ''Submitted mileage cannot be lower than the confirmed baseline.'')) (\<lambda>_.
     let actualUsageKm = submittedMileageKm - baselineMileageKm;
         consumedAllowanceKm = min actualUsageKm allowanceKm;
         overMileageKm = max (actualUsageKm - allowanceKm) 0 in
     Inr \<lparr> ms_actualUsageKm = actualUsageKm, ms_consumedAllowanceKm = consumedAllowanceKm,
           ms_unusedAllowanceKm = allowanceKm - consumedAllowanceKm,
           ms_overMileageKm = overMileageKm,
           ms_overMileageAmount = overMileageKm * overMileageFeeAmount \<rparr>)))"

section \<open>Debit runs\<close>

datatype debit_retry_slot = DUE | D1 | D3

record debit_run_slot =
  dr_availableAt :: js_date
  dr_retrySlot :: debit_retry_slot

definition is_digit :: "char \<Rightarrow> bool" where
  "is_digit c = (48 \<le> (of_char c :: int) \<and> (of_char c :: int) \<le> 57)"

definition digit_value :: "char \<Rightarrow> int" where
  "digit_value c = of_char c - 48"

fun parseRunTime :: "string \<Rightarrow> (range_error, int \<times> int) result" where
  "parseRunTime [a, b, c, d, e] =
     (if is_digit a \<and> is_digit b \<and> c = CHR '':'' \<and> is_digit d \<and> is_digit e then
        let hour = 10 * digit_value a + digit_value b;
            minute = 10 * digit_value d + digit_value e in
        if hour < 0 \<or> hour > 23 \<or> minute < 0 \<or> minute > 59
        then Inl (RangeError ''Auto debit run time must use valid HH:mm format.'')
        else Inr (hour, minute)
      else Inl (RangeError ''Auto debit run time must use valid HH:mm format.''))"
| "parseRunTime _ = Inl (RangeError ''Auto debit run time must use valid HH:mm format.'')"

definition buildDebitRunSchedule ::
    "js_date \<Rightarrow> string \<Rightarrow> (range_error, debit_run_slot list) result" where
  "buildDebitRunSchedule dueDate runTime = (case dueDate of
       None \<Rightarrow> Inl (RangeError ''Auto debit due date must be valid.'')
     | Some t \<Rightarrow> rbind (parseRunTime runTime) (\<lambda>(hour, minute).
         let localDate = time_clip (t + 480 * 60000);
             slot = (\<lambda>retrySlot days. \<lparr> dr_availableAt = (case localDate of None \<Rightarrow> None
                 | Some l \<Rightarrow> js_utc (utc_year l) (utc_month l) (utc_date l + days) (hour - 8) minute 0 0),
               dr_retrySlot = retrySlot \<rparr>) in
         Inr [slot DUE 0, slot D1 1, slot D3 3]))"

definition slot_name :: "debit_retry_slot \<Rightarrow> string" where
  "slot_name s = (case s of DUE \<Rightarrow> ''DUE'' | D1 \<Rightarrow> ''D1'' | D3 \<Rightarrow> ''D3'')"

definition debitJobKey :: "id \<Rightarrow> debit_retry_slot \<Rightarrow> string" where
  "debitJobKey billId retrySlot = ''debit:'' @ billId @ '':'' @ slot_name retrySlot"

section \<open>Renewal\<close>

record renewal_schedule =
  rs_completionDeadlineAt :: js_date
  rs_considerationStartAt :: js_date
  rs_D30 :: js_date
  rs_D14 :: js_date
  rs_D3 :: js_date

definition addUtcDays :: "js_date \<Rightarrow> int \<Rightarrow> js_date" where
  "addUtcDays v days = (case v of None \<Rightarrow> None | Some t \<Rightarrow>
     js_utc_date (utc_year t) (utc_month t) (utc_date t + days))"

definition atShanghaiHour :: "js_date \<Rightarrow> int \<Rightarrow> js_date" where
  "atShanghaiHour v hour = (case v of None \<Rightarrow> None | Some t \<Rightarrow>
     (case js_utc (utc_year t) (utc_month t) (utc_date t) hour 0 0 0 of None \<Rightarrow> None
      | Some s \<Rightarrow> time_clip (s - 8 * 3600000)))"

definition renewalSchedule :: "js_date \<Rightarrow> renewal_schedule" where
  "renewalSchedule endDate =
     \<lparr> rs_completionDeadlineAt = atShanghaiHour (addUtcDays endDate 1) 0,
       rs_considerationStartAt = atShanghaiHour (addUtcDays endDate (- 30)) 9,
       rs_D30 = atShanghaiHour (addUtcDays endDate (- 30)) 9,
       rs_D14 = atShanghaiHour (addUtcDays endDate (- 14)) 9,
       rs_D3 = atShanghaiHour (addUtcDays endDate (- 3)) 9 \<rparr>"

definition shanghaiBusinessDate :: "js_date \<Rightarrow> js_date" where
  "shanghaiBusinessDate v = (case v of None \<Rightarrow> None | Some t \<Rightarrow>
     (case time_clip (t + 8 * 3600000) of None \<Rightarrow> None
      | Some s \<Rightarrow> js_utc_date (utc_year s) (utc_month s) (utc_date s)))"

section \<open>Day arithmetic of the calendars\<close>

text \<open>The Shanghai calendar day of an instant, and the instants the theorems range over.\<close>

definition shanghai_day :: "time \<Rightarrow> int" where
  "shanghai_day t = (t + china_offset_ms) div ms_per_day"

definition modern :: "time \<Rightarrow> bool" where
  "modern t = (0 \<le> t \<and> t < 253402300800000 - china_offset_ms)"

definition modern_day :: "int \<Rightarrow> bool" where
  "modern_day d = (0 \<le> d \<and> d < 2932897)"

lemma modern_shanghai_day: "modern t \<Longrightarrow> modern_day (shanghai_day t)"
  using zdiv_mono1 [of "t + china_offset_ms" 253402300799999 ms_per_day]
  by (simp add: modern_def modern_day_def shanghai_day_def pos_imp_zdiv_nonneg_iff)

lemma year_of_day_le: "d < day_from_year (y + 1) \<Longrightarrow> year_of_day d \<le> y"
  using year_of_day_bounds [of d] day_from_year_mono [of "y + 1" "year_of_day d"]
  by (cases "year_of_day d \<le> y") auto

lemma year_of_day_ge: "day_from_year y \<le> d \<Longrightarrow> y \<le> year_of_day d"
  using year_of_day_bounds [of d] day_from_year_mono [of "year_of_day d + 1" y]
  by (cases "y \<le> year_of_day d") auto

lemma modern_day_year: "modern_day d \<Longrightarrow> 1970 \<le> year_of_day d \<and> year_of_day d \<le> 9999"
proof -
  assume m: "modern_day d"
  have "day_from_year 1970 = 0" "day_from_year (9999 + 1) = 2932897" by code_simp+
  then show ?thesis
    using m year_of_day_ge [of 1970 d] year_of_day_le [of d 9999] by (simp add: modern_day_def)
qed

lemma modern_day_month: "modern_day d \<Longrightarrow> 23640 \<le> month_index d \<and> month_index d \<le> 119999"
  using modern_day_year [of d] day_fields(1) [of d] by (auto simp: month_index_def valid_ymd_def)

lemma ok_month_add:
  "modern_day d \<Longrightarrow> 0 \<le> n \<Longrightarrow> n \<le> 200000 \<Longrightarrow> ok_month (month_index d + n)"
  using modern_day_month [of d] by (simp add: ok_month_def)

text \<open>Month arithmetic with clamping, in each of the three forms the code writes it.\<close>

lemma month_target:
  assumes d: "modern_day d" and n: "0 \<le> n" "n \<le> 150000"
  defines "k \<equiv> month_index d + n"
  shows "js_utc_date (year_of_day d) (month_of_day d + n) 1 = Some (month_start k * ms_per_day)"
    and "utc_year (month_start k * ms_per_day) = k div 12"
    and "utc_month (month_start k * ms_per_day) = k mod 12"
    and "js_utc_date (k div 12) (k mod 12 + 1) 0 =
      Some ((month_start k + month_len k - 1) * ms_per_day)"
    and "utc_date ((month_start k + month_len k - 1) * ms_per_day) = month_len k"
    and "ok_month k" and "100 \<le> k div 12"
    and "12 * year_of_day d + (month_of_day d + n) = k"
proof -
  show ok: "ok_month k" using ok_month_add [OF d, of n] n by (simp add: k_def)
  show k12: "100 \<le> k div 12" using zdiv_mono1 [of 1200 k 12] ok by (simp add: ok_month_def)
  show eq: "12 * year_of_day d + (month_of_day d + n) = k" by (simp add: k_def month_index_def)
  show "js_utc_date (year_of_day d) (month_of_day d + n) 1 = Some (month_start k * ms_per_day)"
    using js_utc_date_ok [of "year_of_day d" "month_of_day d + n" 1] ok modern_day_year [OF d] eq
    by simp
  show "utc_year (month_start k * ms_per_day) = k div 12"
    "utc_month (month_start k * ms_per_day) = k mod 12"
    using month_start_fields [of 1 k] month_len_bounds [of k] by (simp_all add: utc_of_day)
  have ok1: "ok_month (k + 1)" using ok_month_add [OF d, of "n + 1"] n by (simp add: k_def add.assoc)
  show "js_utc_date (k div 12) (k mod 12 + 1) 0 =
      Some ((month_start k + month_len k - 1) * ms_per_day)"
    using js_utc_date_ok [of "k div 12" "k mod 12 + 1" 0] ok1 k12 month_start_step [of k]
    by (simp add: add.assoc [symmetric])
  show "utc_date ((month_start k + month_len k - 1) * ms_per_day) = month_len k"
    unfolding utc_of_day using month_start_fields [of "month_len k" k] month_len_bounds [of k]
    by simp
qed

lemma clamped_utc_date:
  assumes "ok_month k" and "100 \<le> k div 12" and "1 \<le> dt" and "dt \<le> 31"
  shows "js_utc_date (k div 12) (k mod 12) (min dt (month_len k)) =
    Some (clamped_day k dt * ms_per_day)"
  using js_utc_date_ok [of "k div 12" "k mod 12" "min dt (month_len k)"] assms month_len_bounds [of k]
  by (simp add: clamped_day_def)

lemma addMonthsClamped_day:
  assumes d: "modern_day d" and n: "0 \<le> n" "n \<le> 150000"
  shows "addMonthsClamped (Some (d * ms_per_day)) n =
    Some (clamped_day (month_index d + n) (date_of_day d) * ms_per_day)"
  using month_target [OF d n] clamped_utc_date [of "month_index d + n" "date_of_day d"]
    date_of_day_bounds [of d]
  by (simp add: addMonthsClamped_def utc_of_day Let_def)

lemma addMonthsClampedUtc_day:
  assumes d: "modern_day d" and n: "0 \<le> n" "n \<le> 150000"
  shows "addMonthsClampedUtc (Some (d * ms_per_day)) n =
    Some (clamped_day (month_index d + n) (date_of_day d) * ms_per_day)"
  using month_target [OF d n] clamped_utc_date [of "month_index d + n" "date_of_day d"]
    date_of_day_bounds [of d]
  by (simp add: addMonthsClampedUtc_def utc_of_day)

lemma plain_day_utc_date:
  assumes "ok_month (month_index d)"
  shows "js_utc_date (year_of_day d) (month_of_day d) (date_of_day d) = Some (d * ms_per_day)"
proof -
  have "1200 div 12 \<le> month_index d div 12"
    using assms by (intro zdiv_mono1) (auto simp: ok_month_def)
  then have "100 \<le> year_of_day d" by (simp add: month_index_split)
  then show ?thesis
    using js_utc_date_ok [of "year_of_day d" "month_of_day d" "date_of_day d"]
      assms date_of_day_bounds [of d] day_fields(2) [of d]
    by (simp add: make_day_month_start month_index_def)
qed

lemma day_utc_date:
  "modern_day d \<Longrightarrow>
   js_utc_date (year_of_day d) (month_of_day d) (date_of_day d) = Some (d * ms_per_day)"
  using plain_day_utc_date [of d] ok_month_add [of d 0] by simp

definition cycle_day :: "int \<Rightarrow> int \<Rightarrow> int" where
  "cycle_day d n = clamped_day (month_index d + n) (date_of_day d)"

lemma cycle_day_0: "cycle_day d 0 = d"
  by (simp add: cycle_day_def clamped_day_self)

lemma cycle_day_step: "cycle_day d n + 28 \<le> cycle_day d (n + 1)"
  "cycle_day d (n + 1) \<le> cycle_day d n + 31"
  using clamped_day_step [of "date_of_day d" "month_index d + n"] date_of_day_bounds [of d]
  by (simp_all add: cycle_day_def add.assoc)

lemma cycle_day_range:
  assumes "modern_day d" "0 \<le> n" "n \<le> 150000"
  shows "- 700000 \<le> cycle_day d n" "cycle_day d n \<le> 80000030"
  using month_start_range [OF ok_month_add [of d n]] assms date_of_day_bounds [of d]
    month_len_bounds [of "month_index d + n"]
  by (auto simp: cycle_day_def clamped_day_def)

lemma month_index_cycle_day: "month_index (cycle_day d n) = month_index d + n"
  using clamped_day_fields [of "date_of_day d" "month_index d + n"] date_of_day_bounds [of d]
  by (simp add: cycle_day_def month_index_def [of "clamped_day _ _"])

lemma date_of_cycle_day:
  "date_of_day (cycle_day d n) = min (date_of_day d) (month_len (month_index d + n))"
  using clamped_day_fields [of "date_of_day d" "month_index d + n"] date_of_day_bounds [of d]
  by (simp add: cycle_day_def)

lemma toBillingBusinessDate_plain:
  assumes "\<bar>t + china_offset_ms\<bar> \<le> 8640000000000000" and "ok_month (month_index (shanghai_day t))"
  shows "toBillingBusinessDate (Some t) = Inr (Some (shanghai_day t * ms_per_day))"
  using plain_day_utc_date [OF assms(2)] assms(1)
  by (simp add: toBillingBusinessDate_def assertValidDate_def utc_year_def utc_month_def
      utc_date_def shanghai_day_def time_clip_def)

lemma toBillingBusinessDate_modern:
  "modern t \<Longrightarrow> toBillingBusinessDate (Some t) = Inr (Some (shanghai_day t * ms_per_day))"
  using toBillingBusinessDate_plain [of t] ok_month_add [of "shanghai_day t" 0]
    modern_shanghai_day [of t] by (simp add: modern_def)

lemma dateOnly_day:
  "modern_day d \<Longrightarrow> dateOnly (Some (d * ms_per_day)) = Inr (Some (d * ms_per_day))"
  by (simp add: dateOnly_def assertValidDate_def utc_of_day day_utc_date)

lemma addDays_time:
  "\<bar>t + k * ms_per_day\<bar> \<le> 8640000000000000 \<Longrightarrow>
   addDays (Some t) k = Inr (Some (t + k * ms_per_day))"
  by (simp add: addDays_def assertValidDate_def set_utc_date_shift time_clip_def)

lemma addDays_day:
  "\<bar>d + k\<bar> \<le> 100000000 \<Longrightarrow> addDays (Some (d * ms_per_day)) k = Inr (Some ((d + k) * ms_per_day))"
  using addDays_time [of "d * ms_per_day" k] by (simp add: algebra_simps)

text \<open>The cycle the code builds, in closed form.\<close>

definition cycle_of_day :: "int \<Rightarrow> int \<Rightarrow> billing_cycle" where
  "cycle_of_day d n =
     \<lparr> bc_anchorDate = Some (d * ms_per_day), bc_cycleNo = n,
       bc_dueDate = Some (cycle_day d n * ms_per_day),
       bc_generateAt = Some ((cycle_day d n - 3) * ms_per_day),
       bc_overdueAt = Some ((cycle_day d n + 5) * ms_per_day),
       bc_periodEnd = Some ((cycle_day d (n + 1) - 1) * ms_per_day),
       bc_periodStart = Some (cycle_day d n * ms_per_day) \<rparr>"

lemma buildBillingCycle_day:
  assumes d: "modern_day d" and n: "0 < n" "n \<le> 120000"
  shows "buildBillingCycle (Some (d * ms_per_day)) n = Inr (cycle_of_day d n)"
proof -
  have s: "addMonthsClamped (Some (d * ms_per_day)) n = Some (cycle_day d n * ms_per_day)"
    "addMonthsClamped (Some (d * ms_per_day)) (n + 1) = Some (cycle_day d (n + 1) * ms_per_day)"
    using addMonthsClamped_day [OF d, of n] addMonthsClamped_day [OF d, of "n + 1"] n
    by (simp_all add: cycle_day_def)
  have a: "addDays (Some (cycle_day d n * ms_per_day)) (- 3)
      = Inr (Some ((cycle_day d n - 3) * ms_per_day))"
    "addDays (Some (cycle_day d n * ms_per_day)) 5
      = Inr (Some ((cycle_day d n + 5) * ms_per_day))"
    "addDays (Some (cycle_day d (n + 1) * ms_per_day)) (- 1)
      = Inr (Some ((cycle_day d (n + 1) - 1) * ms_per_day))"
    using addDays_day [of "cycle_day d n" "- 3"] addDays_day [of "cycle_day d n" 5]
      addDays_day [of "cycle_day d (n + 1)" "- 1"] cycle_day_range [OF d, of n]
      cycle_day_range [OF d, of "n + 1"] n by auto
  have v: "assertValidDate (Some (d * ms_per_day)) = Inr (d * ms_per_day)"
    by (simp add: assertValidDate_def)
  have c: "assertPositiveCycleNo n = Inr ()"
    using n by (simp add: assertPositiveCycleNo_def safe_integer_def)
  show ?thesis
    unfolding buildBillingCycle_def v c dateOnly_day [OF d] rbind.simps s Let_def a cycle_of_day_def
    by (rule refl)
qed

lemma buildForDelivery_day:
  assumes "modern t" and "0 < n" "n \<le> 120000"
  shows "buildBillingCycleForDelivery (Some t) n = Inr (cycle_of_day (shanghai_day t) n)"
  using assms buildBillingCycle_day [OF modern_shanghai_day]
  by (simp add: buildBillingCycleForDelivery_def toBillingBusinessDate_modern)

lemma buildNext_day:
  assumes "modern_day d" and "0 < n" "n < 120000"
  shows "buildNextBillingCycle (cycle_of_day d n) = Inr (cycle_of_day d (n + 1))"
proof -
  have "assertPositiveCycleNo n = Inr ()"
    using assms by (simp add: assertPositiveCycleNo_def safe_integer_def)
  then show ?thesis
    using buildBillingCycle_day [of d "n + 1"] assms
    by (simp add: buildNextBillingCycle_def cycle_of_day_def)
qed

text \<open>The starts of the cycles of one anchor are a calendar of adjoining periods.\<close>

interpretation billing_days: cycle_calendar "\<lambda>n. cycle_day d (int n)" for d
proof
  fix n
  show "cycle_day d (int n) < cycle_day d (int (Suc n))"
    using cycle_day_step(1) [of d "int n"] by (simp add: add.commute)
qed

section \<open>Billing cycles adjoin\<close>

text \<open>
  C18 The monthly cycles of a delivery adjoin: from a delivery between 1970 and
  9999, cycle n is built without error, \<open>buildNextBillingCycle\<close> gives exactly
  the cycle n + 1 of the delivery, which starts the day after cycle n ends; the
  cycle lasts 28 to 31 days, starts on the delivery's day of the month (clamped
  to the length of the month, so that clamping never accumulates), is due on
  its first day, is generated three days before and overdue five days after.
\<close>

theorem billing_cycles_tile:
  assumes "modern t" and "0 < n" and "n < 120000"
  defines "d \<equiv> shanghai_day t"
  shows "\<exists>c c' s len. buildBillingCycleForDelivery (Some t) n = Inr c
      \<and> buildNextBillingCycle c = Inr c'
      \<and> buildBillingCycleForDelivery (Some t) (n + 1) = Inr c'
      \<and> 28 \<le> len \<and> len \<le> 31
      \<and> bc_periodStart c = Some (s * ms_per_day)
      \<and> bc_periodEnd c = Some ((s + len - 1) * ms_per_day)
      \<and> bc_periodStart c' = Some ((s + len) * ms_per_day)
      \<and> month_index s = month_index d + n
      \<and> date_of_day s = min (date_of_day d) (month_len (month_index s))
      \<and> bc_dueDate c = bc_periodStart c
      \<and> bc_generateAt c = Some ((s - 3) * ms_per_day)
      \<and> bc_overdueAt c = Some ((s + 5) * ms_per_day)"
proof -
  define len where "len = cycle_day d (n + 1) - cycle_day d n"
  have "28 \<le> len" "len \<le> 31" using cycle_day_step [of d n] by (simp_all add: len_def)
  then show ?thesis
    using buildForDelivery_day [of t n] buildForDelivery_day [of t "n + 1"]
      buildNext_day [of d n] modern_shanghai_day [of t] assms
    by (intro exI [of _ "cycle_of_day d n"] exI [of _ "cycle_of_day d (n + 1)"]
        exI [of _ "cycle_day d n"] exI [of _ len])
      (auto simp: cycle_of_day_def len_def month_index_cycle_day date_of_cycle_day)
qed

theorem billing_cycles_tile_witness:
  "\<exists>c'. buildBillingCycleForDelivery (Some 1706659200000) 2 = Inr c' \<and>
     (\<exists>c. buildBillingCycleForDelivery (Some 1706659200000) 1 = Inr c
        \<and> buildNextBillingCycle c = Inr c')"
proof -
  have "modern 1706659200000" by (simp add: modern_def)
  from billing_cycles_tile [OF this, of 1] show ?thesis by auto
qed

definition cycle_covers :: "time \<Rightarrow> int \<Rightarrow> time \<Rightarrow> bool" where
  "cycle_covers t n x = (case buildBillingCycleForDelivery (Some t) n of
       Inr c \<Rightarrow> (case (bc_periodStart c, bc_periodEnd c) of
           (Some s, Some e) \<Rightarrow> s \<le> x \<and> x \<le> e | _ \<Rightarrow> False)
     | Inl e \<Rightarrow> False)"

lemma cycle_covers_day:
  "modern t \<Longrightarrow> 0 < n \<Longrightarrow> n \<le> 120000 \<Longrightarrow>
   cycle_covers t n (x * ms_per_day) \<longleftrightarrow>
     cycle_day (shanghai_day t) n \<le> x \<and> x < cycle_day (shanghai_day t) (n + 1)"
  using buildForDelivery_day [of t n] by (auto simp: cycle_covers_def cycle_of_day_def)

text \<open>
  No day is billed twice and none is left out: every calendar day up to the
  year 9999 from the start of the first cycle on lies in exactly one of the
  delivery's cycles.
\<close>

theorem billing_day_in_one_cycle:
  assumes t: "modern t" and x: "modern_day x"
    and first: "buildInitialBillingCycle (Some t) = Inr c" "bc_periodStart c = Some s"
      "s \<le> x * ms_per_day"
  shows "\<exists>!n. 0 < n \<and> n \<le> 120000 \<and> cycle_covers t n (x * ms_per_day)"
proof -
  define d where "d = shanghai_day t"
  have d: "modern_day d" using modern_shanghai_day [OF t] by (simp add: d_def)
  have x1: "cycle_day d 1 \<le> x"
    using first buildForDelivery_day [OF t, of 1]
    by (auto simp: buildInitialBillingCycle_def cycle_of_day_def d_def)
  have "cycle_day d (int 0) \<le> x" using x1 cycle_day_step(1) [of d 0] by simp
  then obtain k where k: "cycle_day d (int k) \<le> x" "x < cycle_day d (int (Suc k))"
    using billing_days.covering_exists by blast
  have "k \<noteq> 0"
  proof
    assume "k = 0"
    with k(2) x1 show False by simp
  qed
  have grow: "d + 28 * int j \<le> cycle_day d (int j)" for j
  proof (induction j)
    case (Suc j)
    then show ?case using cycle_day_step(1) [of d "int j"] by (simp add: add.commute)
  qed (simp add: cycle_day_0)
  have "int k \<le> 120000"
    using grow [of k] k(1) x d by (auto simp: modern_day_def)
  moreover have "n = int k"
    if "0 < n" "n \<le> 120000" "cycle_covers t n (x * ms_per_day)" for n
    using billing_days.covering_unique [of d "nat n" x k] that k cycle_covers_day [OF t, of n x]
    by (simp add: d_def add.commute)
  ultimately show ?thesis
    using cycle_covers_day [OF t, of "int k" x] k \<open>k \<noteq> 0\<close>
    by (intro ex1I [of _ "int k"]) (auto simp: d_def add.commute)
qed

theorem billing_day_in_one_cycle_witness:
  "\<exists>!n. 0 < n \<and> n \<le> 120000 \<and> cycle_covers 1706659200000 n (20000 * ms_per_day)"
proof -
  have "modern 1706659200000" "modern_day 20000" by (simp_all add: modern_def modern_day_def)
  moreover have "shanghai_day 1706659200000 = 19753" "cycle_day 19753 1 = 19782" by code_simp+
  then have "buildInitialBillingCycle (Some 1706659200000) = Inr (cycle_of_day 19753 1)"
    "bc_periodStart (cycle_of_day 19753 1) = Some (19782 * ms_per_day)"
    using buildForDelivery_day [of 1706659200000 1]
    by (simp_all add: buildInitialBillingCycle_def modern_def cycle_of_day_def)
  ultimately show ?thesis
    using billing_day_in_one_cycle [of 1706659200000 20000] by auto
qed

section \<open>Idempotency keys\<close>

lemma dateKey_day:
  assumes "ok_month (month_index d)"
  shows "dateKey (Some (d * ms_per_day)) = Inr (iso_date (d * ms_per_day))"
  using plain_day_utc_date [OF assms]
  by (simp add: dateKey_def dateOnly_def assertValidDate_def utc_of_day)

text \<open>
  The source key of a monthly rent bill identifies its order and its period:
  two cycles of two deliveries, starting before the year 10000, have the same
  key only if the orders are the same and the periods start on the same day;
  for one delivery, only if the cycle is the same.
\<close>

theorem billing_source_key_identifies:
  assumes t: "modern t" and u: "modern u"
    and n: "0 < n" "n \<le> 120000" "buildBillingCycleForDelivery (Some t) n = Inr c"
    and m: "0 < m" "m \<le> 120000" "buildBillingCycleForDelivery (Some u) m = Inr c'"
    and rs: "bc_periodStart c = Some s" "s < 253402300800000"
    and rs': "bc_periodStart c' = Some s'" "s' < 253402300800000"
  shows "\<exists>k k'. billingSourceKey orderId (bc_periodStart c) = Inr k
    \<and> billingSourceKey orderId' (bc_periodStart c') = Inr k'
    \<and> (k = k' \<longleftrightarrow> orderId = orderId' \<and> s = s')
    \<and> (t = u \<longrightarrow> k = k' \<longrightarrow> n = m)"
proof -
  define x y where "x = cycle_day (shanghai_day t) n" and "y = cycle_day (shanghai_day u) m"
  have c: "c = cycle_of_day (shanghai_day t) n" and c': "c' = cycle_of_day (shanghai_day u) m"
    using buildForDelivery_day t u n m by auto
  have s: "s = x * ms_per_day" "s' = y * ms_per_day"
    using rs rs' c c' by (simp_all add: cycle_of_day_def x_def y_def)
  have grow: "modern v \<Longrightarrow> 0 \<le> j \<Longrightarrow> 0 \<le> cycle_day (shanghai_day v) j" for v j
    using billing_days.start_le [of 0 "nat j" "shanghai_day v"] cycle_day_0 [of "shanghai_day v"]
      modern_shanghai_day [of v] by (auto simp: modern_day_def)
  have day: "modern_day x" "modern_day y"
    using grow [of t n] grow [of u m] t u n m s rs(2) rs'(2) by (auto simp: modern_day_def x_def y_def)
  note k = dateKey_day [OF ok_month_add [of x 0, simplified]]
    dateKey_day [OF ok_month_add [of y 0, simplified]]
  have inj: "iso_date (x * ms_per_day) = iso_date (y * ms_per_day) \<longleftrightarrow> x = y"
    using iso_date_inj [of "x * ms_per_day" "y * ms_per_day"] modern_day_year [OF day(1)]
      modern_day_year [OF day(2)] by (auto simp: utc_of_day)
  have len: "length (iso_date (z * ms_per_day)) = 10" if "modern_day z" for z
    using modern_day_year [OF that] by (simp add: iso_date_def Let_def utc_of_day)
  have one: "t = u \<Longrightarrow> x = y \<Longrightarrow> n = m"
    using billing_days.start_inject [of "shanghai_day t" "nat n" "nat m"] n m
    by (simp add: x_def y_def)
  show ?thesis
    using k(1) [OF day(1)] k(2) [OF day(2)] inj len day one rs(1) rs'(1) s
    by (auto simp: billingSourceKey_def)
qed

lemma cycle_example:
  "shanghai_day 1706659200000 = 19753" "cycle_day 19753 1 = 19782" "cycle_day 19753 2 = 19813"
  "modern 1706659200000"
  by code_simp+

lemma cycle_example_build:
  "buildBillingCycleForDelivery (Some 1706659200000) 1 = Inr (cycle_of_day 19753 1)"
  "buildBillingCycleForDelivery (Some 1706659200000) 2 = Inr (cycle_of_day 19753 2)"
  using buildForDelivery_day [of 1706659200000 1] buildForDelivery_day [of 1706659200000 2]
  by (simp_all add: cycle_example)

theorem billing_source_key_identifies_witness:
  "\<exists>k k'. billingSourceKey ''A'' (Some (19782 * ms_per_day)) = Inr k
    \<and> billingSourceKey ''A'' (Some (19813 * ms_per_day)) = Inr k' \<and> k \<noteq> k'"
  using billing_source_key_identifies [OF cycle_example(4) cycle_example(4) _ _
      cycle_example_build(1) _ _ cycle_example_build(2), of "19782 * ms_per_day"
      "19813 * ms_per_day" "''A''" "''A''"]
  by (auto simp: cycle_of_day_def cycle_example)

section \<open>The contract period and the mileage cycles follow the billing cycles\<close>

lemma deriveOriginal_day:
  assumes t: "modern t" and m: "0 < m" "m \<le> 120000"
  shows "deriveOriginalSubscriptionPeriod (Some t) m = Inr
    \<lparr> pp_startDate = Some (shanghai_day t * ms_per_day),
      pp_endDate = Some ((cycle_day (shanghai_day t) m - 1) * ms_per_day) \<rparr>"
proof -
  define d where "d = shanghai_day t"
  have d: "modern_day d" using modern_shanghai_day [OF t] by (simp add: d_def)
  have start: "(case time_clip (t + china_offset_ms) of None \<Rightarrow> None
      | Some s \<Rightarrow> js_utc_date (utc_year s) (utc_month s) (utc_date s)) = Some (d * ms_per_day)"
    using toBillingBusinessDate_modern [OF t]
    by (simp add: toBillingBusinessDate_def assertValidDate_def d_def)
  have fin: "addMonthsClampedUtc (Some (d * ms_per_day)) m = Some (cycle_day d m * ms_per_day)"
    using addMonthsClampedUtc_day [OF d, of m] m by (simp add: cycle_day_def)
  define e where "e = cycle_day d m"
  have ok: "ok_month (month_index e)"
    using ok_month_add [OF d, of m] m by (simp add: e_def month_index_cycle_day)
  have "1200 div 12 \<le> month_index e div 12"
    using ok by (intro zdiv_mono1) (auto simp: ok_month_def)
  then have y: "100 \<le> year_of_day e" by (simp add: month_index_split)
  have prev: "month_start (12 * year_of_day e + month_of_day e) + (date_of_day e - 1) - 1 = e - 1"
    using day_fields(2) [of e] by (simp add: make_day_month_start)
  have "js_utc_date (year_of_day e) (month_of_day e) (date_of_day e - 1)
      = Some ((e - 1) * ms_per_day)"
    using js_utc_date_ok [of "year_of_day e" "month_of_day e" "date_of_day e - 1", unfolded prev]
      ok y date_of_day_bounds [of e] by (simp add: month_index_def)
  then have "addDaysUtc (Some (e * ms_per_day)) (- 1) = Some ((e - 1) * ms_per_day)"
    by (simp add: addDaysUtc_def utc_of_day)
  then show ?thesis
    using start fin m
    by (simp add: deriveOriginalSubscriptionPeriod_def safe_integer_def Let_def d_def e_def)
qed

text \<open>
  C39 The contract's own period and its rent cycles agree: a subscription of
  m > 1 months starts on the Shanghai day of its activation and ends on the
  very day its rent cycle m - 1 ends, so the first month and the m - 1 cycles
  cover the contract exactly.
\<close>

theorem contract_period_ends_with_cycle:
  assumes "modern t" and "1 < m" and "m \<le> 120000"
  shows "\<exists>p c. deriveOriginalSubscriptionPeriod (Some t) m = Inr p
    \<and> buildBillingCycleForDelivery (Some t) (m - 1) = Inr c
    \<and> toBillingBusinessDate (Some t) = Inr (pp_startDate p)
    \<and> pp_endDate p = bc_periodEnd c"
  using assms deriveOriginal_day [of t m] buildForDelivery_day [of t "m - 1"]
    toBillingBusinessDate_modern [of t]
  by (auto simp: cycle_of_day_def)

theorem contract_period_ends_with_cycle_witness:
  "\<exists>p c. deriveOriginalSubscriptionPeriod (Some 1706659200000) 12 = Inr p
    \<and> buildBillingCycleForDelivery (Some 1706659200000) 11 = Inr c
    \<and> pp_endDate p = bc_periodEnd c"
  using contract_period_ends_with_cycle [OF cycle_example(4), of 12] by auto

lemma div_mod_parts:
  fixes r :: int
  shows "make_time (utc_hours r) (utc_minutes r) (utc_seconds r) (utc_millis r) = r mod ms_per_day"
proof -
  have d: "r div 1000 div 60 = r div 60000" "r div 60000 div 60 = r div 3600000"
    using zdiv_zmult2_eq [of 60 r 1000] zdiv_zmult2_eq [of 60 r 60000] by simp_all
  have "r mod ms_per_day = 1000 * ((r div 1000) mod 86400) + r mod 1000"
    using zmod_zmult2_eq [of 86400 r 1000] by simp
  also have "(r div 1000) mod 86400 = 60 * ((r div 60000) mod 1440) + (r div 1000) mod 60"
    using zmod_zmult2_eq [of 1440 "r div 1000" 60] by (simp add: d)
  also have "(r div 60000) mod 1440 = 60 * ((r div 3600000) mod 24) + (r div 60000) mod 60"
    using zmod_zmult2_eq [of 24 "r div 60000" 60] by (simp add: d)
  finally have e: "r mod ms_per_day = 1000 * (60 * (60 * (r div 3600000 mod 24) + r div 60000 mod 60)
      + r div 1000 mod 60) + r mod 1000" .
  have lin: "h * 3600000 + mi * 60000 + sec * 1000 + ms = 1000 * (60 * (60 * h + mi) + sec) + ms"
    for h mi sec ms :: int by simp
  show ?thesis
    unfolding e make_time_def utc_hours_def utc_minutes_def utc_seconds_def utc_millis_def
    by (rule lin)
qed

lemma time_field_bounds:
  "0 \<le> utc_hours r \<and> utc_hours r \<le> 23" "0 \<le> utc_minutes r \<and> utc_minutes r \<le> 59"
  "0 \<le> utc_seconds r \<and> utc_seconds r \<le> 59" "0 \<le> utc_millis r \<and> utc_millis r \<le> 999"
proof -
  have m: "0 < n \<Longrightarrow> 0 \<le> x mod n \<and> x mod n \<le> n - 1" for x n :: int
    using pos_mod_bound [of n x] by simp
  show "0 \<le> utc_hours r \<and> utc_hours r \<le> 23" "0 \<le> utc_minutes r \<and> utc_minutes r \<le> 59"
    "0 \<le> utc_seconds r \<and> utc_seconds r \<le> 59" "0 \<le> utc_millis r \<and> utc_millis r \<le> 999"
    unfolding utc_hours_def utc_minutes_def utc_seconds_def utc_millis_def
    using m [of 24, simplified] m [of 60, simplified] m [of 1000, simplified] by simp_all
qed

text \<open>The instant of day \<open>d\<close> at the Shanghai time of day of \<open>t\<close>.\<close>

definition same_time :: "time \<Rightarrow> int \<Rightarrow> time" where
  "same_time t d = d * ms_per_day + (t + china_offset_ms) mod ms_per_day - china_offset_ms"

lemma shanghai_day_same_time: "shanghai_day (same_time t d) = d"
  by (simp add: shanghai_day_def same_time_def)

lemma addShanghaiMonthsClamped_day:
  assumes t: "modern t" and n: "0 \<le> n" "n \<le> 120000"
  shows "addShanghaiMonthsClamped t n = Some (same_time t (cycle_day (shanghai_day t) n))"
proof -
  define d l k where "d = shanghai_day t" and "l = t + china_offset_ms" and "k = month_index d + n"
  have d: "modern_day d" using modern_shanghai_day [OF t] by (simp add: d_def)
  have n': "n \<le> 150000" using n by simp
  have f: "utc_year l = year_of_day d" "utc_month l = month_of_day d" "utc_date l = date_of_day d"
    by (simp_all add: utc_year_def utc_month_def utc_date_def d_def l_def shanghai_day_def)
  have clip: "time_clip (t + china_offset_ms) = Some l"
    using t by (simp add: modern_def time_clip_def l_def)
  note target = month_target [OF d n(1) n', folded k_def]
  have k: "12 * (k div 12) + k mod 12 = k" by simp
  have "js_utc (k div 12) (k mod 12) (min (date_of_day d) (month_len k))
      (utc_hours l) (utc_minutes l) (utc_seconds l) (utc_millis l)
    = Some ((month_start k + min (date_of_day d) (month_len k) - 1) * ms_per_day + l mod ms_per_day)"
    using js_utc_ok [of "k div 12" "k mod 12" "min (date_of_day d) (month_len k)" "utc_hours l"
        "utc_minutes l" "utc_seconds l" "utc_millis l", unfolded k div_mod_parts] target(6,7)
      date_of_day_bounds [of d] month_len_bounds [of k] time_field_bounds [of l]
    by auto
  moreover have "month_start k + min (date_of_day d) (month_len k) - 1 = cycle_day d n"
    by (simp add: cycle_day_def clamped_day_def k_def)
  moreover have "time_clip (cycle_day d n * ms_per_day + l mod ms_per_day - china_offset_ms)
      = Some (same_time t (cycle_day d n))"
    using cycle_day_range [OF d n(1) n'] pos_mod_bound [of ms_per_day l]
      pos_mod_sign [of ms_per_day l]
    by (simp add: time_clip_def same_time_def l_def)
  ultimately show ?thesis
    using target(1-5)
    by (simp add: addShanghaiMonthsClamped_def clip f Let_def d_def [symmetric])
qed

interpretation mileage_times: cycle_calendar
  "\<lambda>n. same_time t (cycle_day (shanghai_day t) (int n))" for t
proof
  fix n
  show "same_time t (cycle_day (shanghai_day t) (int n))
      < same_time t (cycle_day (shanghai_day t) (int (Suc n)))"
    using billing_days.start_step [of "shanghai_day t" n] by (simp add: same_time_def)
qed

lemma buildMileage_day:
  assumes t: "modern t" and n: "0 < n" "n \<le> 120000"
  shows "buildMileageReviewCycle (Some t) n = Inr
    \<lparr> mc_periodStart = Some (same_time t (cycle_day (shanghai_day t) (n - 1))),
      mc_periodEnd = Some (same_time t (cycle_day (shanghai_day t) n) - 1),
      mc_scheduledReviewAt = Some (same_time t (cycle_day (shanghai_day t) n)),
      mc_dueAt = Some (same_time t (cycle_day (shanghai_day t) n) + ms_per_day) \<rparr>"
proof -
  define s where "s = same_time t (cycle_day (shanghai_day t) n)"
  have b: "-700000 * ms_per_day - china_offset_ms \<le> s" "s \<le> 80000031 * ms_per_day"
    using cycle_day_range [OF modern_shanghai_day [OF t], of n] n
      pos_mod_bound [of ms_per_day "t + china_offset_ms"]
      pos_mod_sign [of ms_per_day "t + china_offset_ms"]
    by (simp_all add: s_def same_time_def)
  then have "time_clip (s - 1) = Some (s - 1)" "time_clip (s + ms_per_day) = Some (s + ms_per_day)"
    by (simp_all add: time_clip_def)
  then show ?thesis
    using addShanghaiMonthsClamped_day [OF t, of "n - 1"] addShanghaiMonthsClamped_day [OF t, of n] n
    by (simp add: buildMileageReviewCycle_def safe_integer_def Let_def shift_date_def s_def)
qed

text \<open>
  Mileage reviews follow the rent cycles: review n of a delivery is
  scheduled on the Shanghai day rent cycle n starts, at the time of day of the
  delivery; the reviewed period ends one millisecond earlier, the next period
  starts exactly there, and the first period starts at the delivery itself.
\<close>

theorem mileage_reviews_follow_billing:
  assumes t: "modern t" and n: "0 < n" "n < 120000"
  shows "\<exists>c c' b s. buildMileageReviewCycle (Some t) n = Inr c
    \<and> buildMileageReviewCycle (Some t) (n + 1) = Inr c'
    \<and> buildBillingCycleForDelivery (Some t) n = Inr b
    \<and> mc_scheduledReviewAt c = Some s \<and> mc_periodEnd c = Some (s - 1)
    \<and> mc_periodStart c' = Some s \<and> mc_dueAt c = Some (s + ms_per_day)
    \<and> toBillingBusinessDate (Some s) = Inr (bc_periodStart b)
    \<and> (n = 1 \<longrightarrow> mc_periodStart c = Some t)"
proof -
  define d s where "d = shanghai_day t" and "s = same_time t (cycle_day (shanghai_day t) n)"
  have d: "modern_day d" using modern_shanghai_day [OF t] by (simp add: d_def)
  have day: "shanghai_day s = cycle_day d n" by (simp add: s_def d_def shanghai_day_same_time)
  have "\<bar>s + china_offset_ms\<bar> \<le> 8640000000000000"
    using cycle_day_range [OF d, of n] n pos_mod_bound [of ms_per_day "t + china_offset_ms"]
      pos_mod_sign [of ms_per_day "t + china_offset_ms"]
    by (simp add: s_def same_time_def d_def)
  then have bd: "toBillingBusinessDate (Some s) = Inr (Some (cycle_day d n * ms_per_day))"
    using toBillingBusinessDate_plain [of s] ok_month_add [OF d, of n] n
    by (simp add: day month_index_cycle_day)
  have t0: "same_time t d = t"
    unfolding same_time_def d_def shanghai_day_def by simp
  show ?thesis
    using buildMileage_day [OF t, of n] buildMileage_day [OF t, of "n + 1"]
      buildForDelivery_day [OF t, of n] n bd
    by (auto simp: s_def d_def cycle_of_day_def cycle_day_0 t0 [unfolded d_def])
qed

theorem mileage_reviews_follow_billing_witness:
  "\<exists>c b s. buildMileageReviewCycle (Some 1706659200000) 1 = Inr c
    \<and> buildBillingCycleForDelivery (Some 1706659200000) 1 = Inr b
    \<and> mc_scheduledReviewAt c = Some s \<and> toBillingBusinessDate (Some s) = Inr (bc_periodStart b)
    \<and> mc_periodStart c = Some 1706659200000"
  using mileage_reviews_follow_billing [OF cycle_example(4), of 1] by auto

text \<open>
  C40 A mileage settlement is exact and total on valid input: it succeeds
  exactly for non-negative safe readings and allowance, a non-negative fee and
  a reading not below the baseline; then the usage splits into consumed
  allowance and excess, the allowance into consumed and unused, never both
  excess and unused allowance, and the fee is the excess times the rate.
\<close>

theorem mileage_settlement_exact:
  "(is_ok (calculateMileageSettlement base sub allow fee) \<longleftrightarrow>
      (\<forall>v \<in> {base, sub, allow}. 0 \<le> v \<and> safe_integer v) \<and> 0 \<le> fee \<and> base \<le> sub)
   \<and> (\<forall>s. calculateMileageSettlement base sub allow fee = Inr s \<longrightarrow>
      ms_actualUsageKm s = sub - base
      \<and> ms_actualUsageKm s = ms_consumedAllowanceKm s + ms_overMileageKm s
      \<and> allow = ms_consumedAllowanceKm s + ms_unusedAllowanceKm s
      \<and> 0 \<le> ms_consumedAllowanceKm s \<and> 0 \<le> ms_unusedAllowanceKm s \<and> 0 \<le> ms_overMileageKm s
      \<and> (ms_overMileageKm s = 0 \<or> ms_unusedAllowanceKm s = 0)
      \<and> ms_overMileageAmount s = ms_overMileageKm s * fee \<and> 0 \<le> ms_overMileageAmount s)"
  by (auto simp: calculateMileageSettlement_def assertMileageValues_def Let_def is_ok_iff
      min_def max_def split: if_splits)

theorem mileage_settlement_exact_witness:
  "ms_overMileageAmount (projr (calculateMileageSettlement 1000 3500 2000 50)) = 25000
   \<and> ms_actualUsageKm (projr (calculateMileageSettlement 1000 3500 2000 50)) = 2500"
proof -
  have ok: "is_ok (calculateMileageSettlement 1000 3500 2000 50)"
    using mileage_settlement_exact [of 1000 3500 2000 50] by (simp add: safe_integer_def)
  then obtain s where s: "calculateMileageSettlement 1000 3500 2000 50 = Inr s"
    by (auto simp: is_ok_iff)
  then show ?thesis
    using mileage_settlement_exact [of 1000 3500 2000 50] by auto
qed

section \<open>Debit runs\<close>

text \<open>
  A debit is tried at the configured Shanghai time of the due day, of the
  next day and of the third day after: for a run time hh:mm and a due date
  between 1970 and 9999 the three slots are exactly these instants, in order.
\<close>

theorem debit_runs_at_local_time:
  assumes t: "modern t" and rt: "parseRunTime runTime = Inr (hour, minute)"
  defines "at \<equiv> (\<lambda>k. Some ((shanghai_day t + k) * ms_per_day + hour * 3600000 + minute * 60000
      - china_offset_ms))"
  shows "buildDebitRunSchedule (Some t) runTime =
    Inr [\<lparr> dr_availableAt = at 0, dr_retrySlot = DUE \<rparr>,
         \<lparr> dr_availableAt = at 1, dr_retrySlot = D1 \<rparr>,
         \<lparr> dr_availableAt = at 3, dr_retrySlot = D3 \<rparr>]"
proof -
  define d l where "d = shanghai_day t" and "l = t + china_offset_ms"
  have d: "modern_day d" using modern_shanghai_day [OF t] by (simp add: d_def)
  have hm: "0 \<le> hour" "hour \<le> 23" "0 \<le> minute" "minute \<le> 59"
    using rt by (auto elim!: parseRunTime.elims simp: Let_def split: if_splits)
  have f: "utc_year l = year_of_day d" "utc_month l = month_of_day d" "utc_date l = date_of_day d"
    by (simp_all add: utc_year_def utc_month_def utc_date_def d_def l_def shanghai_day_def)
  have ok: "ok_month (12 * year_of_day d + month_of_day d)"
    using ok_month_add [OF d, of 0] by (simp add: month_index_def)
  have dd: "month_start (12 * year_of_day d + month_of_day d) + (date_of_day d + k) - 1 = d + k" for k
    using day_fields(2) [of d] by (simp add: make_day_month_start)
  have slot: "js_utc (year_of_day d) (month_of_day d) (date_of_day d + k) (hour - 8) minute 0 0
      = Some ((d + k) * ms_per_day + make_time (hour - 8) minute 0 0)" if "0 \<le> k" "k \<le> 3" for k
    using js_utc_ok [OF ok, of "date_of_day d + k" "hour - 8" minute 0 0, unfolded dd]
      date_of_day_bounds [of d] modern_day_year [OF d] hm that by simp
  have clip: "time_clip (t + china_offset_ms) = Some l"
    using t by (simp add: modern_def time_clip_def l_def)
  show ?thesis
    using slot [of 0] slot [of 1] slot [of 3]
    by (simp add: buildDebitRunSchedule_def rt Let_def clip f at_def d_def make_time_def
        algebra_simps del: parseRunTime.simps)
qed

theorem debit_runs_at_local_time_witness:
  "\<exists>r. buildDebitRunSchedule (Some 1706659200000) ''09:30'' = Inr r
     \<and> map dr_retrySlot r = [DUE, D1, D3]"
proof -
  have "parseRunTime ''09:30'' = Inr (9, 30)" by code_simp
  from debit_runs_at_local_time [OF cycle_example(4) this] show ?thesis by simp
qed

end
