(* ===== verification/ClosureMachine.thy ===== *)
theory ClosureMachine
  imports Interfaces JsDate
begin

text \<open>
  The status machine of a subscription closure case, from
  \<open>subscription-closure/subscription-closure.domain.ts\<close>: the three transition
  matrices, the choice of the matrix by the profile of the case, the escalation
  of a normal return to a recovery and the pause of a recovery that remembers
  its stage.  A thrown \<open>TypeError\<close> is the \<open>Inl\<close> of a result.
\<close>

datatype closure_status =
    PREPARING_RETURN | RECOVERY_ASSESSMENT_PENDING | RECOVERY_APPROVAL_PENDING
  | RECOVERY_APPROVED | RECOVERY_IN_PROGRESS | VEHICLE_SECURED | RETURN_INSPECTION
  | RECONDITIONING | PENDING_SETTLEMENT | COMPLETED | TERMINATED | REJECTED | PAUSED
  | CANCELLED | MANUAL_TAKEOVER

datatype closure_type = NORMAL_COMPLETION | EARLY_TERMINATION
datatype physical_control_mode = VOLUNTARY_RETURN | RECOVERY
datatype final_disposition = COMPLETE | TERMINATE

datatype type_error = TypeError string

record closure_profile =
  pf_closureType :: closure_type
  pf_physicalControlMode :: physical_control_mode
  pf_finalDisposition :: final_disposition

type_synonym transition_matrix = "closure_status \<Rightarrow> closure_status list"

fun NORMAL_VOLUNTARY :: transition_matrix where
  "NORMAL_VOLUNTARY PREPARING_RETURN = [RETURN_INSPECTION, CANCELLED, MANUAL_TAKEOVER]"
| "NORMAL_VOLUNTARY RETURN_INSPECTION = [RECONDITIONING, PENDING_SETTLEMENT, MANUAL_TAKEOVER]"
| "NORMAL_VOLUNTARY RECONDITIONING = [PENDING_SETTLEMENT, MANUAL_TAKEOVER]"
| "NORMAL_VOLUNTARY PENDING_SETTLEMENT = [COMPLETED, MANUAL_TAKEOVER]"
| "NORMAL_VOLUNTARY _ = []"

definition EARLY_VOLUNTARY :: transition_matrix where
  "EARLY_VOLUNTARY = NORMAL_VOLUNTARY
     (MANUAL_TAKEOVER := [CANCELLED], PENDING_SETTLEMENT := [TERMINATED, MANUAL_TAKEOVER])"

fun RECOVERY_MATRIX :: transition_matrix where
  "RECOVERY_MATRIX RECOVERY_ASSESSMENT_PENDING =
     [RECOVERY_APPROVAL_PENDING, REJECTED, CANCELLED, MANUAL_TAKEOVER]"
| "RECOVERY_MATRIX RECOVERY_APPROVAL_PENDING =
     [RECOVERY_APPROVED, REJECTED, CANCELLED, MANUAL_TAKEOVER]"
| "RECOVERY_MATRIX RECOVERY_APPROVED = [RECOVERY_IN_PROGRESS, CANCELLED, MANUAL_TAKEOVER]"
| "RECOVERY_MATRIX RECOVERY_IN_PROGRESS = [VEHICLE_SECURED, CANCELLED, MANUAL_TAKEOVER]"
| "RECOVERY_MATRIX VEHICLE_SECURED = [RETURN_INSPECTION, MANUAL_TAKEOVER]"
| "RECOVERY_MATRIX RETURN_INSPECTION = [RECONDITIONING, PENDING_SETTLEMENT, MANUAL_TAKEOVER]"
| "RECOVERY_MATRIX RECONDITIONING = [PENDING_SETTLEMENT, MANUAL_TAKEOVER]"
| "RECOVERY_MATRIX PENDING_SETTLEMENT = [TERMINATED, MANUAL_TAKEOVER]"
| "RECOVERY_MATRIX _ = []"

definition allowedSubscriptionClosureTransitions ::
    "closure_profile \<Rightarrow> (type_error, transition_matrix) result" where
  "allowedSubscriptionClosureTransitions profile =
     (if pf_physicalControlMode profile = RECOVERY then
        (if pf_finalDisposition profile \<noteq> TERMINATE then Inl (TypeError ''invalid recovery profile'')
         else Inr RECOVERY_MATRIX)
      else if pf_closureType profile = NORMAL_COMPLETION \<and> pf_finalDisposition profile = COMPLETE
        then Inr NORMAL_VOLUNTARY
      else if pf_closureType profile = EARLY_TERMINATION \<and> pf_finalDisposition profile = TERMINATE
        then Inr EARLY_VOLUNTARY
      else Inl (TypeError ''invalid subscription closure profile''))"

definition assertSubscriptionClosureTransition ::
    "closure_profile \<Rightarrow> closure_status \<Rightarrow> closure_status \<Rightarrow> (type_error, unit) result" where
  "assertSubscriptionClosureTransition profile src dst =
     rbind (allowedSubscriptionClosureTransitions profile) (\<lambda>matrix.
       ensure (dst \<in> set (matrix src)) (TypeError ''subscription closure transition is not allowed''))"

definition assertSubscriptionClosureEscalation ::
    "closure_profile \<Rightarrow> time option \<Rightarrow> closure_status \<Rightarrow> closure_profile
      \<Rightarrow> (type_error, unit) result" where
  "assertSubscriptionClosureEscalation before physicalControlledAt status after =
     ensure (\<not> (pf_closureType before \<noteq> NORMAL_COMPLETION
        \<or> pf_physicalControlMode before \<noteq> VOLUNTARY_RETURN
        \<or> pf_finalDisposition before \<noteq> COMPLETE
        \<or> status \<noteq> PREPARING_RETURN
        \<or> physicalControlledAt \<noteq> None
        \<or> pf_closureType after \<noteq> NORMAL_COMPLETION
        \<or> pf_physicalControlMode after \<noteq> RECOVERY
        \<or> pf_finalDisposition after \<noteq> TERMINATE))
       (TypeError ''only normal voluntary completion may use the approved recovery escalation'')"

definition RECOVERY_PAUSABLE_STATUSES :: "closure_status list" where
  "RECOVERY_PAUSABLE_STATUSES =
     [RECOVERY_ASSESSMENT_PENDING, RECOVERY_APPROVAL_PENDING, RECOVERY_APPROVED,
      RECOVERY_IN_PROGRESS, VEHICLE_SECURED, RETURN_INSPECTION, RECONDITIONING,
      PENDING_SETTLEMENT]"

definition assertRecoveryPauseTransition ::
    "closure_profile \<Rightarrow> closure_status \<Rightarrow> closure_status \<Rightarrow> closure_status option
      \<Rightarrow> (type_error, unit) result" where
  "assertRecoveryPauseTransition profile src dst rememberedStage =
     (if pf_physicalControlMode profile \<noteq> RECOVERY \<or> pf_finalDisposition profile \<noteq> TERMINATE
        then Inl (TypeError ''only a recovery case can be paused'')
      else if dst = PAUSED \<and> src \<in> set RECOVERY_PAUSABLE_STATUSES \<and> rememberedStage = None
        then Inr ()
      else if src = PAUSED \<and> dst \<in> set RECOVERY_PAUSABLE_STATUSES \<and> rememberedStage = Some dst
        then Inr ()
      else Inl (TypeError ''recovery resume must restore its remembered stage''))"

text \<open>The due date's Shanghai day plus seven, at midnight Shanghai time.\<close>

definition recoveryAssessmentAvailableAt :: "js_date \<Rightarrow> (type_error, js_date) result" where
  "recoveryAssessmentAvailableAt dueDate = (case dueDate of
       None \<Rightarrow> Inl (TypeError ''recovery assessment due date is invalid'')
     | Some t \<Rightarrow> Inr (case time_clip (t + 8 * 60 * 60 * 1000) of None \<Rightarrow> None
         | Some s \<Rightarrow> (case js_utc_date (utc_year s) (utc_month s) (utc_date s + 7) of None \<Rightarrow> None
             | Some u \<Rightarrow> time_clip (u - 8 * 60 * 60 * 1000))))"

section \<open>The transition relation\<close>

definition closure_step :: "closure_profile \<Rightarrow> closure_status \<Rightarrow> closure_status \<Rightarrow> bool" where
  "closure_step p s t = is_ok (assertSubscriptionClosureTransition p s t)"

fun closed_status :: "closure_status \<Rightarrow> bool" where
  "closed_status COMPLETED = True"
| "closed_status TERMINATED = True"
| "closed_status REJECTED = True"
| "closed_status CANCELLED = True"
| "closed_status _ = False"

fun closure_rank :: "closure_status \<Rightarrow> nat" where
  "closure_rank RECOVERY_ASSESSMENT_PENDING = 9"
| "closure_rank RECOVERY_APPROVAL_PENDING = 8"
| "closure_rank RECOVERY_APPROVED = 7"
| "closure_rank RECOVERY_IN_PROGRESS = 6"
| "closure_rank VEHICLE_SECURED = 5"
| "closure_rank PREPARING_RETURN = 5"
| "closure_rank RETURN_INSPECTION = 4"
| "closure_rank RECONDITIONING = 3"
| "closure_rank PENDING_SETTLEMENT = 2"
| "closure_rank MANUAL_TAKEOVER = 1"
| "closure_rank _ = 0"

lemma closure_step_matrix:
  "closure_step p s t \<longleftrightarrow>
     (\<exists>m. allowedSubscriptionClosureTransitions p = Inr m \<and> t \<in> set (m s))"
  by (auto simp: closure_step_def assertSubscriptionClosureTransition_def is_ok_iff)

lemma matrix_ranks:
  "t \<in> set (NORMAL_VOLUNTARY s) \<Longrightarrow> closure_rank t < closure_rank s"
  "t \<in> set (EARLY_VOLUNTARY s) \<Longrightarrow> closure_rank t < closure_rank s"
  "t \<in> set (RECOVERY_MATRIX s) \<Longrightarrow> closure_rank t < closure_rank s"
  by (cases s; auto simp: EARLY_VOLUNTARY_def)+

lemma closed_matrix:
  "closed_status s \<Longrightarrow> NORMAL_VOLUNTARY s = [] \<and> EARLY_VOLUNTARY s = [] \<and> RECOVERY_MATRIX s = []"
  by (cases s; simp add: EARLY_VOLUNTARY_def)

lemma allowed_cases:
  assumes "allowedSubscriptionClosureTransitions p = Inr m"
  obtains "m = RECOVERY_MATRIX" "pf_physicalControlMode p = RECOVERY" "pf_finalDisposition p = TERMINATE"
    | "m = NORMAL_VOLUNTARY" "pf_physicalControlMode p = VOLUNTARY_RETURN"
      "pf_closureType p = NORMAL_COMPLETION" "pf_finalDisposition p = COMPLETE"
    | "m = EARLY_VOLUNTARY" "pf_physicalControlMode p = VOLUNTARY_RETURN"
      "pf_closureType p = EARLY_TERMINATION" "pf_finalDisposition p = TERMINATE"
  using assms
  by (cases "pf_physicalControlMode p"; auto simp: allowedSubscriptionClosureTransitions_def
      split: if_splits)

interpretation closure: ranked_machine "closure_step p" closed_status closure_rank for p
proof
  fix s t
  show "closed_status s \<Longrightarrow> \<not> closure_step p s t"
    by (auto simp: closure_step_matrix closed_matrix elim!: allowed_cases)
  show "closure_step p s t \<Longrightarrow> closure_rank t < closure_rank s"
    by (auto simp: closure_step_matrix elim!: allowed_cases intro: matrix_ranks)
qed

text \<open>Every open status but a manual takeover can still move; the takeover only in an early return.\<close>

lemma closure_progress:
  assumes "allowedSubscriptionClosureTransitions p = Inr m" and "m s = []"
  shows "closed_status s \<or> s = PAUSED \<or> s = MANUAL_TAKEOVER
    \<or> (pf_physicalControlMode p = VOLUNTARY_RETURN \<and> 5 < closure_rank s)
    \<or> (pf_physicalControlMode p = VOLUNTARY_RETURN \<and> s = VEHICLE_SECURED)
    \<or> (pf_physicalControlMode p = RECOVERY \<and> s = PREPARING_RETURN)"
  using assms by (cases s; auto elim!: allowed_cases simp: EARLY_VOLUNTARY_def)


definition ex_recovery_profile :: closure_profile where
  "ex_recovery_profile = \<lparr> pf_closureType = EARLY_TERMINATION, pf_physicalControlMode = RECOVERY,
     pf_finalDisposition = TERMINATE \<rparr>"


end
