(* ===== verification/ClosureCase.thy ===== *)
theory ClosureCase
  imports ClosureMachine
begin

text \<open>
  The closure case aggregate of \<open>subscription-closure.repository.ts\<close>: cases,
  their append-only events, settlement revisions and the command receipts that
  make every command idempotent.  A command is taken after its
  \<open>normalize...Command\<close>; a stored payload is the command itself (the code
  stores and compares its canonical JSON), and a database clock is the argument
  \<open>now\<close>.  Row locks, the audit log and the JSON projections have no effect on
  the state modelled here; each operation is one transaction, so an error leaves
  the state as it was.
\<close>

section \<open>State\<close>

datatype closure_event_type =
    CASE_CREATED | STATUS_TRANSITIONED | RECOVERY_ESCALATED | DOCUMENT_REVISION_CREATED
  | SETTLEMENT_REVISION_CREATED | PHYSICAL_CONTROL_CONFIRMED | INSPECTION_RECORDED
  | INVENTORY_RELEASED | NOTE_ADDED

datatype settlement_type = ESTIMATE | FINAL
datatype settlement_stage = PROPOSED | FINALIZED | SETTLED

datatype closure_error =
    AUTHORITY_MISMATCH | AUTHORITY_NOT_FOUND | CASE_ALREADY_EXISTS | CASE_NOT_FOUND
  | CURRENT_SETTLEMENT_CONFLICT | INVALID_COMMAND | SOURCE_CONFLICT | STATUS_CONFLICT
  | VERSION_CONFLICT | WRITE_CONFLICT

type_synonym source = "string \<times> id \<times> string"

record closure_case =
  cc_id :: id
  cc_orderId :: id
  cc_contractId :: id
  cc_customerId :: id
  cc_vehicleId :: id
  cc_profile :: closure_profile
  cc_status :: closure_status
  cc_effectiveAt :: time
  cc_physicalControlledAt :: "time option"
  cc_settledAt :: "time option"
  cc_closedAt :: "time option"
  cc_retiredAt :: "time option"
  cc_retiredBy :: "id option"
  cc_recoveryAssetWorkOrderId :: "id option"
  cc_reconditioningAssetWorkOrderId :: "id option"
  cc_currentSettlementRevisionId :: "id option"
  cc_version :: int
  cc_updatedBy :: id

record closure_event =
  ce_closureCaseId :: id
  ce_sequence :: int
  ce_eventType :: closure_event_type
  ce_beforeStatus :: "closure_status option"
  ce_afterStatus :: closure_status
  ce_actorId :: id
  ce_occurredAt :: time
  ce_recordedAt :: time
  ce_source :: source
  ce_detailSnapshot :: json_object

record settlement_revision =
  sr_id :: id
  sr_closureCaseId :: id
  sr_revisionNumber :: int
  sr_settlementType :: settlement_type
  sr_stage :: settlement_stage
  sr_createdAt :: time
  sr_finalizedBy :: "id option"
  sr_finalizedAt :: "time option"
  sr_settledBy :: "id option"
  sr_settledAt :: "time option"
  sr_supersedesRevisionId :: "id option"
  sr_publishedAt :: "time option"
  sr_amounts :: "amount list"

record create_case_command =
  cm_actorId :: id
  cm_profile :: closure_profile
  cm_contractId :: id
  cm_customerId :: id
  cm_orderId :: id
  cm_vehicleId :: id
  cm_effectiveAt :: time
  cm_reconditioningAssetWorkOrderId :: "id option"
  cm_recoveryAssetWorkOrderId :: "id option"
  cm_returnAssetWorkOrderId :: "id option"
  cm_returnHandoverWorkOrderId :: "id option"
  cm_vehicleReturnId :: "id option"
  cm_authoritySnapshot :: json_object
  cm_source :: source

record event_command =
  ec_actorId :: id
  ec_afterStatus :: closure_status
  ec_closureCaseId :: id
  ec_detailSnapshot :: json_object
  ec_eventType :: closure_event_type
  ec_expectedStatus :: closure_status
  ec_expectedVersion :: int
  ec_occurredAt :: time
  ec_reconditioningAssetWorkOrderId :: "id option"
  ec_recoveryAssetWorkOrderId :: "id option"
  ec_retireCase :: bool
  ec_source :: source

record escalation_command =
  es_actorId :: id
  es_closureCaseId :: id
  es_detailSnapshot :: json_object
  es_expectedStatus :: closure_status
  es_expectedVersion :: int
  es_occurredAt :: time
  es_source :: source

record settlement_command =
  sc_actorId :: id
  sc_closureCaseId :: id
  sc_expectedVersion :: int
  sc_expectedCurrentRevisionId :: "id option"
  sc_settlementType :: settlement_type
  sc_stage :: settlement_stage
  sc_finalizedBy :: "id option"
  sc_finalizedAt :: "time option"
  sc_settledBy :: "id option"
  sc_settledAt :: "time option"
  sc_managedOccurredAt :: "time option"
  sc_recordedAt :: "time option"
  sc_waiverTotalCents :: amount
  sc_waiverApprovalId :: "id option"
  sc_writeOffTotalCents :: amount
  sc_writeOffApprovalId :: "id option"
  sc_amounts :: "amount list"
  sc_source :: source

datatype closure_command = CREATE_CASE create_case_command | TRANSITION_CASE event_command
  | ESCALATE_RECOVERY escalation_command | CREATE_SETTLEMENT_REVISION settlement_command

datatype closure_outcome = CaseOutcome closure_case
  | EventOutcome closure_case closure_event | SettlementOutcome settlement_revision

record closure_receipt =
  rc_source :: source
  rc_payload :: closure_command
  rc_outcome :: closure_outcome

text \<open>The rows of other aggregates the commands read.\<close>

record order_row =
  or_id :: id
  or_contractId :: "id option"
  or_customerId :: id
  or_vehicleId :: "id option"

record contract_row =
  cr_id :: id
  cr_customerId :: id
  cr_orderId :: id

record vehicle_return_row =
  vr_id :: id
  vr_customerId :: id
  vr_orderId :: id
  vr_vehicleId :: id

record handover_row =
  hr_id :: id
  hr_handoverType :: string
  hr_orderId :: id

record asset_work_order_row =
  aw_id :: id
  aw_workOrderType :: string
  aw_orderId :: "id option"
  aw_vehicleId :: id
  aw_contractId :: "id option"
  aw_customerId :: "id option"

record closure_db =
  db_cases :: "closure_case list"
  db_events :: "closure_event list"
  db_settlements :: "settlement_revision list"
  db_receipts :: "closure_receipt list"
  db_orders :: "order_row list"
  db_contracts :: "contract_row list"
  db_returns :: "vehicle_return_row list"
  db_handovers :: "handover_row list"
  db_workOrders :: "asset_work_order_row list"

section \<open>Shared steps of the commands\<close>

definition status_name :: "closure_status \<Rightarrow> string" where
  "status_name s = (case s of
      PREPARING_RETURN \<Rightarrow> ''PREPARING_RETURN''
    | RECOVERY_ASSESSMENT_PENDING \<Rightarrow> ''RECOVERY_ASSESSMENT_PENDING''
    | RECOVERY_APPROVAL_PENDING \<Rightarrow> ''RECOVERY_APPROVAL_PENDING''
    | RECOVERY_APPROVED \<Rightarrow> ''RECOVERY_APPROVED''
    | RECOVERY_IN_PROGRESS \<Rightarrow> ''RECOVERY_IN_PROGRESS''
    | VEHICLE_SECURED \<Rightarrow> ''VEHICLE_SECURED''
    | RETURN_INSPECTION \<Rightarrow> ''RETURN_INSPECTION''
    | RECONDITIONING \<Rightarrow> ''RECONDITIONING''
    | PENDING_SETTLEMENT \<Rightarrow> ''PENDING_SETTLEMENT''
    | COMPLETED \<Rightarrow> ''COMPLETED''
    | TERMINATED \<Rightarrow> ''TERMINATED''
    | REJECTED \<Rightarrow> ''REJECTED''
    | PAUSED \<Rightarrow> ''PAUSED''
    | CANCELLED \<Rightarrow> ''CANCELLED''
    | MANUAL_TAKEOVER \<Rightarrow> ''MANUAL_TAKEOVER'')"

definition settlement_type_name :: "settlement_type \<Rightarrow> string" where
  "settlement_type_name t = (case t of ESTIMATE \<Rightarrow> ''ESTIMATE'' | FINAL \<Rightarrow> ''FINAL'')"

definition settlement_stage_name :: "settlement_stage \<Rightarrow> string" where
  "settlement_stage_name t = (case t of PROPOSED \<Rightarrow> ''PROPOSED'' | FINALIZED \<Rightarrow> ''FINALIZED''
     | SETTLED \<Rightarrow> ''SETTLED'')"

text \<open>A replayed command returns the stored outcome; another payload on its source is refused.\<close>

definition replayReceipt ::
    "closure_db \<Rightarrow> source \<Rightarrow> closure_command \<Rightarrow> (closure_error, closure_outcome option) result" where
  "replayReceipt db src cmd = (case find_row rc_source src (db_receipts db) of
       None \<Rightarrow> Inr None
     | Some r \<Rightarrow> if rc_payload r \<noteq> cmd then Inl SOURCE_CONFLICT else Inr (Some (rc_outcome r)))"

definition createReceipt :: "source \<Rightarrow> closure_command \<Rightarrow> closure_outcome \<Rightarrow> closure_db \<Rightarrow> closure_db" where
  "createReceipt src cmd outcome db =
     db\<lparr>db_receipts := db_receipts db @
       [\<lparr> rc_source = src, rc_payload = cmd, rc_outcome = outcome \<rparr>]\<rparr>"

definition createEvent :: "closure_event \<Rightarrow> closure_db \<Rightarrow> closure_db" where
  "createEvent ev db = db\<lparr>db_events := db_events db @ [ev]\<rparr>"

definition requiredCase :: "closure_db \<Rightarrow> id \<Rightarrow> (closure_error, closure_case) result" where
  "requiredCase db i = (case find_row cc_id i (db_cases db) of
       None \<Rightarrow> Inl CASE_NOT_FOUND | Some c \<Rightarrow> Inr c)"

definition events_of :: "closure_db \<Rightarrow> id \<Rightarrow> closure_event list" where
  "events_of db i = filter (\<lambda>e. ce_closureCaseId e = i) (db_events db)"

definition latestOccurredAt :: "closure_db \<Rightarrow> id \<Rightarrow> time option" where
  "latestOccurredAt db i =
     (if events_of db i = [] then None else Some (Max (set (map ce_occurredAt (events_of db i)))))"

definition assertDatabaseEventTime ::
    "closure_db \<Rightarrow> id \<Rightarrow> time \<Rightarrow> time \<Rightarrow> (closure_error, unit) result" where
  "assertDatabaseEventTime db i occurredAt now =
     (let latest = latestOccurredAt db i; reuses = (latest = Some occurredAt) in
      ensure (\<not> ((occurredAt > now \<and> \<not> reuses)
          \<or> (case latest of None \<Rightarrow> False | Some l \<Rightarrow> occurredAt < l))) INVALID_COMMAND)"

definition databaseEventOccurrence :: "closure_db \<Rightarrow> id \<Rightarrow> time \<Rightarrow> (closure_error, time) result" where
  "databaseEventOccurrence db i now = (case latestOccurredAt db i of
       None \<Rightarrow> Inr now
     | Some l \<Rightarrow> if now < l then Inl INVALID_COMMAND else Inr now)"

definition assertExpectedCase ::
    "closure_case \<Rightarrow> int \<Rightarrow> closure_status option \<Rightarrow> (closure_error, unit) result" where
  "assertExpectedCase current expectedVersion expectedStatus =
     (if cc_version current \<noteq> expectedVersion then Inl VERSION_CONFLICT
      else if expectedStatus \<noteq> None \<and> expectedStatus \<noteq> Some (cc_status current)
        then Inl STATUS_CONFLICT
      else Inr ())"

definition conflict_on_error :: "('x, unit) result \<Rightarrow> (closure_error, unit) result" where
  "conflict_on_error r = (if is_ok r then Inr () else Inl STATUS_CONFLICT)"

fun terminalStatus :: "closure_status \<Rightarrow> bool" where
  "terminalStatus s = (s \<in> set [COMPLETED, TERMINATED, REJECTED, CANCELLED])"

fun physicalControlledStatus :: "closure_status \<Rightarrow> bool" where
  "physicalControlledStatus s = (s \<in> set [VEHICLE_SECURED, RETURN_INSPECTION, RECONDITIONING,
     PENDING_SETTLEMENT, COMPLETED, TERMINATED])"

definition currentSettlement :: "closure_db \<Rightarrow> closure_case \<Rightarrow> settlement_revision option" where
  "currentSettlement db c = (case cc_currentSettlementRevisionId c of
       None \<Rightarrow> None | Some i \<Rightarrow> find_row sr_id i (db_settlements db))"

definition assertTerminalSettlementAuthority ::
    "closure_db \<Rightarrow> closure_case \<Rightarrow> closure_status \<Rightarrow> (closure_error, unit) result" where
  "assertTerminalSettlementAuthority db current target =
     (if target \<noteq> COMPLETED \<and> target \<noteq> TERMINATED then Inr ()
      else case currentSettlement db current of
          None \<Rightarrow> Inl CURRENT_SETTLEMENT_CONFLICT
        | Some r \<Rightarrow> ensure (sr_settlementType r = FINAL \<and> sr_stage r = SETTLED)
            CURRENT_SETTLEMENT_CONFLICT)"

definition assertRecoveryWorkOrderLink ::
    "closure_db \<Rightarrow> closure_case \<Rightarrow> event_command \<Rightarrow> (closure_error, unit) result" where
  "assertRecoveryWorkOrderLink db current command = (case ec_recoveryAssetWorkOrderId command of
       None \<Rightarrow> Inr ()
     | Some workOrderId \<Rightarrow>
       (if ec_afterStatus command \<noteq> RECOVERY_IN_PROGRESS
          \<or> pf_physicalControlMode (cc_profile current) \<noteq> RECOVERY
          \<or> (cc_recoveryAssetWorkOrderId current \<noteq> None
             \<and> cc_recoveryAssetWorkOrderId current \<noteq> Some workOrderId)
        then Inl AUTHORITY_MISMATCH
        else case find_row aw_id workOrderId (db_workOrders db) of
            None \<Rightarrow> Inl AUTHORITY_MISMATCH
          | Some w \<Rightarrow> ensure (aw_workOrderType w = ''RECOVERY''
              \<and> aw_orderId w = Some (cc_orderId current)
              \<and> aw_vehicleId w = cc_vehicleId current
              \<and> aw_contractId w = Some (cc_contractId current)
              \<and> aw_customerId w = Some (cc_customerId current)) AUTHORITY_MISMATCH))"

text \<open>
  The stage a pause remembers: \<open>pausedFromStatus\<close> in the detail of the last
  event whose after status is \<open>PAUSED\<close> (whatever the type of that event is).
  The code takes the last by sequence; the table is append-only and its sequences
  increase (\<open>case_history\<close> below), so that is the last row.
\<close>

definition remembered_stage :: "closure_db \<Rightarrow> id \<Rightarrow> json option" where
  "remembered_stage db i =
     (case rev (filter (\<lambda>e. ce_afterStatus e = PAUSED) (events_of db i)) of
        [] \<Rightarrow> Some JNull
      | e # _ \<Rightarrow> map_of (ce_detailSnapshot e) ''pausedFromStatus'')"

definition validateEventTransition ::
    "closure_db \<Rightarrow> closure_case \<Rightarrow> event_command \<Rightarrow> (closure_error, unit) result" where
  "validateEventTransition db current command =
     (let detail = map_of (ec_detailSnapshot command); after = ec_afterStatus command;
          ty = ec_eventType command; profile = cc_profile current in
      if ty = PHYSICAL_CONTROL_CONFIRMED \<and> pf_physicalControlMode profile = RECOVERY
         \<and> cc_status current = RECOVERY_IN_PROGRESS \<and> after = RETURN_INSPECTION
      then Inr ()
      else if ty = STATUS_TRANSITIONED \<and> after = PAUSED then
        (if detail ''recoveryAction'' \<noteq> Some (JStr ''PAUSE'')
            \<or> detail ''pausedFromStatus'' \<noteq> Some (JStr (status_name (cc_status current)))
         then Inl STATUS_CONFLICT
         else conflict_on_error (assertRecoveryPauseTransition profile (cc_status current) PAUSED None))
      else if ty = STATUS_TRANSITIONED \<and> cc_status current = PAUSED then
        (let remembered = remembered_stage db (cc_id current) in
         if detail ''recoveryAction'' \<noteq> Some (JStr ''RESUME'')
            \<or> detail ''resumedStage'' \<noteq> remembered
            \<or> remembered \<noteq> Some (JStr (status_name after))
         then Inl STATUS_CONFLICT
         else conflict_on_error (assertRecoveryPauseTransition profile PAUSED after (Some after)))
      else if ty = STATUS_TRANSITIONED \<or> ty = PHYSICAL_CONTROL_CONFIRMED \<or> ty = INSPECTION_RECORDED then
        conflict_on_error (assertSubscriptionClosureTransition profile (cc_status current) after)
      else ensure (after = cc_status current) STATUS_CONFLICT)"

section \<open>Commands\<close>

definition initialStatus :: "closure_profile \<Rightarrow> (closure_error, closure_status) result" where
  "initialStatus p =
     (if pf_closureType p = NORMAL_COMPLETION \<and> pf_physicalControlMode p = VOLUNTARY_RETURN
         \<and> pf_finalDisposition p = COMPLETE then Inr PREPARING_RETURN
      else if pf_closureType p = EARLY_TERMINATION \<and> pf_physicalControlMode p = VOLUNTARY_RETURN
         \<and> pf_finalDisposition p = TERMINATE then Inr PREPARING_RETURN
      else if pf_closureType p = EARLY_TERMINATION \<and> pf_physicalControlMode p = RECOVERY
         \<and> pf_finalDisposition p = TERMINATE then Inr RECOVERY_ASSESSMENT_PENDING
      else Inl INVALID_COMMAND)"

definition work_order_coherent ::
    "closure_db \<Rightarrow> create_case_command \<Rightarrow> id option \<times> string \<Rightarrow> bool" where
  "work_order_coherent db command link = (case fst link of None \<Rightarrow> True
     | Some i \<Rightarrow> (case find_row aw_id i (db_workOrders db) of None \<Rightarrow> False
         | Some w \<Rightarrow> aw_orderId w = Some (cm_orderId command)
             \<and> aw_vehicleId w = cm_vehicleId command
             \<and> aw_contractId w = Some (cm_contractId command)
             \<and> aw_customerId w = Some (cm_customerId command)
             \<and> aw_workOrderType w = snd link))"

definition assertCreateLinkCoherence ::
    "closure_db \<Rightarrow> create_case_command \<Rightarrow> (closure_error, unit) result" where
  "assertCreateLinkCoherence db command =
     rbind (ensure (\<not> (cm_recoveryAssetWorkOrderId command \<noteq> None
         \<and> pf_physicalControlMode (cm_profile command) \<noteq> RECOVERY)) AUTHORITY_MISMATCH) (\<lambda>_.
     rbind (ensure (case find_row cr_id (cm_contractId command) (db_contracts db) of None \<Rightarrow> False
         | Some c \<Rightarrow> cr_orderId c = cm_orderId command
             \<and> cr_customerId c = cm_customerId command) AUTHORITY_MISMATCH) (\<lambda>_.
     rbind (ensure (case cm_vehicleReturnId command of None \<Rightarrow> True
         | Some i \<Rightarrow> (case find_row vr_id i (db_returns db) of None \<Rightarrow> False
             | Some v \<Rightarrow> vr_orderId v = cm_orderId command \<and> vr_vehicleId v = cm_vehicleId command
                 \<and> vr_customerId v = cm_customerId command)) AUTHORITY_MISMATCH) (\<lambda>_.
     rbind (ensure (case cm_returnHandoverWorkOrderId command of None \<Rightarrow> True
         | Some i \<Rightarrow> (case find_row hr_id i (db_handovers db) of None \<Rightarrow> False
             | Some h \<Rightarrow> hr_orderId h = cm_orderId command
                 \<and> hr_handoverType h = ''RETURN_INBOUND'')) AUTHORITY_MISMATCH) (\<lambda>_.
     ensure (list_all (work_order_coherent db command)
       [(cm_returnAssetWorkOrderId command, ''RETURN_INBOUND''),
        (cm_recoveryAssetWorkOrderId command, ''RECOVERY''),
        (cm_reconditioningAssetWorkOrderId command, ''RECONDITIONING'')]) AUTHORITY_MISMATCH))))"

type_synonym write_outcome = "closure_outcome \<times> bool"

definition new_case :: "id \<Rightarrow> create_case_command \<Rightarrow> closure_status \<Rightarrow> closure_case" where
  "new_case newId command status =
     \<lparr> cc_id = newId, cc_orderId = cm_orderId command, cc_contractId = cm_contractId command,
       cc_customerId = cm_customerId command, cc_vehicleId = cm_vehicleId command,
       cc_profile = cm_profile command, cc_status = status,
       cc_effectiveAt = cm_effectiveAt command, cc_physicalControlledAt = None,
       cc_settledAt = None, cc_closedAt = None, cc_retiredAt = None, cc_retiredBy = None,
       cc_recoveryAssetWorkOrderId = cm_recoveryAssetWorkOrderId command,
       cc_reconditioningAssetWorkOrderId = cm_reconditioningAssetWorkOrderId command,
       cc_currentSettlementRevisionId = None, cc_version = 0,
       cc_updatedBy = cm_actorId command \<rparr>"

text \<open>
  \<open>newId\<close> is the id of the new row: the caller's \<open>caseId\<close> or a fresh UUID; the
  primary key refuses one that is taken.
\<close>

definition createCase ::
    "id \<Rightarrow> time \<Rightarrow> create_case_command \<Rightarrow> closure_db \<Rightarrow> (closure_error, write_outcome \<times> closure_db) result" where
  "createCase newId now command db =
     rbind (replayReceipt db (cm_source command) (CREATE_CASE command)) (\<lambda>replay. case replay of
       Some outcome \<Rightarrow> Inr ((outcome, False), db)
     | None \<Rightarrow>
       (case find_row or_id (cm_orderId command) (db_orders db) of
          None \<Rightarrow> Inl AUTHORITY_NOT_FOUND
        | Some order \<Rightarrow>
          rbind (ensure (or_contractId order = Some (cm_contractId command)
              \<and> or_customerId order = cm_customerId command
              \<and> or_vehicleId order = Some (cm_vehicleId command)) AUTHORITY_MISMATCH) (\<lambda>_.
          rbind (assertCreateLinkCoherence db command) (\<lambda>_.
          rbind (ensure (\<not> list_ex (\<lambda>c. cc_orderId c = cm_orderId command \<and> cc_retiredAt c = None)
              (db_cases db)) CASE_ALREADY_EXISTS) (\<lambda>_.
          rbind (initialStatus (cm_profile command)) (\<lambda>status.
          rbind (ensure (newId \<notin> set (map cc_id (db_cases db))) WRITE_CONFLICT) (\<lambda>_.
          let created = new_case newId command status;
              db1 = db\<lparr>db_cases := db_cases db @ [created]\<rparr> in
          rbind (databaseEventOccurrence db1 newId now) (\<lambda>occurredAt.
          let event = \<lparr> ce_closureCaseId = newId, ce_sequence = 1, ce_eventType = CASE_CREATED,
                ce_beforeStatus = None, ce_afterStatus = status, ce_actorId = cm_actorId command,
                ce_occurredAt = occurredAt, ce_recordedAt = now, ce_source = cm_source command,
                ce_detailSnapshot = cm_authoritySnapshot command \<rparr>;
              outcome = CaseOutcome created in
          Inr ((outcome, True), createReceipt (cm_source command) (CREATE_CASE command) outcome
            (createEvent event db1))))))))))"

definition changed_case :: "closure_case \<Rightarrow> event_command \<Rightarrow> closure_case" where
  "changed_case current command = current\<lparr>
     cc_closedAt := (if terminalStatus (ec_afterStatus command) then Some (ec_occurredAt command)
       else cc_closedAt current),
     cc_physicalControlledAt := (if physicalControlledStatus (ec_afterStatus command)
         \<and> cc_physicalControlledAt current = None then Some (ec_occurredAt command)
       else cc_physicalControlledAt current),
     cc_settledAt := (if ec_afterStatus command = COMPLETED \<or> ec_afterStatus command = TERMINATED
       then Some (ec_occurredAt command) else cc_settledAt current),
     cc_reconditioningAssetWorkOrderId := (if ec_eventType command = INSPECTION_RECORDED
         \<and> ec_reconditioningAssetWorkOrderId command \<noteq> None
       then ec_reconditioningAssetWorkOrderId command else cc_reconditioningAssetWorkOrderId current),
     cc_recoveryAssetWorkOrderId := (if ec_recoveryAssetWorkOrderId command \<noteq> None
       then ec_recoveryAssetWorkOrderId command else cc_recoveryAssetWorkOrderId current),
     cc_retiredAt := (if ec_retireCase command then Some (ec_occurredAt command) else cc_retiredAt current),
     cc_retiredBy := (if ec_retireCase command then Some (ec_actorId command) else cc_retiredBy current),
     cc_status := ec_afterStatus command,
     cc_updatedBy := ec_actorId command,
     cc_version := cc_version current + 1\<rparr>"

definition appendable_event_type :: "closure_event_type \<Rightarrow> bool" where
  "appendable_event_type ty = (ty \<in> set [STATUS_TRANSITIONED, PHYSICAL_CONTROL_CONFIRMED,
     INSPECTION_RECORDED, INVENTORY_RELEASED, NOTE_ADDED])"

definition transition_event :: "time \<Rightarrow> closure_db \<Rightarrow> closure_case \<Rightarrow> event_command \<Rightarrow> closure_event" where
  "transition_event now db current command =
     (let recordedAt = (if ec_afterStatus command = COMPLETED \<or> ec_afterStatus command = TERMINATED
          then (case currentSettlement db current of Some r \<Rightarrow> sr_createdAt r | None \<Rightarrow> now)
          else now) in
      \<lparr> ce_closureCaseId = cc_id current, ce_sequence = cc_version current + 2,
        ce_eventType = ec_eventType command, ce_beforeStatus = Some (cc_status current),
        ce_afterStatus = ec_afterStatus command, ce_actorId = ec_actorId command,
        ce_occurredAt = ec_occurredAt command, ce_recordedAt = recordedAt,
        ce_source = ec_source command, ce_detailSnapshot = ec_detailSnapshot command \<rparr>)"

definition appendEvent ::
    "time \<Rightarrow> event_command \<Rightarrow> closure_db \<Rightarrow> (closure_error, write_outcome \<times> closure_db) result" where
  "appendEvent now command db =
     rbind (ensure (appendable_event_type (ec_eventType command)) INVALID_COMMAND) (\<lambda>_.
     rbind (replayReceipt db (ec_source command) (TRANSITION_CASE command)) (\<lambda>replay. case replay of
       Some outcome \<Rightarrow> Inr ((outcome, False), db)
     | None \<Rightarrow>
       rbind (requiredCase db (ec_closureCaseId command)) (\<lambda>current.
       rbind (assertExpectedCase current (ec_expectedVersion command)
         (Some (ec_expectedStatus command))) (\<lambda>_.
       rbind (assertDatabaseEventTime db (cc_id current) (ec_occurredAt command) now) (\<lambda>_.
       rbind (validateEventTransition db current command) (\<lambda>_.
       rbind (assertRecoveryWorkOrderLink db current command) (\<lambda>_.
       rbind (assertTerminalSettlementAuthority db current (ec_afterStatus command)) (\<lambda>_.
       let changed = changed_case current command;
           event = transition_event now db current command;
           outcome = EventOutcome changed event;
           db1 = db\<lparr>db_cases := upd_row cc_id (cc_id current) (\<lambda>_. changed) (db_cases db)\<rparr> in
       Inr ((outcome, True), createReceipt (ec_source command) (TRANSITION_CASE command) outcome
         (createEvent event db1))))))))))"

definition escalated_case :: "closure_case \<Rightarrow> id \<Rightarrow> closure_case" where
  "escalated_case current actor = current\<lparr>
     cc_profile := (cc_profile current)\<lparr>pf_finalDisposition := TERMINATE,
       pf_physicalControlMode := RECOVERY\<rparr>,
     cc_status := RECOVERY_ASSESSMENT_PENDING,
     cc_updatedBy := actor,
     cc_version := cc_version current + 1\<rparr>"

definition escalation_event :: "time \<Rightarrow> closure_case \<Rightarrow> escalation_command \<Rightarrow> closure_event" where
  "escalation_event now current command =
     \<lparr> ce_closureCaseId = cc_id current, ce_sequence = cc_version current + 2,
       ce_eventType = RECOVERY_ESCALATED, ce_beforeStatus = Some (cc_status current),
       ce_afterStatus = RECOVERY_ASSESSMENT_PENDING, ce_actorId = es_actorId command,
       ce_occurredAt = es_occurredAt command, ce_recordedAt = now,
       ce_source = es_source command, ce_detailSnapshot = es_detailSnapshot command \<rparr>"

definition escalateRecovery ::
    "time \<Rightarrow> escalation_command \<Rightarrow> closure_db \<Rightarrow> (closure_error, write_outcome \<times> closure_db) result" where
  "escalateRecovery now command db =
     rbind (replayReceipt db (es_source command) (ESCALATE_RECOVERY command)) (\<lambda>replay. case replay of
       Some outcome \<Rightarrow> Inr ((outcome, False), db)
     | None \<Rightarrow>
       rbind (requiredCase db (es_closureCaseId command)) (\<lambda>current.
       rbind (assertExpectedCase current (es_expectedVersion command)
         (Some (es_expectedStatus command))) (\<lambda>_.
       rbind (assertDatabaseEventTime db (cc_id current) (es_occurredAt command) now) (\<lambda>_.
       rbind (conflict_on_error (assertSubscriptionClosureEscalation (cc_profile current)
         (cc_physicalControlledAt current) (cc_status current)
         \<lparr> pf_closureType = pf_closureType (cc_profile current), pf_physicalControlMode = RECOVERY,
           pf_finalDisposition = TERMINATE \<rparr>)) (\<lambda>_.
       let changed = escalated_case current (es_actorId command);
           event = escalation_event now current command;
           outcome = EventOutcome changed event;
           db1 = db\<lparr>db_cases := upd_row cc_id (cc_id current) (\<lambda>_. changed) (db_cases db)\<rparr> in
       Inr ((outcome, True), createReceipt (es_source command) (ESCALATE_RECOVERY command) outcome
         (createEvent event db1)))))))"

datatype presence = ABSENT | PARTIAL | PRESENT

definition nullableGroup :: "bool list \<Rightarrow> presence" where
  "nullableGroup present =
     (if \<not> list_ex id present then ABSENT else if list_all id present then PRESENT else PARTIAL)"

definition opt_lt :: "time option \<Rightarrow> time option \<Rightarrow> bool" where
  "opt_lt a b = (case (a, b) of (Some x, Some y) \<Rightarrow> x < y | _ \<Rightarrow> False)"

definition assertSettlementShape :: "settlement_command \<Rightarrow> (closure_error, unit) result" where
  "assertSettlementShape command =
     (let finalization = nullableGroup [sc_finalizedBy command \<noteq> None, sc_finalizedAt command \<noteq> None];
          settlement = nullableGroup [sc_settledBy command \<noteq> None, sc_settledAt command \<noteq> None];
          stage = sc_stage command; type = sc_settlementType command in
      ensure (\<not> (finalization = PARTIAL \<or> settlement = PARTIAL
        \<or> (stage = PROPOSED \<and> (finalization = PRESENT \<or> settlement = PRESENT))
        \<or> (stage = FINALIZED \<and> (type \<noteq> FINAL \<or> finalization \<noteq> PRESENT \<or> settlement = PRESENT))
        \<or> (stage = SETTLED \<and> (type \<noteq> FINAL \<or> finalization \<noteq> PRESENT \<or> settlement \<noteq> PRESENT))
        \<or> (sc_waiverTotalCents command = 0) \<noteq> (sc_waiverApprovalId command = None)
        \<or> (sc_writeOffTotalCents command = 0) \<noteq> (sc_writeOffApprovalId command = None)
        \<or> (sc_managedOccurredAt command = None) \<noteq> (sc_recordedAt command = None)
        \<or> opt_lt (sc_recordedAt command) (sc_managedOccurredAt command)
        \<or> opt_lt (sc_recordedAt command) (sc_finalizedAt command)
        \<or> opt_lt (sc_recordedAt command) (sc_settledAt command)
        \<or> opt_lt (sc_settledAt command) (sc_finalizedAt command))) INVALID_COMMAND)"

definition assertSettlementLifecycleAtDatabaseClock ::
    "time \<Rightarrow> settlement_command \<Rightarrow> (closure_error, unit) result" where
  "assertSettlementLifecycleAtDatabaseClock now command =
     ensure (\<not> list_ex (opt_lt (Some now)) [sc_managedOccurredAt command, sc_recordedAt command,
       sc_finalizedAt command, sc_settledAt command]) INVALID_COMMAND"

definition assertSettlementPredecessorChronology ::
    "settlement_command \<Rightarrow> settlement_revision option \<Rightarrow> (closure_error, unit) result" where
  "assertSettlementPredecessorChronology command predecessor =
     (if sc_stage command = PROPOSED then Inr ()
      else case predecessor of
          None \<Rightarrow> Inl INVALID_COMMAND
        | Some p \<Rightarrow> ensure (\<not> (
            (sc_stage command = FINALIZED \<and> (sr_stage p \<noteq> PROPOSED
               \<or> opt_lt (sc_finalizedAt command) (Some (sr_createdAt p))))
            \<or> (sc_stage command = SETTLED \<and> (sr_stage p \<noteq> FINALIZED
               \<or> sr_finalizedAt p = None \<or> sr_finalizedBy p = None
               \<or> sc_finalizedAt command \<noteq> sr_finalizedAt p
               \<or> sc_finalizedBy command \<noteq> sr_finalizedBy p
               \<or> opt_lt (sc_settledAt command) (sr_finalizedAt p))))) INVALID_COMMAND)"

definition new_revision ::
    "id \<Rightarrow> time \<Rightarrow> closure_db \<Rightarrow> closure_case \<Rightarrow> settlement_command \<Rightarrow> settlement_revision" where
  "new_revision revisionId now db current command =
     (let predecessor = currentSettlement db current in
      \<lparr> sr_id = revisionId, sr_closureCaseId = cc_id current,
        sr_revisionNumber = (case predecessor of None \<Rightarrow> 0 | Some p \<Rightarrow> sr_revisionNumber p) + 1,
        sr_settlementType = sc_settlementType command, sr_stage = sc_stage command,
        sr_createdAt = (case sc_recordedAt command of Some t \<Rightarrow> t | None \<Rightarrow> now),
        sr_finalizedBy = sc_finalizedBy command, sr_finalizedAt = sc_finalizedAt command,
        sr_settledBy = sc_settledBy command, sr_settledAt = sc_settledAt command,
        sr_supersedesRevisionId = map_option sr_id predecessor,
        sr_publishedAt = (if sc_stage command = FINALIZED then sc_finalizedAt command else None),
        sr_amounts = sc_amounts command \<rparr>)"

definition settlement_event ::
    "closure_case \<Rightarrow> settlement_command \<Rightarrow> settlement_revision \<Rightarrow> closure_event" where
  "settlement_event current command created =
     \<lparr> ce_closureCaseId = cc_id current, ce_sequence = cc_version current + 2,
       ce_eventType = SETTLEMENT_REVISION_CREATED, ce_beforeStatus = Some (cc_status current),
       ce_afterStatus = cc_status current, ce_actorId = sc_actorId command,
       ce_occurredAt = sr_createdAt created, ce_recordedAt = sr_createdAt created,
       ce_source = sc_source command,
       ce_detailSnapshot = [(''revisionNumber'', JNum (sr_revisionNumber created)),
         (''settlementRevisionId'', JStr (sr_id created)),
         (''settlementType'', JStr (settlement_type_name (sr_settlementType created))),
         (''stage'', JStr (settlement_stage_name (sr_stage created)))] \<rparr>"

definition settled_case :: "id \<Rightarrow> id \<Rightarrow> closure_case \<Rightarrow> closure_case" where
  "settled_case revisionId actor c = c\<lparr>cc_currentSettlementRevisionId := Some revisionId,
     cc_updatedBy := actor, cc_version := cc_version c + 1\<rparr>"

text \<open>\<open>revisionId\<close> is the fresh UUID of the revision; the amounts and snapshots are carried along.\<close>

definition appendSettlementRevision ::
    "id \<Rightarrow> time \<Rightarrow> settlement_command \<Rightarrow> closure_db \<Rightarrow> (closure_error, write_outcome \<times> closure_db) result" where
  "appendSettlementRevision revisionId now command db =
     rbind (assertSettlementShape command) (\<lambda>_.
     rbind (assertSettlementLifecycleAtDatabaseClock now command) (\<lambda>_.
     rbind (replayReceipt db (sc_source command) (CREATE_SETTLEMENT_REVISION command)) (\<lambda>replay.
     case replay of
       Some outcome \<Rightarrow> Inr ((outcome, False), db)
     | None \<Rightarrow>
       rbind (requiredCase db (sc_closureCaseId command)) (\<lambda>current.
       rbind (assertExpectedCase current (sc_expectedVersion command) None) (\<lambda>_.
       rbind (ensure (cc_currentSettlementRevisionId current = sc_expectedCurrentRevisionId command)
         CURRENT_SETTLEMENT_CONFLICT) (\<lambda>_.
       let predecessor = currentSettlement db current in
       rbind (ensure (\<not> (cc_currentSettlementRevisionId current \<noteq> None \<and> predecessor = None))
         AUTHORITY_MISMATCH) (\<lambda>_.
       rbind (assertSettlementPredecessorChronology command predecessor) (\<lambda>_.
       rbind (ensure (revisionId \<notin> set (map sr_id (db_settlements db))) WRITE_CONFLICT) (\<lambda>_.
       let created = new_revision revisionId now db current command;
           event = settlement_event current command created;
           outcome = SettlementOutcome created;
           db1 = db\<lparr>db_settlements := db_settlements db @ [created],
             db_cases := upd_row cc_id (cc_id current) (\<lambda>_. settled_case revisionId
               (sc_actorId command) current) (db_cases db)\<rparr> in
       Inr ((outcome, True), createReceipt (sc_source command) (CREATE_SETTLEMENT_REVISION command)
         outcome (createEvent event db1)))))))))))"

section \<open>The aggregate as a machine\<close>

datatype closure_op = OpCreate id create_case_command | OpEvent event_command
  | OpEscalate escalation_command | OpSettle id settlement_command

fun closure_apply :: "closure_op \<times> time \<Rightarrow> closure_db \<Rightarrow> (closure_error, write_outcome \<times> closure_db) result" where
  "closure_apply (OpCreate i c, now) db = createCase i now c db"
| "closure_apply (OpEvent c, now) db = appendEvent now c db"
| "closure_apply (OpEscalate c, now) db = escalateRecovery now c db"
| "closure_apply (OpSettle i c, now) db = appendSettlementRevision i now c db"

definition closure_exec :: "closure_op \<times> time \<Rightarrow> closure_db \<Rightarrow> (closure_error, closure_db) result" where
  "closure_exec c db = rbind (closure_apply c db) (\<lambda>r. Inr (snd r))"

section \<open>One step of the history\<close>

definition valid_profile :: "closure_profile \<Rightarrow> bool" where
  "valid_profile p = is_ok (allowedSubscriptionClosureTransitions p)"

text \<open>The moves of the status in an event: the matrices, pause and resume, the two shortcuts.\<close>

definition history_move :: "closure_status \<Rightarrow> closure_status \<Rightarrow> bool" where
  "history_move s t =
     (s = t \<or> t \<in> set (NORMAL_VOLUNTARY s) \<or> t \<in> set (EARLY_VOLUNTARY s) \<or> t \<in> set (RECOVERY_MATRIX s)
      \<or> (t = PAUSED \<and> s \<in> set RECOVERY_PAUSABLE_STATUSES)
      \<or> (s = PAUSED \<and> t \<in> set RECOVERY_PAUSABLE_STATUSES)
      \<or> (s = PREPARING_RETURN \<and> t = RECOVERY_ASSESSMENT_PENDING)
      \<or> (s = RECOVERY_IN_PROGRESS \<and> t = RETURN_INSPECTION))"

text \<open>The CHECK constraints of the case table a state must satisfy.\<close>

definition case_shape :: "closure_case \<Rightarrow> bool" where
  "case_shape c =
     (valid_profile (cc_profile c)
      \<and> (cc_status c \<in> set [RECOVERY_ASSESSMENT_PENDING, RECOVERY_APPROVAL_PENDING, RECOVERY_APPROVED,
           RECOVERY_IN_PROGRESS, VEHICLE_SECURED, PAUSED] \<longrightarrow>
         pf_physicalControlMode (cc_profile c) = RECOVERY)
      \<and> (closed_status (cc_status c) \<longleftrightarrow> cc_closedAt c \<noteq> None)
      \<and> (cc_status c = COMPLETED \<longrightarrow> pf_finalDisposition (cc_profile c) = COMPLETE)
      \<and> (cc_status c = TERMINATED \<longrightarrow> pf_finalDisposition (cc_profile c) = TERMINATE)
      \<and> (cc_status c \<in> set [COMPLETED, TERMINATED] \<longrightarrow> cc_settledAt c \<noteq> None)
      \<and> (physicalControlledStatus (cc_status c) \<longrightarrow> cc_physicalControlledAt c \<noteq> None)
      \<and> 0 \<le> cc_version c)"

definition record_step ::
    "closure_db \<Rightarrow> closure_case \<Rightarrow> closure_case \<Rightarrow> closure_event \<Rightarrow> closure_receipt \<Rightarrow> closure_db \<Rightarrow> bool" where
  "record_step db current changed ev rc db' =
     (current \<in> set (db_cases db)
      \<and> db_cases db' = upd_row cc_id (cc_id current) (\<lambda>_. changed) (db_cases db)
      \<and> db_events db' = db_events db @ [ev]
      \<and> db_receipts db' = db_receipts db @ [rc]
      \<and> rc_source rc = ce_source ev \<and> find_row rc_source (ce_source ev) (db_receipts db) = None
      \<and> ce_closureCaseId ev = cc_id current \<and> ce_sequence ev = cc_version current + 2
      \<and> ce_beforeStatus ev = Some (cc_status current) \<and> ce_afterStatus ev = cc_status changed
      \<and> ce_eventType ev \<noteq> CASE_CREATED
      \<and> (\<forall>e \<in> set (events_of db (cc_id current)). ce_occurredAt e \<le> ce_occurredAt ev \<or>
           ce_eventType ev = SETTLEMENT_REVISION_CREATED)
      \<and> history_move (cc_status current) (cc_status changed)
      \<and> cc_id changed = cc_id current \<and> cc_orderId changed = cc_orderId current
      \<and> cc_version changed = cc_version current + 1
      \<and> (cc_retiredAt changed = None \<longrightarrow> cc_retiredAt current = None)
      \<and> (case_shape current \<longrightarrow> case_shape changed))"

definition create_step ::
    "closure_db \<Rightarrow> closure_case \<Rightarrow> closure_event \<Rightarrow> closure_receipt \<Rightarrow> closure_db \<Rightarrow> bool" where
  "create_step db created ev rc db' =
     (cc_id created \<notin> set (map cc_id (db_cases db))
      \<and> db_cases db' = db_cases db @ [created]
      \<and> db_events db' = db_events db @ [ev]
      \<and> db_receipts db' = db_receipts db @ [rc]
      \<and> rc_source rc = ce_source ev \<and> find_row rc_source (ce_source ev) (db_receipts db) = None
      \<and> ce_closureCaseId ev = cc_id created \<and> ce_sequence ev = 1 \<and> ce_beforeStatus ev = None
      \<and> ce_afterStatus ev = cc_status created \<and> ce_eventType ev = CASE_CREATED
      \<and> cc_version created = 0 \<and> case_shape created
      \<and> (\<forall>c \<in> set (db_cases db). cc_orderId c = cc_orderId created \<longrightarrow> cc_retiredAt c \<noteq> None))"

lemma replayReceipt_simps:
  "replayReceipt db src cmd = Inr None \<longleftrightarrow> find_row rc_source src (db_receipts db) = None"
  "replayReceipt db src cmd = Inr (Some out) \<longleftrightarrow>
     (\<exists>r. find_row rc_source src (db_receipts db) = Some r \<and> rc_payload r = cmd \<and> rc_outcome r = out)"
  by (auto simp: replayReceipt_def split: option.splits)

lemma requiredCase_Inr:
  "requiredCase db i = Inr c \<Longrightarrow> c \<in> set (db_cases db) \<and> cc_id c = i"
  using find_row_Some [of cc_id i "db_cases db"] by (auto simp: requiredCase_def split: option.splits)

lemma assertExpectedCase_Inr:
  "assertExpectedCase c v s = Inr () \<longleftrightarrow> cc_version c = v \<and> (s = None \<or> s = Some (cc_status c))"
  by (auto simp: assertExpectedCase_def)

lemma assertDatabaseEventTime_Inr:
  assumes "assertDatabaseEventTime db i t now = Inr ()" and "e \<in> set (events_of db i)"
  shows "ce_occurredAt e \<le> t"
proof -
  have "ce_occurredAt e \<le> Max (set (map ce_occurredAt (events_of db i)))"
    using assms(2) by (intro Max_ge) auto
  moreover have "latestOccurredAt db i = Some (Max (set (map ce_occurredAt (events_of db i))))"
    using assms(2) by (auto simp: latestOccurredAt_def)
  ultimately show ?thesis
    using assms(1) by (auto simp: assertDatabaseEventTime_def Let_def)
qed

lemma conflict_on_error_Inr: "conflict_on_error r = Inr () \<longleftrightarrow> is_ok r"
  by (simp add: conflict_on_error_def)

lemma validate_move:
  assumes "validateEventTransition db current command = Inr ()"
    and "appendable_event_type (ec_eventType command)"
  shows "history_move (cc_status current) (ec_afterStatus command)"
    and "valid_profile (cc_profile current) \<Longrightarrow>
      ec_afterStatus command = cc_status current
      \<or> closure_step (cc_profile current) (cc_status current) (ec_afterStatus command)
      \<or> (pf_physicalControlMode (cc_profile current) = RECOVERY
         \<and> \<not> closed_status (cc_status current) \<and> \<not> closed_status (ec_afterStatus command))"
  using assms
  by (auto simp: validateEventTransition_def Let_def conflict_on_error_Inr history_move_def
      closure_step_matrix assertRecoveryPauseTransition_def closure_step_def
      assertSubscriptionClosureTransition_def is_ok_iff RECOVERY_PAUSABLE_STATUSES_def
      split: if_splits elim!: allowed_cases)

lemma changed_case_shape:
  assumes shape: "case_shape current"
    and valid: "validateEventTransition db current command = Inr ()"
    and ty: "appendable_event_type (ec_eventType command)"
  shows "case_shape (changed_case current command)"
proof -
  let ?p = "cc_profile current" and ?s = "cc_status current" and ?t = "ec_afterStatus command"
  have vp: "valid_profile ?p" using shape by (simp add: case_shape_def)
  note mv = validate_move(2) [OF valid ty vp]
  have mode: "?t \<in> set [RECOVERY_ASSESSMENT_PENDING, RECOVERY_APPROVAL_PENDING, RECOVERY_APPROVED,
      RECOVERY_IN_PROGRESS, VEHICLE_SECURED, PAUSED] \<Longrightarrow> pf_physicalControlMode ?p = RECOVERY"
    using mv shape
    by (cases ?s; auto simp: case_shape_def closure_step_matrix EARLY_VOLUNTARY_def elim!: allowed_cases)
  have closed: "closed_status ?s \<Longrightarrow> ?t = ?s"
    using mv closure.terminal_step by auto
  have comp: "?t = COMPLETED \<Longrightarrow> pf_finalDisposition ?p = COMPLETE"
    using mv shape
    by (cases ?s; auto simp: case_shape_def closure_step_matrix EARLY_VOLUNTARY_def elim!: allowed_cases)
  have tmd: "?t = TERMINATED \<Longrightarrow> pf_finalDisposition ?p = TERMINATE"
    using mv shape
    by (cases ?s; auto simp: case_shape_def closure_step_matrix EARLY_VOLUNTARY_def elim!: allowed_cases)
  have tc: "terminalStatus ?t \<longleftrightarrow> closed_status ?t"
    by (cases ?t) auto
  let ?ch = "changed_case current command"
  have ver: "0 \<le> cc_version current" using shape by (simp only: case_shape_def)
  have f: "cc_status ?ch = ?t" "cc_profile ?ch = ?p" "cc_version ?ch = cc_version current + 1"
    "cc_closedAt ?ch = (if closed_status ?t then Some (ec_occurredAt command) else cc_closedAt current)"
    unfolding changed_case_def tc by simp_all
  have g: "?t \<in> set [COMPLETED, TERMINATED] \<Longrightarrow> cc_settledAt ?ch \<noteq> None"
    by (auto simp: changed_case_def)
  have h: "physicalControlledStatus ?t \<Longrightarrow> cc_physicalControlledAt ?ch \<noteq> None"
    unfolding changed_case_def by simp
  have k: "closed_status ?t \<longleftrightarrow> cc_closedAt ?ch \<noteq> None"
  proof -
    have "closed_status ?s \<longleftrightarrow> cc_closedAt current \<noteq> None" using shape by (simp only: case_shape_def)
    then show ?thesis unfolding f(4) using closed by (cases "closed_status ?t") auto
  qed
  show ?thesis
    unfolding case_shape_def f(1-3) 
    by (intro conjI impI) (fact vp | erule mode | erule comp | erule tmd | rule k | erule g | erule h
      | (use ver in simp))+
qed

lemma appendEvent_step:
  assumes "appendEvent now command db = Inr ((outcome, wrote), db')"
  shows "(wrote = False \<and> db' = db \<and> replayReceipt db (ec_source command) (TRANSITION_CASE command)
      = Inr (Some outcome))
    \<or> (wrote \<and> (\<exists>current ev. requiredCase db (ec_closureCaseId command) = Inr current
        \<and> cc_version current = ec_expectedVersion command
        \<and> validateEventTransition db current command = Inr ()
        \<and> assertTerminalSettlementAuthority db current (ec_afterStatus command) = Inr ()
        \<and> record_step db current (changed_case current command) ev
          \<lparr> rc_source = ec_source command, rc_payload = TRANSITION_CASE command, rc_outcome = outcome \<rparr> db'
        \<and> ce_detailSnapshot ev = ec_detailSnapshot command \<and> ce_occurredAt ev = ec_occurredAt command
        \<and> db_settlements db' = db_settlements db
        \<and> outcome = EventOutcome (changed_case current command) ev))"
proof -
  have ty: "appendable_event_type (ec_eventType command)"
    using assms by (auto simp: appendEvent_def)
  obtain replay where rep: "replayReceipt db (ec_source command) (TRANSITION_CASE command) = Inr replay"
    using assms by (auto simp: appendEvent_def)
  show ?thesis
  proof (cases replay)
    case (Some out)
    then show ?thesis using assms rep ty by (auto simp: appendEvent_def)
  next
    case None
    then obtain current where cur: "requiredCase db (ec_closureCaseId command) = Inr current"
      using assms rep by (auto simp: appendEvent_def)
    have ver: "assertExpectedCase current (ec_expectedVersion command)
        (Some (ec_expectedStatus command)) = Inr ()"
      using assms rep None cur by (auto simp: appendEvent_def)
    have time: "assertDatabaseEventTime db (cc_id current) (ec_occurredAt command) now = Inr ()"
      using assms rep None cur by (auto simp: appendEvent_def)
    have valid: "validateEventTransition db current command = Inr ()"
      using assms rep None cur by (auto simp: appendEvent_def)
    have link: "assertRecoveryWorkOrderLink db current command = Inr ()"
      using assms rep None cur by (auto simp: appendEvent_def)
    have fin: "assertTerminalSettlementAuthority db current (ec_afterStatus command) = Inr ()"
      using assms rep None cur by (auto simp: appendEvent_def)
    let ?ch = "changed_case current command" and ?ev = "transition_event now db current command"
    have res: "outcome = EventOutcome ?ch ?ev" "wrote"
      "db' = createReceipt (ec_source command) (TRANSITION_CASE command) outcome (createEvent ?ev
        (db\<lparr>db_cases := upd_row cc_id (cc_id current) (\<lambda>_. ?ch) (db_cases db)\<rparr>))"
      using assms by (auto simp: appendEvent_def rep None cur ver time valid link fin ty Let_def)
    have nty: "ec_eventType command \<noteq> CASE_CREATED"
      using ty by (auto simp: appendable_event_type_def)
    have norow: "find_row rc_source (ec_source command) (db_receipts db) = None"
      using rep None by (simp add: replayReceipt_simps)
    have "record_step db current ?ch ?ev \<lparr> rc_source = ec_source command,
        rc_payload = TRANSITION_CASE command, rc_outcome = outcome \<rparr> db'"
      unfolding record_step_def res(3)
      using requiredCase_Inr [OF cur] assertDatabaseEventTime_Inr [OF time] norow nty
        changed_case_shape [OF _ valid ty] validate_move(1) [OF valid ty]
      by (simp add: createReceipt_def createEvent_def transition_event_def changed_case_def Let_def)
    moreover have "db_settlements db' = db_settlements db"
      by (simp add: res(3) createReceipt_def createEvent_def)
    ultimately show ?thesis
      using cur ver valid fin res(1,2)
      by (auto simp: assertExpectedCase_Inr transition_event_def Let_def)
  qed
qed

lemma escalateRecovery_step:
  assumes "escalateRecovery now command db = Inr ((outcome, wrote), db')"
  shows "(wrote = False \<and> db' = db \<and> replayReceipt db (es_source command) (ESCALATE_RECOVERY command)
      = Inr (Some outcome))
    \<or> (wrote \<and> (\<exists>current ev. requiredCase db (es_closureCaseId command) = Inr current
        \<and> cc_version current = es_expectedVersion command
        \<and> cc_status current = PREPARING_RETURN
        \<and> record_step db current (escalated_case current (es_actorId command)) ev
          \<lparr> rc_source = es_source command, rc_payload = ESCALATE_RECOVERY command, rc_outcome = outcome \<rparr> db'
        \<and> db_settlements db' = db_settlements db))"
proof -
  obtain replay where rep: "replayReceipt db (es_source command) (ESCALATE_RECOVERY command) = Inr replay"
    using assms by (auto simp: escalateRecovery_def)
  show ?thesis
  proof (cases replay)
    case (Some out)
    then show ?thesis using assms rep by (auto simp: escalateRecovery_def)
  next
    case None
    then obtain current where cur: "requiredCase db (es_closureCaseId command) = Inr current"
      using assms rep by (auto simp: escalateRecovery_def)
    have ver: "assertExpectedCase current (es_expectedVersion command)
        (Some (es_expectedStatus command)) = Inr ()"
      using assms rep None cur by (auto simp: escalateRecovery_def)
    have time: "assertDatabaseEventTime db (cc_id current) (es_occurredAt command) now = Inr ()"
      using assms rep None cur by (auto simp: escalateRecovery_def)
    have esc: "conflict_on_error (assertSubscriptionClosureEscalation (cc_profile current)
         (cc_physicalControlledAt current) (cc_status current)
         \<lparr> pf_closureType = pf_closureType (cc_profile current), pf_physicalControlMode = RECOVERY,
           pf_finalDisposition = TERMINATE \<rparr>) = Inr ()"
      using assms rep None cur by (auto simp: escalateRecovery_def)
    let ?ch = "escalated_case current (es_actorId command)" and ?ev = "escalation_event now current command"
    have res: "outcome = EventOutcome ?ch ?ev" "wrote"
      "db' = createReceipt (es_source command) (ESCALATE_RECOVERY command) outcome (createEvent ?ev
        (db\<lparr>db_cases := upd_row cc_id (cc_id current) (\<lambda>_. ?ch) (db_cases db)\<rparr>))"
      using assms by (auto simp: escalateRecovery_def rep None cur ver time esc Let_def)
    have st: "cc_status current = PREPARING_RETURN" "cc_physicalControlledAt current = None"
      using esc by (auto simp: assertSubscriptionClosureEscalation_def conflict_on_error_Inr is_ok_iff)
    have shape: "case_shape current \<Longrightarrow> case_shape ?ch"
      using st by (auto simp: case_shape_def escalated_case_def valid_profile_def
          allowedSubscriptionClosureTransitions_def)
    have norow: "find_row rc_source (es_source command) (db_receipts db) = None"
      using rep None by (simp add: replayReceipt_simps)
    have "record_step db current ?ch ?ev \<lparr> rc_source = es_source command,
        rc_payload = ESCALATE_RECOVERY command, rc_outcome = outcome \<rparr> db'"
      unfolding record_step_def res(3)
      using requiredCase_Inr [OF cur] assertDatabaseEventTime_Inr [OF time] norow st shape
      by (simp add: createReceipt_def createEvent_def escalation_event_def escalated_case_def
          history_move_def)
    then show ?thesis
      using cur ver st res(2)
      by (auto simp: assertExpectedCase_Inr res(3) createReceipt_def createEvent_def)
  qed
qed

lemma settled_case_shape: "case_shape c \<Longrightarrow> case_shape (settled_case i a c)"
  by (simp add: case_shape_def settled_case_def)

lemma appendSettlementRevision_step:
  assumes "appendSettlementRevision revisionId now command db = Inr ((outcome, wrote), db')"
  shows "(wrote = False \<and> db' = db \<and> replayReceipt db (sc_source command)
      (CREATE_SETTLEMENT_REVISION command) = Inr (Some outcome))
    \<or> (wrote \<and> (\<exists>current ev. requiredCase db (sc_closureCaseId command) = Inr current
        \<and> cc_version current = sc_expectedVersion command
        \<and> record_step db current (settled_case revisionId (sc_actorId command) current) ev
          \<lparr> rc_source = sc_source command, rc_payload = CREATE_SETTLEMENT_REVISION command,
            rc_outcome = outcome \<rparr> db'))"
proof -
  have shape: "assertSettlementShape command = Inr ()"
    and clock: "assertSettlementLifecycleAtDatabaseClock now command = Inr ()"
    using assms by (auto simp: appendSettlementRevision_def)
  obtain replay where rep: "replayReceipt db (sc_source command)
      (CREATE_SETTLEMENT_REVISION command) = Inr replay"
    using assms by (auto simp: appendSettlementRevision_def)
  show ?thesis
  proof (cases replay)
    case (Some out)
    then show ?thesis using assms rep shape clock by (auto simp: appendSettlementRevision_def)
  next
    case None
    then obtain current where cur: "requiredCase db (sc_closureCaseId command) = Inr current"
      using assms rep by (auto simp: appendSettlementRevision_def)
    have ver: "assertExpectedCase current (sc_expectedVersion command) None = Inr ()"
      using assms rep None cur by (auto simp: appendSettlementRevision_def)
    have guards: "cc_currentSettlementRevisionId current = sc_expectedCurrentRevisionId command"
      "\<not> (cc_currentSettlementRevisionId current \<noteq> None \<and> currentSettlement db current = None)"
      "assertSettlementPredecessorChronology command (currentSettlement db current) = Inr ()"
      "revisionId \<notin> set (map sr_id (db_settlements db))"
      using assms rep None cur by (auto simp: appendSettlementRevision_def Let_def)
    let ?rev = "new_revision revisionId now db current command"
    let ?ch = "settled_case revisionId (sc_actorId command) current"
    let ?ev = "settlement_event current command ?rev"
    have res: "outcome = SettlementOutcome ?rev" "wrote"
      "db' = createReceipt (sc_source command) (CREATE_SETTLEMENT_REVISION command) outcome
        (createEvent ?ev (db\<lparr>db_settlements := db_settlements db @ [?rev],
          db_cases := upd_row cc_id (cc_id current) (\<lambda>_. ?ch) (db_cases db)\<rparr>))"
      using assms guards
      by (auto simp: appendSettlementRevision_def rep None cur ver shape clock Let_def)
    have norow: "find_row rc_source (sc_source command) (db_receipts db) = None"
      using rep None by (simp add: replayReceipt_simps)
    have "record_step db current ?ch ?ev \<lparr> rc_source = sc_source command,
        rc_payload = CREATE_SETTLEMENT_REVISION command, rc_outcome = outcome \<rparr> db'"
      unfolding record_step_def res(3)
      using requiredCase_Inr [OF cur] norow settled_case_shape [of current]
      by (simp add: createReceipt_def createEvent_def settlement_event_def settled_case_def
          history_move_def)
    then show ?thesis
      using cur ver res(2) by (auto simp: assertExpectedCase_Inr)
  qed
qed

lemma createCase_step:
  assumes "createCase newId now command db = Inr ((outcome, wrote), db')"
  shows "(wrote = False \<and> db' = db \<and> replayReceipt db (cm_source command) (CREATE_CASE command)
      = Inr (Some outcome))
    \<or> (wrote \<and> (\<exists>created ev. create_step db created ev
          \<lparr> rc_source = cm_source command, rc_payload = CREATE_CASE command, rc_outcome = outcome \<rparr> db'
        \<and> cc_id created = newId \<and> cc_orderId created = cm_orderId command
        \<and> outcome = CaseOutcome created))"
proof -
  obtain replay where rep: "replayReceipt db (cm_source command) (CREATE_CASE command) = Inr replay"
    using assms by (auto simp: createCase_def)
  show ?thesis
  proof (cases replay)
    case (Some out)
    then show ?thesis using assms rep by (auto simp: createCase_def)
  next
    case None
    then obtain order where ord: "find_row or_id (cm_orderId command) (db_orders db) = Some order"
      using assms rep by (auto simp: createCase_def split: option.splits)
    obtain status where st: "initialStatus (cm_profile command) = Inr status"
      using assms rep None ord by (auto simp: createCase_def)
    have fresh: "newId \<notin> set (map cc_id (db_cases db))"
      and open_case: "\<not> list_ex (\<lambda>c. cc_orderId c = cm_orderId command \<and> cc_retiredAt c = None)
        (db_cases db)"
      using assms rep None ord st by (auto simp: createCase_def)
    let ?c = "new_case newId command status"
    obtain occ where
      res: "outcome = CaseOutcome ?c" "wrote"
      and db': "db' = createReceipt (cm_source command) (CREATE_CASE command) outcome (createEvent
        \<lparr> ce_closureCaseId = newId, ce_sequence = 1, ce_eventType = CASE_CREATED,
          ce_beforeStatus = None, ce_afterStatus = status, ce_actorId = cm_actorId command,
          ce_occurredAt = occ, ce_recordedAt = now, ce_source = cm_source command,
          ce_detailSnapshot = cm_authoritySnapshot command \<rparr> (db\<lparr>db_cases := db_cases db @ [?c]\<rparr>))"
      using assms by (auto simp: createCase_def rep None ord st Let_def)
    have shape: "case_shape ?c"
      using st by (auto simp: case_shape_def new_case_def initialStatus_def valid_profile_def
          allowedSubscriptionClosureTransitions_def split: if_splits)
    have norow: "find_row rc_source (cm_source command) (db_receipts db) = None"
      using rep None by (simp add: replayReceipt_simps)
    let ?ev = "\<lparr> ce_closureCaseId = newId, ce_sequence = 1, ce_eventType = CASE_CREATED,
          ce_beforeStatus = None, ce_afterStatus = status, ce_actorId = cm_actorId command,
          ce_occurredAt = occ, ce_recordedAt = now, ce_source = cm_source command,
          ce_detailSnapshot = cm_authoritySnapshot command \<rparr>"
    have "create_step db ?c ?ev \<lparr> rc_source = cm_source command, rc_payload = CREATE_CASE command,
        rc_outcome = outcome \<rparr> db'"
      unfolding create_step_def db'
      using fresh shape norow open_case
      by (simp add: createReceipt_def createEvent_def new_case_def list_ex_iff)
    then show ?thesis using res by (auto simp: new_case_def)
  qed
qed

section \<open>The invariant of the aggregate\<close>

fun history_chain :: "closure_event list \<Rightarrow> bool" where
  "history_chain (e # f # es) =
     (ce_beforeStatus f = Some (ce_afterStatus e)
      \<and> history_move (ce_afterStatus e) (ce_afterStatus f) \<and> history_chain (f # es))"
| "history_chain _ = True"

definition case_history :: "closure_db \<Rightarrow> closure_case \<Rightarrow> bool" where
  "case_history db c =
     (let es = events_of db (cc_id c) in
      es \<noteq> [] \<and> map ce_sequence es = [1 .. cc_version c + 1]
      \<and> ce_eventType (hd es) = CASE_CREATED \<and> ce_beforeStatus (hd es) = None
      \<and> list_all (\<lambda>e. ce_eventType e \<noteq> CASE_CREATED) (tl es)
      \<and> ce_afterStatus (last es) = cc_status c \<and> history_chain es)"

definition open_orders :: "closure_db \<Rightarrow> id list" where
  "open_orders db = map cc_orderId (filter (\<lambda>c. cc_retiredAt c = None) (db_cases db))"

definition closure_inv :: "closure_db \<Rightarrow> bool" where
  "closure_inv db =
     (distinct (map cc_id (db_cases db))
      \<and> (\<forall>c \<in> set (db_cases db). case_history db c \<and> case_shape c)
      \<and> ce_closureCaseId ` set (db_events db) \<subseteq> cc_id ` set (db_cases db)
      \<and> map rc_source (db_receipts db) = map ce_source (db_events db)
      \<and> distinct (map rc_source (db_receipts db))
      \<and> distinct (open_orders db))"

lemma history_chain_snoc:
  "es \<noteq> [] \<Longrightarrow> history_chain es \<Longrightarrow> ce_beforeStatus f = Some (ce_afterStatus (last es)) \<Longrightarrow>
   history_move (ce_afterStatus (last es)) (ce_afterStatus f) \<Longrightarrow> history_chain (es @ [f])"
  by (induction es rule: history_chain.induct) auto

lemma open_orders_upd:
  assumes "distinct (map cc_id cs)" and "distinct (map cc_orderId (filter (\<lambda>c. cc_retiredAt c = None) cs))"
    and "current \<in> set cs" and "cc_orderId changed = cc_orderId current"
    and "cc_retiredAt changed = None \<longrightarrow> cc_retiredAt current = None"
  shows "distinct (map cc_orderId (filter (\<lambda>c. cc_retiredAt c = None)
    (upd_row cc_id (cc_id current) (\<lambda>_. changed) cs)))
    \<and> set (map cc_orderId (filter (\<lambda>c. cc_retiredAt c = None)
        (upd_row cc_id (cc_id current) (\<lambda>_. changed) cs)))
      \<subseteq> set (map cc_orderId (filter (\<lambda>c. cc_retiredAt c = None) cs))"
  using assms
proof (induction cs)
  case (Cons a cs)
  show ?case
  proof (cases "cc_id a = cc_id current")
    case True
    then have "a = current" using Cons.prems by (auto simp: image_iff)
    moreover have "upd_row cc_id (cc_id current) (\<lambda>_. changed) cs = cs"
      using Cons.prems(1) True unfolding upd_row_def by (intro map_idI) (auto simp: image_iff)
    ultimately show ?thesis using Cons.prems by (auto simp: upd_row_def)
  next
    case False
    then have "current \<in> set cs" using Cons.prems by auto
    then show ?thesis using Cons False by (auto simp: upd_row_def)
  qed
qed simp

lemma events_of_append [simp]:
  "events_of (db\<lparr>db_events := db_events db @ [ev]\<rparr>) i =
     events_of db i @ (if ce_closureCaseId ev = i then [ev] else [])"
  by (simp add: events_of_def)

lemma events_of_step:
  "db_events db' = db_events db @ [ev] \<Longrightarrow>
   events_of db' i = events_of db i @ (if ce_closureCaseId ev = i then [ev] else [])"
  by (simp add: events_of_def)

lemma map_id_upd: "cc_id changed = k \<Longrightarrow>
  map cc_id (upd_row cc_id k (\<lambda>_. changed) cs) = map cc_id cs"
  by (auto simp: upd_row_def)

lemma source_fresh:
  "find_row rc_source s rs = None \<Longrightarrow> distinct (map rc_source rs) \<Longrightarrow> rc_source r = s \<Longrightarrow>
   distinct (map rc_source (rs @ [r]))"
  using find_row_None [of rc_source s rs] by auto

lemma case_history_step:
  assumes hist: "case_history db current"
    and ev: "db_events db' = db_events db @ [ev]" "ce_closureCaseId ev = cc_id current"
      "ce_sequence ev = cc_version current + 2" "ce_beforeStatus ev = Some (cc_status current)"
      "ce_afterStatus ev = cc_status changed" "ce_eventType ev \<noteq> CASE_CREATED"
    and mv: "history_move (cc_status current) (cc_status changed)"
    and ch: "cc_id changed = cc_id current" "cc_version changed = cc_version current + 1"
      "0 \<le> cc_version current"
  shows "case_history db' changed"
proof -
  let ?es = "events_of db (cc_id current)"
  have es: "events_of db' (cc_id changed) = ?es @ [ev]"
    using ev(1,2) ch(1) by (simp add: events_of_step)
  have h: "?es \<noteq> []" "map ce_sequence ?es = [1 .. cc_version current + 1]"
    "ce_eventType (hd ?es) = CASE_CREATED" "ce_beforeStatus (hd ?es) = None"
    "list_all (\<lambda>e. ce_eventType e \<noteq> CASE_CREATED) (tl ?es)"
    "ce_afterStatus (last ?es) = cc_status current" "history_chain ?es"
    using hist by (auto simp: case_history_def Let_def)
  have seqs: "[1 .. cc_version current + 1] @ [cc_version current + 2] = [1 .. cc_version current + 2]"
    using upto_rec2 [of 1 "cc_version current + 2"] ch(3) by (simp add: add.commute)
  have chain: "history_chain (?es @ [ev])"
    using history_chain_snoc [OF h(1,7)] h(6) ev(4,5) mv by simp
  show ?thesis
    unfolding case_history_def Let_def es using h chain seqs ev ch by (simp add: add.commute)
qed

lemma record_step_inv:
  assumes inv: "closure_inv db" and step: "record_step db current changed ev rc db'"
  shows "closure_inv db'"
proof -
  have cur: "current \<in> set (db_cases db)" and ids: "distinct (map cc_id (db_cases db))"
    and cid: "cc_id changed = cc_id current"
    using inv step by (auto simp: closure_inv_def record_step_def)
  have cases': "db_cases db' = upd_row cc_id (cc_id current) (\<lambda>_. changed) (db_cases db)"
    and events': "db_events db' = db_events db @ [ev]"
    and receipts': "db_receipts db' = db_receipts db @ [rc]"
    using step by (auto simp: record_step_def)
  have hist: "case_history db current" and shape: "case_shape current"
    using inv cur by (auto simp: closure_inv_def)
  have new: "case_history db' changed \<and> case_shape changed"
    using step shape case_history_step [OF hist events', of changed]
    by (auto simp: record_step_def case_shape_def)
  have old: "case_history db' c \<and> case_shape c" if "c \<in> set (db_cases db)" "cc_id c \<noteq> cc_id current" for c
    using inv step that events_of_step [OF events', of "cc_id c"]
    by (auto simp: closure_inv_def record_step_def case_history_def)
  have all: "\<forall>c \<in> set (db_cases db'). case_history db' c \<and> case_shape c"
    using new old set_upd_row [of _ cc_id "cc_id current" "\<lambda>_. changed" "db_cases db"]
    by (auto simp: cases')
  have refs: "ce_closureCaseId ` set (db_events db') \<subseteq> cc_id ` set (db_cases db')"
  proof -
    have "cc_id ` set (db_cases db') = cc_id ` set (db_cases db)"
      using arg_cong [OF map_id_upd [OF cid, of "db_cases db"], of set] by (simp add: cases')
    then show ?thesis
      using inv step cur by (auto simp: closure_inv_def events' record_step_def)
  qed
  have src: "map rc_source (db_receipts db') = map ce_source (db_events db')"
    "distinct (map rc_source (db_receipts db'))"
    using inv step source_fresh [of "ce_source ev" "db_receipts db" rc]
    by (auto simp: closure_inv_def record_step_def events' receipts')
  have ord: "distinct (open_orders db')"
    using open_orders_upd [OF ids, of current changed] inv step
    by (simp add: open_orders_def closure_inv_def record_step_def)
  show ?thesis
    using all refs src ord ids map_id_upd [OF cid, of "db_cases db"]
    by (simp add: closure_inv_def cases')
qed

lemma create_step_inv:
  assumes inv: "closure_inv db" and step: "create_step db created ev rc db'"
  shows "closure_inv db'"
proof -
  have fresh: "cc_id created \<notin> set (map cc_id (db_cases db))"
    and cases': "db_cases db' = db_cases db @ [created]"
    and events': "db_events db' = db_events db @ [ev]"
    and receipts': "db_receipts db' = db_receipts db @ [rc]"
    and evc: "ce_closureCaseId ev = cc_id created"
    using step by (auto simp: create_step_def)
  have none: "events_of db (cc_id created) = []"
  proof -
    have "ce_closureCaseId ` set (db_events db) \<subseteq> cc_id ` set (db_cases db)"
      using inv by (simp add: closure_inv_def)
    then have "ce_closureCaseId e \<noteq> cc_id created" if "e \<in> set (db_events db)" for e
      using that fresh by (metis imageI image_set subsetD)
    then show ?thesis by (simp add: events_of_def filter_empty_conv)
  qed
  have "case_history db' created"
    using step none events_of_step [OF events', of "cc_id created"]
    by (simp add: create_step_def case_history_def)
  moreover have "case_history db' c" if "c \<in> set (db_cases db)" for c
  proof -
    have "cc_id c \<noteq> cc_id created" using that fresh by (auto simp: image_iff)
    then show ?thesis
      using inv that events_of_step [OF events', of "cc_id c"] evc
      by (auto simp: closure_inv_def case_history_def)
  qed
  moreover have "distinct (open_orders db')"
    using inv step by (auto simp: open_orders_def closure_inv_def create_step_def)
  moreover have "map rc_source (db_receipts db') = map ce_source (db_events db')"
    "distinct (map rc_source (db_receipts db'))"
    using inv step source_fresh [of "ce_source ev" "db_receipts db" rc]
    by (auto simp: closure_inv_def create_step_def events' receipts')
  ultimately show ?thesis
    using inv step by (auto simp: closure_inv_def create_step_def events')
qed

lemma closure_exec_inv:
  assumes "closure_inv db" and "closure_exec c db = Inr db'"
  shows "closure_inv db'"
proof -
  obtain op now where c: "c = (op, now)" by (cases c)
  obtain outcome wrote where a: "closure_apply (op, now) db = Inr ((outcome, wrote), db')"
    using assms(2) by (auto simp: closure_exec_def c)
  show ?thesis
  proof (cases op)
    case (OpCreate i x)
    then show ?thesis using createCase_step [of i now x db] a assms(1) create_step_inv by fastforce
  next
    case (OpEvent x)
    then show ?thesis using appendEvent_step [of now x db] a assms(1) record_step_inv by fastforce
  next
    case (OpEscalate x)
    then show ?thesis using escalateRecovery_step [of now x db] a assms(1) record_step_inv by fastforce
  next
    case (OpSettle i x)
    then show ?thesis
      using appendSettlementRevision_step [of i now x db] a assms(1) record_step_inv by fastforce
  qed
qed

interpretation closure_ops: guarded_ops closure_exec closure_inv
  by unfold_locales (rule closure_exec_inv)

definition empty_closure_db :: "order_row list \<Rightarrow> contract_row list \<Rightarrow> vehicle_return_row list
    \<Rightarrow> handover_row list \<Rightarrow> asset_work_order_row list \<Rightarrow> closure_db" where
  "empty_closure_db os cs rs hs ws = \<lparr> db_cases = [], db_events = [], db_settlements = [],
     db_receipts = [], db_orders = os, db_contracts = cs, db_returns = rs, db_handovers = hs,
     db_workOrders = ws \<rparr>"

lemma empty_closure_inv: "closure_inv (empty_closure_db os cs rs hs ws)"
  by (simp add: closure_inv_def empty_closure_db_def open_orders_def)

definition closure_run :: "(closure_op \<times> time) list \<Rightarrow> closure_db \<Rightarrow> closure_db" where
  "closure_run ops db = fold (\<lambda>c s. case closure_exec c s of Inl e \<Rightarrow> s | Inr s' \<Rightarrow> s') ops db"

lemma closure_run_is: "closure_run ops db = closure_ops.run ops db"
proof -
  have "closure_ops.commit = (\<lambda>c s. case closure_exec c s of Inl e \<Rightarrow> s | Inr s' \<Rightarrow> s')"
    by (intro ext) (simp add: closure_ops.commit_def)
  then show ?thesis by (simp add: closure_run_def closure_ops.run_def)
qed

section \<open>Properties\<close>


lemma replay_after:
  assumes "db_receipts db' = db_receipts db @ [\<lparr> rc_source = s, rc_payload = cmd, rc_outcome = out \<rparr>]"
    and "find_row rc_source s (db_receipts db) = None"
  shows "replayReceipt db' s cmd = Inr (Some out)"
proof -
  have "find_row rc_source s (rs @ [r]) = Some r"
    if "find_row rc_source s rs = None" "rc_source r = s" for r and rs :: "closure_receipt list"
    using that by (induction rs) (auto simp: find_row_def)
  then show ?thesis using assms by (simp add: replayReceipt_simps)
qed

lemma replay_after_step:
  "record_step db c c' ev \<lparr> rc_source = s, rc_payload = cmd, rc_outcome = out \<rparr> db' \<Longrightarrow>
   replayReceipt db' s cmd = Inr (Some out)"
  "create_step db c ev \<lparr> rc_source = s, rc_payload = cmd, rc_outcome = out \<rparr> db' \<Longrightarrow>
   replayReceipt db' s cmd = Inr (Some out)"
  by (rule replay_after; auto simp: record_step_def create_step_def)+


lemma record_step_case:
  assumes "closure_inv db" and "record_step db current changed ev rc db'"
  shows "requiredCase db' (cc_id current) = Inr changed"
    and "events_of db' (cc_id current) = events_of db (cc_id current) @ [ev]"
proof -
  have "distinct (map cc_id (db_cases db'))"
    using record_step_inv [OF assms] by (simp add: closure_inv_def)
  moreover have "changed \<in> set (db_cases db')" "cc_id changed = cc_id current"
    using assms(2) by (auto simp: record_step_def upd_row_def)
  ultimately have "find_row cc_id (cc_id current) (db_cases db') = Some changed"
    using find_row_unique [of cc_id "db_cases db'" changed] by simp
  then show "requiredCase db' (cc_id current) = Inr changed" by (simp add: requiredCase_def)
  show "events_of db' (cc_id current) = events_of db (cc_id current) @ [ev]"
    using assms(2) by (simp add: record_step_def events_of_step)
qed

lemma fresh_replay: "s \<notin> set (map rc_source (db_receipts db)) \<Longrightarrow> replayReceipt db s cmd = Inr None"
  using find_row_None [of rc_source s "db_receipts db"] by (simp add: replayReceipt_simps)

text \<open>
  C28 Concurrent commands on one case are serialised: of two event commands
  prepared on the same version of a case, once the first is written the second
  is refused with a version conflict.
\<close>

theorem stale_version_refused:
  assumes inv: "closure_inv db"
    and first: "appendEvent now x db = Inr ((outcome, True), db')"
    and same: "ec_closureCaseId y = ec_closureCaseId x" "ec_expectedVersion y = ec_expectedVersion x"
    and new: "ec_source y \<notin> set (map rc_source (db_receipts db'))"
      "appendable_event_type (ec_eventType y)"
  shows "appendEvent later y db' = Inl VERSION_CONFLICT"
proof -
  obtain current ev where cur: "requiredCase db (ec_closureCaseId x) = Inr current"
    and ver: "cc_version current = ec_expectedVersion x"
    and step: "record_step db current (changed_case current x) ev \<lparr> rc_source = ec_source x,
      rc_payload = TRANSITION_CASE x, rc_outcome = outcome \<rparr> db'"
    using appendEvent_step [OF first] by blast
  have id: "cc_id current = ec_closureCaseId x" using requiredCase_Inr [OF cur] by simp
  have "requiredCase db' (ec_closureCaseId y) = Inr (changed_case current x)"
    using record_step_case(1) [OF inv step] id same by simp
  moreover have "cc_version (changed_case current x) \<noteq> ec_expectedVersion y"
    using ver same by (simp add: changed_case_def)
  ultimately show ?thesis
    using fresh_replay [OF new(1)] new(2)
    by (simp add: appendEvent_def assertExpectedCase_def)
qed

lemma status_name_inject: "status_name s = status_name t \<longleftrightarrow> s = t"
  by (cases s; cases t; simp add: status_name_def)

lemma remembered_after:
  "events_of db' i = es @ [ev] \<Longrightarrow> ce_afterStatus ev = PAUSED \<Longrightarrow>
   remembered_stage db' i = map_of (ce_detailSnapshot ev) ''pausedFromStatus''"
  by (simp add: remembered_stage_def)

text \<open>
  C30 A pause remembers its stage: after a recovery case was paused in stage s, a
  well-formed resume to stage t succeeds if and only if t is s.
\<close>

theorem resume_restores_stage:
  assumes inv: "closure_inv db"
    and pause: "appendEvent now x db = Inr ((outcome, True), db')"
      "ec_eventType x = STATUS_TRANSITIONED" "ec_afterStatus x = PAUSED"
    and at: "requiredCase db (ec_closureCaseId x) = Inr c"
    and resume: "ec_eventType y = STATUS_TRANSITIONED" "ec_afterStatus y = t" "t \<noteq> PAUSED"
      "ec_closureCaseId y = ec_closureCaseId x" "ec_expectedVersion y = ec_expectedVersion x + 1"
      "ec_expectedStatus y = PAUSED" "ec_recoveryAssetWorkOrderId y = None"
      "map_of (ec_detailSnapshot y) ''recoveryAction'' = Some (JStr ''RESUME'')"
      "map_of (ec_detailSnapshot y) ''resumedStage'' = Some (JStr (status_name t))"
      "ec_source y \<notin> set (map rc_source (db_receipts db'))"
    and time: "assertDatabaseEventTime db' (ec_closureCaseId x) (ec_occurredAt y) later = Inr ()"
  shows "is_ok (appendEvent later y db') \<longleftrightarrow> t = cc_status c"
proof -
  obtain ev where ver: "cc_version c = ec_expectedVersion x"
    and valid: "validateEventTransition db c x = Inr ()"
    and step: "record_step db c (changed_case c x) ev \<lparr> rc_source = ec_source x,
      rc_payload = TRANSITION_CASE x, rc_outcome = outcome \<rparr> db'"
    and det: "ce_detailSnapshot ev = ec_detailSnapshot x"
    using appendEvent_step [OF pause(1)] at by auto
  have id: "cc_id c = ec_closureCaseId x" using requiredCase_Inr [OF at] by simp
  let ?p = "changed_case c x"
  have cur: "requiredCase db' (ec_closureCaseId y) = Inr ?p"
    using record_step_case(1) [OF inv step] id resume(4) by simp
  have p: "cc_status ?p = PAUSED" "cc_version ?p = ec_expectedVersion y" "cc_id ?p = cc_id c"
    "cc_profile ?p = cc_profile c"
    using pause(3) ver resume(5) by (simp_all add: changed_case_def)
  have prof: "pf_physicalControlMode (cc_profile c) = RECOVERY" "pf_finalDisposition (cc_profile c) = TERMINATE"
    and s: "cc_status c \<in> set RECOVERY_PAUSABLE_STATUSES"
    and mem: "map_of (ec_detailSnapshot x) ''pausedFromStatus'' = Some (JStr (status_name (cc_status c)))"
    using valid pause(2,3)
    by (auto simp: validateEventTransition_def Let_def conflict_on_error_Inr is_ok_iff
        assertRecoveryPauseTransition_def RECOVERY_PAUSABLE_STATUSES_def split: if_splits)
  have rem: "remembered_stage db' (cc_id c) = Some (JStr (status_name (cc_status c)))"
    using remembered_after [OF record_step_case(2) [OF inv step]] step det mem pause(3)
    by (simp add: record_step_def changed_case_def)
  have nt: "\<not> (t = COMPLETED \<or> t = TERMINATED)" if "t = cc_status c"
    using s that by (auto simp: RECOVERY_PAUSABLE_STATUSES_def)
  have v: "validateEventTransition db' ?p y = (if t = cc_status c then Inr () else Inl STATUS_CONFLICT)"
    using resume p rem prof s
    by (auto simp: validateEventTransition_def Let_def status_name_inject conflict_on_error_def is_ok_iff
        assertRecoveryPauseTransition_def)
  show ?thesis
    using cur p v nt resume time fresh_replay [OF resume(10)] id
    by (auto simp: appendEvent_def appendable_event_type_def assertExpectedCase_def is_ok_iff
        assertRecoveryWorkOrderLink_def assertTerminalSettlementAuthority_def Let_def)
qed


section \<open>A concrete case\<close>

definition written :: "(closure_error, write_outcome \<times> closure_db) result \<Rightarrow> bool" where
  "written r = (case r of Inl e \<Rightarrow> False | Inr ((outcome, wrote), db) \<Rightarrow> wrote)"

definition db_after :: "(closure_error, write_outcome \<times> closure_db) result \<Rightarrow> closure_db" where
  "db_after r = snd (projr r)"

lemma written_Inr: "written r \<Longrightarrow> r = Inr ((fst (fst (projr r)), True), db_after r)"
  by (cases r) (auto simp: written_def db_after_def)

definition ex_profile :: closure_profile where
  "ex_profile = \<lparr> pf_closureType = EARLY_TERMINATION, pf_physicalControlMode = RECOVERY,
     pf_finalDisposition = TERMINATE \<rparr>"

definition ex_db0 :: closure_db where
  "ex_db0 = empty_closure_db
     [\<lparr> or_id = ''o'', or_contractId = Some ''c'', or_customerId = ''u'', or_vehicleId = Some ''v'' \<rparr>]
     [\<lparr> cr_id = ''c'', cr_customerId = ''u'', cr_orderId = ''o'' \<rparr>] [] [] []"

definition ex_create :: create_case_command where
  "ex_create = \<lparr> cm_actorId = ''a'', cm_profile = ex_profile, cm_contractId = ''c'',
     cm_customerId = ''u'', cm_orderId = ''o'', cm_vehicleId = ''v'', cm_effectiveAt = 5,
     cm_reconditioningAssetWorkOrderId = None, cm_recoveryAssetWorkOrderId = None,
     cm_returnAssetWorkOrderId = None, cm_returnHandoverWorkOrderId = None,
     cm_vehicleReturnId = None, cm_authoritySnapshot = [], cm_source = (''T'', ''s'', ''0'') \<rparr>"

definition ex_event ::
    "closure_event_type \<Rightarrow> closure_status \<Rightarrow> closure_status \<Rightarrow> int \<Rightarrow> json_object \<Rightarrow> string \<Rightarrow> event_command" where
  "ex_event ty src dst v det key = \<lparr> ec_actorId = ''a'', ec_afterStatus = dst, ec_closureCaseId = ''k'',
     ec_detailSnapshot = det, ec_eventType = ty, ec_expectedStatus = src, ec_expectedVersion = v,
     ec_occurredAt = 10 + v, ec_reconditioningAssetWorkOrderId = None,
     ec_recoveryAssetWorkOrderId = None, ec_retireCase = False, ec_source = (''T'', ''s'', key) \<rparr>"

definition ex_pause :: event_command where
  "ex_pause = ex_event STATUS_TRANSITIONED RECOVERY_ASSESSMENT_PENDING PAUSED 0
     [(''recoveryAction'', JStr ''PAUSE''),
      (''pausedFromStatus'', JStr ''RECOVERY_ASSESSMENT_PENDING'')] ''1''"

definition ex_note :: event_command where
  "ex_note = ex_event NOTE_ADDED PAUSED PAUSED 1 [(''recoveryAction'', JStr ''ASSESSMENT_NO_OP'')] ''2''"

definition ex_resume :: "int \<Rightarrow> event_command" where
  "ex_resume v = ex_event STATUS_TRANSITIONED PAUSED RECOVERY_ASSESSMENT_PENDING v
     [(''recoveryAction'', JStr ''RESUME''),
      (''resumedStage'', JStr ''RECOVERY_ASSESSMENT_PENDING'')] ''3''"

definition ex_db1 :: closure_db where
  "ex_db1 = db_after (createCase ''k'' 10 ex_create ex_db0)"

definition ex_db2 :: closure_db where
  "ex_db2 = db_after (appendEvent 100 ex_pause ex_db1)"

definition ex_db3 :: closure_db where
  "ex_db3 = db_after (appendEvent 100 ex_note ex_db2)"

lemma ex_written:
  "written (createCase ''k'' 10 ex_create ex_db0)" "written (appendEvent 100 ex_pause ex_db1)"
  "written (appendEvent 100 ex_note ex_db2)"
  by code_simp+

lemmas ex_steps = ex_written [THEN written_Inr, folded ex_db1_def ex_db2_def ex_db3_def]

lemma ex_runs:
  obtains o1 o2 o3 where "createCase ''k'' 10 ex_create ex_db0 = Inr ((o1, True), ex_db1)"
    "appendEvent 100 ex_pause ex_db1 = Inr ((o2, True), ex_db2)"
    "appendEvent 100 ex_note ex_db2 = Inr ((o3, True), ex_db3)"
  using ex_steps by blast

lemma ex_inv: "closure_inv ex_db0" "closure_inv ex_db1" "closure_inv ex_db2"
proof -
  obtain o1 o2 where r: "createCase ''k'' 10 ex_create ex_db0 = Inr ((o1, True), ex_db1)"
    "appendEvent 100 ex_pause ex_db1 = Inr ((o2, True), ex_db2)"
    by (rule ex_runs)
  show i0: "closure_inv ex_db0" by (simp add: ex_db0_def empty_closure_inv)
  have "closure_exec (OpCreate ''k'' ex_create, 10) ex_db0 = Inr ex_db1"
    using r(1) by (simp add: closure_exec_def)
  then show i1: "closure_inv ex_db1" using closure_exec_inv [OF i0] by blast
  have "closure_exec (OpEvent ex_pause, 100) ex_db1 = Inr ex_db2"
    using r(2) by (simp add: closure_exec_def)
  then show "closure_inv ex_db2" using closure_exec_inv [OF i1] by blast
qed


theorem stale_version_refused_witness:
  "appendEvent 100 (ex_event NOTE_ADDED RECOVERY_ASSESSMENT_PENDING RECOVERY_ASSESSMENT_PENDING 0 [] ''9'')
     ex_db2 = Inl VERSION_CONFLICT"
proof (rule stale_version_refused [OF ex_inv(2) ex_steps(2)])
  show "ec_source (ex_event NOTE_ADDED RECOVERY_ASSESSMENT_PENDING RECOVERY_ASSESSMENT_PENDING 0 [] ''9'')
      \<notin> set (map rc_source (db_receipts ex_db2))"
    by code_simp
qed (simp_all add: ex_event_def ex_pause_def appendable_event_type_def)

lemma ex_case: "requiredCase ex_db1 ''k'' = Inr (projr (requiredCase ex_db1 ''k''))"
  "cc_status (projr (requiredCase ex_db1 ''k'')) = RECOVERY_ASSESSMENT_PENDING"
proof -
  have "is_ok (requiredCase ex_db1 ''k'')" by code_simp
  then show "requiredCase ex_db1 ''k'' = Inr (projr (requiredCase ex_db1 ''k''))"
    by (auto simp: is_ok_iff)
  show "cc_status (projr (requiredCase ex_db1 ''k'')) = RECOVERY_ASSESSMENT_PENDING" by code_simp
qed

theorem resume_restores_stage_witness: "is_ok (appendEvent 100 (ex_resume 1) ex_db2)"
proof -
  have "ec_source (ex_resume 1) \<notin> set (map rc_source (db_receipts ex_db2))"
    "assertDatabaseEventTime ex_db2 ''k'' (ec_occurredAt (ex_resume 1)) 100 = Inr ()"
    by code_simp+
  then have "is_ok (appendEvent 100 (ex_resume 1) ex_db2)
      \<longleftrightarrow> RECOVERY_ASSESSMENT_PENDING = cc_status (projr (requiredCase ex_db1 ''k''))"
    by (intro resume_restores_stage [OF ex_inv(2) ex_steps(2)])
      (use ex_case in \<open>simp_all add: ex_event_def ex_pause_def ex_resume_def status_name_def\<close>)
  then show ?thesis using ex_case(2) by simp
qed


lemma closed_move: "closed_status s \<Longrightarrow> history_move s t \<Longrightarrow> t = s"
  using closed_matrix [of s] by (auto simp: history_move_def RECOVERY_PAUSABLE_STATUSES_def)

lemma record_step_closed:
  assumes inv: "closure_inv db" and step: "record_step db current changed ev rc db'"
    and c: "requiredCase db i = Inr c" "closed_status (cc_status c)"
  shows "\<exists>c'. requiredCase db' i = Inr c' \<and> cc_status c' = cc_status c"
proof (cases "i = cc_id current")
  case True
  have "find_row cc_id (cc_id current) (db_cases db) = Some current"
    using inv step by (intro find_row_unique) (auto simp: closure_inv_def record_step_def)
  then have "c = current" using c(1) True by (simp add: requiredCase_def)
  moreover have "history_move (cc_status current) (cc_status changed)"
    using step by (simp add: record_step_def)
  ultimately show ?thesis
    using record_step_case(1) [OF inv step] closed_move c(2) True by simp
next
  case False
  have "find_row cc_id i (upd_row cc_id k (\<lambda>_. changed) cs) = find_row cc_id i cs"
    if "k \<noteq> i" "cc_id changed = k" for k cs
    using that by (induction cs) (auto simp: find_row_def upd_row_def)
  then show ?thesis
    using c False step by (simp add: requiredCase_def record_step_def)
qed

lemma create_step_closed:
  "create_step db created ev rc db' \<Longrightarrow> requiredCase db i = Inr c \<Longrightarrow> requiredCase db' i = Inr c"
proof -
  have "find_row cc_id i cs = Some c \<Longrightarrow> find_row cc_id i (cs @ [created]) = Some c" for cs
    by (induction cs) (auto simp: find_row_def)
  then show "create_step db created ev rc db' \<Longrightarrow> requiredCase db i = Inr c
      \<Longrightarrow> requiredCase db' i = Inr c"
    by (auto simp: create_step_def requiredCase_def split: option.splits)
qed

lemma closure_exec_closed:
  assumes inv: "closure_inv db" and run: "closure_exec c db = Inr db'"
    and r: "requiredCase db i = Inr x" "closed_status (cc_status x)"
  shows "\<exists>x'. requiredCase db' i = Inr x' \<and> cc_status x' = cc_status x"
proof -
  obtain op now where c: "c = (op, now)" by (cases c)
  obtain outcome wrote where a: "closure_apply (op, now) db = Inr ((outcome, wrote), db')"
    using run by (auto simp: closure_exec_def c)
  have "db' = db \<or> (\<exists>c c' ev rc. record_step db c c' ev rc db') \<or> (\<exists>c ev rc. create_step db c ev rc db')"
  proof (cases op)
    case (OpCreate j y)
    then show ?thesis using createCase_step [of j now y db outcome wrote db'] a by auto
  next
    case (OpEvent y)
    then show ?thesis using appendEvent_step [of now y db outcome wrote db'] a by auto
  next
    case (OpEscalate y)
    then show ?thesis using escalateRecovery_step [of now y db outcome wrote db'] a by auto
  next
    case (OpSettle j y)
    then show ?thesis
      using appendSettlementRevision_step [of j now y db outcome wrote db'] a by auto
  qed
  then show ?thesis
    using record_step_closed [OF inv _ r] create_step_closed r(1) by blast
qed

text \<open>
  C34 A closed case stays closed: once a case of a reachable database is completed,
  terminated, rejected or cancelled, no sequence of commands changes its status.
\<close>

theorem closed_case_is_final:
  assumes "closure_inv db" and "requiredCase db i = Inr c" and "closed_status (cc_status c)"
  shows "\<exists>c'. requiredCase (closure_run ops db) i = Inr c' \<and> cc_status c' = cc_status c"
  using assms
proof (induction ops arbitrary: db c)
  case (Cons op ops)
  define s where "s = (case closure_exec op db of Inl e \<Rightarrow> db | Inr s' \<Rightarrow> s')"
  have "closure_inv s \<and> (\<exists>x. requiredCase s i = Inr x \<and> cc_status x = cc_status c)"
    using Cons.prems closure_exec_inv closure_exec_closed
    by (cases "closure_exec op db") (auto simp: s_def)
  then show ?case
    using Cons.IH [of s] Cons.prems(3) by (auto simp: closure_run_def s_def [symmetric])
qed (simp add: closure_run_def)

definition ex_cancel :: event_command where
  "ex_cancel = ex_event STATUS_TRANSITIONED RECOVERY_ASSESSMENT_PENDING CANCELLED 0 [] ''1''"

definition ex_db4 :: closure_db where
  "ex_db4 = db_after (appendEvent 100 ex_cancel ex_db1)"

theorem closed_case_is_final_witness:
  "\<exists>c. requiredCase (closure_run [(OpEvent ex_note, 200), (OpEvent ex_pause, 300)] ex_db4) ''k'' = Inr c
     \<and> cc_status c = CANCELLED"
proof -
  have "written (appendEvent 100 ex_cancel ex_db1)" by code_simp
  then obtain o2 where "appendEvent 100 ex_cancel ex_db1 = Inr ((o2, True), ex_db4)"
    using written_Inr [folded ex_db4_def] unfolding ex_db4_def by blast
  then have "closure_exec (OpEvent ex_cancel, 100) ex_db1 = Inr ex_db4"
    by (simp add: closure_exec_def)
  then have inv: "closure_inv ex_db4" using closure_exec_inv [OF ex_inv(2)] by blast
  have st: "case requiredCase ex_db4 ''k'' of Inl e \<Rightarrow> False | Inr c \<Rightarrow> cc_status c = CANCELLED"
    by code_simp
  then obtain c where c: "requiredCase ex_db4 ''k'' = Inr c" "cc_status c = CANCELLED"
    by (cases "requiredCase ex_db4 ''k''") auto
  have "closed_status (cc_status c)" using c by simp
  from closed_case_is_final [OF inv c(1) this] c(2) show ?thesis by simp
qed

end
