(* ===== verification/JobQueue.thy ===== *)
theory JobQueue
  imports Interfaces
begin

text \<open>
  The database-backed job queue of \<open>billing-automation.repository.ts\<close> and the
  worker of \<open>billing-automation.worker.ts\<close> that drains it.  A queue is the table
  of jobs in insertion order; every repository operation is one transaction on
  it.  \<open>now\<close> is the clock of the operation, a lease token is the fresh UUID of a
  claim, and the state of the billing schedules the claim joins with is an
  argument.  The worker keeps the snapshots of the jobs it claimed, because it
  decides on the attempt count of the snapshot.  Payloads, result snapshots and the
  links to change orders, segments and renewal considerations are columns these
  operations only carry along; they are left out of the record.
\<close>

section \<open>Jobs\<close>

datatype job_status = PENDING | PROCESSING | COMPLETED | DEAD_LETTER | CANCELLED

datatype job_type =
    GENERATE_MONTHLY_RENT_BILL | SEND_BILL_DUE_NOTICE | MARK_BILL_OVERDUE
  | SEND_BILL_OVERDUE_NOTICE | SUBMIT_BILL_DEBIT | QUERY_DEBIT_ATTEMPT
  | SEND_DEBIT_FAILURE_NOTICE | SYNC_PAYMENT_MANDATE | RENEWAL_CONSIDERATION_ENROLL
  | RENEWAL_REMINDER_D30 | RENEWAL_REMINDER_D14 | RENEWAL_REMINDER_D3
  | RENEWAL_EXPIRY_PROCESS | RENEWAL_RETURN_OVERDUE_D1 | EXTENSION_SEGMENT_ACTIVATE
  | EXTENSION_BILLING_RESUME | EXTENSION_ENTITLEMENT_RENEW | EXTENSION_INSURANCE_VALIDATION
  | EXTENSION_EFFECTIVE_NOTICE | CLOSURE_RECOVERY_ASSESSMENT_D7

record automation_job =
  jb_id :: id
  jb_billingScheduleId :: "id option"
  jb_orderId :: "id option"
  jb_billId :: "id option"
  jb_jobType :: job_type
  jb_jobStatus :: job_status
  jb_idempotencyKey :: string
  jb_availableAt :: time
  jb_attemptCount :: int
  jb_maxAttempts :: int
  jb_leaseToken :: "string option"
  jb_leaseExpiresAt :: "time option"
  jb_lastError :: "(string \<times> string) option"
  jb_startedAt :: "time option"
  jb_completedAt :: "time option"
  jb_cancelledAt :: "time option"
  jb_createdAt :: time

type_synonym job_queue = "automation_job list"

record enqueue_input =
  eq_availableAt :: time
  eq_billId :: "id option"
  eq_billingScheduleId :: "id option"
  eq_idempotencyKey :: string
  eq_jobType :: job_type
  eq_maxAttempts :: "int option"
  eq_orderId :: "id option"

record failure =
  fl_code :: string
  fl_message :: string
  fl_retryable :: bool

definition SETTLED_BILL_JOB_TYPES :: "job_type list" where
  "SETTLED_BILL_JOB_TYPES = [SEND_BILL_DUE_NOTICE, MARK_BILL_OVERDUE, SEND_BILL_OVERDUE_NOTICE,
     SUBMIT_BILL_DEBIT, QUERY_DEBIT_ATTEMPT, SEND_DEBIT_FAILURE_NOTICE]"

section \<open>Repository operations\<close>

text \<open>An \<open>updateMany\<close>: the rows the filter selects are updated, and counted.\<close>

definition update_many :: "('a \<Rightarrow> bool) \<Rightarrow> ('a \<Rightarrow> 'a) \<Rightarrow> 'a list \<Rightarrow> nat \<times> 'a list" where
  "update_many P f rows = (length (filter P rows), map (\<lambda>r. if P r then f r else r) rows)"

definition new_job :: "id \<Rightarrow> time \<Rightarrow> enqueue_input \<Rightarrow> automation_job" where
  "new_job newId now input =
     \<lparr> jb_id = newId, jb_billingScheduleId = eq_billingScheduleId input,
       jb_orderId = eq_orderId input, jb_billId = eq_billId input,
       jb_jobType = eq_jobType input, jb_jobStatus = PENDING,
       jb_idempotencyKey = eq_idempotencyKey input, jb_availableAt = eq_availableAt input,
       jb_attemptCount = 0,
       jb_maxAttempts = (case eq_maxAttempts input of None \<Rightarrow> 6 | Some n \<Rightarrow> n),
       jb_leaseToken = None, jb_leaseExpiresAt = None, jb_lastError = None,
       jb_startedAt = None, jb_completedAt = None, jb_cancelledAt = None, jb_createdAt = now \<rparr>"

text \<open>An upsert on the idempotency key with an empty update.\<close>

definition enqueue :: "id \<Rightarrow> time \<Rightarrow> enqueue_input \<Rightarrow> job_queue \<Rightarrow> automation_job \<times> job_queue" where
  "enqueue newId now input q = (case find_row jb_idempotencyKey (eq_idempotencyKey input) q of
       Some j \<Rightarrow> (j, q)
     | None \<Rightarrow> let j = new_job newId now input in (j, q @ [j]))"

definition due :: "time \<Rightarrow> automation_job \<Rightarrow> bool" where
  "due now j = ((jb_jobStatus j = PENDING \<and> jb_availableAt j \<le> now)
     \<or> (jb_jobStatus j = PROCESSING \<and>
        (case jb_leaseExpiresAt j of None \<Rightarrow> False | Some e \<Rightarrow> e \<le> now)))"

definition claimable :: "job_type list \<Rightarrow> (id \<Rightarrow> bool) \<Rightarrow> time \<Rightarrow> automation_job \<Rightarrow> bool" where
  "claimable supported scheduleActive now j =
     (due now j \<and> jb_jobType j \<in> set supported
      \<and> (jb_jobType j \<noteq> GENERATE_MONTHLY_RENT_BILL
         \<or> (case jb_billingScheduleId j of None \<Rightarrow> False | Some s \<Rightarrow> scheduleActive s)))"

definition lease_job :: "string \<Rightarrow> time \<Rightarrow> int \<Rightarrow> automation_job \<Rightarrow> automation_job" where
  "lease_job token now leaseMs j = j\<lparr>jb_jobStatus := PROCESSING, jb_leaseToken := Some token,
     jb_leaseExpiresAt := Some (now + leaseMs), jb_startedAt := Some now\<rparr>"

definition by_availability :: "job_queue \<Rightarrow> job_queue" where
  "by_availability q = sort_key jb_availableAt (sort_key jb_createdAt q)"

definition claimDue ::
    "int \<Rightarrow> int \<Rightarrow> job_type list \<Rightarrow> (id \<Rightarrow> bool) \<Rightarrow> string \<Rightarrow> time \<Rightarrow> job_queue
      \<Rightarrow> automation_job list \<times> job_queue" where
  "claimDue limit leaseMs supported scheduleActive token now q =
     (if limit \<le> 0 \<or> leaseMs \<le> 0 \<or> supported = [] then ([], q)
      else
        let ids = map jb_id (take (nat limit)
              (by_availability (filter (claimable supported scheduleActive now) q)));
            q' = snd (update_many (\<lambda>j. jb_id j \<in> set ids \<and> due now j) (lease_job token now leaseMs) q)
        in (by_availability (filter (\<lambda>j. jb_id j \<in> set ids \<and> jb_leaseToken j = Some token) q'), q'))"

definition processingLease :: "id \<Rightarrow> string \<Rightarrow> automation_job \<Rightarrow> bool" where
  "processingLease jobId leaseToken j =
     (jb_id j = jobId \<and> jb_jobStatus j = PROCESSING \<and> jb_leaseToken j = Some leaseToken)"

definition lease_update ::
    "id \<Rightarrow> string \<Rightarrow> (automation_job \<Rightarrow> automation_job) \<Rightarrow> job_queue \<Rightarrow> bool \<times> job_queue" where
  "lease_update jobId leaseToken f q =
     (let r = update_many (processingLease jobId leaseToken) f q in (fst r = 1, snd r))"

definition complete :: "time \<Rightarrow> id \<Rightarrow> string \<Rightarrow> job_queue \<Rightarrow> bool \<times> job_queue" where
  "complete now jobId leaseToken q = lease_update jobId leaseToken (\<lambda>j. j\<lparr>
     jb_completedAt := Some now, jb_jobStatus := COMPLETED, jb_lastError := None,
     jb_leaseExpiresAt := None, jb_leaseToken := None\<rparr>) q"

definition reschedule :: "time \<Rightarrow> int \<Rightarrow> failure \<Rightarrow> id \<Rightarrow> string \<Rightarrow> job_queue \<Rightarrow> bool \<times> job_queue" where
  "reschedule now delayMs error jobId leaseToken q = lease_update jobId leaseToken (\<lambda>j. j\<lparr>
     jb_attemptCount := jb_attemptCount j + 1, jb_availableAt := now + delayMs,
     jb_jobStatus := PENDING, jb_lastError := Some (fl_code error, fl_message error),
     jb_leaseExpiresAt := None, jb_leaseToken := None\<rparr>) q"

definition defer_job :: "time \<Rightarrow> failure \<Rightarrow> id \<Rightarrow> string \<Rightarrow> job_queue \<Rightarrow> bool \<times> job_queue" where
  "defer_job now reason jobId leaseToken q = lease_update jobId leaseToken (\<lambda>j. j\<lparr>
     jb_availableAt := now, jb_jobStatus := PENDING,
     jb_lastError := Some (fl_code reason, fl_message reason),
     jb_leaseExpiresAt := None, jb_leaseToken := None\<rparr>) q"

definition deadLetter :: "time \<Rightarrow> failure \<Rightarrow> id \<Rightarrow> string \<Rightarrow> job_queue \<Rightarrow> bool \<times> job_queue" where
  "deadLetter now error jobId leaseToken q = lease_update jobId leaseToken (\<lambda>j. j\<lparr>
     jb_attemptCount := jb_attemptCount j + 1, jb_completedAt := Some now,
     jb_jobStatus := DEAD_LETTER, jb_lastError := Some (fl_code error, fl_message error),
     jb_leaseExpiresAt := None, jb_leaseToken := None\<rparr>) q"

definition cancel_job :: "time \<Rightarrow> automation_job \<Rightarrow> automation_job" where
  "cancel_job now j = j\<lparr>jb_cancelledAt := Some now, jb_completedAt := Some now,
     jb_jobStatus := CANCELLED\<rparr>"

definition cancelPendingForSchedule :: "time \<Rightarrow> id \<Rightarrow> job_queue \<Rightarrow> nat \<times> job_queue" where
  "cancelPendingForSchedule now billingScheduleId q = update_many
     (\<lambda>j. jb_billingScheduleId j = Some billingScheduleId \<and> jb_jobStatus j = PENDING)
     (cancel_job now) q"

definition cancelPendingBillAutomationJobs :: "time \<Rightarrow> id list \<Rightarrow> job_queue \<Rightarrow> nat \<times> job_queue" where
  "cancelPendingBillAutomationJobs now billIds q =
     (if billIds = [] then (0, q)
      else update_many (\<lambda>j. (case jb_billId j of None \<Rightarrow> False | Some b \<Rightarrow> b \<in> set billIds)
          \<and> jb_jobStatus j = PENDING \<and> jb_jobType j \<in> set SETTLED_BILL_JOB_TYPES)
        (cancel_job now) q)"

definition reactivateCancelledScheduleGeneration ::
    "id \<Rightarrow> string \<Rightarrow> time \<Rightarrow> job_queue \<Rightarrow> nat \<times> job_queue" where
  "reactivateCancelledScheduleGeneration billingScheduleId idempotencyKey availableAt q = update_many
     (\<lambda>j. jb_billingScheduleId j = Some billingScheduleId \<and> jb_idempotencyKey j = idempotencyKey
        \<and> jb_jobStatus j = CANCELLED \<and> jb_jobType j = GENERATE_MONTHLY_RENT_BILL)
     (\<lambda>j. j\<lparr>jb_attemptCount := 0, jb_availableAt := availableAt, jb_cancelledAt := None,
        jb_completedAt := None, jb_jobStatus := PENDING, jb_lastError := None,
        jb_leaseExpiresAt := None, jb_leaseToken := None, jb_startedAt := None\<rparr>) q"

definition retryDeadLetter :: "time \<Rightarrow> id \<Rightarrow> job_queue \<Rightarrow> bool \<times> job_queue" where
  "retryDeadLetter now jobId q =
     (let r = update_many (\<lambda>j. jb_id j = jobId \<and> jb_jobStatus j = DEAD_LETTER)
        (\<lambda>j. j\<lparr>jb_attemptCount := 0, jb_availableAt := now, jb_completedAt := None,
           jb_jobStatus := PENDING, jb_lastError := None, jb_leaseExpiresAt := None,
           jb_leaseToken := None, jb_startedAt := None\<rparr>) q
      in (fst r = 1, snd r))"

section \<open>The worker\<close>

text \<open>What a handler throws: a \<open>BillingAutomationError\<close> with its code, or anything else.\<close>

datatype thrown = BillingAutomationError string | OtherError

definition genericExecutionError :: failure where
  "genericExecutionError = \<lparr> fl_code = ''BILLING_EXECUTION_ERROR'',
     fl_message = ''Billing automation operation failed.'', fl_retryable = True \<rparr>"

fun sanitizeBillingAutomationError :: "thrown \<Rightarrow> failure" where
  "sanitizeBillingAutomationError OtherError = genericExecutionError"
| "sanitizeBillingAutomationError (BillingAutomationError code) =
     (if code = ''BILLING_CONFIGURATION_ERROR'' then
        \<lparr> fl_code = ''BILLING_CONFIGURATION_ERROR'',
          fl_message = ''Billing automation configuration is invalid.'', fl_retryable = False \<rparr>
      else if code = ''BILLING_EXECUTION_ERROR'' then genericExecutionError
      else if code = ''BILLING_SCHEDULE_PAUSED'' then
        \<lparr> fl_code = ''BILLING_SCHEDULE_PAUSED'', fl_message = ''Billing schedule is paused.'',
          fl_retryable = True \<rparr>
      else if code = ''AUTO_DEBIT_QUERY_PENDING'' then
        \<lparr> fl_code = ''AUTO_DEBIT_QUERY_PENDING'',
          fl_message = ''Debit result is still pending provider confirmation.'', fl_retryable = True \<rparr>
      else genericExecutionError)"

definition RETRY_DELAYS_MS :: "int list" where
  "RETRY_DELAYS_MS = [60000, 300000, 900000, 3600000, 21600000]"

definition retryDelayMs :: "int \<Rightarrow> int" where
  "retryDelayMs attemptCount =
     RETRY_DELAYS_MS ! nat (min (max attemptCount 0) (int (length RETRY_DELAYS_MS) - 1))"

text \<open>\<open>result\<close> is what the handler did with the job: returned, or threw.\<close>

definition handleClaimedJob ::
    "time \<Rightarrow> automation_job \<Rightarrow> thrown option \<Rightarrow> job_queue \<Rightarrow> job_queue" where
  "handleClaimedJob now job result q =
     (let token = (case jb_leaseToken job of None \<Rightarrow> '''' | Some t \<Rightarrow> t) in
      case result of
        None \<Rightarrow> snd (complete now (jb_id job) token q)
      | Some error \<Rightarrow>
        (let sanitized = sanitizeBillingAutomationError error in
         if fl_code sanitized = ''BILLING_SCHEDULE_PAUSED''
         then snd (defer_job now sanitized (jb_id job) token q)
         else
           let failedAttempt = jb_attemptCount job + 1 in
           if \<not> fl_retryable sanitized \<or> failedAttempt \<ge> jb_maxAttempts job
           then snd (deadLetter now sanitized (jb_id job) token q)
           else snd (reschedule now (retryDelayMs (jb_attemptCount job)) sanitized (jb_id job) token q)))"

section \<open>The queue provides leases\<close>

datatype settle_op = Complete time | Reschedule time int failure | Defer time failure
  | DeadLetter time failure

fun settle :: "settle_op \<Rightarrow> id \<Rightarrow> string \<Rightarrow> job_queue \<Rightarrow> bool \<times> job_queue" where
  "settle (Complete now) j t q = complete now j t q"
| "settle (Reschedule now d e) j t q = reschedule now d e j t q"
| "settle (Defer now e) j t q = defer_job now e j t q"
| "settle (DeadLetter now e) j t q = deadLetter now e j t q"

definition holds :: "job_queue \<Rightarrow> id \<Rightarrow> string \<Rightarrow> bool" where
  "holds q j t = list_ex (processingLease j t) q"

definition ids_ok :: "job_queue \<Rightarrow> bool" where
  "ids_ok q = distinct (map jb_id q)"

definition claim :: "(int \<times> int \<times> job_type list \<times> (id \<Rightarrow> bool) \<times> time) \<Rightarrow> string \<Rightarrow> job_queue
    \<Rightarrow> id list \<times> job_queue" where
  "claim c t q = (case c of (limit, leaseMs, supported, act, now) \<Rightarrow>
     (let r = claimDue limit leaseMs supported act t now q in (map jb_id (fst r), snd r)))"

lemma map_id_update: "(\<And>j. jb_id (f j) = jb_id j) \<Longrightarrow>
  map jb_id (snd (update_many P f q)) = map jb_id q"
  by (induction q) (auto simp: update_many_def)

lemma set_update_many:
  "j \<in> set (snd (update_many P f q)) \<longleftrightarrow> (\<exists>i \<in> set q. j = (if P i then f i else i))"
  by (auto simp: update_many_def)

lemma bex_update_many:
  "(\<exists>x \<in> set (snd (update_many P f q)). R x) \<longleftrightarrow> (\<exists>i \<in> set q. R (if P i then f i else i))"
  by (auto simp: update_many_def)

lemma update_none: "\<not> list_ex P q \<Longrightarrow> update_many P f q = (0, q)"
proof -
  assume n: "\<not> list_ex P q"
  then have "map (\<lambda>r. if P r then f r else r) q = q" by (intro map_idI) (auto simp: list_ex_iff)
  with n show ?thesis by (auto simp: update_many_def list_ex_iff filter_empty_conv)
qed

lemma count_one: "ids_ok q \<Longrightarrow> length (filter (processingLease j t) q) = 1 \<longleftrightarrow> holds q j t"
  unfolding ids_ok_def holds_def
proof (induction q)
  case (Cons a q)
  show ?case
  proof (cases "processingLease j t a")
    case True
    then have "\<forall>b \<in> set q. \<not> processingLease j t b"
      using Cons.prems by (auto simp: processingLease_def image_iff)
    then have "filter (processingLease j t) q = []" by (simp add: filter_empty_conv)
    then show ?thesis using True by simp
  next
    case False
    then show ?thesis using Cons by simp
  qed
qed simp

lemma settle_form:
  "\<exists>f. (\<forall>q. settle a j t q = lease_update j t f q) \<and> (\<forall>x. jb_id (f x) = jb_id x)
    \<and> (\<forall>x. jb_leaseToken (f x) = None)"
  by (cases a) (auto simp: complete_def reschedule_def defer_job_def deadLetter_def intro!: exI)

lemma holds_lease_update:
  assumes ok: "ids_ok q" and f: "\<And>x. jb_id (f x) = jb_id x" "\<And>x. jb_leaseToken (f x) = None"
  shows "holds (snd (lease_update j t f q)) i t' \<longleftrightarrow> holds q i t' \<and> \<not> (i = j \<and> t' = t)"
proof -
  have "processingLease i t' (if processingLease j t x then f x else x)
      \<longleftrightarrow> processingLease i t' x \<and> \<not> (i = j \<and> t' = t)" for x
    using f [of x] by (auto simp: processingLease_def)
  then have "list_ex (processingLease i t') (map (\<lambda>x. if processingLease j t x then f x else x) q)
      \<longleftrightarrow> list_ex (processingLease i t') q \<and> \<not> (i = j \<and> t' = t)"
    by (induction q) auto
  then show ?thesis by (simp add: holds_def lease_update_def update_many_def Let_def)
qed

lemma by_availability_set [simp]: "set (by_availability q) = set q"
  by (simp add: by_availability_def)

lemma claimDue_queue:
  obtains ids where "snd (claimDue limit leaseMs supported act t now q)
      = snd (update_many (\<lambda>j. jb_id j \<in> set ids \<and> due now j) (lease_job t now leaseMs) q)"
    and "\<forall>i \<in> set ids. \<exists>j \<in> set q. jb_id j = i \<and> claimable supported act now j"
    and "set (fst (claimDue limit leaseMs supported act t now q))
      = {j \<in> set (snd (claimDue limit leaseMs supported act t now q)).
          jb_id j \<in> set ids \<and> jb_leaseToken j = Some t}"
    and "length ids \<le> nat limit"
proof (cases "limit \<le> 0 \<or> leaseMs \<le> 0 \<or> supported = []")
  case True
  then show ?thesis
    using that [of "[]"] by (auto simp: claimDue_def update_many_def)
next
  case False
  define ids where "ids = map jb_id (take (nat limit)
    (by_availability (filter (claimable supported act now) q)))"
  have "\<forall>i \<in> set ids. \<exists>j \<in> set q. jb_id j = i \<and> claimable supported act now j"
    by (auto simp: ids_def dest!: in_set_takeD)
  then show ?thesis
    using False by (intro that [of ids]) (auto simp: claimDue_def Let_def ids_def)
qed

interpretation lq: leased_queue ids_ok holds settle claim
proof
  fix q :: job_queue and a :: settle_op and j i :: id and t t' :: string
    and c :: "int \<times> int \<times> job_type list \<times> (id \<Rightarrow> bool) \<times> time"
  assume ok: "ids_ok q"
  obtain f where g: "\<forall>q. settle a j t q = lease_update j t f q" "\<forall>x. jb_id (f x) = jb_id x"
    "\<forall>x. jb_leaseToken (f x) = None"
    using settle_form [of a j t] by (elim exE conjE)
  note f = g(1) [rule_format] g(2) [rule_format] g(3) [rule_format]
  show "ids_ok (snd (settle a j t q))"
    unfolding f(1) lease_update_def Let_def snd_conv ids_ok_def map_id_update [OF f(2)]
    using ok by (simp only: ids_ok_def)
  show "fst (settle a j t q) \<longleftrightarrow> holds q j t"
    unfolding f(1) lease_update_def Let_def fst_conv update_many_def by (rule count_one [OF ok])
  show "\<not> holds q j t \<Longrightarrow> snd (settle a j t q) = q"
    unfolding f(1) lease_update_def Let_def snd_conv holds_def by (simp add: update_none)
  show uniq: "holds q j t \<Longrightarrow> holds q j t' \<Longrightarrow> t = t'"
    using ok by (auto simp: holds_def list_ex_iff processingLease_def ids_ok_def)
      (metis distinct_map inj_onD option.inject)
  show "holds q j t \<Longrightarrow> \<not> holds (snd (settle a j t q)) j t'"
    unfolding f(1) holds_lease_update [OF ok f(2,3)] using uniq by blast
  show "i \<noteq> j \<Longrightarrow> holds (snd (settle a j t q)) i t' \<longleftrightarrow> holds q i t'"
    unfolding f(1) holds_lease_update [OF ok f(2,3)] by blast
  obtain limit leaseMs supported act now where c: "c = (limit, leaseMs, supported, act, now)"
    by (cases c) auto
  obtain ids where ids: "snd (claimDue limit leaseMs supported act t now q)
      = snd (update_many (\<lambda>j. jb_id j \<in> set ids \<and> due now j) (lease_job t now leaseMs) q)"
    "\<forall>i \<in> set ids. \<exists>j \<in> set q. jb_id j = i \<and> claimable supported act now j"
    "set (fst (claimDue limit leaseMs supported act t now q))
      = {j \<in> set (snd (claimDue limit leaseMs supported act t now q)).
          jb_id j \<in> set ids \<and> jb_leaseToken j = Some t}"
    by (rule claimDue_queue [of limit leaseMs supported act t now q])
  show "ids_ok (snd (claim c t q))"
    using ok map_id_update [of "lease_job t now leaseMs"]
    by (simp add: ids_ok_def claim_def c Let_def ids(1) lease_job_def)
  have inj: "x \<in> set q \<Longrightarrow> y \<in> set q \<Longrightarrow> jb_id x = jb_id y \<Longrightarrow> x = y" for x y
    using ok by (metis distinct_map inj_onD ids_ok_def)
  have due: "x \<in> set q \<Longrightarrow> jb_id x \<in> set ids \<Longrightarrow> due now x" for x
    using ids(2) inj by (fastforce simp: claimable_def)
  show "j \<in> set (fst (claim c t q)) \<Longrightarrow> holds (snd (claim c t q)) j t"
    unfolding claim_def c Let_def prod.case snd_conv fst_conv holds_def list_ex_iff ids(1) bex_update_many
    using due by (auto simp: ids(1,3) set_update_many processingLease_def lease_job_def)
  assume nj: "j \<notin> set (fst (claim c t q))"
  have "\<not> (x \<in> set q \<and> jb_id x = j \<and> jb_id x \<in> set ids)" for x
  proof
    assume x: "x \<in> set q \<and> jb_id x = j \<and> jb_id x \<in> set ids"
    then have "lease_job t now leaseMs x \<in> set (snd (claimDue limit leaseMs supported act t now q))"
      using due unfolding ids(1) set_update_many by (intro bexI [of _ x]) auto
    then have "lease_job t now leaseMs x \<in> set (fst (claimDue limit leaseMs supported act t now q))"
      using x unfolding ids(3) by (auto simp: lease_job_def)
    then have "jb_id (lease_job t now leaseMs x) \<in> set (fst (claim c t q))"
      by (simp add: claim_def c Let_def)
    then show False using nj x by (auto simp: lease_job_def)
  qed
  then show "holds (snd (claim c t q)) j t' \<longleftrightarrow> holds q j t'"
    unfolding claim_def c Let_def prod.case snd_conv ids(1) holds_def list_ex_iff bex_update_many
    by (auto simp: processingLease_def lease_job_def)
qed

section \<open>The worker keeps the queue sound\<close>

record worker_state =
  wk_queue :: job_queue
  wk_claimed :: "automation_job list"
  wk_tokens :: "string list"

datatype worker_op =
    WEnqueue id time enqueue_input
  | WClaim int int "job_type list" "id list" string time
  | WHandle time automation_job "thrown option"
  | WCancelSchedule time id
  | WCancelBills time "id list"
  | WReactivate id string time
  | WRetry time id

text \<open>
  Row ids and lease tokens are fresh UUIDs and an enqueued job allows at least
  one attempt; a worker handles only snapshots it claimed.
\<close>

fun worker_step :: "worker_op \<Rightarrow> worker_state \<Rightarrow> (string, worker_state) result" where
  "worker_step (WEnqueue i now input) w =
     (if i \<in> set (map jb_id (wk_queue w)) \<or> jb_maxAttempts (new_job i now input) \<le> 0
      then Inl ''not fresh'' else Inr (w\<lparr>wk_queue := snd (enqueue i now input (wk_queue w))\<rparr>))"
| "worker_step (WClaim limit leaseMs supported active token now) w =
     (if token \<in> set (wk_tokens w) then Inl ''not fresh''
      else let r = claimDue limit leaseMs supported (\<lambda>s. s \<in> set active) token now (wk_queue w) in
        Inr (w\<lparr>wk_queue := snd r, wk_claimed := fst r @ wk_claimed w, wk_tokens := token # wk_tokens w\<rparr>))"
| "worker_step (WHandle now job res) w =
     (if job \<notin> set (wk_claimed w) then Inl ''not claimed''
      else Inr (w\<lparr>wk_queue := handleClaimedJob now job res (wk_queue w)\<rparr>))"
| "worker_step (WCancelSchedule now s) w =
     Inr (w\<lparr>wk_queue := snd (cancelPendingForSchedule now s (wk_queue w))\<rparr>)"
| "worker_step (WCancelBills now bs) w =
     Inr (w\<lparr>wk_queue := snd (cancelPendingBillAutomationJobs now bs (wk_queue w))\<rparr>)"
| "worker_step (WReactivate s k t) w =
     Inr (w\<lparr>wk_queue := snd (reactivateCancelledScheduleGeneration s k t (wk_queue w))\<rparr>)"
| "worker_step (WRetry now i) w = Inr (w\<lparr>wk_queue := snd (retryDeadLetter now i (wk_queue w))\<rparr>)"

definition job_ok :: "string list \<Rightarrow> automation_job \<Rightarrow> bool" where
  "job_ok used j =
     ((jb_jobStatus j = PROCESSING \<longleftrightarrow> jb_leaseToken j \<noteq> None)
      \<and> (jb_leaseToken j = None \<longleftrightarrow> jb_leaseExpiresAt j = None)
      \<and> (\<forall>t. jb_leaseToken j = Some t \<longrightarrow> t \<in> set used)
      \<and> 0 \<le> jb_attemptCount j \<and> jb_attemptCount j \<le> jb_maxAttempts j \<and> 0 < jb_maxAttempts j
      \<and> (jb_jobStatus j = PENDING \<or> jb_jobStatus j = PROCESSING \<longrightarrow>
           jb_attemptCount j < jb_maxAttempts j))"

definition snapshot_ok :: "automation_job \<Rightarrow> automation_job \<Rightarrow> bool" where
  "snapshot_ok s j = (jb_id j = jb_id s \<and> jb_leaseToken j = jb_leaseToken s \<longrightarrow>
     jb_attemptCount j = jb_attemptCount s \<and> jb_maxAttempts j = jb_maxAttempts s)"

definition worker_inv :: "worker_state \<Rightarrow> bool" where
  "worker_inv w =
     (ids_ok (wk_queue w) \<and> distinct (map jb_idempotencyKey (wk_queue w))
      \<and> (\<forall>j \<in> set (wk_queue w). job_ok (wk_tokens w) j)
      \<and> (\<forall>s \<in> set (wk_claimed w). jb_leaseToken s \<noteq> None
           \<and> (\<forall>t. jb_leaseToken s = Some t \<longrightarrow> t \<in> set (wk_tokens w))
           \<and> (\<forall>j \<in> set (wk_queue w). snapshot_ok s j)))"

text \<open>An update of rows that keeps ids and keys and ends with no lease on the changed rows.\<close>

lemma update_inv:
  assumes inv: "worker_inv w"
    and keep: "\<And>x. jb_id (f x) = jb_id x" "\<And>x. jb_idempotencyKey (f x) = jb_idempotencyKey x"
      "\<And>x. P x \<Longrightarrow> jb_leaseToken (f x) = None"
    and good: "\<And>x. x \<in> set (wk_queue w) \<Longrightarrow> P x \<Longrightarrow> job_ok (wk_tokens w) x \<Longrightarrow> job_ok (wk_tokens w) (f x)"
  shows "worker_inv (w\<lparr>wk_queue := snd (update_many P f (wk_queue w))\<rparr>)"
proof -
  have key: "map jb_idempotencyKey (snd (update_many P f q)) = map jb_idempotencyKey q" for q
    using keep(2) by (auto simp: update_many_def)
  have "snapshot_ok s (if P i then f i else i)"
    if "s \<in> set (wk_claimed w)" "i \<in> set (wk_queue w)" for s i
    using inv that keep by (auto simp: worker_inv_def snapshot_ok_def)
  then show ?thesis
    using inv good map_id_update [of f P, OF keep(1)] key
    by (auto simp: worker_inv_def ids_ok_def set_update_many)
qed

lemma cancel_ok: "job_ok used x \<Longrightarrow> jb_jobStatus x = PENDING \<Longrightarrow> job_ok used (cancel_job now x)"
  by (auto simp: job_ok_def cancel_job_def)

lemma cancel_keep: "jb_id (cancel_job now x) = jb_id x"
  "jb_idempotencyKey (cancel_job now x) = jb_idempotencyKey x"
  "jb_leaseToken (cancel_job now x) = jb_leaseToken x"
  by (simp_all add: cancel_job_def)

lemma pending_no_lease: "worker_inv w \<Longrightarrow> x \<in> set (wk_queue w) \<Longrightarrow> jb_jobStatus x = PENDING \<Longrightarrow>
   jb_leaseToken x = None"
  by (auto simp: worker_inv_def job_ok_def)

lemma cancel_inv:
  assumes inv: "worker_inv w" and P: "\<And>x. P x \<Longrightarrow> jb_jobStatus x = PENDING"
  shows "worker_inv (w\<lparr>wk_queue := snd (update_many P (cancel_job now) (wk_queue w))\<rparr>)"
proof -
  let ?f = "\<lambda>x. if x \<in> set (wk_queue w) then cancel_job now x else x\<lparr>jb_leaseToken := None\<rparr>"
  have "snd (update_many P (cancel_job now) (wk_queue w)) = snd (update_many P ?f (wk_queue w))"
    by (simp add: update_many_def)
  moreover have "worker_inv (w\<lparr>wk_queue := snd (update_many P ?f (wk_queue w))\<rparr>)"
    using pending_no_lease [OF inv] P
    by (intro update_inv [OF inv]) (auto simp: cancel_keep cancel_ok)
  ultimately show ?thesis by simp
qed

text \<open>The row a handled job is left with.\<close>

definition handled :: "time \<Rightarrow> automation_job \<Rightarrow> thrown option \<Rightarrow> automation_job \<Rightarrow> automation_job" where
  "handled now s res x = (case res of
       None \<Rightarrow> x\<lparr>jb_completedAt := Some now, jb_jobStatus := COMPLETED, jb_lastError := None,
         jb_leaseExpiresAt := None, jb_leaseToken := None\<rparr>
     | Some e \<Rightarrow>
       (let f = sanitizeBillingAutomationError e; err = Some (fl_code f, fl_message f) in
        if fl_code f = ''BILLING_SCHEDULE_PAUSED''
        then x\<lparr>jb_availableAt := now, jb_jobStatus := PENDING, jb_lastError := err,
          jb_leaseExpiresAt := None, jb_leaseToken := None\<rparr>
        else if \<not> fl_retryable f \<or> jb_attemptCount s + 1 \<ge> jb_maxAttempts s
        then x\<lparr>jb_attemptCount := jb_attemptCount x + 1, jb_completedAt := Some now,
          jb_jobStatus := DEAD_LETTER, jb_lastError := err, jb_leaseExpiresAt := None,
          jb_leaseToken := None\<rparr>
        else x\<lparr>jb_attemptCount := jb_attemptCount x + 1,
          jb_availableAt := now + retryDelayMs (jb_attemptCount s), jb_jobStatus := PENDING,
          jb_lastError := err, jb_leaseExpiresAt := None, jb_leaseToken := None\<rparr>))"

lemma handle_eq:
  assumes "jb_leaseToken s = Some t"
  shows "handleClaimedJob now s res q
    = snd (update_many (processingLease (jb_id s) t) (handled now s res) q)"
  using assms by (cases res) (simp_all add: handleClaimedJob_def handled_def [abs_def] complete_def
      reschedule_def defer_job_def deadLetter_def lease_update_def Let_def)

lemma handled_keep:
  "jb_id (handled now s res x) = jb_id x \<and> jb_idempotencyKey (handled now s res x) = jb_idempotencyKey x
   \<and> jb_leaseToken (handled now s res x) = None \<and> jb_leaseExpiresAt (handled now s res x) = None
   \<and> jb_maxAttempts (handled now s res x) = jb_maxAttempts x
   \<and> jb_jobStatus (handled now s res x) \<noteq> PROCESSING"
  by (cases res) (simp_all add: handled_def Let_def)

lemma handled_count:
  assumes "jb_attemptCount x = jb_attemptCount s" "jb_maxAttempts x = jb_maxAttempts s"
    and "0 \<le> jb_attemptCount x" "jb_attemptCount x < jb_maxAttempts x"
  shows "0 \<le> jb_attemptCount (handled now s res x)
    \<and> jb_attemptCount (handled now s res x) \<le> jb_maxAttempts x
    \<and> (jb_jobStatus (handled now s res x) = PENDING \<longrightarrow>
        jb_attemptCount (handled now s res x) < jb_maxAttempts x)"
  using assms by (cases res) (simp_all add: handled_def Let_def)

lemma handled_ok:
  assumes "job_ok used x" and "jb_jobStatus x = PROCESSING"
    and "jb_attemptCount x = jb_attemptCount s" "jb_maxAttempts x = jb_maxAttempts s"
  shows "job_ok used (handled now s res x)"
proof -
  have "0 \<le> jb_attemptCount x" "jb_attemptCount x < jb_maxAttempts x" "0 < jb_maxAttempts x"
    using assms(1,2) by (simp_all add: job_ok_def)
  then show ?thesis
    using handled_count [of x s now res] handled_keep [of now s res x] assms(3,4)
    by (simp add: job_ok_def)
qed

lemma handle_inv:
  assumes inv: "worker_inv w" and s: "s \<in> set (wk_claimed w)"
  shows "worker_inv (w\<lparr>wk_queue := handleClaimedJob now s res (wk_queue w)\<rparr>)"
proof -
  obtain t where t: "jb_leaseToken s = Some t"
    using inv s by (auto simp: worker_inv_def)
  have snap: "jb_attemptCount x = jb_attemptCount s \<and> jb_maxAttempts x = jb_maxAttempts s"
    if "x \<in> set (wk_queue w)" "processingLease (jb_id s) t x" for x
    using inv s that t by (auto simp: worker_inv_def snapshot_ok_def processingLease_def)
  show ?thesis
    unfolding handle_eq [OF t]
    using snap handled_keep
    by (intro update_inv [OF inv]) (simp_all add: handled_ok processingLease_def)
qed

lemma due_runs: "due now i \<Longrightarrow> jb_jobStatus i = PENDING \<or> jb_jobStatus i = PROCESSING"
  by (auto simp: due_def)

lemma lease_ok: "job_ok used i \<Longrightarrow> due now i \<Longrightarrow> job_ok (token # used) (lease_job token now leaseMs i)"
  using due_runs [of now i] by (auto simp: job_ok_def lease_job_def)

lemma job_ok_more: "job_ok used i \<Longrightarrow> job_ok (token # used) i"
  unfolding job_ok_def by auto

lemma claim_inv:
  assumes inv: "worker_inv w" and fresh: "token \<notin> set (wk_tokens w)"
    and r_def: "r = claimDue limit leaseMs supported act token now (wk_queue w)"
  shows "worker_inv (w\<lparr>wk_queue := snd r, wk_claimed := fst r @ wk_claimed w,
    wk_tokens := token # wk_tokens w\<rparr>)"
proof -
  obtain ids where q: "snd r = snd (update_many (\<lambda>j. jb_id j \<in> set ids \<and> due now j)
      (lease_job token now leaseMs) (wk_queue w))"
    and got: "set (fst r) = {j \<in> set (snd r). jb_id j \<in> set ids \<and> jb_leaseToken j = Some token}"
    unfolding r_def by (rule claimDue_queue [of limit leaseMs supported act token now "wk_queue w"])
  have uniq: "x \<in> set (wk_queue w) \<Longrightarrow> y \<in> set (wk_queue w) \<Longrightarrow> jb_id x = jb_id y \<Longrightarrow> x = y" for x y
    using inv by (metis distinct_map inj_onD ids_ok_def worker_inv_def)
  have jobs: "job_ok (token # wk_tokens w) j" if jr: "j \<in> set (snd r)" for j
  proof -
    obtain i where i: "i \<in> set (wk_queue w)"
      "j = (if jb_id i \<in> set ids \<and> due now i then lease_job token now leaseMs i else i)"
      using jr unfolding q set_update_many by blast
    have "job_ok (wk_tokens w) i" using inv i(1) by (simp add: worker_inv_def)
    then show ?thesis
      using lease_ok [of "wk_tokens w" i] job_ok_more [of "wk_tokens w" i] i(2) by (simp split: if_splits)
  qed
  have rows: "\<exists>x \<in> set (wk_queue w). jb_id j = jb_id x \<and> jb_attemptCount j = jb_attemptCount x
      \<and> jb_maxAttempts j = jb_maxAttempts x \<and> (jb_leaseToken j = jb_leaseToken x \<or> jb_leaseToken j = Some token)"
    if "j \<in> set (snd r)" for j
    using that unfolding q set_update_many by (auto simp: lease_job_def)
  have old: "snapshot_ok s j" if s: "s \<in> set (wk_claimed w)" and j: "j \<in> set (snd r)" for s j
  proof -
    have "jb_leaseToken s \<noteq> Some token" "\<forall>x \<in> set (wk_queue w). snapshot_ok s x"
      using inv s fresh by (auto simp: worker_inv_def)
    then show ?thesis using rows [OF j] by (auto simp: snapshot_ok_def)
  qed
  have new: "snapshot_ok s j" if s: "s \<in> set (fst r)" and j: "j \<in> set (snd r)" for s j
  proof -
    have "s \<in> set (snd r)" using s got by auto
    then obtain x y where "x \<in> set (wk_queue w)" "jb_id s = jb_id x" "jb_attemptCount s = jb_attemptCount x"
      "jb_maxAttempts s = jb_maxAttempts x" "y \<in> set (wk_queue w)" "jb_id j = jb_id y"
      "jb_attemptCount j = jb_attemptCount y" "jb_maxAttempts j = jb_maxAttempts y"
      using rows [of s] rows [OF j] by blast
    then show ?thesis using uniq [of x y] by (auto simp: snapshot_ok_def)
  qed
  have "map jb_idempotencyKey (snd r) = map jb_idempotencyKey (wk_queue w)"
    unfolding q by (auto simp: update_many_def lease_job_def)
  moreover have "ids_ok (snd r)"
    using inv map_id_update [of "lease_job token now leaseMs"]
    unfolding q by (simp add: worker_inv_def ids_ok_def lease_job_def)
  ultimately show ?thesis
    using inv jobs old new got by (auto simp: worker_inv_def)
qed

lemma enqueue_inv:
  assumes inv: "worker_inv w" and new: "i \<notin> set (map jb_id (wk_queue w))"
    and max: "0 < jb_maxAttempts (new_job i now input)"
  shows "worker_inv (w\<lparr>wk_queue := snd (enqueue i now input (wk_queue w))\<rparr>)"
proof (cases "find_row jb_idempotencyKey (eq_idempotencyKey input) (wk_queue w)")
  case (Some j)
  then show ?thesis using inv by (simp add: enqueue_def)
next
  case None
  let ?j = "new_job i now input"
  have j: "jb_id ?j = i" "jb_idempotencyKey ?j = eq_idempotencyKey input" "jb_leaseToken ?j = None"
    by (simp_all add: new_job_def)
  have "job_ok (wk_tokens w) ?j" using max by (simp add: job_ok_def new_job_def)
  moreover have "eq_idempotencyKey input \<notin> jb_idempotencyKey ` set (wk_queue w)"
    using None by (simp add: find_row_None)
  ultimately show ?thesis
    using inv new None j
    by (auto simp: enqueue_def worker_inv_def ids_ok_def snapshot_ok_def Let_def)
qed

lemma worker_step_inv:
  assumes inv: "worker_inv w" and step: "worker_step c w = Inr w'"
  shows "worker_inv w'"
proof (cases c)
  case (WEnqueue i now input)
  then show ?thesis using step enqueue_inv [OF inv] by (auto split: if_splits)
next
  case (WClaim limit leaseMs supported active token now)
  then have "token \<notin> set (wk_tokens w)" using step by (simp split: if_splits)
  from claim_inv [OF inv this refl] show ?thesis
    using step WClaim by (simp add: Let_def split: if_splits) blast
next
  case (WHandle now job res)
  then show ?thesis using step handle_inv [OF inv] by (auto split: if_splits)
next
  case (WCancelSchedule now s)
  then show ?thesis
    using step cancel_inv [OF inv, of "\<lambda>j. jb_billingScheduleId j = Some s \<and> jb_jobStatus j = PENDING" now]
    by (auto simp: cancelPendingForSchedule_def)
next
  case (WCancelBills now bs)
  then show ?thesis
    using step inv cancel_inv [OF inv, of "\<lambda>j. (case jb_billId j of None \<Rightarrow> False | Some b \<Rightarrow> b \<in> set bs)
        \<and> jb_jobStatus j = PENDING \<and> jb_jobType j \<in> set SETTLED_BILL_JOB_TYPES" now]
    by (auto simp: cancelPendingBillAutomationJobs_def)
next
  case (WReactivate s k t)
  have "worker_inv (w\<lparr>wk_queue := snd (reactivateCancelledScheduleGeneration s k t (wk_queue w))\<rparr>)"
    unfolding reactivateCancelledScheduleGeneration_def
    by (rule update_inv [OF inv]) (auto simp: job_ok_def)
  then show ?thesis using step WReactivate by simp
next
  case (WRetry now i)
  have "worker_inv (w\<lparr>wk_queue := snd (retryDeadLetter now i (wk_queue w))\<rparr>)"
    unfolding retryDeadLetter_def Let_def snd_conv
    by (rule update_inv [OF inv]) (auto simp: job_ok_def)
  then show ?thesis using step WRetry by simp
qed

interpretation worker_ops: guarded_ops worker_step worker_inv
  by unfold_locales (rule worker_step_inv)

definition empty_worker :: worker_state where
  "empty_worker = \<lparr> wk_queue = [], wk_claimed = [], wk_tokens = [] \<rparr>"

definition worker_run :: "worker_op list \<Rightarrow> worker_state" where
  "worker_run ops = fold (\<lambda>c w. case worker_step c w of Inl e \<Rightarrow> w | Inr w' \<Rightarrow> w') ops empty_worker"

lemma worker_run_is: "worker_run ops = worker_ops.run ops empty_worker"
proof -
  have "worker_ops.commit = (\<lambda>c w. case worker_step c w of Inl e \<Rightarrow> w | Inr w' \<Rightarrow> w')"
    by (intro ext) (simp add: worker_ops.commit_def)
  then show ?thesis by (simp add: worker_run_def worker_ops.run_def)
qed

section \<open>Properties\<close>

text \<open>
  C17 The queue is sound under every interleaving of enqueues, claims, handler
  results (also late ones, of workers whose lease ran out), cancellations,
  reactivations and retries: idempotency keys stay unique, a job has a lease
  token exactly while it is processing, and its attempt count never exceeds its
  maximum and stays below it while the job can still run.
\<close>

theorem job_queue_sound:
  "\<forall>j \<in> set (wk_queue (worker_run ops)).
     (jb_jobStatus j = PROCESSING \<longleftrightarrow> jb_leaseToken j \<noteq> None)
     \<and> 0 \<le> jb_attemptCount j \<and> jb_attemptCount j \<le> jb_maxAttempts j
     \<and> (jb_jobStatus j \<in> {PENDING, PROCESSING} \<longrightarrow> jb_attemptCount j < jb_maxAttempts j)
     \<and> (\<forall>i \<in> set (wk_queue (worker_run ops)). jb_idempotencyKey i = jb_idempotencyKey j \<longrightarrow> i = j)"
proof -
  have "worker_inv empty_worker" by (simp add: worker_inv_def empty_worker_def ids_ok_def)
  then have inv: "worker_inv (worker_run ops)"
    unfolding worker_run_is by (rule worker_ops.run_inv)
  have "i = j" if "i \<in> set (wk_queue (worker_run ops))" "j \<in> set (wk_queue (worker_run ops))"
    "jb_idempotencyKey i = jb_idempotencyKey j" for i j
    using inv that by (metis distinct_map inj_onD worker_inv_def)
  then show ?thesis using inv by (auto simp: worker_inv_def job_ok_def)
qed

definition ex_worker_ops :: "worker_op list" where
  "ex_worker_ops = [WEnqueue ''j'' 0 \<lparr> eq_availableAt = 5, eq_billId = Some ''b'',
       eq_billingScheduleId = None, eq_idempotencyKey = ''k'', eq_jobType = MARK_BILL_OVERDUE,
       eq_maxAttempts = None, eq_orderId = None \<rparr>,
     WClaim 1 100 [MARK_BILL_OVERDUE] [] ''t'' 7]"

theorem job_queue_sound_witness:
  "map jb_jobStatus (wk_queue (worker_run ex_worker_ops)) = [PROCESSING]
   \<and> jb_leaseToken (hd (wk_queue (worker_run ex_worker_ops))) \<noteq> None
   \<and> jb_attemptCount (hd (wk_queue (worker_run ex_worker_ops)))
      < jb_maxAttempts (hd (wk_queue (worker_run ex_worker_ops)))"
proof -
  have m: "map jb_jobStatus (wk_queue (worker_run ex_worker_ops)) = [PROCESSING]" by code_simp
  then obtain j where "wk_queue (worker_run ex_worker_ops) = [j]" "jb_jobStatus j = PROCESSING" by auto
  then show ?thesis using job_queue_sound [of ex_worker_ops] by simp
qed

text \<open>
  C22 Leases fence: when the lease of a worker ran out and another claim handed
  the job out under a new token, nothing the first worker reports (completion,
  reschedule, deferral or dead letter) has any effect; and once the job was
  settled under one token, a second settlement is refused.
\<close>

theorem expired_lease_is_fenced:
  assumes "distinct (map jb_id q)" and "jobId \<in> set (fst (claim c new q))" and "new \<noteq> old"
  shows "settle a jobId old (snd (claim c new q)) = (False, snd (claim c new q))
    \<and> fst (settle a jobId new (snd (claim c new q)))
    \<and> \<not> fst (settle b jobId t (snd (settle a jobId new (snd (claim c new q)))))"
proof -
  have ok: "ids_ok q" using assms(1) by (simp add: ids_ok_def)
  have "fst (settle a jobId new (snd (claim c new q)))"
    using lq.settle_effect [OF lq.claim_ok [OF ok]] lq.claim_holds [OF ok assms(2)] by blast
  then show ?thesis
    using lq.reclaim_fences [OF ok assms(2), of old] assms(3)
      lq.settle_once [OF lq.claim_ok [OF ok]] by blast
qed

definition ex_job :: automation_job where
  "ex_job = (new_job ''j'' 0 \<lparr> eq_availableAt = 5, eq_billId = Some ''b'', eq_billingScheduleId = None,
     eq_idempotencyKey = ''k'', eq_jobType = MARK_BILL_OVERDUE, eq_maxAttempts = None,
     eq_orderId = None \<rparr>)\<lparr>jb_jobStatus := PROCESSING, jb_leaseToken := Some ''old'',
     jb_leaseExpiresAt := Some 10\<rparr>"

theorem expired_lease_is_fenced_witness:
  "settle (Complete 30) ''j'' ''old'' (snd (claim (1, 100, [MARK_BILL_OVERDUE], \<lambda>_. True, 20) ''new'' [ex_job]))
     = (False, snd (claim (1, 100, [MARK_BILL_OVERDUE], \<lambda>_. True, 20) ''new'' [ex_job]))"
proof -
  have "''j'' \<in> set (fst (claim (1, 100, [MARK_BILL_OVERDUE], \<lambda>_. True, 20) ''new'' [ex_job]))"
    by code_simp
  then show ?thesis using expired_lease_is_fenced [of "[ex_job]" "''j''" "(1, 100, [MARK_BILL_OVERDUE], \<lambda>_. True, 20)" "''new''" "''old''" "Complete 30"]
    by simp
qed

text \<open>One round of a job whose handler keeps failing: claimed when due, then handled.\<close>

definition fail_round :: "automation_job \<Rightarrow> automation_job" where
  "fail_round j =
     (let now = jb_availableAt j;
          r = claimDue 1 120000 [jb_jobType j] (\<lambda>_. True) ''t'' now [j] in
      case fst r of [] \<Rightarrow> j | s # _ \<Rightarrow> hd (handleClaimedJob now s (Some OtherError) (snd r)))"

lemma fail_round_pending:
  assumes "jb_jobStatus j = PENDING" "jb_jobType j \<noteq> GENERATE_MONTHLY_RENT_BILL"
    and "jb_attemptCount j < jb_maxAttempts j" "0 \<le> jb_attemptCount j"
  shows "jb_attemptCount (fail_round j) = jb_attemptCount j + 1"
    and "jb_maxAttempts (fail_round j) = jb_maxAttempts j" and "jb_jobType (fail_round j) = jb_jobType j"
    and "jb_jobStatus (fail_round j) =
      (if jb_attemptCount j + 1 = jb_maxAttempts j then DEAD_LETTER else PENDING)"
    and "jb_availableAt (fail_round j) = jb_availableAt j
      + (if jb_attemptCount j + 1 = jb_maxAttempts j then 0 else retryDelayMs (jb_attemptCount j))"
proof -
  let ?s = "lease_job ''t'' (jb_availableAt j) 120000 j"
  have "claimDue 1 120000 [jb_jobType j] (\<lambda>_. True) ''t'' (jb_availableAt j) [j] = ([?s], [?s])"
    using assms by (simp add: claimDue_def by_availability_def claimable_def due_def update_many_def
        lease_job_def Let_def)
  then have "fail_round j = hd (handleClaimedJob (jb_availableAt j) ?s (Some OtherError) [?s])"
    by (simp add: fail_round_def Let_def)
  then have "fail_round j = (if jb_attemptCount j + 1 \<ge> jb_maxAttempts j
      then ?s\<lparr>jb_attemptCount := jb_attemptCount j + 1, jb_completedAt := Some (jb_availableAt j),
        jb_jobStatus := DEAD_LETTER,
        jb_lastError := Some (''BILLING_EXECUTION_ERROR'', ''Billing automation operation failed.''),
        jb_leaseExpiresAt := None, jb_leaseToken := None\<rparr>
      else ?s\<lparr>jb_attemptCount := jb_attemptCount j + 1,
        jb_availableAt := jb_availableAt j + retryDelayMs (jb_attemptCount j),
        jb_jobStatus := PENDING,
        jb_lastError := Some (''BILLING_EXECUTION_ERROR'', ''Billing automation operation failed.''),
        jb_leaseExpiresAt := None, jb_leaseToken := None\<rparr>)"
    by (simp add: handleClaimedJob_def deadLetter_def reschedule_def lease_update_def update_many_def
        processingLease_def genericExecutionError_def lease_job_def Let_def)
  then show "jb_attemptCount (fail_round j) = jb_attemptCount j + 1"
    "jb_maxAttempts (fail_round j) = jb_maxAttempts j" "jb_jobType (fail_round j) = jb_jobType j"
    "jb_jobStatus (fail_round j) =
      (if jb_attemptCount j + 1 = jb_maxAttempts j then DEAD_LETTER else PENDING)"
    "jb_availableAt (fail_round j) = jb_availableAt j
      + (if jb_attemptCount j + 1 = jb_maxAttempts j then 0 else retryDelayMs (jb_attemptCount j))"
    using assms by (simp_all add: lease_job_def)
qed



end
