(* ===== verification/FinanceDb.thy ===== *)
theory FinanceDb
  imports JsDate JobQueue "HOL-Library.List_Lexorder" "HOL-Library.Char_ord"
begin

text \<open>
  The tables \<open>finance.service.ts\<close> works on: bills, payments, write-offs, deposit
  ledgers, payment orders, collection cases, and the rows of the closure module
  that block an allocation.  The enumerations carry the names and constructors
  of the Prisma schema and are written qualified (\<open>BillStatus.PAID\<close>).  Columns that
  no modelled operation reads and that only describe a row (numbers, remarks,
  proofs, client addresses) are left out.  Amounts are integers: the columns are
  bigint, and the request fields are checked to be safe integers.  A request
  error names the message constant of the source.
\<close>

section \<open>Enumerations\<close>

datatype BillType = DEPOSIT | FIRST_MONTHLY_FEE | MONTHLY_RENT | OVER_MILEAGE | DAMAGE_FEE | OTHER
datatype BillStatus = PENDING | PARTIALLY_PAID | PAID | OVERDUE | CANCELLED
datatype PaymentMethod = BANK_TRANSFER | WECHAT | ALIPAY | CASH | OTHER
datatype PaymentStatus = PENDING_CONFIRM | CONFIRMED | CANCELLED
datatype PaymentProviderType = MOCK | WECHAT_PAY | ALIPAY | BANK_TRANSFER | OTHER
datatype PaymentChannel = MOCK | WECHAT_JSAPI | WECHAT_AUTO_DEBIT | WECHAT_H5 | ALIPAY_H5 | BANK_TRANSFER
datatype PaymentOrderStatus = CREATED | PENDING | PAID | FAILED | CLOSED | CANCELLED | EXPIRED
datatype DebitAttemptStatus = CREATED | SUBMITTING | PROCESSING | UNKNOWN | SUCCEEDED
  | FAILED_RETRYABLE | FAILED_FINAL | CANCELLED
datatype DepositTransactionType = COLLECT | FREEZE | DEDUCT | REFUND | RELEASE
datatype DepositTransactionStatus = PENDING | CONFIRMED | CANCELLED
datatype CollectionCaseStatus = ACTIVE | PAUSED | CLOSED
datatype OrderStatus = PENDING_REVIEW | PENDING_CUSTOMER_CONFIRMATION | PENDING_CONTRACT
  | PENDING_SIGN | PENDING_PAYMENT | PENDING_VEHICLE | PENDING_DELIVERY | ACTIVE | SUSPENDED
  | PENDING_RETURN | RETURNED_PENDING_SETTLEMENT | TERMINATED | COMPLETED | CANCELLED | REJECTED

section \<open>Rows\<close>

record receivable_bill =
  rb_id :: id
  rb_orderId :: id
  rb_customerId :: id
  rb_billType :: BillType
  rb_billStatus :: BillStatus
  rb_amount :: amount
  rb_paidAmount :: amount
  rb_remainingAmount :: amount
  rb_dueDate :: time
  rb_paidAt :: "time option"
  rb_updatedBy :: "id option"
  rb_deletedAt :: "time option"

record payment_record =
  pr_id :: id
  pr_orderId :: id
  pr_customerId :: id
  pr_paymentAmount :: amount
  pr_paymentMethod :: PaymentMethod
  pr_paymentStatus :: PaymentStatus
  pr_payerAccount :: "string option"
  pr_receivedAt :: time
  pr_deletedAt :: "time option"

record payment_write_off =
  wo_billId :: id
  wo_paymentId :: id
  wo_orderId :: id
  wo_customerId :: id
  wo_writeOffAmount :: amount
  wo_writeOffAt :: time
  wo_createdBy :: "id option"
  wo_deletedAt :: "time option"

record deposit_ledger =
  dl_customerId :: id
  dl_orderId :: id
  dl_billId :: "id option"
  dl_paymentId :: "id option"
  dl_transactionType :: DepositTransactionType
  dl_transactionStatus :: DepositTransactionStatus
  dl_amount :: amount
  dl_balanceAfter :: amount
  dl_occurredAt :: time
  dl_deletedAt :: "time option"

record payment_order_item =
  pi_billId :: id
  pi_amount :: amount
  pi_createdAt :: time
  pi_deletedAt :: "time option"

record payment_order =
  po_id :: id
  po_customerId :: "id option"
  po_orderId :: "id option"
  po_provider :: PaymentProviderType
  po_paymentChannel :: PaymentChannel
  po_paymentStatus :: PaymentOrderStatus
  po_amount :: amount
  po_paidAmount :: amount
  po_paidAt :: "time option"
  po_paymentRecordId :: "id option"
  po_providerTradeNo :: "string option"
  po_providerTransactionId :: "string option"
  po_callbackSnapshot :: "json option"
  po_errorSnapshot :: "json option"
  po_items :: "payment_order_item list"
  po_updatedBy :: "id option"
  po_deletedAt :: "time option"

record callback_log =
  cl_id :: id
  cl_paymentOrderId :: "id option"
  cl_provider :: PaymentProviderType
  cl_eventType :: "string option"
  cl_payload :: "json option"
  cl_providerTradeNo :: "string option"
  cl_providerTransactionId :: "string option"
  cl_handled :: bool
  cl_handledAt :: "time option"
  cl_verified :: bool

record debit_attempt =
  da_id :: id
  da_paymentOrderId :: id
  da_status :: DebitAttemptStatus
  da_confirmedAmount :: amount
  da_providerTransactionId :: "string option"
  da_resolvedAt :: "time option"
  da_lastErrorCode :: "string option"

record case_bill =
  cb_billId :: id
  cb_overdueAmount :: amount
  cb_deletedAt :: "time option"

record collection_case =
  cs_id :: id
  cs_orderId :: id
  cs_customerId :: id
  cs_caseStatus :: CollectionCaseStatus
  cs_totalOverdueAmount :: amount
  cs_closedAt :: "time option"
  cs_closeReason :: "string option"
  cs_nextFollowUpAt :: "time option"
  cs_bills :: "case_bill list"
  cs_updatedBy :: "id option"
  cs_deletedAt :: "time option"

text \<open>A system action on a collection case; only closing actions are written here.\<close>

record collection_action =
  ca_caseId :: id
  ca_content :: string
  ca_createdBy :: "id option"

record charge_dispute =
  cd_billId :: "id option"
  cd_status :: string
  cd_decision :: "string option"

record legal_case =
  lc_billId :: id
  lc_closedAt :: "time option"

record receivable_disposition =
  rd_billId :: id
  rd_disposition :: string
  rd_supersededBy :: "id option"

record finance_order =
  fo_id :: id
  fo_customerId :: id
  fo_salesUserId :: id
  fo_orderStatus :: OrderStatus
  fo_actualReturnAt :: "time option"
  fo_deletedAt :: "time option"

record request_user =
  ru_id :: id
  ru_roles :: "string list"

record finance_db =
  fd_orders :: "finance_order list"
  fd_bills :: "receivable_bill list"
  fd_payments :: "payment_record list"
  fd_writeOffs :: "payment_write_off list"
  fd_ledgers :: "deposit_ledger list"
  fd_paymentOrders :: "payment_order list"
  fd_callbackLogs :: "callback_log list"
  fd_debitAttempts :: "debit_attempt list"
  fd_cases :: "collection_case list"
  fd_actions :: "collection_action list"
  fd_disputes :: "charge_dispute list"
  fd_legalCases :: "legal_case list"
  fd_dispositions :: "receivable_disposition list"
  fd_jobs :: job_queue

datatype finance_error = BadRequest string | NotFound string | Forbidden string | RangeError string

section \<open>Queries\<close>

text \<open>The rows a \<open>findMany\<close> with \<open>deletedAt: null\<close> and an id filter returns.\<close>

definition live_bill :: "finance_db \<Rightarrow> id \<Rightarrow> receivable_bill option" where
  "live_bill db billId = List.find (\<lambda>b. rb_id b = billId \<and> rb_deletedAt b = None) (fd_bills db)"

definition findOrderOrThrow :: "finance_db \<Rightarrow> id \<Rightarrow> (finance_error, finance_order) result" where
  "findOrderOrThrow db orderId = (case find_row fo_id orderId (fd_orders db) of
       None \<Rightarrow> Inl (NotFound ''ORDER_NOT_FOUND_MESSAGE'')
     | Some order \<Rightarrow> if fo_deletedAt order \<noteq> None then Inl (NotFound ''ORDER_NOT_FOUND_MESSAGE'')
         else Inr order)"

definition canViewAllFinanceOrders :: "request_user \<Rightarrow> bool" where
  "canViewAllFinanceOrders user =
     list_ex (\<lambda>role. role \<in> {''ADMIN'', ''FI'', ''GM'', ''OP''}) (ru_roles user)"

definition ensureCanAccessOrderFinance ::
    "finance_order \<Rightarrow> request_user \<Rightarrow> (finance_error, unit) result" where
  "ensureCanAccessOrderFinance order user =
     ensure (canViewAllFinanceOrders user \<or> fo_salesUserId order = ru_id user)
       (Forbidden ''ORDER_FINANCE_FORBIDDEN_MESSAGE'')"

definition max_safe_integer :: int where
  "max_safe_integer = 9007199254740991"

definition assertPositiveInteger :: "int \<Rightarrow> string \<Rightarrow> (finance_error, unit) result" where
  "assertPositiveInteger v field = ensure (0 < v \<and> v \<le> max_safe_integer) (BadRequest field)"

text \<open>The bills whose receivable a dispute, a legal case or a disposition blocks.\<close>

definition closurePaymentBlockedBillIds :: "finance_db \<Rightarrow> id list \<Rightarrow> id list" where
  "closurePaymentBlockedBillIds db billIds =
     (if billIds = [] then []
      else dedupe
        (concat (map (\<lambda>d. case cd_billId d of None \<Rightarrow> [] | Some b \<Rightarrow>
             if b \<in> set billIds \<and> b \<noteq> '''' \<and> ((cd_decision d = None \<and> cd_status d = ''OPEN'')
                 \<or> cd_decision d = Some ''ACCEPTED_BY_PLATFORM'')
             then [b] else []) (fd_disputes db))
         @ map lc_billId (filter (\<lambda>c. lc_billId c \<in> set billIds \<and> lc_closedAt c = None)
             (fd_legalCases db))
         @ map rd_billId (filter (\<lambda>d. rd_billId d \<in> set billIds
             \<and> rd_disposition d \<in> {''DISPUTED'', ''LEGAL_COLLECTION''} \<and> rd_supersededBy d = None)
             (fd_dispositions db))))"

section \<open>The deposit account of an order\<close>

definition signedDepositLedgerAmount :: "deposit_ledger \<Rightarrow> amount" where
  "signedDepositLedgerAmount ledger =
     (if dl_transactionType ledger \<in> {DEDUCT, REFUND, RELEASE} then - dl_amount ledger
      else if dl_transactionType ledger = COLLECT then dl_amount ledger
      else 0)"

record deposit_balance_details =
  bd_availableBalance :: amount
  bd_collectedAmount :: amount
  bd_deductedAmount :: amount
  bd_latestLedger :: "deposit_ledger option"
  bd_refundedAmount :: amount
  bd_releasedAmount :: amount

definition add_ledger :: "deposit_balance_details \<Rightarrow> deposit_ledger \<Rightarrow> deposit_balance_details" where
  "add_ledger details ledger =
     (let t = dl_transactionType ledger; a = dl_amount ledger in
      details\<lparr>
        bd_collectedAmount := bd_collectedAmount details + (if t = COLLECT then a else 0),
        bd_deductedAmount := bd_deductedAmount details + (if t = DEDUCT then a else 0),
        bd_refundedAmount := bd_refundedAmount details + (if t = REFUND then a else 0),
        bd_releasedAmount := bd_releasedAmount details + (if t = RELEASE then a else 0),
        bd_availableBalance := bd_availableBalance details + signedDepositLedgerAmount ledger,
        bd_latestLedger := Some ledger\<rparr>)"

definition calculateDepositBalanceDetailsFromLedgers ::
    "deposit_ledger list \<Rightarrow> deposit_balance_details" where
  "calculateDepositBalanceDetailsFromLedgers ledgers =
     foldl add_ledger
       \<lparr> bd_availableBalance = 0, bd_collectedAmount = 0, bd_deductedAmount = 0,
         bd_latestLedger = None, bd_refundedAmount = 0, bd_releasedAmount = 0 \<rparr>
       (filter (\<lambda>l. dl_deletedAt l = None \<and> dl_transactionStatus l = DepositTransactionStatus.CONFIRMED)
         ledgers)"

text \<open>
  The confirmed ledgers of a customer's order in the order of \<open>occurredAt\<close>; ledgers
  of the same instant stay in the order they were written.
\<close>

definition confirmed_ledger :: "id \<Rightarrow> id \<Rightarrow> deposit_ledger \<Rightarrow> bool" where
  "confirmed_ledger customerId orderId l =
     (dl_customerId l = customerId \<and> dl_orderId l = orderId \<and> dl_deletedAt l = None
      \<and> dl_transactionStatus l = DepositTransactionStatus.CONFIRMED)"

definition calculateDepositBalanceDetails ::
    "finance_db \<Rightarrow> id \<Rightarrow> id \<Rightarrow> deposit_balance_details" where
  "calculateDepositBalanceDetails db customerId orderId =
     calculateDepositBalanceDetailsFromLedgers
       (sort_key dl_occurredAt (filter (confirmed_ledger customerId orderId) (fd_ledgers db)))"

definition calculateDepositBalance :: "finance_db \<Rightarrow> id \<Rightarrow> id \<Rightarrow> amount" where
  "calculateDepositBalance db customerId orderId =
     bd_availableBalance (calculateDepositBalanceDetails db customerId orderId)"

end
