(* ===== verification/Finance.thy ===== *)
theory Finance
  imports FinanceDb
begin

text \<open>
  The money-moving operations of \<open>finance.service.ts\<close>: settling a payment order,
  manual payments and write-offs, deposit deductions and refunds, and the
  reconciliation of collection cases they end with.  Each operation is one
  database transaction: it returns an error and leaves the database as it was,
  or the new database.  Audit entries and the journey signal are not modelled;
  ids of new rows and the clock are arguments.
\<close>

section \<open>Amounts\<close>

definition calculateWriteOffAmount ::
    "amount \<Rightarrow> amount \<Rightarrow> amount \<Rightarrow> (finance_error, amount) result" where
  "calculateWriteOffAmount itemAmount billRemainingAmount paymentRemainingAmount =
     (if itemAmount < 0 \<or> billRemainingAmount < 0 \<or> paymentRemainingAmount < 0
      then Inl (RangeError ''Settlement amounts cannot be negative.'')
      else Inr (foldl (\<lambda>minimum v. if v < minimum then v else minimum) itemAmount
        [billRemainingAmount, paymentRemainingAmount]))"

definition sumWriteOffAmount :: "payment_write_off list \<Rightarrow> amount" where
  "sumWriteOffAmount writeOffs =
     foldl (\<lambda>s w. s + wo_writeOffAmount w) 0 (filter (\<lambda>w. wo_deletedAt w = None) writeOffs)"

definition payment_writeOffs :: "finance_db \<Rightarrow> id \<Rightarrow> payment_write_off list" where
  "payment_writeOffs db paymentId =
     filter (\<lambda>w. wo_paymentId w = paymentId \<and> wo_deletedAt w = None) (fd_writeOffs db)"

fun paymentMethodForChannel :: "PaymentChannel \<Rightarrow> PaymentMethod" where
  "paymentMethodForChannel channel =
     (if channel = PaymentChannel.ALIPAY_H5 then PaymentMethod.ALIPAY
      else if channel = PaymentChannel.BANK_TRANSFER then PaymentMethod.BANK_TRANSFER
      else PaymentMethod.WECHAT)"

section \<open>Writing an amount off against a bill\<close>

text \<open>The bill after an amount has been paid on it, by a payment or from the deposit.\<close>

definition paid_bill :: "id option \<Rightarrow> time \<Rightarrow> amount \<Rightarrow> receivable_bill \<Rightarrow> receivable_bill" where
  "paid_bill operatorId paidAt writeOffAmount bill =
     (let nextRemainingAmount = rb_remainingAmount bill - writeOffAmount;
          nextPaidAmount = rb_paidAmount bill + writeOffAmount;
          nextBillStatus = (if nextRemainingAmount = 0 then BillStatus.PAID else BillStatus.PARTIALLY_PAID)
      in bill\<lparr>rb_billStatus := nextBillStatus, rb_paidAmount := nextPaidAmount,
           rb_paidAt := (if nextBillStatus = BillStatus.PAID then Some paidAt else rb_paidAt bill),
           rb_remainingAmount := nextRemainingAmount,
           rb_updatedBy := (case operatorId of None \<Rightarrow> rb_updatedBy bill | Some u \<Rightarrow> Some u)\<rparr>)"

definition update_bill :: "receivable_bill \<Rightarrow> finance_db \<Rightarrow> finance_db" where
  "update_bill bill db = db\<lparr>fd_bills := upd_row rb_id (rb_id bill) (\<lambda>_. bill) (fd_bills db)\<rparr>"

definition new_writeOff ::
    "payment_record \<Rightarrow> id option \<Rightarrow> time \<Rightarrow> id \<Rightarrow> amount \<Rightarrow> payment_write_off" where
  "new_writeOff payment operatorId at billId writeOffAmount =
     \<lparr> wo_billId = billId, wo_paymentId = pr_id payment, wo_orderId = pr_orderId payment,
       wo_customerId = pr_customerId payment, wo_writeOffAmount = writeOffAmount,
       wo_writeOffAt = at, wo_createdBy = operatorId, wo_deletedAt = None \<rparr>"

text \<open>A deposit bill that is paid for the first time is collected into the deposit account.\<close>

definition collect_deposit ::
    "payment_record \<Rightarrow> time \<Rightarrow> receivable_bill \<Rightarrow> finance_db \<Rightarrow> finance_db" where
  "collect_deposit payment at updatedBill db =
     (if rb_billType updatedBill = DEPOSIT \<and> rb_billStatus updatedBill = BillStatus.PAID
         \<and> \<not> list_ex (\<lambda>l. dl_billId l = Some (rb_id updatedBill) \<and> dl_deletedAt l = None
               \<and> dl_transactionType l = COLLECT) (fd_ledgers db)
      then
        let previousBalance = calculateDepositBalance db (pr_customerId payment) (pr_orderId payment)
        in db\<lparr>fd_ledgers := fd_ledgers db @ [
             \<lparr> dl_customerId = pr_customerId payment, dl_orderId = pr_orderId payment,
               dl_billId = Some (rb_id updatedBill), dl_paymentId = Some (pr_id payment),
               dl_transactionType = COLLECT,
               dl_transactionStatus = DepositTransactionStatus.CONFIRMED,
               dl_amount = rb_paidAmount updatedBill,
               dl_balanceAfter = previousBalance + rb_paidAmount updatedBill,
               dl_occurredAt = at, dl_deletedAt = None \<rparr>]\<rparr>
      else db)"

definition apply_write_off ::
    "payment_record \<Rightarrow> id option \<Rightarrow> time \<Rightarrow> receivable_bill \<Rightarrow> amount \<Rightarrow> finance_db
      \<Rightarrow> receivable_bill \<times> finance_db" where
  "apply_write_off payment operatorId at bill writeOffAmount db =
     (let updatedBill = paid_bill operatorId at writeOffAmount bill;
          db1 = update_bill updatedBill db;
          db2 = db1\<lparr>fd_writeOffs := fd_writeOffs db1
            @ [new_writeOff payment operatorId at (rb_id bill) writeOffAmount]\<rparr>
      in (updatedBill, collect_deposit payment at updatedBill db2))"

section \<open>Collection cases after a settlement\<close>

text \<open>The links of a case whose bill is not deleted, with the bill.\<close>

definition active_case_bills :: "finance_db \<Rightarrow> collection_case \<Rightarrow> (case_bill \<times> receivable_bill) list" where
  "active_case_bills db c = concat (map (\<lambda>l.
     if cb_deletedAt l \<noteq> None then []
     else case live_bill db (cb_billId l) of None \<Rightarrow> [] | Some b \<Rightarrow> [(l, b)]) (cs_bills c))"

definition refresh_link :: "finance_db \<Rightarrow> case_bill \<Rightarrow> case_bill" where
  "refresh_link db l =
     (if cb_deletedAt l \<noteq> None then l
      else case live_bill db (cb_billId l) of None \<Rightarrow> l
        | Some b \<Rightarrow> l\<lparr>cb_overdueAmount := rb_remainingAmount b\<rparr>)"

definition reconciled_case :: "finance_db \<Rightarrow> time \<Rightarrow> id option \<Rightarrow> collection_case \<Rightarrow> collection_case" where
  "reconciled_case db settledAt actorId c =
     (let totalOverdueAmount = sum_by (\<lambda>x. rb_remainingAmount (snd x)) (active_case_bills db c);
          c1 = c\<lparr>cs_bills := map (refresh_link db) (cs_bills c),
            cs_updatedBy := (case actorId of None \<Rightarrow> cs_updatedBy c | Some u \<Rightarrow> Some u)\<rparr>
      in if totalOverdueAmount > 0 then c1\<lparr>cs_totalOverdueAmount := totalOverdueAmount\<rparr>
         else c1\<lparr>cs_caseStatus := CollectionCaseStatus.CLOSED, cs_closedAt := Some settledAt,
            cs_closeReason := Some ''PAYMENT_SETTLED'', cs_nextFollowUpAt := None,
            cs_totalOverdueAmount := 0\<rparr>)"

definition affected_case :: "id list \<Rightarrow> collection_case \<Rightarrow> bool" where
  "affected_case billIds c =
     (list_ex (\<lambda>l. cb_billId l \<in> set billIds \<and> cb_deletedAt l = None) (cs_bills c)
      \<and> cs_caseStatus c = CollectionCaseStatus.ACTIVE \<and> cs_deletedAt c = None)"

definition outstanding_bill :: "time \<Rightarrow> id \<Rightarrow> receivable_bill \<Rightarrow> bool" where
  "outstanding_bill settledAt orderId b =
     (rb_billStatus b \<in> {BillStatus.PENDING, BillStatus.PARTIALLY_PAID, BillStatus.OVERDUE}
      \<and> rb_deletedAt b = None \<and> rb_dueDate b < settledAt \<and> rb_orderId b = orderId
      \<and> rb_remainingAmount b > 0)"

definition cancel_recovery_assessment :: "time \<Rightarrow> id \<Rightarrow> job_queue \<Rightarrow> job_queue" where
  "cancel_recovery_assessment settledAt orderId q = snd (update_many
     (\<lambda>j. jb_jobStatus j = job_status.PENDING \<and> jb_jobType j = CLOSURE_RECOVERY_ASSESSMENT_D7
        \<and> jb_orderId j = Some orderId)
     (\<lambda>j. j\<lparr>jb_cancelledAt := Some settledAt, jb_completedAt := Some settledAt,
        jb_jobStatus := job_status.CANCELLED, jb_leaseExpiresAt := None, jb_leaseToken := None\<rparr>) q)"

definition reconcileCollectionCasesAfterSettlement ::
    "id list \<Rightarrow> time \<Rightarrow> id option \<Rightarrow> finance_db \<Rightarrow> finance_db" where
  "reconcileCollectionCasesAfterSettlement billIds settledAt actorId db =
     (if billIds = [] then db
      else
        let cases' = map (\<lambda>c. if affected_case billIds c then reconciled_case db settledAt actorId c
              else c) (fd_cases db);
            closing = filter (\<lambda>c. affected_case billIds c
              \<and> cs_caseStatus (reconciled_case db settledAt actorId c) = CollectionCaseStatus.CLOSED)
              (fd_cases db);
            actions = map (\<lambda>c. \<lparr> ca_caseId = cs_id c, ca_content = ''PAYMENT_SETTLED'',
              ca_createdBy = actorId \<rparr>) closing;
            orderIds = dedupe (map rb_orderId (filter (\<lambda>b. rb_deletedAt b = None
              \<and> rb_id b \<in> set billIds) (fd_bills db)));
            settled = filter (\<lambda>o'. \<not> list_ex (outstanding_bill settledAt o') (fd_bills db)) orderIds
        in db\<lparr>fd_cases := cases', fd_actions := fd_actions db @ actions,
             fd_jobs := fold (cancel_recovery_assessment settledAt) settled (fd_jobs db)\<rparr>)"

text \<open>The end of both settlements: the jobs of settled bills are cancelled, cases reconciled.\<close>

definition after_settlement ::
    "id list \<Rightarrow> id list \<Rightarrow> time \<Rightarrow> time \<Rightarrow> id option \<Rightarrow> finance_db \<Rightarrow> finance_db" where
  "after_settlement settledBillIds billIds now settledAt actorId db =
     reconcileCollectionCasesAfterSettlement billIds settledAt actorId
       (db\<lparr>fd_jobs := snd (cancelPendingBillAutomationJobs now settledBillIds (fd_jobs db))\<rparr>)"

section \<open>Settling a payment order\<close>

record settle_debit =
  sd_id :: id
  sd_confirmedAmount :: amount
  sd_providerTransactionId :: string
  sd_resolvedAt :: time

record settle_input =
  si_callbackLogId :: "id option"
  si_callbackPayload :: "json option"
  si_debitAttempt :: "settle_debit option"
  si_eventType :: "string option"
  si_operatorId :: "id option"
  si_paidAmount :: amount
  si_paidAt :: time
  si_paymentOrderId :: id
  si_providerTradeNo :: "string option"
  si_providerTransactionId :: "string option"

record settle_result =
  sr_allocatedAmount :: amount
  sr_idempotent :: bool
  sr_paymentOrderId :: id
  sr_paymentRecordId :: "id option"
  sr_unallocatedAmount :: amount

definition or_else :: "'a option \<Rightarrow> 'a option \<Rightarrow> 'a option" where
  "or_else x y = (case x of None \<Rightarrow> y | Some v \<Rightarrow> Some v)"

text \<open>An update of a callback log that does not exist is an error of the database.\<close>

definition handle_log ::
    "settle_input \<Rightarrow> id \<Rightarrow> finance_db \<Rightarrow> (finance_error, finance_db) result" where
  "handle_log input paymentOrderId db = (case si_callbackLogId input of
       None \<Rightarrow> Inr db
     | Some logId \<Rightarrow>
         (if find_row cl_id logId (fd_callbackLogs db) = None then Inl (NotFound ''payment_callback_log'')
          else Inr (db\<lparr>fd_callbackLogs := upd_row cl_id logId (\<lambda>l. l\<lparr>cl_handled := True,
             cl_handledAt := Some (si_paidAt input), cl_paymentOrderId := Some paymentOrderId\<rparr>)
             (fd_callbackLogs db)\<rparr>)))"

definition settleable :: "settle_input \<Rightarrow> payment_order \<Rightarrow> bool" where
  "settleable input paymentOrder =
     (po_paymentStatus paymentOrder = PaymentOrderStatus.CREATED
      \<or> po_paymentStatus paymentOrder = PaymentOrderStatus.PENDING
      \<or> (si_callbackLogId input \<noteq> None \<and> po_paymentStatus paymentOrder = PaymentOrderStatus.CLOSED)
      \<or> (si_debitAttempt input \<noteq> None \<and> po_paymentStatus paymentOrder = PaymentOrderStatus.FAILED))"

definition live_items :: "payment_order \<Rightarrow> payment_order_item list" where
  "live_items paymentOrder =
     sort_key pi_createdAt (filter (\<lambda>i. pi_deletedAt i = None) (po_items paymentOrder))"

definition new_payment :: "id \<Rightarrow> settle_input \<Rightarrow> payment_order \<Rightarrow> id \<Rightarrow> id \<Rightarrow> payment_record" where
  "new_payment paymentId input paymentOrder customerId orderId =
     \<lparr> pr_id = paymentId, pr_orderId = orderId, pr_customerId = customerId,
       pr_paymentAmount = si_paidAmount input,
       pr_paymentMethod = paymentMethodForChannel (po_paymentChannel paymentOrder),
       pr_paymentStatus = PaymentStatus.CONFIRMED,
       pr_payerAccount = or_else (si_providerTransactionId input) (si_providerTradeNo input),
       pr_receivedAt = si_paidAt input, pr_deletedAt = None \<rparr>"

text \<open>The allocation loop: the money left, the bills it settled, the database.\<close>

record allocation =
  al_available :: amount
  al_allocated :: amount
  al_settled :: "id list"
  al_db :: finance_db

definition allocate_item ::
    "id list \<Rightarrow> payment_record \<Rightarrow> id option \<Rightarrow> time \<Rightarrow> payment_order_item \<Rightarrow> allocation
      \<Rightarrow> (finance_error, allocation) result" where
  "allocate_item blocked payment operatorId paidAt item al =
     (case live_bill (al_db al) (pi_billId item) of
        None \<Rightarrow> Inr al
      | Some bill \<Rightarrow>
          if rb_billStatus bill = BillStatus.CANCELLED \<or> pi_billId item \<in> set blocked then Inr al
          else if rb_customerId bill \<noteq> pr_customerId payment \<or> rb_orderId bill \<noteq> pr_orderId payment
          then Inl (BadRequest ''BILL_PAYMENT_SCOPE_MISMATCH_MESSAGE'')
          else rbind (calculateWriteOffAmount (pi_amount item) (rb_remainingAmount bill) (al_available al))
            (\<lambda>writeOffAmount.
              if writeOffAmount \<le> 0 then Inr al
              else
                let r = apply_write_off payment operatorId paidAt bill writeOffAmount (al_db al) in
                Inr \<lparr> al_available = al_available al - writeOffAmount,
                  al_allocated = al_allocated al + writeOffAmount,
                  al_settled = al_settled al @ (if rb_remainingAmount (fst r) = 0 then [rb_id bill] else []),
                  al_db = snd r \<rparr>))"

fun allocate ::
    "id list \<Rightarrow> payment_record \<Rightarrow> id option \<Rightarrow> time \<Rightarrow> payment_order_item list \<Rightarrow> allocation
      \<Rightarrow> (finance_error, allocation) result" where
  "allocate blocked payment operatorId paidAt [] al = Inr al"
| "allocate blocked payment operatorId paidAt (item # items) al =
     rbind (allocate_item blocked payment operatorId paidAt item al)
       (allocate blocked payment operatorId paidAt items)"

definition succeed_debit_attempt ::
    "settle_input \<Rightarrow> id \<Rightarrow> finance_db \<Rightarrow> (finance_error, finance_db) result" where
  "succeed_debit_attempt input paymentOrderId db = (case si_debitAttempt input of
       None \<Rightarrow> Inr db
     | Some d \<Rightarrow>
         rbind (ensure (case find_row da_id (sd_id d) (fd_debitAttempts db) of
               None \<Rightarrow> False | Some a \<Rightarrow> da_paymentOrderId a = paymentOrderId)
             (BadRequest ''Debit attempt does not belong to the payment order.''))
           (\<lambda>_. Inr (db\<lparr>fd_debitAttempts := upd_row da_id (sd_id d) (\<lambda>a. a\<lparr>
              da_confirmedAmount := sd_confirmedAmount d, da_lastErrorCode := None,
              da_providerTransactionId := Some (sd_providerTransactionId d),
              da_resolvedAt := Some (sd_resolvedAt d), da_status := DebitAttemptStatus.SUCCEEDED\<rparr>)
              (fd_debitAttempts db)\<rparr>)))"

definition blocked_snapshot :: "id list \<Rightarrow> json" where
  "blocked_snapshot blocked = JObj [(''blockedBillIds'', JArr (map JStr (sort blocked))),
     (''code'', JStr ''PAYMENT_ALLOCATION_BLOCKED_BY_CLOSURE''),
     (''resolution'', JStr ''REFUND_OR_MANUAL_REVIEW_REQUIRED'')]"

definition paid_order :: "settle_input \<Rightarrow> id list \<Rightarrow> id \<Rightarrow> payment_order \<Rightarrow> payment_order" where
  "paid_order input blocked paymentId po = po\<lparr>
     po_callbackSnapshot := or_else (si_callbackPayload input) (po_callbackSnapshot po),
     po_errorSnapshot := (if blocked = [] then po_errorSnapshot po else Some (blocked_snapshot blocked)),
     po_paidAmount := si_paidAmount input, po_paidAt := Some (si_paidAt input),
     po_paymentRecordId := Some paymentId, po_paymentStatus := PaymentOrderStatus.PAID,
     po_providerTradeNo := or_else (si_providerTradeNo input) (po_providerTradeNo po),
     po_providerTransactionId := or_else (si_providerTransactionId input) (po_providerTransactionId po),
     po_updatedBy := or_else (si_operatorId input) (po_updatedBy po)\<rparr>"

definition record_callback ::
    "id \<Rightarrow> settle_input \<Rightarrow> payment_order \<Rightarrow> finance_db \<Rightarrow> (finance_error, finance_db) result" where
  "record_callback newLogId input po db =
     (if si_callbackLogId input \<noteq> None then handle_log input (po_id po) db
      else if si_callbackPayload input \<noteq> None \<or> si_eventType input \<noteq> None
      then Inr (db\<lparr>fd_callbackLogs := fd_callbackLogs db @ [
        \<lparr> cl_id = newLogId, cl_paymentOrderId = Some (po_id po), cl_provider = po_provider po,
          cl_eventType = si_eventType input, cl_payload = si_callbackPayload input,
          cl_providerTradeNo = or_else (si_providerTradeNo input) (po_providerTradeNo po),
          cl_providerTransactionId = si_providerTransactionId input, cl_handled = True,
          cl_handledAt = Some (si_paidAt input), cl_verified = True \<rparr>]\<rparr>)
      else Inr db)"

text \<open>The answer for an order that is already paid: nothing is paid again.\<close>

definition replay_settlement ::
    "settle_input \<Rightarrow> payment_order \<Rightarrow> finance_db \<Rightarrow> (finance_error, settle_result \<times> finance_db) result" where
  "replay_settlement input paymentOrder db =
     rbind (handle_log input (po_id paymentOrder) db) (\<lambda>db'.
       let existingWriteOffs = (case po_paymentRecordId paymentOrder of
             None \<Rightarrow> [] | Some p \<Rightarrow> payment_writeOffs db' p);
           allocatedAmount = sum_by wo_writeOffAmount existingWriteOffs
       in Inr (\<lparr> sr_allocatedAmount = allocatedAmount, sr_idempotent = True,
           sr_paymentOrderId = po_id paymentOrder, sr_paymentRecordId = po_paymentRecordId paymentOrder,
           sr_unallocatedAmount = po_paidAmount paymentOrder - allocatedAmount \<rparr>, db'))"

text \<open>The body of a first settlement, after its guards.\<close>

definition settle_now ::
    "id \<Rightarrow> id \<Rightarrow> time \<Rightarrow> settle_input \<Rightarrow> payment_order \<Rightarrow> id \<Rightarrow> id \<Rightarrow> finance_db
      \<Rightarrow> (finance_error, settle_result \<times> finance_db) result" where
  "settle_now newPaymentId newLogId now input paymentOrder customerId orderId db =
     (let items = live_items paymentOrder;
          billIds = map pi_billId items;
          blocked = closurePaymentBlockedBillIds db billIds;
          payment = new_payment newPaymentId input paymentOrder customerId orderId
      in rbind (allocate blocked payment (si_operatorId input) (si_paidAt input) items
           \<lparr> al_available = si_paidAmount input, al_allocated = 0, al_settled = [],
             al_db = db\<lparr>fd_payments := fd_payments db @ [payment]\<rparr> \<rparr>)
         (\<lambda>al. rbind (succeed_debit_attempt input (po_id paymentOrder)
             (after_settlement (al_settled al) billIds now (si_paidAt input) (si_operatorId input) (al_db al)))
         (\<lambda>db1. rbind (record_callback newLogId input paymentOrder
             (db1\<lparr>fd_paymentOrders := upd_row po_id (po_id paymentOrder)
                (paid_order input blocked newPaymentId) (fd_paymentOrders db1)\<rparr>))
         (\<lambda>db2. Inr (\<lparr> sr_allocatedAmount = al_allocated al, sr_idempotent = False,
             sr_paymentOrderId = po_id paymentOrder, sr_paymentRecordId = Some newPaymentId,
             sr_unallocatedAmount = al_available al \<rparr>, db2)))))"

definition duplicate_transaction :: "payment_order \<Rightarrow> string option \<Rightarrow> finance_db \<Rightarrow> bool" where
  "duplicate_transaction paymentOrder providerTransactionId db =
     (case providerTransactionId of None \<Rightarrow> False
      | Some t \<Rightarrow> t \<noteq> '''' \<and> list_ex (\<lambda>p. po_id p \<noteq> po_id paymentOrder
          \<and> po_provider p = po_provider paymentOrder \<and> po_providerTransactionId p = Some t)
          (fd_paymentOrders db))"

definition settlePaymentOrder ::
    "id \<Rightarrow> id \<Rightarrow> time \<Rightarrow> settle_input \<Rightarrow> finance_db
      \<Rightarrow> (finance_error, settle_result \<times> finance_db) result" where
  "settlePaymentOrder newPaymentId newLogId now input db =
     (if si_paidAmount input \<le> 0 then Inl (BadRequest ''Payment amount must be positive.'')
      else case find_row po_id (si_paymentOrderId input) (fd_paymentOrders db) of
        None \<Rightarrow> Inl (NotFound ''Payment order does not exist.'')
      | Some paymentOrder \<Rightarrow>
        if po_deletedAt paymentOrder \<noteq> None then Inl (NotFound ''Payment order does not exist.'')
        else if po_paymentStatus paymentOrder = PaymentOrderStatus.PAID
        then replay_settlement input paymentOrder db
        else if \<not> settleable input paymentOrder
        then Inl (BadRequest ''Current payment order status cannot be settled.'')
        else if si_paidAmount input \<noteq> po_amount paymentOrder
        then Inl (BadRequest ''Payment amount does not match the payment order.'')
        else case (po_customerId paymentOrder, po_orderId paymentOrder) of
          (Some customerId, Some orderId) \<Rightarrow>
            if duplicate_transaction paymentOrder
                 (or_else (si_providerTransactionId input) (po_providerTransactionId paymentOrder)) db
            then Inl (BadRequest ''Provider transaction already belongs to another payment order.'')
            else settle_now newPaymentId newLogId now input paymentOrder customerId orderId db
        | _ \<Rightarrow> Inl (BadRequest ''Payment order is missing customer or order scope.''))"

section \<open>Manual payments and write-offs\<close>

record create_payment_dto =
  cp_customerId :: id
  cp_orderId :: id
  cp_payerAccount :: "string option"
  cp_paymentAmount :: int
  cp_paymentMethod :: PaymentMethod
  cp_receivedAt :: js_date

definition createPayment ::
    "id \<Rightarrow> create_payment_dto \<Rightarrow> request_user \<Rightarrow> finance_db
      \<Rightarrow> (finance_error, payment_record \<times> finance_db) result" where
  "createPayment newPaymentId dto user db =
     rbind (assertPositiveInteger (cp_paymentAmount dto) ''paymentAmount'') (\<lambda>_.
     case cp_receivedAt dto of
       None \<Rightarrow> Inl (BadRequest ''receivedAt'')
     | Some receivedAt \<Rightarrow>
     rbind (findOrderOrThrow db (cp_orderId dto)) (\<lambda>order.
     rbind (ensureCanAccessOrderFinance order user) (\<lambda>_.
     rbind (ensure (fo_customerId order = cp_customerId dto)
       (BadRequest ''PAYMENT_CUSTOMER_MISMATCH_MESSAGE'')) (\<lambda>_.
     let payment = \<lparr> pr_id = newPaymentId, pr_orderId = cp_orderId dto,
           pr_customerId = cp_customerId dto, pr_paymentAmount = cp_paymentAmount dto,
           pr_paymentMethod = cp_paymentMethod dto, pr_paymentStatus = PaymentStatus.CONFIRMED,
           pr_payerAccount = cp_payerAccount dto, pr_receivedAt = receivedAt, pr_deletedAt = None \<rparr>
     in Inr (payment, db\<lparr>fd_payments := fd_payments db @ [payment]\<rparr>)))))"

type_synonym write_off_items = "(id \<times> int) list"

fun validate_items :: "id list \<Rightarrow> write_off_items \<Rightarrow> (finance_error, unit) result" where
  "validate_items billIds [] = Inr ()"
| "validate_items billIds ((billId, writeOffAmount) # items) =
     rbind (assertPositiveInteger writeOffAmount ''writeOffAmount'') (\<lambda>_.
     rbind (ensure (billId \<notin> set billIds) (BadRequest ''DUPLICATE_WRITE_OFF_BILL_MESSAGE''))
       (\<lambda>_. validate_items (billId # billIds) items))"

definition validateWriteOffDto :: "write_off_items \<Rightarrow> (finance_error, unit) result" where
  "validateWriteOffDto items =
     rbind (ensure (items \<noteq> []) (BadRequest ''items'')) (\<lambda>_. validate_items [] items)"

fun write_off_bills ::
    "payment_record \<Rightarrow> id \<Rightarrow> time \<Rightarrow> write_off_items \<Rightarrow> receivable_bill list \<Rightarrow> finance_db
      \<Rightarrow> (finance_error, receivable_bill list \<times> finance_db) result" where
  "write_off_bills payment userId now [] updatedBills db = Inr (updatedBills, db)"
| "write_off_bills payment userId now ((billId, writeOffAmount) # items) updatedBills db =
     (case live_bill db billId of
        None \<Rightarrow> Inl (NotFound ''BILL_NOT_FOUND_MESSAGE'')
      | Some bill \<Rightarrow>
          if rb_orderId bill \<noteq> pr_orderId payment \<or> rb_customerId bill \<noteq> pr_customerId payment
          then Inl (BadRequest ''BILL_PAYMENT_SCOPE_MISMATCH_MESSAGE'')
          else if rb_billStatus bill = BillStatus.CANCELLED
          then Inl (BadRequest ''CANCELLED_BILL_WRITE_OFF_MESSAGE'')
          else if writeOffAmount > rb_remainingAmount bill
          then Inl (BadRequest ''BILL_WRITE_OFF_OVER_AMOUNT_MESSAGE'')
          else
            let r = apply_write_off payment (Some userId) now bill writeOffAmount db in
            write_off_bills payment userId now items (updatedBills @ [fst r]) (snd r))"

definition writeOffPayment ::
    "id \<Rightarrow> write_off_items \<Rightarrow> time \<Rightarrow> request_user \<Rightarrow> finance_db
      \<Rightarrow> (finance_error, receivable_bill list \<times> finance_db) result" where
  "writeOffPayment paymentId items now user db =
     rbind (validateWriteOffDto items) (\<lambda>_.
     case find_row pr_id paymentId (fd_payments db) of
       None \<Rightarrow> Inl (NotFound ''PAYMENT_NOT_FOUND_MESSAGE'')
     | Some payment \<Rightarrow>
     if pr_deletedAt payment \<noteq> None then Inl (NotFound ''PAYMENT_NOT_FOUND_MESSAGE'')
     else case find_row fo_id (pr_orderId payment) (fd_orders db) of
       None \<Rightarrow> Inl (NotFound ''ORDER_NOT_FOUND_MESSAGE'')
     | Some order \<Rightarrow>
     rbind (ensureCanAccessOrderFinance order user) (\<lambda>_.
     rbind (ensure (pr_paymentStatus payment = PaymentStatus.CONFIRMED)
       (BadRequest ''PAYMENT_NOT_CONFIRMED_MESSAGE'')) (\<lambda>_.
     let requestedAmount = sum_by snd items;
         paymentWrittenOffAmount = sumWriteOffAmount (payment_writeOffs db paymentId);
         paymentRemainingAmount = pr_paymentAmount payment - paymentWrittenOffAmount;
         billIds = map fst items
     in rbind (ensure (requestedAmount \<le> paymentRemainingAmount)
          (BadRequest ''PAYMENT_WRITE_OFF_OVER_AMOUNT_MESSAGE'')) (\<lambda>_.
        rbind (ensure (list_all (\<lambda>b. live_bill db b \<noteq> None) billIds)
          (NotFound ''BILL_NOT_FOUND_MESSAGE'')) (\<lambda>_.
        rbind (write_off_bills payment (ru_id user) now items [] db) (\<lambda>(updatedBills, db1).
        Inr (updatedBills, after_settlement
          (map rb_id (filter (\<lambda>b. rb_remainingAmount b = 0) updatedBills)) billIds now now
          (Some (ru_id user)) db1)))))))"

section \<open>The deposit account\<close>

definition deposit_entry ::
    "finance_order \<Rightarrow> id option \<Rightarrow> DepositTransactionType \<Rightarrow> amount \<Rightarrow> amount \<Rightarrow> time \<Rightarrow> deposit_ledger" where
  "deposit_entry order billId transactionType amount balanceAfter now =
     \<lparr> dl_customerId = fo_customerId order, dl_orderId = fo_id order, dl_billId = billId,
       dl_paymentId = None, dl_transactionType = transactionType,
       dl_transactionStatus = DepositTransactionStatus.CONFIRMED, dl_amount = amount,
       dl_balanceAfter = balanceAfter, dl_occurredAt = now, dl_deletedAt = None \<rparr>"

definition damage_fee_bill_valid :: "finance_order \<Rightarrow> receivable_bill \<Rightarrow> bool" where
  "damage_fee_bill_valid order bill =
     (rb_orderId bill = fo_id order \<and> rb_customerId bill = fo_customerId order
      \<and> rb_billType bill = DAMAGE_FEE \<and> rb_billStatus bill \<noteq> BillStatus.CANCELLED
      \<and> rb_remainingAmount bill > 0)"

definition deductDeposit ::
    "id \<Rightarrow> int \<Rightarrow> id option \<Rightarrow> time \<Rightarrow> request_user \<Rightarrow> finance_db
      \<Rightarrow> (finance_error, receivable_bill \<times> deposit_ledger \<times> finance_db) result" where
  "deductDeposit orderId amount dtoBillId now user db =
     rbind (assertPositiveInteger amount ''amount'') (\<lambda>_.
     case dtoBillId of
       None \<Rightarrow> Inl (BadRequest ''DAMAGE_FEE_BILL_REQUIRED_MESSAGE'')
     | Some billId \<Rightarrow>
     rbind (findOrderOrThrow db orderId) (\<lambda>order.
     rbind (ensureCanAccessOrderFinance order user) (\<lambda>_.
     case live_bill db billId of
       None \<Rightarrow> Inl (BadRequest ''DAMAGE_FEE_BILL_INVALID_MESSAGE'')
     | Some bill \<Rightarrow>
     rbind (ensure (damage_fee_bill_valid order bill) (BadRequest ''DAMAGE_FEE_BILL_INVALID_MESSAGE'')) (\<lambda>_.
     let balance = calculateDepositBalanceDetails db (fo_customerId order) (fo_id order);
         balanceAfter = bd_availableBalance balance - amount
     in rbind (ensure (bd_collectedAmount balance > 0 \<and> bd_availableBalance balance > 0)
          (BadRequest ''DEPOSIT_NOT_COLLECTED_MESSAGE'')) (\<lambda>_.
        rbind (ensure (amount \<le> bd_availableBalance balance)
          (BadRequest ''DEPOSIT_BALANCE_INSUFFICIENT_MESSAGE'')) (\<lambda>_.
        rbind (ensure (amount \<le> rb_remainingAmount bill)
          (BadRequest ''DEPOSIT_DEDUCT_OVER_BILL_MESSAGE'')) (\<lambda>_.
        rbind (ensure (0 \<le> balanceAfter)
          (BadRequest ''DEPOSIT_BALANCE_INSUFFICIENT_MESSAGE'')) (\<lambda>_.
        let ledger = deposit_entry order (Some (rb_id bill)) DEDUCT amount balanceAfter now;
            updatedBill = paid_bill (Some (ru_id user)) now amount bill
        in Inr (updatedBill, ledger, update_bill updatedBill
             (db\<lparr>fd_ledgers := fd_ledgers db @ [ledger]\<rparr>))))))))))"

definition ensureOrderCanRefundDeposit :: "finance_order \<Rightarrow> (finance_error, unit) result" where
  "ensureOrderCanRefundDeposit order =
     ensure (fo_actualReturnAt order \<noteq> None \<or> fo_orderStatus order = OrderStatus.COMPLETED
         \<or> fo_orderStatus order = OrderStatus.TERMINATED)
       (BadRequest ''DEPOSIT_REFUND_NOT_ALLOWED_MESSAGE'')"

definition refundDeposit ::
    "id \<Rightarrow> int \<Rightarrow> time \<Rightarrow> request_user \<Rightarrow> finance_db
      \<Rightarrow> (finance_error, deposit_ledger \<times> finance_db) result" where
  "refundDeposit orderId amount now user db =
     rbind (assertPositiveInteger amount ''amount'') (\<lambda>_.
     rbind (findOrderOrThrow db orderId) (\<lambda>order.
     rbind (ensureCanAccessOrderFinance order user) (\<lambda>_.
     rbind (ensureOrderCanRefundDeposit order) (\<lambda>_.
     let balance = calculateDepositBalanceDetails db (fo_customerId order) (fo_id order);
         balanceAfter = bd_availableBalance balance - amount
     in rbind (ensure (amount \<le> bd_availableBalance balance)
          (BadRequest ''DEPOSIT_REFUND_OVER_BALANCE_MESSAGE'')) (\<lambda>_.
        rbind (ensure (0 \<le> balanceAfter)
          (BadRequest ''DEPOSIT_REFUND_OVER_BALANCE_MESSAGE'')) (\<lambda>_.
        let ledger = deposit_entry order None REFUND amount balanceAfter now
        in Inr (ledger, db\<lparr>fd_ledgers := fd_ledgers db @ [ledger]\<rparr>)))))))"

end
