(* ===== verification/FinanceLaws.thy ===== *)
theory FinanceLaws
  imports Finance Interfaces
begin

text \<open>
  The books balance.  \<open>books_ok\<close> says that every bill splits into paid and
  remaining, that what is paid on a bill is exactly what payments and deposit
  deductions have put there, that no payment is allocated beyond its amount, and
  that the deposit account of every order carries a correct, non-negative
  running balance.  Every operation of \<open>Finance\<close> keeps it.
\<close>

section \<open>The invariant\<close>

definition live_ledger :: "deposit_ledger \<Rightarrow> bool" where
  "live_ledger l = (dl_deletedAt l = None \<and> dl_transactionStatus l = DepositTransactionStatus.CONFIRMED)"

definition written_off :: "payment_write_off list \<Rightarrow> id \<Rightarrow> amount" where
  "written_off wos billId =
     sum_by wo_writeOffAmount (filter (\<lambda>w. wo_billId w = billId \<and> wo_deletedAt w = None) wos)"

definition allocated :: "payment_write_off list \<Rightarrow> id \<Rightarrow> amount" where
  "allocated wos paymentId =
     sum_by wo_writeOffAmount (filter (\<lambda>w. wo_paymentId w = paymentId \<and> wo_deletedAt w = None) wos)"

definition deducted :: "deposit_ledger list \<Rightarrow> id \<Rightarrow> amount" where
  "deducted ls billId = sum_by dl_amount
     (filter (\<lambda>l. dl_billId l = Some billId \<and> dl_transactionType l = DEDUCT \<and> live_ledger l) ls)"

fun running :: "amount \<Rightarrow> deposit_ledger list \<Rightarrow> bool" where
  "running b [] = True"
| "running b (l # ls) = (let b' = b + signedDepositLedgerAmount l in
     0 \<le> b' \<and> dl_balanceAfter l = b' \<and> running b' ls)"

definition bill_ok :: "receivable_bill \<Rightarrow> bool" where
  "bill_ok b = (0 \<le> rb_paidAmount b \<and> 0 \<le> rb_remainingAmount b
     \<and> rb_paidAmount b + rb_remainingAmount b = rb_amount b)"

definition writeOff_ok :: "receivable_bill list \<Rightarrow> payment_record list \<Rightarrow> payment_write_off \<Rightarrow> bool" where
  "writeOff_ok bills payments w =
     (0 < wo_writeOffAmount w
      \<and> (\<exists>b \<in> set bills. rb_id b = wo_billId w \<and> rb_deletedAt b = None
           \<and> rb_billStatus b \<noteq> BillStatus.CANCELLED
           \<and> rb_orderId b = wo_orderId w \<and> rb_customerId b = wo_customerId w)
      \<and> (\<exists>p \<in> set payments. pr_id p = wo_paymentId w \<and> pr_deletedAt p = None
           \<and> pr_paymentStatus p = PaymentStatus.CONFIRMED
           \<and> pr_orderId p = wo_orderId w \<and> pr_customerId p = wo_customerId w))"

definition ledger_ok :: "receivable_bill list \<Rightarrow> deposit_ledger \<Rightarrow> bool" where
  "ledger_ok bills l =
     (0 < dl_amount l
      \<and> (dl_transactionType l = DEDUCT \<longrightarrow> dl_paymentId l = None
         \<and> (\<exists>b \<in> set bills. dl_billId l = Some (rb_id b) \<and> rb_deletedAt b = None
              \<and> rb_billStatus b \<noteq> BillStatus.CANCELLED \<and> rb_billType b = DAMAGE_FEE
              \<and> rb_orderId b = dl_orderId l \<and> rb_customerId b = dl_customerId l)))"

definition scoped :: "finance_order list \<Rightarrow> id \<Rightarrow> id \<Rightarrow> bool" where
  "scoped orders orderId customerId =
     (\<exists>o' \<in> set orders. fo_id o' = orderId \<and> fo_customerId o' = customerId)"

definition keys_ok :: "finance_db \<Rightarrow> bool" where
  "keys_ok db = (distinct (map fo_id (fd_orders db)) \<and> distinct (map rb_id (fd_bills db))
     \<and> distinct (map pr_id (fd_payments db)) \<and> distinct (map po_id (fd_paymentOrders db)))"

definition scopes_ok :: "finance_db \<Rightarrow> bool" where
  "scopes_ok db =
     ((\<forall>b \<in> set (fd_bills db). scoped (fd_orders db) (rb_orderId b) (rb_customerId b))
      \<and> (\<forall>p \<in> set (fd_payments db). scoped (fd_orders db) (pr_orderId p) (pr_customerId p))
      \<and> (\<forall>l \<in> set (fd_ledgers db). scoped (fd_orders db) (dl_orderId l) (dl_customerId l))
      \<and> (\<forall>p \<in> set (fd_paymentOrders db). \<forall>c o'. po_customerId p = Some c \<longrightarrow> po_orderId p = Some o' \<longrightarrow>
           scoped (fd_orders db) o' c))"

definition deposits_ok :: "deposit_ledger list \<Rightarrow> bool" where
  "deposits_ok ls =
     (sorted (map dl_occurredAt ls) \<and> (\<forall>c o'. running 0 (filter (confirmed_ledger c o') ls)))"

definition books_ok :: "finance_db \<Rightarrow> bool" where
  "books_ok db =
     (keys_ok db \<and> scopes_ok db
      \<and> (\<forall>b \<in> set (fd_bills db). bill_ok b
           \<and> rb_paidAmount b = written_off (fd_writeOffs db) (rb_id b) + deducted (fd_ledgers db) (rb_id b))
      \<and> (\<forall>w \<in> set (fd_writeOffs db). wo_deletedAt w = None \<longrightarrow>
           writeOff_ok (fd_bills db) (fd_payments db) w)
      \<and> (\<forall>p \<in> set (fd_payments db). 0 < pr_paymentAmount p
           \<and> allocated (fd_writeOffs db) (pr_id p) \<le> pr_paymentAmount p)
      \<and> (\<forall>l \<in> set (fd_ledgers db). live_ledger l \<longrightarrow> ledger_ok (fd_bills db) l)
      \<and> deposits_ok (fd_ledgers db))"

section \<open>Deposit balances\<close>

lemma foldl_add_ledger:
  "bd_availableBalance (foldl add_ledger d ls)
     = bd_availableBalance d + sum_by signedDepositLedgerAmount ls
   \<and> bd_collectedAmount (foldl add_ledger d ls)
     = bd_collectedAmount d + sum_by dl_amount (filter (\<lambda>l. dl_transactionType l = COLLECT) ls)"
  by (induction ls arbitrary: d) (auto simp: add_ledger_def Let_def)

lemma sum_by_mset: "mset xs = mset ys \<Longrightarrow> sum_by f xs = sum_by f ys"
  unfolding sum_by_def by (metis mset_map sum_mset_sum_list)

lemma sum_by_sort: "sum_by f (sort_key g xs) = sum_by f xs"
  by (rule sum_by_mset) simp

lemma available_balance:
  "calculateDepositBalance db c o' =
     sum_by signedDepositLedgerAmount (filter (confirmed_ledger c o') (fd_ledgers db))"
proof -
  have "filter (\<lambda>l. dl_deletedAt l = None \<and> dl_transactionStatus l = DepositTransactionStatus.CONFIRMED)
      (sort_key dl_occurredAt (filter (confirmed_ledger c o') (fd_ledgers db)))
    = sort_key dl_occurredAt (filter (confirmed_ledger c o') (fd_ledgers db))"
    by (rule filter_True) (auto simp: confirmed_ledger_def)
  then show ?thesis
    by (simp add: calculateDepositBalance_def calculateDepositBalanceDetails_def
        calculateDepositBalanceDetailsFromLedgers_def foldl_add_ledger sum_by_sort)
qed

lemma running_append:
  "running b (ls @ [l]) \<longleftrightarrow> running b ls
     \<and> (let b' = b + sum_by signedDepositLedgerAmount ls + signedDepositLedgerAmount l
        in 0 \<le> b' \<and> dl_balanceAfter l = b')"
  by (induction ls arbitrary: b) (auto simp: Let_def add.assoc)

lemma running_nonneg: "running b ls \<Longrightarrow> 0 \<le> b \<Longrightarrow> 0 \<le> b + sum_by signedDepositLedgerAmount ls"
proof (induction ls arbitrary: b)
  case (Cons l ls)
  then show ?case using Cons.IH [of "b + signedDepositLedgerAmount l"] by (simp add: Let_def add.assoc)
qed simp

lemma balance_nonneg: "deposits_ok (fd_ledgers db) \<Longrightarrow> 0 \<le> calculateDepositBalance db c o'"
  using running_nonneg [of 0 "filter (confirmed_ledger c o') (fd_ledgers db)"]
  by (simp add: available_balance deposits_ok_def)

text \<open>A new entry that carries the right balance and is not earlier than the others.\<close>

lemma deposits_ok_append:
  assumes ok: "deposits_ok (fd_ledgers db)" and late: "\<forall>x \<in> set (fd_ledgers db). dl_occurredAt x \<le> dl_occurredAt l"
    and conf: "live_ledger l"
    and bal: "dl_balanceAfter l
      = calculateDepositBalance db (dl_customerId l) (dl_orderId l) + signedDepositLedgerAmount l"
    and nn: "0 \<le> dl_balanceAfter l"
  shows "deposits_ok (fd_ledgers db @ [l])"
proof -
  have "sorted (map dl_occurredAt (fd_ledgers db @ [l]))"
    using ok late by (auto simp: deposits_ok_def sorted_append)
  moreover have "running 0 (filter (confirmed_ledger c o') (fd_ledgers db @ [l]))" for c o'
  proof (cases "confirmed_ledger c o' l")
    case True
    then have "dl_customerId l = c" "dl_orderId l = o'" by (auto simp: confirmed_ledger_def)
    then show ?thesis
      using ok True bal nn by (simp add: deposits_ok_def running_append available_balance Let_def)
  next
    case False
    then show ?thesis using ok by (simp add: deposits_ok_def)
  qed
  ultimately show ?thesis by (simp add: deposits_ok_def)
qed

section \<open>Updating a bill\<close>

lemma live_bill_Some:
  "live_bill db i = Some b \<Longrightarrow> b \<in> set (fd_bills db) \<and> rb_id b = i \<and> rb_deletedAt b = None"
  by (auto simp: live_bill_def find_Some_iff)

lemma paid_bill_keeps [simp]:
  "rb_id (paid_bill u t a b) = rb_id b" "rb_orderId (paid_bill u t a b) = rb_orderId b"
  "rb_customerId (paid_bill u t a b) = rb_customerId b" "rb_billType (paid_bill u t a b) = rb_billType b"
  "rb_deletedAt (paid_bill u t a b) = rb_deletedAt b" "rb_amount (paid_bill u t a b) = rb_amount b"
  "rb_paidAmount (paid_bill u t a b) = rb_paidAmount b + a"
  "rb_remainingAmount (paid_bill u t a b) = rb_remainingAmount b - a"
  "rb_dueDate (paid_bill u t a b) = rb_dueDate b"
  by (simp_all add: paid_bill_def Let_def)

lemma paid_bill_status: "rb_billStatus (paid_bill u t a b) =
     (if rb_remainingAmount b = a then BillStatus.PAID else BillStatus.PARTIALLY_PAID)"
  by (simp add: paid_bill_def Let_def)

lemma paid_not_cancelled [simp]: "rb_billStatus (paid_bill u t a b) \<noteq> BillStatus.CANCELLED"
  by (simp add: paid_bill_status)

lemma update_bill_fields [simp]:
  "fd_orders (update_bill b db) = fd_orders db" "fd_payments (update_bill b db) = fd_payments db"
  "fd_writeOffs (update_bill b db) = fd_writeOffs db" "fd_ledgers (update_bill b db) = fd_ledgers db"
  "fd_paymentOrders (update_bill b db) = fd_paymentOrders db"
  "fd_callbackLogs (update_bill b db) = fd_callbackLogs db"
  "fd_debitAttempts (update_bill b db) = fd_debitAttempts db"
  "fd_bills (update_bill b db) = upd_row rb_id (rb_id b) (\<lambda>_. b) (fd_bills db)"
  by (simp_all add: update_bill_def)

lemma updated_bills:
  "x \<in> set (upd_row rb_id (rb_id b) (\<lambda>_. b) bills) \<Longrightarrow>
     x = b \<or> (x \<in> set bills \<and> rb_id x \<noteq> rb_id b)"
  by (auto simp: upd_row_def)

lemma upd_keys: "map rb_id (upd_row rb_id (rb_id b) (\<lambda>_. b) bills) = map rb_id bills"
  by (induction bills) (auto simp: upd_row_def)

text \<open>What other tables rely on of a bill survives a payment on it.\<close>

lemma upd_face:
  assumes b0: "b0 \<in> set bills" and dist: "distinct (map rb_id bills)"
    and b: "b \<in> set bills" "P b" and pay: "P b0 \<Longrightarrow> P (paid_bill u t a b0)"
  shows "\<exists>x \<in> set (upd_row rb_id (rb_id b0) (\<lambda>_. paid_bill u t a b0) bills). P x \<and> rb_id x = rb_id b"
proof (cases "rb_id b = rb_id b0")
  case True
  then have "b = b0" using b0 b(1) dist by (metis distinct_map inj_onD)
  then show ?thesis
    using b pay b0 by (intro bexI [of _ "paid_bill u t a b0"]) (auto simp: upd_row_def image_iff)
next
  case False
  then show ?thesis using b by (intro bexI [of _ b]) (auto simp: upd_row_def image_iff)
qed

lemma writeOff_ok_upd:
  assumes "writeOff_ok bills payments w" "b0 \<in> set bills" "distinct (map rb_id bills)"
  shows "writeOff_ok (upd_row rb_id (rb_id b0) (\<lambda>_. paid_bill u t a b0) bills) payments w"
proof -
  obtain b where b: "b \<in> set bills" "rb_id b = wo_billId w" "rb_deletedAt b = None"
    "rb_billStatus b \<noteq> BillStatus.CANCELLED" "rb_orderId b = wo_orderId w" "rb_customerId b = wo_customerId w"
    using assms(1) by (auto simp: writeOff_ok_def)
  let ?P = "\<lambda>x. rb_deletedAt x = None \<and> rb_billStatus x \<noteq> BillStatus.CANCELLED
    \<and> rb_orderId x = wo_orderId w \<and> rb_customerId x = wo_customerId w"
  obtain x where "x \<in> set (upd_row rb_id (rb_id b0) (\<lambda>_. paid_bill u t a b0) bills)"
    "?P x" "rb_id x = rb_id b"
    using upd_face [OF assms(2,3) b(1), of ?P u t a] b by auto
  then show ?thesis using assms(1) b(2) by (auto simp: writeOff_ok_def)
qed

lemma ledger_ok_upd:
  assumes "ledger_ok bills l" "b0 \<in> set bills" "distinct (map rb_id bills)"
  shows "ledger_ok (upd_row rb_id (rb_id b0) (\<lambda>_. paid_bill u t a b0) bills) l"
proof (cases "dl_transactionType l = DEDUCT")
  case True
  then obtain b where b: "b \<in> set bills" "dl_billId l = Some (rb_id b)" "rb_deletedAt b = None"
    "rb_billStatus b \<noteq> BillStatus.CANCELLED" "rb_billType b = DAMAGE_FEE"
    "rb_orderId b = dl_orderId l" "rb_customerId b = dl_customerId l"
    using assms(1) by (auto simp: ledger_ok_def)
  let ?P = "\<lambda>x. rb_deletedAt x = None \<and> rb_billStatus x \<noteq> BillStatus.CANCELLED
    \<and> rb_billType x = DAMAGE_FEE \<and> rb_orderId x = dl_orderId l \<and> rb_customerId x = dl_customerId l"
  have l: "0 < dl_amount l" "dl_paymentId l = None" using assms(1) True by (simp_all add: ledger_ok_def)
  obtain x where x: "x \<in> set (upd_row rb_id (rb_id b0) (\<lambda>_. paid_bill u t a b0) bills)"
    "?P x" "rb_id x = rb_id b"
    using upd_face [OF assms(2,3) b(1), of ?P u t a] b by auto
  then show ?thesis using l b(2) unfolding ledger_ok_def by (intro conjI impI bexI [of _ x]) auto
next
  case False
  then show ?thesis using assms(1) by (simp add: ledger_ok_def)
qed


section \<open>Every write keeps the books\<close>

lemma books_bill:
  assumes "books_ok db" "b \<in> set (fd_bills db)"
  shows "bill_ok b"
    and "rb_paidAmount b = written_off (fd_writeOffs db) (rb_id b) + deducted (fd_ledgers db) (rb_id b)"
    and "scoped (fd_orders db) (rb_orderId b) (rb_customerId b)"
  using assms by (simp_all add: books_ok_def scopes_ok_def)

lemma books_keys: "books_ok db \<Longrightarrow> distinct (map rb_id (fd_bills db))"
  by (simp add: books_ok_def keys_ok_def)

lemma written_off_append [simp]:
  "written_off (wos @ [w]) i = written_off wos i
     + (if wo_billId w = i \<and> wo_deletedAt w = None then wo_writeOffAmount w else 0)"
  by (simp add: written_off_def)

lemma allocated_append [simp]:
  "allocated (wos @ [w]) i = allocated wos i
     + (if wo_paymentId w = i \<and> wo_deletedAt w = None then wo_writeOffAmount w else 0)"
  by (simp add: allocated_def)

lemma deducted_append [simp]:
  "deducted (ls @ [l]) i = deducted ls i
     + (if dl_billId l = Some i \<and> dl_transactionType l = DEDUCT \<and> live_ledger l then dl_amount l else 0)"
  by (simp add: deducted_def)

text \<open>A bill is paid by a new write-off of a payment that still has the money.\<close>

lemma write_off_books:
  assumes ok: "books_ok db" and b: "b \<in> set (fd_bills db)" "rb_deletedAt b = None"
      "rb_billStatus b \<noteq> BillStatus.CANCELLED"
    and p: "p \<in> set (fd_payments db)" "pr_deletedAt p = None" "pr_paymentStatus p = PaymentStatus.CONFIRMED"
      "pr_orderId p = rb_orderId b" "pr_customerId p = rb_customerId b"
    and a: "0 < a" "a \<le> rb_remainingAmount b" "allocated (fd_writeOffs db) (pr_id p) + a \<le> pr_paymentAmount p"
  shows "books_ok (update_bill (paid_bill u t a b) db\<lparr>fd_writeOffs :=
      fd_writeOffs db @ [new_writeOff p u' t (rb_id b) a]\<rparr>)"
proof -
  let ?b = "paid_bill u t a b" and ?w = "new_writeOff p u' t (rb_id b) a"
  let ?bills = "upd_row rb_id (rb_id b) (\<lambda>_. ?b) (fd_bills db)"
  have w: "wo_billId ?w = rb_id b" "wo_paymentId ?w = pr_id p" "wo_orderId ?w = pr_orderId p"
    "wo_customerId ?w = pr_customerId p" "wo_writeOffAmount ?w = a" "wo_deletedAt ?w = None"
    by (simp_all add: new_writeOff_def)
  note dist = books_keys [OF ok]
  have bill: "bill_ok x \<and> rb_paidAmount x
      = written_off (fd_writeOffs db @ [?w]) (rb_id x) + deducted (fd_ledgers db) (rb_id x)
      \<and> scoped (fd_orders db) (rb_orderId x) (rb_customerId x)" if mem: "x \<in> set ?bills" for x
  proof -
    consider "x = ?b" | "x \<in> set (fd_bills db)" "rb_id x \<noteq> rb_id b"
      using updated_bills [of x ?b "fd_bills db"] mem by auto
    then show ?thesis
    proof cases
      case 1
      then show ?thesis using books_bill [OF ok b(1)] a w by (simp add: bill_ok_def)
    next
      case 2
      then show ?thesis using books_bill [OF ok 2(1)] w by simp
    qed
  qed
  have wos: "writeOff_ok ?bills (fd_payments db) x"
    if x: "x \<in> set (fd_writeOffs db @ [?w])" "wo_deletedAt x = None" for x
  proof (cases "x = ?w")
    case True
    have "?b \<in> set ?bills" using b(1) by (auto simp: upd_row_def image_iff)
    then show ?thesis using True w b p a unfolding writeOff_ok_def
      by (intro conjI bexI [of _ ?b] bexI [of _ p]) auto
  next
    case False
    then have "writeOff_ok (fd_bills db) (fd_payments db) x" using ok x by (auto simp: books_ok_def)
    then show ?thesis by (rule writeOff_ok_upd [OF _ b(1) dist])
  qed
  have pays: "0 < pr_paymentAmount x \<and> allocated (fd_writeOffs db @ [?w]) (pr_id x) \<le> pr_paymentAmount x"
    if "x \<in> set (fd_payments db)" for x
  proof (cases "pr_id x = pr_id p")
    case True
    then have "x = p" using ok that p(1) by (metis books_ok_def distinct_map inj_onD keys_ok_def)
    then show ?thesis using a(3) w ok that by (simp add: books_ok_def)
  next
    case False
    then show ?thesis using ok that w by (simp add: books_ok_def)
  qed
  have ls: "ledger_ok ?bills x" if "x \<in> set (fd_ledgers db)" "live_ledger x" for x
    using ok that by (intro ledger_ok_upd [OF _ b(1) dist]) (simp add: books_ok_def)
  show ?thesis
    using ok bill wos pays ls upd_keys [of ?b "fd_bills db"]
    by (simp add: books_ok_def keys_ok_def scopes_ok_def)
qed

lemma collect_books:
  assumes ok: "books_ok db" and sc: "scoped (fd_orders db) (pr_orderId p) (pr_customerId p)"
    and pos: "0 < rb_paidAmount b" and late: "\<forall>x \<in> set (fd_ledgers db). dl_occurredAt x \<le> t"
  shows "books_ok (collect_deposit p t b db)"
proof (cases "collect_deposit p t b db = db")
  case True
  then show ?thesis using ok by simp
next
  case False
  let ?bal = "calculateDepositBalance db (pr_customerId p) (pr_orderId p)"
  let ?l = "\<lparr> dl_customerId = pr_customerId p, dl_orderId = pr_orderId p,
               dl_billId = Some (rb_id b), dl_paymentId = Some (pr_id p),
               dl_transactionType = COLLECT,
               dl_transactionStatus = DepositTransactionStatus.CONFIRMED,
               dl_amount = rb_paidAmount b, dl_balanceAfter = ?bal + rb_paidAmount b,
               dl_occurredAt = t, dl_deletedAt = None \<rparr>"
  have eq: "collect_deposit p t b db = db\<lparr>fd_ledgers := fd_ledgers db @ [?l]\<rparr>"
    using False by (auto simp: collect_deposit_def Let_def split: if_splits)
  have "deposits_ok (fd_ledgers db)" using ok by (simp add: books_ok_def)
  then have "deposits_ok (fd_ledgers db @ [?l])"
    using late pos balance_nonneg [of db "pr_customerId p" "pr_orderId p"]
    by (intro deposits_ok_append) (simp_all add: live_ledger_def signedDepositLedgerAmount_def)
  then show ?thesis
    unfolding eq using ok sc pos by (auto simp: books_ok_def keys_ok_def scopes_ok_def ledger_ok_def)
qed

text \<open>A confirmed entry against the deposit account that leaves a non-negative balance.\<close>

lemma entry_books:
  assumes ok: "books_ok db" and o': "o' \<in> set (fd_orders db)" and amt: "0 < a"
    and bal: "a \<le> calculateDepositBalance db (fo_customerId o') (fo_id o')"
    and late: "\<forall>x \<in> set (fd_ledgers db). dl_occurredAt x \<le> t"
  shows "books_ok (db\<lparr>fd_ledgers := fd_ledgers db @ [deposit_entry o' None REFUND a
    (calculateDepositBalance db (fo_customerId o') (fo_id o') - a) t]\<rparr>)"
proof -
  let ?l = "deposit_entry o' None REFUND a (calculateDepositBalance db (fo_customerId o') (fo_id o') - a) t"
  have "deposits_ok (fd_ledgers db)" using ok by (simp add: books_ok_def)
  then have "deposits_ok (fd_ledgers db @ [?l])"
    using late bal by (intro deposits_ok_append)
      (simp_all add: live_ledger_def signedDepositLedgerAmount_def deposit_entry_def)
  then show ?thesis
    using ok o' amt by (auto simp: books_ok_def keys_ok_def scopes_ok_def ledger_ok_def
        deposit_entry_def scoped_def)
qed

text \<open>A deduction pays a damage bill from the deposit.\<close>

lemma deduct_books:
  assumes ok: "books_ok db" and o': "o' \<in> set (fd_orders db)" and amt: "0 < a"
    and bal: "a \<le> calculateDepositBalance db (fo_customerId o') (fo_id o')"
    and late: "\<forall>x \<in> set (fd_ledgers db). dl_occurredAt x \<le> t"
    and b: "b \<in> set (fd_bills db)" "rb_deletedAt b = None" "damage_fee_bill_valid o' b"
      "a \<le> rb_remainingAmount b"
  shows "books_ok (update_bill (paid_bill u t a b) (db\<lparr>fd_ledgers := fd_ledgers db @
    [deposit_entry o' (Some (rb_id b)) DEDUCT a
      (calculateDepositBalance db (fo_customerId o') (fo_id o') - a) t]\<rparr>))"
proof -
  let ?b = "paid_bill u t a b"
  let ?l = "deposit_entry o' (Some (rb_id b)) DEDUCT a
    (calculateDepositBalance db (fo_customerId o') (fo_id o') - a) t"
  let ?bills = "upd_row rb_id (rb_id b) (\<lambda>_. ?b) (fd_bills db)"
  have l: "dl_billId ?l = Some (rb_id b)" "dl_transactionType ?l = DEDUCT" "live_ledger ?l"
    "dl_amount ?l = a" "dl_paymentId ?l = None" "dl_orderId ?l = fo_id o'"
    "dl_customerId ?l = fo_customerId o'"
    by (simp_all add: deposit_entry_def live_ledger_def)
  note dist = books_keys [OF ok]
  have v: "rb_orderId b = fo_id o'" "rb_customerId b = fo_customerId o'" "rb_billType b = DAMAGE_FEE"
    using b(3) by (simp_all add: damage_fee_bill_valid_def)
  have "deposits_ok (fd_ledgers db)" using ok by (simp add: books_ok_def)
  then have dep: "deposits_ok (fd_ledgers db @ [?l])"
    using late bal by (intro deposits_ok_append)
      (simp_all add: live_ledger_def signedDepositLedgerAmount_def deposit_entry_def)
  have bill: "bill_ok x \<and> rb_paidAmount x
      = written_off (fd_writeOffs db) (rb_id x) + deducted (fd_ledgers db @ [?l]) (rb_id x)
      \<and> scoped (fd_orders db) (rb_orderId x) (rb_customerId x)" if mem: "x \<in> set ?bills" for x
  proof -
    consider "x = ?b" | "x \<in> set (fd_bills db)" "rb_id x \<noteq> rb_id b"
      using updated_bills [of x ?b "fd_bills db"] mem by auto
    then show ?thesis
    proof cases
      case 1
      then show ?thesis using books_bill [OF ok b(1)] amt b(4) l by (simp add: bill_ok_def)
    next
      case 2
      then show ?thesis using books_bill [OF ok 2(1)] l by simp
    qed
  qed
  have wos: "writeOff_ok ?bills (fd_payments db) x"
    if "x \<in> set (fd_writeOffs db)" "wo_deletedAt x = None" for x
    using ok that by (intro writeOff_ok_upd [OF _ b(1) dist]) (simp add: books_ok_def)
  have ls: "ledger_ok ?bills x" if x: "x \<in> set (fd_ledgers db @ [?l])" "live_ledger x" for x
  proof (cases "x = ?l")
    case True
    have "?b \<in> set ?bills" using b(1) by (auto simp: upd_row_def image_iff)
    then show ?thesis using True l b v amt unfolding ledger_ok_def
      by (intro conjI impI bexI [of _ ?b]) auto
  next
    case False
    then have "ledger_ok (fd_bills db) x" using ok x by (auto simp: books_ok_def)
    then show ?thesis by (rule ledger_ok_upd [OF _ b(1) dist])
  qed
  have sc: "scoped (fd_orders db) (dl_orderId ?l) (dl_customerId ?l)" using o' l by (auto simp: scoped_def)
  show ?thesis
    using ok bill wos ls dep sc upd_keys [of ?b "fd_bills db"]
    by (simp add: books_ok_def keys_ok_def scopes_ok_def)
qed

section \<open>The settlement loops\<close>

definition late :: "finance_db \<Rightarrow> time \<Rightarrow> bool" where
  "late db t = (\<forall>x \<in> set (fd_ledgers db). dl_occurredAt x \<le> t)"

text \<open>The tables the loops leave alone.\<close>

definition same_frame :: "finance_db \<Rightarrow> finance_db \<Rightarrow> bool" where
  "same_frame db db' = (fd_orders db' = fd_orders db \<and> fd_payments db' = fd_payments db
     \<and> fd_paymentOrders db' = fd_paymentOrders db \<and> fd_callbackLogs db' = fd_callbackLogs db
     \<and> fd_debitAttempts db' = fd_debitAttempts db)"

lemma same_frame_refl [simp]: "same_frame db db"
  by (simp add: same_frame_def)

lemma same_frame_trans: "same_frame a b \<Longrightarrow> same_frame b c \<Longrightarrow> same_frame a c"
  by (simp add: same_frame_def)

lemma collect_frame:
  "same_frame db (collect_deposit p t b db)" "fd_writeOffs (collect_deposit p t b db) = fd_writeOffs db"
  "fd_bills (collect_deposit p t b db) = fd_bills db" "late db t \<Longrightarrow> late (collect_deposit p t b db) t"
  by (simp_all add: collect_deposit_def same_frame_def late_def Let_def)

lemma apply_writeOffs:
  "fd_writeOffs (snd (apply_write_off p u t b a db)) = fd_writeOffs db @ [new_writeOff p u t (rb_id b) a]"
  by (simp add: apply_write_off_def Let_def collect_frame)

lemma apply_frame:
  "same_frame db (snd (apply_write_off p u t b a db))"
  "late db t \<Longrightarrow> late (snd (apply_write_off p u t b a db)) t"
  by (simp_all add: apply_write_off_def Let_def collect_deposit_def same_frame_def late_def)

lemma apply_allocated:
  "allocated (fd_writeOffs (snd (apply_write_off p u t b a db))) (pr_id p)
     = allocated (fd_writeOffs db) (pr_id p) + a"
  by (simp add: apply_writeOffs new_writeOff_def)

definition payment_live :: "finance_db \<Rightarrow> payment_record \<Rightarrow> bool" where
  "payment_live db p = (p \<in> set (fd_payments db) \<and> pr_deletedAt p = None
     \<and> pr_paymentStatus p = PaymentStatus.CONFIRMED)"

lemma payment_live_frame: "same_frame db db' \<Longrightarrow> payment_live db p \<Longrightarrow> payment_live db' p"
  by (simp add: same_frame_def payment_live_def)

lemma apply_books:
  assumes ok: "books_ok db" and l: "late db t" and p: "payment_live db p"
    and b: "live_bill db i = Some b" "rb_billStatus b \<noteq> BillStatus.CANCELLED"
      "rb_orderId b = pr_orderId p" "rb_customerId b = pr_customerId p"
    and a: "0 < a" "a \<le> rb_remainingAmount b" "allocated (fd_writeOffs db) (pr_id p) + a \<le> pr_paymentAmount p"
  shows "books_ok (snd (apply_write_off p u t b a db))"
proof -
  let ?b = "paid_bill u t a b"
  let ?db = "update_bill ?b db\<lparr>fd_writeOffs := fd_writeOffs db @ [new_writeOff p u t (rb_id b) a]\<rparr>"
  note mem = live_bill_Some [OF b(1)]
  have ok': "books_ok ?db"
    using write_off_books [OF ok _ _ b(2) _ _ _ b(3,4) [symmetric] a] mem p
    by (simp add: payment_live_def)
  have "scoped (fd_orders ?db) (pr_orderId p) (pr_customerId p)"
    using ok p by (simp add: books_ok_def scopes_ok_def payment_live_def)
  moreover have "0 < rb_paidAmount ?b" using books_bill(1) [OF ok, of b] mem a(1) by (simp add: bill_ok_def)
  moreover have "\<forall>x \<in> set (fd_ledgers ?db). dl_occurredAt x \<le> t" using l by (simp add: late_def)
  ultimately show ?thesis
    using collect_books [OF ok'] by (simp add: apply_write_off_def Let_def)
qed

lemma calculateWriteOffAmount_min:
  "calculateWriteOffAmount i r m = Inr a \<longleftrightarrow> 0 \<le> i \<and> 0 \<le> r \<and> 0 \<le> m \<and> a = min i (min r m)"
  by (auto simp: calculateWriteOffAmount_def)

definition alloc_inv :: "payment_record \<Rightarrow> time \<Rightarrow> finance_db \<Rightarrow> allocation \<Rightarrow> bool" where
  "alloc_inv p t db al =
     (books_ok (al_db al) \<and> late (al_db al) t \<and> payment_live (al_db al) p \<and> same_frame db (al_db al)
      \<and> 0 \<le> al_available al \<and> al_available al + al_allocated al = pr_paymentAmount p
      \<and> allocated (fd_writeOffs (al_db al)) (pr_id p) = al_allocated al)"

lemma allocate_item_inv:
  assumes inv: "alloc_inv p t db al" and step: "allocate_item blocked p u t item al = Inr al'"
  shows "alloc_inv p t db al'"
proof (cases "al' = al")
  case True
  then show ?thesis using inv by simp
next
  case False
  obtain b a where b: "live_bill (al_db al) (pi_billId item) = Some b"
    "rb_billStatus b \<noteq> BillStatus.CANCELLED" "rb_orderId b = pr_orderId p" "rb_customerId b = pr_customerId p"
    and a: "calculateWriteOffAmount (pi_amount item) (rb_remainingAmount b) (al_available al) = Inr a" "0 < a"
    and al': "al_db al' = snd (apply_write_off p u t b a (al_db al))"
      "al_available al' = al_available al - a" "al_allocated al' = al_allocated al + a"
    using step False by (auto simp: allocate_item_def Let_def split: option.splits if_splits)
  have m: "a \<le> rb_remainingAmount b" "a \<le> al_available al" using a by (auto simp: calculateWriteOffAmount_min)
  have inv': "books_ok (al_db al)" "late (al_db al) t" "payment_live (al_db al) p" "same_frame db (al_db al)"
    "0 \<le> al_available al" "al_available al + al_allocated al = pr_paymentAmount p"
    "allocated (fd_writeOffs (al_db al)) (pr_id p) = al_allocated al"
    using inv by (simp_all add: alloc_inv_def)
  have "books_ok (al_db al')"
    using apply_books [OF inv'(1-3) b a(2) m(1)] m(2) inv'(6,7) al' by simp
  moreover have "same_frame (al_db al) (al_db al')" "late (al_db al') t"
    using apply_frame inv'(2) al'(1) by simp_all
  moreover have "allocated (fd_writeOffs (al_db al')) (pr_id p) = al_allocated al'"
    using apply_allocated inv'(7) al' by simp
  ultimately show ?thesis
    using inv' m al' same_frame_trans payment_live_frame unfolding alloc_inv_def by auto
qed

lemma allocate_inv:
  "alloc_inv p t db al \<Longrightarrow> allocate blocked p u t items al = Inr al' \<Longrightarrow> alloc_inv p t db al'"
proof (induction items arbitrary: al)
  case (Cons item items)
  then obtain al1 where "allocate_item blocked p u t item al = Inr al1"
    "allocate blocked p u t items al1 = Inr al'" by auto
  then show ?case using Cons.IH [OF allocate_item_inv [OF Cons.prems(1)]] by blast
qed simp

lemma write_off_bills_inv:
  assumes "books_ok db" "late db t" "payment_live db p"
    and "allocated (fd_writeOffs db) (pr_id p) + sum_by snd items \<le> pr_paymentAmount p"
    and "\<forall>x \<in> set items. 0 < snd x" and "write_off_bills p u t items us db = Inr (us', db')"
  shows "books_ok db' \<and> late db' t \<and> same_frame db db'
    \<and> allocated (fd_writeOffs db') (pr_id p) = allocated (fd_writeOffs db) (pr_id p) + sum_by snd items"
  using assms
proof (induction items arbitrary: db us)
  case (Cons x items)
  obtain i a where x: "x = (i, a)" by (cases x)
  obtain b where b: "live_bill db i = Some b" "rb_billStatus b \<noteq> BillStatus.CANCELLED"
    "rb_orderId b = pr_orderId p" "rb_customerId b = pr_customerId p" "a \<le> rb_remainingAmount b"
    and rest: "write_off_bills p u t items (us @ [fst (apply_write_off p (Some u) t b a db)])
      (snd (apply_write_off p (Some u) t b a db)) = Inr (us', db')"
    using Cons.prems(6) by (auto simp: x Let_def split: option.splits if_splits)
  let ?db = "snd (apply_write_off p (Some u) t b a db)"
  have nn: "0 \<le> sum_by snd items" using Cons.prems(5) by (intro sum_by_nonneg) (auto simp: less_imp_le)
  have pos: "0 < a" "allocated (fd_writeOffs db) (pr_id p) + a \<le> pr_paymentAmount p"
    using Cons.prems(4,5) nn x by auto
  have "books_ok ?db" by (rule apply_books [OF Cons.prems(1-3) b(1-4) pos(1) b(5) pos(2)])
  moreover have "late ?db t" "same_frame db ?db" using apply_frame Cons.prems(2) by auto
  ultimately show ?case
    using Cons.IH [OF _ _ _ _ _ rest] Cons.prems(3-5) payment_live_frame same_frame_trans
      apply_allocated [of p "Some u" t b a db] x by auto
qed simp

section \<open>The operations keep the books\<close>

lemma books_frame:
  "fd_orders db' = fd_orders db \<Longrightarrow> fd_bills db' = fd_bills db \<Longrightarrow> fd_payments db' = fd_payments db \<Longrightarrow>
   fd_writeOffs db' = fd_writeOffs db \<Longrightarrow> fd_ledgers db' = fd_ledgers db \<Longrightarrow>
   fd_paymentOrders db' = fd_paymentOrders db \<Longrightarrow> books_ok db' \<longleftrightarrow> books_ok db"
  by (simp add: books_ok_def keys_ok_def scopes_ok_def)

lemma after_settlement_fields:
  "fd_orders (after_settlement s bs n t u db) = fd_orders db"
  "fd_bills (after_settlement s bs n t u db) = fd_bills db"
  "fd_payments (after_settlement s bs n t u db) = fd_payments db"
  "fd_writeOffs (after_settlement s bs n t u db) = fd_writeOffs db"
  "fd_ledgers (after_settlement s bs n t u db) = fd_ledgers db"
  "fd_paymentOrders (after_settlement s bs n t u db) = fd_paymentOrders db"
  "fd_callbackLogs (after_settlement s bs n t u db) = fd_callbackLogs db"
  "fd_debitAttempts (after_settlement s bs n t u db) = fd_debitAttempts db"
  by (simp_all add: after_settlement_def reconcileCollectionCasesAfterSettlement_def Let_def)

lemma after_settlement_books: "books_ok (after_settlement s bs n t u db) \<longleftrightarrow> books_ok db"
  by (rule books_frame) (simp_all add: after_settlement_fields)

lemma handle_log_books: "handle_log input i db = Inr db' \<Longrightarrow> books_ok db' \<longleftrightarrow> books_ok db"
  by (rule books_frame) (auto simp: handle_log_def split: option.splits if_splits)

lemma record_callback_books: "record_callback n input i db = Inr db' \<Longrightarrow> books_ok db' \<longleftrightarrow> books_ok db"
  by (rule books_frame) (auto simp: record_callback_def handle_log_def split: option.splits if_splits)

lemma succeed_debit_books: "succeed_debit_attempt input i db = Inr db' \<Longrightarrow>
   (books_ok db' \<longleftrightarrow> books_ok db) \<and> fd_paymentOrders db' = fd_paymentOrders db"
  by (intro conjI books_frame) (auto simp: succeed_debit_attempt_def split: option.splits)

lemma paid_order_keeps: "po_id (paid_order input bl p po) = po_id po"
  "po_customerId (paid_order input bl p po) = po_customerId po"
  "po_orderId (paid_order input bl p po) = po_orderId po"
  by (simp_all add: paid_order_def)

lemma paid_order_books:
  assumes "books_ok db"
  shows "books_ok (db\<lparr>fd_paymentOrders := upd_row po_id i (paid_order input bl p) (fd_paymentOrders db)\<rparr>)"
  using assms map_key_upd_row [of po_id "paid_order input bl p" i "fd_paymentOrders db"]
  by (auto simp: books_ok_def keys_ok_def scopes_ok_def paid_order_keeps dest!: set_upd_row)

lemma unallocated_new:
  assumes "books_ok db" "pid \<notin> set (map pr_id (fd_payments db))"
  shows "allocated (fd_writeOffs db) pid = 0"
proof -
  have "wo_paymentId w \<noteq> pid" if w: "w \<in> set (fd_writeOffs db)" "wo_deletedAt w = None" for w
  proof -
    have "writeOff_ok (fd_bills db) (fd_payments db) w" using assms(1) w by (simp add: books_ok_def)
    then obtain p where "p \<in> set (fd_payments db)" "pr_id p = wo_paymentId w" by (auto simp: writeOff_ok_def)
    then show ?thesis using assms(2) by (metis image_eqI set_map)
  qed
  then have "filter (\<lambda>w. wo_paymentId w = pid \<and> wo_deletedAt w = None) (fd_writeOffs db) = []"
    by (auto simp: filter_empty_conv)
  then show ?thesis by (simp add: allocated_def)
qed

lemma writeOff_ok_more: "writeOff_ok bills ps w \<Longrightarrow> writeOff_ok bills (ps @ [p]) w"
  by (auto simp: writeOff_ok_def)

lemma payment_books:
  assumes ok: "books_ok db" and fresh: "pr_id p \<notin> set (map pr_id (fd_payments db))"
    and sc: "scoped (fd_orders db) (pr_orderId p) (pr_customerId p)" and pos: "0 < pr_paymentAmount p"
  shows "books_ok (db\<lparr>fd_payments := fd_payments db @ [p]\<rparr>)"
  using ok sc pos fresh unallocated_new [OF ok fresh] writeOff_ok_more
  by (simp add: books_ok_def keys_ok_def scopes_ok_def ball_Un)

lemma settle_now_books:
  assumes ok: "books_ok db" and l: "late db (si_paidAt input)" and pos: "0 < si_paidAmount input"
    and fresh: "pid \<notin> set (map pr_id (fd_payments db))" and sc: "scoped (fd_orders db) oid cid"
    and r: "settle_now pid logId now input po cid oid db = Inr (res, db')"
  shows "books_ok db' \<and> sr_allocatedAmount res + sr_unallocatedAmount res = si_paidAmount input
    \<and> 0 \<le> sr_unallocatedAmount res \<and> allocated (fd_writeOffs db') pid = sr_allocatedAmount res"
proof -
  let ?p = "new_payment pid input po cid oid"
  have p: "pr_id ?p = pid" "pr_orderId ?p = oid" "pr_customerId ?p = cid"
    "pr_paymentAmount ?p = si_paidAmount input" "pr_deletedAt ?p = None"
    "pr_paymentStatus ?p = PaymentStatus.CONFIRMED"
    by (simp_all add: new_payment_def)
  let ?db0 = "db\<lparr>fd_payments := fd_payments db @ [?p]\<rparr>"
  let ?al0 = "\<lparr> al_available = si_paidAmount input, al_allocated = 0, al_settled = [], al_db = ?db0 \<rparr>"
  have ok0: "books_ok ?db0" using payment_books [OF ok] fresh sc pos p by simp
  have al0: "alloc_inv ?p (si_paidAt input) ?db0 ?al0"
    using ok0 l p pos unallocated_new [OF ok fresh]
    by (simp add: alloc_inv_def late_def payment_live_def)
  let ?items = "live_items po" and ?ids = "map pi_billId (live_items po)"
  let ?bl = "closurePaymentBlockedBillIds db ?ids"
  obtain al db1 where al: "allocate ?bl ?p (si_operatorId input) (si_paidAt input) ?items ?al0 = Inr al"
    and d1: "succeed_debit_attempt input (po_id po) (after_settlement (al_settled al) ?ids now
      (si_paidAt input) (si_operatorId input) (al_db al)) = Inr db1"
    and d2: "record_callback logId input po (db1\<lparr>fd_paymentOrders :=
      upd_row po_id (po_id po) (paid_order input ?bl pid) (fd_paymentOrders db1)\<rparr>) = Inr db'"
    and res: "sr_allocatedAmount res = al_allocated al" "sr_unallocatedAmount res = al_available al"
    using r by (auto simp: settle_now_def Let_def)
  have inv: "alloc_inv ?p (si_paidAt input) ?db0 al" by (rule allocate_inv [OF al0 al])
  have "books_ok db1" using succeed_debit_books [OF d1] inv by (simp add: after_settlement_books alloc_inv_def)
  then have "books_ok db'" using record_callback_books [OF d2] paid_order_books by blast
  moreover have "fd_writeOffs db' = fd_writeOffs (al_db al)"
  proof -
    have "fd_writeOffs db' = fd_writeOffs db1"
      using d2 by (auto simp: record_callback_def handle_log_def split: option.splits if_splits)
    also have "\<dots> = fd_writeOffs (al_db al)"
      using d1 by (auto simp: succeed_debit_attempt_def after_settlement_fields split: option.splits)
    finally show ?thesis .
  qed
  ultimately show ?thesis using inv res p by (simp add: alloc_inv_def)
qed

lemma settle_books:
  assumes ok: "books_ok db" and l: "late db (si_paidAt input)"
    and fresh: "pid \<notin> set (map pr_id (fd_payments db))"
    and r: "settlePaymentOrder pid logId now input db = Inr (res, db')"
  shows "books_ok db'"
proof -
  obtain po where po: "find_row po_id (si_paymentOrderId input) (fd_paymentOrders db) = Some po"
    and pos: "0 < si_paidAmount input"
    using r by (auto simp: settlePaymentOrder_def split: option.splits if_splits)
  show ?thesis
  proof (cases "po_paymentStatus po = PaymentOrderStatus.PAID")
    case True
    then have "replay_settlement input po db = Inr (res, db')"
      using r po by (auto simp: settlePaymentOrder_def split: if_splits)
    then show ?thesis using handle_log_books ok by (auto simp: replay_settlement_def Let_def)
  next
    case False
    obtain cid oid where c: "po_customerId po = Some cid" "po_orderId po = Some oid"
      "settle_now pid logId now input po cid oid db = Inr (res, db')"
      using r po False by (auto simp: settlePaymentOrder_def split: if_splits option.splits)
    have "scoped (fd_orders db) oid cid"
      using ok find_row_Some [OF po] c by (auto simp: books_ok_def scopes_ok_def)
    then show ?thesis using settle_now_books [OF ok l pos fresh _ c(3)] by blast
  qed
qed

lemma create_books:
  assumes ok: "books_ok db" and fresh: "pid \<notin> set (map pr_id (fd_payments db))"
    and r: "createPayment pid dto user db = Inr (p, db')"
  shows "books_ok db'"
proof -
  obtain o' where o': "findOrderOrThrow db (cp_orderId dto) = Inr o'" "fo_customerId o' = cp_customerId dto"
    and amt: "0 < cp_paymentAmount dto"
    and p: "pr_id p = pid" "pr_orderId p = cp_orderId dto" "pr_customerId p = cp_customerId dto"
      "pr_paymentAmount p = cp_paymentAmount dto"
    and db': "db' = db\<lparr>fd_payments := fd_payments db @ [p]\<rparr>"
    using r by (auto simp: createPayment_def assertPositiveInteger_def Let_def split: option.splits)
  have "o' \<in> set (fd_orders db) \<and> fo_id o' = cp_orderId dto"
    using o'(1) find_row_Some [of fo_id] by (auto simp: findOrderOrThrow_def split: option.splits if_splits)
  then have "scoped (fd_orders db) (pr_orderId p) (pr_customerId p)" using o'(2) p by (auto simp: scoped_def)
  then show ?thesis unfolding db' using payment_books [OF ok] fresh p amt by simp
qed

lemma validate_items_pos: "validate_items seen items = Inr u \<Longrightarrow>
   (\<forall>x \<in> set items. 0 < snd x) \<and> distinct (map fst items) \<and> set (map fst items) \<inter> set seen = {}"
  by (induction seen items rule: validate_items.induct) (auto simp: assertPositiveInteger_def)

lemma sumWriteOff_allocated: "sumWriteOffAmount (payment_writeOffs db pid) = allocated (fd_writeOffs db) pid"
  by (auto simp: sumWriteOffAmount_def payment_writeOffs_def allocated_def foldl_sum
      intro!: arg_cong [of _ _ "sum_by wo_writeOffAmount"] filter_cong)

lemma write_off_payment_books:
  assumes ok: "books_ok db" and l: "late db now" and r: "writeOffPayment pid items now user db = Inr (us, db')"
  shows "books_ok db' \<and> allocated (fd_writeOffs db') pid = allocated (fd_writeOffs db) pid + sum_by snd items"
proof -
  obtain p us' db1 where v: "validateWriteOffDto items = Inr ()"
    and p: "find_row pr_id pid (fd_payments db) = Some p" "pr_deletedAt p = None"
      "pr_paymentStatus p = PaymentStatus.CONFIRMED"
    and amt: "sum_by snd items \<le> pr_paymentAmount p - sumWriteOffAmount (payment_writeOffs db pid)"
    and w: "write_off_bills p (ru_id user) now items [] db = Inr (us', db1)"
    and db': "db' = after_settlement (map rb_id (filter (\<lambda>b. rb_remainingAmount b = 0) us'))
      (map fst items) now now (Some (ru_id user)) db1"
    using r by (auto simp: writeOffPayment_def Let_def split: option.splits if_splits)
  have pos: "\<forall>x \<in> set items. 0 < snd x" using v validate_items_pos by (auto simp: validateWriteOffDto_def)
  have live: "payment_live db p" "pr_id p = pid"
    using p find_row_Some [OF p(1)] by (simp_all add: payment_live_def)
  have "allocated (fd_writeOffs db) (pr_id p) + sum_by snd items \<le> pr_paymentAmount p"
    using amt live(2) by (simp add: sumWriteOff_allocated)
  from write_off_bills_inv [OF ok l live(1) this pos w]
  show ?thesis using db' live(2) by (auto simp: after_settlement_books after_settlement_fields)
qed

lemma order_mem: "findOrderOrThrow db oid = Inr o' \<Longrightarrow> o' \<in> set (fd_orders db) \<and> fo_id o' = oid"
  using find_row_Some [of fo_id oid "fd_orders db"] by (auto simp: findOrderOrThrow_def split: option.splits if_splits)

lemma refund_books:
  assumes ok: "books_ok db" and l: "late db now" and r: "refundDeposit oid a now user db = Inr (ledger, db')"
  shows "books_ok db'"
proof -
  obtain o' where o': "findOrderOrThrow db oid = Inr o'" and a: "0 < a"
    and bal: "a \<le> calculateDepositBalance db (fo_customerId o') (fo_id o')"
    and db': "db' = db\<lparr>fd_ledgers := fd_ledgers db @ [deposit_entry o' None REFUND a
      (calculateDepositBalance db (fo_customerId o') (fo_id o') - a) now]\<rparr>"
    using r by (auto simp: refundDeposit_def Let_def assertPositiveInteger_def calculateDepositBalance_def)
  show ?thesis unfolding db'
    using entry_books [OF ok _ a bal] order_mem [OF o'] l by (simp add: late_def)
qed

lemma deduct_deposit_books:
  assumes ok: "books_ok db" and l: "late db now"
    and r: "deductDeposit oid a bid now user db = Inr (b', ledger, db')"
  shows "books_ok db'"
proof -
  obtain i o' b where o': "findOrderOrThrow db oid = Inr o'" and a: "0 < a"
    and b: "live_bill db i = Some b" "damage_fee_bill_valid o' b" "a \<le> rb_remainingAmount b"
    and bal: "a \<le> calculateDepositBalance db (fo_customerId o') (fo_id o')"
    and db': "db' = update_bill (paid_bill (Some (ru_id user)) now a b)
      (db\<lparr>fd_ledgers := fd_ledgers db @ [deposit_entry o' (Some (rb_id b)) DEDUCT a
        (calculateDepositBalance db (fo_customerId o') (fo_id o') - a) now]\<rparr>)"
    using r by (auto simp: deductDeposit_def Let_def assertPositiveInteger_def calculateDepositBalance_def
        split: option.splits)
  show ?thesis unfolding db'
    using deduct_books [OF ok _ a bal _ _ _ b(2,3)] order_mem [OF o'] live_bill_Some [OF b(1)] l
    by (simp add: late_def)
qed

section \<open>Runs of operations\<close>

datatype finance_op =
    Settle id id time settle_input
  | CreatePayment id create_payment_dto request_user
  | WriteOff id write_off_items time request_user
  | DeductDeposit id int "id option" time request_user
  | RefundDeposit id int time request_user

text \<open>
  One transaction.  The id of a new payment is fresh, and no operation happens
  before an entry that is already in a deposit account.
\<close>

definition entries_before :: "finance_db \<Rightarrow> time \<Rightarrow> bool" where
  "entries_before db t = list_all (\<lambda>x. dl_occurredAt x \<le> t) (fd_ledgers db)"

fun finance_step :: "finance_op \<Rightarrow> finance_db \<Rightarrow> (finance_error, finance_db) result" where
  "finance_step (Settle pid logId now input) db =
     (if pid \<in> set (map pr_id (fd_payments db)) \<or> \<not> entries_before db (si_paidAt input)
      then Inl (BadRequest ''not fresh'')
      else rbind (settlePaymentOrder pid logId now input db) (\<lambda>(res, db'). Inr db'))"
| "finance_step (CreatePayment pid dto user) db =
     (if pid \<in> set (map pr_id (fd_payments db)) then Inl (BadRequest ''not fresh'')
      else rbind (createPayment pid dto user db) (\<lambda>(p, db'). Inr db'))"
| "finance_step (WriteOff pid items now user) db =
     (if \<not> entries_before db now then Inl (BadRequest ''not fresh'')
      else rbind (writeOffPayment pid items now user db) (\<lambda>(us, db'). Inr db'))"
| "finance_step (DeductDeposit oid a bid now user) db =
     (if \<not> entries_before db now then Inl (BadRequest ''not fresh'')
      else rbind (deductDeposit oid a bid now user db) (\<lambda>(b, l, db'). Inr db'))"
| "finance_step (RefundDeposit oid a now user) db =
     (if \<not> entries_before db now then Inl (BadRequest ''not fresh'')
      else rbind (refundDeposit oid a now user db) (\<lambda>(l, db'). Inr db'))"

lemma entries_before_late: "entries_before db t \<longleftrightarrow> late db t"
  by (simp add: entries_before_def late_def list_all_iff)

interpretation books: guarded_ops finance_step books_ok
proof
  fix c db db'
  assume "books_ok db" "finance_step c db = Inr db'"
  then show "books_ok db'"
    by (cases c) (auto simp: entries_before_late simp del: set_map split: if_splits dest: settle_books create_books
        write_off_payment_books deduct_deposit_books refund_books)
qed

definition finance_run :: "finance_op list \<Rightarrow> finance_db \<Rightarrow> finance_db" where
  "finance_run ops db = fold (\<lambda>c db. case finance_step c db of Inl e \<Rightarrow> db | Inr db' \<Rightarrow> db') ops db"

lemma finance_run_is: "finance_run ops db = books.run ops db"
proof -
  have "books.commit = (\<lambda>c db. case finance_step c db of Inl e \<Rightarrow> db | Inr db' \<Rightarrow> db')"
    by (intro ext) (simp add: books.commit_def)
  then show ?thesis by (simp add: finance_run_def books.run_def)
qed

end
