(* ===== verification/CostLedger.thy ===== *)
theory CostLedger
  imports Prelude JsDate
begin

text \<open>
  The vehicle cost ledger of \<open>asset-accounting.domain.ts\<close>: the checks an entry has
  to pass and the summary over the accounting dimensions.  An entry is typed, so
  the checks of the source that only inspect the runtime type of a field hold by
  construction; the others are here.  A bucket record is an association list in
  insertion order.
\<close>

section \<open>Entries\<close>

datatype entry_kind = ORIGINAL | REVERSAL
datatype action_type = ACTUAL_COST | RESPONSIBILITY_CONFIRMED | RECOVERY_EXPOSURE | RECOVERY_RECEIVED
  | WAIVER | WRITE_OFF
datatype party_type = CUSTOMER | INSURER | SUPPLIER | ASSET_OWNER | PLATFORM | OTHER
datatype cost_category = DAMAGE | CLEANING | REPAIR | MAINTENANCE | EXCESS_MILEAGE | VIOLATION
  | TOWING | INSURANCE | BAAS | DEPRECIATION | OTHER

record cost_entry =
  ce_id :: id
  ce_vehicleId :: id
  ce_orderId :: "id option"
  ce_contractId :: "id option"
  ce_customerId :: "id option"
  ce_entryKind :: entry_kind
  ce_actionType :: action_type
  ce_costCategory :: cost_category
  ce_amountCents :: amount
  ce_responsiblePartyType :: party_type
  ce_responsiblePartyId :: "id option"
  ce_occurredOn :: js_date
  ce_accountingPeriod :: string
  ce_reversalOfEntryId :: "id option"

type_synonym bucket = "amount \<times> nat"

record cost_summary =
  sm_totalAmountCents :: amount
  sm_byActionType :: "(action_type \<times> bucket) list"
  sm_byResponsibility :: "(party_type \<times> bucket) list"
  sm_byResponsibleParty :: "(string \<times> bucket) list"
  sm_byCategory :: "(cost_category \<times> bucket) list"

section \<open>Checks\<close>

definition is_js_space :: "char \<Rightarrow> bool" where
  "is_js_space c = (of_char c \<in> {9, 10, 11, 12, 13, 32, 160 :: nat})"

definition nonblank :: "string \<Rightarrow> bool" where
  "nonblank s = (\<not> list_all is_js_space s)"

definition assertNonBlankField :: "string \<Rightarrow> string \<Rightarrow> (string, unit) result" where
  "assertNonBlankField v field = ensure (nonblank v) field"

definition assertVehicleCostAmountCents :: "amount \<Rightarrow> (string, unit) result" where
  "assertVehicleCostAmountCents v = ensure (v \<noteq> 0) ''amountCents''"

definition is_digit :: "char \<Rightarrow> bool" where
  "is_digit c = (48 \<le> (of_char c :: nat) \<and> of_char c \<le> (57 :: nat))"

fun assertAccountingPeriod :: "string \<Rightarrow> (string, unit) result" where
  "assertAccountingPeriod [a, b, c, d, s, m, n] =
     ensure (is_digit a \<and> is_digit b \<and> is_digit c \<and> is_digit d \<and> [s] = ''-''
         \<and> (([m] = ''0'' \<and> is_digit n \<and> [n] \<noteq> ''0'') \<or> ([m] = ''1'' \<and> [n] \<in> {''0'', ''1'', ''2''})))
       ''accountingPeriod''"
| "assertAccountingPeriod v = Inl ''accountingPeriod''"

definition assertVehicleCostLedgerEntry :: "cost_entry list \<Rightarrow> cost_entry \<Rightarrow> (string, unit) result" where
  "assertVehicleCostLedgerEntry entries candidate =
     rbind (assertNonBlankField (ce_id candidate) ''id'') (\<lambda>_.
     rbind (assertNonBlankField (ce_vehicleId candidate) ''vehicleId'') (\<lambda>_.
     rbind (assertVehicleCostAmountCents (ce_amountCents candidate)) (\<lambda>_.
     rbind (ensure (ce_occurredOn candidate \<noteq> None) ''occurredOn'') (\<lambda>_.
     rbind (assertAccountingPeriod (ce_accountingPeriod candidate)) (\<lambda>_.
     if ce_entryKind candidate = ORIGINAL
     then rbind (ensure (0 < ce_amountCents candidate) ''ORIGINAL amount must be positive'') (\<lambda>_.
       ensure (ce_reversalOfEntryId candidate = None) ''ORIGINAL cannot have a reversal target'')
     else rbind (ensure (ce_amountCents candidate < 0) ''REVERSAL amount must be negative'') (\<lambda>_.
       case ce_reversalOfEntryId candidate of
         None \<Rightarrow> Inl ''reversal target''
       | Some t \<Rightarrow> rbind (assertNonBlankField t ''reversal target'') (\<lambda>_.
           case find_row ce_id t entries of
             None \<Rightarrow> Inl ''reversal target must reference an ORIGINAL entry''
           | Some target \<Rightarrow>
               rbind (ensure (ce_entryKind target = ORIGINAL)
                 ''reversal target must reference an ORIGINAL entry'') (\<lambda>_.
               ensure (ce_amountCents candidate = - ce_amountCents target)
                 ''reversal amount must oppose its target''))))))))"

section \<open>The summary\<close>

definition ACTION_TYPES :: "action_type list" where
  "ACTION_TYPES = [ACTUAL_COST, RESPONSIBILITY_CONFIRMED, RECOVERY_EXPOSURE, RECOVERY_RECEIVED,
     WAIVER, WRITE_OFF]"

definition RESPONSIBILITY_TYPES :: "party_type list" where
  "RESPONSIBILITY_TYPES = [CUSTOMER, INSURER, SUPPLIER, ASSET_OWNER, PLATFORM, party_type.OTHER]"

definition COST_CATEGORIES :: "cost_category list" where
  "COST_CATEGORIES = [DAMAGE, CLEANING, REPAIR, MAINTENANCE, EXCESS_MILEAGE, VIOLATION, TOWING,
     INSURANCE, BAAS, DEPRECIATION, cost_category.OTHER]"

definition emptyBuckets :: "'k list \<Rightarrow> ('k \<times> bucket) list" where
  "emptyBuckets keys = map (\<lambda>k. (k, (0, 0))) keys"

definition addBucket :: "('k \<times> bucket) list \<Rightarrow> 'k \<Rightarrow> amount \<Rightarrow> ('k \<times> bucket) list" where
  "addBucket buckets key amountCents =
     (if map_of buckets key \<noteq> None
      then upd_row fst key (\<lambda>(k, (a, n)). (k, (a + amountCents, n + 1))) buckets
      else buckets @ [(key, (amountCents, 1))])"

fun partyName :: "party_type \<Rightarrow> string" where
  "partyName CUSTOMER = ''CUSTOMER''"
| "partyName INSURER = ''INSURER''"
| "partyName SUPPLIER = ''SUPPLIER''"
| "partyName ASSET_OWNER = ''ASSET_OWNER''"
| "partyName PLATFORM = ''PLATFORM''"
| "partyName party_type.OTHER = ''OTHER''"

text \<open>A reversal is booked in the dimensions of the entry it reverses.\<close>

definition booked_as :: "cost_entry list \<Rightarrow> cost_entry \<Rightarrow> cost_entry" where
  "booked_as entries entry =
     (if ce_entryKind entry = REVERSAL then
        (case ce_reversalOfEntryId entry of None \<Rightarrow> entry | Some t \<Rightarrow>
          (case find_row ce_id t entries of None \<Rightarrow> entry | Some original \<Rightarrow> original))
      else entry)"

definition party_key :: "cost_entry \<Rightarrow> string" where
  "party_key e = partyName (ce_responsiblePartyType e) @ '':''
     @ (case ce_responsiblePartyId e of None \<Rightarrow> '''' | Some i \<Rightarrow> i)"

definition add_entry :: "cost_entry list \<Rightarrow> cost_entry \<Rightarrow> cost_summary \<Rightarrow> cost_summary" where
  "add_entry entries entry s =
     (let amount = ce_amountCents entry; o' = booked_as entries entry in
      \<lparr> sm_totalAmountCents = sm_totalAmountCents s + amount,
        sm_byActionType = addBucket (sm_byActionType s) (ce_actionType o') amount,
        sm_byResponsibility = addBucket (sm_byResponsibility s) (ce_responsiblePartyType o') amount,
        sm_byResponsibleParty = addBucket (sm_byResponsibleParty s) (party_key o') amount,
        sm_byCategory = addBucket (sm_byCategory s) (ce_costCategory o') amount \<rparr>)"

fun add_entries :: "cost_entry list \<Rightarrow> cost_entry list \<Rightarrow> cost_summary \<Rightarrow> (string, cost_summary) result" where
  "add_entries all [] s = Inr s"
| "add_entries all (e # es) s =
     rbind (assertVehicleCostLedgerEntry all e) (\<lambda>_. add_entries all es (add_entry all e s))"

fun distinct_ids :: "id list \<Rightarrow> cost_entry list \<Rightarrow> (string, unit) result" where
  "distinct_ids seen [] = Inr ()"
| "distinct_ids seen (e # es) =
     rbind (assertNonBlankField (ce_id e) ''id'') (\<lambda>_.
     rbind (ensure (ce_id e \<notin> set seen) ''duplicated'') (\<lambda>_. distinct_ids (ce_id e # seen) es))"

definition summarizeVehicleCostEntries :: "cost_entry list \<Rightarrow> (string, cost_summary) result" where
  "summarizeVehicleCostEntries entries =
     rbind (distinct_ids [] entries) (\<lambda>_. add_entries entries entries
       \<lparr> sm_totalAmountCents = 0, sm_byActionType = emptyBuckets ACTION_TYPES,
         sm_byResponsibility = emptyBuckets RESPONSIBILITY_TYPES, sm_byResponsibleParty = [],
         sm_byCategory = emptyBuckets COST_CATEGORIES \<rparr>)"

section \<open>Buckets\<close>

definition bucket_at :: "('k \<times> bucket) list \<Rightarrow> 'k \<Rightarrow> bucket" where
  "bucket_at buckets k = (case map_of buckets k of None \<Rightarrow> (0, 0) | Some b \<Rightarrow> b)"

definition buckets_ok :: "('k \<times> bucket) list \<Rightarrow> ('a \<Rightarrow> 'k) \<Rightarrow> ('a \<Rightarrow> amount) \<Rightarrow> 'a list \<Rightarrow> bool" where
  "buckets_ok buckets dim amt es =
     (distinct (map fst buckets)
      \<and> (\<forall>k. bucket_at buckets k
           = (sum_by amt (filter (\<lambda>e. dim e = k) es), length (filter (\<lambda>e. dim e = k) es)))
      \<and> sum_by (\<lambda>b. fst (snd b)) buckets = sum_by amt es)"

lemma map_of_upd_row: "map_of (upd_row fst key (\<lambda>(k, v). (k, f v)) bs) k
    = (if k = key then map_option f (map_of bs k) else map_of bs k)"
  by (induction bs) (auto simp: upd_row_def)

lemma bucket_at_add: "bucket_at (addBucket bs key a) k
    = (if k = key then (fst (bucket_at bs k) + a, snd (bucket_at bs k) + 1) else bucket_at bs k)"
proof -
  have "upd_row fst key (\<lambda>(k, (x, n)). (k, (x + a, n + 1))) bs
      = upd_row fst key (\<lambda>(k, v). (k, (fst v + a, snd v + 1))) bs"
    by (simp add: upd_row_def case_prod_beta)
  then show ?thesis
    by (auto simp: bucket_at_def addBucket_def map_of_upd_row map_add_def split: option.splits)
qed

lemma addBucket_keys: "distinct (map fst bs) \<Longrightarrow> distinct (map fst (addBucket bs key a))"
proof -
  assume d: "distinct (map fst bs)"
  have "map fst (upd_row fst key (\<lambda>(k, (x, n)). (k, (x + a, n + 1))) bs) = map fst bs"
    by (induction bs) (auto simp: upd_row_def)
  then show ?thesis using d by (auto simp: addBucket_def map_of_eq_None_iff)
qed

lemma addBucket_sum:
  assumes "distinct (map fst bs)"
  shows "sum_by (\<lambda>b. fst (snd b)) (addBucket bs key a) = sum_by (\<lambda>b. fst (snd b)) bs + a"
proof (cases "map_of bs key")
  case None
  then show ?thesis by (simp add: addBucket_def)
next
  case (Some v)
  then have "(key, v) \<in> set bs" by (rule map_of_SomeD)
  then show ?thesis
    using sum_by_upd_row [OF assms, of "(key, v)" key "\<lambda>b. fst (snd b)"
        "\<lambda>(k, (x, n)). (k, (x + a, n + 1))"] Some
    by (simp add: addBucket_def case_prod_beta)
qed

lemma buckets_ok_add:
  "buckets_ok bs dim amt es \<Longrightarrow> buckets_ok (addBucket bs (dim e) (amt e)) dim amt (es @ [e])"
  unfolding buckets_ok_def by (auto simp: bucket_at_add addBucket_keys addBucket_sum)

lemma buckets_ok_empty: "distinct keys \<Longrightarrow> buckets_ok (emptyBuckets keys) dim amt []"
proof -
  assume d: "distinct keys"
  have "bucket_at (emptyBuckets keys) k = (0, 0)" for k
    by (induction keys) (auto simp: bucket_at_def emptyBuckets_def)
  moreover have "sum_by (\<lambda>b. fst (snd b)) (emptyBuckets keys) = 0"
    by (rule sum_by_zero) (auto simp: emptyBuckets_def)
  moreover have "map fst (emptyBuckets keys) = keys" by (simp add: emptyBuckets_def comp_def)
  ultimately show ?thesis using d by (simp add: buckets_ok_def)
qed

definition summary_ok :: "cost_entry list \<Rightarrow> cost_entry list \<Rightarrow> cost_summary \<Rightarrow> bool" where
  "summary_ok all es s =
     (sm_totalAmountCents s = sum_by ce_amountCents es
      \<and> buckets_ok (sm_byActionType s) (\<lambda>e. ce_actionType (booked_as all e)) ce_amountCents es
      \<and> buckets_ok (sm_byResponsibility s) (\<lambda>e. ce_responsiblePartyType (booked_as all e)) ce_amountCents es
      \<and> buckets_ok (sm_byResponsibleParty s) (\<lambda>e. party_key (booked_as all e)) ce_amountCents es
      \<and> buckets_ok (sm_byCategory s) (\<lambda>e. ce_costCategory (booked_as all e)) ce_amountCents es)"

lemma summary_ok_add: "summary_ok all es s \<Longrightarrow> summary_ok all (es @ [e]) (add_entry all e s)"
  using buckets_ok_add [of "sm_byActionType s" "\<lambda>e. ce_actionType (booked_as all e)" ce_amountCents es e]
    buckets_ok_add [of "sm_byResponsibility s" "\<lambda>e. ce_responsiblePartyType (booked_as all e)" ce_amountCents es e]
    buckets_ok_add [of "sm_byResponsibleParty s" "\<lambda>e. party_key (booked_as all e)" ce_amountCents es e]
    buckets_ok_add [of "sm_byCategory s" "\<lambda>e. ce_costCategory (booked_as all e)" ce_amountCents es e]
  by (simp add: summary_ok_def add_entry_def Let_def)

lemma add_entries_ok:
  "add_entries all es s = Inr s' \<Longrightarrow> summary_ok all acc s \<Longrightarrow>
   summary_ok all (acc @ es) s' \<and> (\<forall>e \<in> set es. assertVehicleCostLedgerEntry all e = Inr ())"
proof (induction es arbitrary: acc s)
  case (Cons e es)
  then show ?case using Cons.IH [OF _ summary_ok_add [OF Cons.prems(2)], of e] by auto
qed simp

lemma distinct_ids_ok: "distinct_ids seen es = Inr u \<longleftrightarrow>
   distinct (map ce_id es) \<and> set (map ce_id es) \<inter> set seen = {} \<and> (\<forall>e \<in> set es. nonblank (ce_id e))"
  by (induction seen es rule: distinct_ids.induct) (auto simp: assertNonBlankField_def)

lemma summarize_ok:
  assumes "summarizeVehicleCostEntries entries = Inr s"
  shows "summary_ok entries entries s" and "distinct (map ce_id entries)"
    and "e \<in> set entries \<Longrightarrow> assertVehicleCostLedgerEntry entries e = Inr ()"
proof -
  let ?s0 = "\<lparr> sm_totalAmountCents = 0, sm_byActionType = emptyBuckets ACTION_TYPES,
         sm_byResponsibility = emptyBuckets RESPONSIBILITY_TYPES, sm_byResponsibleParty = [],
         sm_byCategory = emptyBuckets COST_CATEGORIES \<rparr>"
  have "buckets_ok ([] :: (string \<times> bucket) list) dim amt ([] :: cost_entry list)" for dim amt
    by (simp add: buckets_ok_def bucket_at_def)
  then have s0: "summary_ok entries [] ?s0"
    by (simp add: summary_ok_def buckets_ok_empty ACTION_TYPES_def RESPONSIBILITY_TYPES_def COST_CATEGORIES_def)
  have d: "distinct_ids [] entries = Inr ()" and a: "add_entries entries entries ?s0 = Inr s"
    using assms by (auto simp: summarizeVehicleCostEntries_def)
  show "summary_ok entries entries s" "e \<in> set entries \<Longrightarrow> assertVehicleCostLedgerEntry entries e = Inr ()"
    using add_entries_ok [OF a s0] by auto
  show "distinct (map ce_id entries)" using d by (simp add: distinct_ids_ok)
qed

section \<open>Reversals\<close>

definition reverses :: "cost_entry \<Rightarrow> cost_entry \<Rightarrow> bool" where
  "reverses r e = (ce_entryKind r = REVERSAL \<and> ce_reversalOfEntryId r = Some (ce_id e))"

text \<open>The amount of an original entry that its reversals leave standing.\<close>

definition net_amount :: "cost_entry list \<Rightarrow> cost_entry \<Rightarrow> amount" where
  "net_amount entries e = ce_amountCents e * (1 - int (length (filter (\<lambda>r. reverses r e) entries)))"

lemma sum_by_single:
  "distinct xs \<Longrightarrow> sum_by (\<lambda>x. if x = t then f x else 0) xs = (if t \<in> set xs then f t else 0)"
  by (induction xs) auto

lemma sum_by_diff: "sum_by (\<lambda>x. f x - g x) xs = sum_by f xs - sum_by g xs"
  by (induction xs) auto

lemma reversal_target:
  assumes ok: "assertVehicleCostLedgerEntry entries r = Inr ()" and r: "ce_entryKind r = REVERSAL"
  obtains t where "t \<in> set entries" "ce_entryKind t = ORIGINAL" "ce_amountCents r = - ce_amountCents t"
    "reverses r t" "booked_as entries r = t"
proof -
  obtain t i where "ce_reversalOfEntryId r = Some i" "find_row ce_id i entries = Some t"
    "ce_entryKind t = ORIGINAL" "ce_amountCents r = - ce_amountCents t"
    using ok r by (auto simp: assertVehicleCostLedgerEntry_def split: option.splits)
  then show ?thesis
    using that [of t] find_row_Some [of ce_id i entries t] r by (simp add: reverses_def booked_as_def)
qed

lemma reversals_sum:
  assumes dist: "distinct (map ce_id entries)"
    and ok: "\<And>r. r \<in> set rs \<Longrightarrow> assertVehicleCostLedgerEntry entries r = Inr ()"
  shows "sum_by ce_amountCents (filter (\<lambda>r. ce_entryKind r = REVERSAL \<and> P (booked_as entries r)) rs)
    = - sum_by (\<lambda>e. ce_amountCents e * int (length (filter (\<lambda>r. reverses r e) rs)))
        (filter (\<lambda>e. ce_entryKind e = ORIGINAL \<and> P e) entries)"
  using ok
proof (induction rs)
  case Nil
  then show ?case by (simp add: sum_by_zero)
next
  case (Cons r rs)
  let ?os = "filter (\<lambda>e. ce_entryKind e = ORIGINAL \<and> P e) entries"
  let ?n = "\<lambda>rs e. ce_amountCents e * int (length (filter (\<lambda>r. reverses r e) rs))"
  note IH = Cons.IH [OF Cons.prems, simplified]
  show ?case
  proof (cases "ce_entryKind r = REVERSAL")
    case False
    then show ?thesis using IH by (simp add: reverses_def)
  next
    case True
    obtain t where t: "t \<in> set entries" "ce_entryKind t = ORIGINAL" "ce_amountCents r = - ce_amountCents t"
      "reverses r t" "booked_as entries r = t"
      using reversal_target [OF Cons.prems True] by auto
    have same: "e \<in> set entries \<Longrightarrow> reverses r e \<longleftrightarrow> e = t" for e
      using t(1,4) dist by (auto simp: reverses_def dest: map_of_SomeD) (metis distinct_map inj_onD)
    have "sum_by (?n (r # rs)) ?os = sum_by (\<lambda>e. (if e = t then ce_amountCents e else 0) + ?n rs e) ?os"
      by (rule sum_by_cong) (auto simp: same algebra_simps)
    also have "\<dots> = (if P t then ce_amountCents t else 0) + sum_by (?n rs) ?os"
      using sum_by_single [of ?os t ce_amountCents] t(1,2) dist
      by (simp add: sum_by_add distinct_map)
    finally show ?thesis using IH True t(3,5) by simp
  qed
qed

lemma net_bucket:
  assumes s: "summarizeVehicleCostEntries entries = Inr s"
  shows "sum_by ce_amountCents (filter (\<lambda>e. P (booked_as entries e)) entries)
    = sum_by (net_amount entries) (filter (\<lambda>e. ce_entryKind e = ORIGINAL \<and> P e) entries)"
proof -
  have kind: "ce_entryKind e = REVERSAL \<longleftrightarrow> ce_entryKind e \<noteq> ORIGINAL" for e
    by (cases "ce_entryKind e") auto
  have "sum_by ce_amountCents (filter (\<lambda>e. P (booked_as entries e)) entries)
      = sum_by ce_amountCents (filter (\<lambda>e. ce_entryKind e = ORIGINAL \<and> P e) entries)
        + sum_by ce_amountCents (filter (\<lambda>r. ce_entryKind r = REVERSAL \<and> P (booked_as entries r)) entries)"
  proof -
    have "filter (\<lambda>e. ce_entryKind e = ORIGINAL) (filter (\<lambda>e. P (booked_as entries e)) entries)
        = filter (\<lambda>e. ce_entryKind e = ORIGINAL \<and> P e) entries"
      by (auto simp: booked_as_def intro!: filter_cong)
    moreover have "filter (\<lambda>e. ce_entryKind e \<noteq> ORIGINAL) (filter (\<lambda>e. P (booked_as entries e)) entries)
        = filter (\<lambda>r. ce_entryKind r = REVERSAL \<and> P (booked_as entries r)) entries"
      by (auto simp: kind intro!: filter_cong)
    ultimately show ?thesis
      using sum_by_filter_split [of ce_amountCents "filter (\<lambda>e. P (booked_as entries e)) entries"
          "\<lambda>e. ce_entryKind e = ORIGINAL"] by simp
  qed
  also have "\<dots> = sum_by (net_amount entries) (filter (\<lambda>e. ce_entryKind e = ORIGINAL \<and> P e) entries)"
  proof -
    have "net_amount entries = (\<lambda>e. ce_amountCents e
        - ce_amountCents e * int (length (filter (\<lambda>r. reverses r e) entries)))"
      by (intro ext) (simp add: net_amount_def algebra_simps)
    then show ?thesis
      using reversals_sum [OF summarize_ok(2) [OF s], of entries P] summarize_ok(3) [OF s]
      by (simp add: sum_by_diff)
  qed
  finally show ?thesis .
qed

section \<open>Properties\<close>

text \<open>
  C37 The vehicle cost summary balances: a summary exists only for ledgers whose
  entries all pass the checks, and then its total is the sum of all entries, the
  buckets of each of the four dimensions add up to the total, and a bucket of an
  action type or a category holds exactly the original entries of that kind, each
  counted for what its reversals leave standing (nothing after one reversal).
\<close>

theorem cost_summary_balances:
  assumes "summarizeVehicleCostEntries entries = Inr s"
  shows "sm_totalAmountCents s = sum_by ce_amountCents entries
    \<and> sum_by (\<lambda>b. fst (snd b)) (sm_byActionType s) = sm_totalAmountCents s
    \<and> sum_by (\<lambda>b. fst (snd b)) (sm_byResponsibility s) = sm_totalAmountCents s
    \<and> sum_by (\<lambda>b. fst (snd b)) (sm_byResponsibleParty s) = sm_totalAmountCents s
    \<and> sum_by (\<lambda>b. fst (snd b)) (sm_byCategory s) = sm_totalAmountCents s
    \<and> fst (bucket_at (sm_byActionType s) a)
      = sum_by (net_amount entries) (filter (\<lambda>e. ce_entryKind e = ORIGINAL \<and> ce_actionType e = a) entries)
    \<and> fst (bucket_at (sm_byCategory s) c)
      = sum_by (net_amount entries) (filter (\<lambda>e. ce_entryKind e = ORIGINAL \<and> ce_costCategory e = c) entries)"
  using summarize_ok(1) [OF assms] net_bucket [OF assms, of "\<lambda>e. ce_actionType e = a"]
    net_bucket [OF assms, of "\<lambda>e. ce_costCategory e = c"]
  by (simp add: summary_ok_def buckets_ok_def)

definition ex_cost :: "id \<Rightarrow> entry_kind \<Rightarrow> action_type \<Rightarrow> amount \<Rightarrow> id option \<Rightarrow> cost_entry" where
  "ex_cost i k a amt t = \<lparr> ce_id = i, ce_vehicleId = ''v'', ce_orderId = None, ce_contractId = None,
     ce_customerId = None, ce_entryKind = k, ce_actionType = a, ce_costCategory = REPAIR,
     ce_amountCents = amt, ce_responsiblePartyType = CUSTOMER, ce_responsiblePartyId = Some ''c'',
     ce_occurredOn = Some 0, ce_accountingPeriod = ''2026-09'', ce_reversalOfEntryId = t \<rparr>"

definition ex_costs :: "cost_entry list" where
  "ex_costs = [ex_cost ''a'' ORIGINAL ACTUAL_COST 500 None, ex_cost ''b'' ORIGINAL ACTUAL_COST 300 None,
     ex_cost ''r'' REVERSAL ACTUAL_COST (-500) (Some ''a'')]"

theorem cost_summary_balances_witness:
  "\<exists>s. summarizeVehicleCostEntries ex_costs = Inr s \<and> sm_totalAmountCents s = 300
     \<and> fst (bucket_at (sm_byActionType s) ACTUAL_COST) = 300"
proof -
  have "is_ok (summarizeVehicleCostEntries ex_costs)" by code_simp
  then obtain s where s: "summarizeVehicleCostEntries ex_costs = Inr s" by (auto simp: is_ok_iff)
  have "sum_by ce_amountCents ex_costs = 300" by code_simp
  moreover have "sum_by (net_amount ex_costs)
      (filter (\<lambda>e. ce_entryKind e = ORIGINAL \<and> ce_actionType e = ACTUAL_COST) ex_costs) = 300" by code_simp
  ultimately show ?thesis using cost_summary_balances [OF s, of ACTUAL_COST] s by auto
qed

lemma add_entries_iff: "is_ok (add_entries all es s) \<longleftrightarrow>
   list_all (\<lambda>e. is_ok (assertVehicleCostLedgerEntry all e)) es"
proof (induction es arbitrary: s)
  case (Cons e es)
  then show ?case by (cases "assertVehicleCostLedgerEntry all e") auto
qed simp

text \<open>
  A ledger is summarised if and only if its ids are distinct and every entry
  passes the checks against the whole ledger: no valid ledger is refused, and a
  single bad entry (for example a reversal that does not oppose an original
  entry of the ledger) refuses the summary.
\<close>

theorem cost_summary_exists:
  "is_ok (summarizeVehicleCostEntries entries) \<longleftrightarrow> distinct (map ce_id entries)
     \<and> list_all (\<lambda>e. is_ok (assertVehicleCostLedgerEntry entries e)) entries"
proof -
  have "nonblank (ce_id e)" if "is_ok (assertVehicleCostLedgerEntry entries e)" for e
    using that by (auto simp: is_ok_iff assertVehicleCostLedgerEntry_def assertNonBlankField_def)
  then have "list_all (\<lambda>e. is_ok (assertVehicleCostLedgerEntry entries e)) entries
      \<Longrightarrow> \<forall>e \<in> set entries. nonblank (ce_id e)"
    by (auto simp: list_all_iff)
  then show ?thesis
    using distinct_ids_ok [of "[]" entries "()"] add_entries_iff [of entries entries]
    unfolding summarizeVehicleCostEntries_def
    by (cases "distinct_ids [] entries") auto
qed

end
