(* ===== verification/Settlement.thy ===== *)
theory Settlement
  imports FinanceLaws CostLedger
begin

text \<open>
  The settlement resolver of \<open>subscription-closure.settlement-resolver.ts\<close>: it
  reads the bills, payments, write-offs and deposit ledgers of an order, refuses
  to settle when they do not reconcile, and computes what is due and refundable.
  The snapshots, their hashes and the list of rows to lock are not modelled.
\<close>

datatype settlement_error = AUTHORITY_NOT_FOUND | FACT_INCONSISTENT

datatype DepositStatus = PENDING_CONFIRM | CONFIRMED | WAIVED | REJECTED

section \<open>Coherence of the financial facts\<close>

fun allocations_walk ::
    "id \<Rightarrow> receivable_bill list \<Rightarrow> payment_record list \<Rightarrow> payment_write_off list
      \<Rightarrow> (id \<Rightarrow> amount) \<times> (id \<Rightarrow> amount)
      \<Rightarrow> (settlement_error, (id \<Rightarrow> amount) \<times> (id \<Rightarrow> amount)) result" where
  "allocations_walk customerId bills payments [] sums = Inr sums"
| "allocations_walk customerId bills payments (a # as) (byBill, byPayment) =
     (if wo_customerId a \<noteq> customerId \<or> wo_writeOffAmount a \<le> 0
         \<or> find_row rb_id (wo_billId a) bills = None \<or> find_row pr_id (wo_paymentId a) payments = None
      then Inl FACT_INCONSISTENT
      else allocations_walk customerId bills payments as
        (byBill(wo_billId a := byBill (wo_billId a) + wo_writeOffAmount a),
         byPayment(wo_paymentId a := byPayment (wo_paymentId a) + wo_writeOffAmount a)))"

definition settlement_signed :: "deposit_ledger \<Rightarrow> amount option" where
  "settlement_signed d =
     (if dl_transactionType d = COLLECT then Some (dl_amount d)
      else if dl_transactionType d = DEDUCT \<or> dl_transactionType d = REFUND \<or> dl_transactionType d = RELEASE
      then Some (- dl_amount d)
      else if dl_transactionType d = FREEZE then Some 0
      else None)"

definition deduction_bill ::
    "id \<Rightarrow> id \<Rightarrow> receivable_bill list \<Rightarrow> deposit_ledger \<Rightarrow> receivable_bill option" where
  "deduction_bill orderId customerId bills d =
     (case (case dl_billId d of None \<Rightarrow> None | Some i \<Rightarrow> find_row rb_id i bills) of
        None \<Rightarrow> None
      | Some bill \<Rightarrow>
          if rb_orderId bill \<noteq> orderId \<or> rb_customerId bill \<noteq> customerId
             \<or> rb_billType bill \<noteq> DAMAGE_FEE \<or> rb_billStatus bill = BillStatus.CANCELLED
             \<or> dl_paymentId d \<noteq> None
          then None else Some bill)"

fun deposits_walk ::
    "id \<Rightarrow> id \<Rightarrow> receivable_bill list \<Rightarrow> deposit_ledger list \<Rightarrow> amount \<Rightarrow> (id \<Rightarrow> amount)
      \<Rightarrow> (settlement_error, id \<Rightarrow> amount) result" where
  "deposits_walk orderId customerId bills [] balance deductedByBill = Inr deductedByBill"
| "deposits_walk orderId customerId bills (d # ds) balance deductedByBill =
     (case settlement_signed d of
        None \<Rightarrow> Inl FACT_INCONSISTENT
      | Some signedAmount \<Rightarrow>
          let balance' = balance + signedAmount in
          if balance' < 0 \<or> dl_balanceAfter d \<noteq> balance' then Inl FACT_INCONSISTENT
          else if dl_transactionType d \<noteq> DEDUCT
          then deposits_walk orderId customerId bills ds balance' deductedByBill
          else case deduction_bill orderId customerId bills d of
            None \<Rightarrow> Inl FACT_INCONSISTENT
          | Some bill \<Rightarrow> deposits_walk orderId customerId bills ds balance'
              (deductedByBill(rb_id bill := deductedByBill (rb_id bill) + dl_amount d)))"

definition bill_incoherent :: "id \<Rightarrow> receivable_bill \<Rightarrow> bool" where
  "bill_incoherent customerId b = (rb_customerId b \<noteq> customerId \<or> rb_amount b < 0 \<or> rb_paidAmount b < 0
     \<or> rb_remainingAmount b < 0 \<or> rb_paidAmount b + rb_remainingAmount b \<noteq> rb_amount b)"

definition payment_incoherent :: "id \<Rightarrow> payment_record \<Rightarrow> bool" where
  "payment_incoherent customerId p = (pr_customerId p \<noteq> customerId \<or> pr_paymentAmount p \<le> 0)"

definition deposit_incoherent :: "id \<Rightarrow> id \<Rightarrow> deposit_ledger \<Rightarrow> bool" where
  "deposit_incoherent orderId customerId d =
     (dl_customerId d \<noteq> customerId \<or> dl_orderId d \<noteq> orderId \<or> dl_amount d \<le> 0)"

text \<open>Returns the total paid.\<close>

definition assertFinancialCoherence ::
    "id \<Rightarrow> id \<Rightarrow> receivable_bill list \<Rightarrow> payment_record list \<Rightarrow> payment_write_off list
      \<Rightarrow> deposit_ledger list \<Rightarrow> (settlement_error, amount) result" where
  "assertFinancialCoherence orderId customerId bills payments allocations deposits =
     (if list_ex (bill_incoherent customerId) bills \<or> list_ex (payment_incoherent customerId) payments
         \<or> list_ex (deposit_incoherent orderId customerId) deposits
      then Inl FACT_INCONSISTENT
      else
        rbind (allocations_walk customerId bills payments allocations (\<lambda>_. 0, \<lambda>_. 0))
          (\<lambda>(allocatedByBill, allocatedByPayment).
        rbind (deposits_walk orderId customerId bills deposits 0 (\<lambda>_. 0)) (\<lambda>deductedByBill.
          if list_ex (\<lambda>b. allocatedByBill (rb_id b) + deductedByBill (rb_id b) \<noteq> rb_paidAmount b) bills
             \<or> list_ex (\<lambda>p. allocatedByPayment (pr_id p) > pr_paymentAmount p) payments
          then Inl FACT_INCONSISTENT
          else Inr (sum_by rb_paidAmount bills))))"

section \<open>The resolver\<close>

record closure_ref =
  cr_orderId :: id
  cr_contractId :: id
  cr_customerId :: id
  cr_vehicleId :: id

record settlement_order =
  so_id :: id
  so_contractId :: "id option"
  so_customerId :: id
  so_vehicleId :: "id option"
  so_deletedAt :: "time option"
  so_depositAmount :: amount
  so_finalDepositAmount :: "amount option"
  so_depositStatus :: DepositStatus

record resolved_settlement =
  rs_amountDueCents :: amount
  rs_amountRefundableCents :: amount
  rs_costTotalCents :: amount
  rs_depositAppliedCents :: amount
  rs_depositFinal :: bool
  rs_depositRefundCents :: amount
  rs_obligationsResolved :: bool
  rs_paidTotalCents :: amount
  rs_receivableTotalCents :: amount
  rs_waiverTotalCents :: amount
  rs_writeOffTotalCents :: amount

definition order_bills :: "finance_db \<Rightarrow> id \<Rightarrow> receivable_bill list" where
  "order_bills db orderId = filter (\<lambda>b. rb_billStatus b \<noteq> BillStatus.CANCELLED
     \<and> rb_deletedAt b = None \<and> rb_orderId b = orderId) (fd_bills db)"

definition order_payments :: "finance_db \<Rightarrow> id \<Rightarrow> payment_record list" where
  "order_payments db orderId = sort_key pr_receivedAt (filter (\<lambda>p. pr_deletedAt p = None
     \<and> pr_orderId p = orderId \<and> pr_paymentStatus p = PaymentStatus.CONFIRMED) (fd_payments db))"

definition order_allocations :: "finance_db \<Rightarrow> id \<Rightarrow> payment_write_off list" where
  "order_allocations db orderId = sort_key wo_writeOffAt
     (filter (\<lambda>w. wo_deletedAt w = None \<and> wo_orderId w = orderId) (fd_writeOffs db))"

definition order_deposits :: "finance_db \<Rightarrow> id \<Rightarrow> deposit_ledger list" where
  "order_deposits db orderId = sort_key dl_occurredAt (filter (\<lambda>l. dl_deletedAt l = None
     \<and> dl_orderId l = orderId \<and> dl_transactionStatus l = DepositTransactionStatus.CONFIRMED) (fd_ledgers db))"

definition ledgerTotal :: "cost_entry list \<Rightarrow> action_type \<Rightarrow> (cost_entry \<Rightarrow> bool) \<Rightarrow> amount" where
  "ledgerTotal entries actionType predicate =
     sum_by ce_amountCents (filter (\<lambda>e. ce_actionType e = actionType \<and> predicate e) entries)"

definition nonnegative :: "amount \<Rightarrow> amount" where
  "nonnegative v = (if v < 0 then 0 else v)"

definition customerResolution :: "closure_ref \<Rightarrow> cost_entry \<Rightarrow> bool" where
  "customerResolution c e =
     (ce_responsiblePartyType e = CUSTOMER \<and> ce_responsiblePartyId e = Some (cr_customerId c)
      \<and> ce_customerId e = Some (cr_customerId c) \<and> ce_orderId e = Some (cr_orderId c)
      \<and> ce_contractId e = Some (cr_contractId c) \<and> ce_vehicleId e = cr_vehicleId c)"

definition deposit_final :: "settlement_order \<Rightarrow> deposit_ledger list \<Rightarrow> bool" where
  "deposit_final order deposits =
     (let effectiveDeposit = (case so_finalDepositAmount order of None \<Rightarrow> so_depositAmount order
            | Some a \<Rightarrow> a) in
      so_depositStatus order = DepositStatus.WAIVED \<or> so_depositStatus order = DepositStatus.REJECTED
      \<or> effectiveDeposit = 0 \<or> (deposits \<noteq> [] \<and> dl_balanceAfter (last deposits) = 0))"

text \<open>The totals of reconciled facts, and what is due.\<close>

definition resolve_totals ::
    "closure_ref \<Rightarrow> settlement_order \<Rightarrow> cost_entry list \<Rightarrow> receivable_bill list \<Rightarrow> deposit_ledger list
      \<Rightarrow> amount \<Rightarrow> (settlement_error, resolved_settlement) result" where
  "resolve_totals c order ledger bills deposits paidTotalCents =
     (let costTotalCents = ledgerTotal ledger ACTUAL_COST (\<lambda>_. True);
          waiverTotalCents = ledgerTotal ledger WAIVER (customerResolution c);
          writeOffTotalCents = ledgerTotal ledger WRITE_OFF (customerResolution c);
          receivableTotalCents = sum_by rb_amount bills;
          remainingTotalCents = sum_by rb_remainingAmount bills;
          depositAppliedCents = sum_by dl_amount (filter (\<lambda>d. dl_transactionType d = DEDUCT) deposits);
          depositRefundCents = sum_by dl_amount (filter (\<lambda>d. dl_transactionType d = REFUND) deposits)
      in if list_ex (\<lambda>v. v < 0) [costTotalCents, waiverTotalCents, writeOffTotalCents,
           receivableTotalCents, paidTotalCents, remainingTotalCents, depositAppliedCents,
           depositRefundCents]
         then Inl FACT_INCONSISTENT
         else if waiverTotalCents + writeOffTotalCents > remainingTotalCents
         then Inl FACT_INCONSISTENT
         else
           let amountDueCents = nonnegative (remainingTotalCents - waiverTotalCents - writeOffTotalCents);
               depositFinal = deposit_final order deposits
           in Inr \<lparr> rs_amountDueCents = amountDueCents,
                rs_amountRefundableCents = depositRefundCents,
                rs_costTotalCents = costTotalCents, rs_depositAppliedCents = depositAppliedCents,
                rs_depositFinal = depositFinal, rs_depositRefundCents = depositRefundCents,
                rs_obligationsResolved = (amountDueCents = 0 \<and> depositFinal),
                rs_paidTotalCents = paidTotalCents,
                rs_receivableTotalCents = receivableTotalCents,
                rs_waiverTotalCents = waiverTotalCents,
                rs_writeOffTotalCents = writeOffTotalCents \<rparr>)"

definition resolveInTransaction ::
    "closure_ref option \<Rightarrow> settlement_order list \<Rightarrow> cost_entry list \<Rightarrow> finance_db
      \<Rightarrow> (settlement_error, resolved_settlement) result" where
  "resolveInTransaction closureCase orders costs db = (case closureCase of
       None \<Rightarrow> Inl AUTHORITY_NOT_FOUND
     | Some c \<Rightarrow> (case find_row so_id (cr_orderId c) orders of
         None \<Rightarrow> Inl FACT_INCONSISTENT
       | Some order \<Rightarrow>
         if so_deletedAt order \<noteq> None \<or> so_contractId order \<noteq> Some (cr_contractId c)
            \<or> so_customerId order \<noteq> cr_customerId c \<or> so_vehicleId order \<noteq> Some (cr_vehicleId c)
         then Inl FACT_INCONSISTENT
         else
           let ledger = filter (\<lambda>e. ce_orderId e = Some (cr_orderId c)) costs;
               bills = order_bills db (cr_orderId c);
               deposits = order_deposits db (cr_orderId c) in
           rbind (assertFinancialCoherence (cr_orderId c) (cr_customerId c) bills
             (order_payments db (cr_orderId c)) (order_allocations db (cr_orderId c)) deposits)
             (resolve_totals c order ledger bills deposits)))"

section \<open>Balanced books are coherent\<close>

lemma allocations_walk_sums:
  assumes "\<And>a. a \<in> set as \<Longrightarrow> wo_customerId a = customerId \<and> 0 < wo_writeOffAmount a
    \<and> find_row rb_id (wo_billId a) bills \<noteq> None \<and> find_row pr_id (wo_paymentId a) payments \<noteq> None"
  shows "allocations_walk customerId bills payments as (f, g) =
    Inr (\<lambda>i. f i + sum_by wo_writeOffAmount (filter (\<lambda>a. wo_billId a = i) as),
         \<lambda>i. g i + sum_by wo_writeOffAmount (filter (\<lambda>a. wo_paymentId a = i) as))"
  using assms
proof (induction as arbitrary: f g)
  case (Cons a as)
  have a: "wo_customerId a = customerId" "0 < wo_writeOffAmount a"
    "find_row rb_id (wo_billId a) bills \<noteq> None" "find_row pr_id (wo_paymentId a) payments \<noteq> None"
    using Cons.prems [of a] by simp_all
  show ?case using a Cons.IH [OF Cons.prems] by (auto simp: fun_eq_iff)
qed simp

lemma settlement_signed_eq: "settlement_signed d = Some (signedDepositLedgerAmount d)"
  by (cases "dl_transactionType d") (auto simp: settlement_signed_def signedDepositLedgerAmount_def)

lemma deposits_walk_sums:
  assumes "running b ds"
    and "\<And>d. d \<in> set ds \<Longrightarrow> dl_transactionType d = DEDUCT \<Longrightarrow>
      \<exists>x. deduction_bill orderId customerId bills d = Some x \<and> dl_billId d = Some (rb_id x)"
  shows "deposits_walk orderId customerId bills ds b f =
    Inr (\<lambda>i. f i + sum_by dl_amount (filter (\<lambda>d. dl_billId d = Some i \<and> dl_transactionType d = DEDUCT) ds))"
  using assms
proof (induction ds arbitrary: b f)
  case (Cons d ds)
  have run: "0 \<le> b + signedDepositLedgerAmount d" "dl_balanceAfter d = b + signedDepositLedgerAmount d"
    "running (b + signedDepositLedgerAmount d) ds"
    using Cons.prems(1) by (simp_all add: Let_def)
  note IH = Cons.IH [OF run(3) Cons.prems(2)]
  show ?case
  proof (cases "dl_transactionType d = DEDUCT")
    case False
    then show ?thesis using run IH by (simp add: settlement_signed_eq Let_def)
  next
    case True
    then obtain x where "deduction_bill orderId customerId bills d = Some x" "dl_billId d = Some (rb_id x)"
      using Cons.prems(2) by (meson list.set_intros(1))
    then show ?thesis using True run IH by (auto simp: settlement_signed_eq Let_def fun_eq_iff)
  qed
qed simp

lemma scoped_unique:
  assumes "distinct (map fo_id orders)" "o' \<in> set orders" "scoped orders (fo_id o') c"
  shows "c = fo_customerId o'"
  using assms by (auto simp: scoped_def) (metis distinct_map inj_onD)

lemma books_customer:
  assumes ok: "books_ok db" and o': "o' \<in> set (fd_orders db)"
  shows "b \<in> set (fd_bills db) \<Longrightarrow> rb_orderId b = fo_id o' \<Longrightarrow> rb_customerId b = fo_customerId o'"
    and "p \<in> set (fd_payments db) \<Longrightarrow> pr_orderId p = fo_id o' \<Longrightarrow> pr_customerId p = fo_customerId o'"
    and "l \<in> set (fd_ledgers db) \<Longrightarrow> dl_orderId l = fo_id o' \<Longrightarrow> dl_customerId l = fo_customerId o'"
  using ok scoped_unique [OF _ o'] by (auto simp: books_ok_def keys_ok_def scopes_ok_def)

lemma order_deposits_eq:
  assumes ok: "books_ok db" and o': "o' \<in> set (fd_orders db)"
  shows "order_deposits db (fo_id o') = filter (confirmed_ledger (fo_customerId o') (fo_id o')) (fd_ledgers db)"
proof -
  have "filter (\<lambda>l. dl_deletedAt l = None \<and> dl_orderId l = fo_id o'
      \<and> dl_transactionStatus l = DepositTransactionStatus.CONFIRMED) (fd_ledgers db)
    = filter (confirmed_ledger (fo_customerId o') (fo_id o')) (fd_ledgers db)"
    using books_customer(3) [OF ok o'] by (intro filter_cong) (auto simp: confirmed_ledger_def)
  moreover have "sorted (map dl_occurredAt (filter P (fd_ledgers db)))" for P
    using ok by (simp add: books_ok_def deposits_ok_def sorted_filter)
  ultimately show ?thesis by (simp add: order_deposits_def sort_key_id_if_sorted)
qed

lemma sort_filter_sum: "sum_by f (filter P (sort_key g xs)) = sum_by f (filter P xs)"
  by (rule sum_by_mset) simp

lemma live_writeOff:
  assumes ok: "books_ok db" and w: "w \<in> set (fd_writeOffs db)" "wo_deletedAt w = None"
  obtains b p where "b \<in> set (fd_bills db)" "rb_id b = wo_billId w" "rb_deletedAt b = None"
    "rb_billStatus b \<noteq> BillStatus.CANCELLED" "rb_orderId b = wo_orderId w" "rb_customerId b = wo_customerId w"
    "p \<in> set (fd_payments db)" "pr_id p = wo_paymentId w" "pr_deletedAt p = None"
    "pr_paymentStatus p = PaymentStatus.CONFIRMED" "pr_orderId p = wo_orderId w" "0 < wo_writeOffAmount w"
proof -
  have "writeOff_ok (fd_bills db) (fd_payments db) w" using ok w by (simp add: books_ok_def)
  then show ?thesis unfolding writeOff_ok_def using that by blast
qed

lemma order_allocation_sums:
  assumes ok: "books_ok db"
  shows "b \<in> set (fd_bills db) \<Longrightarrow> rb_orderId b = oid \<Longrightarrow>
      sum_by wo_writeOffAmount (filter (\<lambda>a. wo_billId a = rb_id b) (order_allocations db oid))
        = written_off (fd_writeOffs db) (rb_id b)"
    and "p \<in> set (fd_payments db) \<Longrightarrow> pr_orderId p = oid \<Longrightarrow>
      sum_by wo_writeOffAmount (filter (\<lambda>a. wo_paymentId a = pr_id p) (order_allocations db oid))
        = allocated (fd_writeOffs db) (pr_id p)"
proof -
  have dist: "distinct (map rb_id (fd_bills db))" "distinct (map pr_id (fd_payments db))"
    using ok by (simp_all add: books_ok_def keys_ok_def)
  { assume b: "b \<in> set (fd_bills db)" "rb_orderId b = oid"
    have "wo_orderId w = oid" if w: "w \<in> set (fd_writeOffs db)" "wo_deletedAt w = None" "wo_billId w = rb_id b" for w
      using live_writeOff [OF ok w(1,2)] w(3) b dist(1) by (metis distinct_map inj_onD)
    then have "filter (\<lambda>a. wo_billId a = rb_id b)
        (filter (\<lambda>w. wo_deletedAt w = None \<and> wo_orderId w = oid) (fd_writeOffs db))
      = filter (\<lambda>w. wo_billId w = rb_id b \<and> wo_deletedAt w = None) (fd_writeOffs db)"
      by (auto intro!: filter_cong)
    then show "sum_by wo_writeOffAmount (filter (\<lambda>a. wo_billId a = rb_id b) (order_allocations db oid))
        = written_off (fd_writeOffs db) (rb_id b)"
      by (simp only: order_allocations_def sort_filter_sum written_off_def) }
  { assume p: "p \<in> set (fd_payments db)" "pr_orderId p = oid"
    have "wo_orderId w = oid" if w: "w \<in> set (fd_writeOffs db)" "wo_deletedAt w = None" "wo_paymentId w = pr_id p" for w
      using live_writeOff [OF ok w(1,2)] w(3) p dist(2) by (metis distinct_map inj_onD)
    then have "filter (\<lambda>a. wo_paymentId a = pr_id p)
        (filter (\<lambda>w. wo_deletedAt w = None \<and> wo_orderId w = oid) (fd_writeOffs db))
      = filter (\<lambda>w. wo_paymentId w = pr_id p \<and> wo_deletedAt w = None) (fd_writeOffs db)"
      by (auto intro!: filter_cong)
    then show "sum_by wo_writeOffAmount (filter (\<lambda>a. wo_paymentId a = pr_id p) (order_allocations db oid))
        = allocated (fd_writeOffs db) (pr_id p)"
      by (simp only: order_allocations_def sort_filter_sum allocated_def) }
qed

lemma order_deduction:
  assumes ok: "books_ok db" and o': "o' \<in> set (fd_orders db)"
    and d: "d \<in> set (order_deposits db (fo_id o'))" "dl_transactionType d = DEDUCT"
  shows "\<exists>x. deduction_bill (fo_id o') (fo_customerId o') (order_bills db (fo_id o')) d = Some x
    \<and> dl_billId d = Some (rb_id x)"
proof -
  have l: "d \<in> set (fd_ledgers db)" "live_ledger d" "dl_orderId d = fo_id o'" "dl_customerId d = fo_customerId o'"
    using d(1) unfolding order_deposits_eq [OF ok o'] by (auto simp: confirmed_ledger_def live_ledger_def)
  then have "ledger_ok (fd_bills db) d" using ok by (simp add: books_ok_def)
  then obtain b where b: "b \<in> set (fd_bills db)" "dl_billId d = Some (rb_id b)" "rb_deletedAt b = None"
    "rb_billStatus b \<noteq> BillStatus.CANCELLED" "rb_billType b = DAMAGE_FEE"
    "rb_orderId b = fo_id o'" "rb_customerId b = fo_customerId o'" "dl_paymentId d = None"
    using d(2) l(3,4) by (auto simp: ledger_ok_def)
  have "distinct (map rb_id (order_bills db (fo_id o')))"
    using ok by (simp add: order_bills_def distinct_map_filter books_keys)
  then have "find_row rb_id (rb_id b) (order_bills db (fo_id o')) = Some b"
    using b by (intro find_row_unique) (simp_all add: order_bills_def)
  then show ?thesis using b by (intro exI [of _ b]) (simp add: deduction_bill_def)
qed

lemma order_deduction_sum:
  assumes ok: "books_ok db" and o': "o' \<in> set (fd_orders db)" and b: "b \<in> set (fd_bills db)" "rb_orderId b = fo_id o'"
  shows "sum_by dl_amount (filter (\<lambda>d. dl_billId d = Some (rb_id b) \<and> dl_transactionType d = DEDUCT)
      (order_deposits db (fo_id o'))) = deducted (fd_ledgers db) (rb_id b)"
proof -
  have "confirmed_ledger (fo_customerId o') (fo_id o') l"
    if l: "l \<in> set (fd_ledgers db)" "dl_billId l = Some (rb_id b)" "dl_transactionType l = DEDUCT" "live_ledger l" for l
  proof -
    have "ledger_ok (fd_bills db) l" using ok l by (simp add: books_ok_def)
    then obtain x where x: "x \<in> set (fd_bills db)" "rb_id x = rb_id b" "rb_orderId x = dl_orderId l"
      "rb_customerId x = dl_customerId l"
      using l by (auto simp: ledger_ok_def)
    then have "x = b" using b books_keys [OF ok] by (metis distinct_map inj_onD)
    then show ?thesis
      using x b l(4) books_customer(1) [OF ok o' b] by (simp add: confirmed_ledger_def live_ledger_def)
  qed
  then have "filter (\<lambda>d. dl_billId d = Some (rb_id b) \<and> dl_transactionType d = DEDUCT)
      (filter (confirmed_ledger (fo_customerId o') (fo_id o')) (fd_ledgers db))
    = filter (\<lambda>l. dl_billId l = Some (rb_id b) \<and> dl_transactionType l = DEDUCT \<and> live_ledger l) (fd_ledgers db)"
    by (auto simp: confirmed_ledger_def live_ledger_def intro!: filter_cong)
  then show ?thesis by (simp add: order_deposits_eq [OF ok o'] deducted_def)
qed

text \<open>Balanced books pass the coherence check of every order.\<close>

lemma books_coherent:
  assumes ok: "books_ok db" and o': "o' \<in> set (fd_orders db)"
  shows "assertFinancialCoherence (fo_id o') (fo_customerId o') (order_bills db (fo_id o'))
      (order_payments db (fo_id o')) (order_allocations db (fo_id o')) (order_deposits db (fo_id o'))
    = Inr (sum_by rb_paidAmount (order_bills db (fo_id o')))"
proof -
  let ?o = "fo_id o'" and ?c = "fo_customerId o'"
  let ?bills = "order_bills db ?o" and ?pays = "order_payments db ?o"
  let ?al = "order_allocations db ?o" and ?ds = "order_deposits db ?o"
  have bill: "b \<in> set (fd_bills db) \<and> rb_orderId b = ?o" if "b \<in> set ?bills" for b
    using that by (simp add: order_bills_def)
  have pay: "p \<in> set (fd_payments db) \<and> pr_orderId p = ?o" if "p \<in> set ?pays" for p
    using that by (simp add: order_payments_def)
  have bills: "\<not> bill_incoherent ?c b" if "b \<in> set ?bills" for b
  proof -
    have "bill_ok b" "rb_customerId b = ?c"
      using books_bill(1) [OF ok] books_customer(1) [OF ok o'] bill [OF that] by simp_all
    then show ?thesis by (auto simp: bill_incoherent_def bill_ok_def)
  qed
  have pays: "\<not> payment_incoherent ?c p" if "p \<in> set ?pays" for p
    using ok books_customer(2) [OF ok o'] pay [OF that]
    by (auto simp: payment_incoherent_def books_ok_def)
  have deps: "\<not> deposit_incoherent ?o ?c d" if "d \<in> set ?ds" for d
    using ok that unfolding order_deposits_eq [OF ok o']
    by (auto simp: deposit_incoherent_def confirmed_ledger_def books_ok_def ledger_ok_def live_ledger_def)
  have al: "wo_customerId a = ?c \<and> 0 < wo_writeOffAmount a
    \<and> find_row rb_id (wo_billId a) ?bills \<noteq> None \<and> find_row pr_id (wo_paymentId a) ?pays \<noteq> None"
    if a: "a \<in> set ?al" for a
  proof -
    have w: "a \<in> set (fd_writeOffs db)" "wo_deletedAt a = None" "wo_orderId a = ?o"
      using a by (simp_all add: order_allocations_def)
    obtain b p where f: "b \<in> set ?bills" "rb_id b = wo_billId a" "rb_customerId b = wo_customerId a"
      "p \<in> set ?pays" "pr_id p = wo_paymentId a" "0 < wo_writeOffAmount a"
      by (rule live_writeOff [OF ok w(1,2)]) (simp add: order_bills_def order_payments_def w(3))
    have "wo_customerId a = ?c" using bills [OF f(1)] f(3) by (simp add: bill_incoherent_def)
    moreover have "wo_billId a \<in> rb_id ` set ?bills" "wo_paymentId a \<in> pr_id ` set ?pays"
      using f by (metis image_eqI)+
    ultimately show ?thesis using f(6) by (simp add: find_row_None)
  qed
  have walk1: "allocations_walk ?c ?bills ?pays ?al (\<lambda>_. 0, \<lambda>_. 0) =
    Inr (\<lambda>i. 0 + sum_by wo_writeOffAmount (filter (\<lambda>a. wo_billId a = i) ?al),
         \<lambda>i. 0 + sum_by wo_writeOffAmount (filter (\<lambda>a. wo_paymentId a = i) ?al))"
    by (rule allocations_walk_sums) (use al in blast)
  have "running 0 ?ds" using ok unfolding order_deposits_eq [OF ok o'] by (simp add: books_ok_def deposits_ok_def)
  then have walk2: "deposits_walk ?o ?c ?bills ?ds 0 (\<lambda>_. 0) =
    Inr (\<lambda>i. 0 + sum_by dl_amount (filter (\<lambda>d. dl_billId d = Some i \<and> dl_transactionType d = DEDUCT) ?ds))"
    by (rule deposits_walk_sums) (use order_deduction [OF ok o'] in blast)
  have paid: "sum_by wo_writeOffAmount (filter (\<lambda>a. wo_billId a = rb_id b) ?al)
      + sum_by dl_amount (filter (\<lambda>d. dl_billId d = Some (rb_id b) \<and> dl_transactionType d = DEDUCT) ?ds)
      = rb_paidAmount b" if "b \<in> set ?bills" for b
    using bill [OF that] books_bill(2) [OF ok] order_allocation_sums(1) [OF ok]
      order_deduction_sum [OF ok o'] by simp
  have alloc: "sum_by wo_writeOffAmount (filter (\<lambda>a. wo_paymentId a = pr_id p) ?al) \<le> pr_paymentAmount p"
    if "p \<in> set ?pays" for p
    using pay [OF that] order_allocation_sums(2) [OF ok] ok by (simp add: books_ok_def)
  have c1: "\<not> list_ex (bill_incoherent ?c) ?bills" "\<not> list_ex (payment_incoherent ?c) ?pays"
    "\<not> list_ex (deposit_incoherent ?o ?c) ?ds"
    using bills pays deps by (auto simp: list_ex_iff)
  have c2: "\<not> list_ex (\<lambda>b. sum_by wo_writeOffAmount (filter (\<lambda>a. wo_billId a = rb_id b) ?al)
      + sum_by dl_amount (filter (\<lambda>d. dl_billId d = Some (rb_id b) \<and> dl_transactionType d = DEDUCT) ?ds)
      \<noteq> rb_paidAmount b) ?bills"
    using paid by (auto simp: list_ex_iff)
  have c3: "\<not> list_ex (\<lambda>p. sum_by wo_writeOffAmount (filter (\<lambda>a. wo_paymentId a = pr_id p) ?al)
      > pr_paymentAmount p) ?pays"
    using alloc by (fastforce simp: list_ex_iff)
  show ?thesis
    unfolding assertFinancialCoherence_def walk1 walk2 using c1 c2 c3 by simp
qed

end
