(* ===== verification/FinanceFacts.thy ===== *)
theory FinanceFacts
  imports Settlement
begin

text \<open>
  What the finance operations and the settlement resolver guarantee together:
  the properties of \<open>Finance\<close>, \<open>FinanceLaws\<close> and \<open>Settlement\<close> with their witnesses.
\<close>

section \<open>An order with a deposit, a rent and a damage bill\<close>

definition ex_bill :: "id \<Rightarrow> BillType \<Rightarrow> amount \<Rightarrow> receivable_bill" where
  "ex_bill i t a = \<lparr> rb_id = i, rb_orderId = ''o'', rb_customerId = ''c'', rb_billType = t,
     rb_billStatus = BillStatus.PENDING, rb_amount = a, rb_paidAmount = 0, rb_remainingAmount = a,
     rb_dueDate = 0, rb_paidAt = None, rb_updatedBy = None, rb_deletedAt = None \<rparr>"

definition ex_order :: finance_order where
  "ex_order = \<lparr> fo_id = ''o'', fo_customerId = ''c'', fo_salesUserId = ''s'',
     fo_orderStatus = OrderStatus.COMPLETED, fo_actualReturnAt = None, fo_deletedAt = None \<rparr>"

definition ex_item :: "id \<Rightarrow> amount \<Rightarrow> payment_order_item" where
  "ex_item b a = \<lparr> pi_billId = b, pi_amount = a, pi_createdAt = 0, pi_deletedAt = None \<rparr>"

definition ex_payment_order :: payment_order where
  "ex_payment_order = \<lparr> po_id = ''po'', po_customerId = Some ''c'', po_orderId = Some ''o'',
     po_provider = PaymentProviderType.MOCK, po_paymentChannel = PaymentChannel.MOCK,
     po_paymentStatus = PaymentOrderStatus.CREATED, po_amount = 800, po_paidAmount = 0, po_paidAt = None,
     po_paymentRecordId = None, po_providerTradeNo = None, po_providerTransactionId = None,
     po_callbackSnapshot = None, po_errorSnapshot = None,
     po_items = [ex_item ''d'' 500, ex_item ''r'' 300], po_updatedBy = None, po_deletedAt = None \<rparr>"

definition ex_case :: collection_case where
  "ex_case = \<lparr> cs_id = ''cc'', cs_orderId = ''o'', cs_customerId = ''c'',
     cs_caseStatus = CollectionCaseStatus.ACTIVE, cs_totalOverdueAmount = 300, cs_closedAt = None,
     cs_closeReason = None, cs_nextFollowUpAt = Some 9,
     cs_bills = [\<lparr> cb_billId = ''r'', cb_overdueAmount = 300, cb_deletedAt = None \<rparr>],
     cs_updatedBy = None, cs_deletedAt = None \<rparr>"

definition ex_db :: finance_db where
  "ex_db = \<lparr> fd_orders = [ex_order],
     fd_bills = [ex_bill ''d'' DEPOSIT 500, ex_bill ''r'' FIRST_MONTHLY_FEE 300, ex_bill ''x'' DAMAGE_FEE 200],
     fd_payments = [], fd_writeOffs = [], fd_ledgers = [], fd_paymentOrders = [ex_payment_order],
     fd_callbackLogs = [], fd_debitAttempts = [], fd_cases = [ex_case], fd_actions = [], fd_disputes = [],
     fd_legalCases = [], fd_dispositions = [], fd_jobs = [] \<rparr>"

definition ex_input :: settle_input where
  "ex_input = \<lparr> si_callbackLogId = None, si_callbackPayload = None, si_debitAttempt = None,
     si_eventType = None, si_operatorId = None, si_paidAmount = 800, si_paidAt = 100,
     si_paymentOrderId = ''po'', si_providerTradeNo = None, si_providerTransactionId = None \<rparr>"

definition ex_user :: request_user where
  "ex_user = \<lparr> ru_id = ''u'', ru_roles = [''FI''] \<rparr>"

definition ex_ops :: "finance_op list" where
  "ex_ops = [Settle ''p'' ''l'' 100 ex_input, DeductDeposit ''o'' 200 (Some ''x'') 200 ex_user,
     RefundDeposit ''o'' 400 250 ex_user, RefundDeposit ''o'' 300 300 ex_user]"

lemma ex_books: "books_ok ex_db"
  by (auto simp: books_ok_def keys_ok_def scopes_ok_def ex_db_def ex_order_def ex_bill_def scoped_def
      ex_payment_order_def bill_ok_def written_off_def deducted_def deposits_ok_def)

section \<open>The books under every run\<close>

lemma finance_run_books: "books_ok db \<Longrightarrow> books_ok (finance_run ops db)"
  unfolding finance_run_is by (rule books.run_inv)





lemma bills_split: "books_ok db \<Longrightarrow>
   sum_by rb_amount (order_bills db i) = sum_by rb_paidAmount (order_bills db i) + sum_by rb_remainingAmount (order_bills db i)
   \<and> 0 \<le> sum_by rb_amount (order_bills db i) \<and> 0 \<le> sum_by rb_paidAmount (order_bills db i)
   \<and> 0 \<le> sum_by rb_remainingAmount (order_bills db i)"
proof -
  assume ok: "books_ok db"
  have b: "bill_ok b" if "b \<in> set (order_bills db i)" for b
    using books_bill(1) [OF ok] that by (simp add: order_bills_def)
  have "sum_by rb_amount (order_bills db i)
      = sum_by (\<lambda>b. rb_paidAmount b + rb_remainingAmount b) (order_bills db i)"
    using b by (intro sum_by_cong) (simp add: bill_ok_def)
  moreover have "0 \<le> sum_by rb_paidAmount (order_bills db i)" "0 \<le> sum_by rb_remainingAmount (order_bills db i)"
    using b by (auto intro!: sum_by_nonneg simp: bill_ok_def)
  ultimately show ?thesis by (simp add: sum_by_add)
qed

lemma deposits_nonneg: "books_ok db \<Longrightarrow> 0 \<le> sum_by dl_amount (filter P (order_deposits db i))"
  by (intro sum_by_nonneg)
    (auto simp: order_deposits_def books_ok_def ledger_ok_def live_ledger_def less_imp_le)






section \<open>Settling a payment order\<close>

lemma late_entries: "late db t \<longleftrightarrow> entries_before db t"
  by (simp add: entries_before_late)

text \<open>What the loop needs of the bills of a payment order: they are the customer's.\<close>

definition items_in_scope :: "payment_record \<Rightarrow> payment_order_item list \<Rightarrow> receivable_bill list \<Rightarrow> bool" where
  "items_in_scope p items bills = (\<forall>b \<in> set bills. rb_id b \<in> set (map pi_billId items) \<longrightarrow>
     rb_customerId b = pr_customerId p \<and> rb_orderId b = pr_orderId p)"

lemma apply_bills: "fd_bills (snd (apply_write_off p u t b a db))
    = upd_row rb_id (rb_id b) (\<lambda>_. paid_bill u t a b) (fd_bills db)"
  by (simp add: apply_write_off_def Let_def collect_frame)

lemma allocate_item_total:
  assumes inv: "alloc_inv p t db al" and sc: "items_in_scope p items (fd_bills (al_db al))"
    and i: "item \<in> set items" "0 \<le> pi_amount item"
  shows "\<exists>al'. allocate_item bl p u t item al = Inr al' \<and> items_in_scope p items (fd_bills (al_db al'))"
proof (cases "live_bill (al_db al) (pi_billId item)")
  case None
  then show ?thesis using sc by (simp add: allocate_item_def)
next
  case (Some b)
  note b = live_bill_Some [OF Some]
  have scope: "rb_customerId b = pr_customerId p" "rb_orderId b = pr_orderId p"
    using sc b i(1) by (auto simp: items_in_scope_def)
  have ok: "books_ok (al_db al)" "0 \<le> al_available al" using inv by (simp_all add: alloc_inv_def)
  have "0 \<le> rb_remainingAmount b" using books_bill(1) [OF ok(1)] b by (simp add: bill_ok_def)
  then obtain a where a: "calculateWriteOffAmount (pi_amount item) (rb_remainingAmount b) (al_available al) = Inr a"
    using i(2) ok(2) by (simp add: calculateWriteOffAmount_min)
  have "items_in_scope p items (fd_bills (snd (apply_write_off p u t b a (al_db al))))"
    using sc scope by (auto simp: items_in_scope_def apply_bills dest!: set_upd_row)
  then show ?thesis using Some scope a sc by (simp add: allocate_item_def Let_def)
qed

lemma allocate_total:
  assumes "alloc_inv p t db al" and "items_in_scope p items (fd_bills (al_db al))"
    and "set its \<subseteq> set items" and "\<forall>i \<in> set items. 0 \<le> pi_amount i"
  shows "\<exists>al'. allocate bl p u t its al = Inr al'"
  using assms
proof (induction its arbitrary: al)
  case (Cons i its)
  obtain al1 where a: "allocate_item bl p u t i al = Inr al1" "items_in_scope p items (fd_bills (al_db al1))"
    using allocate_item_total [OF Cons.prems(1,2), of i bl u] Cons.prems(3,4) by auto
  then show ?case
    using Cons.IH [OF allocate_item_inv [OF Cons.prems(1) a(1)] a(2)] Cons.prems(3,4) by auto
qed simp

lemma allocate_orders:
  "allocate bl p u t its al = Inr al' \<Longrightarrow> fd_paymentOrders (al_db al') = fd_paymentOrders (al_db al)"
proof (induction its arbitrary: al)
  case (Cons i its)
  then obtain al1 where a: "allocate_item bl p u t i al = Inr al1" "allocate bl p u t its al1 = Inr al'" by auto
  have "fd_paymentOrders (al_db al1) = fd_paymentOrders (al_db al)"
    using a(1) apply_frame(1) by (auto simp: allocate_item_def Let_def same_frame_def split: option.splits if_splits)
  then show ?case using Cons.IH [OF a(2)] by simp
qed simp

lemma record_callback_total:
  "si_callbackLogId input = None \<Longrightarrow>
   \<exists>db'. record_callback n input i db = Inr db' \<and> fd_paymentOrders db' = fd_paymentOrders db"
  by (auto simp: record_callback_def)


lemma ex_order_settles:
  "find_row po_id (si_paymentOrderId ex_input) (fd_paymentOrders ex_db) = Some ex_payment_order"
  by code_simp





section \<open>Writing off a payment\<close>

lemma find_map: "List.find P (map f xs) = map_option f (List.find (P \<circ> f) xs)"
  by (induction xs) auto

lemma live_bill_apply:
  assumes "live_bill db i = Some b"
  shows "live_bill (snd (apply_write_off p u t b a db)) j
    = (if j = i then Some (paid_bill u t a b) else live_bill db j)"
proof -
  note b = live_bill_Some [OF assms]
  let ?f = "\<lambda>r. if rb_id r = rb_id b then paid_bill u t a b else r"
  have eq: "live_bill (snd (apply_write_off p u t b a db)) j
      = map_option ?f (List.find ((\<lambda>x. rb_id x = j \<and> rb_deletedAt x = None) \<circ> ?f) (fd_bills db))"
    by (simp add: live_bill_def apply_bills upd_row_def find_map)
  show ?thesis
  proof (cases "j = i")
    case True
    have "((\<lambda>x. rb_id x = j \<and> rb_deletedAt x = None) \<circ> ?f) x \<longleftrightarrow> rb_id x = i" for x
      using True b by auto
    then have "List.find ((\<lambda>x. rb_id x = j \<and> rb_deletedAt x = None) \<circ> ?f) (fd_bills db)
        = List.find (\<lambda>x. rb_id x = i) (fd_bills db)" by (intro find_cong) auto
    moreover obtain x where "List.find (\<lambda>x. rb_id x = i) (fd_bills db) = Some x" "rb_id x = i"
      using b find_row_None [of rb_id i "fd_bills db"] find_row_Some [of rb_id i "fd_bills db"]
      unfolding find_row_def by (metis image_eqI option.exhaust)
    ultimately show ?thesis using eq True b by simp
  next
    case False
    have "((\<lambda>x. rb_id x = j \<and> rb_deletedAt x = None) \<circ> ?f) x \<longleftrightarrow> rb_id x = j \<and> rb_deletedAt x = None" for x
      using False b by auto
    then have "List.find ((\<lambda>x. rb_id x = j \<and> rb_deletedAt x = None) \<circ> ?f) (fd_bills db) = live_bill db j"
      unfolding live_bill_def by (intro find_cong) auto
    then show ?thesis
      using eq False b live_bill_Some [of db j] by (cases "live_bill db j") auto
  qed
qed

definition payable :: "payment_record \<Rightarrow> finance_db \<Rightarrow> id \<times> amount \<Rightarrow> bool" where
  "payable p db x = (case live_bill db (fst x) of None \<Rightarrow> False | Some b \<Rightarrow>
     rb_orderId b = pr_orderId p \<and> rb_customerId b = pr_customerId p
     \<and> rb_billStatus b \<noteq> BillStatus.CANCELLED \<and> snd x \<le> rb_remainingAmount b)"

lemma write_off_bills_exact:
  assumes "distinct (map fst items)"
  shows "(is_ok (write_off_bills p u t items us db) \<longleftrightarrow> list_all (payable p db) items)
    \<and> (\<forall>us' db'. write_off_bills p u t items us db = Inr (us', db') \<longrightarrow>
        live_bill db' = (\<lambda>j. case map_of items j of None \<Rightarrow> live_bill db j
          | Some a \<Rightarrow> map_option (paid_bill (Some u) t a) (live_bill db j)))"
  using assms
proof (induction items arbitrary: us db)
  case (Cons x items)
  obtain i a where x: "x = (i, a)" by (cases x)
  show ?case
  proof (cases "payable p db x")
    case False
    then show ?thesis by (auto simp: x payable_def split: option.splits)
  next
    case True
    then obtain b where b: "live_bill db i = Some b" "rb_orderId b = pr_orderId p"
      "rb_customerId b = pr_customerId p" "rb_billStatus b \<noteq> BillStatus.CANCELLED" "a \<le> rb_remainingAmount b"
      by (auto simp: x payable_def split: option.splits)
    let ?r = "apply_write_off p (Some u) t b a db"
    have step: "write_off_bills p u t (x # items) us db = write_off_bills p u t items (us @ [fst ?r]) (snd ?r)"
      using b by (simp add: x Let_def)
    have ni: "i \<notin> fst ` set items" using Cons.prems x by auto
    have pay: "list_all (payable p (snd ?r)) items = list_all (payable p db) items"
      using ni by (intro list_all_cong) (auto simp: payable_def live_bill_apply [OF b(1)] image_iff)
    have mo: "map_of items i = None" using ni by (simp add: map_of_eq_None_iff)
    show ?thesis
      using Cons.IH [of "us @ [fst ?r]" "snd ?r"] Cons.prems True pay mo b(1)
      unfolding step by (auto simp: x live_bill_apply [OF b(1)] fun_eq_iff split: option.splits)
  qed
qed simp

definition valid_items :: "write_off_items \<Rightarrow> bool" where
  "valid_items items = (items \<noteq> [] \<and> distinct (map fst items)
     \<and> list_all (\<lambda>x. 0 < snd x \<and> snd x \<le> max_safe_integer) items)"

lemma validate_items_iff: "is_ok (validate_items seen items) \<longleftrightarrow>
   distinct (map fst items) \<and> set (map fst items) \<inter> set seen = {}
   \<and> list_all (\<lambda>x. 0 < snd x \<and> snd x \<le> max_safe_integer) items"
  by (induction seen items rule: validate_items.induct)
    (auto simp: is_ok_iff assertPositiveInteger_def)

lemma after_settlement_bill: "live_bill (after_settlement s bs n t u db) = live_bill db"
  by (simp add: live_bill_def after_settlement_fields fun_eq_iff)

text \<open>
  C15 A manual write-off is exact.  It is accepted if and only if the items are
  well formed (at least one, each bill once, positive safe amounts), the payment
  is confirmed and has the requested amount left, and every bill is a live,
  uncancelled bill of the payment's order and customer with at least that much
  remaining; and then every named bill is paid by exactly its amount and no other
  bill changes.
\<close>

theorem write_off_exact:
  assumes "find_row pr_id pid (fd_payments db) = Some p" and "pr_deletedAt p = None"
    and "find_row fo_id (pr_orderId p) (fd_orders db) = Some order"
    and "canViewAllFinanceOrders user \<or> fo_salesUserId order = ru_id user"
  shows "(is_ok (writeOffPayment pid items now user db) \<longleftrightarrow>
      valid_items items \<and> pr_paymentStatus p = PaymentStatus.CONFIRMED
      \<and> sum_by snd items \<le> pr_paymentAmount p - sumWriteOffAmount (payment_writeOffs db pid)
      \<and> list_all (payable p db) items)
    \<and> (\<forall>us db'. writeOffPayment pid items now user db = Inr (us, db') \<longrightarrow>
        (\<forall>i. live_bill db' i = (case map_of items i of None \<Rightarrow> live_bill db i
           | Some a \<Rightarrow> map_option (paid_bill (Some (ru_id user)) now a) (live_bill db i))))"
proof -
  have v: "is_ok (validateWriteOffDto items) \<longleftrightarrow> valid_items items"
    using validate_items_iff [of "[]" items] by (cases items) (auto simp: validateWriteOffDto_def valid_items_def)
  have live: "list_all (payable p db) items \<Longrightarrow> list_all (\<lambda>b. live_bill db b \<noteq> None) (map fst items)"
    by (auto simp: list_all_iff payable_def split: option.splits)
  show ?thesis
  proof (cases "is_ok (validateWriteOffDto items)")
    case False
    then obtain e where "validateWriteOffDto items = Inl e" by (cases "validateWriteOffDto items") auto
    then show ?thesis using False v by (simp add: writeOffPayment_def)
  next
    case True
    then have dist: "distinct (map fst items)" and vi: "validateWriteOffDto items = Inr ()"
      using v by (auto simp: valid_items_def is_ok_iff)
    note exact = write_off_bills_exact [OF dist, of p "ru_id user" now "[]" db]
    let ?ok = "pr_paymentStatus p = PaymentStatus.CONFIRMED
      \<and> sum_by snd items \<le> pr_paymentAmount p - sumWriteOffAmount (payment_writeOffs db pid)
      \<and> list_all (\<lambda>b. live_bill db b \<noteq> None) (map fst items)"
    have eq: "writeOffPayment pid items now user db = (if ?ok then
        rbind (write_off_bills p (ru_id user) now items [] db) (\<lambda>(us, db1).
          Inr (us, after_settlement (map rb_id (filter (\<lambda>b. rb_remainingAmount b = 0) us))
            (map fst items) now now (Some (ru_id user)) db1))
        else Inl (if pr_paymentStatus p \<noteq> PaymentStatus.CONFIRMED then BadRequest ''PAYMENT_NOT_CONFIRMED_MESSAGE''
          else if \<not> sum_by snd items \<le> pr_paymentAmount p - sumWriteOffAmount (payment_writeOffs db pid)
          then BadRequest ''PAYMENT_WRITE_OFF_OVER_AMOUNT_MESSAGE'' else NotFound ''BILL_NOT_FOUND_MESSAGE''))"
      using assms vi by (simp add: writeOffPayment_def ensureCanAccessOrderFinance_def ensure_def Let_def)
    show ?thesis
    proof (cases ?ok)
      case False
      then show ?thesis using eq live by auto
    next
      case ok: True
      show ?thesis
      proof (cases "write_off_bills p (ru_id user) now items [] db")
        case (Inl e)
        then show ?thesis using eq ok exact by auto
      next
        case (Inr r)
        obtain us db1 where r: "r = (us, db1)" by (cases r)
        have e: "writeOffPayment pid items now user db = Inr (us, after_settlement
            (map rb_id (filter (\<lambda>b. rb_remainingAmount b = 0) us)) (map fst items) now now (Some (ru_id user)) db1)"
          using eq ok Inr r by simp
        have "list_all (payable p db) items" using exact Inr by simp
        moreover have "live_bill db1 = (\<lambda>j. case map_of items j of None \<Rightarrow> live_bill db j
          | Some a \<Rightarrow> map_option (paid_bill (Some (ru_id user)) now a) (live_bill db j))"
          using exact Inr r by blast
        ultimately show ?thesis
          using e ok v True by (simp add: after_settlement_bill)
      qed
    qed
  qed
qed

definition ex_paid_db :: finance_db where
  "ex_paid_db = ex_db\<lparr>fd_payments := [\<lparr> pr_id = ''p'', pr_orderId = ''o'', pr_customerId = ''c'',
     pr_paymentAmount = 250, pr_paymentMethod = PaymentMethod.CASH, pr_paymentStatus = PaymentStatus.CONFIRMED,
     pr_payerAccount = None, pr_receivedAt = 50, pr_deletedAt = None \<rparr>]\<rparr>"

theorem write_off_exact_witness:
  "is_ok (writeOffPayment ''p'' [(''r'', 250)] 60 ex_user ex_paid_db)
   \<and> \<not> is_ok (writeOffPayment ''p'' [(''r'', 251)] 60 ex_user ex_paid_db)"
proof -
  obtain p where p: "find_row pr_id ''p'' (fd_payments ex_paid_db) = Some p" "pr_deletedAt p = None"
    "pr_orderId p = ''o''" "pr_paymentAmount p = 250" "pr_paymentStatus p = PaymentStatus.CONFIRMED"
    "pr_customerId p = ''c''"
    by (simp add: ex_paid_db_def find_row_def)
  have o': "find_row fo_id (pr_orderId p) (fd_orders ex_paid_db) = Some ex_order"
    unfolding p(3) by code_simp
  have u: "canViewAllFinanceOrders ex_user \<or> fo_salesUserId ex_order = ru_id ex_user" by code_simp
  have "payable p ex_paid_db (''r'', 250)"
    using p by (simp add: payable_def live_bill_def ex_paid_db_def ex_db_def ex_bill_def)
  moreover have "sumWriteOffAmount (payment_writeOffs ex_paid_db ''p'') = 0" by code_simp
  moreover have "valid_items [(''r'', 250)]" by code_simp
  ultimately show ?thesis
    using write_off_exact [OF p(1,2) o' u, of "[(''r'', 250)]" 60] p
      write_off_exact [OF p(1,2) o' u, of "[(''r'', 251)]" 60] by simp
qed


section \<open>Collection cases\<close>

lemma reconcile_bills: "live_bill (reconcileCollectionCasesAfterSettlement billIds t u db) = live_bill db"
  by (simp add: reconcileCollectionCasesAfterSettlement_def live_bill_def fun_eq_iff Let_def)

lemma refresh_keeps: "cb_billId (refresh_link db l) = cb_billId l" "cb_deletedAt (refresh_link db l) = cb_deletedAt l"
  by (simp_all add: refresh_link_def split: option.splits)

lemma active_reconciled:
  "active_case_bills db (reconciled_case db t u c) = map (\<lambda>(l, b). (refresh_link db l, b)) (active_case_bills db c)"
proof -
  have "active_case_bills db (c\<lparr>cs_bills := map (refresh_link db) ls\<rparr>)
      = map (\<lambda>(l, b). (refresh_link db l, b)) (active_case_bills db (c\<lparr>cs_bills := ls\<rparr>))" for ls
    by (induction ls) (auto simp: active_case_bills_def refresh_keeps split: option.splits)
  from this [of "cs_bills c"] show ?thesis
    by (simp add: reconciled_case_def active_case_bills_def Let_def)
qed

lemma active_refreshed:
  "(l, b) \<in> set (active_case_bills db c) \<Longrightarrow> cb_overdueAmount (refresh_link db l) = rb_remainingAmount b"
  by (auto simp: active_case_bills_def refresh_link_def split: option.splits if_splits)

definition pending_assessment :: "id \<Rightarrow> automation_job \<Rightarrow> bool" where
  "pending_assessment orderId j = (jb_jobStatus j = job_status.PENDING
     \<and> jb_jobType j = CLOSURE_RECOVERY_ASSESSMENT_D7 \<and> jb_orderId j = Some orderId)"

lemma cancel_assessment:
  "j \<in> set (cancel_recovery_assessment t i q) \<Longrightarrow> \<not> pending_assessment i j
     \<and> (pending_assessment k j \<longrightarrow> (\<exists>j' \<in> set q. pending_assessment k j'))"
proof -
  let ?P = "\<lambda>j. jb_jobStatus j = job_status.PENDING \<and> jb_jobType j = CLOSURE_RECOVERY_ASSESSMENT_D7
        \<and> jb_orderId j = Some i"
  assume "j \<in> set (cancel_recovery_assessment t i q)"
  then obtain x where x: "x \<in> set q" "j = (if ?P x then x\<lparr>jb_cancelledAt := Some t, jb_completedAt := Some t,
        jb_jobStatus := job_status.CANCELLED, jb_leaseExpiresAt := None, jb_leaseToken := None\<rparr> else x)"
    unfolding cancel_recovery_assessment_def set_update_many by blast
  show ?thesis
  proof (cases "?P x")
    case True
    then have "jb_jobStatus j = job_status.CANCELLED" using x(2) by simp
    then show ?thesis by (simp add: pending_assessment_def)
  next
    case False
    then have "j = x" using x(2) by (simp only: if_False)
    then show ?thesis using False x(1) by (auto simp: pending_assessment_def)
  qed
qed

lemma cancel_assessments:
  "j \<in> set (fold (cancel_recovery_assessment t) is q) \<Longrightarrow>
     (pending_assessment k j \<longrightarrow> (\<exists>j' \<in> set q. pending_assessment k j')) \<and> (k \<in> set is \<longrightarrow> \<not> pending_assessment k j)"
proof (induction "is" arbitrary: q)
  case (Cons i ks)
  then have "pending_assessment k j \<longrightarrow> (\<exists>j' \<in> set (cancel_recovery_assessment t i q). pending_assessment k j')"
    "k \<in> set ks \<longrightarrow> \<not> pending_assessment k j" by auto
  then show ?case using cancel_assessment [of _ t i q] by (auto; blast)
qed auto

text \<open>
  C23 After a settlement the collection cases agree with the bills: a case on a
  touched bill that is still active has a positive total, which is exactly what
  remains on its live bills, and every link shows what remains on its bill (a
  case with nothing left was closed); and an order of a touched bill with no
  overdue receivable left has no pending recovery assessment.
\<close>

theorem settled_cases_match_bills:
  assumes "db' = reconcileCollectionCasesAfterSettlement billIds settledAt actorId db"
  shows "(\<forall>c \<in> set (fd_cases db'). affected_case billIds c \<longrightarrow>
      0 < cs_totalOverdueAmount c
      \<and> cs_totalOverdueAmount c = sum_by (\<lambda>x. rb_remainingAmount (snd x)) (active_case_bills db' c)
      \<and> (\<forall>x \<in> set (active_case_bills db' c). cb_overdueAmount (fst x) = rb_remainingAmount (snd x)))
    \<and> (\<forall>b \<in> set (fd_bills db'). rb_id b \<in> set billIds \<longrightarrow> rb_deletedAt b = None \<longrightarrow>
      \<not> list_ex (outstanding_bill settledAt (rb_orderId b)) (fd_bills db') \<longrightarrow>
      (\<forall>j \<in> set (fd_jobs db'). \<not> pending_assessment (rb_orderId b) j))"
proof (cases "billIds = []")
  case True
  then show ?thesis by (simp add: affected_case_def list_ex_iff)
next
  case False
  let ?f = "\<lambda>c. if affected_case billIds c then reconciled_case db settledAt actorId c else c"
  have cases': "fd_cases db' = map ?f (fd_cases db)" and bills: "fd_bills db' = fd_bills db"
    using False assms by (simp_all add: reconcileCollectionCasesAfterSettlement_def Let_def)
  have act: "active_case_bills db' = active_case_bills db"
    unfolding active_case_bills_def assms reconcile_bills ..
  have case_ok: "0 < cs_totalOverdueAmount c
      \<and> cs_totalOverdueAmount c = sum_by (\<lambda>x. rb_remainingAmount (snd x)) (active_case_bills db c)
      \<and> (\<forall>x \<in> set (active_case_bills db c). cb_overdueAmount (fst x) = rb_remainingAmount (snd x))"
    if c: "c \<in> set (fd_cases db')" "affected_case billIds c" for c
  proof -
    obtain c0 where c0: "c = ?f c0" "c0 \<in> set (fd_cases db)" using c(1) unfolding cases' set_map by blast
    have "affected_case billIds c0" using c(2) c0(1) by (cases "affected_case billIds c0") simp_all
    then have c1: "c = reconciled_case db settledAt actorId c0" using c0 by simp
    have tot: "0 < sum_by (\<lambda>x. rb_remainingAmount (snd x)) (active_case_bills db c0)"
      "cs_totalOverdueAmount c = sum_by (\<lambda>x. rb_remainingAmount (snd x)) (active_case_bills db c0)"
      using c(2) c1 by (auto simp: reconciled_case_def affected_case_def Let_def split: if_splits)
    have links: "active_case_bills db c = map (\<lambda>(l, b). (refresh_link db l, b)) (active_case_bills db c0)"
      unfolding c1 by (rule active_reconciled)
    have "sum_by (\<lambda>x. rb_remainingAmount (snd x)) (active_case_bills db c)
        = sum_by (\<lambda>x. rb_remainingAmount (snd x)) (active_case_bills db c0)"
      unfolding links by (simp add: sum_by_def comp_def case_prod_beta)
    then show ?thesis using tot unfolding links by (auto simp: active_refreshed)
  qed
  have jobs: "\<not> pending_assessment (rb_orderId b) j"
    if b: "b \<in> set (fd_bills db)" "rb_id b \<in> set billIds" "rb_deletedAt b = None"
      "\<not> list_ex (outstanding_bill settledAt (rb_orderId b)) (fd_bills db)" and j: "j \<in> set (fd_jobs db')" for b j
  proof -
    let ?os = "filter (\<lambda>o'. \<not> list_ex (outstanding_bill settledAt o') (fd_bills db))
      (dedupe (map rb_orderId (filter (\<lambda>b. rb_deletedAt b = None \<and> rb_id b \<in> set billIds) (fd_bills db))))"
    have "fd_jobs db' = fold (cancel_recovery_assessment settledAt) ?os (fd_jobs db)"
      using False assms by (simp add: reconcileCollectionCasesAfterSettlement_def Let_def)
    moreover have "rb_orderId b \<in> set ?os" using b by auto
    ultimately show ?thesis using cancel_assessments [of j settledAt ?os "fd_jobs db" "rb_orderId b"] j by simp
  qed
  show ?thesis using case_ok jobs unfolding act bills by blast
qed

theorem settled_cases_match_bills_witness:
  "let db' = reconcileCollectionCasesAfterSettlement [''r''] 70 None
      (update_bill (paid_bill None 60 100 (ex_bill ''r'' FIRST_MONTHLY_FEE 300)) ex_db)
   in \<exists>c \<in> set (fd_cases db'). cs_totalOverdueAmount c = 200
     \<and> (\<forall>x \<in> set (active_case_bills db' c). cb_overdueAmount (fst x) = rb_remainingAmount (snd x))"
proof -
  let ?db = "reconcileCollectionCasesAfterSettlement [''r''] 70 None
      (update_bill (paid_bill None 60 100 (ex_bill ''r'' FIRST_MONTHLY_FEE 300)) ex_db)"
  have "list_ex (\<lambda>c. affected_case [''r''] c \<and> cs_totalOverdueAmount c = 200) (fd_cases ?db)" by code_simp
  then obtain c where c: "c \<in> set (fd_cases ?db)" "affected_case [''r''] c" "cs_totalOverdueAmount c = 200"
    by (auto simp: list_ex_iff)
  then have "\<forall>x \<in> set (active_case_bills ?db c). cb_overdueAmount (fst x) = rb_remainingAmount (snd x)"
    using settled_cases_match_bills [OF refl, of "[''r'']" 70 None] by blast
  then show ?thesis using c by (auto simp: Let_def)
qed

section \<open>Refunds of the deposit\<close>

text \<open>
  C16 A deposit can be refunded up to its balance and not beyond: for an order of
  the user whose vehicle is back or whose subscription ended, a refund of a
  positive safe amount is accepted exactly when it is at most the available
  balance, and it lowers the balance by exactly that amount; other accounts keep
  theirs.
\<close>

theorem refund_up_to_balance:
  assumes "findOrderOrThrow db orderId = Inr order" and "ensureCanAccessOrderFinance order user = Inr ()"
    and "ensureOrderCanRefundDeposit order = Inr ()" and "0 < a" and "a \<le> max_safe_integer"
    and "books_ok db"
  shows "(is_ok (refundDeposit orderId a now user db) \<longleftrightarrow>
      a \<le> calculateDepositBalance db (fo_customerId order) orderId)
    \<and> (\<forall>ledger db'. refundDeposit orderId a now user db = Inr (ledger, db') \<longrightarrow>
      dl_balanceAfter ledger = calculateDepositBalance db' (fo_customerId order) orderId
      \<and> (\<forall>c i. calculateDepositBalance db' c i = calculateDepositBalance db c i
          - (if c = fo_customerId order \<and> i = orderId then a else 0)))"
proof -
  have id: "fo_id order = orderId" using order_mem [OF assms(1)] by simp
  let ?bal = "calculateDepositBalance db (fo_customerId order) orderId"
  have eq: "refundDeposit orderId a now user db = (if a \<le> ?bal
      then Inr (deposit_entry order None REFUND a (?bal - a) now,
        db\<lparr>fd_ledgers := fd_ledgers db @ [deposit_entry order None REFUND a (?bal - a) now]\<rparr>)
      else Inl (BadRequest ''DEPOSIT_REFUND_OVER_BALANCE_MESSAGE''))"
    using assms(1-5) id
    by (simp add: refundDeposit_def assertPositiveInteger_def Let_def calculateDepositBalance_def ensure_def)
  have bal: "calculateDepositBalance (db\<lparr>fd_ledgers := fd_ledgers db @ [deposit_entry order None REFUND a x now]\<rparr>) c i
      = calculateDepositBalance db c i - (if c = fo_customerId order \<and> i = orderId then a else 0)" for x c i
    using id by (auto simp: available_balance deposit_entry_def confirmed_ledger_def signedDepositLedgerAmount_def)
  show ?thesis unfolding eq using bal by (auto simp: deposit_entry_def)
qed

definition ex_deposit_db :: finance_db where
  "ex_deposit_db = finance_run [Settle ''p'' ''l'' 100 ex_input] ex_db"

theorem refund_up_to_balance_witness:
  "is_ok (refundDeposit ''o'' 500 200 ex_user ex_deposit_db)
   \<and> \<not> is_ok (refundDeposit ''o'' 501 200 ex_user ex_deposit_db)"
proof -
  have b: "books_ok ex_deposit_db" unfolding ex_deposit_db_def by (rule finance_run_books [OF ex_books])
  have o': "findOrderOrThrow ex_deposit_db ''o'' = Inr ex_order" by code_simp
  have a: "ensureCanAccessOrderFinance ex_order ex_user = Inr ()" "ensureOrderCanRefundDeposit ex_order = Inr ()"
    by code_simp+
  have bal: "calculateDepositBalance ex_deposit_db (fo_customerId ex_order) ''o'' = 500" by code_simp
  show ?thesis
    using refund_up_to_balance [OF o' a _ _ b, of 500 200] refund_up_to_balance [OF o' a _ _ b, of 501 200] bal
    by (simp add: max_safe_integer_def)
qed

end
