(* ===== verification/JsString.thy ===== *)
theory JsString
  imports JsDate "HOL-Library.Word"
begin

text \<open>
  JavaScript strings as lists of 16 bit code units, with what the code uses of
  the standard library on them: \<open>trim\<close>, \<open>join\<close>, \<open>String(n)\<close> of an
  integer and \<open>toISOString\<close>.
\<close>

type_synonym ustring = "16 word list"

definition ascii :: "string \<Rightarrow> ustring" where
  "ascii s = map (\<lambda>c. of_nat (of_char c)) s"

text \<open>The white space and line terminators of ECMAScript.\<close>

definition is_space :: "16 word \<Rightarrow> bool" where
  "is_space c = (c \<in> set [9, 10, 11, 12, 13, 32, 160, 0x1680, 0x2028, 0x2029, 0x202F, 0x205F,
     0x3000, 0xFEFF] \<or> (0x2000 \<le> c \<and> c \<le> 0x200A))"

definition trim :: "ustring \<Rightarrow> ustring" where
  "trim s = rev (dropWhile is_space (rev (dropWhile is_space s)))"

text \<open>\<open>String(n)\<close> of an integer.\<close>

fun dec_nat :: "nat \<Rightarrow> ustring" where
  "dec_nat n = (if n < 10 then [] else dec_nat (n div 10)) @ [48 + of_nat (n mod 10)]"

declare dec_nat.simps [simp del]

definition dec :: "int \<Rightarrow> ustring" where
  "dec n = (if n < 0 then 45 # dec_nat (nat (- n)) else dec_nat (nat n))"

definition pad2 :: "int \<Rightarrow> ustring" where
  "pad2 n = (if 0 \<le> n \<and> n < 10 then 48 # dec n else dec n)"

fun join_with :: "ustring \<Rightarrow> ustring list \<Rightarrow> ustring" where
  "join_with sep [] = []"
| "join_with sep [x] = x"
| "join_with sep (x # y # xs) = x @ sep @ join_with sep (y # xs)"

text \<open>\<open>toISOString\<close>; years outside 0..9999 are expanded to six digits and a sign.\<close>

definition toISOString :: "time \<Rightarrow> ustring" where
  "toISOString t = ascii
     ((if 0 \<le> utc_year t \<and> utc_year t \<le> 9999 then digits 4 (utc_year t)
       else (if utc_year t < 0 then ''-'' else ''+'') @ digits 6 \<bar>utc_year t\<bar>)
      @ ''-'' @ digits 2 (utc_month t + 1) @ ''-'' @ digits 2 (utc_date t)
      @ ''T'' @ digits 2 (utc_hours t) @ '':'' @ digits 2 (utc_minutes t)
      @ '':'' @ digits 2 (utc_seconds t) @ ''.'' @ digits 3 (utc_millis t) @ ''Z'')"

text \<open>
  \<open>JSON.stringify\<close> of a string: quotes, backslashes and control characters are
  escaped, and so is a surrogate without its other half.
\<close>

definition hex_digit :: "nat \<Rightarrow> 16 word" where
  "hex_digit n = of_nat (if n < 10 then 48 + n else 87 + n)"

definition hex4 :: "16 word \<Rightarrow> ustring" where
  "hex4 c = [hex_digit (unat c div 4096), hex_digit (unat c div 256 mod 16),
     hex_digit (unat c div 16 mod 16), hex_digit (unat c mod 16)]"

definition high_surrogate :: "16 word \<Rightarrow> bool" where
  "high_surrogate c = (0xD800 \<le> c \<and> c \<le> 0xDBFF)"

definition low_surrogate :: "16 word \<Rightarrow> bool" where
  "low_surrogate c = (0xDC00 \<le> c \<and> c \<le> 0xDFFF)"

definition quote_unit :: "16 word \<Rightarrow> ustring" where
  "quote_unit c = (if c = 8 then [92, 98] else if c = 9 then [92, 116] else if c = 10 then [92, 110]
     else if c = 12 then [92, 102] else if c = 13 then [92, 114] else if c = 34 then [92, 34]
     else if c = 92 then [92, 92]
     else if c < 32 \<or> high_surrogate c \<or> low_surrogate c then 92 # 117 # hex4 c else [c])"

fun quote_body :: "ustring \<Rightarrow> ustring" where
  "quote_body [] = []"
| "quote_body [c] = quote_unit c"
| "quote_body (c # d # s) =
     (if high_surrogate c \<and> low_surrogate d then c # d # quote_body s
      else quote_unit c @ quote_body (d # s))"

definition quote :: "ustring \<Rightarrow> ustring" where
  "quote s = 34 # quote_body s @ [34]"

section \<open>White space\<close>

lemma dropWhile_id: "(s \<noteq> [] \<Longrightarrow> \<not> P (hd s)) \<Longrightarrow> dropWhile P s = s"
  by (cases s) auto

lemma hd_dropWhile_not: "dropWhile P s \<noteq> [] \<Longrightarrow> \<not> P (hd (dropWhile P s))"
  by (induction s) auto

definition trimmed :: "ustring \<Rightarrow> bool" where
  "trimmed s = (s \<noteq> [] \<and> \<not> is_space (hd s) \<and> \<not> is_space (last s))"

lemma trim_trimmed: "trimmed s \<Longrightarrow> trim s = s"
  by (simp add: trimmed_def trim_def dropWhile_id hd_rev)

lemma dropWhile_suffix: "\<exists>p. s = p @ dropWhile P s"
  by (metis takeWhile_dropWhile_id)

lemma trimmed_trim:
  assumes "trim s \<noteq> []"
  shows "trimmed (trim s)"
proof -
  define a where "a = dropWhile is_space s"
  define b where "b = dropWhile is_space (rev a)"
  have t: "trim s = rev b" by (simp add: trim_def a_def b_def)
  then have b: "b \<noteq> []" using assms by simp
  then have "\<not> is_space (hd b)" unfolding b_def by (rule hd_dropWhile_not)
  moreover obtain p where p: "rev a = p @ b" using dropWhile_suffix [of "rev a"] b_def by blast
  then have a: "a = rev b @ rev p" by (metis rev_append rev_rev_ident)
  then have "hd a = last b" using b by (simp add: hd_append hd_rev)
  moreover have "a \<noteq> []" using a b by simp
  then have "\<not> is_space (hd a)" unfolding a_def by (rule hd_dropWhile_not)
  ultimately show ?thesis using b t by (simp add: trimmed_def hd_rev last_rev)
qed

lemma digit_cases: "n < (10::nat) \<Longrightarrow> (48::16 word) + of_nat n \<in> set [48, 49, 50, 51, 52, 53, 54, 55, 56, 57]"
proof -
  assume "n < 10"
  moreover have "list_all (\<lambda>n. (48::16 word) + of_nat n \<in> set [48, 49, 50, 51, 52, 53, 54, 55, 56, 57]) [0..<10]"
    by code_simp
  ultimately show ?thesis by (simp add: list_all_iff)
qed

lemma digit_no_space: "c \<in> set [48, 49, 50, 51, 52, 53, 54, 55, 56, 57] \<Longrightarrow> \<not> is_space c"
  by (auto simp: is_space_def)

lemma dec_nat_plain: "dec_nat n \<noteq> [] \<and> (\<forall>c \<in> set (dec_nat n). \<not> is_space c)"
proof (induction n rule: dec_nat.induct)
  case (1 n)
  have "\<not> is_space (48 + of_nat (n mod 10))"
    using digit_cases [of "n mod 10"] by (intro digit_no_space) simp
  then show ?case using 1 by (subst (1 2) dec_nat.simps) auto
qed

lemma plain_trimmed: "s \<noteq> [] \<Longrightarrow> \<forall>c \<in> set s. \<not> is_space c \<Longrightarrow> trimmed s"
  by (simp add: trimmed_def)

lemma dec_plain: "dec n \<noteq> [] \<and> (\<forall>c \<in> set (dec n). \<not> is_space c)"
proof -
  have "\<not> is_space 45" by (simp add: is_space_def)
  then show ?thesis using dec_nat_plain by (auto simp: dec_def)
qed

lemma pad2_plain: "pad2 n \<noteq> [] \<and> (\<forall>c \<in> set (pad2 n). \<not> is_space c)"
proof -
  have "\<not> is_space 48" by (simp add: is_space_def)
  then show ?thesis using dec_plain by (auto simp: pad2_def)
qed

section \<open>Numbers are read back\<close>

definition is_digit :: "16 word \<Rightarrow> bool" where
  "is_digit c = (c \<in> set [48, 49, 50, 51, 52, 53, 54, 55, 56, 57])"

definition read_nat :: "ustring \<Rightarrow> nat" where
  "read_nat s = foldl (\<lambda>n c. n * 10 + unat (c - 48)) 0 s"

lemma read_dec_nat [simp]: "read_nat (dec_nat n) = n"
proof (induction n rule: dec_nat.induct)
  case (1 n)
  have d: "unat (word_of_nat (n mod 10) :: 16 word) = n mod 10"
    by (simp add: unat_of_nat take_bit_nat_eq_self)
  show ?case
  proof (cases "n < 10")
    case True
    then show ?thesis using d by (subst dec_nat.simps) (simp add: read_nat_def)
  next
    case False
    then have "read_nat (dec_nat (n div 10)) = n div 10" using 1 by simp
    then show ?thesis using d False by (subst dec_nat.simps) (simp add: read_nat_def)
  qed
qed

lemma dec_nat_digits: "\<forall>c \<in> set (dec_nat n). is_digit c"
proof (induction n rule: dec_nat.induct)
  case (1 n)
  have "is_digit (48 + of_nat (n mod 10))"
    using digit_cases [of "n mod 10"] by (simp only: is_digit_def)
  then show ?case using 1 by (subst dec_nat.simps) auto
qed

definition no_digit :: "ustring \<Rightarrow> bool" where
  "no_digit r = (r = [] \<or> \<not> is_digit (hd r))"

lemma takeWhile_dec_nat: "no_digit r \<Longrightarrow> takeWhile is_digit (dec_nat n @ r) = dec_nat n"
  using dec_nat_digits [of n] by (cases r) (simp_all add: no_digit_def)

lemma dec_nat_unique:
  assumes "dec_nat m @ r = dec_nat n @ r'" and "no_digit r" and "no_digit r'"
  shows "m = n \<and> r = r'"
proof -
  have "dec_nat m = dec_nat n"
    using takeWhile_dec_nat assms by metis
  then show ?thesis using assms(1) by (metis read_dec_nat same_append_eq)
qed

lemma hd_dec: "hd (dec n @ r) = 45 \<longleftrightarrow> n < 0"
proof -
  have "hd (dec_nat k @ r) \<noteq> 45" for k
  proof -
    have "hd (dec_nat k @ r) \<in> set (dec_nat k)"
      using dec_nat_plain by (cases "dec_nat k") auto
    then have "is_digit (hd (dec_nat k @ r))" using dec_nat_digits by blast
    moreover have "\<not> is_digit 45" by (simp add: is_digit_def)
    ultimately show ?thesis by metis
  qed
  then show ?thesis by (simp add: dec_def)
qed

lemma dec_unique:
  assumes "dec m @ r = dec n @ r'" and "no_digit r" and "no_digit r'"
  shows "m = n \<and> r = r'"
proof -
  have sign: "m < 0 \<longleftrightarrow> n < 0"
    using hd_dec [of m r] hd_dec [of n r'] assms(1) by simp
  show ?thesis
  proof (cases "m < 0")
    case True
    then have "dec_nat (nat (- m)) @ r = dec_nat (nat (- n)) @ r'"
      using assms(1) sign by (simp add: dec_def)
    then have "nat (- m) = nat (- n) \<and> r = r'" using assms(2,3) by (rule dec_nat_unique)
    then show ?thesis using True sign by auto
  next
    case False
    then have "dec_nat (nat m) @ r = dec_nat (nat n) @ r'"
      using assms(1) sign by (simp add: dec_def)
    then have "nat m = nat n \<and> r = r'" using assms(2,3) by (rule dec_nat_unique)
    then show ?thesis using False sign by auto
  qed
qed

section \<open>Strings are read back\<close>

definition unhex :: "16 word \<Rightarrow> nat" where
  "unhex d = (if d < 97 then unat d - 48 else unat d - 87)"

fun unhex4 :: "ustring \<Rightarrow> 16 word" where
  "unhex4 (a # b # c # d # s) = of_nat (((unhex a * 16 + unhex b) * 16 + unhex c) * 16 + unhex d)"
| "unhex4 _ = 0"

definition unescape :: "16 word \<Rightarrow> 16 word" where
  "unescape e = (if e = 98 then 8 else if e = 116 then 9 else if e = 110 then 10
     else if e = 102 then 12 else if e = 114 then 13 else e)"

function unquote :: "ustring \<Rightarrow> (ustring \<times> ustring) option" where
  "unquote [] = None"
| "unquote (c # s) =
     (if c = 34 then Some ([], s)
      else if c = 92 then
        (case s of [] \<Rightarrow> None
         | e # s' \<Rightarrow>
             if e = 117 then map_option (apfst ((#) (unhex4 s'))) (unquote (drop 4 s'))
             else map_option (apfst ((#) (unescape e))) (unquote s'))
      else map_option (apfst ((#) c)) (unquote s))"
  by pat_completeness auto
termination by (relation "measure length") auto

lemma unhex_digit: "n < 16 \<Longrightarrow> unhex (hex_digit n) = n"
proof -
  assume "n < 16"
  moreover have "list_all (\<lambda>n. unhex (hex_digit n) = n) [0..<16]" by code_simp
  ultimately show ?thesis by (simp add: list_all_iff)
qed

lemma unhex4_hex4 [simp]: "unhex4 (hex4 c @ r) = c"
proof -
  have "unat c < 2 ^ LENGTH(16)" by (rule unsigned_less)
  then have b: "unat c < 65536" by simp
  then have "unat c div 4096 < 16" by auto
  moreover have "((unat c div 4096 * 16 + unat c div 256 mod 16) * 16 + unat c div 16 mod 16) * 16
      + unat c mod 16 = unat c"
  proof -
    have "unat c div 4096 = unat c div 256 div 16" "unat c div 256 = unat c div 16 div 16"
      by (simp_all add: div_mult2_eq [symmetric])
    then show ?thesis by (simp only: div_mult_mod_eq)
  qed
  ultimately have "unhex4 (hex4 c @ r) = of_nat (unat c)"
    by (simp only: hex4_def append.simps unhex4.simps unhex_digit mod_less_divisor)
  then show ?thesis by simp
qed

lemma length_hex4 [simp]: "length (hex4 c) = 4"
  by (simp add: hex4_def)

lemma unquote_unit: "unquote (quote_unit c @ r) = map_option (apfst ((#) c)) (unquote r)"
  by (simp add: quote_unit_def unescape_def)

lemma unquote_plain:
  "c \<noteq> 34 \<Longrightarrow> c \<noteq> 92 \<Longrightarrow> unquote (c # s) = map_option (apfst ((#) c)) (unquote s)"
  by simp

lemma unquote_body: "unquote (quote_body s @ 34 # r) = Some (s, r)"
proof (induction s rule: quote_body.induct)
  case (3 c d s)
  show ?case
  proof (cases "high_surrogate c \<and> low_surrogate d")
    case True
    then have "c \<noteq> 34" "c \<noteq> 92" "d \<noteq> 34" "d \<noteq> 92"
      by (auto simp: high_surrogate_def low_surrogate_def)
    moreover have "quote_body (c # d # s) = c # d # quote_body s" using True by simp
    ultimately show ?thesis using 3(1) True by (simp only: append_Cons unquote_plain) simp
  next
    case False
    then have "quote_body (c # d # s) = quote_unit c @ quote_body (d # s)" by auto
    then show ?thesis using 3(2) False by (simp only: append_assoc unquote_unit) simp
  qed
qed (simp_all add: unquote_unit)

lemma quote_unique: "quote s @ r = quote t @ r' \<Longrightarrow> s = t \<and> r = r'"
proof -
  assume "quote s @ r = quote t @ r'"
  then have "unquote (quote_body s @ 34 # r) = unquote (quote_body t @ 34 # r')"
    by (simp add: quote_def)
  then show ?thesis by (simp add: unquote_body)
qed

end
