(* ===== verification/Csv.thy ===== *)
theory Csv
  imports JsString
begin

text \<open>
  The CSV writer of the reports (\<open>report/report-csv.ts\<close>) and the CSV reader of
  the residual market imports (\<open>residual-market/csv-parser.ts\<close>).  The reader is
  one scan with the code's loop variables as its arguments.
\<close>

abbreviation (input) QUOTE :: "16 word" where "QUOTE \<equiv> 34"
abbreviation (input) COMMA :: "16 word" where "COMMA \<equiv> 44"
abbreviation (input) CR :: "16 word" where "CR \<equiv> 13"
abbreviation (input) LF :: "16 word" where "LF \<equiv> 10"

definition UTF8_BOM :: ustring where "UTF8_BOM = [0xFEFF]"

section \<open>Writing\<close>

text \<open>
  The values of a cell.  \<open>CNumber None\<close> is a number that is not finite,
  \<open>CDate None\<close> an invalid date; finite numbers are integers.
\<close>

datatype csv_cell = CBigint int | CBoolean bool | CDate "time option" | CNumber "int option"
  | CString ustring | CNull | CUndefined

fun formatDate :: "time option \<Rightarrow> ustring" where
  "formatDate None = ascii ''-''"
| "formatDate (Some t) = dec (utc_year t) @ ascii ''-'' @ pad2 (utc_month t + 1) @ ascii ''-''
     @ pad2 (utc_date t)"

fun safeCell :: "csv_cell \<Rightarrow> ustring" where
  "safeCell CNull = ascii ''-''"
| "safeCell CUndefined = ascii ''-''"
| "safeCell (CNumber None) = ascii ''-''"
| "safeCell (CNumber (Some n)) = dec n"
| "safeCell (CBigint n) = dec n"
| "safeCell (CBoolean b) = (if b then ascii ''true'' else ascii ''false'')"
| "safeCell (CDate d) = formatDate d"
| "safeCell (CString s) = (let text = trim s in if text \<noteq> [] then text else ascii ''-'')"

definition needs_quotes :: "ustring \<Rightarrow> bool" where
  "needs_quotes cell = list_ex (\<lambda>c. c \<in> set [QUOTE, COMMA, CR, LF]) cell"

definition double_quotes :: "ustring \<Rightarrow> ustring" where
  "double_quotes cell = concat (map (\<lambda>c. if c = QUOTE then [QUOTE, QUOTE] else [c]) cell)"

definition escapeCsvCell :: "csv_cell \<Rightarrow> ustring" where
  "escapeCsvCell v = (let cell = safeCell v in
     if needs_quotes cell then QUOTE # double_quotes cell @ [QUOTE] else cell)"

definition toCsv :: "csv_cell list list \<Rightarrow> ustring" where
  "toCsv rows = join_with [CR, LF] (map (\<lambda>row. join_with [COMMA] (map escapeCsvCell row)) rows)"

definition withUtf8Bom :: "ustring \<Rightarrow> ustring" where
  "withUtf8Bom csv = UTF8_BOM @ csv"

text \<open>Money is stored in fen; the reports show yuan with two decimals.\<close>

definition formatMoneyYuan :: "int \<Rightarrow> ustring" where
  "formatMoneyYuan amountInFen = (if amountInFen < 0 then [45] else [])
     @ dec (\<bar>amountInFen\<bar> div 100) @ [46] @ pad2 (\<bar>amountInFen\<bar> mod 100)"

section \<open>Reading\<close>

datatype csv_error = UnclosedQuote

text \<open>
  The loop of \<open>parseCsv\<close>: \<open>inQuotes\<close>, the cell, the row and the rows collected
  so far, and the input that is left.
\<close>

function scan :: "bool \<Rightarrow> ustring \<Rightarrow> ustring list \<Rightarrow> ustring list list \<Rightarrow> ustring
    \<Rightarrow> (csv_error, ustring list list) result" where
  "scan inQuotes cell row rows input = (case input of
     [] \<Rightarrow> if inQuotes then Inl UnclosedQuote else Inr (rows @ [row @ [cell]])
   | char # rest \<Rightarrow>
       if inQuotes then
         if char = QUOTE then
           if rest \<noteq> [] \<and> hd rest = QUOTE then scan True (cell @ [QUOTE]) row rows (tl rest)
           else scan False cell row rows rest
         else scan True (cell @ [char]) row rows rest
       else if char = QUOTE then scan True cell row rows rest
       else if char = COMMA then scan False [] (row @ [cell]) rows rest
       else if char = CR \<or> char = LF then
         if char = CR \<and> rest \<noteq> [] \<and> hd rest = LF
         then scan False [] [] (rows @ [row @ [cell]]) (tl rest)
         else scan False [] [] (rows @ [row @ [cell]]) rest
       else scan False (cell @ [char]) row rows rest)"
  by pat_completeness auto
termination by (relation "measure (\<lambda>(q, c, r, rs, s). length s)") (auto simp: less_Suc_eq)

declare scan.simps [simp del]

definition strip_bom :: "ustring \<Rightarrow> ustring" where
  "strip_bom text = (if take 1 text = UTF8_BOM then drop 1 text else text)"

definition parseCsv :: "ustring \<Rightarrow> (csv_error, ustring list list) result" where
  "parseCsv text = (let input = strip_bom text in
     if length input = 0 then Inr [] else scan False [] [] [] input)"

record csv_record =
  rec_rowNumber :: nat
  rec_values :: "ustring \<rightharpoonup> ustring"

definition cell_at :: "ustring list \<Rightarrow> nat \<Rightarrow> ustring" where
  "cell_at row i = (if i < length row then trim (row ! i) else [])"

definition make_record :: "ustring list \<Rightarrow> nat \<times> ustring list \<Rightarrow> csv_record" where
  "make_record headers r = \<lparr> rec_rowNumber = fst r,
     rec_values = map_of (rev (map (\<lambda>(index, header). (header, cell_at (snd r) index))
       (enumerate 0 headers))) \<rparr>"

definition parseCsvRecords :: "ustring \<Rightarrow> (csv_error, csv_record list) result" where
  "parseCsvRecords text = rbind (parseCsv text) (\<lambda>rows. case rows of
     [] \<Rightarrow> Inr []
   | headerRow # dataRows \<Rightarrow>
       let headers = map trim headerRow in
       Inr (map (make_record headers)
         (filter (\<lambda>(rowNumber, row). list_ex (\<lambda>cell. trim cell \<noteq> []) row) (enumerate 2 dataRows))))"

lemma ascii_plain: "\<forall>c \<in> set (ascii ''-''). \<not> is_space c" "\<forall>c \<in> set (ascii ''true''). \<not> is_space c"
  "\<forall>c \<in> set (ascii ''false''). \<not> is_space c"
  by (simp_all add: ascii_def is_space_def)

lemma ascii_nonempty: "ascii ''-'' \<noteq> []" "ascii ''true'' \<noteq> []" "ascii ''false'' \<noteq> []"
  by (simp_all add: ascii_def)

lemmas plain_cells = ascii_plain ascii_nonempty dec_plain pad2_plain

lemma formatDate_plain: "formatDate d \<noteq> [] \<and> (\<forall>c \<in> set (formatDate d). \<not> is_space c)"
  using plain_cells by (cases d) auto

lemma safeCell_trimmed: "trimmed (safeCell v)"
proof (cases v)
  case (CString s)
  then show ?thesis
    using trimmed_trim [of s] plain_trimmed [of "ascii ''-''"] plain_cells by (simp add: Let_def)
next
  case (CNumber n)
  then show ?thesis using plain_cells by (cases n) (auto intro!: plain_trimmed)
qed (use plain_cells formatDate_plain in \<open>auto intro!: plain_trimmed\<close>)

section \<open>Reading back what was written\<close>

lemma scan_end [simp]: "scan False cell row rows [] = Inr (rows @ [row @ [cell]])"
  by (subst scan.simps) simp

lemma scan_comma [simp]: "scan False cell row rows (COMMA # r) = scan False [] (row @ [cell]) rows r"
  by (subst scan.simps) simp

lemma scan_crlf [simp]:
  "scan False cell row rows (CR # LF # r) = scan False [] [] (rows @ [row @ [cell]]) r"
  by (subst scan.simps) simp

lemma scan_open [simp]: "scan False cell row rows (QUOTE # r) = scan True cell row rows r"
  by (subst scan.simps) simp

lemma scan_plain:
  "\<not> needs_quotes s \<Longrightarrow> scan False cell row rows (s @ r) = scan False (cell @ s) row rows r"
proof (induction s arbitrary: cell)
  case (Cons c s)
  then have "scan False cell row rows ((c # s) @ r) = scan False (cell @ [c]) row rows (s @ r)"
    by (subst scan.simps) (auto simp: needs_quotes_def)
  then show ?case using Cons by (simp add: needs_quotes_def)
qed simp

lemma scan_doubled: "scan True cell row rows (QUOTE # QUOTE # r) = scan True (cell @ [QUOTE]) row rows r"
  by (subst scan.simps) simp

lemma scan_inside: "c \<noteq> QUOTE \<Longrightarrow> scan True cell row rows (c # r) = scan True (cell @ [c]) row rows r"
  by (subst scan.simps) simp

lemma scan_close:
  "r = [] \<or> hd r \<noteq> QUOTE \<Longrightarrow> scan True cell row rows (QUOTE # r) = scan False cell row rows r"
  by (subst scan.simps) auto

lemma scan_quoted:
  assumes "r = [] \<or> hd r \<noteq> QUOTE"
  shows "scan True cell row rows (double_quotes s @ QUOTE # r) = scan False (cell @ s) row rows r"
proof (induction s arbitrary: cell)
  case Nil
  then show ?case using scan_close [OF assms] by (simp add: double_quotes_def)
next
  case (Cons c s)
  have d: "double_quotes (c # s) = (if c = QUOTE then [QUOTE, QUOTE] else [c]) @ double_quotes s"
    by (simp add: double_quotes_def)
  show ?case
    unfolding d using Cons.IH [of "cell @ [c]"]
    by (cases "c = QUOTE") (simp_all add: scan_doubled scan_inside)
qed

lemma scan_cell:
  assumes "r = [] \<or> hd r \<noteq> QUOTE"
  shows "scan False [] row rows (escapeCsvCell v @ r) = scan False (safeCell v) row rows r"
  using scan_quoted [OF assms, of "[]" row rows "safeCell v"]
    scan_plain [of "safeCell v" "[]" row rows r]
  by (auto simp: escapeCsvCell_def Let_def)

definition write_row :: "csv_cell list \<Rightarrow> ustring" where
  "write_row row = join_with [COMMA] (map escapeCsvCell row)"

lemma scan_row:
  assumes "r = [] \<or> hd r = CR" and "cells \<noteq> []"
  shows "scan False [] row rows (write_row cells @ r)
    = scan False (safeCell (last cells)) (row @ map safeCell (butlast cells)) rows r"
  using assms(2)
proof (induction cells arbitrary: row)
  case (Cons v cells)
  have nq: "r = [] \<or> hd r \<noteq> QUOTE" using assms(1) by auto
  show ?case
  proof (cases cells)
    case Nil
    then show ?thesis using scan_cell [OF nq] by (simp add: write_row_def)
  next
    case (Cons w ws)
    have "write_row (v # cells) @ r = escapeCsvCell v @ COMMA # (write_row cells @ r)"
      by (simp add: write_row_def Cons)
    then have "scan False [] row rows (write_row (v # cells) @ r)
        = scan False [] (row @ [safeCell v]) rows (write_row cells @ r)"
      by (simp add: scan_cell)
    then show ?thesis using Cons.IH Cons.prems Cons by simp
  qed
qed simp

lemma toCsv_Cons: "rows \<noteq> [] \<Longrightarrow> toCsv (row # rows) = write_row row @ CR # LF # toCsv rows"
  by (cases rows) (simp_all add: toCsv_def write_row_def)

lemma scan_rows:
  "rows \<noteq> [] \<Longrightarrow> \<forall>row \<in> set rows. row \<noteq> [] \<Longrightarrow>
   scan False [] [] acc (toCsv rows) = Inr (acc @ map (map safeCell) rows)"
proof (induction rows arbitrary: acc)
  case (Cons row rows)
  have row: "map safeCell (butlast row) @ [safeCell (last row)] = map safeCell row"
    using Cons.prems by (metis append_butlast_last_id list.set_intros(1) map_append list.simps(8,9))
  show ?case
  proof (cases "rows = []")
    case True
    have "toCsv [row] = write_row row @ []" by (simp add: toCsv_def write_row_def)
    then show ?thesis using scan_row [of "[]" row] Cons.prems True row by simp
  next
    case False
    then show ?thesis
      using scan_row [of "CR # LF # toCsv rows" row "[]" acc] Cons row by (simp add: toCsv_Cons)
  qed
qed simp

lemma toCsv_nonempty:
  assumes "rows \<noteq> []" and "\<forall>row \<in> set rows. row \<noteq> []"
  shows "toCsv rows \<noteq> []"
proof
  assume "toCsv rows = []"
  then have "scan False [] [] [] (toCsv rows) = Inr [[[]]]" by simp
  then have "map (map safeCell) rows = [[[]]]" using scan_rows [OF assms, of "[]"] by simp
  then have "\<exists>v. safeCell v = []" by (auto simp: map_eq_Cons_conv)
  then show False using safeCell_trimmed by (auto simp: trimmed_def)
qed

text \<open>
  C31 What the report writer puts out, with or without the byte order mark, the CSV reader reads
  back as exactly the rows of trimmed cell texts, whatever quotes, commas and line breaks the
  cells contain.
\<close>
theorem csv_roundtrip:
  assumes "rows \<noteq> []" and "\<forall>row \<in> set rows. row \<noteq> []"
  shows "parseCsv (withUtf8Bom (toCsv rows)) = Inr (map (map safeCell) rows)"
  using toCsv_nonempty [OF assms] scan_rows [OF assms, of "[]"]
  by (simp add: parseCsv_def strip_bom_def withUtf8Bom_def UTF8_BOM_def)

theorem csv_roundtrip_witness:
  "parseCsv (withUtf8Bom (toCsv [[CString (ascii ''say \"hi\", twice''), CNull],
       [CBigint (-120), CString (ascii ''  a''), CBoolean True]]))
     = Inr [[ascii ''say \"hi\", twice'', ascii ''-''], [ascii ''-120'', ascii ''a'', ascii ''true'']]"
proof -
  have eval: "map (map safeCell) [[CString (ascii ''say \"hi\", twice''), CNull],
       [CBigint (-120), CString (ascii ''  a''), CBoolean True]]
     = [[ascii ''say \"hi\", twice'', ascii ''-''], [ascii ''-120'', ascii ''a'', ascii ''true'']]"
    by code_simp
  show ?thesis unfolding eval [symmetric] by (rule csv_roundtrip) simp_all
qed

section \<open>When the reader fails\<close>

lemma scan_error:
  "scan q cell row rows s = Inl e \<longleftrightarrow> odd (count_list s QUOTE + (if q then 1 else 0))"
proof (induction q cell row rows s rule: scan.induct)
  case (1 q cell row rows s)
  show ?case
  proof (cases s)
    case Nil
    then show ?thesis by (subst scan.simps) (cases e, simp)
  next
    case (Cons c rest)
    note IH = 1 [OF Cons]
    show ?thesis
    proof (cases "rest \<noteq> [] \<and> hd rest = (if q then QUOTE else LF)")
      case True
      then obtain d tail where rest: "rest = d # tail" "d = (if q then QUOTE else LF)"
        by (cases rest) auto
      then show ?thesis using Cons IH by (subst scan.simps) auto
    next
      case False
      then show ?thesis using Cons IH by (subst scan.simps) auto
    qed
  qed
qed

text \<open>
  C38 The CSV reader rejects a text exactly when it has an odd number of quote characters; every
  other text is read.
\<close>
theorem csv_rejects_unbalanced:
  "parseCsv text = Inl e \<longleftrightarrow> odd (count_list text QUOTE)"
proof -
  have "count_list (strip_bom text) QUOTE = count_list text QUOTE"
    by (cases "text") (auto simp: strip_bom_def UTF8_BOM_def)
  then show ?thesis using scan_error [of False] by (auto simp: parseCsv_def Let_def)
qed

section \<open>Records\<close>

lemma map_of_rev_index:
  assumes "distinct xs" and "j < length xs"
  shows "map_of (rev (map (\<lambda>(i, x). (x, f i)) (enumerate 0 xs))) (xs ! j) = Some (f j)"
proof (rule map_of_is_SomeI)
  have "map fst (map (\<lambda>(i, x). (x, f i)) (enumerate 0 xs)) = xs"
    by (simp add: comp_def case_prod_unfold)
  then show "distinct (map fst (rev (map (\<lambda>(i, x). (x, f i)) (enumerate 0 xs))))"
    using assms(1) by (simp add: rev_map [symmetric])
  show "(xs ! j, f j) \<in> set (rev (map (\<lambda>(i, x). (x, f i)) (enumerate 0 xs)))"
    using assms(2) unfolding set_rev set_map
    by (intro image_eqI [of _ _ "(j, xs ! j)"]) (simp_all add: in_set_enumerate_eq)
qed

lemma trim_safeCell [simp]: "trim (safeCell v) = safeCell v"
  using safeCell_trimmed by (rule trim_trimmed)

lemma safeCell_nonempty [simp]: "safeCell v \<noteq> []"
  using safeCell_trimmed [of v] by (simp add: trimmed_def)

lemma records_of_csv:
  assumes "\<forall>row \<in> set (header # rows). row \<noteq> []"
  shows "parseCsvRecords (withUtf8Bom (toCsv (header # rows)))
    = Inr (map (make_record (map safeCell header)) (enumerate 2 (map (map safeCell) rows)))"
proof -
  have all: "filter (\<lambda>(n, row). list_ex (\<lambda>cell. trim cell \<noteq> []) row)
      (enumerate 2 (map (map safeCell) rows)) = enumerate 2 (map (map safeCell) rows)"
  proof (rule filter_True, clarify)
    fix n row assume "(n, row) \<in> set (enumerate 2 (map (map safeCell) rows))"
    then have "row \<in> set (map (map safeCell) rows)" by (auto simp: in_set_enumerate_eq)
    then obtain cells where "cells \<in> set rows" "row = map safeCell cells" by auto
    then obtain v vs where "cells = v # vs" using assms by (metis list.set_intros(2) neq_Nil_conv)
    then show "list_ex (\<lambda>cell. trim cell \<noteq> []) row" using \<open>row = map safeCell cells\<close> by simp
  qed
  have "parseCsv (withUtf8Bom (toCsv (header # rows))) = Inr (map (map safeCell) (header # rows))"
    using toCsv_nonempty [of "header # rows"] scan_rows [of "header # rows" "[]"] assms
    by (simp add: parseCsv_def strip_bom_def withUtf8Bom_def UTF8_BOM_def)
  then show ?thesis using all by (simp add: parseCsvRecords_def Let_def comp_def)
qed

text \<open>
  Read as records, a written table gives one record per data row, numbered as the lines of the
  file, and each record has under each column name the text of its cell, or the empty text where
  the row is short.
\<close>
theorem csv_records_roundtrip:
  assumes "\<forall>row \<in> set (header # rows). row \<noteq> []" and "distinct (map safeCell header)"
    and "i < length rows" and "j < length header"
  shows "\<exists>records. parseCsvRecords (withUtf8Bom (toCsv (header # rows))) = Inr records
    \<and> length records = length rows \<and> rec_rowNumber (records ! i) = i + 2
    \<and> rec_values (records ! i) (safeCell (header ! j))
        = Some (if j < length (rows ! i) then safeCell (rows ! i ! j) else [])"
  using map_of_rev_index [OF assms(2), of j "cell_at (map safeCell (rows ! i))"] assms(3,4)
  by (auto simp: records_of_csv [OF assms(1)] make_record_def nth_enumerate_eq cell_at_def)

theorem csv_records_roundtrip_witness:
  "\<exists>records. parseCsvRecords (withUtf8Bom (toCsv [[CString (ascii ''vin''), CString (ascii ''fen'')],
       [CString (ascii ''A,1''), CNumber (Some 12)], [CString (ascii ''B'')]])) = Inr records
     \<and> length records = 2 \<and> rec_rowNumber (records ! 0) = 2
     \<and> rec_values (records ! 0) (ascii ''vin'') = Some (ascii ''A,1'')"
proof -
  have eval: "safeCell (CString (ascii ''vin'')) = ascii ''vin''"
    "safeCell (CString (ascii ''A,1'')) = ascii ''A,1''" "safeCell (CString (ascii ''fen'')) = ascii ''fen''"
    by code_simp+
  have "distinct (map safeCell [CString (ascii ''vin''), CString (ascii ''fen'')])"
    by code_simp
  then show ?thesis
    using csv_records_roundtrip [of "[CString (ascii ''vin''), CString (ascii ''fen'')]"
      "[[CString (ascii ''A,1''), CNumber (Some 12)], [CString (ascii ''B'')]]" 0 0]
    unfolding nth_Cons_0 eval by (simp add: numeral_2_eq_2)
qed

end
