(* ===== verification/CanonicalJson.thy ===== *)
theory CanonicalJson
  imports JsString "HOL-Library.List_Lexorder" "HOL-Library.Finite_Map"
begin

text \<open>
  The canonical JSON texts under which snapshots are hashed and compared:
  \<open>canonicalAssetAccountingJson\<close> (\<open>asset-accounting.domain.ts\<close>, and the same
  algorithm in \<open>subscription-closure.domain.ts\<close>), and \<open>sameJourneyJson\<close>
  (\<open>subscription-journey-json.ts\<close>).  Values are trees of data properties, so
  cycles and accessors do not arise; numbers are integers, beside those that are
  not finite.  What a value means is a \<open>jvalue\<close>, where an object is a finite map
  and the order of its properties is gone: two snapshots have the same text
  exactly when they mean the same.
\<close>

datatype js_value = Undefined | Null | Bool bool | Num int | NonFinite | BigInt int
  | Str ustring | Date "time option" | Arr "js_value list" | Obj "(ustring \<times> js_value) list"
  | Unsupported

datatype canonical = CNull | CBool bool | CNum int | CStr ustring | CArr "canonical list"
  | CObj "(ustring \<times> canonical) list"

datatype canonical_error = NotFinite | InvalidDate | UnsupportedType | RootNotObject

section \<open>Asset accounting and closure snapshots\<close>

fun collect :: "('e, 'a) result list \<Rightarrow> ('e, 'a list) result" where
  "collect [] = Inr []"
| "collect (r # rs) = rbind r (\<lambda>x. rbind (collect rs) (\<lambda>xs. Inr (x # xs)))"

fun keep_key :: "'k \<times> ('e, 'a) result \<Rightarrow> ('e, 'k \<times> 'a) result" where
  "keep_key (k, r) = rbind r (\<lambda>x. Inr (k, x))"

fun present :: "'k \<times> 'a option \<Rightarrow> ('k \<times> 'a) list" where
  "present (k, None) = []"
| "present (k, Some x) = [(k, x)]"

text \<open>\<open>Inr None\<close> is the marker \<open>OMITTED\<close>.\<close>

primrec canonicalizeValue :: "js_value \<Rightarrow> (canonical_error, canonical option) result" where
  "canonicalizeValue Undefined = Inr None"
| "canonicalizeValue Null = Inr (Some CNull)"
| "canonicalizeValue (Str s) = Inr (Some (CStr s))"
| "canonicalizeValue (Bool b) = Inr (Some (CBool b))"
| "canonicalizeValue (BigInt n) = Inr (Some (CStr (dec n)))"
| "canonicalizeValue NonFinite = Inl NotFinite"
| "canonicalizeValue (Num n) = Inr (Some (CNum n))"
| "canonicalizeValue (Date d) = (case d of None \<Rightarrow> Inl InvalidDate
     | Some t \<Rightarrow> Inr (Some (CStr (toISOString t))))"
| "canonicalizeValue Unsupported = Inl UnsupportedType"
| "canonicalizeValue (Arr vs) = rbind (collect (map canonicalizeValue vs))
     (\<lambda>cs. Inr (Some (CArr (map (\<lambda>c. case c of None \<Rightarrow> CNull | Some x \<Rightarrow> x) cs))))"
| "canonicalizeValue (Obj es) =
     rbind (collect (map keep_key (sort_key fst (map (map_prod id canonicalizeValue) es))))
       (\<lambda>cs. Inr (Some (CObj (concat (map present cs)))))"

text \<open>
  A canonical value as text.  An object lists its keys as \<open>order\<close> puts them and
  looks up the value of each.
\<close>

definition lookup :: "(ustring \<times> ustring) list \<Rightarrow> ustring \<Rightarrow> ustring" where
  "lookup texts key = (case map_of texts key of None \<Rightarrow> [] | Some t \<Rightarrow> t)"

definition entry_text :: "(ustring \<times> ustring) list \<Rightarrow> ustring \<Rightarrow> ustring" where
  "entry_text texts key = quote key @ ascii '':'' @ lookup texts key"

primrec encode :: "(ustring list \<Rightarrow> ustring list) \<Rightarrow> canonical \<Rightarrow> ustring" where
  "encode order CNull = ascii ''null''"
| "encode order (CStr s) = quote s"
| "encode order (CBool b) = (if b then ascii ''true'' else ascii ''false'')"
| "encode order (CNum n) = dec n"
| "encode order (CArr vs) = ascii ''['' @ join_with (ascii '','') (map (encode order) vs) @ ascii '']''"
| "encode order (CObj es) = ascii ''{'' @ join_with (ascii '','')
     (map (entry_text (map (map_prod id (encode order)) es)) (order (map fst es))) @ ascii ''}''"

definition serializeCanonicalValue :: "canonical \<Rightarrow> ustring" where
  "serializeCanonicalValue c = encode sort c"

fun is_object :: "js_value \<Rightarrow> bool" where
  "is_object (Obj es) = True"
| "is_object v = False"

definition canonicalAssetAccountingJson :: "js_value \<Rightarrow> (canonical_error, ustring) result" where
  "canonicalAssetAccountingJson v =
     (if \<not> is_object v then Inl RootNotObject
      else rbind (canonicalizeValue v) (\<lambda>c. case c of
          Some (CObj es) \<Rightarrow> Inr (serializeCanonicalValue (CObj es))
        | _ \<Rightarrow> Inl RootNotObject))"

text \<open>\<open>sha256\<close> is the hash function of the platform.\<close>

definition hashBusinessExceptionSnapshot ::
    "(ustring \<Rightarrow> ustring) \<Rightarrow> js_value \<Rightarrow> (canonical_error, ustring) result" where
  "hashBusinessExceptionSnapshot sha256 snapshot =
     rbind (canonicalAssetAccountingJson snapshot) (\<lambda>t. Inr (sha256 t))"

section \<open>Journey payloads\<close>

text \<open>Here nothing is converted or left out: what is not JSON is an error.\<close>

primrec canonicalJourneyJson :: "js_value \<Rightarrow> (canonical_error, canonical) result" where
  "canonicalJourneyJson Null = Inr CNull"
| "canonicalJourneyJson (Str s) = Inr (CStr s)"
| "canonicalJourneyJson (Bool b) = Inr (CBool b)"
| "canonicalJourneyJson (Num n) = Inr (CNum n)"
| "canonicalJourneyJson NonFinite = Inl NotFinite"
| "canonicalJourneyJson (Arr vs) = rbind (collect (map canonicalJourneyJson vs)) (\<lambda>cs. Inr (CArr cs))"
| "canonicalJourneyJson (Obj es) =
     rbind (collect (map keep_key (sort_key fst (map (map_prod id canonicalJourneyJson) es))))
       (\<lambda>cs. Inr (CObj cs))"
| "canonicalJourneyJson Undefined = Inl UnsupportedType"
| "canonicalJourneyJson (BigInt n) = Inl UnsupportedType"
| "canonicalJourneyJson (Date d) = Inl UnsupportedType"
| "canonicalJourneyJson Unsupported = Inl UnsupportedType"

text \<open>
  \<open>JSON.stringify\<close> lists the properties of an object as JavaScript orders them:
  array indices first, ascending, then the other keys as they were added.
\<close>

definition array_index :: "ustring \<Rightarrow> bool" where
  "array_index k = (k \<noteq> [] \<and> list_all is_digit k \<and> dec_nat (read_nat k) = k \<and> int (read_nat k) < 4294967295)"

definition own_keys_order :: "ustring list \<Rightarrow> ustring list" where
  "own_keys_order ks = sort_key read_nat (filter array_index ks)
     @ filter (\<lambda>k. \<not> array_index k) ks"

definition sameJourneyJson :: "js_value \<Rightarrow> js_value \<Rightarrow> (canonical_error, bool) result" where
  "sameJourneyJson left right =
     rbind (canonicalJourneyJson left) (\<lambda>l. rbind (canonicalJourneyJson right) (\<lambda>r.
       Inr (encode own_keys_order l = encode own_keys_order r)))"

section \<open>Texts determine canonical values\<close>

primrec canon_ok :: "canonical \<Rightarrow> bool" where
  "canon_ok CNull = True"
| "canon_ok (CBool b) = True"
| "canon_ok (CNum n) = True"
| "canon_ok (CStr s) = True"
| "canon_ok (CArr vs) = list_all id (map canon_ok vs)"
| "canon_ok (CObj es) = (sorted (map fst es) \<and> distinct (map fst es)
     \<and> list_all snd (map (map_prod id canon_ok) es))"

definition ends_value :: "ustring \<Rightarrow> bool" where
  "ends_value r = (r = [] \<or> hd r \<in> set [44, 93, 125])"

lemma ends_value_no_digit: "ends_value r \<Longrightarrow> no_digit r"
  by (auto simp: ends_value_def no_digit_def is_digit_def)

lemma ascii_units [simp]: "ascii '':'' = [58]" "ascii '','' = [44]" "ascii ''['' = [91]"
  "ascii '']'' = [93]" "ascii ''{'' = [123]" "ascii ''}'' = [125]"
  "ascii ''null'' = [110, 117, 108, 108]" "ascii ''true'' = [116, 114, 117, 101]"
  "ascii ''false'' = [102, 97, 108, 115, 101]"
  by (simp_all add: ascii_def)

fun tag :: "canonical \<Rightarrow> nat" where
  "tag CNull = 0"
| "tag (CBool b) = (if b then 1 else 2)"
| "tag (CStr s) = 3"
| "tag (CArr vs) = 4"
| "tag (CObj es) = 5"
| "tag (CNum n) = 6"

definition head_tag :: "16 word \<Rightarrow> nat" where
  "head_tag c = (if c = 110 then 0 else if c = 116 then 1 else if c = 102 then 2
     else if c = 34 then 3 else if c = 91 then 4 else if c = 123 then 5
     else if c = 45 \<or> is_digit c then 6 else 7)"

lemma dec_head: "dec n \<noteq> [] \<and> (hd (dec n) = 45 \<or> is_digit (hd (dec n)))"
proof -
  have "dec_nat k \<noteq> [] \<and> is_digit (hd (dec_nat k))" for k
    using dec_nat_digits [of k] dec_nat_plain [of k] by (meson list.set_sel(1))
  then show ?thesis by (simp add: dec_def)
qed

lemma encode_nonempty: "encode order v \<noteq> []"
  using dec_head by (cases v) (auto simp: quote_def)

lemma encode_tag: "head_tag (hd (encode order v)) = tag v"
proof (cases v)
  case (CNum n)
  then show ?thesis using dec_head [of n] by (auto simp: head_tag_def is_digit_def)
qed (auto simp: head_tag_def quote_def)

lemma encode_head: "hd (encode order v) \<notin> set [44, 93, 125]"
proof
  assume "hd (encode order v) \<in> set [44, 93, 125]"
  then have "head_tag (hd (encode order v)) = 7" by (auto simp: head_tag_def is_digit_def)
  then show False by (simp add: encode_tag) (cases v, auto split: if_splits)
qed

lemma encode_same_tag: "encode order v @ r = encode order w @ r' \<Longrightarrow> tag w = tag v"
  by (metis encode_tag encode_nonempty hd_append2)

lemma join_with_Cons:
  "join_with sep (x # xs) = x @ (if xs = [] then [] else sep @ join_with sep xs)"
  by (cases xs) auto

lemma join_unique:
  assumes close: "close = 93 \<or> close = 125"
    and step: "\<And>x y s s'. x \<in> set xs \<Longrightarrow> y \<in> set ys \<Longrightarrow> ends_value s \<Longrightarrow> ends_value s'
      \<Longrightarrow> f x @ s = g y @ s' \<Longrightarrow> Q x y \<and> s = s'"
    and f: "\<And>x. x \<in> set xs \<Longrightarrow> f x \<noteq> [] \<and> hd (f x) \<notin> set [44, 93, 125]"
    and g: "\<And>y. y \<in> set ys \<Longrightarrow> g y \<noteq> [] \<and> hd (g y) \<notin> set [44, 93, 125]"
    and eq: "join_with [44] (map f xs) @ close # r = join_with [44] (map g ys) @ close # r'"
  shows "list_all2 Q xs ys \<and> r = r'"
  using step f g eq
proof (induction xs arbitrary: ys)
  case Nil
  show ?case
  proof (cases ys)
    case (Cons y ys')
    then have "hd (g y) = close"
      using Nil(3) [of y] Nil(4) by (auto simp: join_with_Cons hd_append dest: arg_cong [where f = hd])
    then show ?thesis using Nil(3) [of y] Cons close by auto
  qed (use Nil in auto)
next
  case (Cons x xs)
  show ?case
  proof (cases ys)
    case Nil
    then have "hd (f x) = close"
      using Cons.prems(2) [of x] Cons.prems(4) by (auto simp: join_with_Cons hd_append dest: arg_cong [where f = hd])
    then show ?thesis using Cons.prems(2) [of x] close by auto
  next
    case ys: (Cons y ys')
    define s where "s = (if xs = [] then [] else [44] @ join_with [44] (map f xs)) @ close # r"
    define s' where "s' = (if ys' = [] then [] else [44] @ join_with [44] (map g ys')) @ close # r'"
    have e: "f x @ s = g y @ s'"
      using Cons.prems(4) by (simp add: ys join_with_Cons s_def s'_def)
    have "ends_value s" "ends_value s'" using close by (auto simp: ends_value_def s_def s'_def)
    then have step: "Q x y" "s = s'" using Cons.prems(1) [of x y s s'] e ys by auto
    have "list_all2 Q xs ys' \<and> r = r'"
    proof (cases "xs = [] \<or> ys' = []")
      case True
      then show ?thesis using step(2) close by (auto simp: s_def s'_def split: if_splits)
    next
      case False
      then have "join_with [44] (map f xs) @ close # r = join_with [44] (map g ys') @ close # r'"
        using step(2) by (simp add: s_def s'_def)
      then show ?thesis using Cons.prems(1-3) ys by (intro Cons.IH) auto
    qed
    then show ?thesis using step(1) ys by simp
  qed
qed

lemma map_of_sorted_eq:
  assumes "distinct (map fst es)" and "map fst es = map fst fs"
    and "\<And>k. k \<in> set (map fst es) \<Longrightarrow> map_of es k = map_of fs k"
  shows "es = fs"
proof (rule nth_equalityI)
  show len: "length es = length fs" using assms(2) by (metis length_map)
  fix i assume i: "i < length es"
  have k: "fst (es ! i) = fst (fs ! i)" using assms(2) i len by (metis nth_map)
  have "map_of es (fst (es ! i)) = Some (snd (es ! i))"
    using i assms(1) by (intro map_of_is_SomeI) auto
  moreover have "map_of fs (fst (fs ! i)) = Some (snd (fs ! i))"
    using i len assms(1,2) by (intro map_of_is_SomeI) auto
  ultimately show "es ! i = fs ! i"
    using assms(3) [of "fst (es ! i)"] i k by (metis nth_mem length_map nth_map option.inject prod_eq_iff)
qed

lemma map_of_map_prod: "map_of (map (map_prod id f) es) k = map_option f (map_of es k)"
  by (induction es) auto

lemma lookup_entry: "distinct (map fst es) \<Longrightarrow> (k, v) \<in> set es \<Longrightarrow>
    lookup (map (map_prod id f) es) k = f v"
  using map_of_is_SomeI [of es k v] by (simp add: lookup_def map_of_map_prod)

lemma entry_text_head: "entry_text texts k \<noteq> [] \<and> hd (entry_text texts k) \<notin> set [44, 93, 125]"
  by (auto simp: entry_text_def quote_def)

definition encodes_uniquely :: "(ustring list \<Rightarrow> ustring list) \<Rightarrow> canonical \<Rightarrow> bool" where
  "encodes_uniquely order v = (\<forall>w r r'. canon_ok w \<longrightarrow> ends_value r \<longrightarrow> ends_value r'
     \<longrightarrow> encode order v @ r = encode order w @ r' \<longrightarrow> v = w \<and> r = r')"

lemma encodes_uniquelyD:
  "encodes_uniquely order v \<Longrightarrow> canon_ok w \<Longrightarrow> ends_value r \<Longrightarrow> ends_value r'
    \<Longrightarrow> encode order v @ r = encode order w @ r' \<Longrightarrow> v = w \<and> r = r'"
  unfolding encodes_uniquely_def by blast

lemma entries_unique:
  assumes perm: "\<And>ks. set (order ks) = set ks"
    and es: "sorted (map fst es)" "distinct (map fst es)" "\<And>k v. (k, v) \<in> set es \<Longrightarrow> encodes_uniquely order v"
    and fs: "sorted (map fst fs)" "distinct (map fst fs)" "\<And>k v. (k, v) \<in> set fs \<Longrightarrow> canon_ok v"
    and eq: "encode order (CObj es) @ r = encode order (CObj fs) @ r'"
  shows "es = fs \<and> r = r'"
proof -
  let ?E = "map (map_prod id (encode order)) es" and ?F = "map (map_prod id (encode order)) fs"
  let ?Q = "\<lambda>k l. k = l \<and> map_of es k = map_of fs l"
  have "list_all2 ?Q (order (map fst es)) (order (map fst fs)) \<and> r = r'"
  proof (rule join_unique [where close = 125 and f = "entry_text ?E" and g = "entry_text ?F"])
    fix k l s s' assume k: "k \<in> set (order (map fst es))" and l: "l \<in> set (order (map fst fs))"
      and ends: "ends_value s" "ends_value s'" and e: "entry_text ?E k @ s = entry_text ?F l @ s'"
    obtain v where v: "(k, v) \<in> set es" using k perm by auto
    obtain w where w: "(l, w) \<in> set fs" using l perm by auto
    have "quote k @ [58] @ encode order v @ s = quote l @ [58] @ encode order w @ s'"
      using e lookup_entry [OF es(2) v] lookup_entry [OF fs(2) w] by (simp add: entry_text_def)
    then have "k = l" and "encode order v @ s = encode order w @ s'"
      by (auto dest: quote_unique)
    moreover from this have "v = w \<and> s = s'"
      using encodes_uniquelyD [OF es(3) [OF v] fs(3) [OF w] ends] by blast
    ultimately show "?Q k l \<and> s = s'"
      using map_of_is_SomeI [OF es(2) v] map_of_is_SomeI [OF fs(2) w] by simp
  qed (use entry_text_head eq in auto)
  then have rel: "list_all2 ?Q (order (map fst es)) (order (map fst fs))" and "r = r'" by auto
  have ks: "order (map fst es) = order (map fst fs)"
    using rel by (auto simp: list.rel_eq [symmetric] elim: list.rel_mono_strong)
  then have "set (map fst es) = set (map fst fs)" using perm by metis
  then have "map fst es = map fst fs" using es fs by (metis sorted_distinct_set_unique)
  moreover have "map_of es k = map_of fs k" if "k \<in> set (map fst es)" for k
  proof -
    have "k \<in> set (order (map fst es))" using perm \<open>k \<in> set (map fst es)\<close> by blast
    then obtain i where "i < length (order (map fst es))" "order (map fst es) ! i = k"
      by (auto simp: in_set_conv_nth)
    then show ?thesis using list_all2_nthD [OF rel, of i] ks by simp
  qed
  ultimately show ?thesis using es(2) map_of_sorted_eq [of es fs] \<open>r = r'\<close> by blast
qed

lemma encode_unique:
  assumes perm: "\<And>ks. set (order ks) = set ks"
  shows "canon_ok v \<Longrightarrow> encodes_uniquely order v"
proof (induction v)
  case CNull
  show ?case unfolding encodes_uniquely_def
  proof (intro allI impI)
    fix w r r' assume e: "encode order CNull @ r = encode order w @ r'"
    then have "tag w = tag CNull" by (blast intro: encode_same_tag)
    then show "CNull = w \<and> r = r'" using e by (cases w) (auto split: if_splits)
  qed
next
  case (CBool b)
  show ?case unfolding encodes_uniquely_def
  proof (intro allI impI)
    fix w r r' assume e: "encode order (CBool b) @ r = encode order w @ r'"
    then have "tag w = tag (CBool b)" by (blast intro: encode_same_tag)
    then show "CBool b = w \<and> r = r'" using e by (cases w) (auto split: if_splits)
  qed
next
  case (CNum n)
  show ?case unfolding encodes_uniquely_def
  proof (intro allI impI)
    fix w r r' assume e: "encode order (CNum n) @ r = encode order w @ r'" "ends_value r" "ends_value r'"
    then have "tag w = tag (CNum n)" by (blast intro: encode_same_tag)
    then show "CNum n = w \<and> r = r'" using e dec_unique [of n r _ r'] ends_value_no_digit
      by (cases w) (auto split: if_splits)
  qed
next
  case (CStr s)
  show ?case unfolding encodes_uniquely_def
  proof (intro allI impI)
    fix w r r' assume e: "encode order (CStr s) @ r = encode order w @ r'"
    then have "tag w = tag (CStr s)" by (blast intro: encode_same_tag)
    then show "CStr s = w \<and> r = r'" using e quote_unique [of s r _ r']
      by (cases w) (auto split: if_splits)
  qed
next
  case (CArr vs)
  show ?case unfolding encodes_uniquely_def
  proof (intro allI impI)
    fix w r r' assume w: "canon_ok w" and e: "encode order (CArr vs) @ r = encode order w @ r'"
    then have "tag w = tag (CArr vs)" by (blast intro: encode_same_tag)
    then obtain ws where ws: "w = CArr ws" by (cases w) (auto split: if_splits)
    have "list_all2 (=) vs ws \<and> r = r'"
    proof (rule join_unique [where close = 93 and f = "encode order" and g = "encode order"])
      fix x y s s' assume "x \<in> set vs" "y \<in> set ws" "ends_value s" "ends_value s'"
        "encode order x @ s = encode order y @ s'"
      moreover have "encodes_uniquely order x" "canon_ok y"
        using CArr \<open>x \<in> set vs\<close> \<open>y \<in> set ws\<close> w ws by (auto simp: list_all_iff)
      ultimately show "x = y \<and> s = s'" by (blast dest: encodes_uniquelyD)
    qed (use encode_nonempty encode_head e ws in auto)
    then show "CArr vs = w \<and> r = r'" using ws by (simp add: list.rel_eq)
  qed
next
  case (CObj es)
  show ?case unfolding encodes_uniquely_def
  proof (intro allI impI)
    fix w r r' assume w: "canon_ok w" and e: "encode order (CObj es) @ r = encode order w @ r'"
    then have "tag w = tag (CObj es)" by (blast intro: encode_same_tag)
    then obtain fs where fs: "w = CObj fs" by (cases w) (auto split: if_splits)
    have "encodes_uniquely order v" if "(k, v) \<in> set es" for k v
      using CObj \<open>(k, v) \<in> set es\<close> by (force simp: list_all_iff)
    then show "CObj es = w \<and> r = r'"
      using entries_unique [OF perm, of es fs r r'] CObj.prems w e fs by (force simp: list_all_iff)
  qed
qed

section \<open>What a value means\<close>

datatype jvalue = VNull | VBool bool | VNum int | VStr ustring | VArr "jvalue list"
  | VObj "(ustring, jvalue) fmap"

primrec meaning :: "canonical \<Rightarrow> jvalue" where
  "meaning CNull = VNull"
| "meaning (CBool b) = VBool b"
| "meaning (CNum n) = VNum n"
| "meaning (CStr s) = VStr s"
| "meaning (CArr vs) = VArr (map meaning vs)"
| "meaning (CObj es) = VObj (fmap_of_list (map (map_prod id meaning) es))"

text \<open>
  The meaning of a JavaScript value, \<open>None\<close> for a property that is left out:
  dates and big integers are their texts, an undefined array element is null.
\<close>

primrec value_of :: "js_value \<Rightarrow> jvalue option" where
  "value_of Undefined = None"
| "value_of NonFinite = None"
| "value_of Unsupported = None"
| "value_of Null = Some VNull"
| "value_of (Bool b) = Some (VBool b)"
| "value_of (Num n) = Some (VNum n)"
| "value_of (BigInt n) = Some (VStr (dec n))"
| "value_of (Str s) = Some (VStr s)"
| "value_of (Date d) = map_option (\<lambda>t. VStr (toISOString t)) d"
| "value_of (Arr vs) = Some (VArr (map (\<lambda>x. case x of None \<Rightarrow> VNull | Some y \<Rightarrow> y) (map value_of vs)))"
| "value_of (Obj es) = Some (VObj (fmap_of_list (concat (map present (map (map_prod id value_of) es)))))"

text \<open>The keys of an object are distinct.\<close>

primrec js_ok :: "js_value \<Rightarrow> bool" where
  "js_ok Undefined = True"
| "js_ok NonFinite = True"
| "js_ok Unsupported = True"
| "js_ok Null = True"
| "js_ok (Bool b) = True"
| "js_ok (Num n) = True"
| "js_ok (BigInt n) = True"
| "js_ok (Str s) = True"
| "js_ok (Date d) = True"
| "js_ok (Arr vs) = list_all id (map js_ok vs)"
| "js_ok (Obj es) = (distinct (map fst es) \<and> list_all snd (map (map_prod id js_ok) es))"

lemma collect_Inr: "collect rs = Inr xs \<longleftrightarrow> rs = map Inr xs"
  by (induction rs arbitrary: xs) auto

lemma collect_keys: "collect (map keep_key ps) = Inr cs \<longleftrightarrow> ps = map (map_prod id Inr) cs"
proof (induction ps arbitrary: cs)
  case (Cons p ps)
  then show ?case by (cases p) auto
qed auto

lemma set_present: "(k, x) \<in> set (concat (map present cs)) \<longleftrightarrow> (k, Some x) \<in> set cs"
proof (induction cs)
  case (Cons c cs)
  then show ?case by (cases c; cases "snd c") auto
qed simp

lemma keys_of_present: "map fst (concat (map present cs)) = map fst (filter (\<lambda>c. snd c \<noteq> None) cs)"
proof (induction cs)
  case (Cons c cs)
  then show ?case by (cases c; cases "snd c") auto
qed simp

lemma keys_present: "distinct (map fst cs) \<Longrightarrow> distinct (map fst (concat (map present cs)))"
  unfolding keys_of_present by (rule distinct_map_filter)

lemma sorted_present: "sorted (map fst cs) \<Longrightarrow> sorted (map fst (concat (map present cs)))"
  unfolding keys_of_present by (rule sorted_filter)

lemma map_prod_mem: "(k, b) \<in> set (map (map_prod id f) es) \<longleftrightarrow> (\<exists>v. (k, v) \<in> set es \<and> f v = b)"
  by (induction es) auto

lemma sorted_entries:
  fixes f :: "'v \<Rightarrow> ('e, 'c) result"
  assumes "sort_key fst (map (map_prod id f) es) = map (map_prod id Inr) cs" and "distinct (map fst es)"
  shows "sorted (map fst cs)" "distinct (map fst cs)"
    "(k, c) \<in> set cs \<longleftrightarrow> (\<exists>v. (k, v) \<in> set es \<and> f v = Inr c)"
proof -
  have keys: "map fst cs = map fst (sort_key fst (map (map_prod id f) es))"
    by (simp add: assms(1) comp_def)
  then show "sorted (map fst cs)" by simp
  have "distinct (map fst (map (map_prod id f) es))" using assms(2) by (simp add: comp_def)
  then show "distinct (map fst cs)" unfolding keys by (metis distinct_map distinct_sort set_sort)
  have m: "set (map (map_prod id f) es) = set (map (map_prod id Inr) cs)"
    using assms(1) by (metis set_sort)
  have "(k, Inr c :: ('e, 'c) result) \<in> set (map (map_prod id f) es)
      \<longleftrightarrow> (k, Inr c :: ('e, 'c) result) \<in> set (map (map_prod id Inr) cs)"
    unfolding m by (rule refl)
  then show "(k, c) \<in> set cs \<longleftrightarrow> (\<exists>v. (k, v) \<in> set es \<and> f v = Inr c)"
    unfolding map_prod_mem by simp
qed

lemma fmap_of_list_eqI:
  assumes "distinct (map fst xs)" "distinct (map fst ys)" "set xs = set ys"
  shows "fmap_of_list xs = fmap_of_list ys"
  using map_of_inject_set [OF assms(1,2)] assms(3) by (intro fmap_ext) (simp add: fmlookup_of_list)

lemma keys_map_prod [simp]: "map fst (map (map_prod id f) es) = map fst es"
  by (simp add: comp_def)

lemma canon_ok_CObj: "canon_ok (CObj fs) \<longleftrightarrow> sorted (map fst fs) \<and> distinct (map fst fs)
    \<and> (\<forall>k v. (k, v) \<in> set fs \<longrightarrow> canon_ok v)"
  by (force simp: list_all_iff)

definition canonical_of :: "js_value \<Rightarrow> canonical option \<Rightarrow> bool" where
  "canonical_of v c = (map_option meaning c = value_of v \<and> (\<forall>x. c = Some x \<longrightarrow> canon_ok x))"

lemma object_canonical:
  fixes f :: "js_value \<Rightarrow> (canonical_error, canonical option) result"
  assumes cs: "sorted (map fst cs)" "distinct (map fst cs)" and dist: "distinct (map fst es)"
    and mem: "\<And>k c. (k, c) \<in> set cs \<longleftrightarrow> (\<exists>v. (k, v) \<in> set es \<and> f v = Inr c)"
    and all: "\<And>k v. (k, v) \<in> set es \<Longrightarrow> \<exists>c. f v = Inr c"
    and IH: "\<And>k v c. (k, v) \<in> set es \<Longrightarrow> f v = Inr c \<Longrightarrow> canonical_of v c"
  shows "canonical_of (Obj es) (Some (CObj (concat (map present cs))))"
proof -
  have "canon_ok x" if "(k, Some x) \<in> set cs" for k x
    using mem IH \<open>(k, Some x) \<in> set cs\<close> by (force simp: canonical_of_def)
  then have ok: "canon_ok (CObj (concat (map present cs)))"
    unfolding canon_ok_CObj set_present
    using sorted_present [OF cs(1)] keys_present [OF cs(2)] by blast
  have "(k, y) \<in> set (map (map_prod id meaning) (concat (map present cs)))
      \<longleftrightarrow> (k, y) \<in> set (concat (map present (map (map_prod id value_of) es)))" for k y
  proof -
    have "(k, y) \<in> set (map (map_prod id meaning) (concat (map present cs)))
        \<longleftrightarrow> (\<exists>x. (k, Some x) \<in> set cs \<and> meaning x = y)"
      unfolding map_prod_mem set_present by blast
    also have "\<dots> \<longleftrightarrow> (\<exists>v. (k, v) \<in> set es \<and> value_of v = Some y)"
    proof
      assume "\<exists>x. (k, Some x) \<in> set cs \<and> meaning x = y"
      then obtain x where x: "(k, Some x) \<in> set cs" "meaning x = y" by blast
      then obtain v where "(k, v) \<in> set es" "f v = Inr (Some x)"
        using mem [of k "Some x"] by blast
      then show "\<exists>v. (k, v) \<in> set es \<and> value_of v = Some y"
        using IH [of k v "Some x"] x(2) by (auto simp: canonical_of_def)
    next
      assume "\<exists>v. (k, v) \<in> set es \<and> value_of v = Some y"
      then obtain v where v: "(k, v) \<in> set es" "value_of v = Some y" by blast
      then obtain c where c: "f v = Inr c" using all [OF v(1)] by blast
      then show "\<exists>x. (k, Some x) \<in> set cs \<and> meaning x = y"
        using IH [OF v(1) c] v mem [of k c] by (auto simp: canonical_of_def)
    qed
    also have "\<dots> \<longleftrightarrow> (k, y) \<in> set (concat (map present (map (map_prod id value_of) es)))"
      unfolding set_present map_prod_mem by (rule refl)
    finally show ?thesis .
  qed
  then have sets: "set (map (map_prod id meaning) (concat (map present cs)))
      = set (concat (map present (map (map_prod id value_of) es)))" by (intro set_eqI) (metis surj_pair)
  have "fmap_of_list (map (map_prod id meaning) (concat (map present cs)))
      = fmap_of_list (concat (map present (map (map_prod id value_of) es)))"
  proof (rule fmap_of_list_eqI [OF _ _ sets])
    show "distinct (map fst (map (map_prod id meaning) (concat (map present cs))))"
      unfolding keys_map_prod by (rule keys_present [OF cs(2)])
    show "distinct (map fst (concat (map present (map (map_prod id value_of) es))))"
      by (rule keys_present) (unfold keys_map_prod, rule dist)
  qed
  then show ?thesis using ok by (simp add: canonical_of_def)
qed

lemma canonicalizeValue_meaning:
  "js_ok v \<Longrightarrow> canonicalizeValue v = Inr c \<Longrightarrow> canonical_of v c"
proof (induction v arbitrary: c)
  case (Arr vs)
  then obtain cs where cs: "map canonicalizeValue vs = map Inr cs"
    "c = Some (CArr (map (\<lambda>c. case c of None \<Rightarrow> CNull | Some x \<Rightarrow> x) cs))"
    by (auto simp: collect_Inr)
  have "list_all2 canonical_of vs cs"
    unfolding list_all2_conv_all_nth
  proof (intro conjI allI impI)
    show len: "length vs = length cs" using cs(1) by (metis length_map)
    fix i assume i: "i < length vs"
    then have "canonicalizeValue (vs ! i) = Inr (cs ! i)" using cs(1) len by (metis nth_map)
    then show "canonical_of (vs ! i) (cs ! i)" using Arr i by (simp add: list_all_iff)
  qed
  then show ?case unfolding cs(2)
  proof (induction rule: list_all2_induct)
    case (Cons v vs c cs)
    then show ?case by (auto simp: canonical_of_def split: option.splits)
  qed (simp add: canonical_of_def)
next
  case (Obj es)
  then obtain cs where cs: "sort_key fst (map (map_prod id canonicalizeValue) es) = map (map_prod id Inr) cs"
    "c = Some (CObj (concat (map present cs)))"
    by (auto simp: collect_keys)
  have dist: "distinct (map fst es)" using Obj.prems by simp
  note ent = sorted_entries [OF cs(1) dist]
  have IH: "canonical_of v c" if "(k, v) \<in> set es" "canonicalizeValue v = Inr c" for k v c
    using Obj.IH [OF \<open>(k, v) \<in> set es\<close>] Obj.prems \<open>(k, v) \<in> set es\<close> \<open>canonicalizeValue v = Inr c\<close>
    by (force simp: list_all_iff)
  have all: "\<exists>c. canonicalizeValue v = Inr c" if "(k, v) \<in> set es" for k v
  proof -
    have "(k, canonicalizeValue v) \<in> set (map (map_prod id Inr) cs)"
      unfolding cs(1) [symmetric] set_sort map_prod_mem using \<open>(k, v) \<in> set es\<close> by blast
    then show ?thesis by auto
  qed
  show ?case unfolding cs(2) using ent(3)
    by (intro object_canonical [where f = canonicalizeValue] ent(1,2) dist all IH) blast+
qed (auto simp: canonical_of_def split: option.splits)

lemma meaning_inject:
  "canon_ok v \<Longrightarrow> canon_ok w \<Longrightarrow> meaning v = meaning w \<Longrightarrow> v = w"
proof (induction v arbitrary: w)
  case (CArr vs)
  then obtain ws where w: "w = CArr ws" "map meaning vs = map meaning ws" by (cases w) auto
  have len: "length vs = length ws" using w(2) by (metis length_map)
  have "vs = ws"
  proof (rule nth_equalityI [OF len])
    fix i assume i: "i < length vs"
    then have "meaning (vs ! i) = meaning (ws ! i)" using w(2) len by (metis nth_map)
    then show "vs ! i = ws ! i" using CArr i len w(1) by (simp add: list_all_iff)
  qed
  then show ?case using w(1) by simp
next
  case (CObj es)
  then obtain fs where w: "w = CObj fs"
    "fmap_of_list (map (map_prod id meaning) es) = fmap_of_list (map (map_prod id meaning) fs)"
    by (cases w) auto
  have ok: "sorted (map fst es)" "distinct (map fst es)" "sorted (map fst fs)" "distinct (map fst fs)"
    using CObj.prems w(1) by simp_all
  have eq: "map_option meaning (map_of es k) = map_option meaning (map_of fs k)" for k
    using arg_cong [OF w(2), of "\<lambda>m. fmlookup m k"] by (simp add: fmlookup_of_list map_of_map_prod)
  then have "set (map fst es) = set (map fst fs)"
    by (metis (no_types, lifting) map_of_eq_None_iff option.map_disc_iff set_map subsetI subset_antisym)
  then have keys: "map fst es = map fst fs" using ok by (metis sorted_distinct_set_unique)
  have "map_of es k = map_of fs k" for k
  proof (cases "map_of es k")
    case (Some v)
    then obtain u where u: "map_of fs k = Some u" "meaning v = meaning u"
      using eq [of k] by (cases "map_of fs k") auto
    have mem: "(k, v) \<in> set es" "(k, u) \<in> set fs" using Some u(1) by (auto dest: map_of_SomeD)
    have "canon_ok v" using CObj.prems(1) mem(1) unfolding canon_ok_CObj by blast
    moreover have "canon_ok u" using CObj.prems(2) mem(2) unfolding w(1) canon_ok_CObj by blast
    ultimately have "v = u" using CObj.IH [OF mem(1), of v u] u(2) by (simp add: snds.intros)
    then show ?thesis using Some u(1) by simp
  next
    case None
    then show ?thesis using eq [of k] by simp
  qed
  then show ?case using map_of_sorted_eq [OF ok(2) keys] w(1) by blast
next
  case CNull then show ?case by (cases w) auto
next
  case (CBool b) then show ?case by (cases w) auto
next
  case (CNum n) then show ?case by (cases w) auto
next
  case (CStr s) then show ?case by (cases w) auto
qed

section \<open>Equal texts, equal meanings\<close>

lemma set_sort_id: "set (sort ks) = set (ks :: ustring list)"
  by simp

lemma set_own_keys_order: "set (own_keys_order ks) = set ks"
  by (auto simp: own_keys_order_def)

lemma encode_inject:
  assumes "\<And>ks. set (order ks) = set ks" and "canon_ok v" and "canon_ok w"
    and "encode order v = encode order w"
  shows "v = w"
  using encodes_uniquelyD [OF encode_unique [OF assms(1,2)] assms(3), of "[]" "[]"] assms(4)
  by (simp add: ends_value_def)

lemma text_of_object:
  assumes "canonicalAssetAccountingJson v = Inr s" and "js_ok v"
  obtains c where "s = serializeCanonicalValue c" "canon_ok c" "value_of v = Some (meaning c)"
proof -
  obtain es where c: "canonicalizeValue v = Inr (Some (CObj es))" "s = serializeCanonicalValue (CObj es)"
    using assms(1) unfolding canonicalAssetAccountingJson_def
    by (cases "canonicalizeValue v") (auto split: if_splits option.splits canonical.splits)
  then show thesis
    using that [of "CObj es"] canonicalizeValue_meaning [OF assms(2) c(1)] by (simp add: canonical_of_def)
qed

text \<open>
  C29 Two snapshots have the same canonical text, and so the same hash input, exactly when they
  mean the same: the same properties with the same values, in whatever order they were built,
  with undefined properties absent.
\<close>
theorem canonical_text_iff_meaning:
  assumes "js_ok v" and "js_ok w"
    and "canonicalAssetAccountingJson v = Inr s" and "canonicalAssetAccountingJson w = Inr t"
  shows "s = t \<longleftrightarrow> value_of v = value_of w"
proof -
  obtain c where c: "s = serializeCanonicalValue c" "canon_ok c" "value_of v = Some (meaning c)"
    using assms by (auto elim: text_of_object)
  obtain d where d: "t = serializeCanonicalValue d" "canon_ok d" "value_of w = Some (meaning d)"
    using assms by (auto elim: text_of_object)
  have "s = t \<Longrightarrow> c = d"
    using encode_inject [of sort c d] c d by (simp add: serializeCanonicalValue_def)
  moreover have "meaning c = meaning d \<Longrightarrow> c = d" using meaning_inject c d by blast
  ultimately show ?thesis using c d by auto
qed

theorem canonical_text_iff_meaning_witness:
  "\<exists>s t. canonicalAssetAccountingJson (Obj [(ascii ''b'', BigInt 5), (ascii ''a'', Undefined)]) = Inr s
    \<and> canonicalAssetAccountingJson (Obj [(ascii ''b'', Str (ascii ''5''))]) = Inr t
    \<and> (s = t \<longleftrightarrow> value_of (Obj [(ascii ''b'', BigInt 5), (ascii ''a'', Undefined)])
          = value_of (Obj [(ascii ''b'', Str (ascii ''5''))]))"
proof -
  have ok: "js_ok (Obj [(ascii ''b'', BigInt 5), (ascii ''a'', Undefined)])"
    "js_ok (Obj [(ascii ''b'', Str (ascii ''5''))])" by code_simp+
  have texts: "canonicalAssetAccountingJson (Obj [(ascii ''b'', BigInt 5), (ascii ''a'', Undefined)])
      = Inr (ascii ''{\"b\":\"5\"}'')"
    "canonicalAssetAccountingJson (Obj [(ascii ''b'', Str (ascii ''5''))]) = Inr (ascii ''{\"b\":\"5\"}'')"
    by code_simp+
  show ?thesis using texts canonical_text_iff_meaning [OF ok texts] by blast
qed

lemma map_sum_Inr:
  assumes "map_sum id f r = Inr c" obtains x where "r = Inr x" "c = f x"
  using assms by (cases r) auto

lemma canonicalJourneyJson_meaning:
  "js_ok v \<Longrightarrow> canonicalJourneyJson v = Inr c \<Longrightarrow> canonical_of v (Some c)"
proof (induction v arbitrary: c)
  case (Arr vs)
  then obtain cs where cs: "map canonicalJourneyJson vs = map Inr cs" "c = CArr cs"
    by (auto simp: collect_Inr)
  have "list_all2 (\<lambda>v x. canonical_of v (Some x)) vs cs"
    unfolding list_all2_conv_all_nth
  proof (intro conjI allI impI)
    show len: "length vs = length cs" using cs(1) by (metis length_map)
    fix i assume i: "i < length vs"
    then have "canonicalJourneyJson (vs ! i) = Inr (cs ! i)" using cs(1) len by (metis nth_map)
    then show "canonical_of (vs ! i) (Some (cs ! i))" using Arr i by (simp add: list_all_iff)
  qed
  then show ?case unfolding cs(2)
  proof (induction rule: list_all2_induct)
    case (Cons v vs c cs)
    then show ?case by (auto simp: canonical_of_def dest!: sym [where s = "Some _"])
  qed (simp add: canonical_of_def)
next
  case (Obj es)
  then obtain cs where cs: "sort_key fst (map (map_prod id canonicalJourneyJson) es) = map (map_prod id Inr) cs"
    "c = CObj cs"
    by (auto simp: collect_keys)
  have dist: "distinct (map fst es)" using Obj.prems by simp
  note ent = sorted_entries [OF cs(1) dist]
  have IH: "canonical_of v (Some c)" if "(k, v) \<in> set es" "canonicalJourneyJson v = Inr c" for k v c
    using Obj.IH [OF \<open>(k, v) \<in> set es\<close>] Obj.prems \<open>(k, v) \<in> set es\<close> \<open>canonicalJourneyJson v = Inr c\<close>
    by (force simp: list_all_iff)
  have all: "\<exists>c. canonicalJourneyJson v = Inr c" if "(k, v) \<in> set es" for k v
  proof -
    have "(k, canonicalJourneyJson v) \<in> set (map (map_prod id Inr) cs)"
      unfolding cs(1) [symmetric] set_sort map_prod_mem using \<open>(k, v) \<in> set es\<close> by blast
    then show ?thesis by auto
  qed
  have "canonical_of (Obj es) (Some (CObj (concat (map present (map (map_prod id Some) cs)))))"
  proof (rule object_canonical [where f = "\<lambda>v. map_sum id Some (canonicalJourneyJson v)"])
    fix k c show "(k, c) \<in> set (map (map_prod id Some) cs)
        \<longleftrightarrow> (\<exists>v. (k, v) \<in> set es \<and> map_sum id Some (canonicalJourneyJson v) = Inr c)"
      unfolding map_prod_mem ent(3) by (fastforce elim: map_sum_Inr)
  next
    fix k v assume "(k, v) \<in> set es"
    then show "\<exists>c. map_sum id Some (canonicalJourneyJson v) = Inr c" using all by fastforce
  next
    fix k v c assume "(k, v) \<in> set es" "map_sum id Some (canonicalJourneyJson v) = Inr c"
    then show "canonical_of v c" using IH by (auto elim: map_sum_Inr)
  qed (use ent(1,2) dist in simp_all)
  moreover have "concat (map present (map (map_prod id Some) cs)) = cs" by (induction cs) auto
  ultimately show ?case using cs(2) by simp
qed (auto simp: canonical_of_def)

text \<open>
  Comparing journey payloads through their canonical texts decides whether they mean the same.
\<close>
theorem sameJourneyJson_decides:
  assumes "js_ok l" and "js_ok r" and "sameJourneyJson l r = Inr b"
  shows "b \<longleftrightarrow> value_of l = value_of r"
proof -
  obtain c d where c: "canonicalJourneyJson l = Inr c" "canonicalJourneyJson r = Inr d"
    "b = (encode own_keys_order c = encode own_keys_order d)"
    using assms(3) by (auto simp: sameJourneyJson_def)
  have m: "value_of l = Some (meaning c)" "canon_ok c" "value_of r = Some (meaning d)" "canon_ok d"
    using canonicalJourneyJson_meaning assms(1,2) c(1,2) by (fastforce simp: canonical_of_def)+
  then have "encode own_keys_order c = encode own_keys_order d \<Longrightarrow> c = d"
    using encode_inject [of own_keys_order c d] set_own_keys_order by blast
  moreover have "meaning c = meaning d \<Longrightarrow> c = d" using meaning_inject m by blast
  ultimately show ?thesis using c(3) m by auto
qed

theorem sameJourneyJson_decides_witness:
  "\<exists>b. sameJourneyJson (Obj [(ascii ''x'', Num 1), (ascii ''10'', Null), (ascii ''9'', Arr [])])
         (Obj [(ascii ''9'', Arr []), (ascii ''10'', Null), (ascii ''x'', Num 1)]) = Inr b
     \<and> (b \<longleftrightarrow> value_of (Obj [(ascii ''x'', Num 1), (ascii ''10'', Null), (ascii ''9'', Arr [])])
          = value_of (Obj [(ascii ''9'', Arr []), (ascii ''10'', Null), (ascii ''x'', Num 1)]))"
proof -
  let ?l = "Obj [(ascii ''x'', Num 1), (ascii ''10'', Null), (ascii ''9'', Arr [])]"
  let ?r = "Obj [(ascii ''9'', Arr []), (ascii ''10'', Null), (ascii ''x'', Num 1)]"
  have ok: "js_ok ?l" "js_ok ?r" by code_simp+
  have same: "sameJourneyJson ?l ?r = Inr True" by code_simp
  show ?thesis using same sameJourneyJson_decides [OF ok same] by blast
qed

end
