(* ===== verification/JourneySafety.thy ===== *)
theory JourneySafety
  imports CanonicalJson
begin

text \<open>
  What the journey repository lets into its tables: \<open>assertSafePayload\<close> and
  \<open>safeFailure\<close> of \<open>subscription-journey.repository.ts\<close>.  The regular
  expressions of \<open>unsafeText\<close> are values of a small type \<open>rx\<close> with the
  matching of JavaScript: \<open>ends r s i\<close> lists where a match of \<open>r\<close> that starts
  at position \<open>i\<close> of \<open>s\<close> may end.  Letters are compared and folded as ASCII,
  as the flag \<open>i\<close> does for the characters of these expressions.
\<close>

section \<open>Regular expressions\<close>

datatype rx = Sat "16 word \<Rightarrow> bool" | Rep "16 word \<Rightarrow> bool" nat "nat option" | WordBoundary
  | Seq rx rx | Alt rx rx

definition lower :: "16 word \<Rightarrow> 16 word" where
  "lower c = (if 65 \<le> c \<and> c \<le> 90 then c + 32 else c)"

definition upper :: "16 word \<Rightarrow> 16 word" where
  "upper c = (if 97 \<le> c \<and> c \<le> 122 then c - 32 else c)"

definition is_digit_unit :: "16 word \<Rightarrow> bool" where
  "is_digit_unit c = (48 \<le> c \<and> c \<le> 57)"

definition is_letter :: "16 word \<Rightarrow> bool" where
  "is_letter c = (97 \<le> lower c \<and> lower c \<le> 122)"

definition is_alnum :: "16 word \<Rightarrow> bool" where
  "is_alnum c = (is_letter c \<or> is_digit_unit c)"

definition is_word_unit :: "16 word \<Rightarrow> bool" where
  "is_word_unit c = (is_alnum c \<or> c = 95)"

definition word_at :: "ustring \<Rightarrow> nat \<Rightarrow> bool" where
  "word_at s i = (i < length s \<and> is_word_unit (s ! i))"

primrec ends :: "rx \<Rightarrow> ustring \<Rightarrow> nat \<Rightarrow> nat list" where
  "ends (Sat p) s i = (if i < length s \<and> p (s ! i) then [Suc i] else [])"
| "ends (Rep p lo hi) s i =
     (let run = length (takeWhile p (drop i s));
          most = (case hi of None \<Rightarrow> run | Some h \<Rightarrow> min h run)
      in map (\<lambda>n. i + n) [lo ..< Suc most])"
| "ends WordBoundary s i =
     (if (0 < i \<and> word_at s (i - 1)) \<noteq> word_at s i then [i] else [])"
| "ends (Seq a b) s i = concat (map (ends b s) (ends a s i))"
| "ends (Alt a b) s i = ends a s i @ ends b s i"

text \<open>\<open>r.test(s)\<close>.\<close>

definition rx_test :: "rx \<Rightarrow> ustring \<Rightarrow> bool" where
  "rx_test r s = list_ex (\<lambda>i. ends r s i \<noteq> []) [0 ..< Suc (length s)]"

text \<open>A literal in any case, alternatives, and a sequence.\<close>

fun literal :: "string \<Rightarrow> rx" where
  "literal [] = Rep (\<lambda>_. True) 0 (Some 0)"
| "literal (c # cs) = Seq (Sat (\<lambda>u. lower u = of_nat (of_char c))) (literal cs)"

fun one_of :: "rx list \<Rightarrow> rx" where
  "one_of [] = Sat (\<lambda>_. False)"
| "one_of (r # rs) = Alt r (one_of rs)"

definition spaces :: rx where "spaces = Rep is_space 0 None"

definition CREDENTIALS :: rx where
  "CREDENTIALS = Seq WordBoundary (Seq (one_of (map literal [''bearer'', ''basic'']))
     (Seq (Rep is_space 1 None)
        (Rep (\<lambda>c. is_alnum c \<or> c \<in> set [43, 47, 95, 61, 46, 45]) 1 None)))"

definition LABELLED_SECRET :: rx where
  "LABELLED_SECRET = Seq WordBoundary (Seq
     (one_of [literal ''password'', literal ''secret'', literal ''token'', literal ''authorization'',
        literal ''cookie'', Seq (literal ''id'') (Seq spaces (literal ''card'')),
        Seq (literal ''bank'') (Seq spaces (literal ''card'')),
        Seq (literal ''card'') (Seq spaces (literal ''number'')),
        literal ''cvv'', literal ''phone'', literal ''mobile''])
     (Seq spaces (Sat (\<lambda>c. c = 58 \<or> c = 61))))"

definition MOBILE_NUMBER :: rx where
  "MOBILE_NUMBER = Seq WordBoundary (Seq (Sat (\<lambda>c. c = 49)) (Seq (Sat (\<lambda>c. 51 \<le> c \<and> c \<le> 57))
     (Seq (Rep is_digit_unit 9 (Some 9)) WordBoundary)))"

definition CARD_NUMBER :: rx where
  "CARD_NUMBER = Seq WordBoundary (Seq (Rep is_digit_unit 13 (Some 19)) WordBoundary)"

text \<open>The last test, \<open>/^\s*(?:\[|\{)/\<close>, is anchored at the start.\<close>

definition STRUCTURED :: rx where
  "STRUCTURED = Seq spaces (Sat (\<lambda>c. c = 91 \<or> c = 123))"

definition unsafeText :: "ustring \<Rightarrow> bool" where
  "unsafeText value = (let trimmed = trim value in
     if trimmed = [] then False
     else if rx_test CREDENTIALS trimmed then True
     else if rx_test LABELLED_SECRET trimmed then True
     else if rx_test MOBILE_NUMBER trimmed then True
     else if rx_test CARD_NUMBER trimmed then True
     else if ends STRUCTURED trimmed 0 \<noteq> [] then True
     else False)"

section \<open>Payloads\<close>

definition FORBIDDEN_KEYS :: "ustring list" where
  "FORBIDDEN_KEYS = map ascii [''accesstoken'', ''authorization'', ''cookie'', ''credential'',
     ''credentials'', ''customerphone'', ''headers'', ''idcard'', ''identitynumber'', ''bankcard'',
     ''cardnumber'', ''callbackbody'', ''cvv'', ''password'', ''privatekey'', ''providerbody'',
     ''providerresponse'', ''providertoken'', ''rawbody'', ''rawpayload'', ''rawresponse'',
     ''requestheaders'', ''responseheaders'', ''refreshtoken'', ''secret'', ''token'']"

definition normalized_key :: "ustring \<Rightarrow> ustring" where
  "normalized_key key = map lower (filter is_alnum key)"

datatype journey_error = JOURNEY_NOT_FOUND | JOURNEY_INVALID_TRANSITION
  | JOURNEY_OPTIMISTIC_LOCK_CONFLICT | JOURNEY_IDEMPOTENCY_CONFLICT | JOURNEY_SENSITIVE_PAYLOAD
  | JOURNEY_LEASE_LOST | JOURNEY_MANUAL_TASK_ALREADY_OPEN | INVALID_JSON canonical_error
  | UNIQUE_CONFLICT | RETRY_DELAY_RANGE | ADMIN_REJECTED string

fun each :: "('e, unit) result list \<Rightarrow> ('e, unit) result" where
  "each [] = Inr ()"
| "each (r # rs) = rbind r (\<lambda>_. each rs)"

text \<open>One property after another: its name, then its value.\<close>

definition check_entry ::
    "ustring \<times> (journey_error, unit) result \<Rightarrow> (journey_error, unit) result" where
  "check_entry e = rbind (ensure (normalized_key (fst e) \<notin> set FORBIDDEN_KEYS) JOURNEY_SENSITIVE_PAYLOAD)
     (\<lambda>_. snd e)"

primrec assertSafePayload :: "js_value \<Rightarrow> (journey_error, unit) result" where
  "assertSafePayload (Str s) = ensure (\<not> unsafeText s) JOURNEY_SENSITIVE_PAYLOAD"
| "assertSafePayload Null = Inr ()"
| "assertSafePayload Undefined = Inr ()"
| "assertSafePayload (Bool b) = Inr ()"
| "assertSafePayload (Num n) = Inr ()"
| "assertSafePayload NonFinite = Inr ()"
| "assertSafePayload (BigInt n) = Inr ()"
| "assertSafePayload (Date d) = Inr ()"
| "assertSafePayload Unsupported = Inr ()"
| "assertSafePayload (Arr vs) = each (map assertSafePayload vs)"
| "assertSafePayload (Obj es) = each (map check_entry (map (map_prod id assertSafePayload) es))"

definition safePayload :: "js_value \<Rightarrow> (journey_error, js_value) result" where
  "safePayload value = rbind (assertSafePayload value) (\<lambda>_. Inr value)"

section \<open>Failures\<close>

record journey_failure =
  jf_code :: ustring
  jf_message :: ustring
  jf_retryable :: bool

definition safeText :: "ustring option \<Rightarrow> ustring option" where
  "safeText value = (case value of None \<Rightarrow> None
     | Some v \<Rightarrow> let trimmed = trim v in if trimmed = [] then None else Some (take 512 trimmed))"

definition safeFailure :: "journey_failure \<Rightarrow> journey_failure" where
  "safeFailure error =
     (let code = take 64 (map (\<lambda>c. if (65 \<le> c \<and> c \<le> 90) \<or> is_digit_unit c \<or> c = 95 then c else 95)
                (map upper (jf_code error)));
          rawMessage = trim (jf_message error);
          message = (if rawMessage \<noteq> [] \<and> \<not> unsafeText rawMessage
             then (case safeText (Some rawMessage) of None \<Rightarrow> [] | Some m \<Rightarrow> m)
             else ascii ''Journey operation failed.'')
      in \<lparr> jf_code = (if code \<noteq> [] then code else ascii ''JOURNEY_OPERATION_FAILED''),
           jf_message = message, jf_retryable = jf_retryable error \<rparr>)"

section \<open>What passes\<close>

text \<open>All keys and all texts of a value, at any depth.\<close>

primrec keys_of :: "js_value \<Rightarrow> ustring list" where
  "keys_of Undefined = []"
| "keys_of Null = []"
| "keys_of (Bool b) = []"
| "keys_of (Num n) = []"
| "keys_of NonFinite = []"
| "keys_of (BigInt n) = []"
| "keys_of (Str s) = []"
| "keys_of (Date d) = []"
| "keys_of Unsupported = []"
| "keys_of (Arr vs) = concat (map keys_of vs)"
| "keys_of (Obj es) = concat (map (\<lambda>e. fst e # snd e) (map (map_prod id keys_of) es))"

primrec texts_of :: "js_value \<Rightarrow> ustring list" where
  "texts_of Undefined = []"
| "texts_of Null = []"
| "texts_of (Bool b) = []"
| "texts_of (Num n) = []"
| "texts_of NonFinite = []"
| "texts_of (BigInt n) = []"
| "texts_of (Str s) = [s]"
| "texts_of (Date d) = []"
| "texts_of Unsupported = []"
| "texts_of (Arr vs) = concat (map texts_of vs)"
| "texts_of (Obj es) = concat (map snd (map (map_prod id texts_of) es))"

lemma each_Inr: "each rs = Inr () \<longleftrightarrow> (\<forall>r \<in> set rs. r = Inr ())"
  by (induction rs) auto

definition forbidden_free :: "js_value \<Rightarrow> bool" where
  "forbidden_free v = ((\<forall>k \<in> set (keys_of v). normalized_key k \<notin> set FORBIDDEN_KEYS)
     \<and> (\<forall>s \<in> set (texts_of v). \<not> unsafeText s))"

lemma assertSafePayload_iff: "assertSafePayload v = Inr () \<longleftrightarrow> forbidden_free v"
proof (induction v)
  case (Arr vs)
  then show ?case by (auto simp: forbidden_free_def each_Inr)
next
  case (Obj es)
  have "assertSafePayload (Obj es) = Inr () \<longleftrightarrow> (\<forall>e \<in> set es. check_entry (map_prod id assertSafePayload e) = Inr ())"
    by (simp add: each_Inr)
  also have "\<dots> \<longleftrightarrow> (\<forall>e \<in> set es. normalized_key (fst e) \<notin> set FORBIDDEN_KEYS \<and> forbidden_free (snd e))"
    using Obj by (fastforce simp: check_entry_def)
  finally show ?case by (auto simp: forbidden_free_def)
qed (auto simp: forbidden_free_def)

lemma safePayload_Inr: "safePayload v = Inr w \<longleftrightarrow> w = v \<and> forbidden_free v"
  using assertSafePayload_iff [of v] by (auto simp: safePayload_def)

lemma unsafe_examples:
  "unsafeText (ascii ''Authorization: Basic abc='')" "unsafeText (ascii ''call 13800138000'')"
  "unsafeText (ascii '' {\"a\":1}'')" "\<not> unsafeText (ascii ''Vehicle allocation confirmed'')"
  by code_simp+

end
