(* ===== verification/JourneyDb.thy ===== *)
theory JourneyDb
  imports JourneySafety Interfaces
begin

text \<open>
  The tables of the subscription journey (\<open>schema.prisma\<close>), its status machine
  (\<open>subscription-journey-state-machine.ts\<close>) and the helpers every operation of
  \<open>subscription-journey.repository.ts\<close> is composed of: the locked read of a
  journey with one of its steps, the optimistic update of the journey's version,
  and the event with its outbox row.  Identifiers and keys are texts, as they
  occur in payloads and in the keys built from them.
\<close>

type_synonym jid = ustring

section \<open>The status machine\<close>

datatype journey_step_code = APPLICATION_VALIDATION | FINAL_PLAN_DECISION | FINAL_VEHICLE_ALLOCATION
  | CUSTOMER_PLAN_CONFIRMATION | ORDER_AND_CONTRACT_CREATION | FADADA_SIGNING_AND_ARCHIVE
  | INITIAL_BILLING | CUSTOMER_JSAPI_PAYMENT | HANDOVER_AND_STAGE2_CREATION
  | DELIVERY_EVIDENCE_DECISION | AUTHORITATIVE_ACTIVATION

text \<open>The constructors of the status types carry the table they belong to.\<close>

datatype step_status = StepPENDING | StepRUNNING | StepWAITING_CUSTOMER | StepWAITING_MANUAL
  | StepRETRY_SCHEDULED | StepEXCEPTION | StepCOMPLETED | StepSKIPPED | StepCANCELLED

datatype journey_status = RUNNING | WAITING_CUSTOMER | WAITING_MANUAL | RETRY_SCHEDULED | PAUSED
  | EXCEPTION | COMPLETED | CANCELLED

datatype manual_task_type = TaskFINAL_PLAN_DECISION | TaskFINAL_VEHICLE_ALLOCATION
  | TaskDELIVERY_EVIDENCE_DECISION

definition JOURNEY_STEP_SEQUENCE :: "journey_step_code list" where
  "JOURNEY_STEP_SEQUENCE = [APPLICATION_VALIDATION, FINAL_PLAN_DECISION, FINAL_VEHICLE_ALLOCATION,
     CUSTOMER_PLAN_CONFIRMATION, ORDER_AND_CONTRACT_CREATION, FADADA_SIGNING_AND_ARCHIVE,
     INITIAL_BILLING, CUSTOMER_JSAPI_PAYMENT, HANDOVER_AND_STAGE2_CREATION,
     DELIVERY_EVIDENCE_DECISION, AUTHORITATIVE_ACTIVATION]"

fun index_of :: "'a \<Rightarrow> 'a list \<Rightarrow> nat" where
  "index_of x [] = 0"
| "index_of x (y # ys) = (if x = y then 0 else Suc (index_of x ys))"

definition nextStep :: "journey_step_code \<Rightarrow> step_status \<Rightarrow> journey_step_code option" where
  "nextStep current status =
     (if status \<noteq> StepCOMPLETED \<and> status \<noteq> StepSKIPPED then Some current
      else let index = index_of current JOURNEY_STEP_SEQUENCE in
        if index + 1 < length JOURNEY_STEP_SEQUENCE then Some (JOURNEY_STEP_SEQUENCE ! (index + 1))
        else None)"

definition assertTransition :: "journey_step_code \<Rightarrow> journey_step_code \<Rightarrow> (journey_error, unit) result"
where
  "assertTransition current next_step =
     ensure (nextStep current StepCOMPLETED = Some next_step) JOURNEY_INVALID_TRANSITION"

definition RESUMABLE_STATUSES :: "journey_status list" where
  "RESUMABLE_STATUSES = [RUNNING, WAITING_CUSTOMER, WAITING_MANUAL, RETRY_SCHEDULED, EXCEPTION]"

definition assertJourneyStatusTransition ::
    "journey_status \<Rightarrow> journey_status \<Rightarrow> journey_status option \<Rightarrow> (journey_error, unit) result" where
  "assertJourneyStatusTransition current next_status pausedFromStatus =
     (if current = COMPLETED \<or> current = CANCELLED then Inl JOURNEY_INVALID_TRANSITION
      else if next_status = CANCELLED then Inr ()
      else if current = PAUSED then
        (if pausedFromStatus = Some next_status \<and> next_status \<in> set RESUMABLE_STATUSES then Inr ()
         else Inl JOURNEY_INVALID_TRANSITION)
      else if next_status = PAUSED then Inr ()
      else if (current = RUNNING \<and> next_status \<in> set [WAITING_CUSTOMER, WAITING_MANUAL,
                 RETRY_SCHEDULED, EXCEPTION, COMPLETED])
           \<or> (current \<noteq> RUNNING \<and> next_status = RUNNING) then Inr ()
      else Inl JOURNEY_INVALID_TRANSITION)"

fun manualTaskTypeFor :: "journey_step_code \<Rightarrow> manual_task_type option" where
  "manualTaskTypeFor DELIVERY_EVIDENCE_DECISION = Some TaskDELIVERY_EVIDENCE_DECISION"
| "manualTaskTypeFor FINAL_PLAN_DECISION = Some TaskFINAL_PLAN_DECISION"
| "manualTaskTypeFor FINAL_VEHICLE_ALLOCATION = Some TaskFINAL_VEHICLE_ALLOCATION"
| "manualTaskTypeFor _ = None"

fun step_name :: "journey_step_code \<Rightarrow> ustring" where
  "step_name APPLICATION_VALIDATION = ascii ''APPLICATION_VALIDATION''"
| "step_name FINAL_PLAN_DECISION = ascii ''FINAL_PLAN_DECISION''"
| "step_name FINAL_VEHICLE_ALLOCATION = ascii ''FINAL_VEHICLE_ALLOCATION''"
| "step_name CUSTOMER_PLAN_CONFIRMATION = ascii ''CUSTOMER_PLAN_CONFIRMATION''"
| "step_name ORDER_AND_CONTRACT_CREATION = ascii ''ORDER_AND_CONTRACT_CREATION''"
| "step_name FADADA_SIGNING_AND_ARCHIVE = ascii ''FADADA_SIGNING_AND_ARCHIVE''"
| "step_name INITIAL_BILLING = ascii ''INITIAL_BILLING''"
| "step_name CUSTOMER_JSAPI_PAYMENT = ascii ''CUSTOMER_JSAPI_PAYMENT''"
| "step_name HANDOVER_AND_STAGE2_CREATION = ascii ''HANDOVER_AND_STAGE2_CREATION''"
| "step_name DELIVERY_EVIDENCE_DECISION = ascii ''DELIVERY_EVIDENCE_DECISION''"
| "step_name AUTHORITATIVE_ACTIVATION = ascii ''AUTHORITATIVE_ACTIVATION''"

section \<open>Tables\<close>

datatype event_type = JOURNEY_STARTED | STEP_WAITING_CUSTOMER | STEP_WAITING_MANUAL | STEP_COMPLETED
  | STEP_EXCEPTION | MANUAL_TASK_DECIDED | DOMAIN_FACT_OBSERVED | JOURNEY_PAUSED | JOURNEY_RESUMED
  | JOURNEY_CANCELLED | JOURNEY_COMPLETED | EXCEPTION_RESOLVED

datatype task_status = TaskOPEN | TaskCOMPLETED | TaskCANCELLED
datatype manual_decision = APPROVED | REJECTED
datatype exception_status = ExcOPEN | ExcACKNOWLEDGED | ExcRESOLVED
datatype job_status = JobPENDING | JobPROCESSING | JobRETRY_SCHEDULED | JobCOMPLETED | JobDEAD_LETTER
  | JobCANCELLED
datatype outbox_status = OutPENDING | OutPROCESSING | OutDELIVERED | OutDEAD_LETTER | OutCANCELLED

datatype journey_job_type = VALIDATE_APPLICATION | CREATE_ORDER_AND_CONTRACT | START_FADADA_SIGNING
  | RECONCILE_FADADA_SIGNING | GENERATE_INITIAL_BILLS | EVALUATE_PAYMENT_SETTLEMENT | CREATE_HANDOVER
  | ACTIVATE_SUBSCRIPTION | DISPATCH_NOTIFICATION

record journey =
  jn_id :: jid
  jn_applicationId :: jid
  jn_orderId :: "jid option"
  jn_status :: journey_status
  jn_currentStepCode :: journey_step_code
  jn_currentStepStatus :: step_status
  jn_pausedFromStatus :: "journey_status option"
  jn_lastApplicationFactVersion :: int
  jn_version :: int
  jn_completedAt :: "time option"
  jn_cancelledAt :: "time option"

record journey_step =
  st_id :: jid
  st_journeyId :: jid
  st_code :: journey_step_code
  st_status :: step_status
  st_attemptCount :: int
  st_startedAt :: "time option"
  st_waitingAt :: "time option"
  st_waitingReasonSnapshot :: "js_value option"
  st_completedAt :: "time option"
  st_lastErrorCode :: "ustring option"

record journey_event =
  ev_journeyId :: jid
  ev_sequence :: int
  ev_eventKey :: ustring
  ev_eventType :: event_type
  ev_payload :: js_value

record journey_outbox =
  ob_id :: jid
  ob_journeyId :: "jid option"
  ob_aggregateType :: ustring
  ob_aggregateId :: ustring
  ob_eventType :: event_type
  ob_eventKey :: ustring
  ob_payload :: js_value
  ob_status :: outbox_status
  ob_attemptCount :: int
  ob_availableAt :: time
  ob_leaseToken :: "ustring option"
  ob_leaseExpiresAt :: "time option"
  ob_lastError :: "(ustring \<times> ustring) option"
  ob_deliveredAt :: "time option"
  ob_createdAt :: time

record journey_job =
  jj_id :: jid
  jj_journeyId :: jid
  jj_stepId :: jid
  jj_jobType :: journey_job_type
  jj_status :: job_status
  jj_sourceKey :: ustring
  jj_payload :: "js_value option"
  jj_attemptCount :: int
  jj_maxAttempts :: int
  jj_availableAt :: time
  jj_leaseToken :: "ustring option"
  jj_leaseExpiresAt :: "time option"
  jj_lastError :: "(ustring \<times> ustring) option"
  jj_completedAt :: "time option"
  jj_createdAt :: time

record manual_task =
  mt_id :: jid
  mt_journeyId :: jid
  mt_stepId :: jid
  mt_taskType :: manual_task_type
  mt_status :: task_status
  mt_decision :: "manual_decision option"
  mt_inputSnapshot :: js_value
  mt_decidedBy :: "jid option"
  mt_decisionNotes :: "ustring option"
  mt_decidedAt :: "time option"
  mt_version :: int

record journey_exception =
  ex_id :: jid
  ex_journeyId :: jid
  ex_stepId :: jid
  ex_jobId :: "jid option"
  ex_status :: exception_status
  ex_code :: ustring
  ex_message :: ustring
  ex_retryable :: bool
  ex_occurredAt :: time
  ex_resolvedAt :: "time option"
  ex_resolvedBy :: "jid option"
  ex_resolutionNotes :: "ustring option"

record journey_db =
  jdb_journeys :: "journey list"
  jdb_steps :: "journey_step list"
  jdb_events :: "journey_event list"
  jdb_outbox :: "journey_outbox list"
  jdb_jobs :: "journey_job list"
  jdb_tasks :: "manual_task list"
  jdb_exceptions :: "journey_exception list"

text \<open>
  What a transaction draws on: the clock, and the identifiers the database gives
  to the rows it creates.
\<close>

record journey_env =
  env_now :: time
  env_newId :: "nat \<Rightarrow> jid"

type_synonym 'a jresult = "(journey_error, 'a) result"

section \<open>Helpers of the repository\<close>

definition update_where :: "('a \<Rightarrow> bool) \<Rightarrow> ('a \<Rightarrow> 'a) \<Rightarrow> 'a list \<Rightarrow> 'a list" where
  "update_where P f rows = map (\<lambda>r. if P r then f r else r) rows"

definition count_where :: "('a \<Rightarrow> bool) \<Rightarrow> 'a list \<Rightarrow> nat" where
  "count_where P rows = length (filter P rows)"

record locked_step =
  lk_currentStepCode :: journey_step_code
  lk_currentStepStatus :: step_status
  lk_journeyId :: jid
  lk_journeyStatus :: journey_status
  lk_journeyVersion :: int
  lk_stepCode :: journey_step_code
  lk_stepId :: jid
  lk_stepStatus :: step_status

definition lockJourneyStep :: "jid \<Rightarrow> jid \<Rightarrow> journey_db \<Rightarrow> locked_step jresult" where
  "lockJourneyStep journeyId stepId db =
     (case (find_row jn_id journeyId (jdb_journeys db),
            List.find (\<lambda>s. st_id s = stepId \<and> st_journeyId s = journeyId) (jdb_steps db)) of
        (Some j, Some s) \<Rightarrow> Inr \<lparr> lk_currentStepCode = jn_currentStepCode j,
          lk_currentStepStatus = jn_currentStepStatus j, lk_journeyId = jn_id j,
          lk_journeyStatus = jn_status j, lk_journeyVersion = jn_version j,
          lk_stepCode = st_code s, lk_stepId = st_id s, lk_stepStatus = st_status s \<rparr>
      | _ \<Rightarrow> Inl JOURNEY_NOT_FOUND)"

definition validateCurrentStep :: "locked_step \<Rightarrow> int \<Rightarrow> unit jresult" where
  "validateCurrentStep lk expectedVersion =
     (if lk_journeyVersion lk \<noteq> expectedVersion then Inl JOURNEY_OPTIMISTIC_LOCK_CONFLICT
      else if lk_journeyStatus lk = COMPLETED \<or> lk_journeyStatus lk = CANCELLED
        \<or> lk_journeyStatus lk = PAUSED \<or> lk_currentStepCode lk \<noteq> lk_stepCode lk
        \<or> lk_currentStepStatus lk \<noteq> lk_stepStatus lk
        \<or> lk_stepStatus lk \<notin> set [StepPENDING, StepRUNNING, StepWAITING_CUSTOMER,
            StepWAITING_MANUAL, StepRETRY_SCHEDULED]
      then Inl JOURNEY_INVALID_TRANSITION
      else Inr ())"

text \<open>The version counts up with the update; another version than expected is a conflict.\<close>

definition updateJourneyVersion ::
    "jid \<Rightarrow> int \<Rightarrow> (journey \<Rightarrow> journey) \<Rightarrow> journey_db \<Rightarrow> journey_db jresult" where
  "updateJourneyVersion journeyId expectedVersion data db =
     (let P = (\<lambda>j. jn_id j = journeyId \<and> jn_version j = expectedVersion) in
      rbind (ensure (count_where P (jdb_journeys db) = 1) JOURNEY_OPTIMISTIC_LOCK_CONFLICT) (\<lambda>_.
        Inr (db\<lparr>jdb_journeys := update_where P (\<lambda>j. (data j)\<lparr>jn_version := jn_version j + 1\<rparr>)
          (jdb_journeys db)\<rparr>)))"

definition update_step :: "jid \<Rightarrow> jid \<Rightarrow> (journey_step \<Rightarrow> journey_step) \<Rightarrow> journey_db \<Rightarrow> journey_db" where
  "update_step stepId journeyId f db = db\<lparr>jdb_steps :=
     update_where (\<lambda>s. st_id s = stepId \<and> st_journeyId s = journeyId) f (jdb_steps db)\<rparr>"

definition readStep :: "jid \<Rightarrow> jid \<Rightarrow> journey_db \<Rightarrow> journey_step jresult" where
  "readStep stepId journeyId db =
     (case List.find (\<lambda>s. st_id s = stepId \<and> st_journeyId s = journeyId) (jdb_steps db) of
        None \<Rightarrow> Inl JOURNEY_NOT_FOUND | Some s \<Rightarrow> Inr s)"

definition step_by_code :: "jid \<Rightarrow> journey_step_code \<Rightarrow> journey_db \<Rightarrow> journey_step option" where
  "step_by_code journeyId code db =
     List.find (\<lambda>s. st_journeyId s = journeyId \<and> st_code s = code) (jdb_steps db)"

definition find_event :: "ustring \<Rightarrow> journey_db \<Rightarrow> journey_event option" where
  "find_event eventKey db = find_row ev_eventKey eventKey (jdb_events db)"

text \<open>An upsert on the event key with an empty update.\<close>

definition writeOutbox :: "journey_env \<Rightarrow> nat \<Rightarrow> ustring \<Rightarrow> ustring \<Rightarrow> ustring \<Rightarrow> event_type \<Rightarrow> jid
    \<Rightarrow> js_value \<Rightarrow> journey_db \<Rightarrow> journey_db" where
  "writeOutbox env n aggregateId aggregateType eventKey eventType journeyId payload db =
     (case find_row ob_eventKey eventKey (jdb_outbox db) of
        Some _ \<Rightarrow> db
      | None \<Rightarrow> db\<lparr>jdb_outbox := jdb_outbox db @ [\<lparr> ob_id = env_newId env n,
          ob_journeyId = Some journeyId, ob_aggregateType = aggregateType,
          ob_aggregateId = aggregateId, ob_eventType = eventType, ob_eventKey = eventKey,
          ob_payload = payload, ob_status = OutPENDING, ob_attemptCount = 0,
          ob_availableAt = env_now env, ob_leaseToken = None, ob_leaseExpiresAt = None,
          ob_lastError = None, ob_deliveredAt = None, ob_createdAt = env_now env \<rparr>]\<rparr>)"

text \<open>
  \<open>create\<close> of an event: the event key is unique, and so is the sequence number
  within a journey.
\<close>

definition create_event :: "journey_event \<Rightarrow> journey_db \<Rightarrow> journey_db jresult" where
  "create_event e db =
     rbind (ensure (\<not> list_ex (\<lambda>d. ev_eventKey d = ev_eventKey e
          \<or> (ev_journeyId d = ev_journeyId e \<and> ev_sequence d = ev_sequence e)) (jdb_events db))
        UNIQUE_CONFLICT)
       (\<lambda>_. Inr (db\<lparr>jdb_events := jdb_events db @ [e]\<rparr>))"

definition writeEventAndOutbox ::
    "journey_env \<Rightarrow> nat \<Rightarrow> ustring \<Rightarrow> event_type \<Rightarrow> jid \<Rightarrow> js_value \<Rightarrow> int \<Rightarrow> journey_db
      \<Rightarrow> journey_db jresult" where
  "writeEventAndOutbox env n eventKey eventType journeyId payload0 sequence db =
     rbind (safePayload payload0) (\<lambda>payload.
     rbind (create_event \<lparr> ev_journeyId = journeyId, ev_sequence = sequence, ev_eventKey = eventKey,
         ev_eventType = eventType, ev_payload = payload \<rparr> db) (\<lambda>db1.
     Inr (writeOutbox env n journeyId (ascii ''SUBSCRIPTION_JOURNEY'') (eventKey @ ascii '':outbox'')
       eventType journeyId payload db1)))"

fun lift_json :: "(canonical_error, 'a) result \<Rightarrow> 'a jresult" where
  "lift_json (Inl e) = Inl (INVALID_JSON e)"
| "lift_json (Inr x) = Inr x"

definition requireExactEvent :: "journey_event \<Rightarrow> event_type \<Rightarrow> jid \<Rightarrow> js_value \<Rightarrow> unit jresult" where
  "requireExactEvent existing eventType journeyId payload =
     (if ev_eventType existing \<noteq> eventType \<or> ev_journeyId existing \<noteq> journeyId
      then Inl JOURNEY_IDEMPOTENCY_CONFLICT
      else rbind (lift_json (sameJourneyJson (ev_payload existing) payload)) (\<lambda>same.
        ensure same JOURNEY_IDEMPOTENCY_CONFLICT))"

definition or_null :: "js_value option \<Rightarrow> js_value" where
  "or_null v = (case v of None \<Rightarrow> Null | Some x \<Rightarrow> x)"

definition transitionPayload :: "string \<Rightarrow> jid \<Rightarrow> js_value option \<Rightarrow> js_value jresult" where
  "transitionPayload operation stepId payload = safePayload (Obj
     [(ascii ''operation'', Str (ascii operation)), (ascii ''payload'', or_null payload),
      (ascii ''stepId'', Str stepId)])"

definition resolveStepExceptions :: "journey_env \<Rightarrow> jid \<Rightarrow> jid \<Rightarrow> journey_db \<Rightarrow> journey_db" where
  "resolveStepExceptions env journeyId stepId db = db\<lparr>jdb_exceptions := update_where
     (\<lambda>x. ex_journeyId x = journeyId \<and> ex_stepId x = stepId
        \<and> ex_status x \<in> set [ExcOPEN, ExcACKNOWLEDGED])
     (\<lambda>x. x\<lparr>ex_resolutionNotes := Some (ascii ''Automatically resolved after successful step completion.''),
        ex_resolvedAt := Some (env_now env), ex_status := ExcRESOLVED\<rparr>) (jdb_exceptions db)\<rparr>"

end
