(* ===== verification/Journey.thy ===== *)
theory Journey
  imports JourneyDb
begin

text \<open>
  The operations of \<open>subscription-journey.repository.ts\<close> that move a journey, and
  the administrator's pause, resume, retry and cancel of
  \<open>subscription-journey.service.ts\<close>.  Each is one transaction: \<open>Inl\<close> means it
  threw and nothing is stored.  Advisory and row locks, which only serialise
  transactions, leave no trace in the state.
\<close>

section \<open>Starting a journey\<close>

definition new_journey :: "jid \<Rightarrow> jid \<Rightarrow> journey" where
  "new_journey journeyId applicationId = \<lparr> jn_id = journeyId, jn_applicationId = applicationId,
     jn_orderId = None, jn_status = RUNNING, jn_currentStepCode = APPLICATION_VALIDATION,
     jn_currentStepStatus = StepPENDING, jn_pausedFromStatus = None,
     jn_lastApplicationFactVersion = 0, jn_version = 0, jn_completedAt = None,
     jn_cancelledAt = None \<rparr>"

definition new_step :: "jid \<Rightarrow> jid \<Rightarrow> journey_step_code \<Rightarrow> journey_step" where
  "new_step stepId journeyId code = \<lparr> st_id = stepId, st_journeyId = journeyId, st_code = code,
     st_status = StepPENDING, st_attemptCount = 0, st_startedAt = None, st_waitingAt = None,
     st_waitingReasonSnapshot = None, st_completedAt = None, st_lastErrorCode = None \<rparr>"

definition upsert_journey :: "journey_env \<Rightarrow> jid \<Rightarrow> journey_db \<Rightarrow> journey \<times> journey_db" where
  "upsert_journey env applicationId db =
     (case find_row jn_applicationId applicationId (jdb_journeys db) of
        Some j \<Rightarrow> (j, db)
      | None \<Rightarrow>
          let j = new_journey (env_newId env 0) applicationId in
          (j, db\<lparr>jdb_journeys := jdb_journeys db @ [j],
             jdb_steps := jdb_steps db @ [new_step (env_newId env 1) (jn_id j) APPLICATION_VALIDATION]\<rparr>))"

definition createOrGetForApplication ::
    "journey_env \<Rightarrow> jid \<Rightarrow> ustring \<Rightarrow> journey_db \<Rightarrow> (journey \<times> journey_db) jresult" where
  "createOrGetForApplication env applicationId eventKey db =
     rbind (safePayload (Obj [(ascii ''applicationId'', Str applicationId)])) (\<lambda>payload.
     case find_event eventKey db of
       Some existing \<Rightarrow>
         (case find_row jn_id (ev_journeyId existing) (jdb_journeys db) of
            None \<Rightarrow> Inl JOURNEY_NOT_FOUND
          | Some j \<Rightarrow>
              if ev_eventType existing \<noteq> JOURNEY_STARTED \<or> jn_applicationId j \<noteq> applicationId
              then Inl JOURNEY_IDEMPOTENCY_CONFLICT
              else rbind (lift_json (sameJourneyJson (ev_payload existing) payload)) (\<lambda>same.
                if same then Inr (j, db) else Inl JOURNEY_IDEMPOTENCY_CONFLICT))
     | None \<Rightarrow>
         (case upsert_journey env applicationId db of (j, db1) \<Rightarrow>
            rbind (create_event \<lparr> ev_journeyId = jn_id j, ev_sequence = 0, ev_eventKey = eventKey,
                ev_eventType = JOURNEY_STARTED, ev_payload = payload \<rparr> db1) (\<lambda>db2.
            Inr (j, writeOutbox env 2 applicationId (ascii ''APPLICATION'') (eventKey @ ascii '':outbox'')
              JOURNEY_STARTED (jn_id j) payload db2))))"

section \<open>Completing a step\<close>

record step_input =
  si_eventKey :: ustring
  si_expectedVersion :: int
  si_factVersion :: "int option"
  si_journeyId :: jid
  si_payload :: "js_value option"
  si_stepId :: jid

definition set_fact_version :: "int option \<Rightarrow> journey \<Rightarrow> journey" where
  "set_fact_version v j = (case v of None \<Rightarrow> j | Some n \<Rightarrow> j\<lparr>jn_lastApplicationFactVersion := n\<rparr>)"

definition advanceJourney :: "journey_env \<Rightarrow> step_input \<Rightarrow> locked_step \<Rightarrow> journey_db \<Rightarrow> journey_db jresult"
where
  "advanceJourney env input lk db =
     (let first = nextStep (lk_stepCode lk) StepCOMPLETED;
          vehicleStep = step_by_code (si_journeyId input) FINAL_VEHICLE_ALLOCATION db;
          skipped = (first = Some FINAL_VEHICLE_ALLOCATION
            \<and> (case vehicleStep of None \<Rightarrow> False | Some v \<Rightarrow> st_status v = StepCOMPLETED));
          following = (if skipped then nextStep FINAL_VEHICLE_ALLOCATION StepCOMPLETED else first)
      in rbind (case following of
                  None \<Rightarrow> Inr ()
                | Some f \<Rightarrow> if skipped then Inr () else assertTransition (lk_stepCode lk) f) (\<lambda>_.
         updateJourneyVersion (si_journeyId input) (si_expectedVersion input)
           (\<lambda>j. set_fact_version (si_factVersion input) (case following of
              None \<Rightarrow> j\<lparr>jn_completedAt := Some (env_now env), jn_currentStepCode := lk_stepCode lk,
                 jn_currentStepStatus := StepCOMPLETED, jn_status := COMPLETED\<rparr>
            | Some f \<Rightarrow> j\<lparr>jn_currentStepCode := f, jn_currentStepStatus := StepPENDING,
                 jn_status := RUNNING\<rparr>)) db))"

definition completeStep ::
    "journey_env \<Rightarrow> nat \<Rightarrow> step_input \<Rightarrow> journey_db \<Rightarrow> (journey_step \<times> journey_db) jresult" where
  "completeStep env n input db =
     rbind (assertSafePayload (or_null (si_payload input))) (\<lambda>_.
     rbind (transitionPayload ''COMPLETE_STEP'' (si_stepId input) (si_payload input)) (\<lambda>eventPayload.
     case find_event (si_eventKey input) db of
       Some duplicate \<Rightarrow>
         rbind (requireExactEvent duplicate STEP_COMPLETED (si_journeyId input) eventPayload) (\<lambda>_.
           let db1 = resolveStepExceptions env (si_journeyId input) (si_stepId input) db in
           rbind (readStep (si_stepId input) (si_journeyId input) db1) (\<lambda>step. Inr (step, db1)))
     | None \<Rightarrow>
         rbind (lockJourneyStep (si_journeyId input) (si_stepId input) db) (\<lambda>lk.
         rbind (validateCurrentStep lk (si_expectedVersion input)) (\<lambda>_.
         rbind (advanceJourney env input lk db) (\<lambda>db1.
         let db2 = update_step (si_stepId input) (si_journeyId input)
               (\<lambda>s. s\<lparr>st_completedAt := Some (env_now env), st_status := StepCOMPLETED\<rparr>) db1 in
         rbind (readStep (si_stepId input) (si_journeyId input) db2) (\<lambda>step.
         let db3 = resolveStepExceptions env (si_journeyId input) (si_stepId input) db2 in
         rbind (writeEventAndOutbox env n (si_eventKey input) STEP_COMPLETED (si_journeyId input)
             eventPayload (si_expectedVersion input + 1) db3) (\<lambda>db4.
         Inr (step, db4))))))))"

definition completeActivation ::
    "journey_env \<Rightarrow> int \<Rightarrow> jid \<Rightarrow> js_value option \<Rightarrow> jid \<Rightarrow> journey_db
      \<Rightarrow> (journey_step \<times> journey_db) jresult" where
  "completeActivation env expectedVersion journeyId payload0 stepId db =
     (let eventBase = ascii ''journey:'' @ journeyId @ ascii '':activation'';
          completionEventKey = eventBase @ ascii '':completed'' in
      rbind (safePayload (case payload0 of None \<Rightarrow> Obj [] | Some p \<Rightarrow> p)) (\<lambda>payload.
      rbind (completeStep env 0 \<lparr> si_eventKey = eventBase @ ascii '':step'',
          si_expectedVersion = expectedVersion, si_factVersion = None, si_journeyId = journeyId,
          si_payload = Some payload, si_stepId = stepId \<rparr> db) (\<lambda>r.
      case r of (step, db1) \<Rightarrow>
      rbind (safePayload (Obj [(ascii ''operation'', Str (ascii ''COMPLETE_JOURNEY'')),
          (ascii ''payload'', payload), (ascii ''stepId'', Str stepId)])) (\<lambda>completionPayload.
      case find_event completionEventKey db1 of
        Some duplicate \<Rightarrow>
          rbind (requireExactEvent duplicate JOURNEY_COMPLETED journeyId completionPayload) (\<lambda>_.
          Inr (step, db1))
      | None \<Rightarrow>
          rbind (updateJourneyVersion journeyId (expectedVersion + 1) (\<lambda>j. j) db1) (\<lambda>db2.
          rbind (writeEventAndOutbox env 1 completionEventKey JOURNEY_COMPLETED journeyId
              completionPayload (expectedVersion + 2) db2) (\<lambda>db3.
          Inr (step, db3)))))))"

section \<open>Waiting\<close>

text \<open>The shape \<open>waitForCustomer\<close>, \<open>waitForManual\<close> and the returns share: replay or act.\<close>

definition fact_snapshot :: "js_value option \<Rightarrow> int \<Rightarrow> js_value" where
  "fact_snapshot payload factVersion =
     (case payload of None \<Rightarrow> Obj [(ascii ''factVersion'', Num factVersion)] | Some p \<Rightarrow> p)"

definition waitForCustomer ::
    "journey_env \<Rightarrow> step_input \<Rightarrow> journey_db \<Rightarrow> (journey_step \<times> journey_db) jresult" where
  "waitForCustomer env input db =
     rbind (assertSafePayload (or_null (si_payload input))) (\<lambda>_.
     rbind (transitionPayload ''WAIT_FOR_CUSTOMER'' (si_stepId input) (si_payload input)) (\<lambda>eventPayload.
     case find_event (si_eventKey input) db of
       Some duplicate \<Rightarrow>
         rbind (requireExactEvent duplicate STEP_WAITING_CUSTOMER (si_journeyId input) eventPayload) (\<lambda>_.
         rbind (readStep (si_stepId input) (si_journeyId input) db) (\<lambda>step. Inr (step, db)))
     | None \<Rightarrow>
         rbind (lockJourneyStep (si_journeyId input) (si_stepId input) db) (\<lambda>lk.
         rbind (validateCurrentStep lk (si_expectedVersion input)) (\<lambda>_.
         rbind (updateJourneyVersion (si_journeyId input) (si_expectedVersion input)
             (\<lambda>j. set_fact_version (si_factVersion input)
               (j\<lparr>jn_currentStepCode := lk_stepCode lk, jn_currentStepStatus := StepWAITING_CUSTOMER,
                  jn_status := WAITING_CUSTOMER\<rparr>)) db) (\<lambda>db1.
         let db2 = update_step (si_stepId input) (si_journeyId input)
               (\<lambda>s. let s1 = s\<lparr>st_status := StepWAITING_CUSTOMER, st_waitingAt := Some (env_now env)\<rparr> in
                 case si_factVersion input of None \<Rightarrow> s1
                 | Some v \<Rightarrow> s1\<lparr>st_waitingReasonSnapshot := Some (fact_snapshot (si_payload input) v)\<rparr>) db1 in
         rbind (readStep (si_stepId input) (si_journeyId input) db2) (\<lambda>step.
         rbind (writeEventAndOutbox env 0 (si_eventKey input) STEP_WAITING_CUSTOMER (si_journeyId input)
             eventPayload (si_expectedVersion input + 1) db2) (\<lambda>db3.
         Inr (step, db3))))))))"

definition waitForManual ::
    "journey_env \<Rightarrow> step_input \<Rightarrow> int \<Rightarrow> journey_db \<Rightarrow> (journey_step \<times> journey_db) jresult" where
  "waitForManual env input factVersion db =
     rbind (assertSafePayload (or_null (si_payload input))) (\<lambda>_.
     rbind (transitionPayload ''WAIT_FOR_MANUAL'' (si_stepId input) (si_payload input)) (\<lambda>eventPayload.
     case find_event (si_eventKey input) db of
       Some duplicate \<Rightarrow>
         rbind (requireExactEvent duplicate STEP_WAITING_MANUAL (si_journeyId input) eventPayload) (\<lambda>_.
         rbind (readStep (si_stepId input) (si_journeyId input) db) (\<lambda>step. Inr (step, db)))
     | None \<Rightarrow>
         rbind (lockJourneyStep (si_journeyId input) (si_stepId input) db) (\<lambda>lk.
         rbind (validateCurrentStep lk (si_expectedVersion input)) (\<lambda>_.
         rbind (updateJourneyVersion (si_journeyId input) (si_expectedVersion input)
             (\<lambda>j. j\<lparr>jn_currentStepCode := lk_stepCode lk, jn_currentStepStatus := StepWAITING_MANUAL,
                jn_lastApplicationFactVersion := factVersion, jn_status := WAITING_MANUAL\<rparr>) db) (\<lambda>db1.
         let db2 = update_step (si_stepId input) (si_journeyId input)
               (\<lambda>s. s\<lparr>st_status := StepWAITING_MANUAL, st_waitingAt := Some (env_now env),
                  st_waitingReasonSnapshot := Some (fact_snapshot (si_payload input) factVersion)\<rparr>) db1 in
         rbind (readStep (si_stepId input) (si_journeyId input) db2) (\<lambda>step.
         rbind (writeEventAndOutbox env 0 (si_eventKey input) STEP_WAITING_MANUAL (si_journeyId input)
             eventPayload (si_expectedVersion input + 1) db2) (\<lambda>db3.
         Inr (step, db3))))))))"

definition pauseForOperationalRestriction ::
    "journey_env \<Rightarrow> int \<Rightarrow> jid \<Rightarrow> js_value \<Rightarrow> jid \<Rightarrow> journey_db \<Rightarrow> journey_db jresult" where
  "pauseForOperationalRestriction env expectedVersion journeyId reasons stepId db =
     rbind (assertSafePayload reasons) (\<lambda>_.
     rbind (lockJourneyStep journeyId stepId db) (\<lambda>lk.
     rbind (validateCurrentStep lk expectedVersion) (\<lambda>_.
     rbind (ensure (lk_stepCode lk = AUTHORITATIVE_ACTIVATION \<and> lk_journeyStatus lk = RUNNING)
         JOURNEY_INVALID_TRANSITION) (\<lambda>_.
     rbind (updateJourneyVersion journeyId expectedVersion
         (\<lambda>j. j\<lparr>jn_pausedFromStatus := Some RUNNING, jn_status := PAUSED\<rparr>) db) (\<lambda>db1.
     rbind (safePayload (Obj [(ascii ''operation'', Str (ascii ''WAIT_FOR_OPERATIONAL_CLEARANCE'')),
         (ascii ''reasons'', reasons), (ascii ''stepId'', Str stepId)])) (\<lambda>payload.
     writeEventAndOutbox env 0 (ascii ''journey:'' @ journeyId
         @ ascii '':activation:operational-clearance:version:'' @ dec expectedVersion)
       JOURNEY_PAUSED journeyId payload (expectedVersion + 1) db1))))))"

section \<open>Ending a journey early\<close>

definition cancel_jobs :: "journey_env \<Rightarrow> jid \<Rightarrow> jid option \<Rightarrow> journey_db \<Rightarrow> journey_db" where
  "cancel_jobs env journeyId except db = db\<lparr>jdb_jobs := update_where
     (\<lambda>j. (case except of None \<Rightarrow> True | Some a \<Rightarrow> jj_id j \<noteq> a) \<and> jj_journeyId j = journeyId
        \<and> jj_status j \<notin> set [JobCOMPLETED, JobCANCELLED])
     (\<lambda>j. j\<lparr>jj_completedAt := Some (env_now env), jj_leaseExpiresAt := None, jj_leaseToken := None,
        jj_status := JobCANCELLED\<rparr>) (jdb_jobs db)\<rparr>"

definition cancel_outbox :: "jid \<Rightarrow> journey_db \<Rightarrow> journey_db" where
  "cancel_outbox journeyId db = db\<lparr>jdb_outbox := update_where
     (\<lambda>o'. ob_journeyId o' = Some journeyId \<and> ob_status o' \<in> set [OutPENDING, OutPROCESSING])
     (\<lambda>o'. o'\<lparr>ob_leaseExpiresAt := None, ob_leaseToken := None, ob_status := OutCANCELLED\<rparr>)
     (jdb_outbox db)\<rparr>"

definition cancel_open_tasks :: "jid \<Rightarrow> journey_db \<Rightarrow> journey_db" where
  "cancel_open_tasks journeyId db = db\<lparr>jdb_tasks := update_where
     (\<lambda>t. mt_journeyId t = journeyId \<and> mt_status t = TaskOPEN)
     (\<lambda>t. t\<lparr>mt_status := TaskCANCELLED\<rparr>) (jdb_tasks db)\<rparr>"

definition cancel_steps :: "jid \<Rightarrow> jid option \<Rightarrow> journey_db \<Rightarrow> journey_db" where
  "cancel_steps journeyId except db = db\<lparr>jdb_steps := update_where
     (\<lambda>s. (case except of None \<Rightarrow> True | Some a \<Rightarrow> st_id s \<noteq> a) \<and> st_journeyId s = journeyId
        \<and> st_status s \<notin> set [StepCOMPLETED, StepCANCELLED])
     (\<lambda>s. s\<lparr>st_status := StepCANCELLED\<rparr>) (jdb_steps db)\<rparr>"

definition rejectForApplication ::
    "journey_env \<Rightarrow> step_input \<Rightarrow> int \<Rightarrow> jid option \<Rightarrow> journey_db
      \<Rightarrow> (journey_step \<times> journey_db) jresult" where
  "rejectForApplication env input factVersion activeJobId db =
     rbind (assertSafePayload (or_null (si_payload input))) (\<lambda>_.
     rbind (transitionPayload ''REJECT_APPLICATION'' (si_stepId input) (si_payload input)) (\<lambda>eventPayload.
     case find_event (si_eventKey input) db of
       Some duplicate \<Rightarrow>
         rbind (requireExactEvent duplicate JOURNEY_CANCELLED (si_journeyId input) eventPayload) (\<lambda>_.
         rbind (readStep (si_stepId input) (si_journeyId input) db) (\<lambda>step. Inr (step, db)))
     | None \<Rightarrow>
         rbind (lockJourneyStep (si_journeyId input) (si_stepId input) db) (\<lambda>lk.
         rbind (validateCurrentStep lk (si_expectedVersion input)) (\<lambda>_.
         rbind (updateJourneyVersion (si_journeyId input) (si_expectedVersion input)
             (\<lambda>j. j\<lparr>jn_cancelledAt := Some (env_now env), jn_currentStepStatus := StepCANCELLED,
                jn_lastApplicationFactVersion := factVersion, jn_status := CANCELLED\<rparr>) db) (\<lambda>db1.
         let db2 = update_step (si_stepId input) (si_journeyId input)
               (\<lambda>s. s\<lparr>st_status := StepCANCELLED,
                  st_waitingReasonSnapshot := Some (fact_snapshot (si_payload input) factVersion)\<rparr>) db1 in
         rbind (readStep (si_stepId input) (si_journeyId input) db2) (\<lambda>step.
         let db3 = cancel_steps (si_journeyId input) (Some (si_stepId input))
               (cancel_open_tasks (si_journeyId input) (cancel_outbox (si_journeyId input)
                 (cancel_jobs env (si_journeyId input) activeJobId db2))) in
         rbind (writeEventAndOutbox env 0 (si_eventKey input) JOURNEY_CANCELLED (si_journeyId input)
             eventPayload (si_expectedVersion input + 1) db3) (\<lambda>db4.
         Inr (step, db4))))))))"

section \<open>Manual tasks\<close>

text \<open>A partial unique index: one open task per journey and type.\<close>

definition create_task :: "manual_task \<Rightarrow> journey_db \<Rightarrow> journey_db jresult" where
  "create_task t db =
     rbind (ensure (\<not> list_ex (\<lambda>u. mt_journeyId u = mt_journeyId t \<and> mt_taskType u = mt_taskType t
         \<and> mt_status u = TaskOPEN) (jdb_tasks db)) UNIQUE_CONFLICT)
       (\<lambda>_. Inr (db\<lparr>jdb_tasks := jdb_tasks db @ [t]\<rparr>))"

definition new_task :: "jid \<Rightarrow> jid \<Rightarrow> jid \<Rightarrow> manual_task_type \<Rightarrow> js_value \<Rightarrow> manual_task" where
  "new_task taskId journeyId stepId taskType inputSnapshot = \<lparr> mt_id = taskId,
     mt_journeyId = journeyId, mt_stepId = stepId, mt_taskType = taskType, mt_status = TaskOPEN,
     mt_decision = None, mt_inputSnapshot = inputSnapshot, mt_decidedBy = None,
     mt_decisionNotes = None, mt_decidedAt = None, mt_version = 0 \<rparr>"

definition waiting_manual_key :: "jid \<Rightarrow> journey_step_code \<Rightarrow> ustring" where
  "waiting_manual_key journeyId code = ascii ''journey:'' @ journeyId @ ascii '':step:''
     @ step_name code @ ascii '':waiting-manual''"

definition open_new_task ::
    "journey_env \<Rightarrow> js_value \<Rightarrow> locked_step \<Rightarrow> manual_task_type \<Rightarrow> journey_db
      \<Rightarrow> (manual_task \<times> journey_db) jresult" where
  "open_new_task env inputSnapshot lk taskType db =
     (let journeyId = lk_journeyId lk; stepId = lk_stepId lk;
          task = new_task (env_newId env 0) journeyId stepId taskType inputSnapshot in
      rbind (create_task task db) (\<lambda>db1.
      rbind (updateJourneyVersion journeyId (lk_journeyVersion lk)
          (\<lambda>j. j\<lparr>jn_currentStepCode := lk_stepCode lk, jn_currentStepStatus := StepWAITING_MANUAL,
             jn_status := WAITING_MANUAL\<rparr>) db1) (\<lambda>db2.
      let db3 = update_step stepId journeyId
            (\<lambda>s. s\<lparr>st_status := StepWAITING_MANUAL, st_waitingAt := Some (env_now env)\<rparr>) db2 in
      rbind (safePayload (Obj [(ascii ''operation'', Str (ascii ''OPEN_MANUAL_TASK'')),
          (ascii ''stepId'', Str stepId), (ascii ''taskId'', Str (mt_id task))])) (\<lambda>payload.
      rbind (writeEventAndOutbox env 1 (waiting_manual_key journeyId (lk_stepCode lk))
          STEP_WAITING_MANUAL journeyId payload (lk_journeyVersion lk + 1) db3) (\<lambda>db4.
      Inr (task, db4))))))"

fun unique_as_already_open :: "'a jresult \<Rightarrow> 'a jresult" where
  "unique_as_already_open (Inl e) =
     (if e = UNIQUE_CONFLICT then Inl JOURNEY_MANUAL_TASK_ALREADY_OPEN else Inl e)"
| "unique_as_already_open (Inr x) = Inr x"

definition openManualTask ::
    "journey_env \<Rightarrow> js_value \<Rightarrow> jid \<Rightarrow> jid \<Rightarrow> journey_db \<Rightarrow> (manual_task \<times> journey_db) jresult" where
  "openManualTask env inputSnapshot journeyId stepId db =
     rbind (assertSafePayload inputSnapshot) (\<lambda>_.
     rbind (lockJourneyStep journeyId stepId db) (\<lambda>lk.
     rbind (validateCurrentStep lk (lk_journeyVersion lk)) (\<lambda>_.
     case manualTaskTypeFor (lk_stepCode lk) of
       None \<Rightarrow> Inl JOURNEY_INVALID_TRANSITION
     | Some taskType \<Rightarrow>
         (case List.find (\<lambda>t. mt_journeyId t = journeyId \<and> mt_status t = TaskOPEN
             \<and> mt_taskType t = taskType) (jdb_tasks db) of
            Some existing \<Rightarrow> Inr (existing, db)
          | None \<Rightarrow> unique_as_already_open (open_new_task env inputSnapshot lk taskType db)))))"

record decide_input =
  di_decidedBy :: jid
  di_decision :: manual_decision
  di_decisionNotes :: "ustring option"
  di_expectedVersion :: int
  di_journeyId :: jid
  di_taskId :: jid

definition decideManualTask ::
    "journey_env \<Rightarrow> decide_input \<Rightarrow> journey_db \<Rightarrow> (manual_task \<times> journey_db) jresult" where
  "decideManualTask env input db =
     (let P = (\<lambda>t. mt_id t = di_taskId input \<and> mt_journeyId t = di_journeyId input
            \<and> mt_status t = TaskOPEN \<and> mt_version t = di_expectedVersion input);
          db1 = db\<lparr>jdb_tasks := update_where P (\<lambda>t. t\<lparr>mt_decidedAt := Some (env_now env),
             mt_decidedBy := Some (di_decidedBy input), mt_decision := Some (di_decision input),
             mt_decisionNotes := (case safeText (di_decisionNotes input) of
                None \<Rightarrow> mt_decisionNotes t | Some n \<Rightarrow> Some n),
             mt_status := TaskCOMPLETED, mt_version := mt_version t + 1\<rparr>) (jdb_tasks db)\<rparr> in
      rbind (ensure (count_where P (jdb_tasks db) = 1) JOURNEY_OPTIMISTIC_LOCK_CONFLICT) (\<lambda>_.
      case List.find (\<lambda>t. mt_id t = di_taskId input \<and> mt_journeyId t = di_journeyId input)
          (jdb_tasks db1) of
        None \<Rightarrow> Inl JOURNEY_NOT_FOUND
      | Some task \<Rightarrow> Inr (task, db1)))"

section \<open>Going back\<close>

text \<open>An upsert of a step on its journey and code.\<close>

definition upsert_step ::
    "jid \<Rightarrow> jid \<Rightarrow> journey_step_code \<Rightarrow> (journey_step \<Rightarrow> journey_step) \<Rightarrow> (journey_step \<Rightarrow> journey_step)
      \<Rightarrow> journey_db \<Rightarrow> journey_step \<times> journey_db" where
  "upsert_step newId journeyId code create update db =
     (case step_by_code journeyId code db of
        None \<Rightarrow> let s = create (new_step newId journeyId code) in
          (s, db\<lparr>jdb_steps := jdb_steps db @ [s]\<rparr>)
      | Some s \<Rightarrow> (update s, update_step (st_id s) journeyId update db))"

definition reset_step :: "journey_step \<Rightarrow> journey_step" where
  "reset_step s = s\<lparr>st_completedAt := None, st_lastErrorCode := None, st_startedAt := None,
     st_status := StepPENDING, st_waitingAt := None, st_waitingReasonSnapshot := None\<rparr>"

definition RESET_CODES :: "journey_step_code list" where
  "RESET_CODES = [FINAL_PLAN_DECISION, FINAL_VEHICLE_ALLOCATION, CUSTOMER_PLAN_CONFIRMATION,
     ORDER_AND_CONTRACT_CREATION]"

text \<open>\<open>hasOrder\<close>: whether the application has an order that is not deleted.\<close>

definition returnToFinalPlanDecision ::
    "journey_env \<Rightarrow> (jid \<Rightarrow> bool) \<Rightarrow> ustring \<Rightarrow> int \<Rightarrow> int \<Rightarrow> jid \<Rightarrow> jid \<Rightarrow> journey_db \<Rightarrow> journey_db jresult"
where
  "returnToFinalPlanDecision env hasOrder eventKey expectedVersion finalPlanRevision journeyId stepId db =
     rbind (lockJourneyStep journeyId stepId db) (\<lambda>lk.
     rbind (validateCurrentStep lk expectedVersion) (\<lambda>_.
     case find_row jn_id journeyId (jdb_journeys db) of
       None \<Rightarrow> Inl JOURNEY_NOT_FOUND
     | Some j \<Rightarrow>
         rbind (ensure (\<not> (lk_stepCode lk \<noteq> ORDER_AND_CONTRACT_CREATION \<or> jn_orderId j \<noteq> None
             \<or> hasOrder (jn_applicationId j))) JOURNEY_INVALID_TRANSITION) (\<lambda>_.
         let db1 = db\<lparr>jdb_steps := update_where
               (\<lambda>s. st_journeyId s = journeyId \<and> st_code s \<in> set RESET_CODES) reset_step (jdb_steps db)\<rparr>;
             reason = [(ascii ''finalPlanRevision'', Num finalPlanRevision),
               (ascii ''reason'', Str (ascii ''FINAL_PLAN_REVISION_STALE''))];
             wait = (\<lambda>s. s\<lparr>st_status := StepWAITING_MANUAL, st_waitingAt := Some (env_now env),
               st_waitingReasonSnapshot := Some (Obj reason)\<rparr>) in
         case upsert_step (env_newId env 0) journeyId FINAL_PLAN_DECISION wait wait db1 of (planStep, db2) \<Rightarrow>
         let task = new_task (env_newId env 1) journeyId (st_id planStep) TaskFINAL_PLAN_DECISION
               (Obj ((ascii ''applicationId'', Str (jn_applicationId j)) # reason)) in
         rbind (create_task task db2) (\<lambda>db3.
         rbind (updateJourneyVersion journeyId expectedVersion
             (\<lambda>j. j\<lparr>jn_currentStepCode := FINAL_PLAN_DECISION,
                jn_currentStepStatus := StepWAITING_MANUAL, jn_status := WAITING_MANUAL\<rparr>) db3) (\<lambda>db4.
         writeEventAndOutbox env 2 eventKey STEP_WAITING_MANUAL journeyId
           (Obj ((ascii ''operation'', Str (ascii ''REQUIRE_FINAL_PLAN_REQUOTE'')) # reason
              @ [(ascii ''stepId'', Str stepId), (ascii ''taskId'', Str (mt_id task))]))
           (expectedVersion + 1) db4)))))"

definition operation_payload :: "string \<Rightarrow> js_value \<Rightarrow> jid \<Rightarrow> js_value" where
  "operation_payload operation payload stepId = Obj [(ascii ''operation'', Str (ascii operation)),
     (ascii ''payload'', payload), (ascii ''stepId'', Str stepId)]"

definition require_step_by_code :: "jid \<Rightarrow> journey_step_code \<Rightarrow> journey_db \<Rightarrow> journey_step jresult" where
  "require_step_by_code journeyId code db = (case step_by_code journeyId code db of
     None \<Rightarrow> Inl JOURNEY_NOT_FOUND | Some s \<Rightarrow> Inr s)"

definition returnToCustomerConfirmation ::
    "journey_env \<Rightarrow> ustring \<Rightarrow> int \<Rightarrow> jid \<Rightarrow> js_value \<Rightarrow> jid \<Rightarrow> journey_db
      \<Rightarrow> (journey_step \<times> journey_db) jresult" where
  "returnToCustomerConfirmation env eventKey expectedVersion journeyId payload vehicleStepId db =
     rbind (assertSafePayload payload) (\<lambda>_.
     rbind (safePayload (operation_payload ''REQUIRE_PLAN_RECONFIRMATION'' payload vehicleStepId))
       (\<lambda>eventPayload.
     case find_event eventKey db of
       Some duplicate \<Rightarrow>
         rbind (requireExactEvent duplicate STEP_WAITING_CUSTOMER journeyId eventPayload) (\<lambda>_.
         rbind (require_step_by_code journeyId CUSTOMER_PLAN_CONFIRMATION db) (\<lambda>s. Inr (s, db)))
     | None \<Rightarrow>
         rbind (lockJourneyStep journeyId vehicleStepId db) (\<lambda>lk.
         rbind (validateCurrentStep lk expectedVersion) (\<lambda>_.
         rbind (ensure (lk_stepCode lk = FINAL_VEHICLE_ALLOCATION) JOURNEY_INVALID_TRANSITION) (\<lambda>_.
         case upsert_step (env_newId env 0) journeyId CUSTOMER_PLAN_CONFIRMATION
             (\<lambda>s. s\<lparr>st_status := StepWAITING_CUSTOMER, st_waitingAt := Some (env_now env)\<rparr>)
             (\<lambda>s. s\<lparr>st_completedAt := None, st_status := StepWAITING_CUSTOMER,
                st_waitingAt := Some (env_now env)\<rparr>) db of (customerStep, db1) \<Rightarrow>
         let db2 = update_step vehicleStepId journeyId
               (\<lambda>s. s\<lparr>st_completedAt := Some (env_now env), st_status := StepCOMPLETED\<rparr>) db1 in
         rbind (updateJourneyVersion journeyId expectedVersion
             (\<lambda>j. j\<lparr>jn_currentStepCode := CUSTOMER_PLAN_CONFIRMATION,
                jn_currentStepStatus := StepWAITING_CUSTOMER, jn_status := WAITING_CUSTOMER\<rparr>) db2) (\<lambda>db3.
         rbind (writeEventAndOutbox env 1 eventKey STEP_WAITING_CUSTOMER journeyId eventPayload
             (expectedVersion + 1) db3) (\<lambda>db4.
         Inr (customerStep, db4))))))))"

definition returnToHandoverEvidence ::
    "journey_env \<Rightarrow> jid \<Rightarrow> ustring \<Rightarrow> int \<Rightarrow> jid \<Rightarrow> js_value \<Rightarrow> journey_db
      \<Rightarrow> (journey_step \<times> journey_db) jresult" where
  "returnToHandoverEvidence env decisionStepId eventKey expectedVersion journeyId payload db =
     rbind (assertSafePayload payload) (\<lambda>_.
     rbind (safePayload (operation_payload ''REJECT_DELIVERY_EVIDENCE'' payload decisionStepId))
       (\<lambda>eventPayload.
     case find_event eventKey db of
       Some duplicate \<Rightarrow>
         rbind (requireExactEvent duplicate MANUAL_TASK_DECIDED journeyId eventPayload) (\<lambda>_.
         rbind (require_step_by_code journeyId HANDOVER_AND_STAGE2_CREATION db) (\<lambda>s. Inr (s, db)))
     | None \<Rightarrow>
         rbind (lockJourneyStep journeyId decisionStepId db) (\<lambda>lk.
         rbind (validateCurrentStep lk expectedVersion) (\<lambda>_.
         rbind (ensure (lk_stepCode lk = DELIVERY_EVIDENCE_DECISION) JOURNEY_INVALID_TRANSITION) (\<lambda>_.
         case upsert_step (env_newId env 0) journeyId HANDOVER_AND_STAGE2_CREATION
             (\<lambda>s. s\<lparr>st_startedAt := Some (env_now env), st_status := StepRUNNING\<rparr>)
             (\<lambda>s. s\<lparr>st_completedAt := None, st_startedAt := Some (env_now env),
                st_status := StepRUNNING, st_waitingAt := None\<rparr>) db of (handoverStep, db1) \<Rightarrow>
         let db2 = update_step decisionStepId journeyId
               (\<lambda>s. s\<lparr>st_completedAt := None, st_status := StepPENDING, st_waitingAt := None\<rparr>) db1 in
         rbind (updateJourneyVersion journeyId expectedVersion
             (\<lambda>j. j\<lparr>jn_currentStepCode := HANDOVER_AND_STAGE2_CREATION,
                jn_currentStepStatus := StepRUNNING, jn_status := RUNNING\<rparr>) db2) (\<lambda>db3.
         rbind (writeEventAndOutbox env 1 eventKey MANUAL_TASK_DECIDED journeyId eventPayload
             (expectedVersion + 1) db3) (\<lambda>db4.
         Inr (handoverStep, db4))))))))"

section \<open>Exceptions and signals\<close>

record exception_input =
  ei_error :: journey_failure
  ei_jobId :: "jid option"
  ei_journeyId :: jid
  ei_stepId :: jid

definition already_terminal :: "locked_step \<Rightarrow> bool" where
  "already_terminal lk = (lk_stepStatus lk \<in> set [StepCOMPLETED, StepSKIPPED, StepCANCELLED]
     \<or> lk_journeyStatus lk = COMPLETED \<or> lk_journeyStatus lk = CANCELLED)"

definition new_exception :: "journey_env \<Rightarrow> exception_input \<Rightarrow> journey_failure \<Rightarrow> bool \<Rightarrow> journey_exception"
where
  "new_exception env input failure terminal = \<lparr> ex_id = env_newId env 0,
     ex_journeyId = ei_journeyId input, ex_stepId = ei_stepId input, ex_jobId = ei_jobId input,
     ex_status = (if terminal then ExcRESOLVED else ExcOPEN), ex_code = jf_code failure,
     ex_message = jf_message failure, ex_retryable = jf_retryable failure,
     ex_occurredAt = env_now env, ex_resolvedAt = (if terminal then Some (env_now env) else None),
     ex_resolvedBy = None,
     ex_resolutionNotes = (if terminal then Some (ascii
       ''Automatically resolved because the journey or step was already terminal.'') else None) \<rparr>"

definition recordLockedException ::
    "journey_env \<Rightarrow> exception_input \<Rightarrow> locked_step \<Rightarrow> journey_db \<Rightarrow> (journey_exception \<times> journey_db) jresult"
where
  "recordLockedException env input lk db =
     (let failure = safeFailure (ei_error input);
          exc = new_exception env input failure (already_terminal lk);
          db1 = db\<lparr>jdb_exceptions := jdb_exceptions db @ [exc]\<rparr> in
      if already_terminal lk \<or> lk_currentStepCode lk \<noteq> lk_stepCode lk then Inr (exc, db1)
      else
        let db2 = update_step (ei_stepId input) (ei_journeyId input)
              (\<lambda>s. s\<lparr>st_attemptCount := st_attemptCount s + 1,
                 st_lastErrorCode := Some (jf_code failure), st_status := StepEXCEPTION\<rparr>) db1 in
        rbind (updateJourneyVersion (ei_journeyId input) (lk_journeyVersion lk)
            (if lk_journeyStatus lk = PAUSED
             then (\<lambda>j. j\<lparr>jn_currentStepStatus := StepEXCEPTION,
               jn_pausedFromStatus := Some EXCEPTION, jn_status := PAUSED\<rparr>)
             else (\<lambda>j. j\<lparr>jn_currentStepStatus := StepEXCEPTION, jn_status := EXCEPTION\<rparr>)) db2) (\<lambda>db3.
        rbind (safePayload (Obj [(ascii ''errorCode'', Str (jf_code failure)),
            (ascii ''jobId'', case ei_jobId input of None \<Rightarrow> Null | Some i \<Rightarrow> Str i),
            (ascii ''operation'', Str (ascii ''RECORD_EXCEPTION'')),
            (ascii ''retryable'', Bool (jf_retryable failure)),
            (ascii ''stepId'', Str (ei_stepId input))])) (\<lambda>payload.
        rbind (writeEventAndOutbox env 1 (ascii ''journey:'' @ ei_journeyId input @ ascii '':exception:''
              @ ex_id exc) STEP_EXCEPTION (ei_journeyId input) payload (lk_journeyVersion lk + 1) db3)
          (\<lambda>db4. Inr (exc, db4)))))"

definition recordException ::
    "journey_env \<Rightarrow> exception_input \<Rightarrow> journey_db \<Rightarrow> (journey_exception \<times> journey_db) jresult" where
  "recordException env input db =
     rbind (lockJourneyStep (ei_journeyId input) (ei_stepId input) db) (\<lambda>lk.
     recordLockedException env input lk db)"

record signal_input =
  sg_applicationId :: "jid option"
  sg_orderId :: "jid option"
  sg_type :: ustring
  sg_eventKey :: ustring
  sg_payload :: "js_value option"

text \<open>A filter on an undefined order matches every journey, as \<open>findFirst\<close> has it.\<close>

definition find_signalled :: "signal_input \<Rightarrow> journey_db \<Rightarrow> journey option" where
  "find_signalled input db = List.find (\<lambda>j. case sg_applicationId input of
       Some a \<Rightarrow> if a \<noteq> [] then jn_applicationId j = a
                 else (case sg_orderId input of None \<Rightarrow> True | Some o' \<Rightarrow> jn_orderId j = Some o')
     | None \<Rightarrow> (case sg_orderId input of None \<Rightarrow> True | Some o' \<Rightarrow> jn_orderId j = Some o'))
     (jdb_journeys db)"

text \<open>Object spread followed by a property: an existing property keeps its place.\<close>

fun set_property :: "ustring \<Rightarrow> js_value \<Rightarrow> (ustring \<times> js_value) list \<Rightarrow> (ustring \<times> js_value) list" where
  "set_property k v [] = [(k, v)]"
| "set_property k v (e # es) = (if fst e = k then (k, v) # es else e # set_property k v es)"

fun spread :: "js_value \<Rightarrow> (ustring \<times> js_value) list" where
  "spread (Obj es) = es"
| "spread (Date d) = []"
| "spread v = [(ascii ''value'', v)]"

fun payload_version :: "js_value \<Rightarrow> int option" where
  "payload_version (Obj es) = (case map_of es (ascii ''journeyVersion'') of
     Some (Num n) \<Rightarrow> Some n | _ \<Rightarrow> None)"
| "payload_version v = None"

definition signal_payload :: "signal_input \<Rightarrow> int \<Rightarrow> js_value" where
  "signal_payload input journeyVersion = Obj (set_property (ascii ''signalType'') (Str (sg_type input))
     (set_property (ascii ''journeyVersion'') (Num journeyVersion)
       (case sg_payload input of None \<Rightarrow> [(ascii ''value'', Null)]
        | Some Undefined \<Rightarrow> [(ascii ''value'', Null)] | Some v \<Rightarrow> spread v)))"

definition recordSignal :: "journey_env \<Rightarrow> signal_input \<Rightarrow> journey_db \<Rightarrow> journey_db jresult" where
  "recordSignal env input db =
     rbind (assertSafePayload (or_null (sg_payload input))) (\<lambda>_.
     case find_signalled input db of
       None \<Rightarrow> Inl JOURNEY_NOT_FOUND
     | Some j \<Rightarrow>
         let existing = find_event (sg_eventKey input) db;
             journeyVersion = (case existing of None \<Rightarrow> jn_version j + 1
               | Some e \<Rightarrow> (case payload_version (ev_payload e) of
                   Some n \<Rightarrow> n | None \<Rightarrow> jn_version j + 1)) in
         rbind (safePayload (signal_payload input journeyVersion)) (\<lambda>payload.
         case existing of
           Some e \<Rightarrow> rbind (requireExactEvent e DOMAIN_FACT_OBSERVED (jn_id j) payload) (\<lambda>_. Inr db)
         | None \<Rightarrow>
             rbind (updateJourneyVersion (jn_id j) (jn_version j) (\<lambda>j. j) db) (\<lambda>db1.
             writeEventAndOutbox env 0 (sg_eventKey input) DOMAIN_FACT_OBSERVED (jn_id j) payload
               (jn_version j + 1) db1)))"

end
