(* ===== verification/JourneyQueue.thy ===== *)
theory JourneyQueue
  imports Journey Complex_Main
begin

text \<open>
  The jobs and the outbox of the journey (\<open>enqueueJob\<close>, \<open>claimJobs\<close>,
  \<open>completeJob\<close>, \<open>rescheduleJob\<close>, \<open>deadLetterJob\<close> and their outbox
  counterparts in \<open>subscription-journey.repository.ts\<close>) and what the worker
  (\<open>subscription-journey.worker.ts\<close>) does with a claimed job or outbox row.  Unlike the
  billing queue, a lease here is only good until it expires, so the clock is part
  of the state for which the two tables are shown to be leased queues.
\<close>

section \<open>Jobs\<close>

record job_input =
  ji_availableAt :: "time option"
  ji_jobType :: journey_job_type
  ji_journeyId :: jid
  ji_maxAttempts :: "int option"
  ji_payload :: "js_value option"
  ji_sourceKey :: ustring
  ji_stepId :: jid

definition new_journey_job :: "journey_env \<Rightarrow> nat \<Rightarrow> job_input \<Rightarrow> journey_job" where
  "new_journey_job env n input = \<lparr> jj_id = env_newId env n, jj_journeyId = ji_journeyId input,
     jj_stepId = ji_stepId input, jj_jobType = ji_jobType input, jj_status = JobPENDING,
     jj_sourceKey = ji_sourceKey input, jj_payload = ji_payload input, jj_attemptCount = 0,
     jj_maxAttempts = (case ji_maxAttempts input of None \<Rightarrow> 5 | Some m \<Rightarrow> m),
     jj_availableAt = (case ji_availableAt input of None \<Rightarrow> env_now env | Some t \<Rightarrow> t),
     jj_leaseToken = None, jj_leaseExpiresAt = None, jj_lastError = None, jj_completedAt = None,
     jj_createdAt = env_now env \<rparr>"

definition enqueueJob ::
    "journey_env \<Rightarrow> nat \<Rightarrow> job_input \<Rightarrow> journey_db \<Rightarrow> (journey_job \<times> journey_db) jresult" where
  "enqueueJob env n input db =
     rbind (assertSafePayload (or_null (ji_payload input))) (\<lambda>_.
     case find_row jj_sourceKey (ji_sourceKey input) (jdb_jobs db) of
       Some existing \<Rightarrow>
         if jj_journeyId existing \<noteq> ji_journeyId input \<or> jj_stepId existing \<noteq> ji_stepId input
           \<or> jj_jobType existing \<noteq> ji_jobType input
         then Inl JOURNEY_IDEMPOTENCY_CONFLICT
         else rbind (lift_json (sameJourneyJson (or_null (jj_payload existing)) (or_null (ji_payload input))))
           (\<lambda>same. if same then Inr (existing, db) else Inl JOURNEY_IDEMPOTENCY_CONFLICT)
     | None \<Rightarrow>
         let job = new_journey_job env n input in
         Inr (job, db\<lparr>jdb_jobs := jdb_jobs db @ [job]\<rparr>))"

definition journey_job_due :: "time \<Rightarrow> journey_job \<Rightarrow> bool" where
  "journey_job_due now j =
     ((jj_status j \<in> set [JobPENDING, JobRETRY_SCHEDULED] \<and> jj_availableAt j \<le> now)
      \<or> (jj_status j = JobPROCESSING \<and> (case jj_leaseExpiresAt j of None \<Rightarrow> False | Some e \<Rightarrow> e \<le> now)))"

fun payload_property :: "js_value option \<Rightarrow> string \<Rightarrow> js_value option" where
  "payload_property (Some (Obj es)) k = map_of es (ascii k)"
| "payload_property _ k = None"

text \<open>
  Which journeys still have their jobs run: those not paused or ended, and the
  activation job of a completed journey for the current order and plan.
  \<open>revisionOf\<close> reads \<open>final_plan_revision\<close> of an application.
\<close>

definition journey_permits :: "(jid \<Rightarrow> int option) \<Rightarrow> journey_db \<Rightarrow> journey_job \<Rightarrow> bool" where
  "journey_permits revisionOf db job =
     (case find_row jn_id (jj_journeyId job) (jdb_journeys db) of
        None \<Rightarrow> False
      | Some j \<Rightarrow>
          jn_status j \<notin> set [PAUSED, CANCELLED, COMPLETED]
          \<or> (jn_status j = COMPLETED \<and> jn_currentStepCode j = AUTHORITATIVE_ACTIVATION
             \<and> jn_currentStepStatus j = StepCOMPLETED \<and> jn_completedAt j \<noteq> None
             \<and> jj_jobType job = ACTIVATE_SUBSCRIPTION
             \<and> (case jn_orderId j of None \<Rightarrow> False
                | Some o' \<Rightarrow> payload_property (jj_payload job) ''orderId'' = Some (Str o'))
             \<and> list_ex (\<lambda>s. st_id s = jj_stepId job \<and> st_journeyId s = jn_id j
                 \<and> st_code s = AUTHORITATIVE_ACTIVATION \<and> st_status s = StepCOMPLETED
                 \<and> st_completedAt s \<noteq> None) (jdb_steps db)
             \<and> (case revisionOf (jn_applicationId j) of None \<Rightarrow> False
                | Some r \<Rightarrow> payload_property (jj_payload job) ''finalPlanRevision'' = Some (Num r))))"

definition validClaim :: "int \<Rightarrow> int \<Rightarrow> bool" where
  "validClaim limit leaseMs = (limit > 0 \<and> leaseMs > 0)"

definition jobs_by_availability :: "journey_job list \<Rightarrow> journey_job list" where
  "jobs_by_availability q = sort_key jj_availableAt (sort_key jj_createdAt q)"

definition lease_journey_job :: "int \<Rightarrow> ustring \<Rightarrow> time \<Rightarrow> journey_job \<Rightarrow> journey_job" where
  "lease_journey_job leaseMs leaseToken now j = j\<lparr>jj_status := JobPROCESSING,
     jj_leaseToken := Some leaseToken, jj_leaseExpiresAt := Some (now + leaseMs)\<rparr>"

definition claimJobs ::
    "(jid \<Rightarrow> int option) \<Rightarrow> int \<Rightarrow> int \<Rightarrow> ustring \<Rightarrow> time \<Rightarrow> journey_db \<Rightarrow> journey_job list \<times> journey_db"
where
  "claimJobs revisionOf limit leaseMs leaseToken now db =
     (if \<not> validClaim limit leaseMs then ([], db)
      else
        let ids = map jj_id (take (nat limit) (jobs_by_availability
              (filter (\<lambda>j. journey_job_due now j \<and> journey_permits revisionOf db j) (jdb_jobs db))));
            rows = update_where (\<lambda>j. jj_id j \<in> set ids \<and> journey_job_due now j)
              (lease_journey_job leaseMs leaseToken now) (jdb_jobs db)
        in (filter (\<lambda>j. jj_leaseExpiresAt j \<noteq> None \<and> jj_leaseToken j \<noteq> None)
              (jobs_by_availability (filter (\<lambda>j. jj_id j \<in> set ids \<and> jj_leaseToken j = Some leaseToken) rows)),
            db\<lparr>jdb_jobs := rows\<rparr>))"

definition job_lease_active :: "jid \<Rightarrow> ustring \<Rightarrow> time \<Rightarrow> journey_job \<Rightarrow> bool" where
  "job_lease_active jobId leaseToken now j =
     (jj_id j = jobId \<and> jj_status j = JobPROCESSING \<and> jj_leaseToken j = Some leaseToken
      \<and> (case jj_leaseExpiresAt j of None \<Rightarrow> False | Some e \<Rightarrow> now < e))"

text \<open>The guarded update every settlement is, and \<open>requireLease\<close> on its row count.\<close>

definition settle_job_row ::
    "jid \<Rightarrow> ustring \<Rightarrow> time \<Rightarrow> (journey_job \<Rightarrow> journey_job) \<Rightarrow> journey_db \<Rightarrow> journey_db jresult" where
  "settle_job_row jobId leaseToken now f db =
     rbind (ensure (count_where (job_lease_active jobId leaseToken now) (jdb_jobs db) = 1)
         JOURNEY_LEASE_LOST)
       (\<lambda>_. Inr (db\<lparr>jdb_jobs := update_where (job_lease_active jobId leaseToken now) f (jdb_jobs db)\<rparr>))"

definition completed_job :: "time \<Rightarrow> journey_job \<Rightarrow> journey_job" where
  "completed_job now j = j\<lparr>jj_status := JobCOMPLETED, jj_completedAt := Some now, jj_lastError := None,
     jj_leaseExpiresAt := None, jj_leaseToken := None\<rparr>"

definition completeJob ::
    "jid \<Rightarrow> ustring \<Rightarrow> js_value option \<Rightarrow> time \<Rightarrow> journey_db \<Rightarrow> journey_db jresult" where
  "completeJob jobId leaseToken result now db =
     rbind (assertSafePayload (or_null result)) (\<lambda>_.
     settle_job_row jobId leaseToken now (completed_job now) db)"

definition rescheduled_job :: "int \<Rightarrow> journey_failure \<Rightarrow> time \<Rightarrow> journey_job \<Rightarrow> journey_job" where
  "rescheduled_job delayMs failure now j = j\<lparr>jj_status := JobRETRY_SCHEDULED,
     jj_attemptCount := jj_attemptCount j + 1, jj_availableAt := now + delayMs,
     jj_lastError := Some (jf_code failure, jf_message failure), jj_leaseExpiresAt := None,
     jj_leaseToken := None\<rparr>"

definition rescheduleJob ::
    "jid \<Rightarrow> ustring \<Rightarrow> int \<Rightarrow> journey_failure \<Rightarrow> time \<Rightarrow> journey_db \<Rightarrow> journey_db jresult" where
  "rescheduleJob jobId leaseToken delayMs error now db =
     rbind (ensure (0 \<le> delayMs) RETRY_DELAY_RANGE) (\<lambda>_.
     settle_job_row jobId leaseToken now (rescheduled_job delayMs (safeFailure error) now) db)"

definition dead_letter_job :: "journey_failure \<Rightarrow> time \<Rightarrow> journey_job \<Rightarrow> journey_job" where
  "dead_letter_job failure now j = j\<lparr>jj_status := JobDEAD_LETTER,
     jj_attemptCount := jj_attemptCount j + 1, jj_completedAt := Some now,
     jj_lastError := Some (jf_code failure, jf_message failure), jj_leaseExpiresAt := None,
     jj_leaseToken := None\<rparr>"

definition deadLetterJob ::
    "journey_env \<Rightarrow> jid \<Rightarrow> ustring \<Rightarrow> exception_input \<Rightarrow> journey_db
      \<Rightarrow> (journey_exception \<times> journey_db) jresult" where
  "deadLetterJob env jobId leaseToken input db =
     (let failure = safeFailure (ei_error input) in
      rbind (lockJourneyStep (ei_journeyId input) (ei_stepId input) db) (\<lambda>lk.
      rbind (settle_job_row jobId leaseToken (env_now env) (dead_letter_job failure (env_now env)) db) (\<lambda>db1.
      recordLockedException env (input\<lparr>ei_error := failure\<rparr>) lk db1)))"

section \<open>Outbox\<close>

datatype outbox_mode = OutboxAll | OutboxNotification | OutboxSignal

definition JOURNEY_NOTIFICATION :: ustring where
  "JOURNEY_NOTIFICATION = ascii ''JOURNEY_NOTIFICATION''"

fun type_matches :: "outbox_mode \<Rightarrow> journey_outbox \<Rightarrow> bool" where
  "type_matches OutboxSignal r = (ob_aggregateType r \<noteq> JOURNEY_NOTIFICATION)"
| "type_matches OutboxNotification r = (ob_aggregateType r = JOURNEY_NOTIFICATION)"
| "type_matches OutboxAll r = True"

definition outbox_due :: "time \<Rightarrow> journey_outbox \<Rightarrow> bool" where
  "outbox_due now r =
     ((ob_status r = OutPENDING \<and> ob_availableAt r \<le> now)
      \<or> (ob_status r = OutPROCESSING \<and> (case ob_leaseExpiresAt r of None \<Rightarrow> False | Some e \<Rightarrow> e \<le> now)))"

definition outbox_by_availability :: "journey_outbox list \<Rightarrow> journey_outbox list" where
  "outbox_by_availability q = sort_key ob_availableAt (sort_key ob_createdAt q)"

definition lease_outbox :: "int \<Rightarrow> ustring \<Rightarrow> time \<Rightarrow> journey_outbox \<Rightarrow> journey_outbox" where
  "lease_outbox leaseMs leaseToken now r = r\<lparr>ob_status := OutPROCESSING,
     ob_leaseToken := Some leaseToken, ob_leaseExpiresAt := Some (now + leaseMs)\<rparr>"

definition claimOutboxByMode ::
    "outbox_mode \<Rightarrow> int \<Rightarrow> int \<Rightarrow> ustring \<Rightarrow> time \<Rightarrow> journey_db \<Rightarrow> journey_outbox list \<times> journey_db" where
  "claimOutboxByMode mode limit leaseMs leaseToken now db =
     (if \<not> validClaim limit leaseMs then ([], db)
      else
        let ids = map ob_id (take (nat limit) (outbox_by_availability
              (filter (\<lambda>r. outbox_due now r \<and> type_matches mode r) (jdb_outbox db))));
            rows = update_where (\<lambda>r. ob_id r \<in> set ids \<and> outbox_due now r \<and> type_matches mode r)
              (lease_outbox leaseMs leaseToken now) (jdb_outbox db)
        in (filter (\<lambda>r. ob_leaseExpiresAt r \<noteq> None \<and> ob_leaseToken r \<noteq> None)
              (outbox_by_availability (filter (\<lambda>r. ob_id r \<in> set ids \<and> ob_leaseToken r = Some leaseToken) rows)),
            db\<lparr>jdb_outbox := rows\<rparr>))"

definition outbox_lease_active :: "jid \<Rightarrow> ustring \<Rightarrow> time \<Rightarrow> journey_outbox \<Rightarrow> bool" where
  "outbox_lease_active outboxId leaseToken now r =
     (ob_id r = outboxId \<and> ob_status r = OutPROCESSING \<and> ob_leaseToken r = Some leaseToken
      \<and> (case ob_leaseExpiresAt r of None \<Rightarrow> False | Some e \<Rightarrow> now < e))"

definition settle_outbox_row ::
    "jid \<Rightarrow> ustring \<Rightarrow> time \<Rightarrow> (journey_outbox \<Rightarrow> journey_outbox) \<Rightarrow> journey_db \<Rightarrow> journey_db jresult" where
  "settle_outbox_row outboxId leaseToken now f db =
     rbind (ensure (count_where (outbox_lease_active outboxId leaseToken now) (jdb_outbox db) = 1)
         JOURNEY_LEASE_LOST)
       (\<lambda>_. Inr (db\<lparr>jdb_outbox := update_where (outbox_lease_active outboxId leaseToken now) f
          (jdb_outbox db)\<rparr>))"

definition delivered_outbox :: "time \<Rightarrow> journey_outbox \<Rightarrow> journey_outbox" where
  "delivered_outbox now r = r\<lparr>ob_status := OutDELIVERED, ob_deliveredAt := Some now,
     ob_lastError := None, ob_leaseExpiresAt := None, ob_leaseToken := None\<rparr>"

definition completeOutbox :: "jid \<Rightarrow> ustring \<Rightarrow> time \<Rightarrow> journey_db \<Rightarrow> journey_db jresult" where
  "completeOutbox outboxId leaseToken now db =
     settle_outbox_row outboxId leaseToken now (delivered_outbox now) db"

definition rescheduled_outbox :: "int \<Rightarrow> journey_failure \<Rightarrow> time \<Rightarrow> journey_outbox \<Rightarrow> journey_outbox" where
  "rescheduled_outbox delayMs failure now r = r\<lparr>ob_status := OutPENDING,
     ob_attemptCount := ob_attemptCount r + 1, ob_availableAt := now + delayMs,
     ob_lastError := Some (jf_code failure, jf_message failure), ob_leaseExpiresAt := None,
     ob_leaseToken := None\<rparr>"

definition rescheduleOutbox ::
    "jid \<Rightarrow> ustring \<Rightarrow> int \<Rightarrow> journey_failure \<Rightarrow> time \<Rightarrow> journey_db \<Rightarrow> journey_db jresult" where
  "rescheduleOutbox outboxId leaseToken delayMs error now db =
     rbind (ensure (0 \<le> delayMs) RETRY_DELAY_RANGE) (\<lambda>_.
     settle_outbox_row outboxId leaseToken now (rescheduled_outbox delayMs (safeFailure error) now) db)"

definition dead_letter_outbox :: "journey_failure \<Rightarrow> journey_outbox \<Rightarrow> journey_outbox" where
  "dead_letter_outbox failure r = r\<lparr>ob_status := OutDEAD_LETTER,
     ob_attemptCount := ob_attemptCount r + 1,
     ob_lastError := Some (jf_code failure, jf_message failure), ob_leaseExpiresAt := None,
     ob_leaseToken := None\<rparr>"

definition deadLetterOutbox ::
    "jid \<Rightarrow> ustring \<Rightarrow> journey_failure \<Rightarrow> time \<Rightarrow> journey_db \<Rightarrow> journey_db jresult" where
  "deadLetterOutbox outboxId leaseToken error now db =
     settle_outbox_row outboxId leaseToken now (dead_letter_outbox (safeFailure error)) db"

fun event_name :: "event_type \<Rightarrow> ustring" where
  "event_name JOURNEY_STARTED = ascii ''JOURNEY_STARTED''"
| "event_name STEP_WAITING_CUSTOMER = ascii ''STEP_WAITING_CUSTOMER''"
| "event_name STEP_WAITING_MANUAL = ascii ''STEP_WAITING_MANUAL''"
| "event_name STEP_COMPLETED = ascii ''STEP_COMPLETED''"
| "event_name STEP_EXCEPTION = ascii ''STEP_EXCEPTION''"
| "event_name MANUAL_TASK_DECIDED = ascii ''MANUAL_TASK_DECIDED''"
| "event_name DOMAIN_FACT_OBSERVED = ascii ''DOMAIN_FACT_OBSERVED''"
| "event_name JOURNEY_PAUSED = ascii ''JOURNEY_PAUSED''"
| "event_name JOURNEY_RESUMED = ascii ''JOURNEY_RESUMED''"
| "event_name JOURNEY_CANCELLED = ascii ''JOURNEY_CANCELLED''"
| "event_name JOURNEY_COMPLETED = ascii ''JOURNEY_COMPLETED''"
| "event_name EXCEPTION_RESOLVED = ascii ''EXCEPTION_RESOLVED''"

definition enqueueNotificationOutbox ::
    "journey_env \<Rightarrow> nat \<Rightarrow> journey_outbox \<Rightarrow> journey_db \<Rightarrow> journey_db jresult" where
  "enqueueNotificationOutbox env n source db =
     (case ob_journeyId source of
        None \<Rightarrow> Inl JOURNEY_NOT_FOUND
      | Some journeyId \<Rightarrow>
          rbind (safePayload (Obj [(ascii ''eventKey'', Str (ob_eventKey source)),
              (ascii ''eventType'', Str (event_name (ob_eventType source))),
              (ascii ''sourceOutboxId'', Str (ob_id source))])) (\<lambda>payload.
          Inr (writeOutbox env n journeyId JOURNEY_NOTIFICATION
            (ascii ''journey-notification:'' @ ob_id source) (ob_eventType source) journeyId payload db)))"

section \<open>The worker\<close>

definition DEFAULT_RETRY_DELAYS_MS :: "int list" where
  "DEFAULT_RETRY_DELAYS_MS = [30000, 120000, 600000, 1800000]"

definition FADADA_RECONCILE_DELAYS_MS :: "int list" where
  "FADADA_RECONCILE_DELAYS_MS = [300000, 1800000, 21600000]"

definition MAX_OUTBOX_ATTEMPTS :: int where "MAX_OUTBOX_ATTEMPTS = 5"
definition MAX_RETRY_AFTER_MS :: int where "MAX_RETRY_AFTER_MS = 7200000"

definition baseRetryDelayMs :: "int \<Rightarrow> int" where
  "baseRetryDelayMs failedExecution =
     DEFAULT_RETRY_DELAYS_MS ! nat (min (max (failedExecution - 1) 0) (int (length DEFAULT_RETRY_DELAYS_MS) - 1))"

definition fadadaReconcileDelayMs :: "int \<Rightarrow> int" where
  "fadadaReconcileDelayMs observation =
     FADADA_RECONCILE_DELAYS_MS ! nat (min (max (observation - 1) 0) (int (length FADADA_RECONCILE_DELAYS_MS) - 1))"

text \<open>\<open>random\<close> is what \<open>Math.random()\<close> returned; the product is taken exactly.\<close>

definition jitteredRetryDelayMs :: "int \<Rightarrow> rat \<Rightarrow> int" where
  "jitteredRetryDelayMs baseMs random =
     (let boundedRandom = min (max random 0) 1 in baseMs + \<lfloor>of_int baseMs * (1 / 5) * boundedRandom\<rfloor>)"

definition capRetryAfterMs :: "int \<Rightarrow> int" where
  "capRetryAfterMs retryAfterMs = min (max retryAfterMs 0) MAX_RETRY_AFTER_MS"

text \<open>What a handler throws: a journey error with code, \<open>retryable\<close> and \<open>retryAfterMs\<close>, or another.\<close>

datatype journey_thrown = JourneyError string bool "int option" | OtherThrown

record sanitized_failure =
  sf_failure :: journey_failure
  sf_retryAfterMs :: "int option"

definition failure_of :: "string \<Rightarrow> string \<Rightarrow> bool \<Rightarrow> int option \<Rightarrow> sanitized_failure" where
  "failure_of code message retryable retryAfterMs = \<lparr> sf_failure = \<lparr> jf_code = ascii code,
     jf_message = ascii message, jf_retryable = retryable \<rparr>, sf_retryAfterMs = retryAfterMs \<rparr>"

fun sanitizeJourneyFailure :: "journey_thrown \<Rightarrow> sanitized_failure" where
  "sanitizeJourneyFailure (JourneyError code retryable retryAfterMs) =
     (if code = ''JOURNEY_HANDLER_NOT_READY''
      then failure_of code ''The subscription journey handler is not ready.'' False None
      else if code = ''JOURNEY_CONFIGURATION_ERROR''
      then failure_of code ''Subscription journey worker configuration is invalid.'' False None
      else failure_of code ''Subscription journey operation failed.'' retryable retryAfterMs)"
| "sanitizeJourneyFailure OtherThrown =
     failure_of ''JOURNEY_EXECUTION_ERROR'' ''Subscription journey operation failed.'' True None"

definition retryDelayForJob :: "journey_job \<Rightarrow> sanitized_failure \<Rightarrow> rat \<Rightarrow> int" where
  "retryDelayForJob job failure random =
     (case sf_retryAfterMs failure of
        Some ms \<Rightarrow> capRetryAfterMs ms
      | None \<Rightarrow>
          let failedExecution = jj_attemptCount job + 1 in
          if jj_jobType job = RECONCILE_FADADA_SIGNING then fadadaReconcileDelayMs failedExecution
          else jitteredRetryDelayMs (baseRetryDelayMs failedExecution) random)"

text \<open>The errors the repository throws itself, as the worker sees them.\<close>

fun thrown_of :: "journey_error \<Rightarrow> journey_thrown" where
  "thrown_of JOURNEY_NOT_FOUND = JourneyError ''JOURNEY_NOT_FOUND'' False None"
| "thrown_of JOURNEY_INVALID_TRANSITION = JourneyError ''JOURNEY_INVALID_TRANSITION'' False None"
| "thrown_of JOURNEY_OPTIMISTIC_LOCK_CONFLICT =
     JourneyError ''JOURNEY_OPTIMISTIC_LOCK_CONFLICT'' True None"
| "thrown_of JOURNEY_IDEMPOTENCY_CONFLICT = JourneyError ''JOURNEY_IDEMPOTENCY_CONFLICT'' False None"
| "thrown_of JOURNEY_SENSITIVE_PAYLOAD = JourneyError ''JOURNEY_SENSITIVE_PAYLOAD'' False None"
| "thrown_of JOURNEY_LEASE_LOST = JourneyError ''JOURNEY_LEASE_LOST'' True None"
| "thrown_of JOURNEY_MANUAL_TASK_ALREADY_OPEN =
     JourneyError ''JOURNEY_MANUAL_TASK_ALREADY_OPEN'' False None"
| "thrown_of _ = OtherThrown"

datatype handler_result = Returned "js_value option" | Threw journey_thrown

text \<open>
  \<open>outcome\<close> is what the handler did with the claimed job.  A failure to complete
  is handled like a failure of the handler.
\<close>

definition settle_failed_job ::
    "journey_env \<Rightarrow> rat \<Rightarrow> journey_job \<Rightarrow> journey_thrown \<Rightarrow> journey_db \<Rightarrow> journey_db jresult" where
  "settle_failed_job env random job error db =
     (let failure = sanitizeJourneyFailure error;
          token = (case jj_leaseToken job of None \<Rightarrow> [] | Some t \<Rightarrow> t);
          failedExecution = jj_attemptCount job + 1 in
      if \<not> jf_retryable (sf_failure failure) \<or> failedExecution \<ge> jj_maxAttempts job
      then rbind (deadLetterJob env (jj_id job) token \<lparr> ei_error = sf_failure failure,
          ei_jobId = Some (jj_id job), ei_journeyId = jj_journeyId job, ei_stepId = jj_stepId job \<rparr> db)
        (\<lambda>r. Inr (snd r))
      else rescheduleJob (jj_id job) token (retryDelayForJob job failure random) (sf_failure failure)
        (env_now env) db)"

definition handleJob ::
    "journey_env \<Rightarrow> rat \<Rightarrow> journey_job \<Rightarrow> handler_result \<Rightarrow> journey_db \<Rightarrow> journey_db jresult" where
  "handleJob env random job outcome db =
     (let token = (case jj_leaseToken job of None \<Rightarrow> [] | Some t \<Rightarrow> t) in
      case outcome of
        Threw error \<Rightarrow> settle_failed_job env random job error db
      | Returned result \<Rightarrow>
          (case completeJob (jj_id job) token result (env_now env) db of
             Inr db1 \<Rightarrow> Inr db1
           | Inl e \<Rightarrow> settle_failed_job env random job (thrown_of e) db))"

text \<open>\<open>dispatch\<close> is what dispatching the row does in the transaction that completes it.\<close>

definition handleOutbox ::
    "journey_env \<Rightarrow> rat \<Rightarrow> journey_outbox \<Rightarrow> (journey_db \<Rightarrow> journey_thrown + journey_db) \<Rightarrow> journey_db
      \<Rightarrow> journey_db jresult" where
  "handleOutbox env random row dispatch db =
     (let token = (case ob_leaseToken row of None \<Rightarrow> [] | Some t \<Rightarrow> t);
          attempt = (case dispatch db of
             Inl e \<Rightarrow> Inl e
           | Inr db1 \<Rightarrow> (case completeOutbox (ob_id row) token (env_now env) db1 of
               Inl e \<Rightarrow> Inl (thrown_of e) | Inr db2 \<Rightarrow> Inr db2)) in
      case attempt of
        Inr db2 \<Rightarrow> Inr db2
      | Inl error \<Rightarrow>
          let failure = sanitizeJourneyFailure error; failedAttempt = ob_attemptCount row + 1 in
          if \<not> jf_retryable (sf_failure failure) \<or> failedAttempt \<ge> MAX_OUTBOX_ATTEMPTS
          then deadLetterOutbox (ob_id row) token (sf_failure failure) (env_now env) db
          else rescheduleOutbox (ob_id row) token
            (case sf_retryAfterMs failure of
               None \<Rightarrow> jitteredRetryDelayMs (baseRetryDelayMs failedAttempt) random
             | Some ms \<Rightarrow> capRetryAfterMs ms) (sf_failure failure) (env_now env) db)"

end
