(* ===== verification/JourneyAdmin.thy ===== *)
theory JourneyAdmin
  imports JourneyQueue
begin

text \<open>
  What an administrator does to a journey (\<open>pauseJourney\<close>, \<open>resumeJourney\<close>,
  \<open>retryJourney\<close>, \<open>cancelJourney\<close> of \<open>subscription-journey.service.ts\<close>), the
  order attached to it, and all operations on a journey as one type.  Facts of
  other modules are parameters: whether the application and the order of a
  resumed journey still exist, whether the contract of a cancelled one is signed;
  the writes of a cancellation to orders and vehicles, and the audit log, are
  outside this state.
\<close>

definition lockAdminJourney :: "jid \<Rightarrow> int \<Rightarrow> journey_db \<Rightarrow> journey jresult" where
  "lockAdminJourney journeyId expectedVersion db =
     (case find_row jn_id journeyId (jdb_journeys db) of
        None \<Rightarrow> Inl JOURNEY_NOT_FOUND
      | Some j \<Rightarrow> if jn_version j \<noteq> expectedVersion then Inl JOURNEY_OPTIMISTIC_LOCK_CONFLICT
                  else Inr j)"

definition writeAdminEvent ::
    "journey_env \<Rightarrow> nat \<Rightarrow> journey \<Rightarrow> event_type \<Rightarrow> string \<Rightarrow> ustring \<Rightarrow> journey_db \<Rightarrow> journey_db jresult"
where
  "writeAdminEvent env n j eventType operation reason db =
     (let eventKey = ascii ''journey:'' @ jn_id j @ ascii '':admin:'' @ map lower (ascii operation)
            @ ascii '':'' @ dec (jn_version j + 1);
          payload = Obj [(ascii ''operation'', Str (ascii operation)), (ascii ''reason'', Str reason),
            (ascii ''stepCode'', Str (step_name (jn_currentStepCode j)))] in
      rbind (create_event \<lparr> ev_journeyId = jn_id j, ev_sequence = jn_version j + 1,
          ev_eventKey = eventKey, ev_eventType = eventType, ev_payload = payload \<rparr> db) (\<lambda>db1.
      Inr (writeOutbox env n (jn_id j) (ascii ''SUBSCRIPTION_JOURNEY'') (eventKey @ ascii '':outbox'')
        eventType (jn_id j) payload db1)))"

definition pauseJourney ::
    "journey_env \<Rightarrow> jid \<Rightarrow> int \<Rightarrow> ustring \<Rightarrow> journey_db \<Rightarrow> journey_db jresult" where
  "pauseJourney env journeyId version reason db =
     rbind (lockAdminJourney journeyId version db) (\<lambda>j.
     rbind (ensure (jn_status j \<notin> set [PAUSED, COMPLETED, CANCELLED])
         (ADMIN_REJECTED ''JOURNEY_PAUSE_NOT_ALLOWED'')) (\<lambda>_.
     rbind (updateJourneyVersion (jn_id j) (jn_version j)
         (\<lambda>x. x\<lparr>jn_pausedFromStatus := Some (jn_status j), jn_status := PAUSED\<rparr>) db) (\<lambda>db1.
     writeAdminEvent env 0 j JOURNEY_PAUSED ''PAUSE'' reason db1)))"

fun JOB_TYPE_BY_STEP :: "journey_step_code \<Rightarrow> journey_job_type option" where
  "JOB_TYPE_BY_STEP APPLICATION_VALIDATION = Some VALIDATE_APPLICATION"
| "JOB_TYPE_BY_STEP AUTHORITATIVE_ACTIVATION = Some ACTIVATE_SUBSCRIPTION"
| "JOB_TYPE_BY_STEP CUSTOMER_JSAPI_PAYMENT = Some EVALUATE_PAYMENT_SETTLEMENT"
| "JOB_TYPE_BY_STEP FADADA_SIGNING_AND_ARCHIVE = Some START_FADADA_SIGNING"
| "JOB_TYPE_BY_STEP HANDOVER_AND_STAGE2_CREATION = Some CREATE_HANDOVER"
| "JOB_TYPE_BY_STEP INITIAL_BILLING = Some GENERATE_INITIAL_BILLS"
| "JOB_TYPE_BY_STEP ORDER_AND_CONTRACT_CREATION = Some CREATE_ORDER_AND_CONTRACT"
| "JOB_TYPE_BY_STEP _ = None"

definition enqueue_resumed ::
    "journey_env \<Rightarrow> (jid \<Rightarrow> int) \<Rightarrow> journey \<Rightarrow> journey_db \<Rightarrow> journey_db jresult" where
  "enqueue_resumed env revisionOf j db =
     (case (JOB_TYPE_BY_STEP (jn_currentStepCode j), step_by_code (jn_id j) (jn_currentStepCode j) db) of
        (Some jobType, Some step) \<Rightarrow>
          rbind (enqueueJob env 0 \<lparr> ji_availableAt = None, ji_jobType = jobType,
              ji_journeyId = jn_id j, ji_maxAttempts = None,
              ji_payload = Some (Obj [(ascii ''applicationId'', Str (jn_applicationId j)),
                (ascii ''finalPlanRevision'', Num (revisionOf (jn_applicationId j))),
                (ascii ''orderId'', case jn_orderId j of None \<Rightarrow> Null | Some o' \<Rightarrow> Str o'),
                (ascii ''recoveryVersion'', Num (jn_version j + 1))]),
              ji_sourceKey = ascii ''journey:'' @ jn_id j @ ascii '':resume:'' @ dec (jn_version j + 1),
              ji_stepId = st_id step \<rparr> db) (\<lambda>r. Inr (snd r))
      | _ \<Rightarrow> Inr db)"

definition resumeJourney ::
    "journey_env \<Rightarrow> (journey \<Rightarrow> bool) \<Rightarrow> (jid \<Rightarrow> int) \<Rightarrow> jid \<Rightarrow> int \<Rightarrow> ustring \<Rightarrow> journey_db
      \<Rightarrow> journey_db jresult" where
  "resumeJourney env factsHold revisionOf journeyId version reason db =
     rbind (lockAdminJourney journeyId version db) (\<lambda>j.
     case jn_pausedFromStatus j of
       None \<Rightarrow> Inl (ADMIN_REJECTED ''JOURNEY_RESUME_NOT_ALLOWED'')
     | Some restoredStatus \<Rightarrow>
         rbind (ensure (jn_status j = PAUSED) (ADMIN_REJECTED ''JOURNEY_RESUME_NOT_ALLOWED'')) (\<lambda>_.
         rbind (ensure (factsHold j) (ADMIN_REJECTED ''JOURNEY_FACTS_NOT_FOUND'')) (\<lambda>_.
         rbind (updateJourneyVersion (jn_id j) (jn_version j)
             (\<lambda>x. x\<lparr>jn_pausedFromStatus := None, jn_status := restoredStatus\<rparr>) db) (\<lambda>db1.
         rbind (if restoredStatus = RUNNING then enqueue_resumed env revisionOf j db1 else Inr db1) (\<lambda>db2.
         writeAdminEvent env 1 j JOURNEY_RESUMED ''RESUME'' reason db2)))))"

definition latest_open_exception :: "jid \<Rightarrow> journey_db \<Rightarrow> journey_exception option" where
  "latest_open_exception journeyId db =
     (case sort_key (\<lambda>x. - ex_occurredAt x)
         (filter (\<lambda>x. ex_journeyId x = journeyId \<and> ex_status x = ExcOPEN) (jdb_exceptions db)) of
        [] \<Rightarrow> None | x # xs \<Rightarrow> Some x)"

definition retried_job :: "time \<Rightarrow> journey_job \<Rightarrow> journey_job" where
  "retried_job now j = j\<lparr>jj_availableAt := now, jj_completedAt := None, jj_lastError := None,
     jj_leaseExpiresAt := None, jj_leaseToken := None, jj_status := JobRETRY_SCHEDULED\<rparr>"

definition retryJourney ::
    "journey_env \<Rightarrow> jid \<Rightarrow> jid \<Rightarrow> int \<Rightarrow> ustring \<Rightarrow> journey_db \<Rightarrow> journey_db jresult" where
  "retryJourney env userId journeyId version reason db =
     rbind (lockAdminJourney journeyId version db) (\<lambda>j.
     rbind (ensure (jn_status j = EXCEPTION) (ADMIN_REJECTED ''JOURNEY_RETRY_NOT_ALLOWED'')) (\<lambda>_.
     case latest_open_exception journeyId db of
       None \<Rightarrow> Inl (ADMIN_REJECTED ''JOURNEY_OPEN_EXCEPTION_REQUIRED'')
     | Some exc \<Rightarrow>
         (case ex_jobId exc of
            None \<Rightarrow> Inl (ADMIN_REJECTED ''JOURNEY_OPEN_EXCEPTION_REQUIRED'')
          | Some jobId \<Rightarrow>
              rbind (ensure (list_ex (\<lambda>x. jj_id x = jobId \<and> jj_journeyId x = journeyId
                  \<and> jj_status x = JobDEAD_LETTER) (jdb_jobs db))
                (ADMIN_REJECTED ''JOURNEY_DEAD_LETTER_JOB_REQUIRED'')) (\<lambda>_.
              let db1 = db\<lparr>jdb_jobs := update_where (\<lambda>x. jj_id x = jobId) (retried_job (env_now env)) (jdb_jobs db),
                    jdb_exceptions := update_where (\<lambda>x. ex_id x = ex_id exc)
                      (\<lambda>x. x\<lparr>ex_resolutionNotes := Some reason, ex_resolvedAt := Some (env_now env),
                         ex_resolvedBy := Some userId, ex_status := ExcRESOLVED\<rparr>) (jdb_exceptions db)\<rparr>;
                  db2 = update_step (ex_stepId exc) journeyId
                    (\<lambda>s. s\<lparr>st_lastErrorCode := None, st_status := StepRETRY_SCHEDULED\<rparr>) db1 in
              rbind (updateJourneyVersion (jn_id j) (jn_version j)
                  (\<lambda>x. x\<lparr>jn_currentStepStatus := StepRETRY_SCHEDULED, jn_status := RETRY_SCHEDULED\<rparr>) db2) (\<lambda>db3.
              writeAdminEvent env 0 j EXCEPTION_RESOLVED ''RETRY'' reason db3)))))"

definition cancelJourney ::
    "journey_env \<Rightarrow> (jid \<Rightarrow> bool) \<Rightarrow> jid \<Rightarrow> int \<Rightarrow> ustring \<Rightarrow> journey_db \<Rightarrow> journey_db jresult" where
  "cancelJourney env contractSigned journeyId version reason db =
     rbind (lockAdminJourney journeyId version db) (\<lambda>j.
     rbind (ensure (jn_status j \<notin> set [COMPLETED, CANCELLED])
         (ADMIN_REJECTED ''JOURNEY_CANCEL_NOT_ALLOWED'')) (\<lambda>_.
     rbind (ensure (case jn_orderId j of None \<Rightarrow> True | Some o' \<Rightarrow> \<not> contractSigned o')
         (ADMIN_REJECTED ''JOURNEY_CONTRACT_TERMINATION_REQUIRED'')) (\<lambda>_.
     let db1 = cancel_steps journeyId None (cancel_open_tasks journeyId
           (cancel_outbox journeyId (cancel_jobs env journeyId None db))) in
     rbind (updateJourneyVersion (jn_id j) (jn_version j)
         (\<lambda>x. x\<lparr>jn_cancelledAt := Some (env_now env), jn_currentStepStatus := StepCANCELLED,
            jn_status := CANCELLED\<rparr>) db1) (\<lambda>db2.
     writeAdminEvent env 0 j JOURNEY_CANCELLED ''CANCEL'' reason db2))))"

definition attachOrder :: "jid \<Rightarrow> jid \<Rightarrow> journey_db \<Rightarrow> journey_db jresult" where
  "attachOrder journeyId orderId db =
     (let P = (\<lambda>j. jn_id j = journeyId \<and> (jn_orderId j = None \<or> jn_orderId j = Some orderId)) in
      rbind (ensure (count_where P (jdb_journeys db) = 1) JOURNEY_IDEMPOTENCY_CONFLICT) (\<lambda>_.
      Inr (db\<lparr>jdb_journeys := update_where P (\<lambda>j. j\<lparr>jn_orderId := Some orderId\<rparr>) (jdb_journeys db)\<rparr>)))"

section \<open>All operations\<close>

datatype journey_op = Start jid ustring | CompleteStep step_input
  | CompleteActivation int jid "js_value option" jid | WaitCustomer step_input
  | WaitManual step_input int | PauseRestricted int jid js_value jid
  | Reject step_input int "jid option" | OpenTask js_value jid jid | DecideTask decide_input
  | ReturnToPlan "jid \<Rightarrow> bool" ustring int int jid jid
  | ReturnToConfirmation ustring int jid js_value jid | ReturnToHandover jid ustring int jid js_value
  | RecordException exception_input | RecordSignal signal_input | EnqueueJob job_input
  | ClaimJobs "jid \<Rightarrow> int option" int int ustring | CompleteJob jid ustring "js_value option"
  | RescheduleJob jid ustring int journey_failure | DeadLetterJob jid ustring exception_input
  | ClaimOutbox outbox_mode int int ustring | CompleteOutbox jid ustring
  | RescheduleOutbox jid ustring int journey_failure | DeadLetterOutbox jid ustring journey_failure
  | NotifyOutbox journey_outbox
  | AdminPause jid int ustring | AdminResume "journey \<Rightarrow> bool" "jid \<Rightarrow> int" jid int ustring
  | AdminRetry jid jid int ustring | AdminCancel "jid \<Rightarrow> bool" jid int ustring | AttachOrder jid jid

fun apply_journey :: "journey_env \<Rightarrow> journey_op \<Rightarrow> journey_db \<Rightarrow> journey_db jresult" where
  "apply_journey env (Start a k) db = rbind (createOrGetForApplication env a k db) (\<lambda>r. Inr (snd r))"
| "apply_journey env (CompleteStep i) db = rbind (completeStep env 0 i db) (\<lambda>r. Inr (snd r))"
| "apply_journey env (CompleteActivation v j p s) db =
     rbind (completeActivation env v j p s db) (\<lambda>r. Inr (snd r))"
| "apply_journey env (WaitCustomer i) db = rbind (waitForCustomer env i db) (\<lambda>r. Inr (snd r))"
| "apply_journey env (WaitManual i f) db = rbind (waitForManual env i f db) (\<lambda>r. Inr (snd r))"
| "apply_journey env (PauseRestricted v j p s) db = pauseForOperationalRestriction env v j p s db"
| "apply_journey env (Reject i f a) db = rbind (rejectForApplication env i f a db) (\<lambda>r. Inr (snd r))"
| "apply_journey env (OpenTask p j s) db = rbind (openManualTask env p j s db) (\<lambda>r. Inr (snd r))"
| "apply_journey env (DecideTask i) db = rbind (decideManualTask env i db) (\<lambda>r. Inr (snd r))"
| "apply_journey env (ReturnToPlan h k v r j s) db = returnToFinalPlanDecision env h k v r j s db"
| "apply_journey env (ReturnToConfirmation k v j p s) db =
     rbind (returnToCustomerConfirmation env k v j p s db) (\<lambda>r. Inr (snd r))"
| "apply_journey env (ReturnToHandover s k v j p) db =
     rbind (returnToHandoverEvidence env s k v j p db) (\<lambda>r. Inr (snd r))"
| "apply_journey env (RecordException i) db = rbind (recordException env i db) (\<lambda>r. Inr (snd r))"
| "apply_journey env (RecordSignal i) db = recordSignal env i db"
| "apply_journey env (EnqueueJob i) db = rbind (enqueueJob env 0 i db) (\<lambda>r. Inr (snd r))"
| "apply_journey env (ClaimJobs r l m t) db = Inr (snd (claimJobs r l m t (env_now env) db))"
| "apply_journey env (CompleteJob k t r) db = completeJob k t r (env_now env) db"
| "apply_journey env (RescheduleJob k t d e) db = rescheduleJob k t d e (env_now env) db"
| "apply_journey env (DeadLetterJob k t i) db = rbind (deadLetterJob env k t i db) (\<lambda>r. Inr (snd r))"
| "apply_journey env (ClaimOutbox m l ms t) db = Inr (snd (claimOutboxByMode m l ms t (env_now env) db))"
| "apply_journey env (CompleteOutbox k t) db = completeOutbox k t (env_now env) db"
| "apply_journey env (RescheduleOutbox k t d e) db = rescheduleOutbox k t d e (env_now env) db"
| "apply_journey env (DeadLetterOutbox k t e) db = deadLetterOutbox k t e (env_now env) db"
| "apply_journey env (NotifyOutbox s) db = enqueueNotificationOutbox env 0 s db"
| "apply_journey env (AdminPause j v r) db = pauseJourney env j v r db"
| "apply_journey env (AdminResume h f j v r) db = resumeJourney env h f j v r db"
| "apply_journey env (AdminRetry u j v r) db = retryJourney env u j v r db"
| "apply_journey env (AdminCancel c j v r) db = cancelJourney env c j v r db"
| "apply_journey env (AttachOrder j o') db = attachOrder j o' db"

text \<open>
  A row under an identifier that is taken is rejected by the primary key; for
  journeys this is the guard here.
\<close>

definition journey_transaction :: "journey_env \<times> journey_op \<Rightarrow> journey_db \<Rightarrow> journey_db jresult" where
  "journey_transaction c db =
     rbind (ensure (env_newId (fst c) 0 \<notin> jn_id ` set (jdb_journeys db)) UNIQUE_CONFLICT) (\<lambda>_.
     apply_journey (fst c) (snd c) db)"

end
