(* ===== verification/JourneyLaws.thy ===== *)
theory JourneyLaws
  imports JourneyAdmin
begin

text \<open>
  What every operation on a journey keeps.  \<open>log_step\<close> says all a transaction may
  do to the journeys and their events: nothing, start one journey with its first
  event, attach an order, or change one journey in a sound way while counting its
  version up and appending the event of that version.  Every operation is such
  steps, and the invariants follow from the steps.
\<close>

section \<open>Sound changes of a journey\<close>

definition ended :: "journey_status \<Rightarrow> bool" where
  "ended s = (s = COMPLETED \<or> s = CANCELLED)"

definition journey_ok :: "journey \<Rightarrow> bool" where
  "journey_ok j = ((jn_status j = COMPLETED \<longrightarrow> jn_currentStepCode j = AUTHORITATIVE_ACTIVATION
       \<and> jn_currentStepStatus j = StepCOMPLETED \<and> jn_completedAt j \<noteq> None)
     \<and> (jn_status j = CANCELLED \<longrightarrow> jn_currentStepStatus j = StepCANCELLED \<and> jn_cancelledAt j \<noteq> None)
     \<and> (jn_status j = PAUSED \<longrightarrow> (\<exists>s \<in> set RESUMABLE_STATUSES. jn_pausedFromStatus j = Some s)))"

definition sound_change :: "journey \<Rightarrow> journey \<Rightarrow> bool" where
  "sound_change x y = (jn_id y = jn_id x \<and> jn_applicationId y = jn_applicationId x
     \<and> (journey_ok x \<longrightarrow> journey_ok y)
     \<and> (ended (jn_status x) \<longrightarrow> jn_status y = jn_status x
          \<and> jn_currentStepStatus y = jn_currentStepStatus x \<and> jn_currentStepCode y = jn_currentStepCode x))"

inductive log_step :: "journey_db \<Rightarrow> journey_db \<Rightarrow> bool" where
  same: "jdb_journeys db' = jdb_journeys db \<Longrightarrow> jdb_events db' = jdb_events db \<Longrightarrow> log_step db db'"
| started: "j \<notin> jn_id ` set (jdb_journeys db) \<Longrightarrow>
    jdb_journeys db' = jdb_journeys db @ [new_journey j a] \<Longrightarrow> jdb_events db' = jdb_events db @ [e] \<Longrightarrow>
    ev_journeyId e = j \<Longrightarrow> ev_sequence e = 0 \<Longrightarrow> log_step db db'"
| moved: "x \<in> set (jdb_journeys db) \<Longrightarrow> sound_change x y \<Longrightarrow> jn_version y = jn_version x + 1 \<Longrightarrow>
    jdb_journeys db' = update_where (\<lambda>r. jn_id r = jn_id x) (\<lambda>_. y) (jdb_journeys db) \<Longrightarrow>
    jdb_events db' = jdb_events db @ [e] \<Longrightarrow> ev_journeyId e = jn_id x \<Longrightarrow>
    ev_sequence e = jn_version y \<Longrightarrow> log_step db db'"
| attached: "x \<in> set (jdb_journeys db) \<Longrightarrow>
    jdb_journeys db' = update_where (\<lambda>r. jn_id r = jn_id x) (\<lambda>_. x\<lparr>jn_orderId := o'\<rparr>) (jdb_journeys db) \<Longrightarrow>
    jdb_events db' = jdb_events db \<Longrightarrow> log_step db db'"

definition journey_log :: "jid \<Rightarrow> journey_db \<Rightarrow> int list" where
  "journey_log j db = map ev_sequence (filter (\<lambda>e. ev_journeyId e = j) (jdb_events db))"

definition logs_ok :: "journey_db \<Rightarrow> bool" where
  "logs_ok db = (distinct (map jn_id (jdb_journeys db))
     \<and> (\<forall>e \<in> set (jdb_events db). ev_journeyId e \<in> jn_id ` set (jdb_journeys db))
     \<and> (\<forall>j \<in> set (jdb_journeys db). 0 \<le> jn_version j
          \<and> journey_log (jn_id j) db = [0 .. jn_version j] \<and> journey_ok j))"

lemma logs_okD:
  assumes "logs_ok db"
  shows "distinct (map jn_id (jdb_journeys db))"
    "e \<in> set (jdb_events db) \<Longrightarrow> ev_journeyId e \<in> jn_id ` set (jdb_journeys db)"
    "j \<in> set (jdb_journeys db) \<Longrightarrow> 0 \<le> jn_version j"
    "j \<in> set (jdb_journeys db) \<Longrightarrow> journey_log (jn_id j) db = [0 .. jn_version j]"
    "j \<in> set (jdb_journeys db) \<Longrightarrow> journey_ok j"
  using assms by (auto simp: logs_ok_def)

lemma same_journey: "distinct (map jn_id js) \<Longrightarrow> x \<in> set js \<Longrightarrow> y \<in> set js \<Longrightarrow> jn_id x = jn_id y \<Longrightarrow> x = y"
  by (auto simp: distinct_map inj_on_def)

lemma set_replace:
  assumes "distinct (map jn_id js)" and "x \<in> set js"
  shows "set (update_where (\<lambda>r. jn_id r = jn_id x) (\<lambda>_. y) js) = insert y (set js - {x})"
  using assms same_journey [OF assms(1)] by (auto simp: update_where_def)

lemma ids_replace:
  "jn_id y = jn_id x \<Longrightarrow> map jn_id (update_where (\<lambda>r. jn_id r = jn_id x) (\<lambda>_. y) js) = map jn_id js"
  by (induction js) (auto simp: update_where_def)

lemma ids_replace_set: "jn_id y = jn_id x \<Longrightarrow>
    jn_id ` set (update_where (\<lambda>r. jn_id r = jn_id x) (\<lambda>_. y) js) = jn_id ` set js"
  using ids_replace [of y x js] by (metis list.set_map)

lemma journey_log_append:
  "jdb_events db' = jdb_events db @ [e] \<Longrightarrow>
   journey_log j db' = journey_log j db @ (if ev_journeyId e = j then [ev_sequence e] else [])"
  by (simp add: journey_log_def)

lemma journey_log_same: "jdb_events db' = jdb_events db \<Longrightarrow> journey_log j db' = journey_log j db"
  by (simp add: journey_log_def)

lemma log_step_ok:
  assumes "log_step db db'" and ok: "logs_ok db"
  shows "logs_ok db'"
  using assms(1)
proof cases
  case same
  then show ?thesis using ok by (simp add: logs_ok_def journey_log_def)
next
  case (started j a e)
  have "journey_log j db = []"
    using logs_okD(2) [OF ok] started(1) by (auto simp: journey_log_def filter_empty_conv)
  then have "journey_log j db' = [0 .. 0]" using journey_log_append [OF started(3)] started(4,5) by simp
  moreover have "journey_ok (new_journey j a)" by (simp add: journey_ok_def new_journey_def)
  moreover have "journey_log (jn_id x) db' = [0 .. jn_version x]" if "x \<in> set (jdb_journeys db)" for x
  proof -
    have "jn_id x \<noteq> j" using started(1) \<open>x \<in> set (jdb_journeys db)\<close> by blast
    then show ?thesis using journey_log_append [OF started(3)] started(4) logs_okD(4) [OF ok] \<open>x \<in> set _\<close> by simp
  qed
  ultimately show ?thesis
    unfolding logs_ok_def using started logs_okD [OF ok] by (auto simp: new_journey_def)
next
  case (moved x y e)
  note d = logs_okD(1) [OF ok]
  have id: "jn_id y = jn_id x" using moved(2) by (simp add: sound_change_def)
  have y: "0 \<le> jn_version y" "journey_log (jn_id y) db' = [0 .. jn_version y]" "journey_ok y"
  proof -
    show "0 \<le> jn_version y" using logs_okD(3) [OF ok moved(1)] moved(3) by simp
    have "journey_log (jn_id y) db' = [0 .. jn_version x] @ [jn_version x + 1]"
      using journey_log_append [OF moved(5)] moved(3,6,7) id logs_okD(4) [OF ok moved(1)] by simp
    also have "\<dots> = [0 .. jn_version y]"
      using upto_rec2 [of 0 "jn_version y"] logs_okD(3) [OF ok moved(1)] moved(3) by simp
    finally show "journey_log (jn_id y) db' = [0 .. jn_version y]" .
    show "journey_ok y" using moved(2) logs_okD(5) [OF ok moved(1)] by (simp add: sound_change_def)
  qed
  have rest: "journey_log (jn_id z) db' = [0 .. jn_version z]" if z: "z \<in> set (jdb_journeys db)" "z \<noteq> x" for z
  proof -
    have "jn_id z \<noteq> jn_id x" using same_journey [OF d z(1) moved(1)] z(2) by blast
    then show ?thesis using journey_log_append [OF moved(5)] moved(6) logs_okD(4) [OF ok z(1)] by simp
  qed
  have set: "set (jdb_journeys db') = insert y (set (jdb_journeys db) - {x})"
    using set_replace [OF d moved(1)] moved(4) by simp
  have "distinct (map jn_id (jdb_journeys db'))" using d moved(4) ids_replace [OF id] by simp
  moreover have "ev_journeyId f \<in> jn_id ` set (jdb_journeys db')" if "f \<in> set (jdb_events db')" for f
    using \<open>f \<in> set (jdb_events db')\<close> moved logs_okD(2) [OF ok] ids_replace_set [OF id] by auto
  ultimately show ?thesis
    unfolding logs_ok_def set using y rest logs_okD [OF ok] by blast
next
  case (attached x o')
  note d = logs_okD(1) [OF ok]
  have id: "jn_id (x\<lparr>jn_orderId := o'\<rparr>) = jn_id x" by simp
  have set: "set (jdb_journeys db') = insert (x\<lparr>jn_orderId := o'\<rparr>) (set (jdb_journeys db) - {x})"
    using set_replace [OF d attached(1)] attached(2) by simp
  have "distinct (map jn_id (jdb_journeys db'))" using d attached(2) ids_replace [OF id] by simp
  moreover have "jn_id ` set (jdb_journeys db') = jn_id ` set (jdb_journeys db)"
    using attached(2) ids_replace_set [OF id] by simp
  moreover have "journey_ok (x\<lparr>jn_orderId := o'\<rparr>)"
    using logs_okD(5) [OF ok attached(1)] by (simp add: journey_ok_def)
  ultimately show ?thesis
    using attached(1,3) set logs_okD [OF ok] journey_log_same [OF attached(3)]
    unfolding logs_ok_def by auto
qed

lemma log_steps_ok: "log_step\<^sup>*\<^sup>* db db' \<Longrightarrow> logs_ok db \<Longrightarrow> logs_ok db'"
  by (induction rule: rtranclp_induct) (auto intro: log_step_ok)

text \<open>An ended journey stays as it ended.\<close>

definition still_ended :: "journey \<Rightarrow> journey_db \<Rightarrow> bool" where
  "still_ended j db = (\<exists>y \<in> set (jdb_journeys db). jn_id y = jn_id j \<and> jn_status y = jn_status j
     \<and> jn_currentStepCode y = jn_currentStepCode j \<and> jn_currentStepStatus y = jn_currentStepStatus j)"

lemma log_step_ended:
  assumes step: "log_step db db'" and ok: "logs_ok db" and j: "ended (jn_status j)" "still_ended j db"
  shows "still_ended j db'"
proof -
  note d = logs_okD(1) [OF ok]
  obtain y where y: "y \<in> set (jdb_journeys db)" "jn_id y = jn_id j" "jn_status y = jn_status j"
    "jn_currentStepCode y = jn_currentStepCode j" "jn_currentStepStatus y = jn_currentStepStatus j"
    using j(2) by (auto simp: still_ended_def)
  show ?thesis using step
  proof cases
    case (moved x z e)
    have set: "set (jdb_journeys db') = insert z (set (jdb_journeys db) - {x})"
      using set_replace [OF d moved(1)] moved(4) by simp
    show ?thesis
    proof (cases "y = x")
      case True
      then have "jn_id z = jn_id j" "jn_status z = jn_status j"
        "jn_currentStepCode z = jn_currentStepCode j" "jn_currentStepStatus z = jn_currentStepStatus j"
        using moved(2) y j(1) by (auto simp: sound_change_def)
      then show ?thesis using set unfolding still_ended_def by blast
    next
      case False
      then show ?thesis using set y unfolding still_ended_def by blast
    qed
  next
    case (attached x o')
    have set: "set (jdb_journeys db') = insert (x\<lparr>jn_orderId := o'\<rparr>) (set (jdb_journeys db) - {x})"
      using set_replace [OF d attached(1)] attached(2) by simp
    show ?thesis
    proof (cases "y = x")
      case True
      then show ?thesis using set y unfolding still_ended_def
        by (intro bexI [of _ "x\<lparr>jn_orderId := o'\<rparr>"]) auto
    next
      case False
      then show ?thesis using set y unfolding still_ended_def by blast
    qed
  qed (use y in \<open>auto simp: still_ended_def\<close>)
qed

lemma log_steps_ended:
  "log_step\<^sup>*\<^sup>* db db' \<Longrightarrow> logs_ok db \<Longrightarrow> ended (jn_status j) \<Longrightarrow> still_ended j db \<Longrightarrow> still_ended j db'"
proof (induction rule: rtranclp_induct)
  case (step db1 db2)
  then show ?case using log_step_ended [OF step(2)] log_steps_ok [OF step(1)] by blast
qed simp

section \<open>Every operation takes such steps\<close>

lemma frames [simp]:
  "jdb_journeys (update_step s j f db) = jdb_journeys db" "jdb_events (update_step s j f db) = jdb_events db"
  "jdb_journeys (resolveStepExceptions env j s db) = jdb_journeys db"
  "jdb_events (resolveStepExceptions env j s db) = jdb_events db"
  "jdb_journeys (cancel_jobs env j a db) = jdb_journeys db" "jdb_events (cancel_jobs env j a db) = jdb_events db"
  "jdb_journeys (cancel_outbox j db) = jdb_journeys db" "jdb_events (cancel_outbox j db) = jdb_events db"
  "jdb_journeys (cancel_open_tasks j db) = jdb_journeys db" "jdb_events (cancel_open_tasks j db) = jdb_events db"
  "jdb_journeys (cancel_steps j a db) = jdb_journeys db" "jdb_events (cancel_steps j a db) = jdb_events db"
  "jdb_journeys (snd (upsert_step i j c f g db)) = jdb_journeys db"
  "jdb_events (snd (upsert_step i j c f g db)) = jdb_events db"
  "jdb_journeys (writeOutbox env n ag t k e j p db) = jdb_journeys db"
  "jdb_events (writeOutbox env n ag t k e j p db) = jdb_events db"
  by (simp_all add: update_step_def resolveStepExceptions_def cancel_jobs_def cancel_outbox_def
    cancel_open_tasks_def cancel_steps_def upsert_step_def writeOutbox_def Let_def split: option.splits)

lemma upsert_step_frame:
  "upsert_step i j c f g db = (s, db') \<Longrightarrow> jdb_journeys db' = jdb_journeys db \<and> jdb_events db' = jdb_events db"
  using frames(13,14) [of i j c f g db] by (metis snd_conv)

lemma create_task_frame:
  "create_task t db = Inr db' \<Longrightarrow> jdb_journeys db' = jdb_journeys db \<and> jdb_events db' = jdb_events db"
  by (auto simp: create_task_def)

lemma create_event_effect:
  "create_event e db = Inr db' \<Longrightarrow> jdb_journeys db' = jdb_journeys db \<and> jdb_events db' = jdb_events db @ [e]"
  by (auto simp: create_event_def)

lemma writeEventAndOutbox_effect:
  assumes "writeEventAndOutbox env n key ty j p0 sq db = Inr db'"
  obtains e where "jdb_journeys db' = jdb_journeys db" "jdb_events db' = jdb_events db @ [e]"
    "ev_journeyId e = j" "ev_sequence e = sq"
  using assms by (auto simp: writeEventAndOutbox_def dest!: create_event_effect)

lemma writeAdminEvent_effect:
  assumes "writeAdminEvent env n j ty op reason db = Inr db'"
  obtains e where "jdb_journeys db' = jdb_journeys db" "jdb_events db' = jdb_events db @ [e]"
    "ev_journeyId e = jn_id j" "ev_sequence e = jn_version j + 1"
  using assms by (auto simp: writeAdminEvent_def Let_def dest!: create_event_effect)

text \<open>
  The version update and the event after it make one step, whatever is done to the
  other tables before, between and after.
\<close>

lemma updateJourneyVersion_effect:
  assumes "updateJourneyVersion j v data db = Inr db'" and "distinct (map jn_id (jdb_journeys db))"
  obtains x where "x \<in> set (jdb_journeys db)" "jn_id x = j" "jn_version x = v"
    "jdb_journeys db' = update_where (\<lambda>r. jn_id r = j) (\<lambda>_. (data x)\<lparr>jn_version := v + 1\<rparr>) (jdb_journeys db)"
    "jdb_events db' = jdb_events db"
proof -
  let ?P = "\<lambda>r. jn_id r = j \<and> jn_version r = v"
  have c: "count_where ?P (jdb_journeys db) = 1"
    and db': "db' = db\<lparr>jdb_journeys := update_where ?P (\<lambda>r. (data r)\<lparr>jn_version := jn_version r + 1\<rparr>) (jdb_journeys db)\<rparr>"
    using assms(1) by (auto simp: updateJourneyVersion_def Let_def)
  then have "filter ?P (jdb_journeys db) \<noteq> []" by (auto simp: count_where_def)
  then obtain x where x: "x \<in> set (jdb_journeys db)" "jn_id x = j" "jn_version x = v"
    by (auto simp: filter_empty_conv)
  have "update_where ?P (\<lambda>r. (data r)\<lparr>jn_version := jn_version r + 1\<rparr>) (jdb_journeys db)
      = update_where (\<lambda>r. jn_id r = j) (\<lambda>_. (data x)\<lparr>jn_version := v + 1\<rparr>) (jdb_journeys db)"
    unfolding update_where_def
  proof (rule map_cong [OF refl])
    fix r assume r: "r \<in> set (jdb_journeys db)"
    show "(if ?P r then (data r)\<lparr>jn_version := jn_version r + 1\<rparr> else r)
        = (if jn_id r = j then (data x)\<lparr>jn_version := v + 1\<rparr> else r)"
    proof (cases "jn_id r = j")
      case True
      then have "r = x" using same_journey [OF assms(2) r x(1)] x(2) by simp
      then show ?thesis using x(2,3) by simp
    qed simp
  qed
  then show thesis using that [OF x] db' by simp
qed

lemma log_move:
  assumes up: "updateJourneyVersion j v data db0 = Inr db1"
    and d: "distinct (map jn_id (jdb_journeys db))"
    and pre: "jdb_journeys db0 = jdb_journeys db" "jdb_events db0 = jdb_events db"
    and post: "jdb_journeys db' = jdb_journeys db1" "jdb_events db' = jdb_events db1 @ [e]"
    and e: "ev_journeyId e = j" "ev_sequence e = v + 1"
    and sound: "\<And>x. x \<in> set (jdb_journeys db) \<Longrightarrow> jn_id x = j \<Longrightarrow> jn_version x = v
        \<Longrightarrow> sound_change x ((data x)\<lparr>jn_version := v + 1\<rparr>)"
  shows "log_step db db'"
proof -
  obtain x where x: "x \<in> set (jdb_journeys db)" "jn_id x = j" "jn_version x = v"
    "jdb_journeys db1 = update_where (\<lambda>r. jn_id r = j) (\<lambda>_. (data x)\<lparr>jn_version := v + 1\<rparr>) (jdb_journeys db)"
    "jdb_events db1 = jdb_events db"
    using updateJourneyVersion_effect [OF up] d pre by metis
  show ?thesis
  proof (rule log_step.moved [where x = x and y = "(data x)\<lparr>jn_version := v + 1\<rparr>" and e = e])
    show "x \<in> set (jdb_journeys db)" by (rule x(1))
    show "sound_change x ((data x)\<lparr>jn_version := v + 1\<rparr>)" by (rule sound [OF x(1-3)])
    show "jn_version ((data x)\<lparr>jn_version := v + 1\<rparr>) = jn_version x + 1" unfolding x(3) by simp
    show "jdb_journeys db' = update_where (\<lambda>r. jn_id r = jn_id x)
        (\<lambda>_. (data x)\<lparr>jn_version := v + 1\<rparr>) (jdb_journeys db)"
      unfolding post(1) x(4) x(2) by (rule refl)
    show "jdb_events db' = jdb_events db @ [e]" unfolding post(2) x(5) by (rule refl)
    show "ev_journeyId e = jn_id x" unfolding e(1) x(2) by (rule refl)
    show "ev_sequence e = jn_version ((data x)\<lparr>jn_version := v + 1\<rparr>)" unfolding e(2) by simp
  qed
qed

lemma log_move_event:
  assumes "updateJourneyVersion j v data db0 = Inr db1"
    and "distinct (map jn_id (jdb_journeys db))"
    and "jdb_journeys db0 = jdb_journeys db" "jdb_events db0 = jdb_events db"
    and "jdb_journeys db2 = jdb_journeys db1" "jdb_events db2 = jdb_events db1"
    and "writeEventAndOutbox env n key ty j p (v + 1) db2 = Inr db'"
    and "\<And>x. x \<in> set (jdb_journeys db) \<Longrightarrow> jn_id x = j \<Longrightarrow> jn_version x = v
        \<Longrightarrow> sound_change x ((data x)\<lparr>jn_version := v + 1\<rparr>)"
  shows "log_step db db'"
proof -
  obtain e where e: "jdb_journeys db' = jdb_journeys db2" "jdb_events db' = jdb_events db2 @ [e]"
    "ev_journeyId e = j" "ev_sequence e = v + 1"
    using assms(7) by (rule writeEventAndOutbox_effect)
  show ?thesis
    by (rule log_move [OF assms(1-4) _ _ e(3,4) assms(8)]) (simp_all only: e(1,2) assms(5,6))
qed

text \<open>What the locked read and the check of the current step establish of the journey.\<close>

lemma locked_current:
  assumes "lockJourneyStep j s db = Inr lk" and "validateCurrentStep lk v = Inr u"
    and "distinct (map jn_id (jdb_journeys db))" and "x \<in> set (jdb_journeys db)" "jn_id x = j"
  shows "jn_status x = lk_journeyStatus lk" "jn_version x = v" "\<not> ended (jn_status x)"
    "jn_status x \<noteq> PAUSED" "jn_currentStepCode x = lk_stepCode lk"
proof -
  have f: "find_row jn_id j (jdb_journeys db) = Some x"
    using find_row_unique [OF assms(3,4)] assms(5) by simp
  have lk: "lk_journeyStatus lk = jn_status x" "lk_journeyVersion lk = jn_version x"
    "lk_currentStepCode lk = jn_currentStepCode x"
    using assms(1) f by (auto simp: lockJourneyStep_def split: option.splits)
  show "jn_status x = lk_journeyStatus lk" using lk by simp
  show "jn_version x = v" "\<not> ended (jn_status x)" "jn_status x \<noteq> PAUSED" "jn_currentStepCode x = lk_stepCode lk"
    using assms(2) lk by (auto simp: validateCurrentStep_def ended_def split: if_splits)
qed

lemma sound_open:
  assumes "\<not> ended (jn_status x)" "jn_id y = jn_id x" "jn_applicationId y = jn_applicationId x" "journey_ok y"
  shows "sound_change x y"
  using assms by (simp add: sound_change_def)

lemma journey_ok_open: "jn_status j \<notin> {COMPLETED, CANCELLED, PAUSED} \<Longrightarrow> journey_ok j"
  by (simp add: journey_ok_def)

lemma log_checked:
  assumes d: "distinct (map jn_id (jdb_journeys db))"
    and lk: "lockJourneyStep j s db = Inr lk" "validateCurrentStep lk v = Inr u"
    and up: "updateJourneyVersion j v data db0 = Inr db1"
    and fr: "jdb_journeys db0 = jdb_journeys db" "jdb_events db0 = jdb_events db"
    "jdb_journeys db2 = jdb_journeys db1" "jdb_events db2 = jdb_events db1"
    and ev: "writeEventAndOutbox env n key ty j p (v + 1) db2 = Inr db'"
    and data: "\<And>x. jn_status x = lk_journeyStatus lk \<Longrightarrow> jn_id (data x) = jn_id x
        \<and> jn_applicationId (data x) = jn_applicationId x \<and> journey_ok (data x)"
  shows "log_step db db'"
proof (rule log_move_event [OF up d fr ev])
  fix x assume x: "x \<in> set (jdb_journeys db)" "jn_id x = j" "jn_version x = v"
  note now = locked_current [OF lk d x(1,2)]
  show "sound_change x ((data x)\<lparr>jn_version := v + 1\<rparr>)"
    using data [OF now(1)] now(3) by (intro sound_open) (auto simp: journey_ok_def)
qed

lemma nextStep_None: "nextStep c StepCOMPLETED = None \<Longrightarrow> c = AUTHORITATIVE_ACTIVATION"
  by (cases c) (simp_all add: nextStep_def JOURNEY_STEP_SEQUENCE_def Let_def)

lemma set_fact_version_frame [simp]:
  "jn_id (set_fact_version v j) = jn_id j" "jn_applicationId (set_fact_version v j) = jn_applicationId j"
  "journey_ok (set_fact_version v j) = journey_ok j"
  by (cases v; simp add: set_fact_version_def journey_ok_def)+

lemma advanceJourney_update:
  assumes "advanceJourney env i lk db = Inr db1"
  shows "\<exists>data. updateJourneyVersion (si_journeyId i) (si_expectedVersion i) data db = Inr db1
    \<and> (\<forall>x. jn_id (data x) = jn_id x \<and> jn_applicationId (data x) = jn_applicationId x \<and> journey_ok (data x))"
proof -
  define skipped where "skipped = (nextStep (lk_stepCode lk) StepCOMPLETED = Some FINAL_VEHICLE_ALLOCATION
    \<and> (case step_by_code (si_journeyId i) FINAL_VEHICLE_ALLOCATION db of None \<Rightarrow> False
       | Some v \<Rightarrow> st_status v = StepCOMPLETED))"
  define following where "following = (if skipped then nextStep FINAL_VEHICLE_ALLOCATION StepCOMPLETED
    else nextStep (lk_stepCode lk) StepCOMPLETED)"
  define base where "base = (\<lambda>j :: journey. case following of
      None \<Rightarrow> j\<lparr>jn_completedAt := Some (env_now env), jn_currentStepCode := lk_stepCode lk,
        jn_currentStepStatus := StepCOMPLETED, jn_status := COMPLETED\<rparr>
    | Some f \<Rightarrow> j\<lparr>jn_currentStepCode := f, jn_currentStepStatus := StepPENDING, jn_status := RUNNING\<rparr>)"
  have up: "updateJourneyVersion (si_journeyId i) (si_expectedVersion i)
      (\<lambda>j. set_fact_version (si_factVersion i) (base j)) db = Inr db1"
    using assms unfolding advanceJourney_def Let_def skipped_def [symmetric] following_def [symmetric] base_def
    by auto
  have none: "following = None \<Longrightarrow> lk_stepCode lk = AUTHORITATIVE_ACTIVATION"
  proof -
    assume f: "following = None"
    have "nextStep FINAL_VEHICLE_ALLOCATION StepCOMPLETED \<noteq> None" using nextStep_None by fastforce
    then show ?thesis using f nextStep_None by (auto simp: following_def split: if_splits)
  qed
  have "jn_id (base x) = jn_id x \<and> jn_applicationId (base x) = jn_applicationId x \<and> journey_ok (base x)" for x
    using none by (cases following) (simp_all add: base_def journey_ok_def)
  then have "\<forall>x. jn_id (set_fact_version (si_factVersion i) (base x)) = jn_id x
      \<and> jn_applicationId (set_fact_version (si_factVersion i) (base x)) = jn_applicationId x
      \<and> journey_ok (set_fact_version (si_factVersion i) (base x))"
    by (simp only: set_fact_version_frame simp_thms)
  with up show ?thesis by blast
qed

lemma completeStep_log:
  assumes d: "distinct (map jn_id (jdb_journeys db))" and op: "completeStep env n i db = Inr (s, db')"
  shows "log_step db db'"
proof (cases "find_event (si_eventKey i) db")
  case (Some e)
  then show ?thesis using op by (auto simp: completeStep_def Let_def intro!: log_step.same)
next
  case None
  then obtain p lk db1 where c: "lockJourneyStep (si_journeyId i) (si_stepId i) db = Inr lk"
    "validateCurrentStep lk (si_expectedVersion i) = Inr ()" "advanceJourney env i lk db = Inr db1"
    "writeEventAndOutbox env n (si_eventKey i) STEP_COMPLETED (si_journeyId i) p
      (si_expectedVersion i + 1) (resolveStepExceptions env (si_journeyId i) (si_stepId i)
        (update_step (si_stepId i) (si_journeyId i)
          (\<lambda>s. s\<lparr>st_completedAt := Some (env_now env), st_status := StepCOMPLETED\<rparr>) db1)) = Inr db'"
    using op by (auto simp: completeStep_def Let_def)
  obtain data where up: "updateJourneyVersion (si_journeyId i) (si_expectedVersion i) data db = Inr db1"
    and data: "\<forall>x. jn_id (data x) = jn_id x \<and> jn_applicationId (data x) = jn_applicationId x \<and> journey_ok (data x)"
    using advanceJourney_update [OF c(3)] by blast
  show ?thesis by (rule log_checked [OF d c(1,2) up _ _ _ _ c(4)]) (simp_all add: data)
qed

lemma waitForCustomer_log:
  assumes d: "distinct (map jn_id (jdb_journeys db))" and op: "waitForCustomer env i db = Inr (s, db')"
  shows "log_step db db'"
proof (cases "find_event (si_eventKey i) db")
  case (Some e)
  then show ?thesis using op by (auto simp: waitForCustomer_def Let_def intro!: log_step.same)
next
  case None
  then obtain p lk db1 db2 where c: "lockJourneyStep (si_journeyId i) (si_stepId i) db = Inr lk"
    "validateCurrentStep lk (si_expectedVersion i) = Inr ()"
    "updateJourneyVersion (si_journeyId i) (si_expectedVersion i)
       (\<lambda>j. set_fact_version (si_factVersion i) (j\<lparr>jn_currentStepCode := lk_stepCode lk,
          jn_currentStepStatus := StepWAITING_CUSTOMER, jn_status := WAITING_CUSTOMER\<rparr>)) db = Inr db1"
    "writeEventAndOutbox env 0 (si_eventKey i) STEP_WAITING_CUSTOMER (si_journeyId i) p
       (si_expectedVersion i + 1) db2 = Inr db'"
    "jdb_journeys db2 = jdb_journeys db1" "jdb_events db2 = jdb_events db1"
    using op by (clarsimp simp: waitForCustomer_def Let_def)
  show ?thesis by (rule log_checked [OF d c(1-3) _ _ c(5,6,4)]) (simp_all add: journey_ok_open)
qed

lemma waitForManual_log:
  assumes d: "distinct (map jn_id (jdb_journeys db))" and op: "waitForManual env i f db = Inr (s, db')"
  shows "log_step db db'"
proof (cases "find_event (si_eventKey i) db")
  case (Some e)
  then show ?thesis using op by (auto simp: waitForManual_def Let_def intro!: log_step.same)
next
  case None
  then obtain p lk db1 db2 where c: "lockJourneyStep (si_journeyId i) (si_stepId i) db = Inr lk"
    "validateCurrentStep lk (si_expectedVersion i) = Inr ()"
    "updateJourneyVersion (si_journeyId i) (si_expectedVersion i)
       (\<lambda>j. j\<lparr>jn_currentStepCode := lk_stepCode lk, jn_currentStepStatus := StepWAITING_MANUAL,
          jn_lastApplicationFactVersion := f, jn_status := WAITING_MANUAL\<rparr>) db = Inr db1"
    "writeEventAndOutbox env 0 (si_eventKey i) STEP_WAITING_MANUAL (si_journeyId i) p
       (si_expectedVersion i + 1) db2 = Inr db'"
    "jdb_journeys db2 = jdb_journeys db1" "jdb_events db2 = jdb_events db1"
    using op by (clarsimp simp: waitForManual_def Let_def)
  show ?thesis by (rule log_checked [OF d c(1-3) _ _ c(5,6,4)]) (simp_all add: journey_ok_def)
qed

lemma pauseForOperationalRestriction_log:
  assumes d: "distinct (map jn_id (jdb_journeys db))"
    and op: "pauseForOperationalRestriction env v j r s db = Inr db'"
  shows "log_step db db'"
proof -
  obtain p lk db1 where c: "lockJourneyStep j s db = Inr lk" "validateCurrentStep lk v = Inr ()"
    "updateJourneyVersion j v (\<lambda>j. j\<lparr>jn_pausedFromStatus := Some RUNNING, jn_status := PAUSED\<rparr>) db = Inr db1"
    "writeEventAndOutbox env 0 (ascii ''journey:'' @ j @ ascii '':activation:operational-clearance:version:''
       @ dec v) JOURNEY_PAUSED j p (v + 1) db1 = Inr db'"
    using op by (auto simp: pauseForOperationalRestriction_def)
  show ?thesis
    by (rule log_checked [OF d c(1-3) _ _ _ _ c(4)]) (simp_all add: journey_ok_def RESUMABLE_STATUSES_def)
qed

lemma rejectForApplication_log:
  assumes d: "distinct (map jn_id (jdb_journeys db))" and op: "rejectForApplication env i f a db = Inr (s, db')"
  shows "log_step db db'"
proof (cases "find_event (si_eventKey i) db")
  case (Some e)
  then show ?thesis using op by (auto simp: rejectForApplication_def Let_def intro!: log_step.same)
next
  case None
  then obtain p lk db1 db2 where c: "lockJourneyStep (si_journeyId i) (si_stepId i) db = Inr lk"
    "validateCurrentStep lk (si_expectedVersion i) = Inr ()"
    "updateJourneyVersion (si_journeyId i) (si_expectedVersion i)
       (\<lambda>j. j\<lparr>jn_cancelledAt := Some (env_now env), jn_currentStepStatus := StepCANCELLED,
          jn_lastApplicationFactVersion := f, jn_status := CANCELLED\<rparr>) db = Inr db1"
    "writeEventAndOutbox env 0 (si_eventKey i) JOURNEY_CANCELLED (si_journeyId i) p
       (si_expectedVersion i + 1) db2 = Inr db'"
    "jdb_journeys db2 = jdb_journeys db1" "jdb_events db2 = jdb_events db1"
    using op by (clarsimp simp: rejectForApplication_def Let_def)
  show ?thesis by (rule log_checked [OF d c(1-3) _ _ c(5,6,4)]) (simp_all add: journey_ok_def)
qed

lemma sound_version: "jn_version x = v \<Longrightarrow> sound_change x (x\<lparr>jn_version := v + 1\<rparr>)"
  by (simp add: sound_change_def journey_ok_def)

lemma completeActivation_log:
  assumes d: "logs_ok db" and op: "completeActivation env v j p0 s0 db = Inr (s, db')"
  shows "log_step\<^sup>*\<^sup>* db db'"
proof -
  define key where "key = (ascii ''journey:'' @ j @ ascii '':activation'') @ ascii '':completed''"
  obtain q where q: "safePayload (case p0 of None \<Rightarrow> Obj [] | Some p \<Rightarrow> p) = Inr q"
    using op by (auto simp: completeActivation_def Let_def)
  define i where "i = \<lparr> si_eventKey = (ascii ''journey:'' @ j @ ascii '':activation'') @ ascii '':step'',
      si_expectedVersion = v, si_factVersion = None, si_journeyId = j, si_payload = Some q, si_stepId = s0 \<rparr>"
  define pc where "pc = safePayload (Obj [(ascii ''operation'', Str (ascii ''COMPLETE_JOURNEY'')),
      (ascii ''payload'', q), (ascii ''stepId'', Str s0)])"
  have form: "rbind (completeStep env 0 i db) (\<lambda>r. case r of (step, db1) \<Rightarrow> rbind pc (\<lambda>p.
      case find_event key db1 of
        Some duplicate \<Rightarrow> rbind (requireExactEvent duplicate JOURNEY_COMPLETED j p) (\<lambda>_. Inr (step, db1))
      | None \<Rightarrow> rbind (updateJourneyVersion j (v + 1) (\<lambda>j. j) db1) (\<lambda>db2.
          rbind (writeEventAndOutbox env 1 key JOURNEY_COMPLETED j p (v + 2) db2) (\<lambda>db3. Inr (step, db3)))))
      = Inr (s, db')"
    using op unfolding completeActivation_def Let_def q rbind.simps i_def [symmetric] key_def [symmetric]
      pc_def [symmetric] .
  then obtain s1 db1 p where c: "completeStep env 0 i db = Inr (s1, db1)"
    "(case find_event key db1 of
        Some duplicate \<Rightarrow> rbind (requireExactEvent duplicate JOURNEY_COMPLETED j p) (\<lambda>_. Inr (s1, db1))
      | None \<Rightarrow> rbind (updateJourneyVersion j (v + 1) (\<lambda>j. j) db1) (\<lambda>db2.
          rbind (writeEventAndOutbox env 1 key JOURNEY_COMPLETED j p (v + 2) db2) (\<lambda>db3. Inr (s1, db3))))
      = Inr (s, db')"
    by (cases "completeStep env 0 i db"; cases pc) auto
  have one: "log_step db db1" using completeStep_log [OF logs_okD(1) [OF d] c(1)] .
  then have d1: "distinct (map jn_id (jdb_journeys db1))"
    using log_step_ok [OF one d] logs_okD(1) by blast
  have "log_step db1 db'"
  proof (cases "find_event key db1")
    case (Some e)
    then show ?thesis using c(2) by (auto intro: log_step.same)
  next
    case None
    then obtain db2 where u: "updateJourneyVersion j (v + 1) (\<lambda>j. j) db1 = Inr db2"
      "writeEventAndOutbox env 1 key JOURNEY_COMPLETED j p (v + 1 + 1) db2 = Inr db'"
      using c(2) by (auto simp: add.commute)
    show ?thesis
      by (rule log_move_event [OF u(1) d1 refl refl refl refl u(2)]) (rule sound_version)
  qed
  with one show ?thesis by (meson converse_rtranclp_into_rtranclp r_into_rtranclp)
qed

lemma recordSignal_log:
  assumes d: "distinct (map jn_id (jdb_journeys db))" and op: "recordSignal env i db = Inr db'"
  shows "log_step db db'"
proof -
  obtain j where j: "find_signalled i db = Some j"
    using op by (cases "find_signalled i db") (auto simp: recordSignal_def)
  show ?thesis
  proof (cases "find_event (sg_eventKey i) db")
    case (Some e)
    then show ?thesis using op j by (auto simp: recordSignal_def Let_def intro!: log_step.same)
  next
    case None
    then obtain p db1 where u: "updateJourneyVersion (jn_id j) (jn_version j) (\<lambda>j. j) db = Inr db1"
      "writeEventAndOutbox env 0 (sg_eventKey i) DOMAIN_FACT_OBSERVED (jn_id j) p (jn_version j + 1) db1 = Inr db'"
      using op j by (auto simp: recordSignal_def Let_def)
    show ?thesis by (rule log_move_event [OF u(1) d refl refl refl refl u(2)]) (rule sound_version)
  qed
qed

lemma recordLockedException_log:
  assumes d: "distinct (map jn_id (jdb_journeys db))"
    and lk: "lockJourneyStep (ei_journeyId i) s0 db = Inr lk"
    and fr: "jdb_journeys db0 = jdb_journeys db" "jdb_events db0 = jdb_events db"
    and op: "recordLockedException env i lk db0 = Inr (x, db')"
  shows "log_step db db'"
proof (cases "already_terminal lk \<or> lk_currentStepCode lk \<noteq> lk_stepCode lk")
  case True
  then show ?thesis using op fr
    by (auto simp: recordLockedException_def Let_def intro!: log_step.same)
next
  case False
  let ?data = "if lk_journeyStatus lk = PAUSED
      then (\<lambda>j. j\<lparr>jn_currentStepStatus := StepEXCEPTION, jn_pausedFromStatus := Some EXCEPTION, jn_status := PAUSED\<rparr>)
      else (\<lambda>j. j\<lparr>jn_currentStepStatus := StepEXCEPTION, jn_status := EXCEPTION\<rparr>)"
  obtain db2 db3 key p where c: "updateJourneyVersion (ei_journeyId i) (lk_journeyVersion lk) ?data db2 = Inr db3"
    "jdb_journeys db2 = jdb_journeys db" "jdb_events db2 = jdb_events db"
    "writeEventAndOutbox env 1 key STEP_EXCEPTION (ei_journeyId i) p (lk_journeyVersion lk + 1) db3 = Inr db'"
    using op False fr unfolding recordLockedException_def Let_def rbind_Inr_iff if_not_P [OF False]
    by clarsimp
  show ?thesis
  proof (rule log_move_event [OF c(1) d c(2,3) refl refl c(4)])
    fix x assume x: "x \<in> set (jdb_journeys db)" "jn_id x = ei_journeyId i"
    have "lk_journeyStatus lk = jn_status x"
      using lk find_row_unique [OF d x(1)] x(2) by (auto simp: lockJourneyStep_def split: option.splits)
    then have "\<not> ended (jn_status x)" using False by (auto simp: already_terminal_def ended_def)
    then show "sound_change x ((?data x)\<lparr>jn_version := lk_journeyVersion lk + 1\<rparr>)"
      by (intro sound_open) (auto simp: journey_ok_def RESUMABLE_STATUSES_def)
  qed
qed

lemma createOrGet_log:
  assumes ok: "logs_ok db" and fresh: "env_newId env 0 \<notin> jn_id ` set (jdb_journeys db)"
    and op: "createOrGetForApplication env a k db = Inr (j, db')"
  shows "log_step db db'"
proof (cases "find_event k db")
  case (Some e)
  then show ?thesis using op
    by (auto simp: createOrGetForApplication_def split: option.splits if_splits intro!: log_step.same)
next
  case None
  obtain j1 db1 where up: "upsert_journey env a db = (j1, db1)" by fastforce
  obtain e db2 where c: "create_event e db1 = Inr db2" "ev_journeyId e = jn_id j1" "ev_sequence e = 0"
    "jdb_journeys db' = jdb_journeys db2" "jdb_events db' = jdb_events db2"
    using op None up by (auto simp: createOrGetForApplication_def)
  show ?thesis
  proof (cases "find_row jn_applicationId a (jdb_journeys db)")
    case (Some x)
    then have x: "j1 = x" "db1 = db" "x \<in> set (jdb_journeys db)"
      using up find_row_Some [OF Some] by (auto simp: upsert_journey_def)
    have "0 \<in> set (journey_log (jn_id x) db)"
      using logs_okD(3,4) [OF ok x(3)] by simp
    then have False using c(1-3) x(1,2) by (auto simp: create_event_def journey_log_def list_ex_iff)
    then show ?thesis ..
  next
    case new: None
    then have "jdb_journeys db1 = jdb_journeys db @ [new_journey (env_newId env 0) a]"
      "jdb_events db1 = jdb_events db" "jn_id j1 = env_newId env 0"
      using up by (auto simp: upsert_journey_def Let_def new_journey_def)
    then show ?thesis using create_event_effect [OF c(1)] c(2-5) fresh
      by (intro log_step.started [where j = "env_newId env 0" and a = a and e = e]) auto
  qed
qed

lemma openManualTask_log:
  assumes d: "distinct (map jn_id (jdb_journeys db))" and op: "openManualTask env p0 j s0 db = Inr (t, db')"
  shows "log_step db db'"
proof -
  obtain lk where lk: "lockJourneyStep j s0 db = Inr lk" "validateCurrentStep lk (lk_journeyVersion lk) = Inr ()"
    using op by (auto simp: openManualTask_def)
  obtain taskType where tt: "manualTaskTypeFor (lk_stepCode lk) = Some taskType"
    using op lk by (cases "manualTaskTypeFor (lk_stepCode lk)") (auto simp: openManualTask_def)
  show ?thesis
  proof (cases "List.find (\<lambda>t. mt_journeyId t = j \<and> mt_status t = TaskOPEN \<and> mt_taskType t = taskType) (jdb_tasks db)")
    case (Some u)
    then show ?thesis using op lk tt by (auto simp: openManualTask_def intro!: log_step.same)
  next
    case None
    have u: "unique_as_already_open (open_new_task env p0 lk taskType db) = Inr (t, db')"
      using op lk tt None by (auto simp: openManualTask_def)
    then have o: "open_new_task env p0 lk taskType db = Inr (t, db')"
      by (cases "open_new_task env p0 lk taskType db") (auto split: if_splits)
    have id: "lk_journeyId lk = j"
      using lk(1) find_row_Some by (fastforce simp: lockJourneyStep_def split: option.splits)
    let ?data = "\<lambda>j. j\<lparr>jn_currentStepCode := lk_stepCode lk, jn_currentStepStatus := StepWAITING_MANUAL,
        jn_status := WAITING_MANUAL\<rparr>"
    obtain db1 db2 db3 p where c: "create_task (new_task (env_newId env 0) j (lk_stepId lk) taskType p0) db = Inr db1"
      "updateJourneyVersion j (lk_journeyVersion lk) ?data db1 = Inr db2"
      "db3 = update_step (lk_stepId lk) j
          (\<lambda>s. s\<lparr>st_status := StepWAITING_MANUAL, st_waitingAt := Some (env_now env)\<rparr>) db2"
      "writeEventAndOutbox env 1 (waiting_manual_key j (lk_stepCode lk)) STEP_WAITING_MANUAL j p
         (lk_journeyVersion lk + 1) db3 = Inr db'"
      using o id by (auto simp: open_new_task_def Let_def)
    have fr: "jdb_journeys db1 = jdb_journeys db" "jdb_events db1 = jdb_events db"
      using create_task_frame [OF c(1)] by blast+
    show ?thesis
      by (rule log_checked [OF d lk c(2) fr _ _ c(4)]) (simp_all add: c(3) journey_ok_open)
  qed
qed

lemma decideManualTask_log: "decideManualTask env i db = Inr (t, db') \<Longrightarrow> log_step db db'"
  by (auto simp: decideManualTask_def Let_def split: option.splits intro!: log_step.same)

lemma returnToFinalPlanDecision_log:
  assumes d: "distinct (map jn_id (jdb_journeys db))"
    and op: "returnToFinalPlanDecision env h k v r j s0 db = Inr db'"
  shows "log_step db db'"
proof -
  obtain lk where lk: "lockJourneyStep j s0 db = Inr lk" "validateCurrentStep lk v = Inr ()"
    using op by (auto simp: returnToFinalPlanDecision_def)
  obtain x where x: "find_row jn_id j (jdb_journeys db) = Some x"
    using op lk by (cases "find_row jn_id j (jdb_journeys db)") (auto simp: returnToFinalPlanDecision_def)
  let ?data = "\<lambda>j. j\<lparr>jn_currentStepCode := FINAL_PLAN_DECISION, jn_currentStepStatus := StepWAITING_MANUAL,
      jn_status := WAITING_MANUAL\<rparr>"
  define reason where "reason = [(ascii ''finalPlanRevision'', Num r),
      (ascii ''reason'', Str (ascii ''FINAL_PLAN_REVISION_STALE''))]"
  define wait where "wait = (\<lambda>s :: journey_step. s\<lparr>st_status := StepWAITING_MANUAL,
      st_waitingAt := Some (env_now env), st_waitingReasonSnapshot := Some (Obj reason)\<rparr>)"
  define db1 where "db1 = db\<lparr>jdb_steps := update_where
      (\<lambda>s. st_journeyId s = j \<and> st_code s \<in> set RESET_CODES) reset_step (jdb_steps db)\<rparr>"
  obtain planStep db2 where ps: "upsert_step (env_newId env 0) j FINAL_PLAN_DECISION wait wait db1 = (planStep, db2)"
    by fastforce
  obtain t db3 db4 p where c: "create_task t db2 = Inr db3" "updateJourneyVersion j v ?data db3 = Inr db4"
    "writeEventAndOutbox env 2 k STEP_WAITING_MANUAL j p (v + 1) db4 = Inr db'"
    using op lk x ps unfolding returnToFinalPlanDecision_def Let_def reason_def [symmetric] wait_def [symmetric]
      db1_def [symmetric] by auto
  have "jdb_journeys db2 = jdb_journeys db" "jdb_events db2 = jdb_events db"
    using upsert_step_frame [OF ps] by (simp_all add: db1_def)
  then have fr: "jdb_journeys db3 = jdb_journeys db" "jdb_events db3 = jdb_events db"
    using create_task_frame [OF c(1)] by auto
  show ?thesis
    by (rule log_checked [OF d lk c(2) fr refl refl c(3)]) (simp add: journey_ok_open)
qed

lemma returnToCustomerConfirmation_log:
  assumes d: "distinct (map jn_id (jdb_journeys db))"
    and op: "returnToCustomerConfirmation env k v j p0 s0 db = Inr (s, db')"
  shows "log_step db db'"
proof (cases "find_event k db")
  case (Some e)
  then show ?thesis using op by (auto simp: returnToCustomerConfirmation_def intro!: log_step.same)
next
  case None
  obtain lk where lk: "lockJourneyStep j s0 db = Inr lk" "validateCurrentStep lk v = Inr ()"
    using op None by (auto simp: returnToCustomerConfirmation_def)
  let ?data = "\<lambda>j. j\<lparr>jn_currentStepCode := CUSTOMER_PLAN_CONFIRMATION,
      jn_currentStepStatus := StepWAITING_CUSTOMER, jn_status := WAITING_CUSTOMER\<rparr>"
  define f where "f = (\<lambda>s :: journey_step. s\<lparr>st_status := StepWAITING_CUSTOMER, st_waitingAt := Some (env_now env)\<rparr>)"
  define g where "g = (\<lambda>s :: journey_step. s\<lparr>st_completedAt := None, st_status := StepWAITING_CUSTOMER,
      st_waitingAt := Some (env_now env)\<rparr>)"
  obtain cs db1 where up: "upsert_step (env_newId env 0) j CUSTOMER_PLAN_CONFIRMATION f g db = (cs, db1)"
    by fastforce
  obtain db2 db3 p where c: "db2 = update_step s0 j
       (\<lambda>s. s\<lparr>st_completedAt := Some (env_now env), st_status := StepCOMPLETED\<rparr>) db1"
    "updateJourneyVersion j v ?data db2 = Inr db3"
    "writeEventAndOutbox env 1 k STEP_WAITING_CUSTOMER j p (v + 1) db3 = Inr db'"
    using op lk None up unfolding returnToCustomerConfirmation_def Let_def f_def [symmetric] g_def [symmetric]
    by auto
  have fr: "jdb_journeys db2 = jdb_journeys db" "jdb_events db2 = jdb_events db"
    using upsert_step_frame [OF up] by (simp_all add: c(1))
  show ?thesis
    by (rule log_checked [OF d lk c(2) fr refl refl c(3)]) (simp add: journey_ok_open)
qed

lemma returnToHandoverEvidence_log:
  assumes d: "distinct (map jn_id (jdb_journeys db))"
    and op: "returnToHandoverEvidence env s0 k v j p0 db = Inr (s, db')"
  shows "log_step db db'"
proof (cases "find_event k db")
  case (Some e)
  then show ?thesis using op by (auto simp: returnToHandoverEvidence_def intro!: log_step.same)
next
  case None
  obtain lk where lk: "lockJourneyStep j s0 db = Inr lk" "validateCurrentStep lk v = Inr ()"
    using op None by (auto simp: returnToHandoverEvidence_def)
  let ?data = "\<lambda>j. j\<lparr>jn_currentStepCode := HANDOVER_AND_STAGE2_CREATION,
      jn_currentStepStatus := StepRUNNING, jn_status := RUNNING\<rparr>"
  define f where "f = (\<lambda>s :: journey_step. s\<lparr>st_startedAt := Some (env_now env), st_status := StepRUNNING\<rparr>)"
  define g where "g = (\<lambda>s :: journey_step. s\<lparr>st_completedAt := None, st_startedAt := Some (env_now env),
      st_status := StepRUNNING, st_waitingAt := None\<rparr>)"
  obtain cs db1 where up: "upsert_step (env_newId env 0) j HANDOVER_AND_STAGE2_CREATION f g db = (cs, db1)"
    by fastforce
  obtain db2 db3 p where c: "db2 = update_step s0 j
       (\<lambda>s. s\<lparr>st_completedAt := None, st_status := StepPENDING, st_waitingAt := None\<rparr>) db1"
    "updateJourneyVersion j v ?data db2 = Inr db3"
    "writeEventAndOutbox env 1 k MANUAL_TASK_DECIDED j p (v + 1) db3 = Inr db'"
    using op lk None up unfolding returnToHandoverEvidence_def Let_def f_def [symmetric] g_def [symmetric]
    by auto
  have fr: "jdb_journeys db2 = jdb_journeys db" "jdb_events db2 = jdb_events db"
    using upsert_step_frame [OF up] by (simp_all add: c(1))
  show ?thesis
    by (rule log_checked [OF d lk c(2) fr refl refl c(3)]) (simp add: journey_ok_open)
qed

section \<open>Jobs, outbox and administration\<close>

lemma settle_rows_log:
  "settle_job_row k t now f db = Inr db' \<Longrightarrow> jdb_journeys db' = jdb_journeys db \<and> jdb_events db' = jdb_events db"
  "settle_outbox_row k t now g db = Inr db' \<Longrightarrow> jdb_journeys db' = jdb_journeys db \<and> jdb_events db' = jdb_events db"
  by (auto simp: settle_job_row_def settle_outbox_row_def)

lemma enqueueJob_frame:
  "enqueueJob env n i db = Inr (job, db') \<Longrightarrow> jdb_journeys db' = jdb_journeys db \<and> jdb_events db' = jdb_events db"
  by (auto simp: enqueueJob_def Let_def split: option.splits if_splits)

lemma claim_frames:
  "jdb_journeys (snd (claimJobs r l m t now db)) = jdb_journeys db"
  "jdb_events (snd (claimJobs r l m t now db)) = jdb_events db"
  "jdb_journeys (snd (claimOutboxByMode md l m t now db)) = jdb_journeys db"
  "jdb_events (snd (claimOutboxByMode md l m t now db)) = jdb_events db"
  unfolding claimJobs_def claimOutboxByMode_def Let_def
  by (cases "validClaim l m"; simp only: if_True if_False snd_conv not_True_eq_False not_False_eq_True; simp)+

lemma deadLetterJob_log:
  assumes d: "distinct (map jn_id (jdb_journeys db))" and op: "deadLetterJob env k t i db = Inr (x, db')"
  shows "log_step db db'"
proof -
  obtain lk db1 where c: "lockJourneyStep (ei_journeyId i) (ei_stepId i) db = Inr lk"
    "settle_job_row k t (env_now env) (dead_letter_job (safeFailure (ei_error i)) (env_now env)) db = Inr db1"
    "recordLockedException env (i\<lparr>ei_error := safeFailure (ei_error i)\<rparr>) lk db1 = Inr (x, db')"
    using op by (auto simp: deadLetterJob_def Let_def)
  show ?thesis
    by (rule recordLockedException_log [OF d _ _ _ c(3)]) (use c(1) settle_rows_log(1) [OF c(2)] in simp_all)
qed

lemma locked_admin:
  "lockAdminJourney k v db = Inr j \<Longrightarrow> j \<in> set (jdb_journeys db) \<and> jn_id j = k \<and> jn_version j = v"
  by (auto simp: lockAdminJourney_def split: option.splits if_splits dest: find_row_Some)

lemma log_admin:
  assumes ok: "logs_ok db" and j: "lockAdminJourney k v db = Inr j"
    and up: "updateJourneyVersion (jn_id j) (jn_version j) data db0 = Inr db1"
    and fr: "jdb_journeys db0 = jdb_journeys db" "jdb_events db0 = jdb_events db"
    "jdb_journeys db2 = jdb_journeys db1" "jdb_events db2 = jdb_events db1"
    and ev: "writeAdminEvent env n j ty opn reason db2 = Inr db'"
    and data: "journey_ok j \<Longrightarrow> \<not> ended (jn_status j) \<and> jn_id (data j) = jn_id j
        \<and> jn_applicationId (data j) = jn_applicationId j \<and> journey_ok (data j)"
  shows "log_step db db'"
proof -
  note d = logs_okD(1) [OF ok]
  obtain e where e: "jdb_journeys db' = jdb_journeys db2" "jdb_events db' = jdb_events db2 @ [e]"
    "ev_journeyId e = jn_id j" "ev_sequence e = jn_version j + 1"
    using ev by (rule writeAdminEvent_effect)
  have jn: "j \<in> set (jdb_journeys db)" using locked_admin [OF j] by blast
  show ?thesis
  proof (rule log_move [OF up d fr(1,2) _ _ e(3,4)])
    fix x assume "x \<in> set (jdb_journeys db)" "jn_id x = jn_id j"
    then have x: "x = j" using same_journey [OF d _ jn] by blast
    show "sound_change x ((data x)\<lparr>jn_version := jn_version j + 1\<rparr>)"
      unfolding x using data [OF logs_okD(5) [OF ok jn]] by (intro sound_open) (auto simp: journey_ok_def)
  qed (simp_all add: e(1,2) fr(3,4))
qed

lemma resumable_open: "s \<in> set RESUMABLE_STATUSES \<Longrightarrow> s \<notin> {COMPLETED, CANCELLED, PAUSED}"
  by (auto simp: RESUMABLE_STATUSES_def)

lemma not_ended_paused: "s \<notin> set [PAUSED, COMPLETED, CANCELLED] \<Longrightarrow> s \<in> set RESUMABLE_STATUSES \<and> \<not> ended s"
  by (cases s) (auto simp: RESUMABLE_STATUSES_def ended_def)

lemma pauseJourney_log:
  assumes ok: "logs_ok db" and op: "pauseJourney env k v reason db = Inr db'"
  shows "log_step db db'"
proof -
  obtain j db1 where c: "lockAdminJourney k v db = Inr j" "jn_status j \<notin> set [PAUSED, COMPLETED, CANCELLED]"
    "updateJourneyVersion (jn_id j) (jn_version j)
       (\<lambda>x. x\<lparr>jn_pausedFromStatus := Some (jn_status j), jn_status := PAUSED\<rparr>) db = Inr db1"
    "writeAdminEvent env 0 j JOURNEY_PAUSED ''PAUSE'' reason db1 = Inr db'"
    using op by (auto simp: pauseJourney_def)
  show ?thesis
    by (rule log_admin [OF ok c(1,3) refl refl refl refl c(4)])
      (use not_ended_paused [OF c(2)] in \<open>simp add: journey_ok_def\<close>)
qed

lemma resumeJourney_log:
  assumes ok: "logs_ok db" and op: "resumeJourney env h f k v reason db = Inr db'"
  shows "log_step db db'"
proof -
  obtain j where j: "lockAdminJourney k v db = Inr j"
    using op by (auto simp: resumeJourney_def)
  obtain s where s: "jn_pausedFromStatus j = Some s"
    using op j by (cases "jn_pausedFromStatus j") (auto simp: resumeJourney_def)
  let ?data = "\<lambda>x. x\<lparr>jn_pausedFromStatus := None, jn_status := s\<rparr>"
  obtain db1 db2 where c: "jn_status j = PAUSED"
    "updateJourneyVersion (jn_id j) (jn_version j) ?data db = Inr db1"
    "(if s = RUNNING then enqueue_resumed env f j db1 else Inr db1) = Inr db2"
    "writeAdminEvent env 1 j JOURNEY_RESUMED ''RESUME'' reason db2 = Inr db'"
    using op j s unfolding resumeJourney_def by auto
  have fr: "jdb_journeys db2 = jdb_journeys db1" "jdb_events db2 = jdb_events db1"
    using c(3) enqueueJob_frame
    by (fastforce simp: enqueue_resumed_def split: if_splits option.splits)+
  have "s \<in> set RESUMABLE_STATUSES" if "journey_ok j" using that s c(1) by (auto simp: journey_ok_def)
  then show ?thesis
    by (intro log_admin [OF ok j c(2) refl refl fr c(4)])
      (use c(1) resumable_open [of s] in \<open>auto simp: ended_def journey_ok_def\<close>)
qed

lemma retryJourney_log:
  assumes ok: "logs_ok db" and op: "retryJourney env u k v reason db = Inr db'"
  shows "log_step db db'"
proof -
  obtain j where j: "lockAdminJourney k v db = Inr j" "jn_status j = EXCEPTION"
    using op by (auto simp: retryJourney_def)
  obtain x where x: "latest_open_exception k db = Some x"
    using op j by (cases "latest_open_exception k db") (auto simp: retryJourney_def)
  obtain q where q: "ex_jobId x = Some q"
    using op j x by (cases "ex_jobId x") (auto simp: retryJourney_def)
  let ?data = "\<lambda>x. x\<lparr>jn_currentStepStatus := StepRETRY_SCHEDULED, jn_status := RETRY_SCHEDULED\<rparr>"
  let ?db0 = "db\<lparr>jdb_jobs := update_where (\<lambda>x. jj_id x = q) (retried_job (env_now env)) (jdb_jobs db),
      jdb_exceptions := update_where (\<lambda>y. ex_id y = ex_id x)
        (\<lambda>y. y\<lparr>ex_resolutionNotes := Some reason, ex_resolvedAt := Some (env_now env),
           ex_resolvedBy := Some u, ex_status := ExcRESOLVED\<rparr>) (jdb_exceptions db)\<rparr>"
  obtain db2 db3 where c: "db2 = update_step (ex_stepId x) k
       (\<lambda>s. s\<lparr>st_lastErrorCode := None, st_status := StepRETRY_SCHEDULED\<rparr>) ?db0"
    "updateJourneyVersion (jn_id j) (jn_version j) ?data db2 = Inr db3"
    "writeAdminEvent env 0 j EXCEPTION_RESOLVED ''RETRY'' reason db3 = Inr db'"
    using op j x q by (auto simp: retryJourney_def Let_def)
  show ?thesis
    by (rule log_admin [OF ok j(1) c(2) _ _ refl refl c(3)])
      (use j(2) in \<open>simp_all add: c(1) ended_def journey_ok_open\<close>)
qed

lemma cancelJourney_log:
  assumes ok: "logs_ok db" and op: "cancelJourney env h k v reason db = Inr db'"
  shows "log_step db db'"
proof -
  let ?data = "\<lambda>x. x\<lparr>jn_cancelledAt := Some (env_now env), jn_currentStepStatus := StepCANCELLED,
      jn_status := CANCELLED\<rparr>"
  obtain j db1 db2 where c: "lockAdminJourney k v db = Inr j" "jn_status j \<notin> set [COMPLETED, CANCELLED]"
    "db1 = cancel_steps k None (cancel_open_tasks k (cancel_outbox k (cancel_jobs env k None db)))"
    "updateJourneyVersion (jn_id j) (jn_version j) ?data db1 = Inr db2"
    "writeAdminEvent env 0 j JOURNEY_CANCELLED ''CANCEL'' reason db2 = Inr db'"
    using op by (auto simp: cancelJourney_def Let_def)
  show ?thesis
    by (rule log_admin [OF ok c(1,4) _ _ refl refl c(5)])
      (use c(2) in \<open>simp_all add: c(3) ended_def journey_ok_def\<close>)
qed

lemma attachOrder_log:
  assumes d: "distinct (map jn_id (jdb_journeys db))" and op: "attachOrder k o' db = Inr db'"
  shows "log_step db db'"
proof -
  let ?P = "\<lambda>j. jn_id j = k \<and> (jn_orderId j = None \<or> jn_orderId j = Some o')"
  have c: "count_where ?P (jdb_journeys db) = 1"
    and db': "db' = db\<lparr>jdb_journeys := update_where ?P (\<lambda>j. j\<lparr>jn_orderId := Some o'\<rparr>) (jdb_journeys db)\<rparr>"
    using op by (auto simp: attachOrder_def Let_def)
  then have "filter ?P (jdb_journeys db) \<noteq> []" by (auto simp: count_where_def)
  then obtain x where x: "x \<in> set (jdb_journeys db)" "?P x" by (auto simp: filter_empty_conv)
  have "update_where ?P (\<lambda>j. j\<lparr>jn_orderId := Some o'\<rparr>) (jdb_journeys db)
      = update_where (\<lambda>r. jn_id r = jn_id x) (\<lambda>_. x\<lparr>jn_orderId := Some o'\<rparr>) (jdb_journeys db)"
    unfolding update_where_def
  proof (rule map_cong [OF refl])
    fix r assume r: "r \<in> set (jdb_journeys db)"
    show "(if ?P r then r\<lparr>jn_orderId := Some o'\<rparr> else r)
        = (if jn_id r = jn_id x then x\<lparr>jn_orderId := Some o'\<rparr> else r)"
    proof (cases "jn_id r = jn_id x")
      case True
      then have "r = x" using same_journey [OF d r x(1)] by blast
      then show ?thesis using x(2) by simp
    qed (use x(2) in auto)
  qed
  then show ?thesis using db' by (intro log_step.attached [OF x(1), where o' = "Some o'"]) simp_all
qed

section \<open>All transactions\<close>

lemma transaction_log:
  assumes ok: "logs_ok db" and t: "journey_transaction c db = Inr db'"
  shows "log_step\<^sup>*\<^sup>* db db'"
proof -
  note d = logs_okD(1) [OF ok]
  have fresh: "env_newId (fst c) 0 \<notin> jn_id ` set (jdb_journeys db)"
    and op: "apply_journey (fst c) (snd c) db = Inr db'"
    using t by (auto simp: journey_transaction_def)
  have "log_step db db'" if "\<forall>v j p s. snd c \<noteq> CompleteActivation v j p s"
  proof (cases "snd c")
    case (Start a k) then show ?thesis using op createOrGet_log [OF ok fresh] by auto
  next
    case (CompleteStep i) then show ?thesis using op completeStep_log [OF d] by auto
  next
    case (WaitCustomer i) then show ?thesis using op waitForCustomer_log [OF d] by auto
  next
    case (WaitManual i f) then show ?thesis using op waitForManual_log [OF d] by auto
  next
    case (PauseRestricted v j p s) then show ?thesis using op pauseForOperationalRestriction_log [OF d] by auto
  next
    case (Reject i f a) then show ?thesis using op rejectForApplication_log [OF d] by auto
  next
    case (OpenTask p j s) then show ?thesis using op openManualTask_log [OF d] by auto
  next
    case (DecideTask i) then show ?thesis using op decideManualTask_log by auto
  next
    case (ReturnToPlan h k v r j s) then show ?thesis using op returnToFinalPlanDecision_log [OF d] by auto
  next
    case (ReturnToConfirmation k v j p s)
    then show ?thesis using op returnToCustomerConfirmation_log [OF d] by auto
  next
    case (ReturnToHandover s k v j p) then show ?thesis using op returnToHandoverEvidence_log [OF d] by auto
  next
    case (RecordException i)
    then show ?thesis using op recordLockedException_log [OF d _ refl refl] by (auto simp: recordException_def)
  next
    case (RecordSignal i) then show ?thesis using op recordSignal_log [OF d] by auto
  next
    case (EnqueueJob i) then show ?thesis using op enqueueJob_frame by (fastforce intro: log_step.same)
  next
    case (ClaimJobs r l m t) then show ?thesis using op claim_frames by (auto intro!: log_step.same)
  next
    case (CompleteJob k t r)
    then show ?thesis using op settle_rows_log(1) by (auto simp: completeJob_def intro!: log_step.same)
  next
    case (RescheduleJob k t d e)
    then show ?thesis using op settle_rows_log(1) by (auto simp: rescheduleJob_def intro!: log_step.same)
  next
    case (DeadLetterJob k t i) then show ?thesis using op deadLetterJob_log [OF d] by auto
  next
    case (ClaimOutbox m l ms t) then show ?thesis using op claim_frames by (auto intro!: log_step.same)
  next
    case (CompleteOutbox k t)
    then show ?thesis using op settle_rows_log(2) by (auto simp: completeOutbox_def intro!: log_step.same)
  next
    case (RescheduleOutbox k t d e)
    then show ?thesis using op settle_rows_log(2) by (auto simp: rescheduleOutbox_def intro!: log_step.same)
  next
    case (DeadLetterOutbox k t e)
    then show ?thesis using op settle_rows_log(2) by (auto simp: deadLetterOutbox_def intro!: log_step.same)
  next
    case (NotifyOutbox s)
    then show ?thesis using op
      by (auto simp: enqueueNotificationOutbox_def split: option.splits intro!: log_step.same)
  next
    case (AdminPause j v r) then show ?thesis using op pauseJourney_log [OF ok] by auto
  next
    case (AdminResume h f j v r) then show ?thesis using op resumeJourney_log [OF ok] by auto
  next
    case (AdminRetry u j v r) then show ?thesis using op retryJourney_log [OF ok] by auto
  next
    case (AdminCancel h j v r) then show ?thesis using op cancelJourney_log [OF ok] by auto
  next
    case (AttachOrder j o') then show ?thesis using op attachOrder_log [OF d] by auto
  qed (use that in blast)
  moreover have "log_step\<^sup>*\<^sup>* db db'" if "snd c = CompleteActivation v j p s" for v j p s
    using op completeActivation_log [OF ok] that by auto
  ultimately show ?thesis by blast
qed

interpretation journeys: guarded_ops journey_transaction logs_ok
  by unfold_locales (rule log_steps_ok [OF transaction_log])

text \<open>Transactions one after another; one that throws leaves the state.\<close>

definition journey_run :: "(journey_env \<times> journey_op) list \<Rightarrow> journey_db \<Rightarrow> journey_db" where
  "journey_run cs db = fold (\<lambda>c db. case journey_transaction c db of Inl e \<Rightarrow> db | Inr db' \<Rightarrow> db') cs db"

lemma journey_run_commit: "journey_run cs db = journeys.run cs db"
  by (simp add: journey_run_def journeys.run_def journeys.commit_def [abs_def])

lemma journey_run_ok: "logs_ok db \<Longrightarrow> logs_ok (journey_run cs db)"
  unfolding journey_run_commit by (rule journeys.run_inv)

lemma journey_run_log: "logs_ok db \<Longrightarrow> log_step\<^sup>*\<^sup>* db (journey_run cs db)"
proof (induction cs arbitrary: db)
  case (Cons c cs)
  show ?case
  proof (cases "journey_transaction c db")
    case (Inr db1)
    have "log_step\<^sup>*\<^sup>* db db1" using transaction_log [OF Cons.prems Inr] .
    moreover have "log_step\<^sup>*\<^sup>* db1 (journey_run cs db1)"
      using Cons.IH log_steps_ok [OF calculation Cons.prems] by blast
    moreover have "journey_run (c # cs) db = journey_run cs db1" by (simp add: journey_run_def Inr)
    ultimately show ?thesis by (metis rtranclp_trans)
  next
    case (Inl e)
    then show ?thesis using Cons by (simp add: journey_run_def)
  qed
qed (simp add: journey_run_def)

end
