(* ===== verification/JourneyLeases.thy ===== *)
theory JourneyLeases
  imports JourneyQueue
begin

text \<open>
  The jobs and the outbox of the journey are leased queues.  What both tables
  share is the locale \<open>leased_rows\<close>: rows whose lease has a token and ends at a
  time.  With the clock in the state it is a \<open>leased_queue\<close>, and its laws are
  carried to the repository operations.
\<close>

section \<open>Rows with leases that expire\<close>

locale leased_rows =
  fixes rid :: "'r \<Rightarrow> 'k"
    and active :: "'k \<Rightarrow> ustring \<Rightarrow> time \<Rightarrow> 'r \<Rightarrow> bool"
    and due :: "time \<Rightarrow> 'r \<Rightarrow> bool"
    and lease :: "int \<Rightarrow> ustring \<Rightarrow> time \<Rightarrow> 'r \<Rightarrow> 'r"
    and release :: "'o \<Rightarrow> time \<Rightarrow> 'r \<Rightarrow> 'r"
  assumes active_id: "active k t now r \<Longrightarrow> rid r = k"
    and active_token: "active k t now r \<Longrightarrow> active k t' now r \<Longrightarrow> t = t'"
    and active_earlier: "active k t now' r \<Longrightarrow> now \<le> now' \<Longrightarrow> active k t now r"
    and rid_lease: "rid (lease ms t now r) = rid r"
    and rid_release: "rid (release a now r) = rid r"
    and released: "\<not> active k t now' (release a now r)"
    and leased: "active (rid r) t now' (lease ms t now r) \<longleftrightarrow> now' < now + ms"
    and due_idle: "due now r \<Longrightarrow> \<not> active k t now r"
begin

definition ok_rows :: "time \<times> 'r list \<Rightarrow> bool" where
  "ok_rows q = distinct (map rid (snd q))"

definition holds_row :: "time \<times> 'r list \<Rightarrow> 'k \<Rightarrow> ustring \<Rightarrow> bool" where
  "holds_row q k t = list_ex (active k t (fst q)) (snd q)"

definition settle_row :: "'o \<Rightarrow> 'k \<Rightarrow> ustring \<Rightarrow> time \<times> 'r list \<Rightarrow> bool \<times> time \<times> 'r list" where
  "settle_row a k t q = (holds_row q k t,
     (fst q, update_where (active k t (fst q)) (release a (fst q)) (snd q)))"

definition claim_rows ::
    "int \<times> ('r list \<Rightarrow> 'k list) \<Rightarrow> ustring \<Rightarrow> time \<times> 'r list \<Rightarrow> 'k list \<times> time \<times> 'r list" where
  "claim_rows c t q =
     (if fst c \<le> 0 then ([], q)
      else let P = (\<lambda>r. rid r \<in> set (snd c (snd q)) \<and> due (fst q) r) in
        (map rid (filter P (snd q)), (fst q, update_where P (lease (fst c) t (fst q)) (snd q))))"

lemma map_rid_update: "(\<And>r. rid (f r) = rid r) \<Longrightarrow> map rid (update_where P f rows) = map rid rows"
  by (induction rows) (auto simp: update_where_def)

lemma bex_update_where:
  "(\<exists>x \<in> set (update_where P f rows). R x) \<longleftrightarrow> (\<exists>r \<in> set rows. R (if P r then f r else r))"
  unfolding update_where_def set_map by blast

lemma holds_iff: "holds_row (now, rows) k t \<longleftrightarrow> (\<exists>r \<in> set rows. active k t now r)"
  by (simp add: holds_row_def list_ex_iff)

lemma same_row:
  "distinct (map rid rows) \<Longrightarrow> r \<in> set rows \<Longrightarrow> r' \<in> set rows \<Longrightarrow> rid r = rid r' \<Longrightarrow> r = r'"
  by (auto simp: distinct_map inj_on_def)

lemma holds_settle:
  "distinct (map rid rows) \<Longrightarrow> holds_row (snd (settle_row a k t (now, rows))) i t'
    \<longleftrightarrow> holds_row (now, rows) i t' \<and> \<not> (holds_row (now, rows) k t \<and> i = k)"
proof -
  assume d: "distinct (map rid rows)"
  have "active i t' now (if active k t now r then release a now r else r)
      \<longleftrightarrow> active i t' now r \<and> \<not> (holds_row (now, rows) k t \<and> i = k)" if r: "r \<in> set rows" for r
  proof (cases "active k t now r")
    case True
    then show ?thesis using released active_id [of k t now r] active_id [of i t' now r] r
      by (auto simp: holds_iff)
  next
    case False
    then show ?thesis
      using active_id active_token same_row [OF d r] by (auto simp: holds_iff)
  qed
  then show ?thesis
    by (simp only: settle_row_def snd_conv fst_conv holds_iff bex_update_where) blast
qed

lemma claim_row_form:
  assumes "0 < ms"
  shows "claim_rows (ms, sel) t (now, rows) = (map rid (filter (\<lambda>r. rid r \<in> set (sel rows) \<and> due now r) rows),
    (now, update_where (\<lambda>r. rid r \<in> set (sel rows) \<and> due now r) (lease ms t now) rows))"
  using assms by (simp add: claim_rows_def Let_def)

lemma claimed_in: "k \<in> set (fst (claim_rows c t (now, rows)))
    \<Longrightarrow> 0 < fst c \<and> (\<exists>r \<in> set rows. rid r = k \<and> k \<in> set (snd c rows) \<and> due now r)"
  by (auto simp: claim_rows_def Let_def split: if_splits)

lemma claim_holds_row:
  assumes "k \<in> set (fst (claim_rows c t (now, rows)))"
  shows "holds_row (snd (claim_rows c t (now, rows))) k t"
proof -
  obtain r where r: "0 < fst c" "r \<in> set rows" "rid r = k" "k \<in> set (snd c rows)" "due now r"
    using claimed_in [OF assms] by blast
  then have "active k t now (lease (fst c) t now r)" using leased [of r t now "fst c" now] by simp
  then have "\<exists>r \<in> set rows. active k t now
      (if rid r \<in> set (snd c rows) \<and> due now r then lease (fst c) t now r else r)"
    using r by (intro bexI [of _ r]) auto
  then show ?thesis using r(1) by (simp add: claim_rows_def Let_def holds_iff bex_update_where)
qed

lemma claim_frame_row:
  assumes d: "distinct (map rid rows)" and k: "k \<notin> set (fst (claim_rows c t (now, rows)))"
  shows "holds_row (snd (claim_rows c t (now, rows))) k t' \<longleftrightarrow> holds_row (now, rows) k t'"
proof (cases "0 < fst c")
  case True
  let ?P = "\<lambda>r. rid r \<in> set (snd c rows) \<and> due now r"
  have "active k t' now (if ?P r then lease (fst c) t now r else r) \<longleftrightarrow> active k t' now r"
    if r: "r \<in> set rows" for r
  proof (cases "?P r")
    case P: True
    then have "rid r \<noteq> k" using k r True by (auto simp: claim_rows_def Let_def)
    then show ?thesis
      using active_id [of k t' now r] active_id [of k t' now "lease (fst c) t now r"]
      by (auto simp: rid_lease)
  qed auto
  then have "(\<exists>r \<in> set rows. active k t' now (if ?P r then lease (fst c) t now r else r))
      \<longleftrightarrow> (\<exists>r \<in> set rows. active k t' now r)" by blast
  then show ?thesis using True by (simp add: claim_rows_def Let_def holds_iff bex_update_where)
qed (simp add: claim_rows_def)

end

sublocale leased_rows \<subseteq> leased_queue ok_rows holds_row settle_row claim_rows
proof
  fix a k i t t' c and q :: "time \<times> 'r list"
  obtain now rows where q: "q = (now, rows)" by fastforce
  { assume ok: "ok_rows q"
    then have d: "distinct (map rid rows)" by (simp add: ok_rows_def q)
    show "ok_rows (snd (settle_row a k t q))"
      using ok by (simp add: ok_rows_def settle_row_def map_rid_update rid_release)
    show "ok_rows (snd (claim_rows c t q))"
      using ok by (simp add: ok_rows_def claim_rows_def Let_def map_rid_update rid_lease)
    show "fst (settle_row a k t q) \<longleftrightarrow> holds_row q k t" by (simp add: settle_row_def)
    show "holds_row q k t \<Longrightarrow> holds_row q k t' \<Longrightarrow> t = t'"
      using active_id active_token same_row [OF d] unfolding q holds_iff by metis
    show "\<not> holds_row q k t \<Longrightarrow> snd (settle_row a k t q) = q"
      unfolding q holds_iff settle_row_def update_where_def
      by (auto simp: list_ex_iff intro: map_idI)
    show "holds_row q k t \<Longrightarrow> \<not> holds_row (snd (settle_row a k t q)) k t'"
      using holds_settle [OF d] unfolding q by blast
    show "i \<noteq> k \<Longrightarrow> holds_row (snd (settle_row a k t q)) i t' \<longleftrightarrow> holds_row q i t'"
      using holds_settle [OF d] unfolding q by blast
    show "k \<in> set (fst (claim_rows c t q)) \<Longrightarrow> holds_row (snd (claim_rows c t q)) k t"
      using claim_holds_row unfolding q by blast
    show "k \<notin> set (fst (claim_rows c t q))
        \<Longrightarrow> holds_row (snd (claim_rows c t q)) k t' \<longleftrightarrow> holds_row q k t'"
      using claim_frame_row [OF d] unfolding q by blast
  }
qed

context leased_rows begin

text \<open>A lease is held exactly until it expires.\<close>

lemma held_until:
  assumes "ok_rows (now, rows)" and "k \<in> set (fst (claim_rows c t (now, rows)))"
  shows "list_ex (active k t now') (snd (snd (claim_rows c t (now, rows)))) \<longleftrightarrow> now' < now + fst c"
proof -
  have d: "distinct (map rid rows)" using assms(1) by (simp add: ok_rows_def)
  obtain r where r: "0 < fst c" "r \<in> set rows" "rid r = k" "k \<in> set (snd c rows)" "due now r"
    using claimed_in [OF assms(2)] by blast
  let ?g = "\<lambda>r. if rid r \<in> set (snd c rows) \<and> due now r then lease (fst c) t now r else r"
  have "active k t now' (?g x) \<longleftrightarrow> x = r \<and> now' < now + fst c" if x: "x \<in> set rows" for x
  proof (cases "x = r")
    case True
    then show ?thesis using r leased [of r t now' "fst c" now] by simp
  next
    case False
    then have "rid x \<noteq> k" using same_row [OF d x r(2)] r(3) by metis
    then have "rid (?g x) \<noteq> k" by (simp add: rid_lease)
    then show ?thesis using active_id False by blast
  qed
  then have "(\<exists>x \<in> set rows. active k t now' (?g x)) \<longleftrightarrow> now' < now + fst c" using r(2) by blast
  then show ?thesis using r(1) by (simp add: claim_rows_def Let_def list_ex_iff bex_update_where)
qed

text \<open>Once reclaimed, the old token is of no use at any later time.\<close>

lemma fenced_later:
  assumes "ok_rows (now, rows)" and "k \<in> set (fst (claim_rows c t' (now, rows)))" and "t \<noteq> t'"
    and "now \<le> now'"
  shows "\<not> list_ex (active k t now') (snd (snd (claim_rows c t' (now, rows))))"
proof
  let ?q = "snd (claim_rows c t' (now, rows))"
  have now: "fst ?q = now" by (simp add: claim_rows_def Let_def)
  assume "list_ex (active k t now') (snd ?q)"
  then have "holds_row ?q k t" using active_earlier [OF _ assms(4)] now
    by (auto simp: holds_row_def list_ex_iff)
  moreover have "holds_row ?q k t'" by (rule claim_holds [OF assms(1,2)])
  ultimately show False using holds_unique [OF claim_ok [OF assms(1)]] assms(3) by blast
qed

end

section \<open>The two tables\<close>

datatype job_release = CompleteRow | RescheduleRow int journey_failure | DeadLetterRow journey_failure

fun release_job :: "job_release \<Rightarrow> time \<Rightarrow> journey_job \<Rightarrow> journey_job" where
  "release_job CompleteRow now j = completed_job now j"
| "release_job (RescheduleRow d f) now j = rescheduled_job d f now j"
| "release_job (DeadLetterRow f) now j = dead_letter_job f now j"

fun release_outbox :: "job_release \<Rightarrow> time \<Rightarrow> journey_outbox \<Rightarrow> journey_outbox" where
  "release_outbox CompleteRow now r = delivered_outbox now r"
| "release_outbox (RescheduleRow d f) now r = rescheduled_outbox d f now r"
| "release_outbox (DeadLetterRow f) now r = dead_letter_outbox f r"

interpretation jobs: leased_rows jj_id job_lease_active journey_job_due lease_journey_job release_job
proof
  fix k t t' a r and now now' ms :: int
  show "job_lease_active k t now r \<Longrightarrow> jj_id r = k"
    "job_lease_active k t now r \<Longrightarrow> job_lease_active k t' now r \<Longrightarrow> t = t'"
    by (auto simp: job_lease_active_def)
  show "job_lease_active k t now' r \<Longrightarrow> now \<le> now' \<Longrightarrow> job_lease_active k t now r"
    by (auto simp: job_lease_active_def split: option.splits)
  show "jj_id (lease_journey_job ms t now r) = jj_id r" by (simp add: lease_journey_job_def)
  show "jj_id (release_job a now r) = jj_id r"
    by (cases a) (simp_all add: completed_job_def rescheduled_job_def dead_letter_job_def)
  show "\<not> job_lease_active k t now' (release_job a now r)"
    by (cases a) (simp_all add: job_lease_active_def completed_job_def rescheduled_job_def
      dead_letter_job_def)
  show "job_lease_active (jj_id r) t now' (lease_journey_job ms t now r) \<longleftrightarrow> now' < now + ms"
    by (simp add: job_lease_active_def lease_journey_job_def)
  show "journey_job_due now r \<Longrightarrow> \<not> job_lease_active k t now r"
    by (auto simp: job_lease_active_def journey_job_due_def split: option.splits)
qed

interpretation outbox: leased_rows ob_id outbox_lease_active outbox_due lease_outbox release_outbox
proof
  fix k t t' a r and now now' ms :: int
  show "outbox_lease_active k t now r \<Longrightarrow> ob_id r = k"
    "outbox_lease_active k t now r \<Longrightarrow> outbox_lease_active k t' now r \<Longrightarrow> t = t'"
    by (auto simp: outbox_lease_active_def)
  show "outbox_lease_active k t now' r \<Longrightarrow> now \<le> now' \<Longrightarrow> outbox_lease_active k t now r"
    by (auto simp: outbox_lease_active_def split: option.splits)
  show "ob_id (lease_outbox ms t now r) = ob_id r" by (simp add: lease_outbox_def)
  show "ob_id (release_outbox a now r) = ob_id r"
    by (cases a) (simp_all add: delivered_outbox_def rescheduled_outbox_def dead_letter_outbox_def)
  show "\<not> outbox_lease_active k t now' (release_outbox a now r)"
    by (cases a) (simp_all add: outbox_lease_active_def delivered_outbox_def rescheduled_outbox_def
      dead_letter_outbox_def)
  show "outbox_lease_active (ob_id r) t now' (lease_outbox ms t now r) \<longleftrightarrow> now' < now + ms"
    by (simp add: outbox_lease_active_def lease_outbox_def)
  show "outbox_due now r \<Longrightarrow> \<not> outbox_lease_active k t now r"
    by (auto simp: outbox_lease_active_def outbox_due_def split: option.splits)
qed

section \<open>The repository operations\<close>

lemma count_one_iff:
  assumes "distinct (map rid rows)" and "\<And>r. P r \<Longrightarrow> rid r = k"
  shows "count_where P rows = 1 \<longleftrightarrow> list_ex P rows"
  using assms(1)
proof (induction rows)
  case (Cons r rows)
  show ?case
  proof (cases "P r")
    case True
    then have "\<forall>s \<in> set rows. \<not> P s" using Cons.prems assms(2) by (force simp: image_iff)
    then show ?thesis using True by (simp add: count_where_def filter_empty_conv)
  next
    case False
    then show ?thesis using Cons by (simp add: count_where_def)
  qed
qed (simp add: count_where_def)

lemma settle_job_row_ok:
  assumes "distinct (map jj_id (jdb_jobs db))"
  shows "is_ok (settle_job_row k t now f db) \<longleftrightarrow> list_ex (job_lease_active k t now) (jdb_jobs db)"
proof -
  have "count_where (job_lease_active k t now) (jdb_jobs db) = 1
      \<longleftrightarrow> list_ex (job_lease_active k t now) (jdb_jobs db)"
    using assms jobs.active_id by (rule count_one_iff)
  then show ?thesis by (simp add: settle_job_row_def is_ok_iff)
qed

lemma settle_outbox_row_ok:
  assumes "distinct (map ob_id (jdb_outbox db))"
  shows "is_ok (settle_outbox_row k t now f db) \<longleftrightarrow> list_ex (outbox_lease_active k t now) (jdb_outbox db)"
proof -
  have "count_where (outbox_lease_active k t now) (jdb_outbox db) = 1
      \<longleftrightarrow> list_ex (outbox_lease_active k t now) (jdb_outbox db)"
    using assms outbox.active_id by (rule count_one_iff)
  then show ?thesis by (simp add: settle_outbox_row_def is_ok_iff)
qed

lemma is_ok_rbind: "is_ok (rbind r f) \<longleftrightarrow> (\<exists>x. r = Inr x \<and> is_ok (f x))"
  by (cases r) auto

lemma claimJobs_claim:
  assumes d: "distinct (map jj_id (jdb_jobs db))" and j: "j \<in> set (fst (claimJobs revisionOf limit leaseMs t now db))"
  obtains sel where "jj_id j \<in> set (fst (jobs.claim_rows (leaseMs, sel) t (now, jdb_jobs db)))"
    and "snd (jobs.claim_rows (leaseMs, sel) t (now, jdb_jobs db))
      = (now, jdb_jobs (snd (claimJobs revisionOf limit leaseMs t now db)))"
    and "0 < leaseMs"
proof -
  define sel where "sel = (\<lambda>rows. map jj_id (take (nat limit) (jobs_by_availability
    (filter (\<lambda>j. journey_job_due now j \<and> journey_permits revisionOf db j) rows))))"
  have v: "validClaim limit leaseMs" using j by (auto simp: claimJobs_def split: if_splits)
  then have ms: "0 < leaseMs" by (simp add: validClaim_def)
  let ?P = "\<lambda>j. jj_id j \<in> set (sel (jdb_jobs db)) \<and> journey_job_due now j"
  have rows: "jdb_jobs (snd (claimJobs revisionOf limit leaseMs t now db))
      = update_where ?P (lease_journey_job leaseMs t now) (jdb_jobs db)"
    using v by (simp add: claimJobs_def sel_def Let_def)
  have "jj_id j \<in> set (sel (jdb_jobs db))"
    using j v by (auto simp: claimJobs_def sel_def Let_def jobs_by_availability_def)
  moreover have "\<exists>r \<in> set (jdb_jobs db). jj_id r = jj_id j \<and> journey_job_due now r"
  proof -
    have "set (take n (jobs_by_availability xs)) \<subseteq> set xs" for n xs
      using set_take_subset [of n "jobs_by_availability xs"] by (simp add: jobs_by_availability_def)
    then show ?thesis using calculation unfolding sel_def by fastforce
  qed
  ultimately have "jj_id j \<in> set (fst (jobs.claim_rows (leaseMs, sel) t (now, jdb_jobs db)))"
    unfolding jobs.claim_row_form [OF ms] fst_conv set_map set_filter by (metis (mono_tags, lifting) image_eqI mem_Collect_eq)
  then show thesis
    using that [of sel] rows ms unfolding jobs.claim_row_form [OF ms] by simp
qed


definition lease_demo :: journey_db where
  "lease_demo = \<lparr> jdb_journeys = [(new_journey (ascii ''j'') (ascii ''a''))\<lparr>jn_version := 3\<rparr>],
     jdb_steps = [], jdb_events = [], jdb_outbox = [],
     jdb_jobs = [new_journey_job \<lparr> env_now = 100, env_newId = (\<lambda>n. ascii ''k'') \<rparr> 0
       \<lparr> ji_availableAt = None, ji_jobType = VALIDATE_APPLICATION, ji_journeyId = ascii ''j'',
         ji_maxAttempts = None, ji_payload = None, ji_sourceKey = ascii ''s'', ji_stepId = ascii ''t'' \<rparr>],
     jdb_tasks = [], jdb_exceptions = [] \<rparr>"




end
