(* ===== verification/JourneyFacts.thy ===== *)
theory JourneyFacts
  imports JourneyLaws JourneyLeases
begin

text \<open>
  The properties of the subscription journey as a whole: its event log and final
  states under every interleaving of operations, replays, retry delays, what is
  kept out of the stored payloads, and the second review of delivery evidence
  that the event key of the first one prevents.
\<close>

section \<open>The event log\<close>

definition no_journeys :: journey_db where
  "no_journeys = \<lparr> jdb_journeys = [], jdb_steps = [], jdb_events = [], jdb_outbox = [],
     jdb_jobs = [], jdb_tasks = [], jdb_exceptions = [] \<rparr>"

lemma logs_ok_empty: "logs_ok no_journeys"
  by (simp add: logs_ok_def no_journeys_def)

text \<open>
  C19 However the operations of the journey are interleaved, the events of a journey are numbered
  0, 1, 2 and so on up to its version, without a gap or a repetition; a completed journey stands at
  its completed activation with a completion time, a cancelled one at a cancelled step with a
  cancellation time, and a paused one remembers a status it can resume.
\<close>
theorem journey_log_gap_free:
  assumes "j \<in> set (jdb_journeys (journey_run cs no_journeys))"
  shows "journey_log (jn_id j) (journey_run cs no_journeys) = [0 .. jn_version j] \<and> journey_ok j"
  using logs_okD(4,5) [OF journey_run_ok [OF logs_ok_empty] assms] by simp

definition demo_env :: "nat \<Rightarrow> journey_env" where
  "demo_env k = \<lparr> env_now = int k,
     env_newId = (\<lambda>n. ascii (if n = 0 then ''j'' else if n = 1 then ''s'' else ''o'')) \<rparr>"

definition demo_steps :: "(journey_env \<times> journey_op) list" where
  "demo_steps =
     [(demo_env 1, Start (ascii ''app'') (ascii ''start'')),
      ((demo_env 2)\<lparr>env_newId := \<lambda>n. ascii ''p''\<rparr>, AdminPause (ascii ''j'') 0 (ascii ''hold'')),
      ((demo_env 3)\<lparr>env_newId := \<lambda>n. ascii ''q''\<rparr>,
        AdminCancel (\<lambda>_. False) (ascii ''j'') 1 (ascii ''changed mind''))]"

definition demo_db :: journey_db where
  "demo_db = journey_run demo_steps no_journeys"

lemma demo_evaluated: "map (\<lambda>j. (jn_id j, jn_status j, jn_version j)) (jdb_journeys demo_db)
    = [(ascii ''j'', CANCELLED, 2)]
  \<and> map ev_eventType (jdb_events demo_db) = [JOURNEY_STARTED, JOURNEY_PAUSED, JOURNEY_CANCELLED]"
  by code_simp

lemmas demo_result = demo_evaluated [THEN conjunct1]
lemmas demo_events = demo_evaluated [THEN conjunct2]

lemma demo_journey: obtains j where "j \<in> set (jdb_journeys demo_db)" "jn_id j = ascii ''j''"
    "jn_status j = CANCELLED" "jn_version j = 2"
  using demo_result by (auto simp: map_eq_Cons_conv)

theorem journey_log_gap_free_witness:
  "\<exists>j. j \<in> set (jdb_journeys (journey_run demo_steps no_journeys)) \<and> jn_version j = 2
     \<and> journey_log (jn_id j) (journey_run demo_steps no_journeys) = [0 .. jn_version j] \<and> journey_ok j"
proof (rule demo_journey)
  fix j assume "j \<in> set (jdb_journeys demo_db)" "jn_version j = 2"
  then show ?thesis using journey_log_gap_free unfolding demo_db_def by blast
qed

text \<open>
  C20 A journey that was completed or cancelled keeps its status and its last step through whatever
  is done afterwards: late completions, replays, retries, signals, administration.
\<close>
theorem ended_journey_is_final:
  assumes "logs_ok db" and "j \<in> set (jdb_journeys db)" and "jn_status j \<in> {COMPLETED, CANCELLED}"
  shows "\<exists>k \<in> set (jdb_journeys (journey_run cs db)). jn_id k = jn_id j \<and> jn_status k = jn_status j
    \<and> jn_currentStepCode k = jn_currentStepCode j \<and> jn_currentStepStatus k = jn_currentStepStatus j"
proof -
  have "still_ended j db" using assms(2) by (auto simp: still_ended_def)
  moreover have "ended (jn_status j)" using assms(3) by (auto simp: ended_def)
  ultimately have "still_ended j (journey_run cs db)"
    using log_steps_ended [OF journey_run_log [OF assms(1)] assms(1)] by blast
  then show ?thesis by (simp add: still_ended_def)
qed

theorem ended_journey_is_final_witness:
  "\<exists>k \<in> set (jdb_journeys (journey_run demo_steps demo_db)). jn_id k = ascii ''j'' \<and> jn_status k = CANCELLED"
proof (rule demo_journey)
  fix j assume j: "j \<in> set (jdb_journeys demo_db)" "jn_id j = ascii ''j''" "jn_status j = CANCELLED"
  have "logs_ok demo_db" unfolding demo_db_def by (rule journey_run_ok [OF logs_ok_empty])
  then show ?thesis using ended_journey_is_final [of demo_db j demo_steps] j by auto
qed

section \<open>Retry delays\<close>

text \<open>
  A retried job waits between nothing and six hours, and at least the thirty seconds of the
  first backoff unless the failure itself asked for a shorter wait; whatever the failure asked for
  is capped at two hours.
\<close>
theorem retry_delay_bounds:
  "0 \<le> retryDelayForJob job failure random \<and> retryDelayForJob job failure random \<le> 21600000
   \<and> (case sf_retryAfterMs failure of
        None \<Rightarrow> 30000 \<le> retryDelayForJob job failure random
      | Some ms \<Rightarrow> retryDelayForJob job failure random \<le> 7200000)"
proof -
  have base: "baseRetryDelayMs n \<in> set DEFAULT_RETRY_DELAYS_MS" for n
    unfolding baseRetryDelayMs_def by (intro nth_mem) (simp add: DEFAULT_RETRY_DELAYS_MS_def)
  have fada: "fadadaReconcileDelayMs n \<in> set FADADA_RECONCILE_DELAYS_MS" for n
    unfolding fadadaReconcileDelayMs_def by (intro nth_mem) (simp add: FADADA_RECONCILE_DELAYS_MS_def)
  have jitter: "b \<le> jitteredRetryDelayMs b random \<and> jitteredRetryDelayMs b random \<le> 2 * b" if "0 \<le> b" for b
  proof -
    define r where "r = min (max random 0) 1"
    have r: "0 \<le> r" "r \<le> 1" by (auto simp: r_def)
    have "0 \<le> of_int b * (1 / 5) * r" using r \<open>0 \<le> b\<close> by simp
    moreover have "of_int b * (1 / 5) * r \<le> of_int b"
    proof -
      have "of_int b * (1 / 5) * r \<le> (of_int b * (1 / 5)) * 1"
        using r \<open>0 \<le> b\<close> by (intro mult_left_mono) auto
      then show ?thesis using \<open>0 \<le> b\<close> by simp
    qed
    ultimately show ?thesis
      unfolding jitteredRetryDelayMs_def Let_def r_def [symmetric]
      by (simp add: floor_le_iff le_floor_iff)
  qed
  show ?thesis
  proof (cases "sf_retryAfterMs failure")
    case (Some ms)
    then show ?thesis by (simp add: retryDelayForJob_def capRetryAfterMs_def MAX_RETRY_AFTER_MS_def)
  next
    case None
    let ?n = "jj_attemptCount job + 1"
    have "baseRetryDelayMs ?n \<in> {30000, 120000, 600000, 1800000}"
      using base [of ?n] by (simp add: DEFAULT_RETRY_DELAYS_MS_def)
    moreover have "fadadaReconcileDelayMs ?n \<in> {300000, 1800000, 21600000}"
      using fada [of ?n] by (simp add: FADADA_RECONCILE_DELAYS_MS_def)
    ultimately show ?thesis using None jitter [of "baseRetryDelayMs ?n"]
      by (auto simp: retryDelayForJob_def Let_def)
  qed
qed

section \<open>What is kept out of the payloads\<close>

text \<open>The event types administrators write with a free-text reason.\<close>

definition admin_types :: "event_type set" where
  "admin_types = {JOURNEY_PAUSED, JOURNEY_RESUMED, JOURNEY_CANCELLED, EXCEPTION_RESOLVED}"

definition payloads_ok :: "journey_db \<Rightarrow> bool" where
  "payloads_ok db = ((\<forall>e \<in> set (jdb_events db). ev_eventType e \<notin> admin_types \<longrightarrow> forbidden_free (ev_payload e))
     \<and> (\<forall>r \<in> set (jdb_outbox db). ob_eventType r \<notin> admin_types \<longrightarrow> forbidden_free (ob_payload r))
     \<and> (\<forall>j \<in> set (jdb_jobs db). \<forall>p. jj_payload j = Some p \<longrightarrow> forbidden_free p))"

lemma ball_update_where:
  "(\<And>r. g (f r) = g r) \<Longrightarrow> (\<forall>r \<in> set (update_where P f rows). R (g r)) \<longleftrightarrow> (\<forall>r \<in> set rows. R (g r))"
  by (induction rows) (auto simp: update_where_def)

lemma payloads_simps [simp]:
  "payloads_ok (update_step s j f db) = payloads_ok db"
  "payloads_ok (resolveStepExceptions env j s db) = payloads_ok db"
  "payloads_ok (cancel_open_tasks j db) = payloads_ok db"
  "payloads_ok (cancel_steps j a db) = payloads_ok db"
  "payloads_ok (db\<lparr>jdb_steps := ss\<rparr>) = payloads_ok db"
  "payloads_ok (db\<lparr>jdb_tasks := ts\<rparr>) = payloads_ok db"
  "payloads_ok (db\<lparr>jdb_exceptions := xs\<rparr>) = payloads_ok db"
  "payloads_ok (db\<lparr>jdb_journeys := js\<rparr>) = payloads_ok db"
  "payloads_ok (db\<lparr>jdb_journeys := js, jdb_steps := ss\<rparr>) = payloads_ok db"
  by (simp_all add: payloads_ok_def update_step_def resolveStepExceptions_def cancel_open_tasks_def
    cancel_steps_def)

lemma jobs_payload_update:
  assumes "\<And>j. jj_payload (f j) = jj_payload j"
  shows "payloads_ok (db\<lparr>jdb_jobs := update_where P f (jdb_jobs db)\<rparr>) = payloads_ok db"
  using ball_update_where [of jj_payload f P "jdb_jobs db" "\<lambda>p. \<forall>q. p = Some q \<longrightarrow> forbidden_free q", OF assms]
  by (simp add: payloads_ok_def)

lemma outbox_payload_update:
  assumes "\<And>r. ob_payload (f r) = ob_payload r" and "\<And>r. ob_eventType (f r) = ob_eventType r"
  shows "payloads_ok (db\<lparr>jdb_outbox := update_where P f (jdb_outbox db)\<rparr>) = payloads_ok db"
  using ball_update_where [of "\<lambda>r. (ob_eventType r, ob_payload r)" f P "jdb_outbox db"
    "\<lambda>p. fst p \<notin> admin_types \<longrightarrow> forbidden_free (snd p)"] assms
  by (simp add: payloads_ok_def)

lemma payloads_cancel [simp]:
  "payloads_ok (cancel_jobs env j a db) = payloads_ok db"
  "payloads_ok (cancel_outbox j db) = payloads_ok db"
  unfolding cancel_jobs_def cancel_outbox_def
  by (simp_all add: jobs_payload_update outbox_payload_update)

lemma payloads_update: "updateJourneyVersion j v f db = Inr db' \<Longrightarrow> payloads_ok db' = payloads_ok db"
  by (auto simp: updateJourneyVersion_def Let_def)

lemma payloads_task: "create_task t db = Inr db' \<Longrightarrow> payloads_ok db' = payloads_ok db"
  by (auto simp: create_task_def)

lemma payloads_upsert_step [simp]: "payloads_ok (snd (upsert_step i j c f g db)) = payloads_ok db"
  by (simp add: upsert_step_def Let_def split: option.splits)

lemma payloads_outbox_new:
  "payloads_ok db \<Longrightarrow> ty \<in> admin_types \<or> forbidden_free p \<Longrightarrow> payloads_ok (writeOutbox env n a t k ty j p db)"
  by (auto simp: writeOutbox_def payloads_ok_def split: option.splits)

lemma payloads_event:
  "create_event e db = Inr db' \<Longrightarrow> payloads_ok db \<Longrightarrow>
   ev_eventType e \<in> admin_types \<or> forbidden_free (ev_payload e) \<Longrightarrow> payloads_ok db'"
  by (auto simp: create_event_def payloads_ok_def)

lemma payloads_write: "writeEventAndOutbox env n k ty j p sq db = Inr db' \<Longrightarrow> payloads_ok db \<Longrightarrow> payloads_ok db'"
  by (auto simp: writeEventAndOutbox_def safePayload_Inr intro!: payloads_outbox_new dest!: payloads_event)

lemma payloads_admin:
  "writeAdminEvent env n j ty op r db = Inr db' \<Longrightarrow> ty \<in> admin_types \<Longrightarrow> payloads_ok db \<Longrightarrow> payloads_ok db'"
  by (auto simp: writeAdminEvent_def Let_def intro!: payloads_outbox_new dest!: payloads_event)

lemma payloads_enqueue: "enqueueJob env n i db = Inr (job, db') \<Longrightarrow> payloads_ok db \<Longrightarrow> payloads_ok db'"
proof -
  assume "enqueueJob env n i db = Inr (job, db')" and ok: "payloads_ok db"
  then have "assertSafePayload (or_null (ji_payload i)) = Inr ()"
    and "db' = db \<or> db' = db\<lparr>jdb_jobs := jdb_jobs db @ [new_journey_job env n i]\<rparr>"
    by (auto simp: enqueueJob_def Let_def split: option.splits if_splits)
  then show "payloads_ok db'"
    using ok assertSafePayload_iff by (auto simp: payloads_ok_def new_journey_job_def or_null_def)
qed

lemma payloads_settle:
  "settle_job_row k t now f db = Inr db' \<Longrightarrow> (\<And>j. jj_payload (f j) = jj_payload j) \<Longrightarrow> payloads_ok db' = payloads_ok db"
  "settle_outbox_row k t now g db = Inr db' \<Longrightarrow> (\<And>r. ob_payload (g r) = ob_payload r)
     \<Longrightarrow> (\<And>r. ob_eventType (g r) = ob_eventType r) \<Longrightarrow> payloads_ok db' = payloads_ok db"
  unfolding settle_job_row_def settle_outbox_row_def
  using jobs_payload_update outbox_payload_update by auto

lemma payloads_claim:
  "payloads_ok (snd (claimJobs r l m t now db)) = payloads_ok db"
  "payloads_ok (snd (claimOutboxByMode md l m t now db)) = payloads_ok db"
  by (simp_all add: claimJobs_def claimOutboxByMode_def Let_def jobs_payload_update outbox_payload_update
    lease_journey_job_def lease_outbox_def)

lemma advance_payloads: "advanceJourney env i lk db = Inr db' \<Longrightarrow> payloads_ok db' = payloads_ok db"
  using advanceJourney_update payloads_update by blast

lemma completeStep_payloads:
  "completeStep env n i db = Inr (s, db') \<Longrightarrow> payloads_ok db \<Longrightarrow> payloads_ok db'"
  by (auto simp: completeStep_def Let_def split: option.splits dest!: payloads_write advance_payloads)

lemma waitForCustomer_payloads:
  "waitForCustomer env i db = Inr (s, db') \<Longrightarrow> payloads_ok db \<Longrightarrow> payloads_ok db'"
  by (auto simp: waitForCustomer_def Let_def split: option.splits dest!: payloads_write payloads_update)

lemma waitForManual_payloads:
  "waitForManual env i f db = Inr (s, db') \<Longrightarrow> payloads_ok db \<Longrightarrow> payloads_ok db'"
  by (auto simp: waitForManual_def Let_def split: option.splits dest!: payloads_write payloads_update)

lemma completeActivation_payloads:
  "completeActivation env v j p s0 db = Inr (s, db') \<Longrightarrow> payloads_ok db \<Longrightarrow> payloads_ok db'"
  by (auto simp: completeActivation_def Let_def split: option.splits
    dest!: payloads_write payloads_update completeStep_payloads)

lemma pauseForOperationalRestriction_payloads:
  "pauseForOperationalRestriction env v j r s db = Inr db' \<Longrightarrow> payloads_ok db \<Longrightarrow> payloads_ok db'"
  by (auto simp: pauseForOperationalRestriction_def dest!: payloads_write payloads_update)

lemma rejectForApplication_payloads:
  "rejectForApplication env i f a db = Inr (s, db') \<Longrightarrow> payloads_ok db \<Longrightarrow> payloads_ok db'"
  by (auto simp: rejectForApplication_def Let_def split: option.splits dest!: payloads_write payloads_update)

lemma openManualTask_payloads:
  "openManualTask env p j s db = Inr (t, db') \<Longrightarrow> payloads_ok db \<Longrightarrow> payloads_ok db'"
proof -
  have new: "open_new_task env p lk ty db = Inr (t, db') \<Longrightarrow> payloads_ok db \<Longrightarrow> payloads_ok db'" for lk ty
    by (auto simp: open_new_task_def Let_def dest!: payloads_write payloads_update payloads_task)
  have conflict: "unique_as_already_open r = Inr x \<Longrightarrow> r = Inr x" for r and x :: "manual_task \<times> journey_db"
    by (cases r) (auto split: if_splits)
  assume "openManualTask env p j s db = Inr (t, db')" and "payloads_ok db"
  then show ?thesis
    by (auto simp: openManualTask_def split: option.splits dest!: conflict new)
qed

lemma decideManualTask_payloads:
  "decideManualTask env i db = Inr (t, db') \<Longrightarrow> payloads_ok db \<Longrightarrow> payloads_ok db'"
  by (auto simp: decideManualTask_def Let_def split: option.splits)

lemma returnToFinalPlanDecision_payloads:
  "returnToFinalPlanDecision env h k v r j s db = Inr db' \<Longrightarrow> payloads_ok db \<Longrightarrow> payloads_ok db'"
  by (auto simp: returnToFinalPlanDecision_def Let_def case_prod_beta split: option.splits
    dest!: payloads_write payloads_update payloads_task)

lemma returnToCustomerConfirmation_payloads:
  "returnToCustomerConfirmation env k v j p s0 db = Inr (s, db') \<Longrightarrow> payloads_ok db \<Longrightarrow> payloads_ok db'"
  by (auto simp: returnToCustomerConfirmation_def Let_def case_prod_beta split: option.splits
    dest!: payloads_write payloads_update)

lemma returnToHandoverEvidence_payloads:
  "returnToHandoverEvidence env s0 k v j p db = Inr (s, db') \<Longrightarrow> payloads_ok db \<Longrightarrow> payloads_ok db'"
  by (auto simp: returnToHandoverEvidence_def Let_def case_prod_beta split: option.splits
    dest!: payloads_write payloads_update)

lemma recordLockedException_payloads:
  "recordLockedException env i lk db = Inr (x, db') \<Longrightarrow> payloads_ok db \<Longrightarrow> payloads_ok db'"
  by (auto simp: recordLockedException_def Let_def split: if_splits dest!: payloads_write payloads_update)

lemma recordSignal_payloads: "recordSignal env i db = Inr db' \<Longrightarrow> payloads_ok db \<Longrightarrow> payloads_ok db'"
  by (auto simp: recordSignal_def Let_def split: option.splits dest!: payloads_write payloads_update)

lemma createOrGet_payloads:
  "createOrGetForApplication env a k db = Inr (j, db') \<Longrightarrow> payloads_ok db \<Longrightarrow> payloads_ok db'"
  by (auto simp: createOrGetForApplication_def upsert_journey_def Let_def safePayload_Inr split: option.splits if_splits
    intro!: payloads_outbox_new dest!: payloads_event)

lemma deadLetterJob_payloads:
  "deadLetterJob env k t i db = Inr (x, db') \<Longrightarrow> payloads_ok db \<Longrightarrow> payloads_ok db'"
  by (auto simp: deadLetterJob_def Let_def dead_letter_job_def dest!: recordLockedException_payloads
    payloads_settle(1))

lemma settle_payloads:
  "completeJob k t r now db = Inr db' \<Longrightarrow> payloads_ok db' = payloads_ok db"
  "rescheduleJob k t d e now db = Inr db' \<Longrightarrow> payloads_ok db' = payloads_ok db"
  "completeOutbox k t now db = Inr db' \<Longrightarrow> payloads_ok db' = payloads_ok db"
  "rescheduleOutbox k t d e now db = Inr db' \<Longrightarrow> payloads_ok db' = payloads_ok db"
  "deadLetterOutbox k t e now db = Inr db' \<Longrightarrow> payloads_ok db' = payloads_ok db"
  by (auto simp: completeJob_def rescheduleJob_def completeOutbox_def rescheduleOutbox_def
    deadLetterOutbox_def completed_job_def rescheduled_job_def delivered_outbox_def
    rescheduled_outbox_def dead_letter_outbox_def Let_def dest!: payloads_settle)

lemma notify_payloads:
  "enqueueNotificationOutbox env n src db = Inr db' \<Longrightarrow> payloads_ok db \<Longrightarrow> payloads_ok db'"
  by (auto simp: enqueueNotificationOutbox_def safePayload_Inr split: option.splits intro!: payloads_outbox_new)

lemma retried_payloads:
  "payloads_ok (db\<lparr>jdb_jobs := update_where P (retried_job now) (jdb_jobs db)\<rparr>) = payloads_ok db"
  by (rule jobs_payload_update) (simp add: retried_job_def)

lemma admin_payloads:
  "pauseJourney env j v r db = Inr db' \<Longrightarrow> payloads_ok db \<Longrightarrow> payloads_ok db'"
  "resumeJourney env h f j v r db = Inr db' \<Longrightarrow> payloads_ok db \<Longrightarrow> payloads_ok db'"
  "retryJourney env u j v r db = Inr db' \<Longrightarrow> payloads_ok db \<Longrightarrow> payloads_ok db'"
  "cancelJourney env c j v r db = Inr db' \<Longrightarrow> payloads_ok db \<Longrightarrow> payloads_ok db'"
  "attachOrder j o' db = Inr db' \<Longrightarrow> payloads_ok db \<Longrightarrow> payloads_ok db'"
proof -
  have types: "JOURNEY_PAUSED \<in> admin_types" "JOURNEY_RESUMED \<in> admin_types"
    "JOURNEY_CANCELLED \<in> admin_types" "EXCEPTION_RESOLVED \<in> admin_types"
    by (auto simp: admin_types_def)
  have resumed: "enqueue_resumed env f x db1 = Inr db2 \<Longrightarrow> payloads_ok db1 \<Longrightarrow> payloads_ok db2" for x db1 db2
    by (auto simp: enqueue_resumed_def split: option.splits dest!: payloads_enqueue)
  show "pauseJourney env j v r db = Inr db' \<Longrightarrow> payloads_ok db \<Longrightarrow> payloads_ok db'"
    by (auto simp: pauseJourney_def types dest!: payloads_update payloads_admin)
  show "resumeJourney env h f j v r db = Inr db' \<Longrightarrow> payloads_ok db \<Longrightarrow> payloads_ok db'"
    by (auto simp: resumeJourney_def types split: option.splits if_splits
      dest!: payloads_update payloads_admin resumed)
  show "retryJourney env u j v r db = Inr db' \<Longrightarrow> payloads_ok db \<Longrightarrow> payloads_ok db'"
    by (cases "latest_open_exception j db"; cases "ex_jobId (the (latest_open_exception j db))")
      (auto simp: retryJourney_def types Let_def retried_payloads dest!: payloads_update payloads_admin)
  show "cancelJourney env c j v r db = Inr db' \<Longrightarrow> payloads_ok db \<Longrightarrow> payloads_ok db'"
    by (auto simp: cancelJourney_def types Let_def dest!: payloads_update payloads_admin)
  show "attachOrder j o' db = Inr db' \<Longrightarrow> payloads_ok db \<Longrightarrow> payloads_ok db'"
    by (auto simp: attachOrder_def Let_def)
qed

lemma transaction_payloads:
  assumes "journey_transaction c db = Inr db'" and "payloads_ok db"
  shows "payloads_ok db'"
proof -
  obtain env op where c: "c = (env, op)" by (cases c)
  have ap: "apply_journey env op db = Inr db'" using assms(1) c by (auto simp: journey_transaction_def)
  show ?thesis
    using ap assms(2)
    by (cases op) (auto simp: payloads_claim settle_payloads
      dest: createOrGet_payloads completeStep_payloads completeActivation_payloads
        waitForCustomer_payloads waitForManual_payloads pauseForOperationalRestriction_payloads
        rejectForApplication_payloads openManualTask_payloads decideManualTask_payloads
        returnToFinalPlanDecision_payloads returnToCustomerConfirmation_payloads
        returnToHandoverEvidence_payloads recordLockedException_payloads recordSignal_payloads
        payloads_enqueue deadLetterJob_payloads notify_payloads admin_payloads
      simp: recordException_def)
qed

interpretation safe_payloads: guarded_ops journey_transaction payloads_ok
  by unfold_locales (rule transaction_payloads)

lemma payloads_ok_empty: "payloads_ok no_journeys"
  by (simp add: payloads_ok_def no_journeys_def)

lemma journey_run_payloads: "payloads_ok db \<Longrightarrow> payloads_ok (journey_run cs db)"
  unfolding journey_run_commit using safe_payloads.run_inv by (simp add: journeys.run_def safe_payloads.run_def
    journeys.commit_def [abs_def] safe_payloads.commit_def [abs_def])

text \<open>
  C21 No event, outbox row or job of any run holds a forbidden key (a password, token, card or
  identity number, raw provider data) or a text that looks like a credential or personal payment
  data, except in the four event types that carry an administrator's free-text reason.
\<close>
theorem stored_payloads_safe:
  assumes "e \<in> set (jdb_events (journey_run cs no_journeys))"
    and "ev_eventType e \<notin> {JOURNEY_PAUSED, JOURNEY_RESUMED, JOURNEY_CANCELLED, EXCEPTION_RESOLVED}"
  shows "(\<forall>k \<in> set (keys_of (ev_payload e)). normalized_key k \<notin> set FORBIDDEN_KEYS)
    \<and> (\<forall>s \<in> set (texts_of (ev_payload e)). \<not> unsafeText s)
    \<and> (\<forall>r \<in> set (jdb_outbox (journey_run cs no_journeys)). ob_eventType r = ev_eventType e
          \<longrightarrow> assertSafePayload (ob_payload r) = Inr ())
    \<and> (\<forall>j \<in> set (jdb_jobs (journey_run cs no_journeys)). assertSafePayload (or_null (jj_payload j)) = Inr ())"
  using journey_run_payloads [OF payloads_ok_empty, of cs] assms
  by (auto simp: payloads_ok_def assertSafePayload_iff admin_types_def or_null_def split: option.splits)
    (auto simp: forbidden_free_def)

theorem stored_payloads_safe_witness:
  "\<exists>e \<in> set (jdb_events (journey_run demo_steps no_journeys)). ev_eventType e = JOURNEY_STARTED
     \<and> (\<forall>s \<in> set (texts_of (ev_payload e)). \<not> unsafeText s)"
proof -
  have "JOURNEY_STARTED \<in> set (map ev_eventType (jdb_events demo_db))" unfolding demo_events by simp
  then obtain e where "e \<in> set (jdb_events demo_db)" "ev_eventType e = JOURNEY_STARTED" by auto
  moreover from this have "\<forall>s \<in> set (texts_of (ev_payload e)). \<not> unsafeText s"
    using stored_payloads_safe [of e demo_steps] by (simp only: demo_db_def) simp
  ultimately show ?thesis unfolding demo_db_def by (intro bexI [of _ e] conjI)
qed

text \<open>
  The reason of an administrator is not checked: whatever text it is, a pause that succeeds stores
  it in an event payload that the safety check of the repository refuses.
\<close>
theorem admin_reason_unchecked:
  assumes "pauseJourney env k v reason db = Inr db'" and "unsafeText reason"
  shows "\<exists>e \<in> set (jdb_events db'). ev_journeyId e = k \<and> ev_sequence e = v + 1
    \<and> assertSafePayload (ev_payload e) \<noteq> Inr ()"
proof -
  obtain j db1 where j: "jn_id j = k" "jn_version j = v"
    and w: "writeAdminEvent env 0 j JOURNEY_PAUSED ''PAUSE'' reason db1 = Inr db'"
    using assms(1) by (auto simp: pauseJourney_def dest: locked_admin)
  let ?p = "Obj [(ascii ''operation'', Str (ascii ''PAUSE'')), (ascii ''reason'', Str reason),
    (ascii ''stepCode'', Str (step_name (jn_currentStepCode j)))]"
  have "\<exists>key. jdb_events db' = jdb_events db1 @ [\<lparr> ev_journeyId = jn_id j,
      ev_sequence = jn_version j + 1, ev_eventKey = key, ev_eventType = JOURNEY_PAUSED, ev_payload = ?p \<rparr>]"
    using w by (auto simp: writeAdminEvent_def Let_def writeOutbox_def create_event_def split: option.splits)
  then obtain key where events: "jdb_events db' = jdb_events db1 @ [\<lparr> ev_journeyId = jn_id j,
      ev_sequence = jn_version j + 1, ev_eventKey = key, ev_eventType = JOURNEY_PAUSED, ev_payload = ?p \<rparr>]"
    by blast
  define e where "e = last (jdb_events db')"
  have "e \<in> set (jdb_events db')" "ev_journeyId e = k" "ev_sequence e = v + 1" "ev_payload e = ?p"
    using j by (simp_all add: e_def events)
  moreover have "reason \<in> set (texts_of ?p)" by simp
  then have "\<not> forbidden_free ?p" using assms(2) unfolding forbidden_free_def by blast
  then have "assertSafePayload ?p \<noteq> Inr ()" by (simp only: assertSafePayload_iff) simp
  ultimately show ?thesis by (intro bexI [of _ e]) simp_all
qed

theorem admin_reason_unchecked_witness:
  "\<exists>db'. pauseJourney (demo_env 5) (ascii ''j'') 0 (ascii ''password: x'')
       (no_journeys\<lparr>jdb_journeys := [new_journey (ascii ''j'') (ascii ''a'')]\<rparr>) = Inr db'
     \<and> (\<exists>e \<in> set (jdb_events db'). assertSafePayload (ev_payload e) \<noteq> Inr ())"
proof -
  have unsafe: "unsafeText (ascii ''password: x'')" by code_simp
  have "is_ok (pauseJourney (demo_env 5) (ascii ''j'') 0 (ascii ''password: x'')
       (no_journeys\<lparr>jdb_journeys := [new_journey (ascii ''j'') (ascii ''a'')]\<rparr>))" by code_simp
  then obtain db' where p: "pauseJourney (demo_env 5) (ascii ''j'') 0 (ascii ''password: x'')
       (no_journeys\<lparr>jdb_journeys := [new_journey (ascii ''j'') (ascii ''a'')]\<rparr>) = Inr db'"
    unfolding is_ok_iff by blast
  show ?thesis using admin_reason_unchecked [OF p unsafe] p by blast
qed

section \<open>A decision is only asked for once\<close>

lemma log_steps_events: "log_step\<^sup>*\<^sup>* db db' \<Longrightarrow> set (jdb_events db) \<subseteq> set (jdb_events db')"
proof (induction rule: rtranclp_induct)
  case (step db1 db2)
  from step.hyps(2) have "set (jdb_events db1) \<subseteq> set (jdb_events db2)" by (cases rule: log_step.cases) auto
  then show ?case using step.IH by blast
qed simp

lemma open_new_task_key:
  assumes "open_new_task env p lk ty db = Inr (t, db')"
  shows "\<exists>e \<in> set (jdb_events db'). ev_eventKey e = waiting_manual_key (lk_journeyId lk) (lk_stepCode lk)"
    and "\<not> (\<exists>e \<in> set (jdb_events db). ev_eventKey e = waiting_manual_key (lk_journeyId lk) (lk_stepCode lk))"
  using assms
  by (auto simp: open_new_task_def writeEventAndOutbox_def create_event_def writeOutbox_def Let_def
      list_ex_iff create_task_def updateJourneyVersion_def split: option.splits)

definition no_open_task :: "jid \<Rightarrow> journey_step_code \<Rightarrow> journey_db \<Rightarrow> bool" where
  "no_open_task j c db = (\<forall>u \<in> set (jdb_tasks db). \<not> (mt_journeyId u = j \<and> mt_status u = TaskOPEN
     \<and> manualTaskTypeFor c = Some (mt_taskType u)))"

lemma openManualTask_new:
  assumes "openManualTask env p j s db = Inr (t, db')"
    and "no_open_task j c db"
    and "lockJourneyStep j s db = Inr lk" and "lk_stepCode lk = c"
  obtains ty where "open_new_task env p lk ty db = Inr (t, db')" "lk_journeyId lk = j"
proof -
  have id: "lk_journeyId lk = j"
    using assms(3) by (auto simp: lockJourneyStep_def split: option.splits dest: find_row_Some)
  obtain ty where ty: "manualTaskTypeFor c = Some ty"
    using assms by (auto simp: openManualTask_def split: option.splits)
  have "List.find (\<lambda>t. mt_journeyId t = j \<and> mt_status t = TaskOPEN \<and> mt_taskType t = ty) (jdb_tasks db) = None"
    using assms(2) ty by (auto simp: find_None_iff no_open_task_def)
  then have "unique_as_already_open (open_new_task env p lk ty db) = Inr (t, db')"
    using assms ty by (auto simp: openManualTask_def)
  then have "open_new_task env p lk ty db = Inr (t, db')"
    by (cases "open_new_task env p lk ty db") (auto split: if_splits)
  then show ?thesis using id that by blast
qed


definition decision_db :: journey_db where
  "decision_db = no_journeys\<lparr>
     jdb_journeys := [(new_journey (ascii ''j'') (ascii ''a''))\<lparr>jn_currentStepCode := FINAL_PLAN_DECISION\<rparr>],
     jdb_steps := [new_step (ascii ''s'') (ascii ''j'') FINAL_PLAN_DECISION],
     jdb_events := [\<lparr> ev_journeyId = ascii ''j'', ev_sequence = 0, ev_eventKey = ascii ''start'',
       ev_eventType = JOURNEY_STARTED, ev_payload = Null \<rparr>]\<rparr>"

definition decision_env :: journey_env where
  "decision_env = \<lparr> env_now = 1, env_newId = (\<lambda>_. ascii ''t'') \<rparr>"

definition decision_cs :: "(journey_env \<times> journey_op) list" where
  "decision_cs = [(decision_env, DecideTask \<lparr> di_decidedBy = ascii ''u'', di_decision = REJECTED,
     di_decisionNotes = None, di_expectedVersion = 0, di_journeyId = ascii ''j'',
     di_taskId = ascii ''t'' \<rparr>)]"

definition decision_payload :: js_value where
  "decision_payload = Obj [(ascii ''operation'', Str (ascii ''OPEN_MANUAL_TASK'')),
     (ascii ''stepId'', Str (ascii ''s'')), (ascii ''taskId'', Str (ascii ''t''))]"

lemma decision_payload_safe: "assertSafePayload decision_payload = Inr ()"
  by code_simp

lemma decision_opened:
  obtains t db1 where "openManualTask decision_env Null (ascii ''j'') (ascii ''s'') decision_db = Inr (t, db1)"
    "jdb_tasks db1 = [new_task (ascii ''t'') (ascii ''j'') (ascii ''s'') TaskFINAL_PLAN_DECISION Null]"
    "jn_id ` set (jdb_journeys db1) = {ascii ''j''}"
    "is_ok (lockJourneyStep (ascii ''j'') (ascii ''s'') db1)"
    "\<forall>lk. lockJourneyStep (ascii ''j'') (ascii ''s'') db1 = Inr lk \<longrightarrow> lk_stepCode lk = FINAL_PLAN_DECISION"
proof -
  have safe: "safePayload (Obj [(ascii ''operation'', Str (ascii ''OPEN_MANUAL_TASK'')),
     (ascii ''stepId'', Str (ascii ''s'')), (ascii ''taskId'', Str (ascii ''t''))]) = Inr decision_payload"
    using decision_payload_safe by (simp add: safePayload_def decision_payload_def)
  have safe': "safePayload decision_payload = Inr decision_payload"
    using decision_payload_safe by (simp add: safePayload_def)
  have key: "waiting_manual_key (ascii ''j'') FINAL_PLAN_DECISION \<noteq> ascii ''start''"
    by code_simp
  note defs = openManualTask_def open_new_task_def decision_db_def decision_env_def no_journeys_def
    new_journey_def new_step_def new_task_def lockJourneyStep_def validateCurrentStep_def find_row_def
    create_task_def updateJourneyVersion_def count_where_def update_where_def update_step_def Let_def
    writeEventAndOutbox_def create_event_def writeOutbox_def safe safe' key key [symmetric]
  have "is_ok (openManualTask decision_env Null (ascii ''j'') (ascii ''s'') decision_db)" by (simp add: defs)
  then obtain t db1 where o: "openManualTask decision_env Null (ascii ''j'') (ascii ''s'') decision_db = Inr (t, db1)"
    by (auto simp: is_ok_iff)
  then show ?thesis by (intro that) (auto simp: defs)
qed


end
