(* ===== verification/ContractSegments.thy ===== *)
theory ContractSegments
  imports Calendars CanonicalJson
begin

text \<open>
  The contract segments of a subscription order: \<open>contract-segment.service.ts\<close>
  and the table \<open>subscription_contract_segment\<close> with its unique indexes and its
  check constraint.  A database is a record of tables; a table is the list of its
  rows, and a write that breaks a constraint of the table is the error
  \<open>UniqueConstraint\<close> (or \<open>CheckConstraint\<close>), after which the transaction is
  rolled back.  The columns of type date are the time values of their UTC
  midnights.  The generated business numbers (\<open>segmentNo\<close>) are left out, and
  with them the retry on a collision of two of them.  The commercial columns,
  which a quote and a segment share, are one record.
\<close>

section \<open>Rows\<close>

datatype segment_type = SegBASE | SegEXTENSION | SegVEHICLE_SWAP
datatype segment_status = SegSCHEDULED | SegACTIVE | SegCOMPLETED | SegCANCELLED

datatype contract_status = CtDRAFT | CtGENERATED | CtSIGNING | CtSIGNED | CtARCHIVED | CtCOMPLETED
  | CtTERMINATED | CtCANCELLED

datatype order_status = OrdPENDING_REVIEW | OrdPENDING_CUSTOMER_CONFIRMATION | OrdPENDING_CONTRACT
  | OrdPENDING_SIGN | OrdPENDING_PAYMENT | OrdPENDING_VEHICLE | OrdPENDING_DELIVERY | OrdACTIVE
  | OrdSUSPENDED | OrdPENDING_RETURN | OrdRETURNED_PENDING_SETTLEMENT | OrdTERMINATED
  | OrdCOMPLETED | OrdCANCELLED | OrdREJECTED

datatype business_type = SUBSCRIPTION | RENT_TO_OWN

record commercial_terms =
  tm_productId :: "id option"
  tm_productVersionId :: "id option"
  tm_subscriptionPlanId :: "id option"
  tm_monthlyFeeAmount :: amount
  tm_mileageLimitKm :: int
  tm_overMileageFeeAmount :: amount
  tm_energyLimitKwh :: "int option"
  tm_energyLimitCount :: "int option"
  tm_planSnapshot :: canonical
  tm_quoteSnapshot :: canonical

record contract_segment =
  sg_id :: id
  sg_orderId :: id
  sg_segmentType :: segment_type
  sg_sequenceNo :: int
  sg_status :: segment_status
  sg_startDate :: time
  sg_endDate :: time
  sg_sourceContractId :: "id option"
  sg_sourceChangeOrderId :: "id option"
  sg_terms :: commercial_terms
  sg_contractSnapshot :: canonical
  sg_activatedAt :: "time option"
  sg_completedAt :: "time option"
  sg_createdBy :: "id option"

record contract =
  ct_id :: id
  ct_status :: contract_status
  ct_fileId :: "id option"
  ct_contractSnapshot :: canonical
  ct_signedAt :: "time option"
  ct_archivedAt :: "time option"

record sub_order =
  so_id :: id
  so_businessType :: business_type
  so_orderStatus :: order_status
  so_deletedAt :: "time option"
  so_customerId :: id
  so_vehicleId :: "id option"
  so_contractId :: "id option"
  so_startDate :: "time option"
  so_endDate :: "time option"
  so_periodMonths :: int
  so_terms :: commercial_terms

record segment_db =
  db_segments :: "contract_segment list"
  db_orders :: "sub_order list"
  db_contracts :: "contract list"

text \<open>
  What the code throws: a \<open>ContractSegmentError\<close> with its code and the segment
  and change order of its context, a \<open>SubscriptionChangeError\<close> with its code, a
  \<open>ConflictException\<close> of the portal, or what the database reports.
\<close>

datatype sub_error =
    ContractSegmentError string "id option" "id option"
  | SubscriptionChangeError string
  | ConflictException string
  | UniqueConstraint
  | CheckConstraint
  | RecordNotFound
  | InvalidValue

abbreviation segmentError :: "string \<Rightarrow> sub_error" where
  "segmentError code \<equiv> ContractSegmentError code None None"

section \<open>The table\<close>

text \<open>
  The indexes: the primary key, one segment per order and sequence number, one per
  change order, one base segment and one active segment per order; and the
  check that a segment does not end before it starts.
\<close>

definition segment_keys_unique :: "contract_segment list \<Rightarrow> bool" where
  "segment_keys_unique rows =
     (distinct (map sg_id rows)
      \<and> distinct (map (\<lambda>s. (sg_orderId s, sg_sequenceNo s)) rows)
      \<and> distinct (List.map_filter sg_sourceChangeOrderId rows)
      \<and> distinct (map sg_orderId (filter (\<lambda>s. sg_segmentType s = SegBASE) rows))
      \<and> distinct (map sg_orderId (filter (\<lambda>s. sg_status s = SegACTIVE) rows)))"

definition segment_dates_valid :: "contract_segment list \<Rightarrow> bool" where
  "segment_dates_valid rows = list_all (\<lambda>s. sg_startDate s \<le> sg_endDate s) rows"

definition write_segments :: "contract_segment list \<Rightarrow> 'a segment_db_scheme
    \<Rightarrow> (sub_error, 'a segment_db_scheme) result" where
  "write_segments rows db =
     (if \<not> segment_keys_unique rows then Inl UniqueConstraint
      else if \<not> segment_dates_valid rows then Inl CheckConstraint
      else Inr (db\<lparr>db_segments := rows\<rparr>))"

text \<open>\<open>findFirst\<close> with an order: the first row of the sorted selection.\<close>

definition first_row :: "'a list \<Rightarrow> 'a option" where
  "first_row xs = (case xs of [] \<Rightarrow> None | x # _ \<Rightarrow> Some x)"

definition latest_by :: "('a \<Rightarrow> int) \<Rightarrow> ('a \<Rightarrow> bool) \<Rightarrow> 'a list \<Rightarrow> 'a option" where
  "latest_by key P rows = first_row (sort_key (\<lambda>r. - key r) (filter P rows))"

definition earliest_by :: "('a \<Rightarrow> int) \<Rightarrow> ('a \<Rightarrow> bool) \<Rightarrow> 'a list \<Rightarrow> 'a option" where
  "earliest_by key P rows = first_row (sort_key key (filter P rows))"

definition findSegment :: "id \<Rightarrow> 'a segment_db_scheme \<Rightarrow> contract_segment option" where
  "findSegment segmentId db = find_row sg_id segmentId (db_segments db)"

definition findOrder :: "id \<Rightarrow> 'a segment_db_scheme \<Rightarrow> sub_order option" where
  "findOrder orderId db = find_row so_id orderId (db_orders db)"

definition findContract :: "id option \<Rightarrow> 'a segment_db_scheme \<Rightarrow> contract option" where
  "findContract contractId db = (case contractId of None \<Rightarrow> None
     | Some c \<Rightarrow> find_row ct_id c (db_contracts db))"

section \<open>Helpers\<close>

fun isJsonObject :: "canonical \<Rightarrow> bool" where
  "isJsonObject (CObj es) = True"
| "isJsonObject v = False"

definition stableJson :: "canonical \<Rightarrow> ustring" where
  "stableJson v = encode sort v"

definition sameJson :: "canonical \<Rightarrow> canonical \<Rightarrow> bool" where
  "sameJson left right = (stableJson left = stableJson right)"

definition sameDate :: "time option \<Rightarrow> time option \<Rightarrow> bool" where
  "sameDate left right = (left \<noteq> None \<and> right \<noteq> None \<and> left = right)"

definition assertDate :: "js_date \<Rightarrow> (sub_error, time) result" where
  "assertDate v = (case v of None \<Rightarrow> Inl (segmentError ''CONTRACT_SEGMENT_INVALID_DATE_RANGE'')
     | Some t \<Rightarrow> Inr t)"

definition shiftUtcDays :: "time \<Rightarrow> int \<Rightarrow> js_date" where
  "shiftUtcDays t days = time_clip (t + days * 86400000)"

section \<open>The base segment\<close>

definition baseSourceComplete :: "sub_order \<Rightarrow> contract option \<Rightarrow> bool" where
  "baseSourceComplete order contract =
     (so_startDate order \<noteq> None \<and> so_endDate order \<noteq> None
      \<and> isJsonObject (tm_planSnapshot (so_terms order))
      \<and> isJsonObject (tm_quoteSnapshot (so_terms order))
      \<and> (case contract of None \<Rightarrow> False
         | Some c \<Rightarrow> ct_status c = CtARCHIVED \<and> isJsonObject (ct_contractSnapshot c)))"

definition assertBaseSourceComplete :: "sub_order \<Rightarrow> contract option \<Rightarrow> (sub_error, unit) result" where
  "assertBaseSourceComplete order contract = ensure (baseSourceComplete order contract)
     (segmentError ''BASE_SEGMENT_SOURCE_INCOMPLETE'')"

definition baseMatchesAuthority :: "contract_segment \<Rightarrow> sub_order \<Rightarrow> contract \<Rightarrow> bool" where
  "baseMatchesAuthority segment order contract =
     (let t = sg_terms segment; q = so_terms order in
      sg_orderId segment = so_id order \<and> sg_segmentType segment = SegBASE
      \<and> sg_sequenceNo segment = 1 \<and> sg_status segment = SegACTIVE
      \<and> sg_sourceContractId segment = Some (ct_id contract)
      \<and> tm_subscriptionPlanId t = None
      \<and> sameDate (Some (sg_startDate segment)) (so_startDate order)
      \<and> sameDate (Some (sg_endDate segment)) (so_endDate order)
      \<and> sameDate (sg_activatedAt segment) (so_startDate order)
      \<and> tm_productId t = tm_productId q \<and> tm_productVersionId t = tm_productVersionId q
      \<and> tm_monthlyFeeAmount t = tm_monthlyFeeAmount q
      \<and> tm_mileageLimitKm t = tm_mileageLimitKm q
      \<and> tm_overMileageFeeAmount t = tm_overMileageFeeAmount q
      \<and> tm_energyLimitKwh t = tm_energyLimitKwh q
      \<and> tm_energyLimitCount t = tm_energyLimitCount q
      \<and> sameJson (tm_planSnapshot t) (tm_planSnapshot q)
      \<and> sameJson (tm_quoteSnapshot t) (tm_quoteSnapshot q)
      \<and> sameJson (sg_contractSnapshot segment) (ct_contractSnapshot contract))"

definition assertBaseMatchesAuthority ::
    "contract_segment \<Rightarrow> sub_order \<Rightarrow> contract \<Rightarrow> (sub_error, unit) result" where
  "assertBaseMatchesAuthority segment order contract = ensure (baseMatchesAuthority segment order contract)
     (segmentError ''CONTRACT_SEGMENT_SOURCE_CONFLICT'')"

definition base_segment :: "id \<Rightarrow> id option \<Rightarrow> time \<Rightarrow> time \<Rightarrow> sub_order \<Rightarrow> contract \<Rightarrow> contract_segment" where
  "base_segment newId actorId startDate endDate order contract =
     \<lparr> sg_id = newId, sg_orderId = so_id order, sg_segmentType = SegBASE, sg_sequenceNo = 1,
       sg_status = SegACTIVE, sg_startDate = startDate, sg_endDate = endDate,
       sg_sourceContractId = Some (ct_id contract), sg_sourceChangeOrderId = None,
       sg_terms = (so_terms order)\<lparr>tm_subscriptionPlanId := None\<rparr>,
       sg_contractSnapshot = ct_contractSnapshot contract,
       sg_activatedAt = so_startDate order, sg_completedAt = None, sg_createdBy = actorId \<rparr>"

definition ensureBaseSegmentInTransaction ::
    "id \<Rightarrow> id \<Rightarrow> id option \<Rightarrow> 'a segment_db_scheme
      \<Rightarrow> (sub_error, contract_segment \<times> 'a segment_db_scheme) result" where
  "ensureBaseSegmentInTransaction newId orderId actorId db =
     (case findOrder orderId db of
        None \<Rightarrow> Inl (segmentError ''ORDER_NOT_FOUND'')
      | Some order \<Rightarrow>
        let contract = findContract (so_contractId order) db in
        rbind (assertBaseSourceComplete order contract) (\<lambda>_.
        case List.find (\<lambda>s. sg_orderId s = orderId \<and> sg_segmentType s = SegBASE) (db_segments db) of
          Some existing \<Rightarrow>
            rbind (assertBaseMatchesAuthority existing order (the contract)) (\<lambda>_. Inr (existing, db))
        | None \<Rightarrow>
            let segment = base_segment newId actorId (the (so_startDate order))
                  (the (so_endDate order)) order (the contract) in
            rbind (write_segments (db_segments db @ [segment]) db) (\<lambda>db'. Inr (segment, db'))))"

section \<open>Reading the segments\<close>

definition resolveEffectiveServiceEndDate :: "id \<Rightarrow> 'a segment_db_scheme \<Rightarrow> time option" where
  "resolveEffectiveServiceEndDate orderId db =
     (case first_row (sort_key (\<lambda>s. - sg_endDate s) (sort_key (\<lambda>s. - sg_sequenceNo s)
         (filter (\<lambda>s. sg_orderId s = orderId \<and> sg_status s \<noteq> SegCANCELLED) (db_segments db)))) of
        Some segment \<Rightarrow> Some (sg_endDate segment)
      | None \<Rightarrow> (case findOrder orderId db of None \<Rightarrow> None | Some order \<Rightarrow> so_endDate order))"

record segment_terms =
  st_segmentId :: id
  st_startDate :: time
  st_endDate :: time
  st_mileageLimitKm :: int
  st_monthlyFeeAmount :: amount
  st_overMileageFeeAmount :: amount
  st_planSnapshot :: canonical

definition terms_of_segment :: "contract_segment \<Rightarrow> segment_terms" where
  "terms_of_segment s = \<lparr> st_segmentId = sg_id s, st_startDate = sg_startDate s,
     st_endDate = sg_endDate s, st_mileageLimitKm = tm_mileageLimitKm (sg_terms s),
     st_monthlyFeeAmount = tm_monthlyFeeAmount (sg_terms s),
     st_overMileageFeeAmount = tm_overMileageFeeAmount (sg_terms s),
     st_planSnapshot = tm_planSnapshot (sg_terms s) \<rparr>"

definition resolveSegmentForPeriod ::
    "id \<Rightarrow> js_date \<Rightarrow> js_date option \<Rightarrow> 'a segment_db_scheme \<Rightarrow> (sub_error, segment_terms) result" where
  "resolveSegmentForPeriod orderId periodStart periodEnd db =
     rbind (assertDate periodStart) (\<lambda>start.
     rbind (case periodEnd of None \<Rightarrow> Inr None
        | Some e \<Rightarrow> rbind (assertDate e) (\<lambda>t.
            if t < start then Inl (segmentError ''CONTRACT_SEGMENT_INVALID_DATE_RANGE'')
            else Inr (Some t))) (\<lambda>end_date.
     case latest_by sg_sequenceNo (\<lambda>s. start \<le> sg_endDate s \<and> sg_orderId s = orderId
         \<and> sg_startDate s \<le> start \<and> sg_status s \<noteq> SegCANCELLED) (db_segments db) of
       None \<Rightarrow> Inl (segmentError ''CONTRACT_SEGMENT_NOT_FOUND'')
     | Some segment \<Rightarrow>
       if (case end_date of None \<Rightarrow> False | Some e \<Rightarrow> e > sg_endDate segment)
       then let nextSegment = earliest_by sg_startDate (\<lambda>s. sg_orderId s = orderId
                  \<and> sg_startDate s > sg_endDate segment \<and> sg_startDate s \<le> the end_date
                  \<and> sg_status s \<noteq> SegCANCELLED) (db_segments db) in
            Inl (ContractSegmentError ''BILLING_PERIOD_CROSSES_SEGMENT'' (Some (sg_id segment))
              (case nextSegment of None \<Rightarrow> None | Some n \<Rightarrow> sg_sourceChangeOrderId n))
       else Inr (terms_of_segment segment)))"

definition lastSegment :: "id \<Rightarrow> 'a segment_db_scheme \<Rightarrow> contract_segment option" where
  "lastSegment orderId db = latest_by sg_sequenceNo
     (\<lambda>s. sg_orderId s = orderId \<and> sg_status s \<noteq> SegCANCELLED) (db_segments db)"

definition assertAppendableExtension ::
    "id \<Rightarrow> js_date \<Rightarrow> js_date \<Rightarrow> 'a segment_db_scheme \<Rightarrow> (sub_error, unit) result" where
  "assertAppendableExtension sourceSegmentId startDate endDate db =
     rbind (assertDate startDate) (\<lambda>start.
     rbind (assertDate endDate) (\<lambda>end_date.
     rbind (ensure (start \<le> end_date) (segmentError ''CONTRACT_SEGMENT_INVALID_DATE_RANGE'')) (\<lambda>_.
     case findSegment sourceSegmentId db of
       None \<Rightarrow> Inl (segmentError ''CONTRACT_SEGMENT_NOT_FOUND'')
     | Some source \<Rightarrow>
       rbind (ensure (sg_status source \<noteq> SegCANCELLED) (segmentError ''CONTRACT_SEGMENT_NOT_FOUND'')) (\<lambda>_.
       rbind (ensure (map_option sg_id (lastSegment (sg_orderId source) db) = Some (sg_id source))
         (segmentError ''CONTRACT_SEGMENT_OVERLAP'')) (\<lambda>_.
       rbind (ensure (case shiftUtcDays (sg_endDate source) 1 of None \<Rightarrow> True | Some e \<Rightarrow> \<not> start < e)
         (segmentError ''CONTRACT_SEGMENT_OVERLAP'')) (\<lambda>_.
       rbind (ensure (case shiftUtcDays (sg_endDate source) 1 of None \<Rightarrow> True | Some e \<Rightarrow> \<not> start > e)
         (segmentError ''CONTRACT_SEGMENT_NOT_CONTIGUOUS'')) (\<lambda>_.
       ensure (\<not> list_ex (\<lambda>s. start \<le> sg_endDate s \<and> sg_id s \<noteq> sg_id source
           \<and> sg_orderId s = sg_orderId source \<and> sg_startDate s \<le> end_date
           \<and> sg_status s \<noteq> SegCANCELLED) (db_segments db))
         (segmentError ''CONTRACT_SEGMENT_OVERLAP''))))))))"

end
