(* ===== verification/ChangeDb.thy ===== *)
theory ChangeDb
  imports ContractSegments JobQueue
begin

text \<open>
  The data of the change centre: change orders with their typed details, quotes,
  idempotent commands, renewal considerations and reminders, and the jobs with
  their links, as rows of the tables of the schema, with the unique indexes the
  code relies on; the domain rules of \<open>subscription-change.domain.ts\<close> and the
  projection of \<open>subscription-extension-compat.ts\<close>.  Request hashes and the ids
  of new rows are arguments of the operations.
\<close>

section \<open>Change orders\<close>

datatype change_type = EXTENSION | VEHICLE_SWAP | EARLY_TERMINATION | MANAGED_OTHER

datatype change_status = ChgDRAFT | ChgQUOTED | ChgCUSTOMER_CONFIRMED | ChgSIGNING_OR_PAYMENT
  | ChgSCHEDULED | ChgEXECUTING | ChgCOMPLETED | ChgCANCELLED | ChgFAILED | ChgMANUAL_TAKEOVER

datatype pricing_mode = CURRENT_VERSION | ORIGINAL_PRICE | APPROVED_DISCOUNT

datatype vehicle_status = VehDRAFT | VehIN_PREPARATION | VehAVAILABLE | VehREVIEW_RESERVED
  | VehRESERVED | VehLEASED | VehRENTED | VehRETURNED | VehMAINTENANCE | VehRETIRED

record price_override =
  po_reason :: "ustring option"
  po_approvedBy :: "id option"
  po_approvedAt :: "time option"

record extension_detail =
  xd_extensionMonths :: int
  xd_pricingMode :: pricing_mode
  xd_sourceSegmentId :: id
  xd_targetStartDate :: time
  xd_targetEndDate :: time
  xd_priceOverride :: price_override

record early_termination_detail =
  td_closureCaseId :: "id option"
  td_agreementContractId :: "id option"

text \<open>
  The columns of the order itself from \<open>ch_sourceSegmentId\<close> to \<open>ch_priceOverride\<close>
  are the ones an extension had before its detail was a table of its own.
\<close>

record change_order =
  ch_id :: id
  ch_orderId :: id
  ch_changeType :: change_type
  ch_status :: change_status
  ch_sourceSegmentId :: "id option"
  ch_extensionMonths :: "int option"
  ch_pricingMode :: "pricing_mode option"
  ch_targetStartDate :: "time option"
  ch_targetEndDate :: "time option"
  ch_priceOverride :: price_override
  ch_renewalConsiderationId :: "id option"
  ch_currentQuoteId :: "id option"
  ch_confirmedQuoteId :: "id option"
  ch_contractId :: "id option"
  ch_completionDeadlineAt :: time
  ch_publishedAt :: "time option"
  ch_publishedBy :: "id option"
  ch_cancelReason :: "ustring option"
  ch_failureCode :: "string option"
  ch_manualTakeoverReason :: "ustring option"
  ch_manualTakeoverAt :: "time option"
  ch_version :: int
  ch_extensionDetail :: "extension_detail option"
  ch_swapTargetVehicleId :: "id option"
  ch_earlyTerminationDetail :: "early_termination_detail option"
  ch_supplementContractId :: "id option"
  ch_createdAt :: time

definition FINAL_STATUSES :: "change_status list" where
  "FINAL_STATUSES = [ChgCOMPLETED, ChgCANCELLED, ChgFAILED]"

definition CANCELLABLE_STATUSES :: "change_status list" where
  "CANCELLABLE_STATUSES = [ChgDRAFT, ChgQUOTED, ChgCUSTOMER_CONFIRMED, ChgSIGNING_OR_PAYMENT,
     ChgMANUAL_TAKEOVER]"

definition ACTIVE_CHANGE_STATUSES :: "change_status list" where
  "ACTIVE_CHANGE_STATUSES = [ChgDRAFT, ChgQUOTED, ChgCUSTOMER_CONFIRMED, ChgSIGNING_OR_PAYMENT,
     ChgSCHEDULED, ChgEXECUTING, ChgMANUAL_TAKEOVER]"

section \<open>What an actor may do\<close>

datatype change_action = CREATE_QUOTE | APPROVE | PUBLISH_CUSTOMER_CONFIRMATION | GENERATE_CONTRACT
  | START_ESIGN | EXECUTE | RETRY | CANCEL | MANUAL_TAKEOVER

datatype permission = CHANGE_VIEW | CHANGE_CREATE | CHANGE_QUOTE | CHANGE_APPROVE
  | CHANGE_PRICE_OVERRIDE_APPROVE | CHANGE_SUBMIT | CHANGE_ESIGN_RETRY | CHANGE_EXECUTE
  | CHANGE_MANUAL_TAKEOVER | CHANGE_CANCEL | CONTRACT_GENERATE | NOTIFICATION_MANAGE

record actor =
  ac_id :: id
  ac_isAdmin :: bool
  ac_permissions :: "permission list"

definition push_if :: "bool \<Rightarrow> 'a \<Rightarrow> 'a list \<Rightarrow> 'a list" where
  "push_if c x xs = (if c then xs @ [x] else xs)"

definition subscriptionChangeAllowedActions :: "change_type \<Rightarrow> change_status \<Rightarrow> actor \<Rightarrow> change_action list" where
  "subscriptionChangeAllowedActions changeType status actor =
     (if status \<in> set FINAL_STATUSES then []
      else
        let has = (\<lambda>p. p \<in> set (ac_permissions actor));
            a1 = push_if ((status = ChgDRAFT \<or> status = ChgQUOTED) \<and> changeType \<noteq> MANAGED_OTHER
                   \<and> has CHANGE_QUOTE) CREATE_QUOTE [];
            a2 = push_if ((changeType = MANAGED_OTHER \<and> status = ChgDRAFT \<and> has CHANGE_APPROVE)
                   \<or> (changeType \<noteq> MANAGED_OTHER \<and> status = ChgQUOTED
                      \<and> has CHANGE_PRICE_OVERRIDE_APPROVE)) APPROVE a1;
            a3 = push_if (status = ChgQUOTED \<and> has CHANGE_SUBMIT) PUBLISH_CUSTOMER_CONFIRMATION a2;
            a4 = push_if (status = ChgCUSTOMER_CONFIRMED \<and> has CONTRACT_GENERATE) GENERATE_CONTRACT a3;
            a5 = push_if (status = ChgSIGNING_OR_PAYMENT \<and> has CHANGE_ESIGN_RETRY) START_ESIGN a4;
            a6 = push_if (changeType = MANAGED_OTHER \<and> (status = ChgSCHEDULED \<or> status = ChgEXECUTING)
                   \<and> has CHANGE_EXECUTE) EXECUTE a5;
            a7 = push_if (status = ChgMANUAL_TAKEOVER \<and> (changeType = EXTENSION \<or> changeType = VEHICLE_SWAP)
                   \<and> has CHANGE_EXECUTE) RETRY a6;
            a8 = push_if ((status \<in> set CANCELLABLE_STATUSES
                    \<or> ((changeType = EARLY_TERMINATION \<or> changeType = MANAGED_OTHER)
                       \<and> status = ChgSCHEDULED)) \<and> has CHANGE_CANCEL) CANCEL a7
        in push_if (status \<noteq> ChgMANUAL_TAKEOVER \<and> has CHANGE_MANUAL_TAKEOVER) MANUAL_TAKEOVER a8)"

section \<open>The other rows\<close>

datatype quote_status = QuDRAFT | QuFORMAL | QuSUPERSEDED | QuCUSTOMER_CONFIRMED
  | QuCUSTOMER_REJECTED | QuEXPIRED

record change_quote =
  cq_id :: id
  cq_changeOrderId :: id
  cq_revision :: int
  cq_status :: quote_status
  cq_pricingMode :: pricing_mode
  cq_terms :: commercial_terms
  cq_priceRuleSnapshot :: canonical
  cq_validUntil :: time
  cq_formalizedAt :: "time option"
  cq_confirmedAt :: "time option"
  cq_rejectedAt :: "time option"
  cq_createdBy :: "id option"

datatype resource_type = ResCHANGE | ResQUOTE | ResCONTRACT | ResCONTRACT_RENDERING
  | ResRENEWAL_CONSIDERATION | ResESIGN_CONTRACT | ResESIGN_TASK

record change_command =
  cc_id :: id
  cc_actorId :: id
  cc_operation :: string
  cc_idempotencyKey :: ustring
  cc_requestHash :: string
  cc_resource :: "(resource_type \<times> id) option"
  cc_updatedAt :: time
  cc_completedAt :: "time option"

datatype consideration_status = PENDING_DECISION | RENEWAL_REQUESTED | EXPIRY_CONFIRMED
  | EXTENSION_IN_PROGRESS | EXTENDED | EXPIRED | ConsCANCELLED

datatype renewal_decision = RENEW | EXPIRE

record renewal_consideration =
  rc_id :: id
  rc_orderId :: id
  rc_segmentId :: id
  rc_status :: consideration_status
  rc_decision :: "renewal_decision option"
  rc_decidedAt :: "time option"
  rc_changeOrderId :: "id option"
  rc_completionDeadlineAt :: time
  rc_considerationStartAt :: time
  rc_version :: int

datatype reminder_slot = SlotD30 | SlotD14 | SlotD3

datatype reminder_status = RemPENDING | RemSENT | RemFAILED | RemSKIPPED_DECIDED
  | RemSKIPPED_EXTENDED | RemSKIPPED_LATE_ENROLLMENT | RemCANCELLED

record renewal_reminder =
  rr_id :: id
  rr_considerationId :: id
  rr_slot :: reminder_slot
  rr_status :: reminder_status
  rr_scheduledAt :: time
  rr_cancelledAt :: "time option"

text \<open>Of a vehicle, what these operations read.\<close>

record vehicle_row =
  vh_id :: id
  vh_status :: vehicle_status
  vh_salePriceAmount :: "amount option"
  vh_modelDefinitionId :: id

text \<open>A job with the links and the payload the change centre gives it.\<close>

record change_job =
  cj_job :: automation_job
  cj_changeOrderId :: "id option"
  cj_contractSegmentId :: "id option"
  cj_renewalConsiderationId :: "id option"
  cj_payload :: "(string \<times> string) list"

record change_db = segment_db +
  db_changes :: "change_order list"
  db_quotes :: "change_quote list"
  db_commands :: "change_command list"
  db_considerations :: "renewal_consideration list"
  db_reminders :: "renewal_reminder list"
  db_jobs :: "change_job list"
  db_vehicles :: "vehicle_row list"

section \<open>Tables\<close>

definition change_keys_unique :: "change_order list \<Rightarrow> bool" where
  "change_keys_unique rows =
     (distinct (map ch_id rows)
      \<and> distinct (List.map_filter ch_renewalConsiderationId rows)
      \<and> distinct (List.map_filter ch_currentQuoteId rows)
      \<and> distinct (List.map_filter ch_confirmedQuoteId rows)
      \<and> distinct (List.map_filter ch_contractId rows)
      \<and> distinct (map ch_orderId (filter (\<lambda>c. ch_status c \<in> set ACTIVE_CHANGE_STATUSES) rows)))"

definition write_changes :: "change_order list \<Rightarrow> 'a change_db_scheme \<Rightarrow> (sub_error, 'a change_db_scheme) result" where
  "write_changes rows db =
     (if change_keys_unique rows then Inr (db\<lparr>db_changes := rows\<rparr>) else Inl UniqueConstraint)"

definition findChange :: "id \<Rightarrow> 'a change_db_scheme \<Rightarrow> change_order option" where
  "findChange changeId db = find_row ch_id changeId (db_changes db)"

definition update_change ::
    "id \<Rightarrow> (change_order \<Rightarrow> change_order) \<Rightarrow> 'a change_db_scheme \<Rightarrow> (sub_error, 'a change_db_scheme) result" where
  "update_change changeId f db = write_changes (upd_row ch_id changeId f (db_changes db)) db"

definition findActiveChange :: "id \<Rightarrow> 'a change_db_scheme \<Rightarrow> change_order option" where
  "findActiveChange orderId db =
     List.find (\<lambda>c. ch_orderId c = orderId \<and> ch_status c \<in> set ACTIVE_CHANGE_STATUSES) (db_changes db)"

definition findQuote :: "id option \<Rightarrow> 'a change_db_scheme \<Rightarrow> change_quote option" where
  "findQuote quoteId db = (case quoteId of None \<Rightarrow> None | Some q \<Rightarrow> find_row cq_id q (db_quotes db))"

definition findConsideration :: "id option \<Rightarrow> 'a change_db_scheme \<Rightarrow> renewal_consideration option" where
  "findConsideration considerationId db = (case considerationId of None \<Rightarrow> None
     | Some c \<Rightarrow> find_row rc_id c (db_considerations db))"

text \<open>The segment a change order created (\<open>targetSegment\<close>).\<close>

definition targetSegment :: "id \<Rightarrow> 'a segment_db_scheme \<Rightarrow> contract_segment option" where
  "targetSegment changeId db =
     List.find (\<lambda>s. sg_sourceChangeOrderId s = Some changeId) (db_segments db)"

definition findVehicle :: "id option \<Rightarrow> 'a change_db_scheme \<Rightarrow> vehicle_row option" where
  "findVehicle vehicleId db = (case vehicleId of None \<Rightarrow> None | Some v \<Rightarrow> find_row vh_id v (db_vehicles db))"

text \<open>\<open>enqueue\<close> of the job repository, with the links.\<close>

definition enqueueLinked ::
    "id \<Rightarrow> time \<Rightarrow> enqueue_input \<Rightarrow> id option \<Rightarrow> id option \<Rightarrow> id option \<Rightarrow> (string \<times> string) list
      \<Rightarrow> 'a change_db_scheme \<Rightarrow> 'a change_db_scheme" where
  "enqueueLinked newId now input changeId segmentId considerationId payload db =
     (if list_ex (\<lambda>j. jb_idempotencyKey (cj_job j) = eq_idempotencyKey input) (db_jobs db) then db
      else db\<lparr>db_jobs := db_jobs db @ [\<lparr> cj_job = new_job newId now input, cj_changeOrderId = changeId,
         cj_contractSegmentId = segmentId, cj_renewalConsiderationId = considerationId,
         cj_payload = payload \<rparr>]\<rparr>)"

section \<open>The extension of a change order\<close>

record extension_projection =
  xp_extensionMonths :: int
  xp_pricingMode :: pricing_mode
  xp_sourceSegment :: contract_segment
  xp_targetStartDate :: time
  xp_targetEndDate :: time
  xp_priceOverride :: price_override

definition detail_or :: "('d \<Rightarrow> 'v) \<Rightarrow> 'd option \<Rightarrow> 'v option \<Rightarrow> 'v option" where
  "detail_or f detail root = (case detail of None \<Rightarrow> root | Some d \<Rightarrow> Some (f d))"

definition projectedSourceSegment :: "change_order \<Rightarrow> 'a segment_db_scheme \<Rightarrow> contract_segment option" where
  "projectedSourceSegment change db =
     (let root = (case ch_sourceSegmentId change of None \<Rightarrow> None | Some s \<Rightarrow> findSegment s db) in
      case ch_extensionDetail change of None \<Rightarrow> root
      | Some d \<Rightarrow> (case findSegment (xd_sourceSegmentId d) db of None \<Rightarrow> root | Some s \<Rightarrow> Some s))"

definition requireExtensionChangeProjection ::
    "change_order \<Rightarrow> 'a segment_db_scheme \<Rightarrow> (sub_error, extension_projection) result" where
  "requireExtensionChangeProjection change db =
     (if ch_changeType change \<noteq> EXTENSION
      then Inl (SubscriptionChangeError ''SUBSCRIPTION_EXTENSION_DETAIL_INVALID'')
      else
        let detail = ch_extensionDetail change in
        case (detail_or xd_extensionMonths detail (ch_extensionMonths change),
              detail_or xd_pricingMode detail (ch_pricingMode change),
              projectedSourceSegment change db,
              detail_or xd_targetEndDate detail (ch_targetEndDate change),
              detail_or xd_targetStartDate detail (ch_targetStartDate change)) of
          (Some months, Some mode, Some source, Some endDate, Some startDate) \<Rightarrow>
            Inr \<lparr> xp_extensionMonths = months, xp_pricingMode = mode, xp_sourceSegment = source,
              xp_targetStartDate = startDate, xp_targetEndDate = endDate,
              xp_priceOverride = (case detail of None \<Rightarrow> ch_priceOverride change
                | Some d \<Rightarrow> xd_priceOverride d) \<rparr>
        | _ \<Rightarrow> Inl (SubscriptionChangeError ''SUBSCRIPTION_EXTENSION_DETAIL_INVALID''))"

section \<open>Commands\<close>

definition command_key :: "change_command \<Rightarrow> id \<times> string \<times> ustring" where
  "command_key c = (cc_actorId c, cc_operation c, cc_idempotencyKey c)"

definition findCommand :: "id \<Rightarrow> string \<Rightarrow> ustring \<Rightarrow> 'a change_db_scheme \<Rightarrow> change_command option" where
  "findCommand actorId operation key db = find_row command_key (actorId, operation, key) (db_commands db)"

definition reserveCommand ::
    "id \<Rightarrow> id \<Rightarrow> string \<Rightarrow> ustring \<Rightarrow> string \<Rightarrow> time \<Rightarrow> 'a change_db_scheme
      \<Rightarrow> (sub_error, 'a change_db_scheme) result" where
  "reserveCommand commandId actorId operation key requestHash now db =
     (if findCommand actorId operation key db \<noteq> None \<or> commandId \<in> cc_id ` set (db_commands db)
      then Inl UniqueConstraint
      else Inr (db\<lparr>db_commands := db_commands db @ [\<lparr> cc_id = commandId, cc_actorId = actorId,
         cc_operation = operation, cc_idempotencyKey = key, cc_requestHash = requestHash,
         cc_resource = None, cc_updatedAt = now, cc_completedAt = None \<rparr>]\<rparr>))"

definition completeCommand ::
    "id \<Rightarrow> resource_type \<Rightarrow> id \<Rightarrow> time \<Rightarrow> 'a change_db_scheme \<Rightarrow> 'a change_db_scheme" where
  "completeCommand commandId resourceType resourceId completedAt db =
     db\<lparr>db_commands := upd_row cc_id commandId (\<lambda>c. c\<lparr>cc_resource := Some (resourceType, resourceId),
        cc_completedAt := Some completedAt, cc_updatedAt := completedAt\<rparr>) (db_commands db)\<rparr>"

end
