(* ===== verification/ExtensionPricing.thy ===== *)
theory ExtensionPricing
  imports ChangeDb
begin

text \<open>
  The price of an extension: \<open>subscription-extension-pricing.service.ts\<close>.  A rate
  is a decimal (a numerator and a number of decimal places), the form of the
  schema's \<open>Decimal(8, 6)\<close> columns; products are exact, as they are in the
  decimal library up to its twenty significant digits.  The snapshots are built
  as the code builds them, amounts as decimal texts.
\<close>

section \<open>Plans\<close>

type_synonym decimal = "int \<times> nat"

record pricing_package =
  pk_productId :: id
  pk_productVersionId :: id
  pk_deletedAt :: "time option"
  pk_active :: bool
  pk_priceAmount :: amount
  pk_columns :: "(ustring \<times> canonical) list"

datatype product_status = ProdDRAFT | ProdACTIVE | ProdINACTIVE
datatype product_version_status = VerDRAFT | VerAPPROVED | VerACTIVE | VerINACTIVE
datatype monthly_fee_mode = MANUAL_QUOTE | FIXED_AMOUNT | RATE_FORMULA

record subscription_plan =
  sp_id :: id
  sp_deletedAt :: "time option"
  sp_active :: bool
  sp_effectiveFrom :: time
  sp_effectiveTo :: "time option"
  sp_minPeriodMonths :: int
  sp_maxPeriodMonths :: int
  sp_monthlyFeeMode :: monthly_fee_mode
  sp_baseMonthlyFeeAmount :: "amount option"
  sp_monthlyFeeRate :: "decimal option"
  sp_productId :: id
  sp_productVersionId :: id
  sp_productDeletedAt :: "time option"
  sp_productStatus :: product_status
  sp_productType :: business_type
  sp_versionDeletedAt :: "time option"
  sp_versionStatus :: product_version_status
  sp_versionEffectiveFrom :: time
  sp_versionEffectiveTo :: "time option"
  sp_vehiclePackage :: pricing_package
  sp_vehiclePackageRate :: decimal
  sp_modelMembers :: "id list"
  sp_mileagePackage :: pricing_package
  sp_monthlyMileageKm :: int
  sp_overMileageFeeAmount :: amount
  sp_energyPackage :: pricing_package
  sp_monthlyEnergyKwh :: "int option"
  sp_monthlyEnergyCount :: "int option"
  sp_benefitPackage :: "pricing_package option"
  sp_planName :: ustring
  sp_planNo :: ustring

record pricing_input =
  pi_asOf :: time
  pi_discountedMonthlyFeeAmount :: "amount option"
  pi_extensionMonths :: "int option"
  pi_pricingMode :: pricing_mode
  pi_requestedVehicleBaseFeeAmount :: "amount option"
  pi_sourceSegment :: contract_segment
  pi_subscriptionPlanId :: "id option"
  pi_salePriceAmount :: "amount option"
  pi_modelDefinitionId :: id

record quote_preview =
  qp_terms :: commercial_terms
  qp_priceRuleSnapshot :: canonical
  qp_baselineMonthlyFeeAmount :: "amount option"
  qp_pricingMode :: pricing_mode
  qp_targetStartDate :: js_date
  qp_targetEndDate :: js_date

section \<open>Helpers\<close>

abbreviation pricingError :: "string \<Rightarrow> sub_error" where
  "pricingError code \<equiv> SubscriptionChangeError code"

definition dec_positive :: "decimal \<Rightarrow> bool" where
  "dec_positive r = (fst r > 0)"

definition dec_gt :: "decimal \<Rightarrow> decimal \<Rightarrow> bool" where
  "dec_gt r s = (fst r * 10 ^ snd s > fst s * 10 ^ snd r)"

definition multiplyMoneyByRateFloor :: "amount \<Rightarrow> decimal \<Rightarrow> amount" where
  "multiplyMoneyByRateFloor amount rate = (amount * fst rate) div 10 ^ snd rate"

definition amount_text :: "amount \<Rightarrow> canonical" where
  "amount_text n = CStr (dec n)"

definition optional_id :: "id option \<Rightarrow> canonical" where
  "optional_id v = (case v of None \<Rightarrow> CNull | Some s \<Rightarrow> CStr (ascii s))"

definition PACKAGE_SNAPSHOT_KEYS :: "string list" where
  "PACKAGE_SNAPSHOT_KEYS = [''id'', ''benefitCount'', ''benefitType'', ''description'',
     ''packageName'', ''packageNo'', ''priceAmount'', ''monthlyMileageKm'',
     ''overMileageFeeAmount'', ''monthlyEnergyKwh'', ''monthlyEnergyCount'', ''modelDefinitionId'']"

definition snapshotPackage :: "pricing_package option \<Rightarrow> canonical" where
  "snapshotPackage package = (case package of None \<Rightarrow> CNull
     | Some p \<Rightarrow> CObj (List.map_filter (\<lambda>key. map_option (Pair (ascii key))
         (map_of (pk_columns p) (ascii key))) PACKAGE_SNAPSHOT_KEYS))"

definition packageAvailable :: "subscription_plan \<Rightarrow> pricing_package \<Rightarrow> bool" where
  "packageAvailable plan p = (pk_deletedAt p = None \<and> pk_active p
     \<and> pk_productId p = sp_productId plan \<and> pk_productVersionId p = sp_productVersionId plan)"

definition effectiveOn :: "js_date \<Rightarrow> time \<Rightarrow> time option \<Rightarrow> bool" where
  "effectiveOn day from_date to_date = (case day of None \<Rightarrow> False
     | Some d \<Rightarrow> from_date \<le> d \<and> (case to_date of None \<Rightarrow> True | Some t \<Rightarrow> d \<le> t))"

definition isCurrentPlanAvailable :: "subscription_plan \<Rightarrow> time \<Rightarrow> bool" where
  "isCurrentPlanAvailable plan now =
     (let businessDate = shanghaiBusinessDate (Some now) in
      sp_deletedAt plan = None \<and> sp_active plan
      \<and> effectiveOn businessDate (sp_effectiveFrom plan) (sp_effectiveTo plan)
      \<and> sp_productDeletedAt plan = None \<and> sp_productStatus plan = ProdACTIVE
      \<and> sp_productType plan = SUBSCRIPTION
      \<and> sp_versionDeletedAt plan = None \<and> sp_versionStatus plan = VerACTIVE
      \<and> effectiveOn businessDate (sp_versionEffectiveFrom plan) (sp_versionEffectiveTo plan)
      \<and> list_all (packageAvailable plan)
           ([sp_vehiclePackage plan, sp_mileagePackage plan, sp_energyPackage plan]
            @ (case sp_benefitPackage plan of None \<Rightarrow> [] | Some p \<Rightarrow> [p])))"

definition calculateVehicleBase ::
    "subscription_plan \<Rightarrow> amount \<Rightarrow> amount option \<Rightarrow> (sub_error, amount \<times> amount) result" where
  "calculateVehicleBase plan salePrice requestedAmount =
     (let packageRate = sp_vehiclePackageRate plan in
      rbind (ensure (dec_positive packageRate) (pricingError ''VEHICLE_BASE_FEE_CAP_RATE_INVALID'')) (\<lambda>_.
      let cap = multiplyMoneyByRateFloor salePrice packageRate in
      rbind (case sp_monthlyFeeMode plan of
          FIXED_AMOUNT \<Rightarrow> Inr (case sp_baseMonthlyFeeAmount plan of None \<Rightarrow> 0 | Some a \<Rightarrow> a)
        | RATE_FORMULA \<Rightarrow>
            let rate = (case sp_monthlyFeeRate plan of None \<Rightarrow> packageRate | Some r \<Rightarrow> r) in
            rbind (ensure (dec_positive rate \<and> \<not> dec_gt rate packageRate)
                (pricingError ''VEHICLE_BASE_FEE_RATE_INVALID'')) (\<lambda>_.
              Inr (multiplyMoneyByRateFloor salePrice rate))
        | MANUAL_QUOTE \<Rightarrow> Inr (case requestedAmount of None \<Rightarrow> 0 | Some a \<Rightarrow> a)) (\<lambda>amount.
      rbind (ensure (amount > 0 \<and> amount \<le> cap) (pricingError ''VEHICLE_BASE_FEE_INVALID'')) (\<lambda>_.
      Inr (amount, cap)))))"

section \<open>The three modes\<close>

definition originalPrice :: "contract_segment \<Rightarrow> quote_preview" where
  "originalPrice source =
     (let t = sg_terms source in
      \<lparr> qp_terms = t\<lparr>tm_quoteSnapshot := CObj [
          (ascii ''monthlyFeeAmount'', amount_text (tm_monthlyFeeAmount t)),
          (ascii ''pricingMode'', CStr (ascii ''ORIGINAL_PRICE'')),
          (ascii ''sourceQuoteSnapshot'', tm_quoteSnapshot t),
          (ascii ''sourceSegmentId'', CStr (ascii (sg_id source)))]\<rparr>,
        qp_priceRuleSnapshot = CObj [
          (ascii ''basis'', CStr (ascii ''SOURCE_SEGMENT_SNAPSHOT'')),
          (ascii ''sourceSegmentId'', CStr (ascii (sg_id source))),
          (ascii ''sourceSubscriptionPlanId'', optional_id (tm_subscriptionPlanId t))],
        qp_baselineMonthlyFeeAmount = None, qp_pricingMode = ORIGINAL_PRICE,
        qp_targetStartDate = None, qp_targetEndDate = None \<rparr>)"

definition fee_mode_text :: "monthly_fee_mode \<Rightarrow> canonical" where
  "fee_mode_text m = CStr (ascii (case m of MANUAL_QUOTE \<Rightarrow> ''MANUAL_QUOTE''
     | FIXED_AMOUNT \<Rightarrow> ''FIXED_AMOUNT'' | RATE_FORMULA \<Rightarrow> ''RATE_FORMULA''))"

definition product_status_text :: "product_status \<Rightarrow> canonical" where
  "product_status_text v = CStr (ascii (case v of ProdDRAFT \<Rightarrow> ''DRAFT'' | ProdACTIVE \<Rightarrow> ''ACTIVE''
     | ProdINACTIVE \<Rightarrow> ''INACTIVE''))"

definition version_status_text :: "product_version_status \<Rightarrow> canonical" where
  "version_status_text v = CStr (ascii (case v of VerDRAFT \<Rightarrow> ''DRAFT'' | VerAPPROVED \<Rightarrow> ''APPROVED''
     | VerACTIVE \<Rightarrow> ''ACTIVE'' | VerINACTIVE \<Rightarrow> ''INACTIVE''))"

definition planSnapshot :: "subscription_plan \<Rightarrow> canonical" where
  "planSnapshot plan = CObj [
     (ascii ''benefitPackage'', snapshotPackage (sp_benefitPackage plan)),
     (ascii ''energyPackage'', snapshotPackage (Some (sp_energyPackage plan))),
     (ascii ''mileagePackage'', snapshotPackage (Some (sp_mileagePackage plan))),
     (ascii ''product'', CObj [(ascii ''id'', CStr (ascii (sp_productId plan))),
       (ascii ''status'', product_status_text (sp_productStatus plan))]),
     (ascii ''productVersion'', CObj [(ascii ''id'', CStr (ascii (sp_productVersionId plan))),
       (ascii ''status'', version_status_text (sp_versionStatus plan))]),
     (ascii ''subscriptionPlan'', CObj [(ascii ''id'', CStr (ascii (sp_id plan))),
       (ascii ''maxPeriodMonths'', CNum (sp_maxPeriodMonths plan)),
       (ascii ''minPeriodMonths'', CNum (sp_minPeriodMonths plan)),
       (ascii ''monthlyFeeMode'', fee_mode_text (sp_monthlyFeeMode plan)),
       (ascii ''planName'', CStr (sp_planName plan)), (ascii ''planNo'', CStr (sp_planNo plan))]),
     (ascii ''vehiclePackage'', snapshotPackage (Some (sp_vehiclePackage plan)))]"

definition benefitPrice :: "subscription_plan \<Rightarrow> amount" where
  "benefitPrice plan = (case sp_benefitPackage plan of None \<Rightarrow> 0 | Some p \<Rightarrow> pk_priceAmount p)"

definition priceRule :: "subscription_plan \<Rightarrow> amount \<Rightarrow> amount \<Rightarrow> amount \<Rightarrow> canonical" where
  "priceRule plan vehicleBase cap salePrice = CObj [
     (ascii ''basis'', CStr (ascii ''CURRENT_VERSION'')),
     (ascii ''benefitPackagePriceAmount'', amount_text (benefitPrice plan)),
     (ascii ''energyPackagePriceAmount'', amount_text (pk_priceAmount (sp_energyPackage plan))),
     (ascii ''mileagePackagePriceAmount'', amount_text (pk_priceAmount (sp_mileagePackage plan))),
     (ascii ''vehicleBaseFeeAmount'', amount_text vehicleBase),
     (ascii ''vehicleBaseFeeCapAmount'', amount_text cap),
     (ascii ''vehicleBaseFeeMode'', fee_mode_text (sp_monthlyFeeMode plan)),
     (ascii ''vehicleSalePriceAmount'', amount_text salePrice)]"

definition current_version_preview :: "subscription_plan \<Rightarrow> amount \<Rightarrow> amount \<Rightarrow> amount \<Rightarrow> quote_preview" where
  "current_version_preview plan vehicleBase cap salePrice =
     (let monthlyFeeAmount = vehicleBase + pk_priceAmount (sp_mileagePackage plan)
            + pk_priceAmount (sp_energyPackage plan) + benefitPrice plan;
          rule = priceRule plan vehicleBase cap salePrice in
      \<lparr> qp_terms = \<lparr> tm_productId = Some (sp_productId plan),
          tm_productVersionId = Some (sp_productVersionId plan),
          tm_subscriptionPlanId = Some (sp_id plan), tm_monthlyFeeAmount = monthlyFeeAmount,
          tm_mileageLimitKm = sp_monthlyMileageKm plan,
          tm_overMileageFeeAmount = sp_overMileageFeeAmount plan,
          tm_energyLimitKwh = sp_monthlyEnergyKwh plan,
          tm_energyLimitCount = sp_monthlyEnergyCount plan, tm_planSnapshot = planSnapshot plan,
          tm_quoteSnapshot = CObj [
            (ascii ''monthlyFeeAmount'', amount_text monthlyFeeAmount),
            (ascii ''planSnapshot'', planSnapshot plan), (ascii ''priceRuleSnapshot'', rule),
            (ascii ''pricingMode'', CStr (ascii ''CURRENT_VERSION''))] \<rparr>,
        qp_priceRuleSnapshot = rule, qp_baselineMonthlyFeeAmount = None,
        qp_pricingMode = CURRENT_VERSION, qp_targetStartDate = None, qp_targetEndDate = None \<rparr>)"

definition calculateCurrentVersion ::
    "subscription_plan list \<Rightarrow> pricing_input \<Rightarrow> (sub_error, quote_preview) result" where
  "calculateCurrentVersion plans input =
     (case pi_subscriptionPlanId input of
        None \<Rightarrow> Inl (pricingError ''SUBSCRIPTION_PLAN_REQUIRED'')
      | Some planId \<Rightarrow>
        (case find_row sp_id planId plans of
           None \<Rightarrow> Inl (pricingError ''SUBSCRIPTION_PLAN_NOT_AVAILABLE'')
         | Some plan \<Rightarrow>
           rbind (ensure (isCurrentPlanAvailable plan (pi_asOf input))
             (pricingError ''SUBSCRIPTION_PLAN_NOT_AVAILABLE'')) (\<lambda>_.
           rbind (ensure (pi_modelDefinitionId input \<in> set (sp_modelMembers plan))
             (pricingError ''SUBSCRIPTION_PLAN_VEHICLE_MODEL_MISMATCH'')) (\<lambda>_.
           rbind (ensure (case pi_extensionMonths input of None \<Rightarrow> True
               | Some m \<Rightarrow> sp_minPeriodMonths plan \<le> m \<and> m \<le> sp_maxPeriodMonths plan)
             (pricingError ''EXTENSION_MONTHS_OUTSIDE_PLAN_RANGE'')) (\<lambda>_.
           case pi_salePriceAmount input of
             None \<Rightarrow> Inl (pricingError ''VEHICLE_SALE_PRICE_MISSING'')
           | Some salePrice \<Rightarrow>
             rbind (ensure (salePrice > 0) (pricingError ''VEHICLE_SALE_PRICE_MISSING'')) (\<lambda>_.
             rbind (calculateVehicleBase plan salePrice (pi_requestedVehicleBaseFeeAmount input)) (\<lambda>vb.
             Inr (current_version_preview plan (fst vb) (snd vb) salePrice))))))))"

text \<open>An object literal that spreads \<open>base\<close> and then sets \<open>entries\<close>.\<close>

definition object_with :: "canonical \<Rightarrow> (ustring \<times> canonical) list \<Rightarrow> canonical" where
  "object_with base entries = (case base of
     CObj es \<Rightarrow> CObj (map (\<lambda>e. case map_of entries (fst e) of None \<Rightarrow> e | Some v \<Rightarrow> (fst e, v)) es
        @ filter (\<lambda>e. fst e \<notin> fst ` set es) entries)
   | _ \<Rightarrow> CObj entries)"

definition approvedDiscount :: "quote_preview \<Rightarrow> amount \<Rightarrow> quote_preview" where
  "approvedDiscount baseline discounted =
     (let t = qp_terms baseline; base = tm_monthlyFeeAmount t in
      baseline\<lparr>qp_baselineMonthlyFeeAmount := Some base,
        qp_terms := t\<lparr>tm_monthlyFeeAmount := discounted,
          tm_quoteSnapshot := object_with (tm_quoteSnapshot t) [
            (ascii ''baselineMonthlyFeeAmount'', amount_text base),
            (ascii ''monthlyFeeAmount'', amount_text discounted),
            (ascii ''pricingMode'', CStr (ascii ''APPROVED_DISCOUNT''))]\<rparr>,
        qp_priceRuleSnapshot := CObj [
          (ascii ''baselineMonthlyFeeAmount'', amount_text base),
          (ascii ''basis'', CStr (ascii ''APPROVED_DISCOUNT'')),
          (ascii ''discountedMonthlyFeeAmount'', amount_text discounted),
          (ascii ''currentVersionRule'', qp_priceRuleSnapshot baseline)]\<rparr>)"

definition addCalendarMonths :: "js_date \<Rightarrow> int \<Rightarrow> js_date" where
  "addCalendarMonths v months = (case v of None \<Rightarrow> None | Some t \<Rightarrow>
     (let monthIndex = utc_month t + months;
          targetYear = utc_year t + monthIndex div 12;
          targetMonth = monthIndex mod 12 in
      case js_utc_date targetYear (targetMonth + 1) 0 of None \<Rightarrow> None
      | Some l \<Rightarrow> js_utc_date targetYear targetMonth (min (utc_date t) (utc_date l))))"

definition withPricingContext :: "pricing_input \<Rightarrow> quote_preview \<Rightarrow> quote_preview" where
  "withPricingContext input preview =
     (let targetStartDate = addUtcDays (Some (sg_endDate (pi_sourceSegment input))) 1 in
      preview\<lparr>qp_pricingMode := pi_pricingMode input, qp_targetStartDate := targetStartDate,
        qp_targetEndDate := addUtcDays (addCalendarMonths targetStartDate
          (case pi_extensionMonths input of None \<Rightarrow> 0 | Some m \<Rightarrow> m)) (- 1)\<rparr>)"

definition calculate :: "subscription_plan list \<Rightarrow> pricing_input \<Rightarrow> (sub_error, quote_preview) result" where
  "calculate plans input =
     (if pi_pricingMode input = ORIGINAL_PRICE
      then Inr (withPricingContext input (originalPrice (pi_sourceSegment input)))
      else rbind (calculateCurrentVersion plans input) (\<lambda>baseline.
        if pi_pricingMode input = CURRENT_VERSION then Inr (withPricingContext input baseline)
        else case pi_discountedMonthlyFeeAmount input of
            None \<Rightarrow> Inl (pricingError ''APPROVED_DISCOUNT_AMOUNT_INVALID'')
          | Some discounted \<Rightarrow>
            rbind (ensure (discounted > 0 \<and> discounted \<le> tm_monthlyFeeAmount (qp_terms baseline))
              (pricingError ''APPROVED_DISCOUNT_AMOUNT_INVALID'')) (\<lambda>_.
            Inr (withPricingContext input (approvedDiscount baseline discounted)))))"

end
