(* ===== verification/Extensions.thy ===== *)
theory Extensions
  imports ExtensionPricing
begin

text \<open>
  The commands on an extension, \<open>subscription-extension.service.ts\<close>: the rows they
  need beside those of the change centre, the guards, the frame of an idempotent
  command, and the creation of an extension.  Every command is
  one serializable transaction.  What a command reads before its transaction (the
  replay of an idempotency key, the plan of a new extension) it reads in an
  earlier state, the argument \<open>seen\<close>; nothing relates that state to the one the
  transaction runs in.  The audit log is left out.
\<close>

section \<open>State, configuration and inputs\<close>

datatype esign_status = TaskCREATED | TaskWAITING_CUSTOMER | TaskSIGNING | TaskCOMPLETED
  | TaskFAILED | TaskCANCELLED | TaskEXPIRED

datatype lease_status = LeaseNOT_ACTIVE | LeaseREADY | LeaseACTIVE | LeaseRETURN_DUE | LeaseCOMPLETED
datatype return_status = RetPENDING | RetREADY | RetCONFIRMED | RetCANCELLED

datatype signing_stage = STAGE1_SUBSCRIPTION_CONTRACT | STAGE2_DELIVERY_HANDOVER
  | STAGE3_SUBSCRIPTION_EXTENSION | STAGE4_EARLY_TERMINATION | STAGE5_RECOVERY_AUTHORITY
  | STAGE6_RETURN_MANIFEST

datatype document_type = SUBSCRIPTION_CONTRACT | CONTRACT_BODY | ATTACHMENT1_SUBSCRIPTION_PLAN
  | DELIVERY_HANDOVER | SUBSCRIPTION_EXTENSION_AGREEMENT | EARLY_TERMINATION_AGREEMENT
  | RECOVERY_AUTHORITY | RETURN_MANIFEST

record esign_task =
  et_id :: id
  et_contractId :: id
  et_signingStage :: signing_stage
  et_documentType :: document_type
  et_status :: esign_status
  et_signedDocumentObjectKey :: "string option"
  et_sourceType :: "string option"
  et_sourceId :: "id option"
  et_sourceKey :: "string option"

record lease =
  ls_id :: id
  ls_orderId :: id
  ls_status :: lease_status

record vehicle_return =
  vr_id :: id
  vr_orderId :: id
  vr_vehicleId :: id
  vr_status :: return_status
  vr_normal :: bool
  vr_scheduledAt :: "time option"
  vr_returnedAt :: "time option"
  vr_deletedAt :: "time option"

record sub_db = change_db +
  db_plans :: "subscription_plan list"
  db_tasks :: "esign_task list"
  db_leases :: "lease list"
  db_returns :: "vehicle_return list"

record change_config =
  cf_enabled :: bool
  cf_extensionEnabled :: "bool option"
  cf_vehicleSwapEnabled :: "bool option"
  cf_earlyTerminationEnabled :: "bool option"
  cf_managedOtherEnabled :: "bool option"
  cf_quoteValidityHours :: int

fun isSubscriptionChangeTypeEnabled :: "change_config \<Rightarrow> change_type \<Rightarrow> bool" where
  "isSubscriptionChangeTypeEnabled config EXTENSION =
     (case cf_extensionEnabled config of None \<Rightarrow> cf_enabled config | Some b \<Rightarrow> b)"
| "isSubscriptionChangeTypeEnabled config VEHICLE_SWAP =
     (case cf_vehicleSwapEnabled config of None \<Rightarrow> cf_enabled config | Some b \<Rightarrow> b)"
| "isSubscriptionChangeTypeEnabled config EARLY_TERMINATION =
     (case cf_earlyTerminationEnabled config of None \<Rightarrow> cf_enabled config | Some b \<Rightarrow> b)"
| "isSubscriptionChangeTypeEnabled config MANAGED_OTHER =
     (case cf_managedOtherEnabled config of None \<Rightarrow> cf_enabled config | Some b \<Rightarrow> b)"

text \<open>
  A command: who, when (the clock of the service), under which idempotency key
  and for which version of the change; the hash of the request, and the id its
  command row gets.
\<close>

record command_input =
  in_actor :: actor
  in_now :: time
  in_commandId :: id
  in_idempotencyKey :: "ustring option"
  in_requestHash :: string
  in_version :: int
  in_reason :: ustring

record extension_input =
  xi_orderId :: id
  xi_extensionMonths :: int
  xi_pricingMode :: pricing_mode
  xi_priceOverrideReason :: "ustring option"
  xi_renewalConsiderationId :: "id option"
  xi_subscriptionPlanId :: "id option"

record quote_input =
  qi_discountedMonthlyFeeAmount :: "amount option"
  qi_requestedVehicleBaseFeeAmount :: "amount option"
  qi_subscriptionPlanId :: "id option"

abbreviation changeError :: "string \<Rightarrow> sub_error" where
  "changeError code \<equiv> SubscriptionChangeError code"

section \<open>Guards\<close>

definition assertWriteEnabled :: "change_config \<Rightarrow> (sub_error, unit) result" where
  "assertWriteEnabled config = ensure (isSubscriptionChangeTypeEnabled config EXTENSION)
     (changeError ''SUBSCRIPTION_EXTENSION_DISABLED'')"

definition assertPermission :: "actor \<Rightarrow> permission \<Rightarrow> (sub_error, unit) result" where
  "assertPermission actor permission = ensure (ac_isAdmin actor \<or> permission \<in> set (ac_permissions actor))
     (changeError ''PERMISSION_DENIED'')"

definition assertIdempotencyKey :: "ustring option \<Rightarrow> (sub_error, ustring) result" where
  "assertIdempotencyKey value = (case value of
     None \<Rightarrow> Inl (changeError ''IDEMPOTENCY_KEY_REQUIRED'')
   | Some v \<Rightarrow> if v = [] \<or> trim v = [] \<or> length v > 128
       then Inl (changeError ''IDEMPOTENCY_KEY_REQUIRED'') else Inr v)"

definition assertVersion :: "int \<Rightarrow> (sub_error, unit) result" where
  "assertVersion v = ensure (safe_integer v \<and> 0 \<le> v) (changeError ''VERSION_INVALID'')"

definition assertVersionMatches :: "int \<Rightarrow> int \<Rightarrow> (sub_error, unit) result" where
  "assertVersionMatches actual expected = ensure (actual = expected) (changeError ''VERSION_CONFLICT'')"

definition assertBeforeDeadline :: "time \<Rightarrow> js_date \<Rightarrow> (sub_error, unit) result" where
  "assertBeforeDeadline now deadline =
     ensure (case deadline of None \<Rightarrow> True | Some d \<Rightarrow> \<not> now \<ge> d) (changeError ''EXTENSION_DEADLINE_PASSED'')"

definition normalizedReason :: "ustring option \<Rightarrow> ustring option" where
  "normalizedReason value = (case value of None \<Rightarrow> None
     | Some v \<Rightarrow> if trim v = [] then None else Some (trim v))"

definition assertPricingSelection :: "extension_input \<Rightarrow> (sub_error, unit) result" where
  "assertPricingSelection input =
     rbind (ensure (\<not> ((xi_pricingMode input = CURRENT_VERSION \<or> xi_pricingMode input = APPROVED_DISCOUNT)
        \<and> xi_subscriptionPlanId input = None)) (changeError ''SUBSCRIPTION_PLAN_REQUIRED'')) (\<lambda>_.
     ensure (\<not> (xi_pricingMode input \<noteq> CURRENT_VERSION
        \<and> normalizedReason (xi_priceOverrideReason input) = None))
        (changeError ''PRICE_OVERRIDE_REASON_REQUIRED''))"

definition assertExtensionSourceOrder :: "sub_order option \<Rightarrow> 'a change_db_scheme \<Rightarrow> (sub_error, sub_order) result" where
  "assertExtensionSourceOrder found db = (case found of
     None \<Rightarrow> Inl (changeError ''SUBSCRIPTION_ORDER_NOT_FOUND'')
   | Some order \<Rightarrow>
     rbind (ensure (so_deletedAt order = None) (changeError ''SUBSCRIPTION_ORDER_NOT_FOUND'')) (\<lambda>_.
     case findVehicle (so_vehicleId order) db of
       None \<Rightarrow> Inl (changeError ''ORDER_VEHICLE_REQUIRED'')
     | Some vehicle \<Rightarrow>
       rbind (ensure (so_businessType order = SUBSCRIPTION \<and> so_orderStatus order = OrdACTIVE)
         (changeError ''SUBSCRIPTION_ORDER_NOT_ACTIVE'')) (\<lambda>_.
       rbind (ensure (vh_status vehicle = VehLEASED) (changeError ''LEASED_VEHICLE_REQUIRED'')) (\<lambda>_.
       Inr order))))"

definition assertNoContractGenerationInProgress :: "change_order \<Rightarrow> 'a segment_db_scheme \<Rightarrow> (sub_error, unit) result" where
  "assertNoContractGenerationInProgress change db =
     ensure (case findContract (ch_contractId change) db of None \<Rightarrow> True
       | Some c \<Rightarrow> \<not> (ct_status c = CtGENERATED \<and> ct_fileId c = None))
       (changeError ''CONTRACT_GENERATION_IN_PROGRESS'')"

definition assertQuoteMutable :: "change_order \<Rightarrow> (sub_error, unit) result" where
  "assertQuoteMutable change =
     rbind (ensure (ch_confirmedQuoteId change = None \<and> ch_status change \<noteq> ChgCUSTOMER_CONFIRMED)
       (changeError ''CONFIRMED_QUOTE_IMMUTABLE'')) (\<lambda>_.
     rbind (ensure (ch_status change = ChgDRAFT \<or> ch_status change = ChgQUOTED)
       (changeError ''SUBSCRIPTION_CHANGE_NOT_QUOTABLE'')) (\<lambda>_.
     ensure (ch_publishedAt change = None) (changeError ''PUBLISHED_QUOTE_IMMUTABLE'')))"

section \<open>Idempotent commands\<close>

definition findReplay ::
    "string \<Rightarrow> ustring \<Rightarrow> command_input \<Rightarrow> 'a change_db_scheme \<Rightarrow> (sub_error, change_command option) result" where
  "findReplay operation key input db = (case findCommand (ac_id (in_actor input)) operation key db of
     None \<Rightarrow> Inr None
   | Some command \<Rightarrow> rbind (ensure (cc_requestHash command = in_requestHash input)
       (changeError ''IDEMPOTENCY_KEY_REUSED_WITH_DIFFERENT_REQUEST'')) (\<lambda>_. Inr (Some command)))"

definition findChangeOrThrow :: "id \<Rightarrow> 'a change_db_scheme \<Rightarrow> (sub_error, change_order) result" where
  "findChangeOrThrow changeId db = (case findChange changeId db of
     None \<Rightarrow> Inl (changeError ''SUBSCRIPTION_CHANGE_NOT_FOUND'')
   | Some change \<Rightarrow> rbind (requireExtensionChangeProjection change db) (\<lambda>_. Inr change))"

definition replayChange ::
    "string \<Rightarrow> ustring \<Rightarrow> command_input \<Rightarrow> 'a change_db_scheme \<Rightarrow> (sub_error, change_order option) result" where
  "replayChange operation key input db = rbind (findReplay operation key input db) (\<lambda>found.
     case found of None \<Rightarrow> Inr None
     | Some command \<Rightarrow> (case cc_resource command of
         Some (ResCHANGE, resourceId) \<Rightarrow> rbind (findChangeOrThrow resourceId db) (\<lambda>c. Inr (Some c))
       | _ \<Rightarrow> Inl (changeError ''IDEMPOTENCY_COMMAND_IN_PROGRESS'')))"

text \<open>What the handler of a failed transaction throws or returns.\<close>

definition resolveWriteConflict ::
    "sub_error \<Rightarrow> string \<Rightarrow> ustring \<Rightarrow> command_input \<Rightarrow> 'a change_db_scheme \<Rightarrow> (sub_error, change_order) result" where
  "resolveWriteConflict error operation key input db =
     (if error = UniqueConstraint
      then rbind (replayChange operation key input db) (\<lambda>replay. case replay of
          Some change \<Rightarrow> Inr change
        | None \<Rightarrow> Inl (changeError ''ACTIVE_SUBSCRIPTION_CHANGE_EXISTS''))
      else Inl error)"

definition transacted ::
    "(sub_error, change_order \<times> sub_db) result \<Rightarrow> string \<Rightarrow> ustring \<Rightarrow> command_input \<Rightarrow> sub_db
      \<Rightarrow> (sub_error, change_order \<times> sub_db) result" where
  "transacted result operation key input db = (case result of
     Inr r \<Rightarrow> Inr r
   | Inl error \<Rightarrow> rbind (resolveWriteConflict error operation key input db) (\<lambda>c. Inr (c, db)))"

definition changeTransaction ::
    "string \<Rightarrow> ustring \<Rightarrow> id \<Rightarrow> command_input
      \<Rightarrow> (change_order \<Rightarrow> extension_projection \<Rightarrow> sub_db \<Rightarrow> (sub_error, sub_db) result)
      \<Rightarrow> sub_db \<Rightarrow> (sub_error, change_order \<times> sub_db) result" where
  "changeTransaction operation key changeId input execute db =
     rbind (reserveCommand (in_commandId input) (ac_id (in_actor input)) operation key
       (in_requestHash input) (in_now input) db) (\<lambda>db1.
     case findChange changeId db1 of
       None \<Rightarrow> Inl (changeError ''SUBSCRIPTION_CHANGE_NOT_FOUND'')
     | Some change \<Rightarrow>
       rbind (requireExtensionChangeProjection change db1) (\<lambda>xp.
       rbind (assertVersionMatches (ch_version change) (in_version input)) (\<lambda>_.
       rbind (assertBeforeDeadline (in_now input) (Some (ch_completionDeadlineAt change))) (\<lambda>_.
       rbind (execute change xp db1) (\<lambda>db2.
       rbind (findChangeOrThrow changeId db2) (\<lambda>updated.
       Inr (updated, completeCommand (in_commandId input) ResCHANGE changeId (in_now input) db2)))))))"

definition runChangeCommand ::
    "string \<Rightarrow> id \<Rightarrow> command_input
      \<Rightarrow> (change_order \<Rightarrow> extension_projection \<Rightarrow> sub_db \<Rightarrow> (sub_error, sub_db) result)
      \<Rightarrow> sub_db \<Rightarrow> sub_db \<Rightarrow> (sub_error, change_order \<times> sub_db) result" where
  "runChangeCommand operation changeId input execute seen db =
     rbind (assertIdempotencyKey (in_idempotencyKey input)) (\<lambda>key.
     rbind (assertVersion (in_version input)) (\<lambda>_.
     rbind (replayChange operation key input seen) (\<lambda>replay. case replay of
       Some change \<Rightarrow> Inr (change, db)
     | None \<Rightarrow> transacted (changeTransaction operation key changeId input execute db)
         operation key input db)))"

section \<open>Creating an extension\<close>

definition shanghaiStartOfDate :: "js_date \<Rightarrow> js_date" where
  "shanghaiStartOfDate v = (case v of None \<Rightarrow> None | Some t \<Rightarrow>
     (case js_utc_date (utc_year t) (utc_month t) (utc_date t) of None \<Rightarrow> None
      | Some s \<Rightarrow> time_clip (s - 8 * 3600000)))"

record extension_plan =
  pl_sourceSegmentId :: id
  pl_targetStartDate :: js_date
  pl_targetEndDate :: js_date
  pl_completionDeadlineAt :: js_date

datatype planned = Replayed change_order | Planned extension_plan

definition plan_after :: "contract_segment \<Rightarrow> int \<Rightarrow> extension_plan" where
  "plan_after sourceSegment extensionMonths =
     (let targetStartDate = addUtcDays (Some (sg_endDate sourceSegment)) 1 in
      \<lparr> pl_sourceSegmentId = sg_id sourceSegment, pl_targetStartDate = targetStartDate,
        pl_targetEndDate = addUtcDays (addCalendarMonths targetStartDate extensionMonths) (- 1),
        pl_completionDeadlineAt = shanghaiStartOfDate targetStartDate \<rparr>)"

text \<open>
  The part before the transaction.  It creates the base segment if there is none;
  that is a transaction of its own (\<open>ensureBaseSegmentInTransaction\<close>).
\<close>

definition planExtension ::
    "change_config \<Rightarrow> command_input \<Rightarrow> extension_input \<Rightarrow> id \<Rightarrow> sub_db \<Rightarrow> (sub_error, planned \<times> sub_db) result" where
  "planExtension config input request newSegmentId db =
     rbind (assertWriteEnabled config) (\<lambda>_.
     rbind (assertPermission (in_actor input) CHANGE_CREATE) (\<lambda>_.
     rbind (assertIdempotencyKey (in_idempotencyKey input)) (\<lambda>key.
     rbind (ensure (safe_integer (xi_extensionMonths request) \<and> xi_extensionMonths request > 0)
       (changeError ''EXTENSION_MONTHS_INVALID'')) (\<lambda>_.
     rbind (assertPricingSelection request) (\<lambda>_.
     rbind (replayChange ''CREATE_EXTENSION'' key input db) (\<lambda>replay. case replay of
       Some change \<Rightarrow> Inr (Replayed change, db)
     | None \<Rightarrow>
       rbind (assertExtensionSourceOrder (findOrder (xi_orderId request) db) db) (\<lambda>order.
       rbind (ensureBaseSegmentInTransaction newSegmentId (so_id order) (Some (ac_id (in_actor input))) db)
         (\<lambda>(_, db1).
       case lastSegment (so_id order) db1 of
         None \<Rightarrow> Inl (changeError ''SOURCE_CONTRACT_SEGMENT_NOT_FOUND'')
       | Some sourceSegment \<Rightarrow>
         let plan = plan_after sourceSegment (xi_extensionMonths request) in
         rbind (assertBeforeDeadline (in_now input) (pl_completionDeadlineAt plan)) (\<lambda>_.
         rbind (assertAppendableExtension (sg_id sourceSegment) (pl_targetStartDate plan)
           (pl_targetEndDate plan) db1) (\<lambda>_.
         Inr (Planned plan, db1)))))))))))"

definition no_override :: price_override where
  "no_override = \<lparr> po_reason = None, po_approvedBy = None, po_approvedAt = None \<rparr>"

definition new_extension ::
    "id \<Rightarrow> time \<Rightarrow> id \<Rightarrow> id option \<Rightarrow> int \<Rightarrow> pricing_mode \<Rightarrow> ustring option \<Rightarrow> id \<Rightarrow> time \<Rightarrow> time \<Rightarrow> time
      \<Rightarrow> change_order" where
  "new_extension newId now orderId considerationId months mode reason sourceId targetStart targetEnd deadline =
     \<lparr> ch_id = newId, ch_orderId = orderId, ch_changeType = EXTENSION, ch_status = ChgDRAFT,
       ch_sourceSegmentId = None, ch_extensionMonths = None, ch_pricingMode = None,
       ch_targetStartDate = None, ch_targetEndDate = None, ch_priceOverride = no_override,
       ch_renewalConsiderationId = considerationId, ch_currentQuoteId = None,
       ch_confirmedQuoteId = None, ch_contractId = None, ch_completionDeadlineAt = deadline,
       ch_publishedAt = None, ch_publishedBy = None, ch_cancelReason = None, ch_failureCode = None,
       ch_manualTakeoverReason = None, ch_manualTakeoverAt = None, ch_version = 0,
       ch_extensionDetail = Some \<lparr> xd_extensionMonths = months, xd_pricingMode = mode,
         xd_sourceSegmentId = sourceId, xd_targetStartDate = targetStart, xd_targetEndDate = targetEnd,
         xd_priceOverride = no_override\<lparr>po_reason := reason\<rparr> \<rparr>,
       ch_swapTargetVehicleId = None, ch_earlyTerminationDetail = None,
       ch_supplementContractId = None, ch_createdAt = now \<rparr>"

text \<open>The check constraint on the dates of the detail, and the invalid dates the client rejects.\<close>

definition insertExtension :: "id \<Rightarrow> time \<Rightarrow> id \<Rightarrow> id option \<Rightarrow> int \<Rightarrow> pricing_mode \<Rightarrow> ustring option
    \<Rightarrow> extension_plan \<Rightarrow> sub_db \<Rightarrow> (sub_error, sub_db) result" where
  "insertExtension newId now orderId considerationId months mode reason plan db =
     (case (pl_targetStartDate plan, pl_targetEndDate plan, pl_completionDeadlineAt plan) of
        (Some s, Some e, Some d) \<Rightarrow>
          rbind (ensure (s \<le> e) CheckConstraint) (\<lambda>_.
          write_changes (db_changes db @ [new_extension newId now orderId considerationId months mode
             reason (pl_sourceSegmentId plan) s e d]) db)
      | _ \<Rightarrow> Inl InvalidValue)"

definition extensionTransaction ::
    "ustring \<Rightarrow> command_input \<Rightarrow> extension_input \<Rightarrow> id \<Rightarrow> extension_plan \<Rightarrow> sub_db
      \<Rightarrow> (sub_error, change_order \<times> sub_db) result" where
  "extensionTransaction key input request newChangeId plan db =
     rbind (assertExtensionSourceOrder (findOrder (xi_orderId request) db) db) (\<lambda>order.
     rbind (ensure (map_option sg_id (lastSegment (so_id order) db) = Some (pl_sourceSegmentId plan))
       (changeError ''SOURCE_CONTRACT_SEGMENT_CHANGED'')) (\<lambda>_.
     rbind (reserveCommand (in_commandId input) (ac_id (in_actor input)) ''CREATE_EXTENSION'' key
       (in_requestHash input) (in_now input) db) (\<lambda>db1.
     rbind (ensure (findActiveChange (so_id order) db1 = None)
       (changeError ''ACTIVE_SUBSCRIPTION_CHANGE_EXISTS'')) (\<lambda>_.
     rbind (insertExtension newChangeId (in_now input) (so_id order) (xi_renewalConsiderationId request)
       (xi_extensionMonths request) (xi_pricingMode request)
       (normalizedReason (xi_priceOverrideReason request)) plan db1) (\<lambda>db2.
     rbind (findChangeOrThrow newChangeId db2) (\<lambda>change.
     Inr (change, completeCommand (in_commandId input) ResCHANGE newChangeId (in_now input) db2)))))))"

definition createExtension ::
    "change_config \<Rightarrow> command_input \<Rightarrow> extension_input \<Rightarrow> id \<Rightarrow> id \<Rightarrow> sub_db \<Rightarrow> sub_db
      \<Rightarrow> (sub_error, change_order \<times> sub_db) result" where
  "createExtension config input request newSegmentId newChangeId seen db =
     rbind (planExtension config input request newSegmentId seen) (\<lambda>(planned, _). case planned of
       Replayed change \<Rightarrow> Inr (change, db)
     | Planned plan \<Rightarrow> rbind (assertIdempotencyKey (in_idempotencyKey input)) (\<lambda>key. transacted (extensionTransaction key input request newChangeId plan db)
         ''CREATE_EXTENSION'' key input db))"

end
