(* ===== verification/ExtensionCommands.thy ===== *)
theory ExtensionCommands
  imports Extensions
begin

text \<open>
  The commands that work an extension through its life: quoting, approval,
  publication, cancellation, manual takeover and the retry of a job
  (\<open>subscription-extension.service.ts\<close>), and the customer's decision, confirmation
  and rejection (\<open>portal-renewal.service.ts\<close>).
\<close>

section \<open>Quotes\<close>

definition update_quote :: "id \<Rightarrow> (change_quote \<Rightarrow> change_quote) \<Rightarrow> sub_db \<Rightarrow> sub_db" where
  "update_quote quoteId f db = db\<lparr>db_quotes := upd_row cq_id quoteId f (db_quotes db)\<rparr>"

definition update_considerations ::
    "(renewal_consideration \<Rightarrow> bool) \<Rightarrow> (renewal_consideration \<Rightarrow> renewal_consideration) \<Rightarrow> sub_db \<Rightarrow> sub_db" where
  "update_considerations P f db =
     db\<lparr>db_considerations := snd (update_many P f (db_considerations db))\<rparr>"

definition pricingInput ::
    "extension_projection \<Rightarrow> vehicle_row \<Rightarrow> quote_input \<Rightarrow> time \<Rightarrow> pricing_input" where
  "pricingInput xp vehicle input asOf =
     \<lparr> pi_asOf = asOf, pi_discountedMonthlyFeeAmount = qi_discountedMonthlyFeeAmount input,
       pi_extensionMonths = Some (xp_extensionMonths xp), pi_pricingMode = xp_pricingMode xp,
       pi_requestedVehicleBaseFeeAmount = qi_requestedVehicleBaseFeeAmount input,
       pi_sourceSegment = xp_sourceSegment xp, pi_subscriptionPlanId = qi_subscriptionPlanId input,
       pi_salePriceAmount = vh_salePriceAmount vehicle,
       pi_modelDefinitionId = vh_modelDefinitionId vehicle \<rparr>"

definition formal_quote ::
    "id \<Rightarrow> id \<Rightarrow> int \<Rightarrow> pricing_mode \<Rightarrow> quote_preview \<Rightarrow> time \<Rightarrow> time \<Rightarrow> id \<Rightarrow> change_quote" where
  "formal_quote newId changeId revision mode pricing validUntil now actorId =
     \<lparr> cq_id = newId, cq_changeOrderId = changeId, cq_revision = revision, cq_status = QuFORMAL,
       cq_pricingMode = mode, cq_terms = qp_terms pricing,
       cq_priceRuleSnapshot = qp_priceRuleSnapshot pricing, cq_validUntil = validUntil,
       cq_formalizedAt = Some now, cq_confirmedAt = None, cq_rejectedAt = None,
       cq_createdBy = Some actorId \<rparr>"

definition map_override :: "(price_override \<Rightarrow> price_override) \<Rightarrow> change_order \<Rightarrow> change_order" where
  "map_override f c = c\<lparr>ch_extensionDetail := map_option
     (\<lambda>d. d\<lparr>xd_priceOverride := f (xd_priceOverride d)\<rparr>) (ch_extensionDetail c)\<rparr>"

definition quoted :: "id \<Rightarrow> change_order \<Rightarrow> change_order" where
  "quoted quoteId c = map_override (\<lambda>p. p\<lparr>po_approvedAt := None, po_approvedBy := None\<rparr>)
     (c\<lparr>ch_publishedAt := None, ch_publishedBy := None, ch_currentQuoteId := Some quoteId,
        ch_status := ChgQUOTED, ch_version := ch_version c + 1\<rparr>)"

definition quoteTransaction ::
    "change_config \<Rightarrow> ustring \<Rightarrow> id \<Rightarrow> command_input \<Rightarrow> quote_input \<Rightarrow> id \<Rightarrow> sub_db
      \<Rightarrow> (sub_error, change_quote \<times> sub_db) result" where
  "quoteTransaction config key changeId input request newQuoteId db =
     rbind (reserveCommand (in_commandId input) (ac_id (in_actor input)) ''CREATE_FORMAL_QUOTE'' key
       (in_requestHash input) (in_now input) db) (\<lambda>db1.
     case findChange changeId db1 of
       None \<Rightarrow> Inl (changeError ''SUBSCRIPTION_CHANGE_NOT_FOUND'')
     | Some change \<Rightarrow>
       rbind (requireExtensionChangeProjection change db1) (\<lambda>xp.
       rbind (assertVersionMatches (ch_version change) (in_version input)) (\<lambda>_.
       rbind (assertQuoteMutable change) (\<lambda>_.
       rbind (assertBeforeDeadline (in_now input) (Some (ch_completionDeadlineAt change))) (\<lambda>_.
       case findVehicle (case findOrder (ch_orderId change) db1 of None \<Rightarrow> None
           | Some order \<Rightarrow> so_vehicleId order) db1 of
         None \<Rightarrow> Inl (changeError ''ORDER_VEHICLE_REQUIRED'')
       | Some vehicle \<Rightarrow>
         rbind (calculate (db_plans db1) (pricingInput xp vehicle request (in_now input))) (\<lambda>pricing.
         let latest = latest_by cq_revision (\<lambda>q. cq_changeOrderId q = changeId) (db_quotes db1);
             db2 = (case latest of None \<Rightarrow> db1 | Some q \<Rightarrow> if cq_status q = QuFORMAL
               then update_quote (cq_id q) (\<lambda>q. q\<lparr>cq_status := QuSUPERSEDED\<rparr>) db1 else db1);
             validUntil = min (in_now input + cf_quoteValidityHours config * 3600000)
               (ch_completionDeadlineAt change);
             qt = formal_quote newQuoteId changeId
               ((case latest of None \<Rightarrow> 0 | Some q \<Rightarrow> cq_revision q) + 1) (xp_pricingMode xp) pricing
               validUntil (in_now input) (ac_id (in_actor input)) in
         rbind (ensure (newQuoteId \<notin> cq_id ` set (db_quotes db2)) UniqueConstraint) (\<lambda>_.
         rbind (ensure (ch_extensionDetail change \<noteq> None) RecordNotFound) (\<lambda>_.
         rbind (update_change changeId (quoted newQuoteId) (db2\<lparr>db_quotes := db_quotes db2 @ [qt]\<rparr>)) (\<lambda>db3.
         let db4 = (case ch_renewalConsiderationId change of None \<Rightarrow> db3
           | Some considerationId \<Rightarrow> update_considerations
               (\<lambda>r. rc_id r = considerationId \<and> rc_status r = RENEWAL_REQUESTED)
               (\<lambda>r. r\<lparr>rc_status := EXTENSION_IN_PROGRESS, rc_version := rc_version r + 1\<rparr>) db3) in
         Inr (qt, completeCommand (in_commandId input) ResQUOTE newQuoteId (in_now input) db4))))))))))"

definition replayQuote ::
    "ustring \<Rightarrow> command_input \<Rightarrow> 'a change_db_scheme \<Rightarrow> (sub_error, change_quote option) result" where
  "replayQuote key input db = rbind (findReplay ''CREATE_FORMAL_QUOTE'' key input db) (\<lambda>found.
     case found of None \<Rightarrow> Inr None
     | Some command \<Rightarrow> (case cc_resource command of
         Some (ResQUOTE, resourceId) \<Rightarrow> (case findQuote (Some resourceId) db of
             None \<Rightarrow> Inl (changeError ''IDEMPOTENCY_RESOURCE_MISSING'')
           | Some qt \<Rightarrow> Inr (Some qt))
       | _ \<Rightarrow> Inl (changeError ''IDEMPOTENCY_COMMAND_IN_PROGRESS'')))"

definition createFormalQuote ::
    "change_config \<Rightarrow> id \<Rightarrow> command_input \<Rightarrow> quote_input \<Rightarrow> id \<Rightarrow> sub_db \<Rightarrow> sub_db
      \<Rightarrow> (sub_error, change_quote \<times> sub_db) result" where
  "createFormalQuote config changeId input request newQuoteId seen db =
     rbind (assertWriteEnabled config) (\<lambda>_.
     rbind (assertPermission (in_actor input) CHANGE_QUOTE) (\<lambda>_.
     rbind (assertIdempotencyKey (in_idempotencyKey input)) (\<lambda>key.
     rbind (assertVersion (in_version input)) (\<lambda>_.
     rbind (replayQuote key input seen) (\<lambda>replay. case replay of
       Some qt \<Rightarrow> Inr (qt, db)
     | None \<Rightarrow> (case quoteTransaction config key changeId input request newQuoteId db of
           Inr r \<Rightarrow> Inr r
         | Inl error \<Rightarrow>
           if error = UniqueConstraint
           then rbind (replayQuote key input db) (\<lambda>again. case again of
               Some qt \<Rightarrow> Inr (qt, db)
             | None \<Rightarrow> Inl (changeError ''ACTIVE_SUBSCRIPTION_CHANGE_EXISTS''))
           else Inl error))))))"

section \<open>Approval and publication\<close>

definition approvePriceOverride ::
    "change_config \<Rightarrow> id \<Rightarrow> command_input \<Rightarrow> sub_db \<Rightarrow> sub_db \<Rightarrow> (sub_error, change_order \<times> sub_db) result" where
  "approvePriceOverride config changeId input seen db =
     rbind (assertWriteEnabled config) (\<lambda>_.
     rbind (assertPermission (in_actor input) CHANGE_PRICE_OVERRIDE_APPROVE) (\<lambda>_.
     runChangeCommand ''APPROVE_PRICE_OVERRIDE'' changeId input (\<lambda>change xp tx.
       rbind (ensure (xp_pricingMode xp \<noteq> CURRENT_VERSION) (changeError ''PRICE_OVERRIDE_NOT_REQUIRED'')) (\<lambda>_.
       case findQuote (ch_currentQuoteId change) tx of
         None \<Rightarrow> Inl (changeError ''CURRENT_FORMAL_QUOTE_REQUIRED'')
       | Some qt \<Rightarrow>
         rbind (ensure (cq_status qt = QuFORMAL) (changeError ''CURRENT_FORMAL_QUOTE_REQUIRED'')) (\<lambda>_.
         rbind (ensure (cq_createdBy qt \<noteq> Some (ac_id (in_actor input)))
           (changeError ''PRICE_OVERRIDE_SELF_APPROVAL_FORBIDDEN'')) (\<lambda>_.
         case normalizedReason (Some (in_reason input)) of
           None \<Rightarrow> Inl (changeError ''PRICE_OVERRIDE_REASON_REQUIRED'')
         | Some reason \<Rightarrow>
           rbind (ensure (ch_extensionDetail change \<noteq> None) RecordNotFound) (\<lambda>_.
           update_change changeId (\<lambda>c. map_override (\<lambda>p. \<lparr> po_reason = Some reason,
               po_approvedBy = Some (ac_id (in_actor input)), po_approvedAt = Some (in_now input) \<rparr>)
             (c\<lparr>ch_version := ch_version c + 1\<rparr>)) tx))))) seen db))"

definition submitCustomerConfirmation ::
    "change_config \<Rightarrow> id \<Rightarrow> command_input \<Rightarrow> sub_db \<Rightarrow> sub_db \<Rightarrow> (sub_error, change_order \<times> sub_db) result" where
  "submitCustomerConfirmation config changeId input seen db =
     rbind (assertWriteEnabled config) (\<lambda>_.
     rbind (assertPermission (in_actor input) CHANGE_SUBMIT) (\<lambda>_.
     runChangeCommand ''SUBMIT_CUSTOMER_CONFIRMATION'' changeId input (\<lambda>change xp tx.
       rbind (ensure (ch_status change = ChgQUOTED) (changeError ''CHANGE_NOT_READY_FOR_CUSTOMER'')) (\<lambda>_.
       rbind (ensure (ch_publishedAt change = None) (changeError ''PUBLISHED_QUOTE_IMMUTABLE'')) (\<lambda>_.
       rbind (ensure (\<not> (xp_pricingMode xp \<noteq> CURRENT_VERSION
           \<and> (po_approvedBy (xp_priceOverride xp) = None \<or> po_approvedAt (xp_priceOverride xp) = None)))
         (changeError ''PRICE_OVERRIDE_APPROVAL_REQUIRED'')) (\<lambda>_.
       case findQuote (ch_currentQuoteId change) tx of
         None \<Rightarrow> Inl (changeError ''CURRENT_QUOTE_NOT_PUBLISHABLE'')
       | Some qt \<Rightarrow>
         rbind (ensure (cq_status qt = QuFORMAL \<and> \<not> cq_validUntil qt \<le> in_now input)
           (changeError ''CURRENT_QUOTE_NOT_PUBLISHABLE'')) (\<lambda>_.
         update_change changeId (\<lambda>c. c\<lparr>ch_publishedAt := Some (in_now input),
           ch_publishedBy := Some (ac_id (in_actor input)), ch_version := ch_version c + 1\<rparr>) tx))))) seen db))"

section \<open>Leaving the planned path\<close>

definition cancelChange ::
    "change_config \<Rightarrow> id \<Rightarrow> command_input \<Rightarrow> sub_db \<Rightarrow> sub_db \<Rightarrow> (sub_error, change_order \<times> sub_db) result" where
  "cancelChange config changeId input seen db =
     rbind (assertWriteEnabled config) (\<lambda>_.
     rbind (assertPermission (in_actor input) CHANGE_CANCEL) (\<lambda>_.
     runChangeCommand ''CANCEL_CHANGE'' changeId input (\<lambda>change xp tx.
       rbind (assertNoContractGenerationInProgress change tx) (\<lambda>_.
       rbind (ensure (ch_status change \<in> set CANCELLABLE_STATUSES)
         (changeError ''SUBSCRIPTION_CHANGE_NOT_CANCELLABLE'')) (\<lambda>_.
       case normalizedReason (Some (in_reason input)) of
         None \<Rightarrow> Inl (changeError ''CANCEL_REASON_REQUIRED'')
       | Some reason \<Rightarrow> update_change changeId (\<lambda>c. c\<lparr>ch_cancelReason := Some reason,
           ch_status := ChgCANCELLED, ch_version := ch_version c + 1\<rparr>) tx))) seen db))"

definition manualTakeover ::
    "id \<Rightarrow> command_input \<Rightarrow> sub_db \<Rightarrow> sub_db \<Rightarrow> (sub_error, change_order \<times> sub_db) result" where
  "manualTakeover changeId input seen db =
     rbind (assertPermission (in_actor input) CHANGE_MANUAL_TAKEOVER) (\<lambda>_.
     runChangeCommand ''MANUAL_TAKEOVER'' changeId input (\<lambda>change xp tx.
       rbind (assertNoContractGenerationInProgress change tx) (\<lambda>_.
       rbind (ensure (ch_status change \<notin> set [ChgCOMPLETED, ChgCANCELLED])
         (changeError ''SUBSCRIPTION_CHANGE_FINAL'')) (\<lambda>_.
       case normalizedReason (Some (in_reason input)) of
         None \<Rightarrow> Inl (changeError ''MANUAL_TAKEOVER_REASON_REQUIRED'')
       | Some reason \<Rightarrow> update_change changeId (\<lambda>c. c\<lparr>ch_manualTakeoverAt := Some (in_now input),
           ch_manualTakeoverReason := Some reason, ch_status := ChgMANUAL_TAKEOVER,
           ch_version := ch_version c + 1\<rparr>) tx))) seen db)"

definition RETRYABLE_EXTENSION_JOB_TYPES :: "job_type list" where
  "RETRYABLE_EXTENSION_JOB_TYPES = [EXTENSION_SEGMENT_ACTIVATE, EXTENSION_BILLING_RESUME,
     EXTENSION_ENTITLEMENT_RENEW, EXTENSION_EFFECTIVE_NOTICE]"

definition job_id :: "change_job \<Rightarrow> id" where "job_id j = jb_id (cj_job j)"
definition job_state :: "change_job \<Rightarrow> job_status" where "job_state j = jb_jobStatus (cj_job j)"

definition retried :: "time \<Rightarrow> change_job \<Rightarrow> change_job" where
  "retried now j = j\<lparr>cj_job := (cj_job j)\<lparr>jb_attemptCount := 0, jb_availableAt := now,
     jb_completedAt := None, jb_jobStatus := PENDING, jb_lastError := None,
     jb_leaseExpiresAt := None, jb_leaseToken := None, jb_startedAt := None\<rparr>\<rparr>"

definition retryTransaction ::
    "string \<Rightarrow> ustring \<Rightarrow> id \<Rightarrow> id \<Rightarrow> command_input \<Rightarrow> sub_db \<Rightarrow> (sub_error, change_order \<times> sub_db) result" where
  "retryTransaction operation key changeId jobId input db =
     rbind (reserveCommand (in_commandId input) (ac_id (in_actor input)) operation key
       (in_requestHash input) (in_now input) db) (\<lambda>db1.
     case findChange changeId db1 of
       None \<Rightarrow> Inl (changeError ''SUBSCRIPTION_CHANGE_NOT_FOUND'')
     | Some change \<Rightarrow>
       rbind (assertVersionMatches (ch_version change) (in_version input)) (\<lambda>_.
       rbind (ensure (ch_status change = ChgMANUAL_TAKEOVER)
         (changeError ''SUBSCRIPTION_CHANGE_JOB_RETRY_NOT_ALLOWED'')) (\<lambda>_.
       case find_row job_id jobId (db_jobs db1) of
         None \<Rightarrow> Inl (changeError ''SUBSCRIPTION_CHANGE_JOB_NOT_FOUND'')
       | Some job \<Rightarrow>
         rbind (ensure (cj_changeOrderId job = Some changeId)
           (changeError ''SUBSCRIPTION_CHANGE_JOB_NOT_FOUND'')) (\<lambda>_.
         rbind (ensure (job_state job = DEAD_LETTER
             \<and> jb_jobType (cj_job job) \<in> set RETRYABLE_EXTENSION_JOB_TYPES)
           (changeError ''SUBSCRIPTION_CHANGE_JOB_NOT_RETRYABLE'')) (\<lambda>_.
         rbind (ensure (cj_contractSegmentId job = map_option sg_id (targetSegment changeId db1)
             \<and> (case jb_lastError (cj_job job) of None \<Rightarrow> False
                | Some (code, _) \<Rightarrow> code \<noteq> '''' \<and> ch_failureCode change = Some code))
           (changeError ''SUBSCRIPTION_CHANGE_JOB_RETRY_NOT_ALLOWED'')) (\<lambda>_.
         let jobs = update_many (\<lambda>j. cj_changeOrderId j = Some changeId \<and> job_id j = jobId
               \<and> job_state j = DEAD_LETTER) (retried (in_now input)) (db_jobs db1) in
         rbind (ensure (fst jobs = 1) (changeError ''SUBSCRIPTION_CHANGE_JOB_RETRY_CONFLICT'')) (\<lambda>_.
         rbind (update_change changeId (\<lambda>c. c\<lparr>ch_failureCode := None,
             ch_status := (if jb_jobType (cj_job job) = EXTENSION_SEGMENT_ACTIVATE then ChgSCHEDULED
               else ChgEXECUTING), ch_version := ch_version c + 1\<rparr>)
           (db1\<lparr>db_jobs := snd jobs\<rparr>)) (\<lambda>db2.
         case findChange changeId db2 of
           None \<Rightarrow> Inl (changeError ''SUBSCRIPTION_CHANGE_NOT_FOUND'')
         | Some updated \<Rightarrow> Inr (updated,
             completeCommand (in_commandId input) ResCHANGE changeId (in_now input) db2)))))))))"

definition retryAutomationJob ::
    "id \<Rightarrow> id \<Rightarrow> command_input \<Rightarrow> sub_db \<Rightarrow> sub_db \<Rightarrow> (sub_error, change_order \<times> sub_db) result" where
  "retryAutomationJob changeId jobId input seen db =
     rbind (assertPermission (in_actor input) CHANGE_EXECUTE) (\<lambda>_.
     rbind (assertIdempotencyKey (in_idempotencyKey input)) (\<lambda>key.
     rbind (assertVersion (in_version input)) (\<lambda>_.
     let operation = ''RETRY_AUTOMATION_JOB:'' @ jobId in
     rbind (replayChange operation key input seen) (\<lambda>replay. case replay of
       Some change \<Rightarrow> Inr (change, db)
     | None \<Rightarrow> transacted (retryTransaction operation key changeId jobId input db)
         operation key input db))))"

section \<open>The customer's commands\<close>

text \<open>
  A customer is an actor whose id is the customer's; what belongs to another
  customer is not found.  \<open>conflict\<close> is a \<open>ConflictException\<close>, whose message
  stands for it here.
\<close>

definition assertPortalIdempotencyKey :: "ustring option \<Rightarrow> (sub_error, ustring) result" where
  "assertPortalIdempotencyKey value = (case value of
     None \<Rightarrow> Inl (changeError ''IDEMPOTENCY_KEY_REQUIRED'')
   | Some v \<Rightarrow> if trim v = [] \<or> length (trim v) > 128
       then Inl (changeError ''IDEMPOTENCY_KEY_REQUIRED'') else Inr (trim v))"

definition replayPortal ::
    "string \<Rightarrow> resource_type \<Rightarrow> ustring \<Rightarrow> command_input \<Rightarrow> 'a change_db_scheme
      \<Rightarrow> (sub_error, change_command option) result" where
  "replayPortal operation resourceType key input db =
     (case findCommand (ac_id (in_actor input)) operation key db of
        None \<Rightarrow> Inr None
      | Some command \<Rightarrow>
        rbind (ensure (cc_requestHash command = in_requestHash input)
          (ConflictException ''IDEMPOTENCY_KEY_REUSED_WITH_DIFFERENT_REQUEST'')) (\<lambda>_.
        rbind (ensure (map_option fst (cc_resource command) = Some resourceType
            \<and> cc_completedAt command \<noteq> None)
          (ConflictException ''IDEMPOTENCY_COMMAND_IN_PROGRESS'')) (\<lambda>_. Inr (Some command))))"

definition ownedBy :: "id \<Rightarrow> id \<Rightarrow> 'a segment_db_scheme \<Rightarrow> bool" where
  "ownedBy customerId orderId db = (case findOrder orderId db of None \<Rightarrow> False
     | Some order \<Rightarrow> so_customerId order = customerId)"

definition findOwnedChange :: "id \<Rightarrow> id \<Rightarrow> 'a change_db_scheme \<Rightarrow> (sub_error, change_order) result" where
  "findOwnedChange changeId customerId db = (case findChange changeId db of
     None \<Rightarrow> Inl RecordNotFound
   | Some change \<Rightarrow> if ownedBy customerId (ch_orderId change) db then Inr change else Inl RecordNotFound)"

text \<open>The view of a change projects its extension, which fails for other changes.\<close>

definition viewOwnedChange :: "id \<Rightarrow> id \<Rightarrow> 'a change_db_scheme \<Rightarrow> (sub_error, change_order) result" where
  "viewOwnedChange changeId customerId db = rbind (findOwnedChange changeId customerId db) (\<lambda>change.
     rbind (requireExtensionChangeProjection change db) (\<lambda>_. Inr change))"

definition findOwnedConsideration ::
    "id \<Rightarrow> id \<Rightarrow> 'a change_db_scheme \<Rightarrow> (sub_error, renewal_consideration) result" where
  "findOwnedConsideration considerationId customerId db = (case findConsideration (Some considerationId) db of
     None \<Rightarrow> Inl RecordNotFound
   | Some r \<Rightarrow> if ownedBy customerId (rc_orderId r) db then Inr r else Inl RecordNotFound)"

definition assertPortalVersion :: "int \<Rightarrow> int \<Rightarrow> (sub_error, unit) result" where
  "assertPortalVersion actual expected = ensure (actual = expected)
     (ConflictException ''The renewal record was updated.'')"

definition assertBeforePortalDeadline :: "time \<Rightarrow> time \<Rightarrow> (sub_error, unit) result" where
  "assertBeforePortalDeadline now deadline = ensure (\<not> now \<ge> deadline)
     (ConflictException ''The renewal deadline has passed; the order must proceed to return.'')"

definition assertExactPublishableQuote ::
    "change_order \<Rightarrow> id \<Rightarrow> int \<Rightarrow> time \<Rightarrow> 'a change_db_scheme \<Rightarrow> (sub_error, change_quote) result" where
  "assertExactPublishableQuote change quoteId revision now db =
     (case findQuote (ch_currentQuoteId change) db of
        None \<Rightarrow> Inl (ConflictException ''The published quote revision is stale or unavailable.'')
      | Some qt \<Rightarrow>
        if ch_status change \<noteq> ChgQUOTED \<or> ch_publishedAt change = None \<or> cq_id qt \<noteq> quoteId
           \<or> cq_revision qt \<noteq> revision \<or> cq_status qt \<noteq> QuFORMAL \<or> cq_validUntil qt \<le> now
        then Inl (ConflictException ''The published quote revision is stale or unavailable.'')
        else Inr qt)"

text \<open>The frame of a command of the customer on a change, replays included.\<close>

definition portalChangeCommand ::
    "string \<Rightarrow> id \<Rightarrow> command_input \<Rightarrow> (change_order \<Rightarrow> sub_db \<Rightarrow> (sub_error, sub_db) result)
      \<Rightarrow> sub_db \<Rightarrow> sub_db \<Rightarrow> (sub_error, change_order \<times> sub_db) result" where
  "portalChangeCommand operation changeId input execute seen db =
     (let customerId = ac_id (in_actor input) in
      rbind (assertPortalIdempotencyKey (in_idempotencyKey input)) (\<lambda>key.
      rbind (replayPortal operation ResCHANGE key input seen) (\<lambda>replay. case replay of
        Some _ \<Rightarrow> rbind (viewOwnedChange changeId customerId db) (\<lambda>c. Inr (c, db))
      | None \<Rightarrow>
        (case rbind (reserveCommand (in_commandId input) customerId operation key
              (in_requestHash input) (in_now input) db) (\<lambda>db1.
            rbind (findOwnedChange changeId customerId db1) (\<lambda>change.
            rbind (assertPortalVersion (ch_version change) (in_version input)) (\<lambda>_.
            rbind (assertBeforePortalDeadline (in_now input) (ch_completionDeadlineAt change)) (\<lambda>_.
            rbind (execute change db1) (\<lambda>db2.
            rbind (viewOwnedChange changeId customerId db2) (\<lambda>updated.
            Inr (updated, completeCommand (in_commandId input) ResCHANGE changeId (in_now input) db2))))))) of
           Inr r \<Rightarrow> Inr r
         | Inl error \<Rightarrow>
           if error \<noteq> UniqueConstraint then Inl error
           else rbind (replayPortal operation ResCHANGE key input db) (\<lambda>again. case again of
               None \<Rightarrow> Inl error
             | Some _ \<Rightarrow> rbind (viewOwnedChange changeId customerId db) (\<lambda>c. Inr (c, db)))))))"

definition assertPortalEnabled :: "change_config \<Rightarrow> (sub_error, unit) result" where
  "assertPortalEnabled config = ensure (isSubscriptionChangeTypeEnabled config EXTENSION)
     (ConflictException ''Subscription renewal is temporarily unavailable.'')"

definition confirmQuote ::
    "change_config \<Rightarrow> id \<Rightarrow> command_input \<Rightarrow> id \<Rightarrow> int \<Rightarrow> sub_db \<Rightarrow> sub_db
      \<Rightarrow> (sub_error, change_order \<times> sub_db) result" where
  "confirmQuote config changeId input quoteId revision seen db =
     rbind (assertPortalEnabled config) (\<lambda>_.
     portalChangeCommand ''PORTAL_CONFIRM_EXTENSION_QUOTE'' changeId input (\<lambda>change tx.
       rbind (assertExactPublishableQuote change quoteId revision (in_now input) tx) (\<lambda>qt.
       update_change changeId (\<lambda>c. c\<lparr>ch_confirmedQuoteId := Some (cq_id qt),
           ch_status := ChgCUSTOMER_CONFIRMED, ch_version := ch_version c + 1\<rparr>)
         (update_quote (cq_id qt) (\<lambda>q. q\<lparr>cq_confirmedAt := Some (in_now input),
           cq_status := QuCUSTOMER_CONFIRMED\<rparr>) tx))) seen db)"

definition rejectQuote ::
    "change_config \<Rightarrow> id \<Rightarrow> command_input \<Rightarrow> id \<Rightarrow> int \<Rightarrow> sub_db \<Rightarrow> sub_db
      \<Rightarrow> (sub_error, change_order \<times> sub_db) result" where
  "rejectQuote config changeId input quoteId revision seen db =
     rbind (assertPortalEnabled config) (\<lambda>_.
     rbind (assertPortalIdempotencyKey (in_idempotencyKey input)) (\<lambda>_.
     rbind (ensure (trim (in_reason input) \<noteq> [])
       (ConflictException ''A quote rejection reason is required.'')) (\<lambda>_.
     portalChangeCommand ''PORTAL_REJECT_EXTENSION_QUOTE'' changeId input (\<lambda>change tx.
       rbind (assertExactPublishableQuote change quoteId revision (in_now input) tx) (\<lambda>qt.
       rbind (update_change changeId (\<lambda>c. c\<lparr>
           ch_cancelReason := Some (ascii ''CUSTOMER_QUOTE_REJECTED: '' @ trim (in_reason input)),
           ch_status := ChgCANCELLED, ch_version := ch_version c + 1\<rparr>)
         (update_quote (cq_id qt) (\<lambda>q. q\<lparr>cq_rejectedAt := Some (in_now input),
           cq_status := QuCUSTOMER_REJECTED\<rparr>) tx)) (\<lambda>tx1.
       Inr (case ch_renewalConsiderationId change of None \<Rightarrow> tx1
         | Some considerationId \<Rightarrow> update_considerations (\<lambda>r. rc_id r = considerationId)
             (\<lambda>r. r\<lparr>rc_status := RENEWAL_REQUESTED, rc_version := rc_version r + 1\<rparr>) tx1)))) seen db)))"

definition cancelMarketingReminders :: "id \<Rightarrow> time \<Rightarrow> sub_db \<Rightarrow> sub_db" where
  "cancelMarketingReminders considerationId now db =
     db\<lparr>db_reminders := snd (update_many (\<lambda>r. rr_considerationId r = considerationId
           \<and> (rr_status r = RemPENDING \<or> rr_status r = RemFAILED))
         (\<lambda>r. r\<lparr>rr_status := RemSKIPPED_DECIDED\<rparr>) (db_reminders db)),
       db_jobs := snd (update_many (\<lambda>j. job_state j = PENDING
           \<and> jb_jobType (cj_job j) \<in> set [RENEWAL_REMINDER_D30, RENEWAL_REMINDER_D14, RENEWAL_REMINDER_D3]
           \<and> cj_renewalConsiderationId j = Some considerationId)
         (\<lambda>j. j\<lparr>cj_job := cancel_job now (cj_job j)\<rparr>) (db_jobs db))\<rparr>"

definition decisionTransaction ::
    "ustring \<Rightarrow> id \<Rightarrow> command_input \<Rightarrow> renewal_decision \<Rightarrow> id \<Rightarrow> sub_db
      \<Rightarrow> (sub_error, renewal_consideration \<times> sub_db) result" where
  "decisionTransaction key considerationId input decision newChangeId db =
     (let customerId = ac_id (in_actor input) in
      rbind (reserveCommand (in_commandId input) customerId ''PORTAL_RENEWAL_DECISION'' key
        (in_requestHash input) (in_now input) db) (\<lambda>db1.
      rbind (findOwnedConsideration considerationId customerId db1) (\<lambda>consideration.
      if rc_decision consideration \<noteq> None
      then if rc_decision consideration = Some decision
           then Inr (consideration, completeCommand (in_commandId input) ResRENEWAL_CONSIDERATION
             considerationId (in_now input) db1)
           else Inl (ConflictException ''A different renewal decision has already been recorded.'')
      else
        rbind (assertPortalVersion (rc_version consideration) (in_version input)) (\<lambda>_.
        rbind (assertBeforePortalDeadline (in_now input) (rc_completionDeadlineAt consideration)) (\<lambda>_.
        rbind (if decision = EXPIRE then Inr (None, db1)
          else rbind (ensure (findActiveChange (rc_orderId consideration) db1 = None)
              (ConflictException ''The order already has an active subscription change.'')) (\<lambda>_.
            case findSegment (rc_segmentId consideration) db1 of
              None \<Rightarrow> Inl RecordNotFound
            | Some segment \<Rightarrow>
              let months = max 1 (case findOrder (rc_orderId consideration) db1 of None \<Rightarrow> 0
                    | Some order \<Rightarrow> so_periodMonths order);
                  plan = (plan_after segment months)\<lparr>pl_completionDeadlineAt :=
                    Some (rc_completionDeadlineAt consideration)\<rparr> in
              rbind (insertExtension newChangeId (in_now input) (rc_orderId consideration)
                (Some considerationId) months CURRENT_VERSION None plan db1) (\<lambda>db2.
              Inr (Some newChangeId, db2)))) (\<lambda>(changeOrderId, db2).
        let db3 = cancelMarketingReminders considerationId (in_now input)
              (update_considerations (\<lambda>r. rc_id r = considerationId)
                (\<lambda>r. r\<lparr>rc_changeOrderId := changeOrderId, rc_decidedAt := Some (in_now input),
                   rc_decision := Some decision,
                   rc_status := (if decision = RENEW then RENEWAL_REQUESTED else EXPIRY_CONFIRMED),
                   rc_version := rc_version r + 1\<rparr>) db2) in
        rbind (findOwnedConsideration considerationId customerId db3) (\<lambda>updated.
        Inr (updated, completeCommand (in_commandId input) ResRENEWAL_CONSIDERATION
          considerationId (in_now input) db3))))))))"

definition decideRenewal ::
    "change_config \<Rightarrow> id \<Rightarrow> command_input \<Rightarrow> renewal_decision \<Rightarrow> id \<Rightarrow> sub_db \<Rightarrow> sub_db
      \<Rightarrow> (sub_error, renewal_consideration \<times> sub_db) result" where
  "decideRenewal config considerationId input decision newChangeId seen db =
     (let customerId = ac_id (in_actor input) in
      rbind (if decision = RENEW then assertPortalEnabled config else Inr ()) (\<lambda>_.
      rbind (assertPortalIdempotencyKey (in_idempotencyKey input)) (\<lambda>key.
      rbind (replayPortal ''PORTAL_RENEWAL_DECISION'' ResRENEWAL_CONSIDERATION key input seen) (\<lambda>replay.
      case replay of
        Some _ \<Rightarrow> rbind (findOwnedConsideration considerationId customerId db) (\<lambda>r. Inr (r, db))
      | None \<Rightarrow>
        (case decisionTransaction key considerationId input decision newChangeId db of
           Inr r \<Rightarrow> Inr r
         | Inl error \<Rightarrow>
           if error \<noteq> UniqueConstraint then Inl error
           else rbind (replayPortal ''PORTAL_RENEWAL_DECISION'' ResRENEWAL_CONSIDERATION key input db) (\<lambda>again.
             case again of None \<Rightarrow> Inl error
             | Some _ \<Rightarrow> rbind (findOwnedConsideration considerationId customerId db) (\<lambda>r. Inr (r, db))))))))"

end
