(* ===== verification/ExtensionLifecycle.thy ===== *)
theory ExtensionLifecycle
  imports ExtensionCommands
begin

text \<open>
  From the agreement to the end of a segment: the generation of the agreement
  (\<open>subscription-extension-contract.service.ts\<close>), its archival after signing
  (\<open>stage3-extension-archive.service.ts\<close>), the activation of the new segment and
  the jobs that complete the change
  (\<open>subscription-extension-activation.service.ts\<close>), the expiry of a segment
  (\<open>subscription-expiry.service.ts\<close>), and the two other places that write
  segments: the switch of a vehicle swap and the boundary of an early termination.
  The code repeats the reservation of an agreement up to three times when a unique
  index refuses it; \<open>reserveGeneration\<close> is one attempt.
\<close>

section \<open>The agreement\<close>

text \<open>
  What the generation takes from elsewhere: whether the vehicle's insurance covers
  it through a date, whether a template is there, the customer's identity number,
  and the snapshot built for the contract.
\<close>

record generation_context =
  gx_coveredThrough :: "id \<Rightarrow> time \<Rightarrow> bool"
  gx_templateFound :: bool
  gx_idCardNo :: "ustring option"
  gx_contractSnapshot :: canonical

datatype generation = ReplayContract contract | Render id contract

definition findCommandContract :: "id \<Rightarrow> 'a segment_db_scheme \<Rightarrow> (sub_error, contract) result" where
  "findCommandContract contractId db = (case findContract (Some contractId) db of
     None \<Rightarrow> Inl (changeError ''IDEMPOTENCY_RESOURCE_MISSING'') | Some c \<Rightarrow> Inr c)"

definition assertGeneratable ::
    "change_order \<Rightarrow> extension_projection \<Rightarrow> time \<Rightarrow> ustring option \<Rightarrow> 'a change_db_scheme \<Rightarrow> (sub_error, id) result" where
  "assertGeneratable change xp now idCardNo db =
     rbind (ensure (ch_status change = ChgCUSTOMER_CONFIRMED)
       (changeError ''EXTENSION_CUSTOMER_CONFIRMATION_REQUIRED'')) (\<lambda>_.
     rbind (ensure (case findQuote (ch_confirmedQuoteId change) db of None \<Rightarrow> False
         | Some qt \<Rightarrow> cq_status qt = QuCUSTOMER_CONFIRMED)
       (changeError ''EXTENSION_CONFIRMED_QUOTE_REQUIRED'')) (\<lambda>_.
     rbind (ensure (\<not> now \<ge> ch_completionDeadlineAt change) (changeError ''EXTENSION_DEADLINE_PASSED'')) (\<lambda>_.
     let vehicleId = (case findOrder (ch_orderId change) db of None \<Rightarrow> None | Some order \<Rightarrow> so_vehicleId order) in
     case vehicleId of None \<Rightarrow> Inl (changeError ''EXTENSION_VEHICLE_REQUIRED'')
     | Some vehicle \<Rightarrow>
       rbind (ensure (findVehicle vehicleId db \<noteq> None) (changeError ''EXTENSION_VEHICLE_REQUIRED'')) (\<lambda>_.
       rbind (ensure (case findContract (sg_sourceContractId (xp_sourceSegment xp)) db of None \<Rightarrow> False
           | Some c \<Rightarrow> ct_status c = CtARCHIVED)
         (changeError ''EXTENSION_ORIGINAL_CONTRACT_REQUIRED'')) (\<lambda>_.
       rbind (ensure (case idCardNo of None \<Rightarrow> False | Some n \<Rightarrow> trim n \<noteq> [])
         (changeError ''EXTENSION_CUSTOMER_ID_NUMBER_REQUIRED'')) (\<lambda>_. Inr vehicle))))))"

definition set_resource :: "id \<Rightarrow> resource_type \<Rightarrow> id \<Rightarrow> time \<Rightarrow> sub_db \<Rightarrow> sub_db" where
  "set_resource commandId resourceType resourceId now db =
     db\<lparr>db_commands := upd_row cc_id commandId
        (\<lambda>c. c\<lparr>cc_resource := Some (resourceType, resourceId), cc_updatedAt := now\<rparr>) (db_commands db)\<rparr>"

definition generated_contract :: "id \<Rightarrow> canonical \<Rightarrow> contract" where
  "generated_contract newId snapshot = \<lparr> ct_id = newId, ct_status = CtGENERATED, ct_fileId = None,
     ct_contractSnapshot = snapshot, ct_signedAt = None, ct_archivedAt = None \<rparr>"

definition recoverGeneration ::
    "change_command \<Rightarrow> id \<Rightarrow> id \<Rightarrow> time \<Rightarrow> generation_context \<Rightarrow> sub_db \<Rightarrow> (sub_error, generation \<times> sub_db) result" where
  "recoverGeneration command resourceId changeId now gx db =
     rbind (ensure (\<not> now - cc_updatedAt command < 120000)
       (changeError ''IDEMPOTENCY_COMMAND_IN_PROGRESS'')) (\<lambda>_.
     rbind (findChangeOrThrow changeId db) (\<lambda>change.
     case findContract (ch_contractId change) db of
       None \<Rightarrow> Inl (changeError ''IDEMPOTENCY_RESOURCE_MISSING'')
     | Some c \<Rightarrow>
       rbind (ensure (ct_id c = resourceId \<and> ct_status c \<noteq> CtCANCELLED \<and> gx_templateFound gx)
         (changeError ''IDEMPOTENCY_RESOURCE_MISSING'')) (\<lambda>_.
       Inr (Render (cc_id command) c,
         set_resource (cc_id command) ResCONTRACT_RENDERING resourceId now db))))"

definition freshGeneration ::
    "ustring \<Rightarrow> id \<Rightarrow> command_input \<Rightarrow> generation_context \<Rightarrow> id \<Rightarrow> sub_db \<Rightarrow> (sub_error, generation \<times> sub_db) result" where
  "freshGeneration key changeId input gx newContractId db =
     (let now = in_now input; commandId = in_commandId input in
      rbind (reserveCommand commandId (ac_id (in_actor input)) ''GENERATE_EXTENSION_CONTRACT'' key
        (in_requestHash input) now db) (\<lambda>db1.
      case findChange changeId db1 of
        None \<Rightarrow> Inl (changeError ''SUBSCRIPTION_CHANGE_NOT_FOUND'')
      | Some change \<Rightarrow>
        rbind (requireExtensionChangeProjection change db1) (\<lambda>xp.
        case List.find (\<lambda>c. Some (ct_id c) = ch_contractId change \<and> ct_status c \<noteq> CtCANCELLED) (db_contracts db1) of
          Some c \<Rightarrow>
            if ct_fileId c = None \<or> ch_status change = ChgCUSTOMER_CONFIRMED
            then Inl (changeError ''IDEMPOTENCY_COMMAND_IN_PROGRESS'')
            else Inr (ReplayContract c, completeCommand commandId ResCONTRACT (ct_id c) now db1)
        | None \<Rightarrow>
          rbind (assertVersionMatches (ch_version change) (in_version input)) (\<lambda>_.
          rbind (assertGeneratable change xp now (gx_idCardNo gx) db1) (\<lambda>vehicle.
          rbind (ensure (gx_coveredThrough gx vehicle (xp_targetEndDate xp))
            (changeError ''VEHICLE_INSURANCE_COVERAGE_INSUFFICIENT'')) (\<lambda>_.
          rbind (ensure (gx_templateFound gx) (changeError ''SUBSCRIPTION_EXTENSION_TEMPLATE_NOT_FOUND'')) (\<lambda>_.
          rbind (ensure (newContractId \<notin> ct_id ` set (db_contracts db1)) UniqueConstraint) (\<lambda>_.
          let c = generated_contract newContractId (gx_contractSnapshot gx) in
          rbind (update_change changeId (\<lambda>ch. ch\<lparr>ch_contractId := Some newContractId\<rparr>)
            (db1\<lparr>db_contracts := db_contracts db1 @ [c]\<rparr>)) (\<lambda>db2.
          Inr (Render commandId c, set_resource commandId ResCONTRACT_RENDERING newContractId now db2))))))))))"

definition reserveGeneration ::
    "change_config \<Rightarrow> id \<Rightarrow> command_input \<Rightarrow> generation_context \<Rightarrow> id \<Rightarrow> sub_db \<Rightarrow> (sub_error, generation \<times> sub_db) result" where
  "reserveGeneration config changeId input gx newContractId db =
     rbind (assertWriteEnabled config) (\<lambda>_.
     rbind (ensure (CONTRACT_GENERATE \<in> set (ac_permissions (in_actor input)))
       (changeError ''SUBSCRIPTION_EXTENSION_CONTRACT_FORBIDDEN'')) (\<lambda>_.
     rbind (assertIdempotencyKey (in_idempotencyKey input)) (\<lambda>key.
     rbind (assertVersion (in_version input)) (\<lambda>_.
     case findCommand (ac_id (in_actor input)) ''GENERATE_EXTENSION_CONTRACT'' key db of
       None \<Rightarrow> freshGeneration key changeId input gx newContractId db
     | Some command \<Rightarrow>
       rbind (ensure (cc_requestHash command = in_requestHash input)
         (changeError ''IDEMPOTENCY_KEY_REUSED'')) (\<lambda>_.
       case cc_resource command of
         Some (ResCONTRACT, resourceId) \<Rightarrow>
           rbind (findCommandContract resourceId db) (\<lambda>c. Inr (ReplayContract c, db))
       | Some (ResCONTRACT_RENDERING, resourceId) \<Rightarrow>
           recoverGeneration command resourceId changeId (in_now input) gx db
       | _ \<Rightarrow> Inl (changeError ''IDEMPOTENCY_COMMAND_IN_PROGRESS''))))))"

definition update_contract :: "id \<Rightarrow> (contract \<Rightarrow> contract) \<Rightarrow> sub_db \<Rightarrow> (sub_error, sub_db) result" where
  "update_contract contractId f db =
     (if findContract (Some contractId) db = None then Inl RecordNotFound
      else Inr (db\<lparr>db_contracts := upd_row ct_id contractId f (db_contracts db)\<rparr>))"

text \<open>\<open>artifact\<close>: the file the writer stored and the snapshot with it appended.\<close>

definition finalizeGeneration ::
    "id \<Rightarrow> id \<Rightarrow> id \<Rightarrow> id \<times> canonical \<Rightarrow> command_input \<Rightarrow> ustring option \<Rightarrow> sub_db \<Rightarrow> (sub_error, contract \<times> sub_db) result" where
  "finalizeGeneration commandId contractId changeId artifact input idCardNo db =
     (case find_row cc_id commandId (db_commands db) of
        None \<Rightarrow> Inl (changeError ''IDEMPOTENCY_RESOURCE_MISSING'')
      | Some command \<Rightarrow> (case cc_resource command of
          Some (ResCONTRACT, resourceId) \<Rightarrow>
            rbind (findCommandContract resourceId db) (\<lambda>c. Inr (c, db))
        | Some (ResCONTRACT_RENDERING, resourceId) \<Rightarrow>
            rbind (ensure (resourceId = contractId) (changeError ''IDEMPOTENCY_COMMAND_IN_PROGRESS'')) (\<lambda>_.
            case findChange changeId db of
              None \<Rightarrow> Inl (changeError ''IDEMPOTENCY_RESOURCE_MISSING'')
            | Some change \<Rightarrow>
              rbind (ensure (ch_contractId change = Some contractId \<and> findContract (Some contractId) db \<noteq> None)
                (changeError ''IDEMPOTENCY_RESOURCE_MISSING'')) (\<lambda>_.
              rbind (requireExtensionChangeProjection change db) (\<lambda>xp.
              rbind (assertVersionMatches (ch_version change) (in_version input)) (\<lambda>_.
              rbind (assertGeneratable change xp (in_now input) idCardNo db) (\<lambda>_.
              rbind (update_contract contractId (\<lambda>c. c\<lparr>ct_contractSnapshot := snd artifact,
                ct_fileId := Some (fst artifact)\<rparr>) db) (\<lambda>db1.
              rbind (update_change changeId (\<lambda>c. c\<lparr>ch_status := ChgSIGNING_OR_PAYMENT,
                ch_version := ch_version c + 1\<rparr>) db1) (\<lambda>db2.
              rbind (findCommandContract contractId db2) (\<lambda>c.
              Inr (c, completeCommand commandId ResCONTRACT contractId (in_now input) db2)))))))))
        | _ \<Rightarrow> Inl (changeError ''IDEMPOTENCY_COMMAND_IN_PROGRESS'')))"

definition abortGenerationReservation :: "id \<Rightarrow> id \<Rightarrow> id \<Rightarrow> sub_db \<Rightarrow> (sub_error, sub_db) result" where
  "abortGenerationReservation commandId changeId contractId db =
     (case find_row cc_id commandId (db_commands db) of
        None \<Rightarrow> Inr db
      | Some command \<Rightarrow>
        if cc_resource command \<noteq> Some (ResCONTRACT_RENDERING, contractId) then Inr db
        else rbind (update_contract contractId (\<lambda>c. c\<lparr>ct_status := CtCANCELLED\<rparr>) db) (\<lambda>db1.
          rbind (write_changes (snd (update_many (\<lambda>c. ch_contractId c = Some contractId \<and> ch_id c = changeId)
            (\<lambda>c. c\<lparr>ch_contractId := None\<rparr>) (db_changes db1))) db1) (\<lambda>db2.
          Inr (db2\<lparr>db_commands := filter (\<lambda>c. cc_id c \<noteq> commandId) (db_commands db2)\<rparr>))))"

section \<open>Archival of the signed agreement\<close>

datatype finalize_result = SegmentScheduled id | ChangeScheduled id | SegmentDuplicate id
  | ChangeDuplicate id | LateEvidenceOnly

definition EXPIRY_WINS_CHANGE_STATUSES :: "change_status list" where
  "EXPIRY_WINS_CHANGE_STATUSES = [ChgCANCELLED, ChgFAILED, ChgMANUAL_TAKEOVER]"

definition EXPIRY_WINS_CONSIDERATION_STATUSES :: "consideration_status list" where
  "EXPIRY_WINS_CONSIDERATION_STATUSES = [EXPIRED, EXPIRY_CONFIRMED, ConsCANCELLED]"

definition CANCELLED_RENEWAL_JOB_TYPES :: "job_type list" where
  "CANCELLED_RENEWAL_JOB_TYPES = [RENEWAL_REMINDER_D30, RENEWAL_REMINDER_D14, RENEWAL_REMINDER_D3,
     RENEWAL_EXPIRY_PROCESS, RENEWAL_RETURN_OVERDUE_D1]"

fun stage3SourceType :: "change_type \<Rightarrow> string" where
  "stage3SourceType VEHICLE_SWAP = ''VEHICLE_SWAP_SUPPLEMENT''"
| "stage3SourceType EARLY_TERMINATION = ''EARLY_TERMINATION_SUPPLEMENT''"
| "stage3SourceType MANAGED_OTHER = ''MANAGED_OTHER_SUPPLEMENT''"
| "stage3SourceType EXTENSION = ''SUBSCRIPTION_EXTENSION''"

definition attempt_digits :: "string \<Rightarrow> bool" where
  "attempt_digits s = (case s of [] \<Rightarrow> False
     | c # cs \<Rightarrow> c \<in> set ''123456789'' \<and> list_all (\<lambda>d. d \<in> set ''0123456789'') cs)"

definition isStage3AttemptKey :: "string option \<Rightarrow> id \<Rightarrow> bool" where
  "isStage3AttemptKey sourceKey changeOrderId = (case sourceKey of None \<Rightarrow> False
     | Some key \<Rightarrow> let prefix = ''subscription-change:'' @ changeOrderId @ '':esign:attempt:'' in
         take (length prefix) key = prefix \<and> attempt_digits (drop (length prefix) key))"

definition assertArchivedEvidence :: "esign_task option \<Rightarrow> id \<Rightarrow> change_order \<Rightarrow> (sub_error, unit) result" where
  "assertArchivedEvidence found contractId change =
     ensure (case found of None \<Rightarrow> False
       | Some task \<Rightarrow> et_contractId task = contractId
           \<and> et_signingStage task = STAGE3_SUBSCRIPTION_EXTENSION
           \<and> et_documentType task = SUBSCRIPTION_EXTENSION_AGREEMENT \<and> et_status task = TaskCOMPLETED
           \<and> (case et_signedDocumentObjectKey task of None \<Rightarrow> False | Some k \<Rightarrow> k \<noteq> [])
           \<and> et_sourceId task = Some (ch_id change)
           \<and> et_sourceType task = Some (stage3SourceType (ch_changeType change))
           \<and> isStage3AttemptKey (et_sourceKey task) (ch_id change))
       (changeError ''STAGE3_SIGNED_ARTIFACT_REQUIRED'')"

definition expiryWins :: "change_order \<Rightarrow> consideration_status option \<Rightarrow> time \<Rightarrow> bool" where
  "expiryWins change considerationStatus decisionAt =
     (decisionAt \<ge> ch_completionDeadlineAt change
      \<or> ch_status change \<in> set EXPIRY_WINS_CHANGE_STATUSES
      \<or> (case considerationStatus of None \<Rightarrow> False
         | Some s \<Rightarrow> s \<in> set EXPIRY_WINS_CONSIDERATION_STATUSES))"

definition assertScheduleSource ::
    "change_order \<Rightarrow> extension_projection \<Rightarrow> consideration_status option \<Rightarrow> 'a change_db_scheme
      \<Rightarrow> (sub_error, change_quote) result" where
  "assertScheduleSource change xp considerationStatus db =
     (case findQuote (ch_confirmedQuoteId change) db of
        None \<Rightarrow> Inl (changeError ''STAGE3_EXTENSION_STATE_INVALID'')
      | Some qt \<Rightarrow>
        rbind (ensure (ch_status change = ChgSIGNING_OR_PAYMENT
            \<and> findContract (ch_contractId change) db \<noteq> None
            \<and> Some (xp_targetStartDate xp) = shiftUtcDays (sg_endDate (xp_sourceSegment xp)) 1
            \<and> (case considerationStatus of None \<Rightarrow> True
               | Some s \<Rightarrow> s = EXTENSION_IN_PROGRESS \<or> s = RENEWAL_REQUESTED))
          (changeError ''STAGE3_EXTENSION_STATE_INVALID'')) (\<lambda>_. Inr qt))"

definition archiveContractEvidence :: "id \<Rightarrow> time \<Rightarrow> time \<Rightarrow> sub_db \<Rightarrow> (sub_error, sub_db) result" where
  "archiveContractEvidence contractId completedAt archivedAt db =
     update_contract contractId (\<lambda>c. c\<lparr>ct_archivedAt := Some archivedAt,
       ct_signedAt := Some completedAt, ct_status := CtARCHIVED\<rparr>) db"

definition extension_segment ::
    "id \<Rightarrow> id \<Rightarrow> change_order \<Rightarrow> extension_projection \<Rightarrow> commercial_terms \<Rightarrow> canonical \<Rightarrow> contract_segment" where
  "extension_segment newId contractId change xp terms contractSnapshot =
     \<lparr> sg_id = newId, sg_orderId = ch_orderId change, sg_segmentType = SegEXTENSION,
       sg_sequenceNo = sg_sequenceNo (xp_sourceSegment xp) + 1, sg_status = SegSCHEDULED,
       sg_startDate = xp_targetStartDate xp, sg_endDate = xp_targetEndDate xp,
       sg_sourceContractId = Some contractId, sg_sourceChangeOrderId = Some (ch_id change),
       sg_terms = terms, sg_contractSnapshot = contractSnapshot, sg_activatedAt = None,
       sg_completedAt = None, sg_createdBy = None \<rparr>"

definition plain_job :: "string \<Rightarrow> job_type \<Rightarrow> time \<Rightarrow> id \<Rightarrow> enqueue_input" where
  "plain_job key jobType availableAt orderId = \<lparr> eq_availableAt = availableAt, eq_billId = None,
     eq_billingScheduleId = None, eq_idempotencyKey = key, eq_jobType = jobType,
     eq_maxAttempts = None, eq_orderId = Some orderId \<rparr>"

definition activation_job_key :: "contract_segment \<Rightarrow> string" where
  "activation_job_key s = ''extension-activate:'' @ sg_id s @ '':'' @ iso_date (sg_startDate s)"

definition enqueueActivation :: "id \<Rightarrow> time \<Rightarrow> id \<Rightarrow> contract_segment \<Rightarrow> sub_db \<Rightarrow> (sub_error, sub_db) result" where
  "enqueueActivation newId now changeId s db = (case shanghaiStartOfDate (Some (sg_startDate s)) of
     None \<Rightarrow> Inl InvalidValue
   | Some availableAt \<Rightarrow> Inr (enqueueLinked newId now
       (plain_job (activation_job_key s) EXTENSION_SEGMENT_ACTIVATE availableAt (sg_orderId s))
       (Some changeId) (Some (sg_id s)) None
       [(''segmentId'', sg_id s), (''startDate'', iso_date (sg_startDate s))] db))"

definition settleConsideration :: "id option \<Rightarrow> time \<Rightarrow> sub_db \<Rightarrow> sub_db" where
  "settleConsideration considerationId completedAt db = (case considerationId of None \<Rightarrow> db
     | Some r0 \<Rightarrow> (update_considerations (\<lambda>r. rc_id r = r0)
           (\<lambda>r. r\<lparr>rc_status := EXTENDED, rc_version := rc_version r + 1\<rparr>) db)
         \<lparr>db_reminders := snd (update_many (\<lambda>r. rr_considerationId r = r0
             \<and> (rr_status r = RemPENDING \<or> rr_status r = RemFAILED))
           (\<lambda>r. r\<lparr>rr_status := RemCANCELLED, rr_cancelledAt := Some completedAt\<rparr>) (db_reminders db))\<rparr>)"

definition cancelRenewalJobs :: "id \<Rightarrow> id option \<Rightarrow> sub_db \<Rightarrow> sub_db" where
  "cancelRenewalJobs changeId considerationId db = db\<lparr>db_jobs := snd (update_many
     (\<lambda>j. jb_jobType (cj_job j) \<in> set CANCELLED_RENEWAL_JOB_TYPES
        \<and> (cj_changeOrderId j = Some changeId
           \<or> (considerationId \<noteq> None \<and> cj_renewalConsiderationId j = considerationId))
        \<and> (job_state j = PENDING \<or> job_state j = PROCESSING))
     (\<lambda>j. j\<lparr>cj_job := (cj_job j)\<lparr>jb_jobStatus := CANCELLED\<rparr>\<rparr>) (db_jobs db))\<rparr>"

record archive_input =
  ai_completedAt :: time
  ai_contractId :: id
  ai_taskId :: id
  ai_decisionAt :: time
  ai_newSegmentId :: id
  ai_newJobId :: id

definition finalizeExtension ::
    "change_order \<Rightarrow> archive_input \<Rightarrow> sub_db \<Rightarrow> (sub_error, finalize_result \<times> sub_db) result" where
  "finalizeExtension change input db =
     rbind (requireExtensionChangeProjection change db) (\<lambda>xp.
     case (if ch_status change = ChgSCHEDULED then targetSegment (ch_id change) db else None) of
       Some existing \<Rightarrow> Inr (SegmentDuplicate (sg_id existing), db)
     | None \<Rightarrow>
       rbind (archiveContractEvidence (ai_contractId input) (ai_completedAt input) (ai_decisionAt input) db) (\<lambda>db1.
       let consideration = findConsideration (ch_renewalConsiderationId change) db1 in
       if expiryWins change (map_option rc_status consideration) (ai_decisionAt input)
       then Inr (LateEvidenceOnly, db1)
       else
         rbind (assertScheduleSource change xp (map_option rc_status consideration) db1) (\<lambda>qt.
         let segment = extension_segment (ai_newSegmentId input) (ai_contractId input) change xp
               (cq_terms qt) (case findContract (ch_contractId change) db of None \<Rightarrow> CNull
                  | Some c \<Rightarrow> ct_contractSnapshot c) in
         rbind (write_segments (db_segments db1 @ [segment]) db1) (\<lambda>db2.
         rbind (enqueueActivation (ai_newJobId input) (ai_decisionAt input) (ch_id change) segment db2) (\<lambda>db3.
         rbind (update_change (ch_id change) (\<lambda>c. c\<lparr>ch_status := ChgSCHEDULED,
           ch_version := ch_version c + 1\<rparr>) db3) (\<lambda>db4.
         Inr (SegmentScheduled (sg_id segment),
           cancelRenewalJobs (ch_id change) (ch_renewalConsiderationId change)
             (settleConsideration (ch_renewalConsiderationId change) (ai_completedAt input) db4))))))))"

text \<open>
  The other three types have the same frame: duplicate, evidence, expiry, then a
  guard of their own.
\<close>

definition finalizeOther ::
    "string \<Rightarrow> bool \<Rightarrow> change_order \<Rightarrow> archive_input \<Rightarrow> sub_db \<Rightarrow> (sub_error, finalize_result \<times> sub_db) result" where
  "finalizeOther errorCode ready change input db =
     (if ch_status change = ChgSCHEDULED then Inr (ChangeDuplicate (ch_id change), db)
      else rbind (archiveContractEvidence (ai_contractId input) (ai_completedAt input) (ai_decisionAt input) db) (\<lambda>db1.
        if ai_decisionAt input \<ge> ch_completionDeadlineAt change
           \<or> ch_status change \<in> set EXPIRY_WINS_CHANGE_STATUSES
        then Inr (LateEvidenceOnly, db1)
        else
          rbind (ensure (ch_status change = ChgSIGNING_OR_PAYMENT
              \<and> findContract (ch_contractId change) db \<noteq> None
              \<and> ch_contractId change = Some (ai_contractId input) \<and> ready)
            (changeError errorCode)) (\<lambda>_.
          rbind (update_change (ch_id change) (\<lambda>c. c\<lparr>ch_status := ChgSCHEDULED,
            ch_version := ch_version c + 1\<rparr>) db1) (\<lambda>db2.
          Inr (ChangeScheduled (ch_id change), db2)))))"

definition finalizeVehicleSwap ::
    "change_order \<Rightarrow> archive_input \<Rightarrow> sub_db \<Rightarrow> (sub_error, finalize_result \<times> sub_db) result" where
  "finalizeVehicleSwap change input db =
     rbind (ensure (ch_swapTargetVehicleId change \<noteq> None)
       (changeError ''STAGE3_VEHICLE_SWAP_DETAIL_REQUIRED'')) (\<lambda>_.
     finalizeOther ''STAGE3_VEHICLE_SWAP_STATE_INVALID''
       ((case findQuote (ch_confirmedQuoteId change) db of None \<Rightarrow> False
         | Some qt \<Rightarrow> cq_status qt = QuCUSTOMER_CONFIRMED)
        \<and> map_option vh_status (findVehicle (ch_swapTargetVehicleId change) db) = Some VehREVIEW_RESERVED)
       change input db)"

definition finalizeEarlyTermination ::
    "change_order \<Rightarrow> archive_input \<Rightarrow> sub_db \<Rightarrow> (sub_error, finalize_result \<times> sub_db) result" where
  "finalizeEarlyTermination change input db =
     finalizeOther ''STAGE3_EARLY_TERMINATION_STATE_INVALID''
       (case ch_earlyTerminationDetail change of None \<Rightarrow> False
        | Some d \<Rightarrow> td_closureCaseId d \<noteq> None
            \<and> td_agreementContractId d = Some (ai_contractId input)) change input db"

definition finalizeManagedOther ::
    "change_order \<Rightarrow> archive_input \<Rightarrow> sub_db \<Rightarrow> (sub_error, finalize_result \<times> sub_db) result" where
  "finalizeManagedOther change input db =
     finalizeOther ''STAGE3_MANAGED_OTHER_STATE_INVALID''
       (ch_supplementContractId change = Some (ai_contractId input)) change input db"

definition finalizeArchivedContract ::
    "archive_input \<Rightarrow> sub_db \<Rightarrow> (sub_error, finalize_result \<times> sub_db) result" where
  "finalizeArchivedContract input db =
     (case List.find (\<lambda>c. ch_contractId c = Some (ai_contractId input)) (db_changes db) of
        None \<Rightarrow> Inl (changeError ''STAGE3_EXTENSION_CHANGE_NOT_FOUND'')
      | Some change \<Rightarrow>
        rbind (assertArchivedEvidence (find_row et_id (ai_taskId input) (db_tasks db))
          (ai_contractId input) change) (\<lambda>_.
        case ch_changeType change of
          EARLY_TERMINATION \<Rightarrow> finalizeEarlyTermination change input db
        | MANAGED_OTHER \<Rightarrow> finalizeManagedOther change input db
        | VEHICLE_SWAP \<Rightarrow> finalizeVehicleSwap change input db
        | EXTENSION \<Rightarrow> finalizeExtension change input db))"

section \<open>Activation\<close>

text \<open>
  \<open>grantKeys\<close> gives the identities (type and unit) of the entitlements of a plan
  snapshot, in the order the code sorts them; the builder of the entitlements is
  part of the order service.
\<close>

definition CONTINUATION_JOB_TYPES :: "job_type list" where
  "CONTINUATION_JOB_TYPES = [EXTENSION_BILLING_RESUME, EXTENSION_ENTITLEMENT_RENEW,
     EXTENSION_EFFECTIVE_NOTICE]"

definition entitlementIdempotencyKey :: "id \<Rightarrow> id \<Rightarrow> time \<Rightarrow> string \<Rightarrow> string" where
  "entitlementIdempotencyKey orderId segmentId periodStart grantIdentity =
     ''extension-entitlement:'' @ orderId @ '':'' @ segmentId @ '':'' @ iso_date periodStart @ '':'' @ grantIdentity"

definition continuationJobs ::
    "id \<Rightarrow> id \<Rightarrow> time \<Rightarrow> string list \<Rightarrow> (string \<times> job_type \<times> (string \<times> string) list) list" where
  "continuationJobs orderId segmentId periodStart grants =
     [(''extension-billing-resume:'' @ orderId @ '':'' @ segmentId, EXTENSION_BILLING_RESUME, []),
      (''extension-effective-notice:'' @ orderId @ '':'' @ segmentId, EXTENSION_EFFECTIVE_NOTICE, [])]
     @ (if grants = []
        then [(entitlementIdempotencyKey orderId segmentId periodStart ''ACCOUNT'',
           EXTENSION_ENTITLEMENT_RENEW, [(''periodStart'', iso_date periodStart)])]
        else map (\<lambda>g. (entitlementIdempotencyKey orderId segmentId periodStart g,
           EXTENSION_ENTITLEMENT_RENEW,
           [(''entitlementKey'', g), (''periodStart'', iso_date periodStart)])) grants)"

fun enqueueContinuations ::
    "(nat \<Rightarrow> id) \<Rightarrow> time \<Rightarrow> id \<Rightarrow> contract_segment \<Rightarrow> (string \<times> job_type \<times> (string \<times> string) list) list
      \<Rightarrow> sub_db \<Rightarrow> sub_db" where
  "enqueueContinuations newIds now changeId s [] db = db"
| "enqueueContinuations newIds now changeId s ((key, jobType, payload) # js) db =
     enqueueContinuations newIds now changeId s js
       (enqueueLinked (newIds (length js)) now (plain_job key jobType now (sg_orderId s))
         (Some changeId) (Some (sg_id s)) None payload db)"

definition enqueueContinuationJobs ::
    "(canonical \<Rightarrow> string list) \<Rightarrow> (nat \<Rightarrow> id) \<Rightarrow> time \<Rightarrow> id \<Rightarrow> contract_segment \<Rightarrow> sub_db \<Rightarrow> sub_db" where
  "enqueueContinuationJobs grantKeys newIds now changeId s db =
     enqueueContinuations newIds now changeId s (continuationJobs (sg_orderId s) (sg_id s)
       (sg_startDate s) (grantKeys (tm_planSnapshot (sg_terms s)))) db"

definition switchSegments ::
    "time \<Rightarrow> contract_segment \<Rightarrow> change_order \<Rightarrow> contract_segment \<Rightarrow> sub_db \<Rightarrow> (sub_error, sub_db) result" where
  "switchSegments now segment change source db =
     (let prior = update_many (\<lambda>s. sg_id s = sg_id source \<and> sg_status s = SegACTIVE)
            (\<lambda>s. s\<lparr>sg_completedAt := Some now, sg_status := SegCOMPLETED\<rparr>) (db_segments db) in
      rbind (write_segments (snd prior) db) (\<lambda>db1.
      let activated = update_many (\<lambda>s. sg_id s = sg_id segment \<and> sg_status s = SegSCHEDULED)
            (\<lambda>s. s\<lparr>sg_activatedAt := Some now, sg_status := SegACTIVE\<rparr>) (db_segments db1) in
      rbind (write_segments (snd activated) db1) (\<lambda>db2.
      let executing = update_many (\<lambda>c. ch_id c = ch_id change \<and> ch_status c = ChgSCHEDULED
              \<and> ch_version c = ch_version change)
            (\<lambda>c. c\<lparr>ch_failureCode := None, ch_status := ChgEXECUTING, ch_version := ch_version c + 1\<rparr>)
            (db_changes db2) in
      rbind (write_changes (snd executing) db2) (\<lambda>db3.
      rbind (ensure (fst prior = 1 \<and> fst activated = 1 \<and> fst executing = 1)
        (changeError ''EXTENSION_ACTIVATION_CONFLICT'')) (\<lambda>_. Inr db3)))))"

definition activate ::
    "(canonical \<Rightarrow> string list) \<Rightarrow> (nat \<Rightarrow> id) \<Rightarrow> id \<Rightarrow> time \<Rightarrow> sub_db \<Rightarrow> (sub_error, change_status \<times> sub_db) result" where
  "activate grantKeys newIds segmentId now db =
     (case (case findSegment segmentId db of None \<Rightarrow> None
        | Some s \<Rightarrow> (case sg_sourceChangeOrderId s of None \<Rightarrow> None
          | Some c \<Rightarrow> map_option (Pair s) (findChange c db))) of
        None \<Rightarrow> Inl (changeError ''EXTENSION_ACTIVATION_SOURCE_MISSING'')
      | Some (segment, change) \<Rightarrow>
        rbind (requireExtensionChangeProjection change db) (\<lambda>xp.
        rbind (ensure (case shanghaiStartOfDate (Some (sg_startDate segment)) of None \<Rightarrow> True
            | Some d \<Rightarrow> \<not> now < d) (changeError ''EXTENSION_ACTIVATION_NOT_DUE'')) (\<lambda>_.
        rbind (if sg_status segment = SegSCHEDULED \<and> ch_status change = ChgSCHEDULED
          then switchSegments now segment change (xp_sourceSegment xp) db
          else if sg_status segment \<noteq> SegACTIVE
              \<or> (ch_status change \<noteq> ChgEXECUTING \<and> ch_status change \<noteq> ChgCOMPLETED)
          then Inl (changeError ''EXTENSION_ACTIVATION_STATE_INVALID'')
          else Inr db) (\<lambda>db1.
        Inr (if ch_status change = ChgCOMPLETED then ChgCOMPLETED else ChgEXECUTING,
          enqueueContinuationJobs grantKeys newIds now (ch_id change) segment db1)))))"

definition completeIfReady :: "id \<Rightarrow> sub_db \<Rightarrow> bool \<times> sub_db" where
  "completeIfReady changeId db =
     (case findChange changeId db of
        None \<Rightarrow> (False, db)
      | Some change \<Rightarrow>
        if ch_status change = ChgCOMPLETED then (True, db)
        else if ch_status change \<noteq> ChgEXECUTING then (False, db)
        else
          let jobs = filter (\<lambda>j. cj_changeOrderId j = Some changeId
                \<and> jb_jobType (cj_job j) \<in> set CONTINUATION_JOB_TYPES) (db_jobs db);
              completedTypes = map (\<lambda>j. jb_jobType (cj_job j)) (filter (\<lambda>j. job_state j = COMPLETED) jobs) in
          if list_ex (\<lambda>t. t \<notin> set completedTypes) [EXTENSION_BILLING_RESUME, EXTENSION_EFFECTIVE_NOTICE]
             \<or> list_ex (\<lambda>j. job_state j \<noteq> COMPLETED) jobs
          then (False, db)
          else
            let updated = update_many (\<lambda>c. ch_id c = ch_id change \<and> ch_status c = ChgEXECUTING
                  \<and> ch_version c = ch_version change)
                (\<lambda>c. c\<lparr>ch_failureCode := None, ch_status := ChgCOMPLETED, ch_version := ch_version c + 1\<rparr>)
                (db_changes db) in
            (fst updated = 1, db\<lparr>db_changes := snd updated\<rparr>))"

text \<open>What the worker does when a job of the extension has exhausted its retries.\<close>

definition markManualTakeover :: "time \<Rightarrow> change_job \<Rightarrow> failure \<Rightarrow> sub_db \<Rightarrow> bool \<times> sub_db" where
  "markManualTakeover now job failed db =
     (case cj_changeOrderId job of
        None \<Rightarrow> (False, db)
      | Some changeId \<Rightarrow>
        if jb_jobType (cj_job job) \<notin> set (EXTENSION_SEGMENT_ACTIVATE # CONTINUATION_JOB_TYPES)
        then (False, db)
        else
          let updated = update_many (\<lambda>c. ch_id c = changeId
                \<and> (ch_status c = ChgSCHEDULED \<or> ch_status c = ChgEXECUTING))
              (\<lambda>c. c\<lparr>ch_failureCode := Some (fl_code failed), ch_manualTakeoverAt := Some now,
                 ch_manualTakeoverReason := Some (ascii (''Automation job '' @ job_id job @ '' exhausted retries.'')),
                 ch_status := ChgMANUAL_TAKEOVER, ch_version := ch_version c + 1\<rparr>) (db_changes db) in
          (fst updated = 1, db\<lparr>db_changes := snd updated\<rparr>))"

section \<open>Expiry\<close>

definition EXPIRABLE_CHANGE_STATUSES :: "change_status list" where
  "EXPIRABLE_CHANGE_STATUSES = [ChgDRAFT, ChgQUOTED, ChgCUSTOMER_CONFIRMED, ChgSIGNING_OR_PAYMENT,
     ChgSCHEDULED, ChgEXECUTING, ChgMANUAL_TAKEOVER]"

datatype expiry_outcome = ExpiryEXPIRED id | ExpiryEXTENDED | ExpiryDUPLICATE "id option"

definition findEffectiveNextSegment :: "contract_segment \<Rightarrow> 'a segment_db_scheme \<Rightarrow> contract_segment option" where
  "findEffectiveNextSegment segment db = earliest_by sg_sequenceNo
     (\<lambda>s. sg_orderId s = sg_orderId segment \<and> sg_sequenceNo s > sg_sequenceNo segment
        \<and> Some (sg_startDate s) = addUtcDays (Some (sg_endDate segment)) 1
        \<and> (sg_status s = SegSCHEDULED \<or> sg_status s = SegACTIVE)) (db_segments db)"

definition expiryDeadline :: "contract_segment \<Rightarrow> js_date" where
  "expiryDeadline segment = shanghaiStartOfDate (addUtcDays (Some (sg_endDate segment)) 1)"

definition beforeDate :: "time \<Rightarrow> js_date \<Rightarrow> bool" where
  "beforeDate t d = (case d of None \<Rightarrow> False | Some e \<Rightarrow> t < e)"

definition failExpiredChange :: "change_order option \<Rightarrow> sub_db \<Rightarrow> sub_db" where
  "failExpiredChange found db = (case found of None \<Rightarrow> db
     | Some change \<Rightarrow>
       if ch_status change \<in> set EXPIRABLE_CHANGE_STATUSES
       then db\<lparr>db_changes := snd (update_many (\<lambda>c. ch_id c = ch_id change
             \<and> ch_status c = ch_status change \<and> ch_version c = ch_version change)
           (\<lambda>c. c\<lparr>ch_failureCode := Some ''EXTENSION_DEADLINE_MISSED'', ch_status := ChgFAILED,
              ch_version := ch_version c + 1\<rparr>) (db_changes db))\<rparr>
       else db)"

definition new_return :: "id \<Rightarrow> id \<Rightarrow> id \<Rightarrow> js_date \<Rightarrow> vehicle_return" where
  "new_return newId orderId vehicleId scheduledAt = \<lparr> vr_id = newId, vr_orderId = orderId,
     vr_vehicleId = vehicleId, vr_status = RetPENDING, vr_normal = True, vr_scheduledAt = scheduledAt,
     vr_returnedAt = None, vr_deletedAt = None \<rparr>"

definition ensureReturn ::
    "vehicle_return option \<Rightarrow> id \<Rightarrow> id \<Rightarrow> id \<Rightarrow> js_date \<Rightarrow> sub_db \<Rightarrow> id \<times> sub_db" where
  "ensureReturn existing preparedId orderId vehicleId deadline db = (case existing of
     None \<Rightarrow> (preparedId, db\<lparr>db_returns := db_returns db @ [new_return preparedId orderId vehicleId deadline]\<rparr>)
   | Some r \<Rightarrow>
     (vr_id r, if vr_status r = RetCANCELLED \<or> vr_deletedAt r \<noteq> None
       then db\<lparr>db_returns := upd_row vr_id (vr_id r) (\<lambda>r. r\<lparr>vr_deletedAt := None,
         vr_status := RetPENDING, vr_normal := True, vr_scheduledAt := deadline\<rparr>) (db_returns db)\<rparr>
       else db))"

text \<open>
  What the closure service answers: \<open>ec_prepared\<close>, the id of the vehicle return it
  prepared, and \<open>ec_completed\<close>, whether it accepts a return at the end; either may
  throw.  \<open>seen\<close> is the state the statements before its locks read, at the isolation
  level read committed.
\<close>

record expiry_closure =
  ec_prepared :: "(sub_error, id) result"
  ec_completed :: "id \<Rightarrow> (sub_error, unit) result"

definition liveReturn :: "vehicle_return option \<Rightarrow> bool" where
  "liveReturn found = (case found of None \<Rightarrow> False
     | Some r \<Rightarrow> vr_deletedAt r = None \<and> vr_status r \<noteq> RetCANCELLED)"

definition expireRows :: "contract_segment \<Rightarrow> time \<Rightarrow> sub_order \<Rightarrow> lease \<Rightarrow> sub_db \<Rightarrow> (sub_error, sub_db) result" where
  "expireRows segment decisionAt order ls db =
     (let consideration = List.find (\<lambda>r. rc_segmentId r = sg_id segment) (db_considerations db);
          change = latest_by ch_createdAt (\<lambda>c. ch_orderId c = so_id order
            \<and> ch_sourceSegmentId c = Some (sg_id segment)) (db_changes db) in
      rbind (if sg_status segment = SegACTIVE
        then write_segments (snd (update_many (\<lambda>s. sg_id s = sg_id segment \<and> sg_status s = SegACTIVE)
          (\<lambda>s. s\<lparr>sg_completedAt := Some decisionAt, sg_status := SegCOMPLETED\<rparr>) (db_segments db))) db
        else Inr db) (\<lambda>db1.
      let db2 = (case consideration of None \<Rightarrow> db1
            | Some r0 \<Rightarrow> if rc_status r0 = EXPIRED then db1
              else update_considerations (\<lambda>r. rc_id r = rc_id r0 \<and> rc_version r = rc_version r0)
                (\<lambda>r. r\<lparr>rc_status := EXPIRED, rc_version := rc_version r + 1\<rparr>) db1);
          db3 = failExpiredChange change db2 in
      Inr (db3\<lparr>db_orders := snd (update_many (\<lambda>q. so_id q = so_id order \<and> so_orderStatus q = OrdACTIVE)
             (\<lambda>q. q\<lparr>so_orderStatus := OrdPENDING_RETURN\<rparr>) (db_orders db3)),
           db_leases := snd (update_many (\<lambda>l. ls_id l = ls_id ls \<and> ls_status l = LeaseACTIVE)
             (\<lambda>l. l\<lparr>ls_status := LeaseRETURN_DUE\<rparr>) (db_leases db3))\<rparr>)))"

definition expireWithLocks ::
    "expiry_closure \<Rightarrow> contract_segment \<Rightarrow> time \<Rightarrow> sub_db \<Rightarrow> (sub_error, expiry_outcome \<times> sub_db) result" where
  "expireWithLocks closure initialSegment decisionAt db =
     rbind (ec_prepared closure) (\<lambda>preparedReturnId.
     case findSegment (sg_id initialSegment) db of
       None \<Rightarrow> Inl (changeError ''SUBSCRIPTION_EXPIRY_SEGMENT_MISSING'')
     | Some segment \<Rightarrow>
       rbind (ensure (sg_orderId segment = sg_orderId initialSegment)
         (changeError ''SUBSCRIPTION_EXPIRY_SEGMENT_MISSING'')) (\<lambda>_.
       rbind (ensure (\<not> beforeDate decisionAt (expiryDeadline segment))
         (changeError ''SUBSCRIPTION_EXPIRY_NOT_DUE'')) (\<lambda>_.
       if findEffectiveNextSegment segment db \<noteq> None then Inr (ExpiryEXTENDED, db)
       else
         case (case findOrder (sg_orderId segment) db of None \<Rightarrow> None
             | Some order \<Rightarrow> map_option (Pair order) (so_vehicleId order)) of
           None \<Rightarrow> Inl (changeError ''SUBSCRIPTION_EXPIRY_ORDER_INCOMPLETE'')
         | Some (order, vehicleId) \<Rightarrow>
           let existingReturn = find_row vr_orderId (so_id order) (db_returns db) in
           if sg_status segment = SegCOMPLETED \<and> so_orderStatus order = OrdPENDING_RETURN
             \<and> liveReturn existingReturn
           then rbind (ec_completed closure (vr_id (the existingReturn))) (\<lambda>_.
             Inr (ExpiryDUPLICATE (map_option vr_id existingReturn), db))
           else if so_orderStatus order \<noteq> OrdACTIVE
           then Inr (ExpiryDUPLICATE (map_option vr_id existingReturn), db)
           else
             case find_row ls_orderId (so_id order) (db_leases db) of
               None \<Rightarrow> Inl (changeError ''SUBSCRIPTION_EXPIRY_LEASE_INVALID'')
             | Some ls \<Rightarrow>
               rbind (ensure (ls_status ls = LeaseACTIVE) (changeError ''SUBSCRIPTION_EXPIRY_LEASE_INVALID'')) (\<lambda>_.
               rbind (expireRows segment decisionAt order ls db) (\<lambda>db4.
               let returned = ensureReturn existingReturn preparedReturnId (so_id order) vehicleId
                     (expiryDeadline segment) db4 in
               rbind (ec_completed closure (fst returned)) (\<lambda>_.
               Inr (ExpiryEXPIRED (fst returned), snd returned)))))))"

definition expireSegment ::
    "expiry_closure \<Rightarrow> id \<Rightarrow> time \<Rightarrow> sub_db \<Rightarrow> sub_db \<Rightarrow> (sub_error, expiry_outcome \<times> sub_db) result" where
  "expireSegment closure segmentId decisionAt seen db =
     (case findSegment segmentId seen of
        None \<Rightarrow> Inl (changeError ''SUBSCRIPTION_EXPIRY_SEGMENT_MISSING'')
      | Some initialSegment \<Rightarrow>
        rbind (ensure (\<not> beforeDate decisionAt (expiryDeadline initialSegment))
          (changeError ''SUBSCRIPTION_EXPIRY_NOT_DUE'')) (\<lambda>_.
        if findEffectiveNextSegment initialSegment seen \<noteq> None then Inr (ExpiryEXTENDED, db)
        else expireWithLocks closure initialSegment decisionAt db))"

definition flagOverdueReturn :: "id \<Rightarrow> time \<Rightarrow> sub_db \<Rightarrow> bool" where
  "flagOverdueReturn orderId now db =
     (case (findOrder orderId db, find_row vr_orderId orderId (db_returns db)) of
        (Some order, Some r) \<Rightarrow>
          so_orderStatus order = OrdPENDING_RETURN \<and> vr_status r \<noteq> RetCONFIRMED \<and> vr_returnedAt r = None
          \<and> (case latest_by sg_sequenceNo (\<lambda>s. sg_orderId s = orderId) (db_segments db) of
               None \<Rightarrow> False
             | Some s \<Rightarrow> \<not> beforeDate now (shanghaiStartOfDate (addUtcDays (Some (sg_endDate s)) 2)))
      | _ \<Rightarrow> False)"

section \<open>The other writers of segments\<close>

text \<open>
  The switch of a vehicle swap, once nothing blocks it: \<open>businessDate\<close> is the
  Shanghai day of the instant \<open>now\<close>.  \<open>None\<close> is the answer that it waits.
\<close>

definition switchSwapSegment ::
    "id \<Rightarrow> id \<Rightarrow> time \<Rightarrow> sub_db \<Rightarrow> (sub_error, sub_db option) result" where
  "switchSwapSegment changeId newSegmentId now db =
     (case findChange changeId db of None \<Rightarrow> Inr None
      | Some change \<Rightarrow>
        if ch_changeType change \<noteq> VEHICLE_SWAP \<or> ch_status change \<noteq> ChgEXECUTING then Inr None
        else case (case ch_sourceSegmentId change of None \<Rightarrow> None | Some s \<Rightarrow> findSegment s db,
              findQuote (ch_confirmedQuoteId change) db, findContract (ch_contractId change) db,
              shanghaiBusinessDate (Some now)) of
          (Some source, Some qt, Some c, Some businessDate) \<Rightarrow>
            if sg_status source \<noteq> SegACTIVE \<or> ct_status c \<noteq> CtARCHIVED \<or> ct_fileId c = None
              \<or> cq_status qt \<noteq> QuCUSTOMER_CONFIRMED
              \<or> businessDate \<le> sg_startDate source \<or> businessDate > sg_endDate source then Inr None
            else (case addUtcDays (Some businessDate) (- 1) of None \<Rightarrow> Inl InvalidValue
              | Some lastDay \<Rightarrow>
                rbind (write_segments (upd_row sg_id (sg_id source) (\<lambda>s. s\<lparr>sg_completedAt := Some now,
                  sg_endDate := lastDay, sg_status := SegCOMPLETED\<rparr>) (db_segments db)) db) (\<lambda>db1.
                rbind (write_segments (db_segments db1 @ [\<lparr> sg_id = newSegmentId, sg_orderId = ch_orderId change,
                  sg_segmentType = SegVEHICLE_SWAP, sg_sequenceNo = sg_sequenceNo source + 1,
                  sg_status = SegACTIVE, sg_startDate = businessDate, sg_endDate = sg_endDate source,
                  sg_sourceContractId = ch_contractId change, sg_sourceChangeOrderId = Some (ch_id change),
                  sg_terms = cq_terms qt, sg_contractSnapshot = ct_contractSnapshot c,
                  sg_activatedAt = Some now, sg_completedAt = None, sg_createdBy = None \<rparr>]) db1) (\<lambda>db2.
                Inr (Some db2))))
        | _ \<Rightarrow> Inr None)"

record termination_authority =
  ta_segmentId :: id
  ta_orderId :: id
  ta_leaseId :: id
  ta_contractId :: id
  ta_closureCaseId :: id
  ta_effectiveAt :: time

definition applyEarlyTerminationCoreBoundary :: "termination_authority \<Rightarrow> sub_db \<Rightarrow> (sub_error, sub_db) result" where
  "applyEarlyTerminationCoreBoundary a db =
     (let segment = update_many (\<lambda>s. sg_id s = ta_segmentId a \<and> sg_status s = SegACTIVE)
            (\<lambda>s. s\<lparr>sg_completedAt := Some (ta_effectiveAt a), sg_status := SegCOMPLETED\<rparr>) (db_segments db);
          order = update_many (\<lambda>q. so_id q = ta_orderId a \<and> so_orderStatus q = OrdACTIVE)
            (\<lambda>q. q\<lparr>so_orderStatus := OrdPENDING_RETURN\<rparr>) (db_orders db);
          ls = update_many (\<lambda>l. ls_id l = ta_leaseId a \<and> ls_status l = LeaseACTIVE)
            (\<lambda>l. l\<lparr>ls_status := LeaseRETURN_DUE\<rparr>) (db_leases db);
          contract = update_many (\<lambda>c. ct_id c = ta_contractId a \<and> ct_status c = CtSIGNED)
            (\<lambda>c. c\<lparr>ct_status := CtARCHIVED\<rparr>) (db_contracts db) in
      rbind (write_segments (snd segment) db) (\<lambda>db1.
      rbind (ensure (fst segment = 1 \<and> fst order = 1 \<and> fst ls = 1 \<and> fst contract = 1)
        (changeError ''AUTHORITY_MISMATCH'')) (\<lambda>_.
      let db2 = update_considerations (\<lambda>r. rc_orderId r = ta_orderId a
              \<and> rc_status r \<notin> set [EXTENDED, EXPIRED, ConsCANCELLED])
            (\<lambda>r. r\<lparr>rc_status := ConsCANCELLED, rc_version := rc_version r + 1\<rparr>)
            (db1\<lparr>db_orders := snd order, db_leases := snd ls, db_contracts := snd contract\<rparr>) in
      Inr (db2\<lparr>db_changes := snd (update_many (\<lambda>c.
          (case ch_earlyTerminationDetail c of None \<Rightarrow> True
           | Some d \<Rightarrow> td_closureCaseId d \<noteq> Some (ta_closureCaseId a))
          \<and> ch_orderId c = ta_orderId a \<and> ch_status c \<in> set ACTIVE_CHANGE_STATUSES)
        (\<lambda>c. c\<lparr>ch_failureCode := Some ''EARLY_TERMINATION_EFFECTIVE'', ch_status := ChgFAILED,
           ch_version := ch_version c + 1\<rparr>) (db_changes db2))\<rparr>))))"

end
