(* ===== verification/Renewals.thy ===== *)
theory Renewals
  imports ExtensionLifecycle
begin

text \<open>
  The enrolment of a segment for renewal and its reminders:
  \<open>renewal-consideration.service.ts\<close>.  A reminder goes out through the in-app
  notification and the SMS service; what they answer is an argument.  The listing
  and the audit log are left out.
\<close>

section \<open>Enrolment\<close>

definition reminderSlots :: "reminder_slot list" where
  "reminderSlots = [SlotD30, SlotD14, SlotD3]"

fun slot_code :: "reminder_slot \<Rightarrow> string" where
  "slot_code SlotD30 = ''D30''"
| "slot_code SlotD14 = ''D14''"
| "slot_code SlotD3 = ''D3''"

definition reminderJobKey :: "id \<Rightarrow> reminder_slot \<Rightarrow> string" where
  "reminderJobKey considerationId slot = ''renewal-reminder:'' @ considerationId @ '':'' @ slot_code slot"

fun reminderJobType :: "reminder_slot \<Rightarrow> job_type" where
  "reminderJobType SlotD30 = RENEWAL_REMINDER_D30"
| "reminderJobType SlotD14 = RENEWAL_REMINDER_D14"
| "reminderJobType SlotD3 = RENEWAL_REMINDER_D3"

fun slot_time :: "time \<times> time \<times> time \<Rightarrow> reminder_slot \<Rightarrow> time" where
  "slot_time (d30, d14, d3) SlotD30 = d30"
| "slot_time (d30, d14, d3) SlotD14 = d14"
| "slot_time (d30, d14, d3) SlotD3 = d3"

text \<open>
  The index of the last slot that is due: the loop overwrites the result, and
  begins with -1.
\<close>

definition latestApplicableReminderIndex :: "(reminder_slot \<Rightarrow> time) \<Rightarrow> time \<Rightarrow> int" where
  "latestApplicableReminderIndex reminders now =
     foldl (\<lambda>result (index, slot). if reminders slot \<le> now then int index else result) (- 1)
       (enumerate 0 reminderSlots)"

definition new_consideration :: "id \<Rightarrow> contract_segment \<Rightarrow> time \<Rightarrow> time \<Rightarrow> renewal_consideration" where
  "new_consideration newId segment deadline startAt =
     \<lparr> rc_id = newId, rc_orderId = sg_orderId segment, rc_segmentId = sg_id segment,
       rc_status = PENDING_DECISION, rc_decision = None, rc_decidedAt = None, rc_changeOrderId = None,
       rc_completionDeadlineAt = deadline, rc_considerationStartAt = startAt, rc_version = 0 \<rparr>"

definition upsertReminder :: "renewal_reminder \<Rightarrow> sub_db \<Rightarrow> renewal_reminder \<times> sub_db" where
  "upsertReminder created db =
     (case List.find (\<lambda>r. rr_considerationId r = rr_considerationId created \<and> rr_slot r = rr_slot created)
         (db_reminders db) of
        Some r \<Rightarrow> (r, db)
      | None \<Rightarrow> (created, db\<lparr>db_reminders := db_reminders db @ [created]\<rparr>))"

definition enqueueReminder ::
    "id \<Rightarrow> time \<Rightarrow> id \<Rightarrow> id \<Rightarrow> renewal_reminder \<Rightarrow> sub_db \<Rightarrow> sub_db" where
  "enqueueReminder newId now orderId segmentId reminder db = enqueueLinked newId now
     (plain_job (reminderJobKey (rr_considerationId reminder) (rr_slot reminder))
       (reminderJobType (rr_slot reminder)) (rr_scheduledAt reminder) orderId)
     None (Some segmentId) (Some (rr_considerationId reminder))
     [(''reminderId'', rr_id reminder), (''slot'', slot_code (rr_slot reminder))] db"

definition enrollReminder ::
    "(nat \<Rightarrow> id) \<Rightarrow> time \<Rightarrow> contract_segment \<Rightarrow> id \<Rightarrow> (reminder_slot \<Rightarrow> time) \<Rightarrow> nat \<times> reminder_slot
      \<Rightarrow> sub_db \<Rightarrow> sub_db" where
  "enrollReminder newIds now segment considerationId reminders indexed db =
     (case indexed of (index, slot) \<Rightarrow>
      let originalScheduledAt = reminders slot;
          skippedLate = (originalScheduledAt < now
            \<and> int index < latestApplicableReminderIndex reminders now);
          upserted = upsertReminder \<lparr> rr_id = newIds (2 * index), rr_considerationId = considerationId,
            rr_slot = slot,
            rr_status = (if skippedLate then RemSKIPPED_LATE_ENROLLMENT else RemPENDING),
            rr_scheduledAt = (if \<not> skippedLate \<and> originalScheduledAt < now then now
              else originalScheduledAt), rr_cancelledAt = None \<rparr> db;
          reminder = fst upserted in
      if rr_status reminder = RemPENDING
      then enqueueReminder (newIds (2 * index + 1)) now (sg_orderId segment) (sg_id segment) reminder
        (snd upserted)
      else snd upserted)"

text \<open>
  The generated ids are \<open>newIds\<close>; what the function answers is whether the segment
  is enrolled.
\<close>

definition enrollRows ::
    "contract_segment \<Rightarrow> time \<Rightarrow> time \<Rightarrow> time \<times> time \<times> time \<Rightarrow> time \<Rightarrow> (nat \<Rightarrow> id) \<Rightarrow> sub_db \<Rightarrow> sub_db" where
  "enrollRows segment deadline startAt days now newIds db =
     (let existing = List.find (\<lambda>r. rc_segmentId r = sg_id segment) (db_considerations db);
          consideration = (case existing of Some r \<Rightarrow> r
            | None \<Rightarrow> new_consideration (newIds 6) segment deadline startAt);
          db1 = (if existing \<noteq> None then db
            else db\<lparr>db_considerations := db_considerations db @ [consideration]\<rparr>);
          db2 = fold (enrollReminder newIds now segment (rc_id consideration) (slot_time days))
            (enumerate 0 reminderSlots) db1;
          db3 = enqueueLinked (newIds 7) now
            (plain_job (''renewal-expiry:'' @ sg_id segment @ '':'' @ iso_date (sg_endDate segment))
              RENEWAL_EXPIRY_PROCESS deadline (sg_orderId segment))
            None (Some (sg_id segment)) (Some (rc_id consideration)) [] db2 in
      enqueueLinked (newIds 8) now
        (plain_job (''renewal-return-overdue:'' @ sg_orderId segment @ '':'' @ iso_date (sg_endDate segment)
            @ '':D1'') RENEWAL_RETURN_OVERDUE_D1 (deadline + 86400000) (sg_orderId segment))
        None (Some (sg_id segment)) (Some (rc_id consideration)) [] db3)"

definition enrollable :: "contract_segment \<Rightarrow> sub_db \<Rightarrow> bool" where
  "enrollable segment db =
     (sg_status segment = SegACTIVE
      \<and> (case findOrder (sg_orderId segment) db of None \<Rightarrow> False
         | Some order \<Rightarrow> so_orderStatus order = OrdACTIVE
             \<and> map_option vh_status (findVehicle (so_vehicleId order) db) = Some VehLEASED)
      \<and> map_option sg_id (lastSegment (sg_orderId segment) db) = Some (sg_id segment))"

definition enrollSegment ::
    "change_config \<Rightarrow> id \<Rightarrow> time \<Rightarrow> (nat \<Rightarrow> id) \<Rightarrow> sub_db \<Rightarrow> (sub_error, bool \<times> sub_db) result" where
  "enrollSegment config segmentId now newIds db =
     (if \<not> isSubscriptionChangeTypeEnabled config EXTENSION then Inr (False, db)
      else case findSegment segmentId db of
        None \<Rightarrow> Inr (False, db)
      | Some segment \<Rightarrow>
        if \<not> enrollable segment db then Inr (False, db)
        else
          let schedule = renewalSchedule (Some (sg_endDate segment)) in
          if (case rs_completionDeadlineAt schedule of None \<Rightarrow> False | Some d \<Rightarrow> now \<ge> d)
          then Inr (False, db)
          else (case (rs_completionDeadlineAt schedule, rs_considerationStartAt schedule,
              rs_D30 schedule, rs_D14 schedule, rs_D3 schedule) of
            (Some deadline, Some startAt, Some d30, Some d14, Some d3) \<Rightarrow>
              Inr (True, enrollRows segment deadline startAt (d30, d14, d3) now newIds db)
          | _ \<Rightarrow> Inl InvalidValue))"

section \<open>Reminders\<close>

definition skippedReminderStatus :: "consideration_status \<Rightarrow> reminder_status option" where
  "skippedReminderStatus status =
     (if status = RENEWAL_REQUESTED \<or> status = EXPIRY_CONFIRMED \<or> status = EXTENSION_IN_PROGRESS
      then Some RemSKIPPED_DECIDED
      else if status = EXTENDED then Some RemSKIPPED_EXTENDED
      else if status = EXPIRED \<or> status = ConsCANCELLED then Some RemCANCELLED
      else None)"

definition set_reminder_status :: "id \<Rightarrow> reminder_status \<Rightarrow> sub_db \<Rightarrow> sub_db" where
  "set_reminder_status reminderId status db =
     db\<lparr>db_reminders := upd_row rr_id reminderId (\<lambda>r. r\<lparr>rr_status := status\<rparr>) (db_reminders db)\<rparr>"

definition dispatchReminder ::
    "bool \<Rightarrow> id \<Rightarrow> reminder_slot \<Rightarrow> time \<Rightarrow> sub_db \<Rightarrow> (sub_error, reminder_status \<times> sub_db) result" where
  "dispatchReminder sent considerationId slot now db =
     (case findConsideration (Some considerationId) db of
        None \<Rightarrow> Inl (changeError ''RENEWAL_CONSIDERATION_NOT_FOUND'')
      | Some consideration \<Rightarrow>
        (case List.find (\<lambda>r. rr_considerationId r = considerationId \<and> rr_slot r = slot) (db_reminders db) of
           None \<Rightarrow> Inl (changeError ''RENEWAL_REMINDER_NOT_FOUND'')
         | Some reminder \<Rightarrow>
           (case skippedReminderStatus (rc_status consideration) of
              Some status \<Rightarrow> Inr (status, set_reminder_status (rr_id reminder) status db)
            | None \<Rightarrow>
              if rr_status reminder = RemSENT then Inr (RemSENT, db)
              else if rr_scheduledAt reminder > now then Inr (rr_status reminder, db)
              else let status = (if sent then RemSENT else RemFAILED) in
                Inr (status, set_reminder_status (rr_id reminder) status db))))"

definition retryReminder ::
    "bool \<Rightarrow> actor \<Rightarrow> id \<Rightarrow> reminder_slot \<Rightarrow> time \<Rightarrow> sub_db \<Rightarrow> sub_db \<Rightarrow> (sub_error, reminder_status \<times> sub_db) result" where
  "retryReminder sent actor considerationId slot now seen db =
     rbind (assertPermission actor NOTIFICATION_MANAGE) (\<lambda>_.
     case List.find (\<lambda>r. rr_considerationId r = considerationId \<and> rr_slot r = slot) (db_reminders seen) of
        None \<Rightarrow> Inl (changeError ''RENEWAL_CONSIDERATION_NOT_FOUND'')
      | Some reminder \<Rightarrow>
        rbind (ensure (rr_status reminder = RemFAILED)
          (changeError ''RENEWAL_REMINDER_NOT_RETRYABLE'')) (\<lambda>_.
        dispatchReminder sent considerationId slot now db))"

fun reconcileReminders :: "(nat \<Rightarrow> id) \<Rightarrow> time \<Rightarrow> id \<Rightarrow> id \<Rightarrow> renewal_reminder list \<Rightarrow> sub_db \<Rightarrow> sub_db" where
  "reconcileReminders newIds now orderId segmentId [] db = db"
| "reconcileReminders newIds now orderId segmentId (r # rs) db =
     reconcileReminders newIds now orderId segmentId rs
       (if rr_status r \<noteq> RemPENDING then db
        else enqueueReminder (newIds (length rs)) now orderId segmentId r db)"

definition reconcile ::
    "actor \<Rightarrow> id \<Rightarrow> time \<Rightarrow> (nat \<Rightarrow> id) \<Rightarrow> sub_db \<Rightarrow> (sub_error, sub_db) result" where
  "reconcile actor considerationId now newIds db =
     rbind (assertPermission actor CHANGE_EXECUTE) (\<lambda>_.
     case findConsideration (Some considerationId) db of
       None \<Rightarrow> Inl (changeError ''RENEWAL_CONSIDERATION_NOT_FOUND'')
     | Some consideration \<Rightarrow> Inr (reconcileReminders newIds now (rc_orderId consideration)
         (rc_segmentId consideration)
         (sort_key rr_scheduledAt (filter (\<lambda>r. rr_considerationId r = considerationId) (db_reminders db))) db))"

end
