(* ===== verification/ExtensionSteps.thy ===== *)
theory ExtensionSteps
  imports Renewals Interfaces
begin

text \<open>
  The operations on subscription changes, extensions and segments as one type, so
  that a run is any sequence of them, and the writes of the other modules to the
  same tables.
\<close>

section \<open>Billing\<close>

text \<open>
  Billing hands a change to an operator when a period it bills would cross the
  segment the change created (\<open>moveSourceFactBlockerToPaused\<close>).
\<close>

definition takeOverCrossedChange :: "id \<Rightarrow> time \<Rightarrow> sub_db \<Rightarrow> sub_db" where
  "takeOverCrossedChange changeId generatedAt db =
     db\<lparr>db_changes := snd (update_many
        (\<lambda>c. ch_id c = changeId \<and> ch_status c \<in> set [ChgSCHEDULED, ChgEXECUTING, ChgCOMPLETED])
        (\<lambda>c. c\<lparr>ch_failureCode := Some ''BILLING_PERIOD_CROSSES_SEGMENT'',
           ch_manualTakeoverAt := Some generatedAt, ch_status := ChgMANUAL_TAKEOVER,
           ch_version := ch_version c + 1\<rparr>) (db_changes db))\<rparr>"

section \<open>The other modules\<close>

text \<open>
  What other modules write: their own tables, in any way, and change orders of the
  other types with the quotes of those and the commands that made them.  They leave
  the rows of extensions alone, and a source segment they name is of the order.
\<close>

record foreign_tables =
  ft_orders :: "sub_order list"
  ft_contracts :: "contract list"
  ft_vehicles :: "vehicle_row list"
  ft_plans :: "subscription_plan list"
  ft_tasks :: "esign_task list"
  ft_leases :: "lease list"
  ft_returns :: "vehicle_return list"
  ft_jobs :: "change_job list"

definition writeForeign :: "foreign_tables \<Rightarrow> sub_db \<Rightarrow> sub_db" where
  "writeForeign t db = db\<lparr>db_orders := ft_orders t, db_contracts := ft_contracts t,
     db_vehicles := ft_vehicles t, db_plans := ft_plans t, db_tasks := ft_tasks t,
     db_leases := ft_leases t, db_returns := ft_returns t, db_jobs := ft_jobs t\<rparr>"

definition extensions :: "change_order list \<Rightarrow> change_order list" where
  "extensions rows = filter (\<lambda>c. ch_changeType c = EXTENSION) rows"

definition source_of_order :: "contract_segment list \<Rightarrow> change_order \<Rightarrow> bool" where
  "source_of_order segments c = (case ch_sourceSegmentId c of None \<Rightarrow> True
     | Some s \<Rightarrow> list_ex (\<lambda>g. sg_id g = s \<and> sg_orderId g = ch_orderId c) segments)"

definition writeOtherChanges ::
    "change_order list \<Rightarrow> change_quote list \<Rightarrow> change_command list \<Rightarrow> sub_db \<Rightarrow> (sub_error, sub_db) result" where
  "writeOtherChanges rows quotes commands db =
     rbind (ensure (extensions rows = extensions (db_changes db)
         \<and> list_all (\<lambda>c. ch_extensionDetail c = None \<and> source_of_order (db_segments db) c)
             (filter (\<lambda>c. ch_changeType c \<noteq> EXTENSION) rows)
         \<and> ch_id ` set (db_changes db) \<subseteq> ch_id ` set rows
         \<and> list_all (\<lambda>c. ch_currentQuoteId c = None
               \<or> findQuote (ch_currentQuoteId c) (db\<lparr>db_quotes := quotes\<rparr>) = findQuote (ch_currentQuoteId c) db)
             (extensions rows)
         \<and> distinct (map command_key (db_commands db @ commands))
         \<and> distinct (map cc_id (db_commands db @ commands))) UniqueConstraint) (\<lambda>_.
     write_changes rows (db\<lparr>db_quotes := quotes, db_commands := db_commands db @ commands\<rparr>))"

section \<open>The operations\<close>

datatype sub_op =
    EnsureBaseSegment id id "id option"
  | CreateExtension change_config command_input extension_input id id sub_db
  | CreateQuote change_config id command_input quote_input id sub_db
  | ApprovePrice change_config id command_input sub_db
  | SubmitConfirmation change_config id command_input sub_db
  | Cancel change_config id command_input sub_db
  | TakeOver id command_input sub_db
  | RetryJob id id command_input sub_db
  | ConfirmQuote change_config id command_input id int sub_db
  | RejectQuote change_config id command_input id int sub_db
  | DecideRenewal change_config id command_input renewal_decision id sub_db
  | ReserveGeneration change_config id command_input generation_context id
  | FinalizeGeneration id id id "id \<times> canonical" command_input "ustring option"
  | AbortGeneration id id id
  | ArchiveContract archive_input
  | Activate "canonical \<Rightarrow> string list" "nat \<Rightarrow> id" id time
  | CompleteIfReady id
  | MarkManualTakeover time change_job failure
  | ExpireSegment expiry_closure id time sub_db
  | SwitchSwap id id time
  | TerminateEarly termination_authority
  | EnrollSegment change_config id time "nat \<Rightarrow> id"
  | DispatchReminder bool id reminder_slot time
  | RetryReminder bool actor id reminder_slot time sub_db
  | ReconcileReminders actor id time "nat \<Rightarrow> id"
  | TakeOverCrossed id time
  | WriteForeign foreign_tables
  | WriteOtherChanges "change_order list" "change_quote list" "change_command list"

definition state_of :: "('e, 'a \<times> sub_db) result \<Rightarrow> ('e, sub_db) result" where
  "state_of r = rbind r (\<lambda>x. Inr (snd x))"

fun sub_transaction :: "sub_op \<Rightarrow> sub_db \<Rightarrow> (sub_error, sub_db) result" where
  "sub_transaction (EnsureBaseSegment n i a) db = state_of (ensureBaseSegmentInTransaction n i a db)"
| "sub_transaction (CreateExtension cf i x g n seen) db = state_of (createExtension cf i x g n seen db)"
| "sub_transaction (CreateQuote cf c i x n seen) db = state_of (createFormalQuote cf c i x n seen db)"
| "sub_transaction (ApprovePrice cf c i seen) db = state_of (approvePriceOverride cf c i seen db)"
| "sub_transaction (SubmitConfirmation cf c i seen) db = state_of (submitCustomerConfirmation cf c i seen db)"
| "sub_transaction (Cancel cf c i seen) db = state_of (cancelChange cf c i seen db)"
| "sub_transaction (TakeOver c i seen) db = state_of (manualTakeover c i seen db)"
| "sub_transaction (RetryJob c j i seen) db = state_of (retryAutomationJob c j i seen db)"
| "sub_transaction (ConfirmQuote cf c i n v seen) db = state_of (confirmQuote cf c i n v seen db)"
| "sub_transaction (RejectQuote cf c i n v seen) db = state_of (rejectQuote cf c i n v seen db)"
| "sub_transaction (DecideRenewal cf r i d n seen) db = state_of (decideRenewal cf r i d n seen db)"
| "sub_transaction (ReserveGeneration cf c i gx n) db = state_of (reserveGeneration cf c i gx n db)"
| "sub_transaction (FinalizeGeneration k t c a i v) db = state_of (finalizeGeneration k t c a i v db)"
| "sub_transaction (AbortGeneration k c t) db = abortGenerationReservation k c t db"
| "sub_transaction (ArchiveContract i) db = state_of (finalizeArchivedContract i db)"
| "sub_transaction (Activate g n i t) db = state_of (activate g n i t db)"
| "sub_transaction (CompleteIfReady c) db = Inr (snd (completeIfReady c db))"
| "sub_transaction (MarkManualTakeover t j f) db = Inr (snd (markManualTakeover t j f db))"
| "sub_transaction (ExpireSegment cl i t seen) db = state_of (expireSegment cl i t seen db)"
| "sub_transaction (SwitchSwap c n t) db =
     rbind (switchSwapSegment c n t db) (\<lambda>r. Inr (case r of None \<Rightarrow> db | Some db' \<Rightarrow> db'))"
| "sub_transaction (TerminateEarly a) db = applyEarlyTerminationCoreBoundary a db"
| "sub_transaction (EnrollSegment cf i t n) db = state_of (enrollSegment cf i t n db)"
| "sub_transaction (DispatchReminder s r l t) db = state_of (dispatchReminder s r l t db)"
| "sub_transaction (RetryReminder s a r l t seen) db = state_of (retryReminder s a r l t seen db)"
| "sub_transaction (ReconcileReminders a r t n) db = reconcile a r t n db"
| "sub_transaction (TakeOverCrossed c t) db = Inr (takeOverCrossedChange c t db)"
| "sub_transaction (WriteForeign t) db = Inr (writeForeign t db)"
| "sub_transaction (WriteOtherChanges rows qs cs) db = writeOtherChanges rows qs cs db"

end
