(* ===== verification/SegmentTimeline.thy ===== *)
theory SegmentTimeline
  imports ExtensionSteps
begin

text \<open>
  The timeline of the segments of an order, and that every operation keeps it:
  the segments are numbered from one without a gap, each begins the day after its
  predecessor ends, and completed ones come first, then at most one active one, then
  the scheduled ones.
\<close>

section \<open>Chains of segments\<close>

definition seg_follows :: "contract_segment \<Rightarrow> contract_segment \<Rightarrow> bool" where
  "seg_follows p s = (sg_orderId s = sg_orderId p \<and> sg_sequenceNo s = sg_sequenceNo p + 1
     \<and> sg_startDate s = sg_endDate p + 86400000)"

definition seg_before :: "contract_segment \<Rightarrow> contract_segment \<Rightarrow> bool" where
  "seg_before s t = (sg_orderId s = sg_orderId t \<and> sg_sequenceNo s < sg_sequenceNo t)"

definition chain_ok :: "contract_segment list \<Rightarrow> bool" where
  "chain_ok rows = (segment_keys_unique rows \<and> segment_dates_valid rows
     \<and> (\<forall>s \<in> set rows. 1 \<le> sg_sequenceNo s \<and> (sg_segmentType s = SegBASE \<longleftrightarrow> sg_sequenceNo s = 1)
          \<and> sg_status s \<noteq> SegCANCELLED
          \<and> (sg_sequenceNo s = 1 \<or> (\<exists>p \<in> set rows. seg_follows p s)))
     \<and> (\<forall>s \<in> set rows. \<forall>t \<in> set rows. seg_before s t \<and> sg_status t \<noteq> SegSCHEDULED
          \<longrightarrow> sg_status s = SegCOMPLETED))"

lemma chain_okD:
  assumes "chain_ok rows"
  shows "segment_keys_unique rows" "segment_dates_valid rows"
    and "s \<in> set rows \<Longrightarrow> 1 \<le> sg_sequenceNo s"
    and "s \<in> set rows \<Longrightarrow> sg_segmentType s = SegBASE \<longleftrightarrow> sg_sequenceNo s = 1"
    and "s \<in> set rows \<Longrightarrow> sg_status s \<noteq> SegCANCELLED"
    and "s \<in> set rows \<Longrightarrow> sg_sequenceNo s = 1 \<or> (\<exists>p \<in> set rows. seg_follows p s)"
    and "s \<in> set rows \<Longrightarrow> t \<in> set rows \<Longrightarrow> seg_before s t \<Longrightarrow> sg_status t \<noteq> SegSCHEDULED
      \<Longrightarrow> sg_status s = SegCOMPLETED"
  using assms unfolding chain_ok_def by blast+

lemma keys_inj:
  assumes "segment_keys_unique rows" and "s \<in> set rows" and "t \<in> set rows"
  shows "sg_id s = sg_id t \<Longrightarrow> s = t"
    and "sg_orderId s = sg_orderId t \<Longrightarrow> sg_sequenceNo s = sg_sequenceNo t \<Longrightarrow> s = t"
proof -
  have "inj_on sg_id (set rows)" "inj_on (\<lambda>s. (sg_orderId s, sg_sequenceNo s)) (set rows)"
    using assms(1) by (auto simp: segment_keys_unique_def distinct_map)
  then show "sg_id s = sg_id t \<Longrightarrow> s = t"
    "sg_orderId s = sg_orderId t \<Longrightarrow> sg_sequenceNo s = sg_sequenceNo t \<Longrightarrow> s = t"
    using assms(2,3) by (auto dest: inj_onD)
qed

lemma find_segment_unique:
  "segment_keys_unique rows \<Longrightarrow> s \<in> set rows \<Longrightarrow> find_row sg_id (sg_id s) rows = Some s"
  by (simp add: find_row_unique segment_keys_unique_def)

lemma chain_down:
  assumes "chain_ok rows" and "t \<in> set rows" and "1 \<le> k" and "k \<le> sg_sequenceNo t"
  obtains u where "u \<in> set rows" "sg_orderId u = sg_orderId t" "sg_sequenceNo u = k"
proof -
  have "\<exists>u \<in> set rows. sg_orderId u = sg_orderId t \<and> sg_sequenceNo u = sg_sequenceNo t - int n"
    if "int n < sg_sequenceNo t" for n
    using that
  proof (induction n)
    case 0
    then show ?case using assms(2) by auto
  next
    case (Suc n)
    then obtain u where u: "u \<in> set rows" "sg_orderId u = sg_orderId t"
      "sg_sequenceNo u = sg_sequenceNo t - int n" by auto
    then obtain p where "p \<in> set rows" "seg_follows p u"
      using chain_okD(6) [OF assms(1) u(1)] Suc.prems by auto
    then show ?case using u by (intro bexI [of _ p]) (auto simp: seg_follows_def)
  qed
  from this [of "nat (sg_sequenceNo t - k)"] that assms(3,4) show ?thesis by auto
qed

text \<open>A segment can only be appended behind the last one.\<close>

lemma chain_top:
  assumes "chain_ok rows" and "t \<in> set rows"
    and "(q, k) \<notin> (\<lambda>s. (sg_orderId s, sg_sequenceNo s)) ` set rows" and "1 \<le> k" and "sg_orderId t = q"
  shows "sg_sequenceNo t < k"
proof (rule ccontr)
  assume "\<not> sg_sequenceNo t < k"
  then obtain u where "u \<in> set rows" "sg_orderId u = sg_orderId t" "sg_sequenceNo u = k"
    using chain_down [OF assms(1,2,4)] by (metis not_less)
  then have "(q, k) \<in> (\<lambda>s. (sg_orderId s, sg_sequenceNo s)) ` set rows"
    using assms(5) by (intro image_eqI [of _ _ u]) auto
  then show False using assms(3) by contradiction
qed

lemma append_key_fresh:
  "segment_keys_unique (rows @ [s]) \<Longrightarrow>
   (sg_orderId s, sg_sequenceNo s) \<notin> (\<lambda>s. (sg_orderId s, sg_sequenceNo s)) ` set rows"
  by (auto simp: segment_keys_unique_def)

lemma chain_append:
  assumes ok: "chain_ok rows" and p: "p \<in> set rows" and f: "seg_follows p s"
    and st: "sg_status s = SegSCHEDULED \<or> sg_status s = SegACTIVE \<and> sg_status p = SegCOMPLETED"
    and ty: "sg_segmentType s \<noteq> SegBASE"
    and keys: "segment_keys_unique (rows @ [s])" and dates: "segment_dates_valid (rows @ [s])"
  shows "chain_ok (rows @ [s])"
proof -
  have seq: "1 < sg_sequenceNo s" using chain_okD(3) [OF ok p] f by (simp add: seg_follows_def)
  have top: "sg_sequenceNo t \<le> sg_sequenceNo p" if "t \<in> set rows" "sg_orderId t = sg_orderId s" for t
    using chain_top [OF ok that(1) append_key_fresh [OF keys]] seq that(2) f
    by (simp add: seg_follows_def)
  have below: "sg_status t = SegCOMPLETED" if t: "t \<in> set rows" "seg_before t s" and "sg_status s \<noteq> SegSCHEDULED" for t
  proof -
    have p': "sg_status p = SegCOMPLETED" using st that(3) by auto
    show ?thesis
    proof (cases "t = p")
      case False
      then have "seg_before t p"
        using top [OF t(1)] t(2) keys_inj(2) [OF chain_okD(1) [OF ok] t(1) p] f
        by (fastforce simp: seg_before_def seg_follows_def)
      then show ?thesis using chain_okD(7) [OF ok t(1) p] p' by simp
    qed (use p' in simp)
  qed
  have above: "\<not> seg_before s t" if "t \<in> set rows" for t
    using top [OF that] f by (auto simp: seg_before_def seg_follows_def)
  have "\<not> seg_before s s" by (simp add: seg_before_def)
  then show ?thesis
    using chain_okD(3-7) [OF ok] keys dates seq ty st p f below above
    unfolding chain_ok_def by auto
qed

lemma chain_base:
  assumes ok: "chain_ok rows" and new: "\<forall>t \<in> set rows. \<not> (sg_orderId t = sg_orderId s \<and> sg_segmentType t = SegBASE)"
    and s: "sg_segmentType s = SegBASE" "sg_sequenceNo s = 1" "sg_status s = SegACTIVE"
    and keys: "segment_keys_unique (rows @ [s])" and dates: "segment_dates_valid (rows @ [s])"
  shows "chain_ok (rows @ [s])"
proof -
  have none: "sg_orderId t \<noteq> sg_orderId s" if t: "t \<in> set rows" for t
  proof
    assume "sg_orderId t = sg_orderId s"
    then obtain u where "u \<in> set rows" "sg_orderId u = sg_orderId s" "sg_sequenceNo u = 1"
      using chain_down [OF ok t, of 1] chain_okD(3) [OF ok t] by auto
    then show False using new chain_okD(4) [OF ok] by auto
  qed
  have sep: "\<not> seg_before t s" "\<not> seg_before s t" if "t \<in> set rows" for t
    using none [OF that] by (auto simp: seg_before_def)
  have "\<not> seg_before s s" by (simp add: seg_before_def)
  then show ?thesis
    using chain_okD(3-7) [OF ok] keys dates s sep unfolding chain_ok_def by auto
qed

text \<open>Changing rows without touching their identity.\<close>

definition seg_core :: "contract_segment \<Rightarrow> id \<times> id \<times> int \<times> segment_type \<times> id option \<times> time" where
  "seg_core s = (sg_id s, sg_orderId s, sg_sequenceNo s, sg_segmentType s, sg_sourceChangeOrderId s,
     sg_startDate s)"

lemma chain_restate:
  assumes ok: "chain_ok rows" and core: "\<And>s. s \<in> set rows \<Longrightarrow> seg_core (g s) = seg_core s"
    and ends: "\<And>p t. p \<in> set rows \<Longrightarrow> t \<in> set rows \<Longrightarrow> seg_follows p t \<Longrightarrow> sg_endDate (g p) = sg_endDate p"
    and st: "\<And>s. s \<in> set rows \<Longrightarrow> sg_status (g s) \<noteq> SegCANCELLED"
    and pattern: "\<And>s t. s \<in> set rows \<Longrightarrow> t \<in> set rows \<Longrightarrow> seg_before s t \<Longrightarrow> sg_status (g t) \<noteq> SegSCHEDULED
      \<Longrightarrow> sg_status (g s) = SegCOMPLETED"
    and keys: "segment_keys_unique (map g rows)" and dates: "segment_dates_valid (map g rows)"
  shows "chain_ok (map g rows)"
proof -
  have parts: "sg_orderId (g s) = sg_orderId s" "sg_sequenceNo (g s) = sg_sequenceNo s"
    "sg_segmentType (g s) = sg_segmentType s" "sg_startDate (g s) = sg_startDate s" if "s \<in> set rows" for s
    using core [OF that] by (auto simp: seg_core_def)
  have pred: "\<exists>p \<in> set (map g rows). seg_follows p (g s)" if s: "s \<in> set rows" and n: "sg_sequenceNo s \<noteq> 1" for s
  proof -
    obtain p where "p \<in> set rows" "seg_follows p s" using chain_okD(6) [OF ok s] n by blast
    then have "seg_follows (g p) (g s)" using ends [of p s] parts [of p] parts [of s] s
      by (simp add: seg_follows_def)
    then show ?thesis using \<open>p \<in> set rows\<close> by auto
  qed
  have "sg_status (g s) = SegCOMPLETED"
    if "s \<in> set rows" "t \<in> set rows" "seg_before (g s) (g t)" "sg_status (g t) \<noteq> SegSCHEDULED" for s t
    using pattern [of s t] that parts [of s] parts [of t] by (simp add: seg_before_def)
  moreover have "1 \<le> sg_sequenceNo (g s) \<and> (sg_segmentType (g s) = SegBASE \<longleftrightarrow> sg_sequenceNo (g s) = 1)
      \<and> (sg_sequenceNo (g s) = 1 \<or> (\<exists>p \<in> set (map g rows). seg_follows p (g s)))" if "s \<in> set rows" for s
    using parts [OF that] chain_okD(3,4) [OF ok that] pred [OF that] by auto
  ultimately show ?thesis using keys dates st unfolding chain_ok_def by auto
qed

lemma chain_complete:
  assumes ok: "chain_ok rows" and g: "\<And>s. g s = s \<or> (sg_status s = SegACTIVE \<and> seg_core (g s) = seg_core s
      \<and> sg_endDate (g s) = sg_endDate s \<and> sg_status (g s) = SegCOMPLETED)"
    and keys: "segment_keys_unique (map g rows)" and dates: "segment_dates_valid (map g rows)"
  shows "chain_ok (map g rows)"
proof (rule chain_restate [OF ok _ _ _ _ keys dates])
  fix s t assume s: "s \<in> set rows" and t: "t \<in> set rows" and b: "seg_before s t"
    and "sg_status (g t) \<noteq> SegSCHEDULED"
  then have "sg_status t \<noteq> SegSCHEDULED" using g [of t] by auto
  then have "sg_status s = SegCOMPLETED" by (rule chain_okD(7) [OF ok s t b])
  then show "sg_status (g s) = SegCOMPLETED" using g [of s] by auto
next
  fix s assume s: "s \<in> set rows"
  show "seg_core (g s) = seg_core s" using g [of s] by auto
  show "sg_status (g s) \<noteq> SegCANCELLED" using g [of s] chain_okD(5) [OF ok s] by auto
  show "sg_endDate (g s) = sg_endDate s" using g [of s] by auto
qed

lemma chain_activate:
  assumes ok: "chain_ok rows" and t: "t \<in> set rows" "sg_status t = SegSCHEDULED"
    and p: "p \<in> set rows" "seg_follows p t" "sg_status p = SegCOMPLETED"
    and g: "\<And>s. s \<in> set rows \<Longrightarrow> s \<noteq> t \<Longrightarrow> g s = s" "seg_core (g t) = seg_core t" "sg_endDate (g t) = sg_endDate t"
      "sg_status (g t) = SegACTIVE"
    and keys: "segment_keys_unique (map g rows)" and dates: "segment_dates_valid (map g rows)"
  shows "chain_ok (map g rows)"
proof (rule chain_restate [OF ok _ _ _ _ keys dates])
  fix s u assume s: "s \<in> set rows" and u: "u \<in> set rows" and b: "seg_before s u"
    and st: "sg_status (g u) \<noteq> SegSCHEDULED"
  show "sg_status (g s) = SegCOMPLETED"
  proof (cases "u = t")
    case True
    then have "s \<noteq> t" using b by (auto simp: seg_before_def)
    moreover have "sg_status s = SegCOMPLETED"
    proof (cases "s = p")
      case False
      then have "seg_before s p"
        using b True p(2) keys_inj(2) [OF chain_okD(1) [OF ok] s p(1)]
        by (fastforce simp: seg_before_def seg_follows_def)
      then show ?thesis using chain_okD(7) [OF ok s p(1)] p(3) by simp
    qed (use p in simp)
    ultimately show ?thesis using g(1) s by simp
  next
    case False
    then have "sg_status u \<noteq> SegSCHEDULED" using st g(1) u by simp
    then have "sg_status s = SegCOMPLETED" by (rule chain_okD(7) [OF ok s u b])
    then show ?thesis using g(1) [OF s] t(2) by (cases "s = t") auto
  qed
next
  fix s assume s: "s \<in> set rows"
  show "seg_core (g s) = seg_core s" using g s by (cases "s = t") auto
  show "sg_status (g s) \<noteq> SegCANCELLED" using g s chain_okD(5) [OF ok s] by (cases "s = t") auto
  show "sg_endDate (g s) = sg_endDate s" using g s by (cases "s = t") auto
qed

lemma chain_cut:
  assumes ok: "chain_ok rows" and src: "src \<in> set rows" "sg_status src = SegACTIVE"
    and g: "\<And>s. s \<in> set rows \<Longrightarrow> s \<noteq> src \<Longrightarrow> g s = s" "seg_core (g src) = seg_core src" "sg_status (g src) = SegCOMPLETED"
    and n: "seg_follows (g src) n" "sg_status n = SegACTIVE" "sg_segmentType n \<noteq> SegBASE"
    and keys: "segment_keys_unique (map g rows @ [n])" and dates: "segment_dates_valid (map g rows @ [n])"
  shows "chain_ok (map g rows @ [n])"
proof -
  have core: "seg_core (g s) = seg_core s" if "s \<in> set rows" for s using g that by (cases "s = src") auto
  have fresh: "(sg_orderId n, sg_sequenceNo n) \<notin> (\<lambda>s. (sg_orderId s, sg_sequenceNo s)) ` set rows"
  proof
    assume "(sg_orderId n, sg_sequenceNo n) \<in> (\<lambda>s. (sg_orderId s, sg_sequenceNo s)) ` set rows"
    then obtain s where "s \<in> set rows" "sg_orderId (g s) = sg_orderId n" "sg_sequenceNo (g s) = sg_sequenceNo n"
      using core by (force simp: seg_core_def)
    then have "(sg_orderId n, sg_sequenceNo n) \<in> (\<lambda>s. (sg_orderId s, sg_sequenceNo s)) ` set (map g rows)"
      by (intro image_eqI [of _ _ "g s"]) auto
    then show False using append_key_fresh [OF keys] by contradiction
  qed
  have last: "\<not> seg_follows src t" if t: "t \<in> set rows" for t
  proof
    assume "seg_follows src t"
    then have "(sg_orderId n, sg_sequenceNo n) \<in> (\<lambda>s. (sg_orderId s, sg_sequenceNo s)) ` set rows"
      using t n(1) core [OF src(1)] by (intro image_eqI [of _ _ t]) (auto simp: seg_follows_def seg_core_def)
    then show False using fresh by contradiction
  qed
  have "chain_ok (map g rows)"
  proof (rule chain_restate [OF ok core])
    fix s t assume s: "s \<in> set rows" and t: "t \<in> set rows" and b: "seg_before s t"
      and "sg_status (g t) \<noteq> SegSCHEDULED"
    then have "sg_status t \<noteq> SegSCHEDULED" using g t src(2) by (cases "t = src") auto
    then have "sg_status s = SegCOMPLETED" by (rule chain_okD(7) [OF ok s t b])
    then show "sg_status (g s) = SegCOMPLETED" using g s by (cases "s = src") auto
  next
    fix p t assume "p \<in> set rows" "t \<in> set rows" "seg_follows p t"
    then show "sg_endDate (g p) = sg_endDate p" using last g(1) by (cases "p = src") auto
  next
    fix s assume s: "s \<in> set rows"
    show "sg_status (g s) \<noteq> SegCANCELLED" using g s chain_okD(5) [OF ok s] by (cases "s = src") auto
  next
    show "segment_keys_unique (map g rows)" using keys by (auto simp: segment_keys_unique_def List.map_filter_def)
    show "segment_dates_valid (map g rows)" using dates by (simp add: segment_dates_valid_def)
  qed
  then show ?thesis
    using chain_append [of "map g rows" "g src" n] src(1) n g(3) keys dates by simp
qed

section \<open>Links between the tables\<close>

record link =
  ln_id :: id
  ln_orderId :: id
  ln_type :: change_type
  ln_root :: "id option"
  ln_detail :: "id option"

definition change_link :: "change_order \<Rightarrow> link" where
  "change_link c = \<lparr> ln_id = ch_id c, ln_orderId = ch_orderId c, ln_type = ch_changeType c,
     ln_root = ch_sourceSegmentId c, ln_detail = map_option xd_sourceSegmentId (ch_extensionDetail c) \<rparr>"

definition cons_link :: "renewal_consideration \<Rightarrow> id \<times> id" where
  "cons_link r = (rc_segmentId r, rc_orderId r)"

definition has_segment :: "contract_segment list \<Rightarrow> id \<Rightarrow> id \<Rightarrow> bool" where
  "has_segment rows i q = (\<exists>g \<in> set rows. sg_id g = i \<and> sg_orderId g = q)"

definition link_source :: "link \<Rightarrow> id option" where
  "link_source l = (case ln_detail l of None \<Rightarrow> ln_root l | Some i \<Rightarrow> Some i)"

definition comes_from :: "contract_segment list \<Rightarrow> link list \<Rightarrow> contract_segment \<Rightarrow> id \<Rightarrow> bool" where
  "comes_from rows links t x = (\<exists>l \<in> set links. ln_id l = x \<and> (ln_type l = EXTENSION \<longrightarrow>
     (\<exists>g \<in> set rows. link_source l = Some (sg_id g) \<and> sg_orderId t = sg_orderId g
        \<and> sg_sequenceNo t = sg_sequenceNo g + 1)))"

definition links_ok :: "contract_segment list \<Rightarrow> link list \<Rightarrow> (id \<times> id) list \<Rightarrow> bool" where
  "links_ok rows links cons = (distinct (map ln_id links)
     \<and> (\<forall>l \<in> set links. \<forall>i. ln_root l = Some i \<or> ln_detail l = Some i \<longrightarrow> has_segment rows i (ln_orderId l))
     \<and> (\<forall>t \<in> set rows. \<forall>x. sg_sourceChangeOrderId t = Some x \<longrightarrow> comes_from rows links t x)
     \<and> (\<forall>r \<in> set cons. has_segment rows (fst r) (snd r)))"

lemma links_okD:
  assumes "links_ok rows links cons"
  shows "distinct (map ln_id links)"
    and "l \<in> set links \<Longrightarrow> ln_root l = Some i \<or> ln_detail l = Some i \<Longrightarrow> has_segment rows i (ln_orderId l)"
    and "t \<in> set rows \<Longrightarrow> sg_sourceChangeOrderId t = Some x \<Longrightarrow> comes_from rows links t x"
    and "r \<in> set cons \<Longrightarrow> has_segment rows (fst r) (snd r)"
  using assms unfolding links_ok_def by blast+

definition timeline_ok :: "sub_db \<Rightarrow> bool" where
  "timeline_ok db = (chain_ok (db_segments db)
     \<and> links_ok (db_segments db) (map change_link (db_changes db)) (map cons_link (db_considerations db)))"

lemma comes_from_mono:
  assumes "comes_from rows links t x" and "seg_core ` set rows \<subseteq> seg_core ` set rows'"
    and "set links \<subseteq> set links'" and "seg_core t' = seg_core t"
  shows "comes_from rows' links' t' x"
proof -
  obtain l where l: "l \<in> set links'" "ln_id l = x" "ln_type l = EXTENSION \<longrightarrow>
     (\<exists>g \<in> set rows. link_source l = Some (sg_id g) \<and> sg_orderId t = sg_orderId g
        \<and> sg_sequenceNo t = sg_sequenceNo g + 1)"
    using assms(1,3) by (auto simp: comes_from_def)
  have "\<exists>g' \<in> set rows'. seg_core g' = seg_core g" if "g \<in> set rows" for g
    using assms(2) that by (metis (no_types, lifting) imageE image_eqI subsetD)
  then have "\<exists>g \<in> set rows'. link_source l = Some (sg_id g) \<and> sg_orderId t' = sg_orderId g
      \<and> sg_sequenceNo t' = sg_sequenceNo g + 1" if "ln_type l = EXTENSION"
    using l(3) that assms(4) unfolding seg_core_def by (metis (no_types, lifting) Pair_inject)
  then show ?thesis using l(1,2) unfolding comes_from_def by blast
qed

lemma has_segment_mono:
  assumes "has_segment rows i q" and "seg_core ` set rows \<subseteq> seg_core ` set rows'"
  shows "has_segment rows' i q"
proof -
  obtain g where g: "g \<in> set rows" "sg_id g = i" "sg_orderId g = q" using assms(1) by (auto simp: has_segment_def)
  then obtain g' where "g' \<in> set rows'" "seg_core g' = seg_core g"
    using assms(2) by (metis (no_types, lifting) imageE image_eqI subsetD)
  then show ?thesis using g by (auto simp: has_segment_def seg_core_def)
qed

text \<open>New segments, a new change, a new consideration.\<close>

lemma links_segments:
  assumes ok: "links_ok rows links cons" and sub: "seg_core ` set rows \<subseteq> seg_core ` set rows'"
    and new: "\<And>t x. t \<in> set rows' \<Longrightarrow> sg_sourceChangeOrderId t = Some x \<Longrightarrow> seg_core t \<notin> seg_core ` set rows
      \<Longrightarrow> comes_from rows' links t x"
  shows "links_ok rows' links cons"
proof -
  have "comes_from rows' links t x" if t: "t \<in> set rows'" "sg_sourceChangeOrderId t = Some x" for t x
  proof (cases "seg_core t \<in> seg_core ` set rows")
    case True
    then obtain s where s: "s \<in> set rows" "seg_core t = seg_core s" by auto
    then have "sg_sourceChangeOrderId s = Some x" using t(2) by (simp add: seg_core_def)
    then show ?thesis using comes_from_mono [OF links_okD(3) [OF ok s(1)] sub subset_refl] s(2) by simp
  qed (use new t in blast)
  then show ?thesis
    using links_okD [OF ok] has_segment_mono [OF _ sub] unfolding links_ok_def by blast
qed

lemma links_change:
  assumes ok: "links_ok rows links cons" and d: "distinct (map ln_id (links @ [l]))"
    and l: "\<And>i. ln_root l = Some i \<or> ln_detail l = Some i \<Longrightarrow> has_segment rows i (ln_orderId l)"
  shows "links_ok rows (links @ [l]) cons"
proof -
  have "comes_from rows (links @ [l]) t x" if "t \<in> set rows" "sg_sourceChangeOrderId t = Some x" for t x
    using comes_from_mono [OF links_okD(3) [OF ok that] subset_refl, of "links @ [l]" t] by auto
  then show ?thesis using links_okD [OF ok] d l unfolding links_ok_def by auto
qed

lemma links_consideration:
  assumes "links_ok rows links cons" and "\<And>r. r \<in> set cons' \<Longrightarrow> r \<notin> set cons \<Longrightarrow> has_segment rows (fst r) (snd r)"
  shows "links_ok rows links cons'"
  using links_okD [OF assms(1)] assms(2) unfolding links_ok_def by blast

end
