(* ===== verification/TimelineLaws.thy ===== *)
theory TimelineLaws
  imports SegmentTimeline
begin

text \<open>
  Every operation keeps the timeline.  The \<open>frame\<close> of a state is all the timeline
  depends on; most operations leave it as it is.
\<close>

section \<open>Results that are values\<close>

lemma case_option_Inr:
  "(case x of None \<Rightarrow> Inl e | Some y \<Rightarrow> f y) = Inr r \<longleftrightarrow> (\<exists>y. x = Some y \<and> f y = Inr r)"
  by (cases x) auto

lemma if_Inr:
  "(if c then Inl e else v) = Inr r \<longleftrightarrow> \<not> c \<and> v = Inr r"
  "(if c then v else Inl e) = Inr r \<longleftrightarrow> c \<and> v = Inr r"
  by auto

lemmas result_simps = case_option_Inr if_Inr

section \<open>Operations that leave the timeline alone\<close>

definition frame :: "sub_db \<Rightarrow> contract_segment list \<times> link list \<times> (id \<times> id) list" where
  "frame db = (db_segments db, map change_link (db_changes db), map cons_link (db_considerations db))"

lemma timeline_frame: "frame db' = frame db \<Longrightarrow> timeline_ok db \<Longrightarrow> timeline_ok db'"
  by (simp add: frame_def timeline_ok_def)

lemma map_update_many:
  "(\<And>r. g (f r) = g r) \<Longrightarrow> map g (snd (update_many P f rows)) = map g rows"
  by (induction rows) (auto simp: update_many_def)

lemma map_upd_row:
  "(\<And>r. g (f r) = g r) \<Longrightarrow> map g (upd_row key k f rows) = map g rows"
  by (induction rows) (auto simp: upd_row_def)

lemma change_link_simps [simp]:
  "change_link (c\<lparr>ch_status := st\<rparr>) = change_link c"
  "change_link (c\<lparr>ch_version := v\<rparr>) = change_link c"
  "change_link (c\<lparr>ch_failureCode := fc\<rparr>) = change_link c"
  "change_link (c\<lparr>ch_publishedAt := pa\<rparr>) = change_link c"
  "change_link (c\<lparr>ch_publishedBy := pb\<rparr>) = change_link c"
  "change_link (c\<lparr>ch_currentQuoteId := cq\<rparr>) = change_link c"
  "change_link (c\<lparr>ch_confirmedQuoteId := cq\<rparr>) = change_link c"
  "change_link (c\<lparr>ch_contractId := ct\<rparr>) = change_link c"
  "change_link (c\<lparr>ch_cancelReason := cr\<rparr>) = change_link c"
  "change_link (c\<lparr>ch_manualTakeoverAt := ma\<rparr>) = change_link c"
  "change_link (c\<lparr>ch_manualTakeoverReason := mr\<rparr>) = change_link c"
  "change_link (map_override f c) = change_link c"
  by (simp_all add: change_link_def map_override_def option.map_comp comp_def)

lemma change_link_quoted [simp]: "change_link (quoted i c) = change_link c"
  by (simp add: quoted_def)

lemma frame_simps [simp]:
  "frame (db\<lparr>db_orders := x1\<rparr>) = frame db" "frame (db\<lparr>db_contracts := x2\<rparr>) = frame db"
  "frame (db\<lparr>db_quotes := x3\<rparr>) = frame db" "frame (db\<lparr>db_commands := x4\<rparr>) = frame db"
  "frame (db\<lparr>db_reminders := x5\<rparr>) = frame db" "frame (db\<lparr>db_jobs := x6\<rparr>) = frame db"
  "frame (db\<lparr>db_vehicles := x7\<rparr>) = frame db" "frame (db\<lparr>db_plans := x8\<rparr>) = frame db"
  "frame (db\<lparr>db_tasks := x9\<rparr>) = frame db" "frame (db\<lparr>db_leases := x10\<rparr>) = frame db"
  "frame (db\<lparr>db_returns := x11\<rparr>) = frame db"
  by (simp_all add: frame_def)

lemma frame_helpers [simp]:
  "frame (completeCommand i t r n db) = frame db"
  "frame (set_resource i t r n db) = frame db"
  "frame (update_quote i f db) = frame db"
  "frame (enqueueLinked y1 y2 y3 y4 y5 y6 y7 db) = frame db"
  "frame (cancelMarketingReminders z1 z2 db) = frame db"
  "frame (cancelRenewalJobs z3 z4 db) = frame db"
  by (simp_all add: completeCommand_def set_resource_def update_quote_def enqueueLinked_def
    cancelMarketingReminders_def cancelRenewalJobs_def frame_def)

lemma frame_considerations:
  "(\<And>r. cons_link (f r) = cons_link r) \<Longrightarrow> frame (update_considerations P f db) = frame db"
  by (simp add: update_considerations_def frame_def map_update_many)

lemma frame_settle [simp]: "frame (settleConsideration r t db) = frame db"
  by (simp add: settleConsideration_def frame_considerations cons_link_def split: option.splits)

lemma frame_changes:
  "(\<And>c. change_link (f c) = change_link c) \<Longrightarrow> frame (db\<lparr>db_changes := snd (update_many P f (db_changes db))\<rparr>) = frame db"
  by (simp add: frame_def map_update_many)

lemma reserve_frame: "reserveCommand i a op k h n db = Inr db' \<Longrightarrow> frame db' = frame db"
  by (auto simp: reserveCommand_def split: if_splits)

lemma write_changes_frame:
  "write_changes rows db = Inr db' \<Longrightarrow> map change_link rows = map change_link (db_changes db) \<Longrightarrow> frame db' = frame db"
  by (auto simp: write_changes_def frame_def split: if_splits)

lemma update_change_frame:
  "update_change i f db = Inr db' \<Longrightarrow> (\<And>c. change_link (f c) = change_link c) \<Longrightarrow> frame db' = frame db"
  unfolding update_change_def by (erule write_changes_frame) (simp add: map_upd_row)

lemma update_contract_frame: "update_contract i f db = Inr db' \<Longrightarrow> frame db' = frame db"
  by (auto simp: update_contract_def split: if_splits)

lemma change_transaction_frame:
  assumes "changeTransaction op k c i ex db = Inr (ch, db')"
    and "\<And>x y d d'. ex x y d = Inr d' \<Longrightarrow> frame d' = frame d"
  shows "frame db' = frame db"
  using assms by (auto simp: changeTransaction_def split: option.splits dest!: reserve_frame)

lemma transacted_cases:
  assumes "transacted r op k i db = Inr (c, db')"
  shows "r = Inr (c, db') \<or> db' = db"
  using assms by (auto simp: transacted_def split: sum.splits)

lemma run_command_cases:
  assumes "runChangeCommand op c i ex seen db = Inr (ch, db')"
  obtains "db' = db" | k where "changeTransaction op k c i ex db = Inr (ch, db')"
  using assms transacted_cases unfolding runChangeCommand_def
  by (fastforce split: option.splits)

lemma run_command_frame:
  assumes "runChangeCommand op c i ex seen db = Inr (ch, db')"
    and "\<And>x y d d'. ex x y d = Inr d' \<Longrightarrow> frame d' = frame d"
  shows "frame db' = frame db"
  using assms(1)
proof (cases rule: run_command_cases)
  case (2 k)
  then show ?thesis using change_transaction_frame assms(2) by blast
qed simp

section \<open>The commands\<close>

lemma approve_frame: "approvePriceOverride cf c i seen db = Inr (ch, db') \<Longrightarrow> frame db' = frame db"
  unfolding approvePriceOverride_def
  by (auto elim!: run_command_frame update_change_frame split: option.splits)

lemma submit_frame: "submitCustomerConfirmation cf c i seen db = Inr (ch, db') \<Longrightarrow> frame db' = frame db"
  unfolding submitCustomerConfirmation_def
  by (auto elim!: run_command_frame update_change_frame split: option.splits)

lemma cancel_frame: "cancelChange cf c i seen db = Inr (ch, db') \<Longrightarrow> frame db' = frame db"
  unfolding cancelChange_def
  by (auto elim!: run_command_frame update_change_frame split: option.splits)

lemma takeover_frame: "manualTakeover c i seen db = Inr (ch, db') \<Longrightarrow> frame db' = frame db"
  unfolding manualTakeover_def
  by (auto elim!: run_command_frame update_change_frame split: option.splits)

lemma quote_frame: "createFormalQuote cf c i x n seen db = Inr (qt, db') \<Longrightarrow> frame db' = frame db"
proof -
  have tx: "quoteTransaction cf k c i x n db = Inr (qt, db') \<Longrightarrow> frame db' = frame db" for k
    by (auto simp: quoteTransaction_def Let_def result_simps dest!: reserve_frame update_change_frame)
      (auto simp: frame_considerations cons_link_def split: option.splits if_splits)
  assume "createFormalQuote cf c i x n seen db = Inr (qt, db')"
  then show ?thesis
    by (auto simp: createFormalQuote_def split: option.splits sum.splits if_splits dest!: tx)
qed

lemma retry_frame: "retryAutomationJob c j i seen db = Inr (ch, db') \<Longrightarrow> frame db' = frame db"
proof -
  have tx: "retryTransaction op k c j i db = Inr (ch, db') \<Longrightarrow> frame db' = frame db" for op k
    by (auto simp: retryTransaction_def Let_def result_simps dest!: reserve_frame update_change_frame)
  assume "retryAutomationJob c j i seen db = Inr (ch, db')"
  then show ?thesis
    by (auto simp: retryAutomationJob_def Let_def split: option.splits dest!: transacted_cases tx)
qed

lemma portal_command_cases:
  assumes "portalChangeCommand op c i ex seen db = Inr (ch, db')"
  obtains "db' = db" | k d change d' where "reserveCommand (in_commandId i) (ac_id (in_actor i)) op k
      (in_requestHash i) (in_now i) db = Inr d" "findChange c d = Some change"
    "ch_version change = in_version i" "in_now i < ch_completionDeadlineAt change"
    "ex change d = Inr d'" "db' = completeCommand (in_commandId i) ResCHANGE c (in_now i) d'"
  using assms unfolding portalChangeCommand_def Let_def
  by (auto split: option.splits sum.splits if_splits
    simp: findOwnedChange_def assertPortalVersion_def assertBeforePortalDeadline_def)

lemma confirm_frame: "confirmQuote cf c i n v seen db = Inr (ch, db') \<Longrightarrow> frame db' = frame db"
  unfolding confirmQuote_def
  by (auto elim!: portal_command_cases dest!: reserve_frame update_change_frame)

lemma reject_frame: "rejectQuote cf c i n v seen db = Inr (ch, db') \<Longrightarrow> frame db' = frame db"
  unfolding rejectQuote_def
  by (auto elim!: portal_command_cases dest!: reserve_frame update_change_frame
    simp: frame_considerations cons_link_def split: option.splits)

section \<open>The agreement\<close>

lemma reserve_generation_frame: "reserveGeneration cf c i gx n db = Inr (g, db') \<Longrightarrow> frame db' = frame db"
proof -
  have fresh: "freshGeneration k c i gx n db = Inr (g, db') \<Longrightarrow> frame db' = frame db" for k
    by (auto simp: freshGeneration_def Let_def split: option.splits if_splits
      dest!: reserve_frame update_change_frame)
  have recover: "recoverGeneration cm r c t gx db = Inr (g, db') \<Longrightarrow> frame db' = frame db" for cm r t
    by (auto simp: recoverGeneration_def split: option.splits)
  assume "reserveGeneration cf c i gx n db = Inr (g, db')"
  then show ?thesis
    unfolding reserveGeneration_def rbind_Inr_iff ensure_Inr_iff
    by (elim exE conjE) (auto split: option.split_asm resource_type.split_asm prod.split_asm dest!: fresh recover)
qed

lemma finalize_generation_frame: "finalizeGeneration k t c a i v db = Inr (ct, db') \<Longrightarrow> frame db' = frame db"
  by (auto simp: finalizeGeneration_def split: option.splits resource_type.splits
    dest!: update_contract_frame update_change_frame)

lemma abort_frame: "abortGenerationReservation k c t db = Inr db' \<Longrightarrow> frame db' = frame db"
proof -
  have unlink: "write_changes (snd (update_many P (\<lambda>c. c\<lparr>ch_contractId := None\<rparr>) (db_changes d))) d = Inr d'
      \<Longrightarrow> frame d' = frame d" for P d d'
    by (erule write_changes_frame) (simp add: map_update_many)
  assume "abortGenerationReservation k c t db = Inr db'"
  then show ?thesis
    by (auto simp: abortGenerationReservation_def split: option.splits if_splits
      dest!: update_contract_frame unlink)
qed

section \<open>Workers and other modules\<close>

lemma complete_frame: "frame (snd (completeIfReady c db)) = frame db"
  by (simp add: completeIfReady_def Let_def frame_changes split: option.splits)

lemma mark_frame: "frame (snd (markManualTakeover t j f db)) = frame db"
  by (simp add: markManualTakeover_def Let_def frame_changes split: option.splits)

lemma crossed_frame: "frame (takeOverCrossedChange c t db) = frame db"
  by (simp add: takeOverCrossedChange_def frame_changes)

lemma foreign_frame: "frame (writeForeign t db) = frame db"
  by (simp add: writeForeign_def frame_def)

lemma dispatch_frame: "dispatchReminder s r l t db = Inr (x, db') \<Longrightarrow> frame db' = frame db"
  by (auto simp: dispatchReminder_def set_reminder_status_def split: option.splits if_splits)

lemma retry_reminder_frame: "retryReminder s a r l t seen db = Inr (x, db') \<Longrightarrow> frame db' = frame db"
  by (auto simp: retryReminder_def split: option.splits dest!: dispatch_frame)

lemma reconcile_rows_frame: "frame (reconcileReminders n t q s rs db) = frame db"
  by (induction rs arbitrary: db) (auto simp: enqueueReminder_def)

lemma reconcile_frame: "reconcile a r t n db = Inr db' \<Longrightarrow> frame db' = frame db"
  by (auto simp: reconcile_def reconcile_rows_frame split: option.splits)

lemma continuations_frame: "frame (enqueueContinuations n t c s js db) = frame db"
  by (induction n t c s js db rule: enqueueContinuations.induct) simp_all

lemma continuation_jobs_frame: "frame (enqueueContinuationJobs g n t c s db) = frame db"
  by (simp add: enqueueContinuationJobs_def continuations_frame)

section \<open>Writing segments\<close>

lemma write_segments_Inr:
  "write_segments rows db = Inr db' \<longleftrightarrow>
   segment_keys_unique rows \<and> segment_dates_valid rows \<and> db' = db\<lparr>db_segments := rows\<rparr>"
  by (auto simp: write_segments_def)

lemma update_many_map: "snd (update_many P f rows) = map (\<lambda>r. if P r then f r else r) rows"
  by (simp add: update_many_def)

lemma timeline_okD:
  assumes "timeline_ok db"
  shows "chain_ok (db_segments db)"
    "links_ok (db_segments db) (map change_link (db_changes db)) (map cons_link (db_considerations db))"
  using assms by (simp_all add: timeline_ok_def)

lemma timeline_segments:
  fixes db :: sub_db
  assumes ok: "timeline_ok db" and "chain_ok rows"
    and "seg_core ` set (db_segments db) \<subseteq> seg_core ` set rows"
    and "\<And>t x. t \<in> set rows \<Longrightarrow> sg_sourceChangeOrderId t = Some x \<Longrightarrow>
      seg_core t \<notin> seg_core ` set (db_segments db) \<Longrightarrow> comes_from rows (map change_link (db_changes db)) t x"
  shows "timeline_ok (db\<lparr>db_segments := rows\<rparr>)"
  using links_segments [OF timeline_okD(2) [OF ok] assms(3,4)] assms(2) by (simp add: timeline_ok_def)

lemma core_map: "(\<And>s. s \<in> set rows \<Longrightarrow> seg_core (g s) = seg_core s) \<Longrightarrow> seg_core ` set (map g rows) = seg_core ` set rows"
  unfolding set_map image_image by (rule image_cong) simp_all

lemma timeline_map:
  fixes db :: sub_db
  assumes "timeline_ok db" and "chain_ok (map g (db_segments db))"
    and "\<And>s. s \<in> set (db_segments db) \<Longrightarrow> seg_core (g s) = seg_core s"
  shows "timeline_ok (db\<lparr>db_segments := map g (db_segments db)\<rparr>)"
proof -
  have core: "seg_core ` set (map g (db_segments db)) = seg_core ` set (db_segments db)"
    by (rule core_map) (rule assms(3))
  then show ?thesis by (intro timeline_segments [OF assms(1,2)]) auto
qed

lemma timeline_complete:
  assumes ok: "timeline_ok db"
    and w: "write_segments (snd (update_many P f (db_segments db))) db = Inr db'"
    and P: "\<And>s. P s \<Longrightarrow> sg_status s = SegACTIVE"
    and f: "\<And>s. seg_core (f s) = seg_core s \<and> sg_endDate (f s) = sg_endDate s \<and> sg_status (f s) = SegCOMPLETED"
  shows "timeline_ok db'"
proof -
  let ?g = "\<lambda>r. if P r then f r else r"
  have w': "segment_keys_unique (map ?g (db_segments db))" "segment_dates_valid (map ?g (db_segments db))"
    "db' = db\<lparr>db_segments := map ?g (db_segments db)\<rparr>"
    using w by (simp_all add: write_segments_Inr update_many_map)
  have "chain_ok (map ?g (db_segments db))"
    by (rule chain_complete [OF timeline_okD(1) [OF ok] _ w'(1,2)]) (use P f in auto)
  then show ?thesis unfolding w'(3) by (rule timeline_map [OF ok]) (use f in simp)
qed

section \<open>The source of an extension\<close>

lemma findChange_in: "findChange i db = Some c \<Longrightarrow> c \<in> set (db_changes db) \<and> ch_id c = i"
  unfolding findChange_def by (rule find_row_Some)

lemma findSegment_in: "findSegment i db = Some s \<Longrightarrow> s \<in> set (db_segments db) \<and> sg_id s = i"
  unfolding findSegment_def by (rule find_row_Some)

lemma findSegment_has:
  assumes "segment_keys_unique (db_segments db)" and "s \<in> set (db_segments db)"
  shows "findSegment (sg_id s) db = Some s"
  using assms by (simp add: findSegment_def find_segment_unique)

lemma has_segment_find:
  "segment_keys_unique (db_segments db) \<Longrightarrow> has_segment (db_segments db) i q \<Longrightarrow>
   \<exists>s. findSegment i db = Some s \<and> sg_orderId s = q"
  using findSegment_has unfolding has_segment_def by blast

lemma projection_source:
  assumes ok: "timeline_ok db" and c: "c \<in> set (db_changes db)"
    and xp: "requireExtensionChangeProjection c db = Inr xp"
  shows "ch_changeType c = EXTENSION \<and> xp_sourceSegment xp \<in> set (db_segments db)
    \<and> link_source (change_link c) = Some (sg_id (xp_sourceSegment xp))
    \<and> sg_orderId (xp_sourceSegment xp) = ch_orderId c"
proof -
  note keys = chain_okD(1) [OF timeline_okD(1) [OF ok]]
  have ext: "ch_changeType c = EXTENSION" and proj: "projectedSourceSegment c db = Some (xp_sourceSegment xp)"
    using xp by (auto simp: requireExtensionChangeProjection_def Let_def split: if_splits option.splits)
  have link: "change_link c \<in> set (map change_link (db_changes db))" using c by simp
  have found: "\<exists>s. findSegment i db = Some s \<and> sg_orderId s = ch_orderId c"
    if "ch_sourceSegmentId c = Some i \<or> map_option xd_sourceSegmentId (ch_extensionDetail c) = Some i" for i
    using links_okD(2) [OF timeline_okD(2) [OF ok] link, of i] that has_segment_find [OF keys]
    by (auto simp: change_link_def)
  show ?thesis
  proof (cases "ch_extensionDetail c")
    case None
    then obtain i where i: "ch_sourceSegmentId c = Some i" "findSegment i db = Some (xp_sourceSegment xp)"
      using proj by (auto simp: projectedSourceSegment_def Let_def split: option.splits)
    then show ?thesis using found [of i] findSegment_in [OF i(2)] None ext
      by (auto simp: link_source_def change_link_def)
  next
    case (Some d)
    then obtain s where s: "findSegment (xd_sourceSegmentId d) db = Some s" "sg_orderId s = ch_orderId c"
      using found [of "xd_sourceSegmentId d"] by auto
    then have "xp_sourceSegment xp = s" using proj Some by (simp add: projectedSourceSegment_def)
    then show ?thesis using s findSegment_in [OF s(1)] Some ext
      by (auto simp: link_source_def change_link_def)
  qed
qed

text \<open>A segment that an extension created follows the source of that extension.\<close>

lemma source_follows:
  assumes ok: "timeline_ok db" and t: "t \<in> set (db_segments db)" "sg_sourceChangeOrderId t = Some (ch_id c)"
    and c: "c \<in> set (db_changes db)" and xp: "requireExtensionChangeProjection c db = Inr xp"
  shows "seg_follows (xp_sourceSegment xp) t"
proof -
  let ?s = "xp_sourceSegment xp"
  note chain = timeline_okD(1) [OF ok] and links = timeline_okD(2) [OF ok]
  note src = projection_source [OF ok c xp]
  obtain l where l: "l \<in> set (map change_link (db_changes db))" "ln_id l = ch_id c"
    "ln_type l = EXTENSION \<longrightarrow> (\<exists>g \<in> set (db_segments db). link_source l = Some (sg_id g)
       \<and> sg_orderId t = sg_orderId g \<and> sg_sequenceNo t = sg_sequenceNo g + 1)"
    using links_okD(3) [OF links t] by (auto simp: comes_from_def)
  have ids: "distinct (map ch_id (db_changes db))"
    using links_okD(1) [OF links] by (simp add: comp_def change_link_def)
  obtain c' where c': "c' \<in> set (db_changes db)" "l = change_link c'" using l(1) by auto
  then have "c' = c" using l(2) c ids by (auto simp: change_link_def distinct_map dest: inj_onD)
  then have "l = change_link c" using c'(2) by simp
  then obtain g where g: "g \<in> set (db_segments db)" "sg_id g = sg_id ?s"
      "sg_orderId t = sg_orderId g" "sg_sequenceNo t = sg_sequenceNo g + 1"
    using l(3) src by (auto simp: change_link_def)
  have g': "g = ?s" using keys_inj(1) [OF chain_okD(1) [OF chain] g(1) _ g(2)] src by blast
  have "sg_sequenceNo t \<noteq> 1" using chain_okD(3) [OF chain g(1)] g(4) by linarith
  then obtain p where p: "p \<in> set (db_segments db)" "seg_follows p t"
    using chain_okD(6) [OF chain t(1)] by blast
  have "p = g"
    by (rule keys_inj(2) [OF chain_okD(1) [OF chain] p(1) g(1)])
      (use p(2) g(3,4) in \<open>auto simp only: seg_follows_def\<close>)
  then show ?thesis using p(2) g' by blast
qed

section \<open>Dates\<close>

lemma time_clip_Some: "time_clip t = Some u \<Longrightarrow> u = t"
  by (simp add: time_clip_def split: if_splits)

lemma shift_Some: "Some u = shiftUtcDays t k \<Longrightarrow> u = t + k * 86400000"
  by (metis shiftUtcDays_def time_clip_Some)

lemma addUtcDays_shift:
  assumes "utc_year t < 0 \<or> 99 < utc_year t"
  shows "addUtcDays (Some t) k = time_clip ((t div ms_per_day + k) * ms_per_day)"
proof -
  have "full_year (utc_year t) = utc_year t" using assms by (auto simp: full_year_def)
  moreover have "make_day (utc_year t) (utc_month t) (utc_date t + k) = t div ms_per_day + k"
    using day_fields(2) [of "t div ms_per_day"]
    by (simp add: make_day_date utc_year_def utc_month_def utc_date_def)
  ultimately show ?thesis by (simp add: addUtcDays_def js_utc_date_def js_utc_def make_time_def)
qed

text \<open>The midnights that \<open>Date.UTC\<close> makes of the fields of an instant are of no two-digit year.\<close>

lemma utc_midnight:
  assumes "js_utc_date (utc_year s) (utc_month s) (utc_date s) = Some b"
  shows "b mod ms_per_day = 0 \<and> (utc_year b < 0 \<or> 99 < utc_year b)"
proof -
  let ?d = "s div ms_per_day"
  have b: "b = make_day (full_year (utc_year s)) (utc_month s) (utc_date s) * ms_per_day"
    using assms by (auto simp: js_utc_date_def js_utc_def make_time_def dest: time_clip_Some)
  have m: "0 \<le> utc_month s" "utc_month s \<le> 11" "1 \<le> utc_date s"
    using day_fields(1) [of ?d] by (auto simp: valid_ymd_def utc_month_def utc_date_def utc_year_def)
  show ?thesis
  proof (cases "0 \<le> utc_year s \<and> utc_year s \<le> 99")
    case True
    then have "day_from_year 1900 \<le> make_day (1900 + utc_year s) (utc_month s) (utc_date s)"
      using m day_from_year_mono [of 1900 "1900 + utc_year s"]
      by (auto simp: make_day_def Let_def month_offset_def)
    then show ?thesis using year_of_day_ge [of 1900] True b
      by (fastforce simp: full_year_def utc_year_def)
  next
    case False
    then have "full_year (utc_year s) = utc_year s" by (auto simp: full_year_def)
    then have "b = ?d * ms_per_day"
      using b day_fields(2) [of ?d] by (simp add: utc_year_def utc_month_def utc_date_def)
    then show ?thesis using False by (auto simp: utc_year_def)
  qed
qed

lemma business_date_shift:
  assumes "shanghaiBusinessDate (Some t) = Some b" and "addUtcDays (Some b) (- 1) = Some l"
  shows "b = l + 86400000"
proof -
  obtain s where "js_utc_date (utc_year s) (utc_month s) (utc_date s) = Some b"
    using assms(1) by (auto simp: shanghaiBusinessDate_def split: option.splits)
  then have b: "b mod ms_per_day = 0" "utc_year b < 0 \<or> 99 < utc_year b"
    using utc_midnight by blast+
  have "l = (b div ms_per_day - 1) * ms_per_day"
    by (rule time_clip_Some) (use addUtcDays_shift [OF b(2), of "- 1"] assms(2) in simp)
  then have "l = b div ms_per_day * ms_per_day - ms_per_day" by (simp only: left_diff_distrib mult_1)
  moreover have "b div ms_per_day * ms_per_day = b" by (metis b(1) add.right_neutral div_mult_mod_eq)
  ultimately show ?thesis by simp
qed

section \<open>Segments that are created\<close>

lemma timeline_append:
  assumes ok: "timeline_ok db" and w: "write_segments (db_segments db @ [s]) db = Inr db'"
    and chain: "segment_keys_unique (db_segments db @ [s]) \<Longrightarrow> segment_dates_valid (db_segments db @ [s])
      \<Longrightarrow> chain_ok (db_segments db @ [s])"
    and origin: "\<And>x. sg_sourceChangeOrderId s = Some x \<Longrightarrow>
      comes_from (db_segments db @ [s]) (map change_link (db_changes db)) s x"
  shows "timeline_ok db'"
proof -
  have w': "segment_keys_unique (db_segments db @ [s])" "segment_dates_valid (db_segments db @ [s])"
    "db' = db\<lparr>db_segments := db_segments db @ [s]\<rparr>"
    using w by (simp_all add: write_segments_Inr)
  show ?thesis unfolding w'(3)
    by (rule timeline_segments [OF ok chain [OF w'(1,2)]]) (use origin in auto)
qed

lemma ensure_base_timeline:
  assumes ok: "timeline_ok db" and run: "ensureBaseSegmentInTransaction n q a db = Inr (s, db')"
  shows "timeline_ok db'"
proof (cases "db' = db")
  case False
  then obtain order where order: "findOrder q db = Some order"
    and none: "List.find (\<lambda>s. sg_orderId s = q \<and> sg_segmentType s = SegBASE) (db_segments db) = None"
    and w: "write_segments (db_segments db @ [base_segment n a (the (so_startDate order))
      (the (so_endDate order)) order (the (findContract (so_contractId order) db))]) db = Inr db'"
    using run by (auto simp: ensureBaseSegmentInTransaction_def Let_def split: option.split_asm)
  let ?s = "base_segment n a (the (so_startDate order)) (the (so_endDate order)) order
    (the (findContract (so_contractId order) db))"
  have q: "so_id order = q" using order find_row_Some unfolding findOrder_def by metis
  show ?thesis
  proof (rule timeline_append [OF ok w])
    assume "segment_keys_unique (db_segments db @ [?s])" "segment_dates_valid (db_segments db @ [?s])"
    then show "chain_ok (db_segments db @ [?s])"
      by (intro chain_base [OF timeline_okD(1) [OF ok]])
        (use none q in \<open>auto simp: base_segment_def find_None_iff\<close>)
  qed (simp add: base_segment_def)
qed (use ok in simp)

lemma archive_frame: "archiveContractEvidence t c a db = Inr db' \<Longrightarrow> frame db' = frame db"
  unfolding archiveContractEvidence_def by (rule update_contract_frame)

lemma enqueue_activation_frame: "enqueueActivation n t c s db = Inr db' \<Longrightarrow> frame db' = frame db"
  by (auto simp: enqueueActivation_def split: option.splits)

lemma extension_segment_comes_from:
  assumes ok: "timeline_ok db" and c: "c \<in> set (db_changes db)"
    and xp: "requireExtensionChangeProjection c db = Inr xp"
  shows "comes_from (db_segments db @ [extension_segment n t c xp tm sn])
    (map change_link (db_changes db)) (extension_segment n t c xp tm sn) (ch_id c)"
  unfolding comes_from_def
  using projection_source [OF ok c xp] c
  by (intro bexI [of _ "change_link c"]) (auto simp: extension_segment_def change_link_def)

lemma extension_segment_append:
  assumes ok: "timeline_ok db" and c: "c \<in> set (db_changes db)"
    and xp: "requireExtensionChangeProjection c db = Inr xp"
    and start: "Some (xp_targetStartDate xp) = shiftUtcDays (sg_endDate (xp_sourceSegment xp)) 1"
    and w: "write_segments (db_segments db @ [extension_segment n t c xp tm sn]) db = Inr db'"
  shows "timeline_ok db'"
proof (rule timeline_append [OF ok w])
  let ?s = "extension_segment n t c xp tm sn"
  note src = projection_source [OF ok c xp]
  assume "segment_keys_unique (db_segments db @ [?s])" "segment_dates_valid (db_segments db @ [?s])"
  moreover have "seg_follows (xp_sourceSegment xp) ?s"
    using src shift_Some [OF start] by (simp add: seg_follows_def extension_segment_def)
  ultimately show "chain_ok (db_segments db @ [?s])"
    using src by (intro chain_append [OF timeline_okD(1) [OF ok]]) (auto simp: extension_segment_def)
qed (use extension_segment_comes_from [OF ok c xp] in \<open>auto simp: extension_segment_def\<close>)

text \<open>What the archival of an extension did, when it did anything.\<close>

lemma finalize_extension_cases:
  assumes "finalizeExtension c i db = Inr (r, db')"
  obtains (duplicate) s where "ch_status c = ChgSCHEDULED" "targetSegment (ch_id c) db = Some s"
      "r = SegmentDuplicate (sg_id s)" "db' = db"
  | (late) "archiveContractEvidence (ai_contractId i) (ai_completedAt i) (ai_decisionAt i) db = Inr db'"
      "r = LateEvidenceOnly"
      "expiryWins c (map_option rc_status (findConsideration (ch_renewalConsiderationId c) db')) (ai_decisionAt i)"
  | (scheduled) xp db1 qt db2 db3 db4 segment where
      "requireExtensionChangeProjection c db = Inr xp"
      "archiveContractEvidence (ai_contractId i) (ai_completedAt i) (ai_decisionAt i) db = Inr db1"
      "\<not> expiryWins c (map_option rc_status (findConsideration (ch_renewalConsiderationId c) db1)) (ai_decisionAt i)"
      "assertScheduleSource c xp (map_option rc_status (findConsideration (ch_renewalConsiderationId c) db1)) db1 = Inr qt"
      "segment = extension_segment (ai_newSegmentId i) (ai_contractId i) c xp (cq_terms qt)
         (case findContract (ch_contractId c) db of None \<Rightarrow> CNull | Some t \<Rightarrow> ct_contractSnapshot t)"
      "write_segments (db_segments db1 @ [segment]) db1 = Inr db2"
      "enqueueActivation (ai_newJobId i) (ai_decisionAt i) (ch_id c) segment db2 = Inr db3"
      "update_change (ch_id c) (\<lambda>c. c\<lparr>ch_status := ChgSCHEDULED, ch_version := ch_version c + 1\<rparr>) db3 = Inr db4"
      "r = SegmentScheduled (sg_id segment)"
      "db' = cancelRenewalJobs (ch_id c) (ch_renewalConsiderationId c)
         (settleConsideration (ch_renewalConsiderationId c) (ai_completedAt i) db4)"
proof -
  obtain xp where xp: "requireExtensionChangeProjection c db = Inr xp"
    using assms by (auto simp: finalizeExtension_def)
  show ?thesis
  proof (cases "if ch_status c = ChgSCHEDULED then targetSegment (ch_id c) db else None")
    case (Some s)
    then have "ch_status c = ChgSCHEDULED" "targetSegment (ch_id c) db = Some s"
      by (simp_all split: if_splits)
    moreover have "r = SegmentDuplicate (sg_id s)" "db' = db"
      using assms by (simp_all add: finalizeExtension_def xp Some)
    ultimately show ?thesis by (rule duplicate)
  next
    case None
    then obtain db1 where db1: "archiveContractEvidence (ai_contractId i) (ai_completedAt i) (ai_decisionAt i) db = Inr db1"
      using assms xp by (auto simp: finalizeExtension_def)
    show ?thesis
    proof (cases "expiryWins c (map_option rc_status (findConsideration (ch_renewalConsiderationId c) db1)) (ai_decisionAt i)")
      case True
      then have "r = LateEvidenceOnly" "db' = db1"
        using assms by (simp_all add: finalizeExtension_def Let_def xp None db1)
      then show ?thesis using db1 True by (intro late) simp_all
    next
      case False
      define segment where "segment = (\<lambda>qt :: change_quote. extension_segment (ai_newSegmentId i) (ai_contractId i) c xp (cq_terms qt)
        (case findContract (ch_contractId c) db of None \<Rightarrow> CNull | Some t \<Rightarrow> ct_contractSnapshot t))"
      have "\<exists>qt db2 db3 db4.
        assertScheduleSource c xp (map_option rc_status (findConsideration (ch_renewalConsiderationId c) db1)) db1 = Inr qt
        \<and> write_segments (db_segments db1 @ [segment qt]) db1 = Inr db2
        \<and> enqueueActivation (ai_newJobId i) (ai_decisionAt i) (ch_id c) (segment qt) db2 = Inr db3
        \<and> update_change (ch_id c) (\<lambda>c. c\<lparr>ch_status := ChgSCHEDULED, ch_version := ch_version c + 1\<rparr>) db3 = Inr db4
        \<and> r = SegmentScheduled (sg_id (segment qt))
        \<and> db' = cancelRenewalJobs (ch_id c) (ch_renewalConsiderationId c)
            (settleConsideration (ch_renewalConsiderationId c) (ai_completedAt i) db4)"
        using assms unfolding segment_def
        by (simp only: finalizeExtension_def Let_def xp None db1 False rbind.simps option.case if_False
          rbind_Inr_iff sum.inject prod.inject)
          (elim exE conjE, intro exI conjI, (assumption | erule sym)+)
      then obtain qt db2 db3 db4 where
        "assertScheduleSource c xp (map_option rc_status (findConsideration (ch_renewalConsiderationId c) db1)) db1 = Inr qt"
        "write_segments (db_segments db1 @ [segment qt]) db1 = Inr db2"
        "enqueueActivation (ai_newJobId i) (ai_decisionAt i) (ch_id c) (segment qt) db2 = Inr db3"
        "update_change (ch_id c) (\<lambda>c. c\<lparr>ch_status := ChgSCHEDULED, ch_version := ch_version c + 1\<rparr>) db3 = Inr db4"
        "r = SegmentScheduled (sg_id (segment qt))"
        "db' = cancelRenewalJobs (ch_id c) (ch_renewalConsiderationId c)
            (settleConsideration (ch_renewalConsiderationId c) (ai_completedAt i) db4)"
        by blast
      then show ?thesis using scheduled [OF xp db1 False _ fun_cong [OF segment_def]] by blast
    qed
  qed
qed

lemma schedule_source_start:
  "assertScheduleSource c xp st db = Inr qt \<Longrightarrow>
   Some (xp_targetStartDate xp) = shiftUtcDays (sg_endDate (xp_sourceSegment xp)) 1"
  by (auto simp: assertScheduleSource_def split: option.splits)

lemma frame_parts:
  "frame d = frame db \<Longrightarrow> db_segments d = db_segments db \<and> map change_link (db_changes d) = map change_link (db_changes db)"
  by (simp add: frame_def)

lemma finalize_extension_timeline:
  assumes ok: "timeline_ok db" and c: "c \<in> set (db_changes db)"
    and run: "finalizeExtension c i db = Inr (r, db')"
  shows "timeline_ok db'"
  using run
proof (cases rule: finalize_extension_cases)
  case (duplicate s)
  then show ?thesis using ok by simp
next
  case late
  then show ?thesis using ok archive_frame timeline_frame by blast
next
  case (scheduled xp db1 qt db2 db3 db4 segment)
  have f: "frame db1 = frame db" using scheduled(2) by (rule archive_frame)
  have ok1: "timeline_ok db1" by (rule timeline_frame [OF f ok])
  have segs: "db_segments db1 = db_segments db" using frame_parts [OF f] by simp
  have w: "write_segments (db_segments db @ [segment]) (db\<lparr>db_segments := db_segments db\<rparr>)
      = Inr (db\<lparr>db_segments := db_segments db @ [segment]\<rparr>)"
    using scheduled(6) segs by (simp add: write_segments_Inr)
  have "timeline_ok (db\<lparr>db_segments := db_segments db @ [segment]\<rparr>)"
    using extension_segment_append [OF ok c scheduled(1) schedule_source_start [OF scheduled(4)]] w scheduled(5)
    by simp
  moreover have "frame db2 = frame (db\<lparr>db_segments := db_segments db @ [segment]\<rparr>)"
    using scheduled(6) f segs by (auto simp: write_segments_Inr frame_def)
  moreover have "frame db' = frame db2"
    using enqueue_activation_frame [OF scheduled(7)] update_change_frame [OF scheduled(8)] scheduled(10) by simp
  ultimately show ?thesis using timeline_frame by metis
qed

lemma finalize_other_frame: "finalizeOther e b c i db = Inr (r, db') \<Longrightarrow> frame db' = frame db"
  by (auto simp: finalizeOther_def split: if_splits dest!: archive_frame update_change_frame)

lemma archive_timeline:
  assumes ok: "timeline_ok db" and run: "finalizeArchivedContract i db = Inr (r, db')"
  shows "timeline_ok db'"
proof -
  obtain c where c: "List.find (\<lambda>c. ch_contractId c = Some (ai_contractId i)) (db_changes db) = Some c"
    using run by (auto simp: finalizeArchivedContract_def split: option.splits)
  then have "c \<in> set (db_changes db)" by (auto simp: find_Some_iff)
  then show ?thesis
    using run c finalize_extension_timeline [OF ok] timeline_frame [OF finalize_other_frame ok]
    by (auto simp: finalizeArchivedContract_def finalizeVehicleSwap_def finalizeEarlyTermination_def
      finalizeManagedOther_def split: change_type.splits)
qed

section \<open>Activation\<close>

lemma switch_timeline:
  assumes ok: "timeline_ok db" and t: "t \<in> set (db_segments db)" "sg_status t = SegSCHEDULED"
    and p: "p \<in> set (db_segments db)" "seg_follows p t"
    and run: "switchSegments now t c p db = Inr db'"
  shows "timeline_ok db'"
proof -
  let ?P = "\<lambda>s. sg_id s = sg_id p \<and> sg_status s = SegACTIVE"
  let ?f = "\<lambda>s. s\<lparr>sg_completedAt := Some now, sg_status := SegCOMPLETED\<rparr>"
  let ?Q = "\<lambda>s. sg_id s = sg_id t \<and> sg_status s = SegSCHEDULED"
  let ?h = "\<lambda>s. s\<lparr>sg_activatedAt := Some now, sg_status := SegACTIVE\<rparr>"
  let ?g1 = "\<lambda>s. if ?P s then ?f s else s" and ?g2 = "\<lambda>s. if ?Q s then ?h s else s"
  obtain db1 db2 where w1: "write_segments (snd (update_many ?P ?f (db_segments db))) db = Inr db1"
    and w2: "write_segments (snd (update_many ?Q ?h (db_segments db1))) db1 = Inr db2"
    and rest: "frame db' = frame db2" and count: "fst (update_many ?P ?f (db_segments db)) = 1"
    using run by (auto simp: switchSegments_def Let_def map_update_many dest!: write_changes_frame)
  note chain = timeline_okD(1) [OF ok]
  have ok1: "timeline_ok db1"
    by (rule timeline_complete [OF ok w1]) (auto simp: seg_core_def)
  have db1: "db_segments db1 = map ?g1 (db_segments db)" using w1 by (auto simp: write_segments_Inr update_many_map)
  have "filter ?P (db_segments db) \<noteq> []" using count by (auto simp: update_many_def)
  then obtain p' where "p' \<in> set (db_segments db)" "?P p'" by (auto simp: filter_empty_conv)
  then have pa: "sg_status p = SegACTIVE" using keys_inj(1) [OF chain_okD(1) [OF chain] _ p(1), of p'] by auto
  have t1: "t \<in> set (db_segments db1)" using t by (force simp: db1)
  have p1: "?f p \<in> set (db_segments db1)" "seg_follows (?f p) t"
    using p pa by (force simp: db1) (use p in \<open>simp add: seg_follows_def\<close>)
  have w2': "segment_keys_unique (map ?g2 (db_segments db1))" "segment_dates_valid (map ?g2 (db_segments db1))"
    "db2 = db1\<lparr>db_segments := map ?g2 (db_segments db1)\<rparr>"
    using w2 by (simp_all add: write_segments_Inr update_many_map)
  have "chain_ok (map ?g2 (db_segments db1))"
    by (rule chain_activate [OF timeline_okD(1) [OF ok1] t1 t(2) p1 _ _ _ _ _ w2'(1,2)])
      (use t keys_inj(1) [OF chain_okD(1) [OF timeline_okD(1) [OF ok1]] _ t1] in \<open>auto simp: seg_core_def\<close>)
  then have "timeline_ok db2" unfolding w2'(3) by (rule timeline_map [OF ok1]) (auto simp: seg_core_def)
  then show ?thesis using rest timeline_frame by blast
qed

lemma activate_timeline:
  assumes ok: "timeline_ok db" and run: "activate g n i now db = Inr (r, db')"
  shows "timeline_ok db'"
proof -
  obtain t c where found: "(case findSegment i db of None \<Rightarrow> None
        | Some s \<Rightarrow> (case sg_sourceChangeOrderId s of None \<Rightarrow> None
          | Some c \<Rightarrow> map_option (Pair s) (findChange c db))) = Some (t, c)" (is "?found = _")
    using run unfolding activate_def by (cases ?found) auto
  then have t: "findSegment i db = Some t" "sg_sourceChangeOrderId t = Some (ch_id c)"
    "c \<in> set (db_changes db)"
    by (auto split: option.split_asm dest!: findChange_in)
  obtain xp where xp: "requireExtensionChangeProjection c db = Inr xp"
    using run by (auto simp: activate_def found)
  have tin: "t \<in> set (db_segments db)" using findSegment_in [OF t(1)] by simp
  have fol: "seg_follows (xp_sourceSegment xp) t" by (rule source_follows [OF ok tin t(2,3) xp])
  have src: "xp_sourceSegment xp \<in> set (db_segments db)" using projection_source [OF ok t(3) xp] by simp
  obtain db1 where db1: "timeline_ok db1" "frame db' = frame db1"
  proof (cases "sg_status t = SegSCHEDULED \<and> ch_status c = ChgSCHEDULED")
    case True
    then obtain db1 where "switchSegments now t c (xp_sourceSegment xp) db = Inr db1" "frame db' = frame db1"
      using run by (auto simp: activate_def found xp continuation_jobs_frame)
    then show ?thesis using that switch_timeline [OF ok tin _ src fol] True by blast
  next
    case False
    then have "frame db' = frame db"
      using run by (auto simp: activate_def found xp continuation_jobs_frame split: if_splits)
    then show ?thesis using that ok by blast
  qed
  then show ?thesis using timeline_frame by blast
qed

section \<open>Ends and cuts\<close>

lemma fail_expired_frame: "frame (failExpiredChange found db) = frame db"
  by (simp add: failExpiredChange_def frame_changes split: option.splits)

lemma ensure_return_frame: "frame (snd (ensureReturn found p q v d db)) = frame db"
  by (simp add: ensureReturn_def split: option.splits)

lemma expire_rows_frame:
  assumes "expireRows s t order ls db = Inr db'"
  obtains db1 where "frame db' = frame db1"
    "sg_status s = SegACTIVE \<and> write_segments (snd (update_many (\<lambda>r. sg_id r = sg_id s \<and> sg_status r = SegACTIVE)
      (\<lambda>s. s\<lparr>sg_completedAt := Some t, sg_status := SegCOMPLETED\<rparr>) (db_segments db))) db = Inr db1
     \<or> sg_status s \<noteq> SegACTIVE \<and> db1 = db"
  using assms unfolding expireRows_def Let_def
  by (auto simp: fail_expired_frame frame_considerations cons_link_def split: if_splits option.split_asm)

lemma expire_timeline:
  assumes ok: "timeline_ok db" and run: "expireSegment cl i t seen db = Inr (r, db')"
  shows "timeline_ok db'"
proof -
  have rows: "timeline_ok d" if "expireRows s t order ls db = Inr d" for s order ls d
    using that
  proof (rule expire_rows_frame)
    fix db1 assume "frame d = frame db1" and "sg_status s = SegACTIVE \<and> write_segments (snd (update_many (\<lambda>r. sg_id r = sg_id s \<and> sg_status r = SegACTIVE)
      (\<lambda>s. s\<lparr>sg_completedAt := Some t, sg_status := SegCOMPLETED\<rparr>) (db_segments db))) db = Inr db1
     \<or> sg_status s \<noteq> SegACTIVE \<and> db1 = db"
    moreover from this have "timeline_ok db1"
      using ok timeline_complete [OF ok, of _ _ db1] by (auto simp: seg_core_def)
    ultimately show "timeline_ok d" using timeline_frame by blast
  qed
  have locks: "timeline_ok d" if "expireWithLocks cl s t db = Inr (x, d)" for s x d
  proof -
    have "d = db \<or> (\<exists>s' order ls d' e p q v dl. expireRows s' t order ls db = Inr d'
        \<and> d = snd (ensureReturn e p q v dl d'))"
      using that unfolding expireWithLocks_def rbind_Inr_iff
      by (elim exE conjE) (force simp: Let_def split: option.split_asm if_split_asm prod.split_asm)
    then show ?thesis using ok rows timeline_frame [OF ensure_return_frame] by blast
  qed
  show ?thesis using run ok locks by (auto simp: expireSegment_def split: option.split_asm if_split_asm)
qed

lemma terminate_timeline:
  assumes ok: "timeline_ok db" and run: "applyEarlyTerminationCoreBoundary a db = Inr db'"
  shows "timeline_ok db'"
proof -
  obtain db1 where w: "write_segments (snd (update_many (\<lambda>s. sg_id s = ta_segmentId a \<and> sg_status s = SegACTIVE)
      (\<lambda>s. s\<lparr>sg_completedAt := Some (ta_effectiveAt a), sg_status := SegCOMPLETED\<rparr>) (db_segments db))) db = Inr db1"
    and f: "frame db' = frame db1"
    using run unfolding applyEarlyTerminationCoreBoundary_def Let_def
    by (auto simp: frame_considerations cons_link_def frame_changes) (simp add: frame_def map_update_many)?
  have "timeline_ok db1" by (rule timeline_complete [OF ok w]) (auto simp: seg_core_def)
  then show ?thesis using f timeline_frame by blast
qed

definition swapped_segment ::
    "id \<Rightarrow> change_order \<Rightarrow> contract_segment \<Rightarrow> time \<Rightarrow> time \<Rightarrow> commercial_terms \<Rightarrow> canonical \<Rightarrow> contract_segment" where
  "swapped_segment n c src b now tm sn = \<lparr> sg_id = n, sg_orderId = ch_orderId c,
     sg_segmentType = SegVEHICLE_SWAP, sg_sequenceNo = sg_sequenceNo src + 1, sg_status = SegACTIVE,
     sg_startDate = b, sg_endDate = sg_endDate src, sg_sourceContractId = ch_contractId c,
     sg_sourceChangeOrderId = Some (ch_id c), sg_terms = tm, sg_contractSnapshot = sn,
     sg_activatedAt = Some now, sg_completedAt = None, sg_createdBy = None \<rparr>"

lemma swap_cases:
  assumes "switchSwapSegment i n now db = Inr (Some db')"
  obtains c src b l tm sn db1 where "findChange i db = Some c" "ch_changeType c = VEHICLE_SWAP"
    "\<exists>k. ch_sourceSegmentId c = Some k \<and> findSegment k db = Some src" "sg_status src = SegACTIVE"
    "shanghaiBusinessDate (Some now) = Some b" "addUtcDays (Some b) (- 1) = Some l"
    "write_segments (upd_row sg_id (sg_id src) (\<lambda>s. s\<lparr>sg_completedAt := Some now,
       sg_endDate := l, sg_status := SegCOMPLETED\<rparr>) (db_segments db)) db = Inr db1"
    "write_segments (db_segments db1 @ [swapped_segment n c src b now tm sn]) db1 = Inr db'"
  using assms unfolding switchSwapSegment_def swapped_segment_def
  by (fastforce split: option.split_asm if_split_asm)

lemma swap_timeline:
  assumes ok: "timeline_ok db" and run: "switchSwapSegment i n now db = Inr (Some db')"
  shows "timeline_ok db'"
  using run
proof (cases rule: swap_cases)
  case (1 c src b l tm sn db1)
  let ?f = "\<lambda>s. s\<lparr>sg_completedAt := Some now, sg_endDate := l, sg_status := SegCOMPLETED\<rparr>"
  let ?g = "\<lambda>s. if sg_id s = sg_id src then ?f s else s"
  let ?n = "swapped_segment n c src b now tm sn"
  let ?rows = "map ?g (db_segments db) @ [?n]"
  note chain = timeline_okD(1) [OF ok]
  have c: "c \<in> set (db_changes db)" "ch_id c = i" using findChange_in [OF 1(1)] by simp_all
  obtain k where k: "ch_sourceSegmentId c = Some k" "findSegment k db = Some src" using 1(3) by blast
  have src: "src \<in> set (db_segments db)" using findSegment_in [OF k(2)] by simp
  have "change_link c \<in> set (map change_link (db_changes db))" using c(1) by simp
  moreover have "ln_root (change_link c) = Some k" using k(1) by (simp add: change_link_def)
  ultimately have "has_segment (db_segments db) k (ln_orderId (change_link c))"
    using links_okD(2) [OF timeline_okD(2) [OF ok]] by blast
  then have "has_segment (db_segments db) k (ch_orderId c)" by (simp add: change_link_def)
  then have order: "sg_orderId src = ch_orderId c"
    using has_segment_find [OF chain_okD(1) [OF chain]] k(2) by fastforce
  have db1: "db1 = db\<lparr>db_segments := map ?g (db_segments db)\<rparr>"
    using 1(7) by (simp add: write_segments_Inr upd_row_def)
  have w: "segment_keys_unique ?rows" "segment_dates_valid ?rows" "db' = db\<lparr>db_segments := ?rows\<rparr>"
    using 1(8) by (auto simp: write_segments_Inr db1)
  have core: "seg_core (?g s) = seg_core s" for s by (simp add: seg_core_def)
  have "chain_ok ?rows"
  proof (rule chain_cut [OF chain src 1(4)])
    show "?g s = s" if "s \<in> set (db_segments db)" "s \<noteq> src" for s
      using keys_inj(1) [OF chain_okD(1) [OF chain] that(1) src] that(2) by auto
    show "seg_follows (?g src) ?n"
      using business_date_shift [OF 1(5,6)] order by (simp add: seg_follows_def swapped_segment_def)
    show "seg_core (?g src) = seg_core src" by (rule core)
    show "segment_keys_unique ?rows" "segment_dates_valid ?rows" by (rule w)+
  qed (simp_all add: swapped_segment_def)
  moreover have "seg_core ` set (db_segments db) \<subseteq> seg_core ` set ?rows"
    using core_map [of "db_segments db" ?g, OF core] by auto
  moreover have "comes_from ?rows (map change_link (db_changes db)) t x"
    if t: "t \<in> set ?rows" "sg_sourceChangeOrderId t = Some x" "seg_core t \<notin> seg_core ` set (db_segments db)" for t x
  proof -
    have "t = ?n" using t(1,3) core_map [of "db_segments db" ?g, OF core] by auto
    then show ?thesis using t(2) c 1(2) unfolding comes_from_def
      by (intro bexI [of _ "change_link c"]) (auto simp: swapped_segment_def change_link_def)
  qed
  ultimately show ?thesis unfolding w(3) by (rule timeline_segments [OF ok])
qed

section \<open>New change orders and considerations\<close>

lemma insert_extension_timeline:
  assumes ok: "timeline_ok db" and run: "insertExtension n now q r m md rs pl db = Inr db'"
    and src: "has_segment (db_segments db) (pl_sourceSegmentId pl) q"
  shows "timeline_ok db'"
proof -
  obtain s e d where w: "write_changes (db_changes db @ [new_extension n now q r m md rs (pl_sourceSegmentId pl) s e d]) db = Inr db'"
    using run by (auto simp: insertExtension_def split: option.split_asm)
  let ?l = "change_link (new_extension n now q r m md rs (pl_sourceSegmentId pl) s e d)"
  have "distinct (map ln_id (map change_link (db_changes db) @ [?l]))"
    and db': "db' = db\<lparr>db_changes := db_changes db @ [new_extension n now q r m md rs (pl_sourceSegmentId pl) s e d]\<rparr>"
    using w by (auto simp: write_changes_def change_keys_unique_def change_link_def comp_def split: if_splits)
  then have "links_ok (db_segments db) (map change_link (db_changes db) @ [?l]) (map cons_link (db_considerations db))"
    by (intro links_change [OF timeline_okD(2) [OF ok]]) (auto simp: change_link_def new_extension_def src)
  then show ?thesis using timeline_okD(1) [OF ok] by (simp add: timeline_ok_def db')
qed

lemma latest_by_in: "latest_by key P rows = Some r \<Longrightarrow> r \<in> set rows \<and> P r"
proof -
  assume "latest_by key P rows = Some r"
  then obtain rs where "sort_key (\<lambda>r. - key r) (filter P rows) = r # rs"
    by (auto simp: latest_by_def first_row_def split: list.split_asm)
  then have "r \<in> set (sort_key (\<lambda>r. - key r) (filter P rows))" by (metis list.set_intros(1))
  then show ?thesis by simp
qed

lemma create_timeline:
  assumes ok: "timeline_ok db" and run: "createExtension cf i x g n seen db = Inr (c, db')"
  shows "timeline_ok db'"
proof -
  have tx: "timeline_ok d" if t: "extensionTransaction k i x n pl db = Inr (c', d)" for k pl c' d
  proof -
    obtain order db1 db2 where o1: "assertExtensionSourceOrder (findOrder (xi_orderId x) db) db = Inr order"
      and o2: "map_option sg_id (lastSegment (so_id order) db) = Some (pl_sourceSegmentId pl)"
      and o3: "reserveCommand (in_commandId i) (ac_id (in_actor i)) ''CREATE_EXTENSION'' k (in_requestHash i) (in_now i) db = Inr db1"
      and o4: "insertExtension n (in_now i) (so_id order) (xi_renewalConsiderationId x) (xi_extensionMonths x)
        (xi_pricingMode x) (normalizedReason (xi_priceOverrideReason x)) pl db1 = Inr db2"
      and o5: "d = completeCommand (in_commandId i) ResCHANGE n (in_now i) db2"
      using t unfolding extensionTransaction_def rbind_Inr_iff ensure_Inr_iff by auto
    have f: "frame db1 = frame db" using o3 by (rule reserve_frame)
    have "has_segment (db_segments db) (pl_sourceSegmentId pl) (so_id order)"
      using o2 latest_by_in unfolding lastSegment_def has_segment_def by fastforce
    then have "has_segment (db_segments db1) (pl_sourceSegmentId pl) (so_id order)"
      using frame_parts [OF f] by simp
    then have "timeline_ok db2" using insert_extension_timeline [OF timeline_frame [OF f ok] o4] by blast
    then show ?thesis unfolding o5 by (rule timeline_frame [rotated]) simp
  qed
  show ?thesis
    using run ok tx transacted_cases unfolding createExtension_def rbind_Inr_iff
    by (elim exE conjE) (fastforce split: planned.split_asm prod.split_asm)
qed

lemma decide_timeline:
  assumes ok: "timeline_ok db" and run: "decideRenewal cf r i d n seen db = Inr (x, db')"
  shows "timeline_ok db'"
proof -
  have tx: "timeline_ok e" if t: "decisionTransaction k r i d n db = Inr (x', e)" for k x' e
  proof -
    obtain db1 where db1: "reserveCommand (in_commandId i) (ac_id (in_actor i)) ''PORTAL_RENEWAL_DECISION'' k
        (in_requestHash i) (in_now i) db = Inr db1"
      using t by (auto simp: decisionTransaction_def Let_def)
    note ok1 = timeline_frame [OF reserve_frame [OF db1] ok]
    obtain cons where cons: "findOwnedConsideration r (ac_id (in_actor i)) db1 = Inr cons"
      using t db1 by (auto simp: decisionTransaction_def Let_def)
    then have r: "cons \<in> set (db_considerations db1)" "rc_id cons = r"
      using find_row_Some [of rc_id r "db_considerations db1" cons]
      by (auto simp: findOwnedConsideration_def findConsideration_def split: option.split_asm if_split_asm)
    have has: "has_segment (db_segments db1) (rc_segmentId cons) (rc_orderId cons)"
      using links_okD(4) [OF timeline_okD(2) [OF ok1], of "cons_link cons"] r by (simp add: cons_link_def)
    have ins: "insertExtension n (in_now i) (rc_orderId cons) o1 m md rs
        ((plan_after sg mo)\<lparr>pl_completionDeadlineAt := dl\<rparr>) db1 = Inr db2 \<Longrightarrow>
        findSegment (rc_segmentId cons) db1 = Some sg \<Longrightarrow> timeline_ok db2" for o1 m md rs mo dl db2 sg
      using has by (elim insert_extension_timeline [OF ok1]) (auto simp: plan_after_def Let_def dest!: findSegment_in)
    show ?thesis
    proof (cases "rc_decision cons = None")
      case False
      then have "frame e = frame db1"
        using t db1 cons by (auto simp: decisionTransaction_def Let_def split: if_splits)
      then show ?thesis using ok1 timeline_frame by blast
    next
      case True
      then have "\<exists>db2. frame e = frame db2 \<and> timeline_ok db2"
        using t db1 cons ok1 unfolding decisionTransaction_def Let_def
        by (auto simp: frame_considerations cons_link_def result_simps split: if_splits dest!: ins)
      then show ?thesis using timeline_frame by blast
    qed
  qed
  show ?thesis using run ok tx unfolding decideRenewal_def Let_def rbind_Inr_iff
    by (elim exE conjE) (auto split: option.split_asm sum.split_asm if_split_asm)
qed

lemma upsert_reminder_frame: "frame (snd (upsertReminder r db)) = frame db"
  by (simp add: upsertReminder_def split: option.split)

lemma enroll_reminder_frame: "frame (enrollReminder n t s c r x db) = frame db"
  by (simp add: enrollReminder_def enqueueReminder_def Let_def upsert_reminder_frame split: prod.split)

lemma fold_frame: "(\<And>x d. frame (f x d) = frame d) \<Longrightarrow> frame (fold f xs db) = frame db"
  by (induction xs arbitrary: db) auto

lemma enroll_timeline:
  assumes ok: "timeline_ok db" and run: "enrollSegment cf i now n db = Inr (b, db')"
  shows "timeline_ok db'"
proof (cases "db' = db")
  case False
  then obtain s dl st ds where s: "findSegment i db = Some s" and db': "db' = enrollRows s dl st ds now n db"
    using run by (auto simp: enrollSegment_def Let_def split: if_splits option.split_asm)
  define db1 where "db1 = (if List.find (\<lambda>r. rc_segmentId r = sg_id s) (db_considerations db) \<noteq> None then db
    else db\<lparr>db_considerations := db_considerations db @ [new_consideration (n 6) s dl st]\<rparr>)"
  have "frame db' = frame db1"
    unfolding db' enrollRows_def Let_def db1_def
    by (auto simp: fold_frame enroll_reminder_frame split: option.splits)
  moreover have "timeline_ok db1"
  proof -
    have "links_ok (db_segments db) (map change_link (db_changes db)) (map cons_link (db_considerations db1))"
      by (rule links_consideration [OF timeline_okD(2) [OF ok]])
        (use findSegment_in [OF s] in \<open>auto simp: db1_def new_consideration_def cons_link_def has_segment_def split: if_splits\<close>)
    moreover have "db_segments db1 = db_segments db" "db_changes db1 = db_changes db" by (simp_all add: db1_def)
    ultimately show ?thesis using timeline_okD(1) [OF ok] by (simp add: timeline_ok_def)
  qed
  ultimately show ?thesis using timeline_frame by blast
qed (use ok in simp)

lemma other_changes_timeline:
  assumes ok: "timeline_ok db" and run: "writeOtherChanges rows qs cs db = Inr db'"
  shows "timeline_ok db'"
proof -
  let ?old = "map change_link (db_changes db)" and ?new = "map change_link rows"
  note links = timeline_okD(2) [OF ok]
  have w: "extensions rows = extensions (db_changes db)"
      "\<And>c. c \<in> set rows \<Longrightarrow> ch_changeType c \<noteq> EXTENSION \<Longrightarrow> ch_extensionDetail c = None \<and> source_of_order (db_segments db) c"
      "ch_id ` set (db_changes db) \<subseteq> ch_id ` set rows" "change_keys_unique rows"
    and db': "frame db' = (db_segments db, ?new, map cons_link (db_considerations db))"
    using run by (auto simp: writeOtherChanges_def write_changes_def frame_def list_all_iff split: if_splits)
  have ids: "distinct (map ln_id ?new)" using w(4) by (simp add: change_keys_unique_def comp_def change_link_def)
  have ext: "c \<in> set (db_changes db) \<longleftrightarrow> c \<in> set rows" if "ch_changeType c = EXTENSION" for c
  proof -
    have "c \<in> set (extensions rows) \<longleftrightarrow> c \<in> set (extensions (db_changes db))" by (simp only: w(1))
    then show ?thesis using that by (simp add: extensions_def)
  qed
  have sources: "has_segment (db_segments db) i (ln_orderId l)"
    if l: "l \<in> set ?new" "ln_root l = Some i \<or> ln_detail l = Some i" for l i
  proof -
    obtain c where c: "c \<in> set rows" "l = change_link c" using l(1) by auto
    show ?thesis
    proof (cases "ch_changeType c = EXTENSION")
      case True
      then have "l \<in> set ?old" using ext c by simp
      then show ?thesis using links_okD(2) [OF links] l(2) by blast
    next
      case False
      then show ?thesis using w(2) [OF c(1)] l(2) c(2)
        by (auto simp: change_link_def source_of_order_def has_segment_def list_ex_iff)
    qed
  qed
  have origin: "comes_from (db_segments db) ?new t x"
    if t: "t \<in> set (db_segments db)" "sg_sourceChangeOrderId t = Some x" for t x
  proof -
    obtain c where c: "c \<in> set (db_changes db)" "ch_id c = x"
      "ch_changeType c = EXTENSION \<longrightarrow> (\<exists>g \<in> set (db_segments db). link_source (change_link c) = Some (sg_id g)
         \<and> sg_orderId t = sg_orderId g \<and> sg_sequenceNo t = sg_sequenceNo g + 1)"
      using links_okD(3) [OF links t] by (auto simp: comes_from_def change_link_def)
    obtain c' where c': "c' \<in> set rows" "ch_id c' = x" using w(3) c(1,2) by (metis (no_types, lifting) imageE image_eqI subsetD)
    have "c' = c" if "ch_changeType c' = EXTENSION"
    proof -
      have "c' \<in> set (db_changes db)" using ext that c'(1) by blast
      moreover have "distinct (map ch_id (db_changes db))"
        using links_okD(1) [OF links] by (simp add: comp_def change_link_def)
      ultimately show ?thesis using c(1,2) c'(2) by (auto simp: distinct_map dest: inj_onD)
    qed
    moreover have "ln_type (change_link c') = ch_changeType c'" "ln_id (change_link c') = x"
      using c'(2) by (simp_all add: change_link_def)
    ultimately have "ln_id (change_link c') = x \<and> (ln_type (change_link c') = EXTENSION \<longrightarrow>
        (\<exists>g \<in> set (db_segments db). link_source (change_link c') = Some (sg_id g)
          \<and> sg_orderId t = sg_orderId g \<and> sg_sequenceNo t = sg_sequenceNo g + 1))"
      using c(3) by auto
    then show ?thesis using c'(1) unfolding comes_from_def by auto
  qed
  have "links_ok (db_segments db) ?new (map cons_link (db_considerations db))"
    unfolding links_ok_def using ids sources origin links_okD(4) [OF links] by blast
  then show ?thesis using timeline_okD(1) [OF ok] db' by (auto simp: timeline_ok_def frame_def)
qed

section \<open>Every operation\<close>

lemma state_of_Inr: "state_of r = Inr db' \<Longrightarrow> \<exists>x. r = Inr (x, db')"
  by (cases r) (auto simp: state_of_def)

lemmas quiet_frames = approve_frame submit_frame cancel_frame takeover_frame quote_frame retry_frame
  confirm_frame reject_frame reserve_generation_frame finalize_generation_frame abort_frame
  dispatch_frame retry_reminder_frame reconcile_frame

lemma sub_transaction_timeline:
  assumes ok: "timeline_ok db" and run: "sub_transaction cmd db = Inr db'"
  shows "timeline_ok db'"
proof -
  note tl = ensure_base_timeline [OF ok] create_timeline [OF ok] decide_timeline [OF ok] archive_timeline [OF ok]
    activate_timeline [OF ok] expire_timeline [OF ok] swap_timeline [OF ok] terminate_timeline [OF ok]
    enroll_timeline [OF ok] other_changes_timeline [OF ok]
  note fr = timeline_frame [OF _ ok]
  show ?thesis using run ok
    by (cases cmd) (auto dest!: state_of_Inr intro: tl fr quiet_frames complete_frame mark_frame
      crossed_frame foreign_frame split: option.splits)
qed

interpretation subs: guarded_ops sub_transaction timeline_ok
  by unfold_locales (rule sub_transaction_timeline)

end
