(* ===== verification/ExtensionMoves.thy ===== *)
theory ExtensionMoves
  imports TimelineLaws
begin

text \<open>
  How the change orders of extensions move: the edges of their statuses, and that
  every operation moves every extension along them, counts the version up with
  each change of status and never touches its order, source and deadline.
\<close>

section \<open>Edges\<close>

fun extension_edges :: "change_status \<Rightarrow> change_status list" where
  "extension_edges ChgDRAFT = [ChgQUOTED, ChgCANCELLED, ChgMANUAL_TAKEOVER, ChgFAILED]"
| "extension_edges ChgQUOTED = [ChgCUSTOMER_CONFIRMED, ChgCANCELLED, ChgMANUAL_TAKEOVER, ChgFAILED]"
| "extension_edges ChgCUSTOMER_CONFIRMED = [ChgSIGNING_OR_PAYMENT, ChgCANCELLED, ChgMANUAL_TAKEOVER, ChgFAILED]"
| "extension_edges ChgSIGNING_OR_PAYMENT = [ChgSCHEDULED, ChgCANCELLED, ChgMANUAL_TAKEOVER, ChgFAILED]"
| "extension_edges ChgSCHEDULED = [ChgEXECUTING, ChgMANUAL_TAKEOVER, ChgFAILED]"
| "extension_edges ChgEXECUTING = [ChgCOMPLETED, ChgMANUAL_TAKEOVER, ChgFAILED]"
| "extension_edges ChgMANUAL_TAKEOVER = [ChgSCHEDULED, ChgEXECUTING, ChgCANCELLED, ChgFAILED]"
| "extension_edges ChgCOMPLETED = [ChgMANUAL_TAKEOVER]"
| "extension_edges ChgFAILED = [ChgMANUAL_TAKEOVER]"
| "extension_edges ChgCANCELLED = []"

definition extension_step :: "change_status \<Rightarrow> change_status \<Rightarrow> bool" where
  "extension_step s t = (t \<in> set (extension_edges s))"

interpretation extension_machine: status_machine extension_step "\<lambda>s. s = ChgCANCELLED"
  by unfold_locales (simp add: extension_step_def)

definition moves :: "change_order \<Rightarrow> change_order \<Rightarrow> bool" where
  "moves c d = (change_link d = change_link c \<and> ch_completionDeadlineAt d = ch_completionDeadlineAt c
     \<and> extension_step\<^sup>*\<^sup>* (ch_status c) (ch_status d) \<and> ch_version c \<le> ch_version d
     \<and> (ch_status d = ch_status c \<or> ch_version c < ch_version d))"

definition all_move :: "change_order list \<Rightarrow> change_order list \<Rightarrow> bool" where
  "all_move rows rows' = (\<forall>c \<in> set rows. ch_changeType c = EXTENSION \<longrightarrow> (\<exists>d \<in> set rows'. moves c d))"

lemma moves_refl [simp]: "moves c c"
  by (simp add: moves_def)

lemma moves_trans: "moves c d \<Longrightarrow> moves d e \<Longrightarrow> moves c e"
  by (auto simp: moves_def)

lemma moves_parts:
  "moves c d \<Longrightarrow> ch_id d = ch_id c \<and> ch_orderId d = ch_orderId c \<and> ch_changeType d = ch_changeType c"
  by (simp add: moves_def change_link_def)

lemma all_move_refl [simp]: "all_move rows rows"
  by (auto simp: all_move_def intro: moves_refl)

lemma all_move_trans: "all_move a b \<Longrightarrow> all_move b c \<Longrightarrow> all_move a c"
  unfolding all_move_def by (metis moves_parts moves_trans)

lemma all_move_map:
  assumes "\<And>c. c \<in> set rows \<Longrightarrow> ch_changeType c = EXTENSION \<Longrightarrow> moves c (g c)"
  shows "all_move rows (map g rows)"
  unfolding all_move_def using assms by (auto intro!: bexI simp del: set_map) (metis imageI set_map)

lemma all_move_update_many:
  assumes "\<And>c. P c \<Longrightarrow> ch_changeType c = EXTENSION \<Longrightarrow> moves c (f c)"
  shows "all_move rows (snd (update_many P f rows))"
  unfolding update_many_map by (rule all_move_map) (use assms in auto)

lemma all_move_append [simp]: "all_move rows (rows @ rows')"
  by (auto simp: all_move_def intro: moves_refl)

lemma all_move_upd_row:
  assumes "distinct (map ch_id rows)" and "c \<in> set rows" and "ch_id c = i" and "moves c (f c)"
  shows "all_move rows (upd_row ch_id i f rows)"
proof -
  have "moves d (if ch_id d = i then f d else d)" if "d \<in> set rows" for d
    using assms that by (auto simp: distinct_map dest: inj_onD)
  then show ?thesis unfolding upd_row_def by (intro all_move_map) blast
qed

section \<open>The operations\<close>

lemma timeline_ids: "timeline_ok db \<Longrightarrow> distinct (map ch_id (db_changes db))"
  using links_okD(1) [OF timeline_okD(2)] by (simp add: comp_def change_link_def)

lemma reserve_changes: "reserveCommand i a op k h n db = Inr db' \<Longrightarrow> db_changes db' = db_changes db"
  by (auto simp: reserveCommand_def split: if_splits)

lemma changes_simps [simp]:
  "db_changes (completeCommand i t r n db) = db_changes db"
  "db_changes (set_resource i t r n db) = db_changes db"
  "db_changes (update_quote q f db) = db_changes db"
  "db_changes (enqueueLinked y1 y2 y3 y4 y5 y6 y7 db) = db_changes db"
  "db_changes (cancelMarketingReminders z1 z2 db) = db_changes db"
  "db_changes (cancelRenewalJobs z3 z4 db) = db_changes db"
  "db_changes (update_considerations P g db) = db_changes db"
  "db_changes (settleConsideration z5 z6 db) = db_changes db"
  by (simp_all add: completeCommand_def set_resource_def update_quote_def enqueueLinked_def
    cancelMarketingReminders_def cancelRenewalJobs_def update_considerations_def settleConsideration_def
    split: option.split)

lemma write_changes_rows: "write_changes rows db = Inr db' \<Longrightarrow> db_changes db' = rows"
  by (auto simp: write_changes_def split: if_splits)

lemma update_contract_changes: "update_contract i f db = Inr db' \<Longrightarrow> db_changes db' = db_changes db"
  by (auto simp: update_contract_def split: if_splits)

text \<open>One row is changed by its id.\<close>

lemma update_change_move:
  assumes "update_change i f db = Inr db'" and "findChange i d = Some c" and "db_changes d = db_changes db"
    and "distinct (map ch_id (db_changes db))" and "ch_changeType c = EXTENSION \<Longrightarrow> moves c (f c)"
  shows "all_move (db_changes db) (db_changes db')"
proof -
  have rows: "db_changes db' = upd_row ch_id i f (db_changes db)"
    using assms(1) write_changes_rows unfolding update_change_def by blast
  have c: "c \<in> set (db_changes db)" "ch_id c = i" using findChange_in [OF assms(2)] assms(3) by simp_all
  show ?thesis
  proof (cases "ch_changeType c = EXTENSION")
    case True
    then show ?thesis unfolding rows using all_move_upd_row [OF assms(4) c] assms(5) by blast
  next
    case False
    have "\<exists>e \<in> set (db_changes db'). moves d e" if d: "d \<in> set (db_changes db)" "ch_changeType d = EXTENSION" for d
    proof -
      have "ch_id d \<noteq> i" using assms(4) c d False by (auto simp: distinct_map dest: inj_onD)
      then have "d \<in> set (db_changes db')" using d(1) by (force simp: rows upd_row_def)
      then show ?thesis by (auto intro: moves_refl)
    qed
    then show ?thesis by (auto simp: all_move_def)
  qed
qed

lemma step_moves:
  assumes "ch_status d \<in> set (extension_edges (ch_status c))" and "ch_version c < ch_version d"
    and "change_link d = change_link c" and "ch_completionDeadlineAt d = ch_completionDeadlineAt c"
  shows "moves c d"
  using assms by (auto simp: moves_def extension_step_def intro!: r_into_rtranclp)

lemma same_moves:
  assumes "ch_status d = ch_status c" and "ch_version c \<le> ch_version d"
    and "change_link d = change_link c" and "ch_completionDeadlineAt d = ch_completionDeadlineAt c"
  shows "moves c d"
  using assms by (simp add: moves_def)

section \<open>Commands that name a version\<close>

text \<open>
  An effective command finds the change at the version it names, and leaves it at a
  later one.
\<close>

definition one_update :: "id \<Rightarrow> int \<Rightarrow> sub_db \<Rightarrow> sub_db \<Rightarrow> bool" where
  "one_update i v db db' = (\<exists>c f. c \<in> set (db_changes db) \<and> ch_id c = i \<and> ch_changeType c = EXTENSION
     \<and> ch_version c = v \<and> moves c (f c) \<and> v < ch_version (f c)
     \<and> db_changes db' = upd_row ch_id i f (db_changes db))"

lemma one_updateI:
  assumes "findChange i d = Some c" and "db_changes d = db_changes db" and "ch_changeType c = EXTENSION"
    and "update_change i f e = Inr e'" and "db_changes e = db_changes db" and "db_changes db' = db_changes e'"
    and "moves c (f c)" and "ch_version c < ch_version (f c)" and "v = ch_version c"
  shows "one_update i v db db'"
proof -
  have "db_changes e' = upd_row ch_id i f (db_changes e)"
    using assms(4) write_changes_rows unfolding update_change_def by blast
  then show ?thesis
    using findChange_in [OF assms(1)] assms unfolding one_update_def
    by (intro exI [of _ c] exI [of _ f]) simp
qed

lemma one_update_move:
  "one_update i v db db' \<Longrightarrow> distinct (map ch_id (db_changes db)) \<Longrightarrow> all_move (db_changes db) (db_changes db')"
  unfolding one_update_def using all_move_upd_row by auto

lemma projection_extension:
  "requireExtensionChangeProjection c db = Inr xp \<Longrightarrow> ch_changeType c = EXTENSION"
  by (simp add: requireExtensionChangeProjection_def split: if_splits)

lemma change_transaction_facts:
  assumes "changeTransaction op k i inp ex db = Inr (ch, db')"
  obtains d c xp d2 where
    "reserveCommand (in_commandId inp) (ac_id (in_actor inp)) op k (in_requestHash inp) (in_now inp) db = Inr d"
    "findChange i d = Some c" "requireExtensionChangeProjection c d = Inr xp"
    "ch_version c = in_version inp" "in_now inp < ch_completionDeadlineAt c" "ex c xp d = Inr d2"
    "findChangeOrThrow i d2 = Inr ch"
    "db' = completeCommand (in_commandId inp) ResCHANGE i (in_now inp) d2" "db_changes d = db_changes db"
proof -
  obtain d where d: "reserveCommand (in_commandId inp) (ac_id (in_actor inp)) op k (in_requestHash inp) (in_now inp) db = Inr d"
    using assms by (auto simp: changeTransaction_def)
  then show ?thesis using assms that reserve_changes [OF d]
    by (auto simp: changeTransaction_def result_simps assertVersionMatches_def assertBeforeDeadline_def)
qed

lemma run_command_update:
  assumes run: "runChangeCommand op i inp ex seen db = Inr (ch, db')"
    and upd: "\<And>c xp d d2. ex c xp d = Inr d2 \<Longrightarrow> ch_version c = in_version inp \<Longrightarrow> \<exists>f. update_change i f d = Inr d2
      \<and> moves c (f c) \<and> ch_version c < ch_version (f c)"
  shows "db' = db \<or> one_update i (in_version inp) db db'"
  using run
proof (cases rule: run_command_cases)
  case (2 k)
  then show ?thesis
  proof (rule change_transaction_facts)
    fix d c xp d2 assume a: "findChange i d = Some c" "requireExtensionChangeProjection c d = Inr xp"
      "ch_version c = in_version inp" "ex c xp d = Inr d2"
      "db' = completeCommand (in_commandId inp) ResCHANGE i (in_now inp) d2" "db_changes d = db_changes db"
    obtain f where f: "update_change i f d = Inr d2" "moves c (f c)" "ch_version c < ch_version (f c)"
      using upd [OF a(4,3)] by blast
    have "one_update i (in_version inp) db db'"
      by (rule one_updateI [OF a(1,6) projection_extension [OF a(2)] f(1) a(6) _ f(2,3)]) (simp_all add: a(3,5))
    then show ?thesis ..
  qed
qed simp

lemma update_found:
  "update_change i f d = Inr d2 \<Longrightarrow> moves c (f c) \<and> v < ch_version (f c) \<Longrightarrow>
   \<exists>f. update_change i f d = Inr d2 \<and> moves c (f c) \<and> v < ch_version (f c)"
  by blast

lemma override_moves:
  "moves c (map_override g (c\<lparr>ch_version := ch_version c + 1\<rparr>))"
  by (rule same_moves) (simp_all add: map_override_def change_link_def option.map_comp comp_def)

lemma approve_update:
  "approvePriceOverride cf i inp seen db = Inr (ch, db') \<Longrightarrow> db' = db \<or> one_update i (in_version inp) db db'"
  unfolding approvePriceOverride_def rbind_Inr_iff
  by (elim exE conjE, erule run_command_update, clarsimp simp: result_simps, erule update_found)
    (rule conjI, rule override_moves, simp add: map_override_def)

lemma submit_update:
  "submitCustomerConfirmation cf i inp seen db = Inr (ch, db') \<Longrightarrow> db' = db \<or> one_update i (in_version inp) db db'"
  unfolding submitCustomerConfirmation_def rbind_Inr_iff
  by (elim exE conjE, erule run_command_update)
    (auto simp: result_simps change_link_def intro!: exI same_moves)

lemma cancel_update:
  "cancelChange cf i inp seen db = Inr (ch, db') \<Longrightarrow> db' = db \<or> one_update i (in_version inp) db db'"
  unfolding cancelChange_def rbind_Inr_iff
  by (elim exE conjE, erule run_command_update, clarsimp simp: result_simps, erule update_found)
    (auto simp: change_link_def CANCELLABLE_STATUSES_def intro!: step_moves)

lemma takeover_update:
  "manualTakeover i inp seen db = Inr (ch, db') \<Longrightarrow> db' = db \<or> one_update i (in_version inp) db db'"
proof -
  have mv: "moves c (c\<lparr>ch_manualTakeoverAt := at, ch_manualTakeoverReason := rs, ch_status := ChgMANUAL_TAKEOVER,
      ch_version := v\<rparr>)" if "ch_status c \<noteq> ChgCOMPLETED" "ch_status c \<noteq> ChgCANCELLED" "ch_version c < v" for c at rs v
    using that by (cases "ch_status c") (auto simp: change_link_def intro: step_moves same_moves)
  assume "manualTakeover i inp seen db = Inr (ch, db')"
  then show ?thesis
    unfolding manualTakeover_def rbind_Inr_iff
    by (elim exE conjE, elim run_command_update, clarsimp simp: result_simps, elim update_found)
      (auto intro!: mv)
qed

lemma quoted_moves:
  "ch_status c = ChgDRAFT \<or> ch_status c = ChgQUOTED \<Longrightarrow> moves c (quoted n c) \<and> ch_version c < ch_version (quoted n c)"
proof -
  assume st: "ch_status c = ChgDRAFT \<or> ch_status c = ChgQUOTED"
  have qs: "ch_status (quoted n c) = ChgQUOTED" "ch_version (quoted n c) = ch_version c + 1"
    "ch_completionDeadlineAt (quoted n c) = ch_completionDeadlineAt c"
    by (simp_all add: quoted_def map_override_def)
  show ?thesis using st
  proof
    assume "ch_status c = ChgDRAFT"
    then show ?thesis using qs by (auto intro!: step_moves)
  next
    assume "ch_status c = ChgQUOTED"
    then show ?thesis using qs by (auto intro!: same_moves)
  qed
qed

lemma changes_case:
  "(\<And>x. db_changes (f x) = db_changes d) \<Longrightarrow> db_changes (case o1 of None \<Rightarrow> d | Some x \<Rightarrow> f x) = db_changes d"
  by (simp split: option.split)

lemma quote_update:
  assumes "createFormalQuote cf i inp x n seen db = Inr (qt, db')"
  shows "db' = db \<or> one_update i (in_version inp) db db'"
proof -
  have tx: "one_update i (in_version inp) db d" if t: "quoteTransaction cf k i inp x n db = Inr (q, d)" for k q d
  proof -
    obtain e where e: "reserveCommand (in_commandId inp) (ac_id (in_actor inp)) ''CREATE_FORMAL_QUOTE'' k
        (in_requestHash inp) (in_now inp) db = Inr e"
      using t by (auto simp: quoteTransaction_def)
    obtain c where c: "findChange i e = Some c" using t e by (auto simp: quoteTransaction_def split: option.split_asm)
    obtain xp where xp: "requireExtensionChangeProjection c e = Inr xp"
      and g: "ch_version c = in_version inp" "assertQuoteMutable c = Inr ()"
      using t e c unfolding quoteTransaction_def
      by (auto simp: Let_def result_simps assertVersionMatches_def)
    have u: "\<exists>(d2 :: sub_db) d3. update_change i (quoted n) d2 = Inr d3 \<and> db_changes d2 = db_changes e \<and> db_changes d = db_changes d3"
      using t e c unfolding quoteTransaction_def
      by (clarsimp simp: Let_def result_simps)
        (rule exI, rule exI, rule conjI, assumption, simp split: option.split)
    have "ch_status c = ChgDRAFT \<or> ch_status c = ChgQUOTED" using g(2) by (simp add: assertQuoteMutable_def)
    then show ?thesis
      using u quoted_moves one_updateI [OF c reserve_changes [OF e] projection_extension [OF xp]] g(1) reserve_changes [OF e]
      by fastforce
  qed
  then show ?thesis using assms unfolding createFormalQuote_def rbind_Inr_iff
    by (elim exE conjE) (auto split: option.split_asm sum.split_asm if_split_asm)
qed

lemma case_sum_Inr:
  "(case r of Inl e \<Rightarrow> g e | Inr x \<Rightarrow> Inr x) = Inr y \<longleftrightarrow> r = Inr y \<or> (\<exists>e. r = Inl e \<and> g e = Inr y)"
  by (cases r) auto

lemma portal_command_facts:
  assumes "portalChangeCommand op i inp ex seen db = Inr (ch, db')"
  obtains "db' = db" | k d c d2 xp where
    "reserveCommand (in_commandId inp) (ac_id (in_actor inp)) op k (in_requestHash inp) (in_now inp) db = Inr d"
    "findChange i d = Some c" "ch_version c = in_version inp" "ex c d = Inr d2"
    "findChange i d2 = Some ch" "requireExtensionChangeProjection ch d2 = Inr xp"
    "db' = completeCommand (in_commandId inp) ResCHANGE i (in_now inp) d2" "db_changes d = db_changes db"
proof -
  obtain k where k: "assertPortalIdempotencyKey (in_idempotencyKey inp) = Inr k"
    using assms by (auto simp: portalChangeCommand_def Let_def)
  obtain rp where rp: "replayPortal op ResCHANGE k inp seen = Inr rp"
    using assms k by (auto simp: portalChangeCommand_def Let_def)
  show ?thesis
  proof (cases "db' = db")
    case False
    then have "rp = None" using assms k rp by (auto simp: portalChangeCommand_def Let_def split: option.split_asm)
    then obtain d where d: "reserveCommand (in_commandId inp) (ac_id (in_actor inp)) op k (in_requestHash inp) (in_now inp) db = Inr d"
      using assms k rp False by (auto simp: portalChangeCommand_def Let_def case_sum_Inr result_simps split: if_split_asm)
    then obtain c where c: "findOwnedChange i (ac_id (in_actor inp)) d = Inr c"
      using assms k rp \<open>rp = None\<close> False
      by (auto simp: portalChangeCommand_def Let_def case_sum_Inr result_simps split: if_split_asm)
    have "\<exists>d2. ch_version c = in_version inp \<and> ex c d = Inr d2 \<and> viewOwnedChange i (ac_id (in_actor inp)) d2 = Inr ch
        \<and> db' = completeCommand (in_commandId inp) ResCHANGE i (in_now inp) d2"
      using assms k rp \<open>rp = None\<close> False d c
      by (auto simp: portalChangeCommand_def Let_def case_sum_Inr result_simps assertPortalVersion_def split: if_split_asm)
    then obtain d2 where d2: "ch_version c = in_version inp" "ex c d = Inr d2"
      "viewOwnedChange i (ac_id (in_actor inp)) d2 = Inr ch"
      "db' = completeCommand (in_commandId inp) ResCHANGE i (in_now inp) d2" by blast
    have "findChange i d = Some c"
      using c by (auto simp: findOwnedChange_def split: option.split_asm if_split_asm)
    moreover have "findChange i d2 = Some ch" "\<exists>xp. requireExtensionChangeProjection ch d2 = Inr xp"
      using d2(3) by (auto simp: viewOwnedChange_def findOwnedChange_def split: option.split_asm if_split_asm)
    ultimately show ?thesis using that(2) d d2 reserve_changes [OF d] by blast
  qed (use that in blast)
qed

lemma portal_update:
  assumes run: "portalChangeCommand op i inp ex seen db = Inr (ch, db')"
    and upd: "\<And>c d d2. ex c d = Inr d2 \<Longrightarrow> ch_version c = in_version inp \<Longrightarrow>
      \<exists>f (e :: sub_db) e2. update_change i f e = Inr e2 \<and> db_changes e = db_changes d \<and> db_changes d2 = db_changes e2
      \<and> moves c (f c) \<and> ch_version c < ch_version (f c) \<and> (\<forall>x. ch_id (f x) = ch_id x)"
  shows "db' = db \<or> one_update i (in_version inp) db db'"
  using run
proof (cases rule: portal_command_facts)
  case (2 k d c d2 xp)
  obtain f and e e2 :: sub_db where f: "update_change i f e = Inr e2" "db_changes e = db_changes d" "db_changes d2 = db_changes e2"
      "moves c (f c)" "ch_version c < ch_version (f c)" "\<And>x. ch_id (f x) = ch_id x"
    using upd [OF 2(4,3)] by blast
  have "db_changes e2 = upd_row ch_id i f (db_changes d)"
    using f(1,2) write_changes_rows unfolding update_change_def by metis
  then have "findChange i d2 = Some (f c)"
    using 2(2) find_row_upd_same [of ch_id f i "db_changes d", OF f(6)] f(3) by (simp add: findChange_def)
  then have "ch_changeType c = EXTENSION"
    using 2(5,6) projection_extension moves_parts [OF f(4)] by fastforce
  from one_updateI [OF 2(2,8) this f(1) _ _ f(4,5)] show ?thesis using 2(3,7,8) f(2,3) by simp
qed simp

lemma portal_step:
  assumes "ch_status c = ChgQUOTED" and "st = ChgCUSTOMER_CONFIRMED \<or> st = ChgCANCELLED" and "ch_version c < v"
  shows "moves c (c\<lparr>ch_confirmedQuoteId := q, ch_status := st, ch_version := v\<rparr>)"
    and "moves c (c\<lparr>ch_cancelReason := r, ch_status := st, ch_version := v\<rparr>)"
    and "moves c (c\<lparr>ch_status := st, ch_version := v, ch_cancelReason := r\<rparr>)"
  using assms by (auto intro!: step_moves simp: change_link_def)

lemma publishable_status:
  "assertExactPublishableQuote c q r t d = Inr qt \<Longrightarrow> ch_status c = ChgQUOTED"
  by (auto simp: assertExactPublishableQuote_def split: option.splits if_splits)

lemma confirm_update:
  assumes "confirmQuote cf i inp q r seen db = Inr (ch, db')"
  shows "db' = db \<or> one_update i (in_version inp) db db'"
proof -
  obtain ex where run: "portalChangeCommand ''PORTAL_CONFIRM_EXTENSION_QUOTE'' i inp ex seen db = Inr (ch, db')"
    and ex: "ex = (\<lambda>change tx.
       rbind (assertExactPublishableQuote change q r (in_now inp) tx) (\<lambda>qt.
       update_change i (\<lambda>c. c\<lparr>ch_confirmedQuoteId := Some (cq_id qt),
           ch_status := ChgCUSTOMER_CONFIRMED, ch_version := ch_version c + 1\<rparr>)
         (update_quote (cq_id qt) (\<lambda>q. q\<lparr>cq_confirmedAt := Some (in_now inp),
           cq_status := QuCUSTOMER_CONFIRMED\<rparr>) tx)))"
    using assms unfolding confirmQuote_def rbind_Inr_iff by blast
  show ?thesis
  proof (rule portal_update [OF run])
    fix c d d2 assume "ex c d = Inr d2"
    then obtain qt where qt: "assertExactPublishableQuote c q r (in_now inp) d = Inr qt"
      and u: "update_change i (\<lambda>c. c\<lparr>ch_confirmedQuoteId := Some (cq_id qt),
           ch_status := ChgCUSTOMER_CONFIRMED, ch_version := ch_version c + 1\<rparr>)
         (update_quote (cq_id qt) (\<lambda>q. q\<lparr>cq_confirmedAt := Some (in_now inp),
           cq_status := QuCUSTOMER_CONFIRMED\<rparr>) d) = Inr d2"
      unfolding ex by auto
    show "\<exists>f (e :: sub_db) e2. update_change i f e = Inr e2 \<and> db_changes e = db_changes d \<and> db_changes d2 = db_changes e2
      \<and> moves c (f c) \<and> ch_version c < ch_version (f c) \<and> (\<forall>x. ch_id (f x) = ch_id x)"
      by (intro exI conjI, rule u) (use publishable_status [OF qt] in \<open>auto intro!: portal_step\<close>)
  qed
qed

lemma reject_update:
  assumes "rejectQuote cf i inp q r seen db = Inr (ch, db')"
  shows "db' = db \<or> one_update i (in_version inp) db db'"
proof -
  obtain ex where run: "portalChangeCommand ''PORTAL_REJECT_EXTENSION_QUOTE'' i inp ex seen db = Inr (ch, db')"
    and ex: "ex = (\<lambda>change tx.
       rbind (assertExactPublishableQuote change q r (in_now inp) tx) (\<lambda>qt.
       rbind (update_change i (\<lambda>c. c\<lparr>
           ch_cancelReason := Some (ascii ''CUSTOMER_QUOTE_REJECTED: '' @ trim (in_reason inp)),
           ch_status := ChgCANCELLED, ch_version := ch_version c + 1\<rparr>)
         (update_quote (cq_id qt) (\<lambda>q. q\<lparr>cq_rejectedAt := Some (in_now inp),
           cq_status := QuCUSTOMER_REJECTED\<rparr>) tx)) (\<lambda>tx1.
       Inr (case ch_renewalConsiderationId change of None \<Rightarrow> tx1
         | Some considerationId \<Rightarrow> update_considerations (\<lambda>r. rc_id r = considerationId)
             (\<lambda>r. r\<lparr>rc_status := RENEWAL_REQUESTED, rc_version := rc_version r + 1\<rparr>) tx1))))"
    using assms unfolding rejectQuote_def rbind_Inr_iff by blast
  show ?thesis
  proof (rule portal_update [OF run])
    fix c d d2 assume "ex c d = Inr d2"
    then obtain qt tx1 where qt: "assertExactPublishableQuote c q r (in_now inp) d = Inr qt"
      and u: "update_change i (\<lambda>c. c\<lparr>
           ch_cancelReason := Some (ascii ''CUSTOMER_QUOTE_REJECTED: '' @ trim (in_reason inp)),
           ch_status := ChgCANCELLED, ch_version := ch_version c + 1\<rparr>)
         (update_quote (cq_id qt) (\<lambda>q. q\<lparr>cq_rejectedAt := Some (in_now inp),
           cq_status := QuCUSTOMER_REJECTED\<rparr>) d) = Inr tx1" and d2: "db_changes d2 = db_changes tx1"
      unfolding ex by (auto split: option.split)
    show "\<exists>f (e :: sub_db) e2. update_change i f e = Inr e2 \<and> db_changes e = db_changes d \<and> db_changes d2 = db_changes e2
      \<and> moves c (f c) \<and> ch_version c < ch_version (f c) \<and> (\<forall>x. ch_id (f x) = ch_id x)"
      by (intro exI conjI, rule u) (use publishable_status [OF qt] d2 in \<open>auto intro!: portal_step\<close>)
  qed
qed

lemma finalize_generation_update:
  assumes "finalizeGeneration k t i a inp v db = Inr (ct, db')"
  shows "db' = db \<or> one_update i (in_version inp) db db'"
proof (cases "db' = db")
  case False
  obtain cm where cm: "find_row cc_id k (db_commands db) = Some cm"
    using assms by (auto simp: finalizeGeneration_def split: option.split_asm)
  obtain r where r: "cc_resource cm = Some (ResCONTRACT_RENDERING, r)"
    using assms cm False
    by (auto simp: finalizeGeneration_def split: option.split_asm resource_type.split_asm)
  obtain c where c: "findChange i db = Some c"
    using assms cm r by (auto simp: finalizeGeneration_def split: option.split_asm)
  have "\<exists>xp d1 d2. requireExtensionChangeProjection c db = Inr xp \<and> ch_version c = in_version inp
      \<and> ch_status c = ChgCUSTOMER_CONFIRMED
      \<and> update_contract t (\<lambda>c. c\<lparr>ct_contractSnapshot := snd a, ct_fileId := Some (fst a)\<rparr>) db = Inr d1
      \<and> update_change i (\<lambda>c. c\<lparr>ch_status := ChgSIGNING_OR_PAYMENT, ch_version := ch_version c + 1\<rparr>) d1 = Inr d2
      \<and> db_changes db' = db_changes d2"
    using assms cm r c
    by (auto simp: finalizeGeneration_def assertVersionMatches_def assertGeneratable_def)
  then obtain xp d1 d2 where f: "requireExtensionChangeProjection c db = Inr xp" "ch_version c = in_version inp"
      "ch_status c = ChgCUSTOMER_CONFIRMED"
      "update_contract t (\<lambda>c. c\<lparr>ct_contractSnapshot := snd a, ct_fileId := Some (fst a)\<rparr>) db = Inr d1"
      "update_change i (\<lambda>c. c\<lparr>ch_status := ChgSIGNING_OR_PAYMENT, ch_version := ch_version c + 1\<rparr>) d1 = Inr d2"
      "db_changes db' = db_changes d2" by blast
  have "one_update i (in_version inp) db db'"
    by (rule one_updateI [OF c refl projection_extension [OF f(1)] f(5) update_contract_changes [OF f(4)] f(6)])
      (use f(2,3) in \<open>auto intro!: step_moves\<close>)
  then show ?thesis ..
qed simp

section \<open>All operations\<close>

lemma one_update_all: "db' = db \<or> one_update i v db db' \<Longrightarrow> timeline_ok db \<Longrightarrow> all_move (db_changes db) (db_changes db')"
  using one_update_move timeline_ids by auto

lemma same_all: "db_changes db' = db_changes db \<Longrightarrow> all_move (db_changes db) (db_changes db')"
  by simp

lemma retry_move:
  assumes ok: "timeline_ok db" and run: "retryAutomationJob i j inp seen db = Inr (ch, db')"
  shows "all_move (db_changes db) (db_changes db')"
proof -
  have tx: "all_move (db_changes db) (db_changes d)" if t: "retryTransaction op k i j inp db = Inr (x, d)" for op k x d
  proof -
    obtain e where e: "reserveCommand (in_commandId inp) (ac_id (in_actor inp)) op k (in_requestHash inp) (in_now inp) db = Inr e"
      using t by (auto simp: retryTransaction_def)
    obtain c where c: "findChange i e = Some c" using t e by (auto simp: retryTransaction_def split: option.split_asm)
    have "\<exists>b (d1 :: sub_db) d2. ch_status c = ChgMANUAL_TAKEOVER
      \<and> update_change i (\<lambda>c. c\<lparr>ch_failureCode := None,
             ch_status := (if b then ChgSCHEDULED else ChgEXECUTING), ch_version := ch_version c + 1\<rparr>) d1 = Inr d2
      \<and> db_changes d1 = db_changes e \<and> db_changes d = db_changes d2"
      using t e c unfolding retryTransaction_def
      by (clarsimp simp: Let_def result_simps split del: if_split)
        (rule exI, rule exI, rule exI, rule conjI, assumption, simp)
    then obtain b and d1 d2 :: sub_db where u: "ch_status c = ChgMANUAL_TAKEOVER" "update_change i (\<lambda>c. c\<lparr>ch_failureCode := None,
             ch_status := (if b then ChgSCHEDULED else ChgEXECUTING), ch_version := ch_version c + 1\<rparr>) d1 = Inr d2"
      "db_changes d1 = db_changes e" "db_changes d = db_changes d2" by blast
    have "all_move (db_changes d1) (db_changes d2)"
      by (rule update_change_move [OF u(2) c u(3) [symmetric]])
        (use u timeline_ids [OF ok] reserve_changes [OF e] in \<open>auto intro!: step_moves\<close>)
    then show ?thesis using u(3,4) reserve_changes [OF e] by simp
  qed
  show ?thesis using run transacted_cases unfolding retryAutomationJob_def Let_def
    by (fastforce split: option.split_asm intro: tx)
qed

lemma reserve_generation_move:
  assumes ok: "timeline_ok db" and run: "reserveGeneration cf i inp gx n db = Inr (g, db')"
  shows "all_move (db_changes db) (db_changes db')"
proof -
  have fresh: "all_move (db_changes db) (db_changes d)" if t: "freshGeneration k i inp gx n db = Inr (x, d)" for k x d
  proof -
    obtain e where e: "reserveCommand (in_commandId inp) (ac_id (in_actor inp)) ''GENERATE_EXTENSION_CONTRACT'' k
        (in_requestHash inp) (in_now inp) db = Inr e"
      using t by (auto simp: freshGeneration_def Let_def)
    obtain c where c: "findChange i e = Some c" using t e by (auto simp: freshGeneration_def Let_def split: option.split_asm)
    have "db_changes d = db_changes e \<or> (\<exists>(d1 :: sub_db) d2. update_change i (\<lambda>ch. ch\<lparr>ch_contractId := Some n\<rparr>) d1 = Inr d2
        \<and> db_changes d1 = db_changes e \<and> db_changes d = db_changes d2)"
    proof (cases "List.find (\<lambda>t. Some (ct_id t) = ch_contractId c \<and> ct_status t \<noteq> CtCANCELLED) (db_contracts e)")
      case None
      then show ?thesis using t e c unfolding freshGeneration_def
        by (intro disjI2) (clarsimp simp: Let_def, rule exI, rule exI, rule conjI, assumption, simp)
    next
      case (Some t')
      then show ?thesis using t e c unfolding freshGeneration_def
        by (auto simp: Let_def split: if_split_asm)
    qed
    then show ?thesis
    proof (elim disjE exE conjE)
      fix d1 d2 :: sub_db assume u: "update_change i (\<lambda>ch. ch\<lparr>ch_contractId := Some n\<rparr>) d1 = Inr d2"
        "db_changes d1 = db_changes e" "db_changes d = db_changes d2"
      have "all_move (db_changes d1) (db_changes d2)"
        by (rule update_change_move [OF u(1) c u(2) [symmetric]])
          (use u timeline_ids [OF ok] reserve_changes [OF e] in \<open>auto intro!: same_moves\<close>)
      then show ?thesis using u reserve_changes [OF e] by simp
    qed (simp add: reserve_changes [OF e])
  qed
  have recover: "db_changes d = db_changes db" if "recoverGeneration cm r i t gx db = Inr (x, d)" for cm r t x d
    using that by (auto simp: recoverGeneration_def split: option.split_asm)
  show ?thesis
    using run unfolding reserveGeneration_def rbind_Inr_iff ensure_Inr_iff
    by (elim exE conjE) (auto split: option.split_asm resource_type.split_asm prod.split_asm dest!: fresh recover)
qed

lemma abort_move:
  assumes "abortGenerationReservation k i t db = Inr db'"
  shows "all_move (db_changes db) (db_changes db')"
proof -
  have "db_changes db' = db_changes db \<or> (\<exists>P. db_changes db' = snd (update_many P (\<lambda>c. c\<lparr>ch_contractId := None\<rparr>) (db_changes db)))"
    using assms unfolding abortGenerationReservation_def
    by (auto split: option.split_asm if_split_asm dest!: write_changes_rows update_contract_changes)
  then show ?thesis by (auto intro!: all_move_update_many same_moves)
qed

lemma archive_move:
  assumes ok: "timeline_ok db" and run: "finalizeArchivedContract i db = Inr (r, db')"
  shows "all_move (db_changes db) (db_changes db')"
proof -
  obtain c where c: "List.find (\<lambda>c. ch_contractId c = Some (ai_contractId i)) (db_changes db) = Some c"
    using run by (auto simp: finalizeArchivedContract_def split: option.splits)
  then have cin: "c \<in> set (db_changes db)" by (auto simp: find_Some_iff)
  then have found: "findChange (ch_id c) db = Some c"
    using find_row_unique [OF timeline_ids [OF ok]] by (simp add: findChange_def)
  have ext: "all_move (db_changes db) (db_changes d)" if t: "finalizeExtension c i db = Inr (x, d)" for x d
    using t
  proof (cases rule: finalize_extension_cases)
    case late
    then show ?thesis using update_contract_changes unfolding archiveContractEvidence_def by fastforce
  next
    case (scheduled xp db1 qt db2 db3 db4 segment)
    have "ch_status c = ChgSIGNING_OR_PAYMENT"
      using scheduled(4) by (auto simp: assertScheduleSource_def split: option.split_asm)
    moreover have eq: "db_changes db3 = db_changes db"
      using scheduled(2,6,7) update_contract_changes
      by (auto simp: archiveContractEvidence_def write_segments_Inr enqueueActivation_def split: option.split_asm)
    ultimately have "all_move (db_changes db3) (db_changes db4)"
      by (intro update_change_move [OF scheduled(8) found]) (use timeline_ids [OF ok] in \<open>auto intro!: step_moves\<close>)
    then show ?thesis using eq scheduled(10) by simp
  qed simp
  have other: "all_move (db_changes db) (db_changes d)"
    if t: "finalizeOther er b c i db = Inr (x, d)" and ty: "ch_changeType c \<noteq> EXTENSION" for er b x d
  proof -
    have "db_changes d = db_changes db \<or> (\<exists>f (d1 :: sub_db). update_change (ch_id c) f d1 = Inr d \<and> db_changes d1 = db_changes db)"
      using t update_contract_changes
      by (auto simp: finalizeOther_def archiveContractEvidence_def split: if_split_asm) blast?
    then show ?thesis using update_change_move found timeline_ids [OF ok] ty by fastforce
  qed
  show ?thesis
    using run c ext other
    by (auto simp: finalizeArchivedContract_def finalizeVehicleSwap_def finalizeEarlyTermination_def
      finalizeManagedOther_def split: change_type.splits)
qed

lemma continuations_changes [simp]: "db_changes (enqueueContinuationJobs g n t c s db) = db_changes db"
proof -
  have "db_changes (enqueueContinuations n t c s js d) = db_changes d" for js d
    by (induction n t c s js d rule: enqueueContinuations.induct) simp_all
  then show ?thesis by (simp add: enqueueContinuationJobs_def)
qed

lemma activate_move:
  assumes run: "activate g n i now db = Inr (r, db')"
  shows "all_move (db_changes db) (db_changes db')"
proof -
  have sw: "all_move (db_changes db) (db_changes d)" if "switchSegments now t c p db = Inr d" for t c p d
    using that by (auto simp: switchSegments_def Let_def write_segments_Inr dest!: write_changes_rows
      intro!: all_move_update_many step_moves)
  show ?thesis
    using run unfolding activate_def
    by (auto split: option.split_asm if_split_asm dest!: sw)
qed

lemma expire_move:
  assumes "expireSegment cl i t seen db = Inr (r, db')"
  shows "all_move (db_changes db) (db_changes db')"
proof -
  have fail: "all_move (db_changes d) (db_changes (failExpiredChange found d))" for found d
    by (auto simp: failExpiredChange_def EXPIRABLE_CHANGE_STATUSES_def split: option.split
      intro!: all_move_update_many step_moves)
  have rows: "all_move (db_changes db) (db_changes d)" if "expireRows s t order ls db = Inr d" for s order ls d
  proof -
    have "\<exists>found (d2 :: sub_db). db_changes d = db_changes (failExpiredChange found d2) \<and> db_changes d2 = db_changes db"
      using that unfolding expireRows_def Let_def rbind_Inr_iff
      by (elim exE conjE)
        (clarsimp simp: write_segments_Inr split del: if_split, intro exI conjI, rule refl,
          auto simp: write_segments_Inr split: if_split_asm option.split)
    then show ?thesis using fail by metis
  qed
  have ret: "db_changes (snd (ensureReturn e p q v dl d)) = db_changes d" for e p q v dl d
    by (simp add: ensureReturn_def split: option.split)
  have locks: "all_move (db_changes db) (db_changes d)" if t: "expireWithLocks cl s t db = Inr (x, d)" for s x d
  proof -
    have "d = db \<or> (\<exists>s' order ls d' e p q v dl. expireRows s' t order ls db = Inr d'
        \<and> d = snd (ensureReturn e p q v dl d'))"
      using t unfolding expireWithLocks_def rbind_Inr_iff
      by (elim exE conjE) (force simp: Let_def split: option.split_asm if_split_asm prod.split_asm)
    then show ?thesis using rows ret by auto
  qed
  show ?thesis using assms locks by (auto simp: expireSegment_def split: option.split_asm if_split_asm)
qed

lemma terminate_move:
  assumes "applyEarlyTerminationCoreBoundary a db = Inr db'"
  shows "all_move (db_changes db) (db_changes db')"
  using assms unfolding applyEarlyTerminationCoreBoundary_def Let_def
  by (auto simp: write_segments_Inr ACTIVE_CHANGE_STATUSES_def intro!: all_move_update_many step_moves)

lemma insert_extension_changes:
  "insertExtension n now q r m md rs pl db = Inr db' \<Longrightarrow> \<exists>c. db_changes db' = db_changes db @ [c]"
  by (auto simp: insertExtension_def split: option.split_asm dest!: write_changes_rows)

lemma create_move:
  assumes "createExtension cf i x g n seen db = Inr (c, db')"
  shows "all_move (db_changes db) (db_changes db')"
proof -
  have tx: "all_move (db_changes db) (db_changes d)" if t: "extensionTransaction k i x n pl db = Inr (c', d)" for k pl c' d
    using t unfolding extensionTransaction_def rbind_Inr_iff
    by (elim exE conjE) (auto dest!: insert_extension_changes reserve_changes)
  show ?thesis
    using assms tx transacted_cases unfolding createExtension_def rbind_Inr_iff
    by (elim exE conjE) (fastforce split: planned.split_asm prod.split_asm)
qed

lemma decide_move:
  assumes "decideRenewal cf r i d n seen db = Inr (x, db')"
  shows "all_move (db_changes db) (db_changes db')"
proof -
  have tx: "all_move (db_changes db) (db_changes e)" if t: "decisionTransaction k r i d n db = Inr (x', e)" for k x' e
    using t unfolding decisionTransaction_def Let_def rbind_Inr_iff
    by (elim exE conjE)
      (auto simp: result_simps split: if_split_asm dest!: insert_extension_changes reserve_changes)
  show ?thesis using assms tx unfolding decideRenewal_def Let_def rbind_Inr_iff
    by (elim exE conjE) (auto split: option.split_asm sum.split_asm if_split_asm)
qed

lemma enroll_changes: "enrollSegment cf i t n db = Inr (b, db') \<Longrightarrow> db_changes db' = db_changes db"
proof -
  have rem: "db_changes (enrollReminder m t s c r x d) = db_changes d" for m t s c r x d
    by (simp add: enrollReminder_def enqueueReminder_def upsertReminder_def Let_def split: prod.split option.split)
  have fold: "db_changes (fold (enrollReminder m t s c r) xs d) = db_changes d" for m t s c r xs d
    by (induction xs arbitrary: d) (simp_all add: rem)
  have "db_changes (enrollRows s dl st ds t n db) = db_changes db" for s dl st ds
    by (auto simp: enrollRows_def Let_def fold split: option.split)
  then show "enrollSegment cf i t n db = Inr (b, db') \<Longrightarrow> db_changes db' = db_changes db"
    by (auto simp: enrollSegment_def Let_def split: option.split_asm if_split_asm)
qed

lemma dispatch_changes: "dispatchReminder s r l t db = Inr (x, db') \<Longrightarrow> db_changes db' = db_changes db"
  by (auto simp: dispatchReminder_def set_reminder_status_def split: option.splits if_splits)

lemma retry_reminder_changes: "retryReminder s a r l t seen db = Inr (x, db') \<Longrightarrow> db_changes db' = db_changes db"
  by (auto simp: retryReminder_def split: option.splits dest!: dispatch_changes)

lemma reconcile_changes: "reconcile a r t n db = Inr db' \<Longrightarrow> db_changes db' = db_changes db"
proof -
  have "db_changes (reconcileReminders n t q s rs d) = db_changes d" for q s rs d
    by (induction n t q s rs d rule: reconcileReminders.induct) (simp_all add: enqueueReminder_def)
  then show "reconcile a r t n db = Inr db' \<Longrightarrow> db_changes db' = db_changes db"
    by (auto simp: reconcile_def split: option.split_asm)
qed

lemma worker_moves:
  "all_move (db_changes db) (db_changes (snd (completeIfReady c db)))"
  "all_move (db_changes db) (db_changes (snd (markManualTakeover t j f db)))"
  "all_move (db_changes db) (db_changes (takeOverCrossedChange c t db))"
  by (auto simp: completeIfReady_def markManualTakeover_def takeOverCrossedChange_def Let_def
    split: option.split intro!: all_move_update_many step_moves)

lemma other_changes_move:
  assumes "writeOtherChanges rows qs cs db = Inr db'"
  shows "all_move (db_changes db) (db_changes db')"
proof -
  have "db_changes db' = rows" and eq: "extensions rows = extensions (db_changes db)"
    using assms by (auto simp: writeOtherChanges_def dest!: write_changes_rows)
  moreover have "c \<in> set rows" if "c \<in> set (db_changes db)" "ch_changeType c = EXTENSION" for c
  proof -
    have "c \<in> set (extensions rows)" using that unfolding eq by (simp add: extensions_def)
    then show ?thesis by (simp add: extensions_def)
  qed
  ultimately show ?thesis unfolding all_move_def using moves_refl by blast
qed

lemma ensure_base_changes: "ensureBaseSegmentInTransaction n q a db = Inr (s, db') \<Longrightarrow> db_changes (db' :: sub_db) = db_changes db"
  by (auto simp: ensureBaseSegmentInTransaction_def Let_def write_segments_Inr split: option.split_asm)

lemma swap_changes: "switchSwapSegment i n now db = Inr (Some db') \<Longrightarrow> db_changes db' = db_changes db"
  by (erule swap_cases) (simp add: write_segments_Inr)

lemma generation_changes: "finalizeGeneration k t i a inp v db = Inr (ct, db') \<Longrightarrow> timeline_ok db \<Longrightarrow>
    all_move (db_changes db) (db_changes db')"
  using finalize_generation_update one_update_all by blast

lemma sub_transaction_moves:
  assumes ok: "timeline_ok db" and run: "sub_transaction cmd db = Inr db'"
  shows "all_move (db_changes db) (db_changes db')"
proof -
  note upd = approve_update submit_update cancel_update takeover_update quote_update confirm_update
    reject_update finalize_generation_update
  note mv = upd [THEN one_update_all, OF _ ok] retry_move [OF ok] reserve_generation_move [OF ok] abort_move
    archive_move [OF ok] activate_move expire_move terminate_move create_move decide_move worker_moves
    other_changes_move
  note same = ensure_base_changes enroll_changes dispatch_changes retry_reminder_changes reconcile_changes
  show ?thesis using run
    by (cases cmd) (auto dest!: state_of_Inr intro: mv intro: same_all dest: same swap_changes
      simp: writeForeign_def split: option.splits)
qed

end
