(* ===== verification/ExtensionFacts.thy ===== *)
theory ExtensionFacts
  imports ExtensionMoves
begin

text \<open>
  What holds of every run of the operations on subscriptions from empty tables: the
  shape of the timeline of an order, the segment a billing period resolves to, the
  references between the tables, how extensions move, and what stale commands do.
\<close>

section \<open>Runs\<close>

definition no_subscriptions :: sub_db where
  "no_subscriptions = \<lparr> db_segments = [], db_orders = [], db_contracts = [], db_changes = [],
     db_quotes = [], db_commands = [], db_considerations = [], db_reminders = [], db_jobs = [],
     db_vehicles = [], db_plans = [], db_tasks = [], db_leases = [], db_returns = [] \<rparr>"

definition sub_run :: "sub_op list \<Rightarrow> sub_db \<Rightarrow> sub_db" where
  "sub_run ops db = fold (\<lambda>op s. case sub_transaction op s of Inl e \<Rightarrow> s | Inr s' \<Rightarrow> s') ops db"

lemma sub_run_subs: "sub_run = subs.run"
  by (intro ext) (simp add: sub_run_def subs.run_def subs.commit_def [abs_def])

lemma sub_run_simps [simp]:
  "sub_run [] db = db"
  "sub_run (ops @ ops') db = sub_run ops' (sub_run ops db)"
  by (simp_all add: sub_run_def)

lemma no_subscriptions_ok: "timeline_ok no_subscriptions"
  by (simp add: timeline_ok_def chain_ok_def segment_keys_unique_def segment_dates_valid_def links_ok_def
    no_subscriptions_def)

lemma run_timeline: "timeline_ok db \<Longrightarrow> timeline_ok (sub_run ops db)"
  unfolding sub_run_subs by (rule subs.run_inv)

lemmas run_ok = run_timeline [OF no_subscriptions_ok]

section \<open>An example\<close>

text \<open>
  A subscription of two months from the first day of 1970, whose base segment ends on
  day 58, and an extension by one month at the original price.
\<close>

definition demo_terms :: commercial_terms where
  "demo_terms = \<lparr> tm_productId = None, tm_productVersionId = None, tm_subscriptionPlanId = None,
     tm_monthlyFeeAmount = 3, tm_mileageLimitKm = 1500, tm_overMileageFeeAmount = 100,
     tm_energyLimitKwh = None, tm_energyLimitCount = None, tm_planSnapshot = CObj [], tm_quoteSnapshot = CObj [] \<rparr>"

definition demo_order :: sub_order where
  "demo_order = \<lparr> so_id = ''o'', so_businessType = SUBSCRIPTION, so_orderStatus = OrdACTIVE,
     so_deletedAt = None, so_customerId = ''u'', so_vehicleId = Some ''v'', so_contractId = Some ''k'',
     so_startDate = Some 0, so_endDate = Some (58 * 86400000), so_periodMonths = 2, so_terms = demo_terms \<rparr>"

definition demo_contract :: contract where
  "demo_contract = \<lparr> ct_id = ''k'', ct_status = CtARCHIVED, ct_fileId = Some ''f'',
     ct_contractSnapshot = CObj [], ct_signedAt = Some 0, ct_archivedAt = Some 0 \<rparr>"

definition demo_tables :: foreign_tables where
  "demo_tables = \<lparr> ft_orders = [demo_order], ft_contracts = [demo_contract],
     ft_vehicles = [\<lparr> vh_id = ''v'', vh_status = VehLEASED, vh_salePriceAmount = None, vh_modelDefinitionId = ''m'' \<rparr>],
     ft_plans = [],
     ft_tasks = [],
     ft_leases = [\<lparr> ls_id = ''l'', ls_orderId = ''o'', ls_status = LeaseACTIVE \<rparr>], ft_returns = [], ft_jobs = [] \<rparr>"

definition demo_config :: change_config where
  "demo_config = \<lparr> cf_enabled = True, cf_extensionEnabled = None, cf_vehicleSwapEnabled = None,
     cf_earlyTerminationEnabled = None, cf_managedOtherEnabled = None, cf_quoteValidityHours = 24 \<rparr>"

definition demo_input :: "id \<Rightarrow> id \<Rightarrow> int \<Rightarrow> int \<Rightarrow> command_input" where
  "demo_input actor key now version =
     \<lparr> in_actor = \<lparr> ac_id = actor, ac_isAdmin = False, ac_permissions = [CHANGE_CREATE, CHANGE_QUOTE,
         CHANGE_PRICE_OVERRIDE_APPROVE, CHANGE_SUBMIT, CHANGE_EXECUTE, CHANGE_MANUAL_TAKEOVER, CHANGE_CANCEL,
         CONTRACT_GENERATE] \<rparr>,
       in_now = now, in_commandId = key, in_idempotencyKey = Some (ascii key), in_requestHash = key,
       in_version = version, in_reason = ascii ''agreed'' \<rparr>"

definition demo_request :: extension_input where
  "demo_request = \<lparr> xi_orderId = ''o'', xi_extensionMonths = 1, xi_pricingMode = ORIGINAL_PRICE,
     xi_priceOverrideReason = Some (ascii ''loyal''), xi_renewalConsiderationId = None,
     xi_subscriptionPlanId = None \<rparr>"

definition demo_start :: "sub_op list" where
  "demo_start = [WriteForeign demo_tables, EnsureBaseSegment ''b'' ''o'' None]"

definition demo_db :: sub_db where "demo_db = sub_run demo_start no_subscriptions"

definition demo_create :: "sub_op list" where
  "demo_create = [CreateExtension demo_config (demo_input ''a'' ''c0'' 0 0) demo_request ''b1'' ''x'' demo_db]"

definition extended_db :: sub_db where
  "extended_db = sub_run demo_create demo_db"

definition demo_segment :: contract_segment where
  "demo_segment = base_segment ''b'' None 0 (58 * 86400000) demo_order demo_contract"

lemma demo_segments: "db_segments demo_db = [demo_segment]"
  by code_simp

lemma demo_change: "map_option (\<lambda>c. (ch_changeType c, ch_status c, ch_version c)) (findChange ''x'' extended_db) =
    Some (EXTENSION, ChgDRAFT, 0)"
  by code_simp

lemma extended_run: "extended_db = sub_run (demo_start @ demo_create) no_subscriptions"
  by (simp add: extended_db_def demo_db_def)

abbreviation demo_withdraw :: sub_op where
  "demo_withdraw \<equiv> Cancel demo_config ''x'' (demo_input ''a'' ''c1'' 1 0) no_subscriptions"

abbreviation demo_takeover :: sub_op where
  "demo_takeover \<equiv> TakeOver ''x'' (demo_input ''a'' ''c2'' 2 0) no_subscriptions"

lemma demo_withdrawn: "map_option (\<lambda>c. (ch_status c, ch_version c)) (findChange ''x'' (sub_run [demo_withdraw] extended_db)) =
    Some (ChgCANCELLED, 1)"
  by code_simp

section \<open>The timeline of an order\<close>

definition timeline :: "id \<Rightarrow> sub_db \<Rightarrow> contract_segment list" where
  "timeline q db = sort_key sg_sequenceNo (filter (\<lambda>s. sg_orderId s = q) (db_segments db))"

fun contiguous_from :: "int \<Rightarrow> contract_segment list \<Rightarrow> bool" where
  "contiguous_from n [] = True"
| "contiguous_from n (s # ss) = (sg_sequenceNo s = n \<and> sg_startDate s \<le> sg_endDate s
     \<and> (sg_segmentType s = SegBASE \<longleftrightarrow> n = 1)
     \<and> (case ss of [] \<Rightarrow> True | t # _ \<Rightarrow> sg_startDate t = sg_endDate s + 86400000)
     \<and> contiguous_from (n + 1) ss)"

fun statuses_in_order :: "segment_status list \<Rightarrow> bool" where
  "statuses_in_order (SegCOMPLETED # ss) = statuses_in_order ss"
| "statuses_in_order (SegACTIVE # ss) = list_all (\<lambda>t. t = SegSCHEDULED) ss"
| "statuses_in_order ss = list_all (\<lambda>t. t = SegSCHEDULED) ss"

lemma sorted_contiguous:
  assumes "sorted (map sg_sequenceNo ss)" and "distinct (map sg_sequenceNo ss)"
    and "\<And>s. s \<in> set ss \<Longrightarrow> n \<le> sg_sequenceNo s \<and> sg_startDate s \<le> sg_endDate s
      \<and> (sg_segmentType s = SegBASE \<longleftrightarrow> sg_sequenceNo s = 1)
      \<and> (sg_sequenceNo s = n \<or> (\<exists>p \<in> set ss. seg_follows p s))"
  shows "contiguous_from n ss"
  using assms
proof (induction ss arbitrary: n)
  case (Cons x ss)
  have low: "sg_sequenceNo x < sg_sequenceNo s" if "s \<in> set ss" for s
    using Cons.prems(1,2) that by (fastforce simp: le_less)
  have "\<not> seg_follows p x" if "p \<in> set (x # ss)" for p
    using that low by (fastforce simp: seg_follows_def)
  then have n: "sg_sequenceNo x = n" using Cons.prems(3) [of x] by auto
  have pred: "sg_sequenceNo s = n + 1 \<and> seg_follows x s \<or> (\<exists>p \<in> set ss. seg_follows p s)" if "s \<in> set ss" for s
  proof -
    have "sg_sequenceNo s \<noteq> n" using low [OF that] n by simp
    then obtain p where "p \<in> set (x # ss)" "seg_follows p s" using Cons.prems(3) [of s] \<open>s \<in> set ss\<close> by auto
    then show ?thesis using n by (auto simp: seg_follows_def)
  qed
  have rest: "contiguous_from (n + 1) ss"
  proof (rule Cons.IH)
    fix s assume s: "s \<in> set ss"
    then show "n + 1 \<le> sg_sequenceNo s \<and> sg_startDate s \<le> sg_endDate s
        \<and> (sg_segmentType s = SegBASE \<longleftrightarrow> sg_sequenceNo s = 1)
        \<and> (sg_sequenceNo s = n + 1 \<or> (\<exists>p \<in> set ss. seg_follows p s))"
      using Cons.prems(3) [of s] low [OF s] n pred [OF s] by auto
  qed (use Cons.prems(1,2) in auto)
  have "sg_startDate t = sg_endDate x + 86400000" if ss: "ss = t # ts" for t ts
  proof -
    have "sg_sequenceNo t = n + 1" using rest ss by simp
    moreover have "n + 1 \<le> sg_sequenceNo p" if "p \<in> set ss" for p using low [OF that] n by simp
    ultimately have "\<not> seg_follows p t" if "p \<in> set ss" for p
      using that by (fastforce simp: seg_follows_def)
    then show ?thesis using pred [of t] ss by (auto simp: seg_follows_def)
  qed
  then show ?case using rest n Cons.prems(3) [of x] by (auto split: list.split)
qed simp

lemma sorted_statuses:
  assumes "sorted (map sg_sequenceNo ss)" and "distinct (map sg_sequenceNo ss)"
    and "\<And>s. s \<in> set ss \<Longrightarrow> sg_status s \<noteq> SegCANCELLED"
    and "\<And>s t. s \<in> set ss \<Longrightarrow> t \<in> set ss \<Longrightarrow> sg_sequenceNo s < sg_sequenceNo t \<Longrightarrow> sg_status t \<noteq> SegSCHEDULED
      \<Longrightarrow> sg_status s = SegCOMPLETED"
  shows "statuses_in_order (map sg_status ss)"
  using assms
proof (induction ss)
  case (Cons x ss)
  have low: "sg_sequenceNo x < sg_sequenceNo s" if "s \<in> set ss" for s
    using Cons.prems(1,2) that by (fastforce simp: le_less)
  have later: "sg_status s = SegSCHEDULED" if "sg_status x \<noteq> SegCOMPLETED" "s \<in> set ss" for s
    using Cons.prems(4) [of x s] low [OF that(2)] that list.set_intros by metis
  have rest: "statuses_in_order (map sg_status ss)"
  proof (rule Cons.IH)
    show "sorted (map sg_sequenceNo ss)" "distinct (map sg_sequenceNo ss)" using Cons.prems(1,2) by simp_all
    show "sg_status s \<noteq> SegCANCELLED" if "s \<in> set ss" for s using Cons.prems(3) that by simp
    show "sg_status s = SegCOMPLETED" if "s \<in> set ss" "t \<in> set ss" "sg_sequenceNo s < sg_sequenceNo t"
      "sg_status t \<noteq> SegSCHEDULED" for s t
      by (rule Cons.prems(4) [OF _ _ that(3,4)]) (use that(1,2) in simp_all)
  qed
  show ?case
    using later rest Cons.prems(3) [of x] by (cases "sg_status x") (simp_all add: list_all_iff)
qed simp

lemma timeline_set: "s \<in> set (timeline q db) \<longleftrightarrow> s \<in> set (db_segments db) \<and> sg_orderId s = q"
  by (auto simp: timeline_def)

lemma timeline_sorted:
  assumes "timeline_ok db"
  shows "sorted (map sg_sequenceNo (timeline q db))" "distinct (map sg_sequenceNo (timeline q db))"
proof -
  show "sorted (map sg_sequenceNo (timeline q db))" by (simp add: timeline_def)
  have "inj_on (\<lambda>s. (sg_orderId s, sg_sequenceNo s)) (set (db_segments db))" "distinct (db_segments db)"
    using chain_okD(1) [OF timeline_okD(1) [OF assms]] by (auto simp: segment_keys_unique_def distinct_map)
  then have "inj_on sg_sequenceNo (set (filter (\<lambda>s. sg_orderId s = q) (db_segments db)))"
    by (auto simp: inj_on_def)
  then show "distinct (map sg_sequenceNo (timeline q db))"
    using \<open>distinct (db_segments db)\<close> by (simp add: timeline_def distinct_map)
qed

text \<open>
  C1 Whatever is done to the subscriptions, in whatever order and with whatever
  failures, the segments of an order are numbered from one without a gap, only the
  first is a base segment, each starts on the day after the one before it ends and
  does not end before it starts; the completed ones come first, then at most one
  active one, then the scheduled ones.
\<close>

theorem contract_timeline:
  "contiguous_from 1 (timeline q (sub_run ops no_subscriptions))
   \<and> statuses_in_order (map sg_status (timeline q (sub_run ops no_subscriptions)))"
proof
  define db where "db = sub_run ops no_subscriptions"
  have ok: "timeline_ok db" by (simp add: db_def run_ok)
  note chain = chain_okD [OF timeline_okD(1) [OF ok]] and srt = timeline_sorted [OF ok, of q]
  have dates: "sg_startDate s \<le> sg_endDate s" if "s \<in> set (db_segments db)" for s
    using chain(2) that by (auto simp: segment_dates_valid_def list_all_iff)
  show "contiguous_from 1 (timeline q (sub_run ops no_subscriptions))"
    unfolding db_def [symmetric]
  proof (rule sorted_contiguous [OF srt])
    fix s assume "s \<in> set (timeline q db)"
    then show "1 \<le> sg_sequenceNo s \<and> sg_startDate s \<le> sg_endDate s
        \<and> (sg_segmentType s = SegBASE \<longleftrightarrow> sg_sequenceNo s = 1)
        \<and> (sg_sequenceNo s = 1 \<or> (\<exists>p \<in> set (timeline q db). seg_follows p s))"
      using chain(3,4,6) [of s] dates [of s] by (auto simp: timeline_set seg_follows_def)
  qed
  show "statuses_in_order (map sg_status (timeline q (sub_run ops no_subscriptions)))"
    unfolding db_def [symmetric]
    by (rule sorted_statuses [OF srt]) (use chain(5,7) in \<open>auto simp: timeline_set seg_before_def\<close>)
qed

text \<open>The predecessor and the successor of a segment, and the days of two of them.\<close>

lemma chain_apart:
  assumes ok: "chain_ok rows" and t: "t \<in> set rows"
  shows "s \<in> set rows \<Longrightarrow> seg_before s t \<Longrightarrow> sg_endDate s + 86400000 \<le> sg_startDate t"
  using t
proof (induction "nat (sg_sequenceNo t)" arbitrary: t rule: less_induct)
  case less
  obtain p where p: "p \<in> set rows" "seg_follows p t"
    using chain_okD(6) [OF ok less.prems(3)] chain_okD(3) [OF ok less.prems(1)] less.prems(2)
    by (auto simp: seg_before_def)
  show ?case
  proof (cases "s = p")
    case False
    then have "sg_sequenceNo s \<noteq> sg_sequenceNo p"
      using keys_inj(2) [OF chain_okD(1) [OF ok] less.prems(1) p(1)] p(2) less.prems(2)
      by (auto simp: seg_follows_def seg_before_def)
    then have "seg_before s p" using p(2) less.prems(2) by (auto simp: seg_follows_def seg_before_def)
    moreover have "nat (sg_sequenceNo p) < nat (sg_sequenceNo t)"
      using p(2) chain_okD(3) [OF ok p(1)] by (auto simp: seg_follows_def)
    ultimately have "sg_endDate s + 86400000 \<le> sg_startDate p" using less.hyps less.prems(1) p(1) by blast
    moreover have "sg_startDate p \<le> sg_endDate p"
      using chain_okD(2) [OF ok] p(1) by (auto simp: segment_dates_valid_def list_all_iff)
    ultimately show ?thesis using p(2) by (simp add: seg_follows_def)
  qed (use p in \<open>simp add: seg_follows_def\<close>)
qed

lemma chain_cases:
  assumes "chain_ok rows" and "s \<in> set rows" and "t \<in> set rows" and "sg_orderId s = sg_orderId t"
  obtains "s = t" | "seg_before s t" | "seg_before t s"
  using keys_inj(2) [OF chain_okD(1) [OF assms(1)] assms(2,3,4)] assms(4) by (force simp: seg_before_def)

lemma earliest_by_eq:
  assumes "n \<in> set rows" and "P n" and "\<And>r. r \<in> set rows \<Longrightarrow> P r \<Longrightarrow> r = n \<or> key n < key r"
  shows "earliest_by key P rows = Some n"
proof (cases "sort_key key (filter P rows)")
  case Nil
  then have "set (sort_key key (filter P rows)) = {}" by simp
  then show ?thesis using assms(1,2) by auto
next
  case (Cons y ys)
  have "set (sort_key key (filter P rows)) = set (y # ys)" by (simp only: Cons)
  then have y: "y \<in> set rows" "P y" and n: "n \<in> set (y # ys)" using assms(1,2) by auto
  have "sorted (map key (sort_key key (filter P rows)))" by simp
  then have "key y \<le> key n" using n unfolding Cons by auto
  then have "y = n" using assms(3) [OF y] by auto
  then show ?thesis by (simp add: earliest_by_def first_row_def Cons)
qed

lemma latest_by_eq:
  "n \<in> set rows \<Longrightarrow> P n \<Longrightarrow> (\<And>r. r \<in> set rows \<Longrightarrow> P r \<Longrightarrow> r = n) \<Longrightarrow> latest_by key P rows = Some n"
  unfolding latest_by_def earliest_by_def [symmetric] by (rule earliest_by_eq) blast+

lemma earliest_by_None: "(\<And>r. r \<in> set rows \<Longrightarrow> \<not> P r) \<Longrightarrow> earliest_by key P rows = None"
  by (simp add: earliest_by_def first_row_def filter_empty_conv split: list.split)

definition next_segment :: "contract_segment \<Rightarrow> sub_db \<Rightarrow> contract_segment option" where
  "next_segment s db = List.find (\<lambda>t. sg_sequenceNo t = sg_sequenceNo s + 1) (timeline (sg_orderId s) db)"

lemma next_segment_Some:
  "next_segment s db = Some t \<Longrightarrow> t \<in> set (db_segments db) \<and> sg_orderId t = sg_orderId s \<and> sg_sequenceNo t = sg_sequenceNo s + 1"
  unfolding next_segment_def find_Some_iff using timeline_set nth_mem by metis

lemma next_segment_follows:
  assumes ok: "timeline_ok db" and s: "s \<in> set (db_segments db)" and t: "next_segment s db = Some t"
  shows "seg_follows s t"
proof -
  note chain = timeline_okD(1) [OF ok] and tn = next_segment_Some [OF t]
  obtain p where p: "p \<in> set (db_segments db)" "seg_follows p t"
    using chain_okD(3) [OF chain s] chain_okD(6) [OF chain, of t] tn by auto
  have "p = s"
    by (rule keys_inj(2) [OF chain_okD(1) [OF chain] p(1) s]) (use p(2) tn in \<open>auto simp: seg_follows_def\<close>)
  then show ?thesis using p(2) by simp
qed

lemma next_segment_None:
  assumes ok: "timeline_ok db" and s: "s \<in> set (db_segments db)" and none: "next_segment s db = None"
    and r: "r \<in> set (db_segments db)"
  shows "\<not> seg_before s r"
proof
  assume b: "seg_before s r"
  note chain = timeline_okD(1) [OF ok]
  obtain u where "u \<in> set (db_segments db)" "sg_orderId u = sg_orderId r" "sg_sequenceNo u = sg_sequenceNo s + 1"
    using chain_down [OF chain r, of "sg_sequenceNo s + 1"] chain_okD(3) [OF chain s] b
    by (auto simp: seg_before_def)
  then show False using none b
    by (auto simp: next_segment_def find_None_iff timeline_set seg_before_def)
qed

lemma period_segment:
  assumes ok: "timeline_ok db" and "s \<in> set (db_segments db)"
    and "sg_startDate s \<le> a" and "a \<le> sg_endDate s" and "a \<le> b"
  shows "resolveSegmentForPeriod (sg_orderId s) (Some a) (Some (Some b)) db =
    (if b \<le> sg_endDate s then Inr (terms_of_segment s)
     else Inl (ContractSegmentError ''BILLING_PERIOD_CROSSES_SEGMENT'' (Some (sg_id s))
       (case next_segment s db of None \<Rightarrow> None
        | Some t \<Rightarrow> if sg_startDate t \<le> b then sg_sourceChangeOrderId t else None)))"
proof -
  note chain = timeline_okD(1) [OF ok]
  have dates: "sg_startDate r \<le> sg_endDate r" if "r \<in> set (db_segments db)" for r
    using chain_okD(2) [OF chain] that by (auto simp: segment_dates_valid_def list_all_iff)
  have side: "r = s \<or> sg_endDate r < a \<or> sg_endDate s < sg_startDate r"
    if r: "r \<in> set (db_segments db)" "sg_orderId r = sg_orderId s" for r
  proof (rule chain_cases [OF chain r(1) assms(2) r(2)])
    assume "seg_before r s"
    then show ?thesis using chain_apart [OF chain assms(2) r(1)] assms(3) by simp
  next
    assume "seg_before s r"
    then show ?thesis using chain_apart [OF chain r(1) assms(2)] by simp
  qed simp
  have found: "latest_by sg_sequenceNo (\<lambda>r. a \<le> sg_endDate r \<and> sg_orderId r = sg_orderId s
      \<and> sg_startDate r \<le> a \<and> sg_status r \<noteq> SegCANCELLED) (db_segments db) = Some s"
    by (rule latest_by_eq) (use assms(2-4) chain_okD(5) [OF chain] side in fastforce)+
  let ?next = "\<lambda>r. sg_orderId r = sg_orderId s \<and> sg_startDate r > sg_endDate s \<and> sg_startDate r \<le> b
      \<and> sg_status r \<noteq> SegCANCELLED"
  have after: "seg_before s r" if "r \<in> set (db_segments db)" "?next r" for r
    using chain_cases [OF chain that(1) assms(2)] chain_apart [OF chain assms(2) that(1)] dates [OF that(1)] dates [OF assms(2)] that(2)
    by fastforce
  have nxt: "earliest_by sg_startDate ?next (db_segments db) = (case next_segment s db of None \<Rightarrow> None
        | Some t \<Rightarrow> if sg_startDate t \<le> b then Some t else None)"
  proof (cases "next_segment s db")
    case None
    then show ?thesis using next_segment_None [OF ok assms(2) None] after
      by (auto intro!: earliest_by_None)
  next
    case (Some t)
    note tn = next_segment_Some [OF Some] and f = next_segment_follows [OF ok assms(2) Some]
    have later: "r = t \<or> sg_startDate t < sg_startDate r" if r: "r \<in> set (db_segments db)" "?next r" for r
    proof (rule chain_cases [OF chain r(1), of t])
      assume "seg_before t r"
      then show ?thesis using chain_apart [OF chain r(1), of t] tn dates [of t] by simp
    next
      assume "seg_before r t"
      then show ?thesis using after [OF r] f by (simp add: seg_before_def seg_follows_def)
    qed (use tn r in simp_all)
    show ?thesis
    proof (cases "sg_startDate t \<le> b")
      case True
      have "earliest_by sg_startDate ?next (db_segments db) = Some t"
        by (rule earliest_by_eq [OF _ _ later]) (use tn f True chain_okD(5) [OF chain] in \<open>auto simp: seg_follows_def\<close>)
      then show ?thesis using Some True by simp
    next
      case False
      then have "\<not> ?next r" if "r \<in> set (db_segments db)" for r using later [OF that] by auto
      then show ?thesis using Some False by (auto intro!: earliest_by_None)
    qed
  qed
  show ?thesis
    unfolding resolveSegmentForPeriod_def
    using assms(5) by (simp add: assertDate_def found nxt not_less Let_def split: option.split)
qed

text \<open>
  C12 A billing period that starts in a segment is billed by the terms of that segment
  alone: when it ends in the segment, by its terms; when it ends later it is not billed,
  and the error names the segment, and the change order that made the next segment if
  the period reaches into it.
\<close>

theorem period_has_one_segment:
  assumes "db = sub_run ops no_subscriptions" and "s \<in> set (db_segments db)"
    and "sg_startDate s \<le> a" and "a \<le> sg_endDate s" and "a \<le> b"
  shows "resolveSegmentForPeriod (sg_orderId s) (Some a) (Some (Some b)) db =
    (if b \<le> sg_endDate s then Inr (terms_of_segment s)
     else Inl (ContractSegmentError ''BILLING_PERIOD_CROSSES_SEGMENT'' (Some (sg_id s))
       (case next_segment s db of None \<Rightarrow> None
        | Some t \<Rightarrow> if sg_startDate t \<le> b then sg_sourceChangeOrderId t else None)))"
  using period_segment [OF _ assms(2-5)] assms(1) run_ok by simp

theorem period_has_one_segment_witness:
  "resolveSegmentForPeriod ''o'' (Some (31 * 86400000)) (Some (Some (58 * 86400000))) demo_db = Inr (terms_of_segment demo_segment)
   \<and> resolveSegmentForPeriod ''o'' (Some (31 * 86400000)) (Some (Some (60 * 86400000))) demo_db =
     Inl (ContractSegmentError ''BILLING_PERIOD_CROSSES_SEGMENT'' (Some ''b'') None)"
proof -
  have s: "demo_segment \<in> set (db_segments demo_db)" by (simp add: demo_segments)
  have f: "sg_orderId demo_segment = ''o''" "sg_id demo_segment = ''b''" "sg_startDate demo_segment = 0"
    "sg_endDate demo_segment = 58 * 86400000"
    by (simp_all add: demo_segment_def base_segment_def demo_order_def)
  have "next_segment demo_segment demo_db = None"
    by (simp add: next_segment_def timeline_def demo_segments)
  then show ?thesis
    using period_has_one_segment [OF demo_db_def s, of "31 * 86400000" "58 * 86400000"]
      period_has_one_segment [OF demo_db_def s, of "31 * 86400000" "60 * 86400000"]
    by (simp add: f)
qed

section \<open>References between the tables\<close>

definition source_segments :: "change_order \<Rightarrow> id list" where
  "source_segments c = List.map_filter id [ch_sourceSegmentId c, map_option xd_sourceSegmentId (ch_extensionDetail c)]"

lemma references:
  assumes ok: "timeline_ok db"
  shows "c \<in> set (db_changes db) \<Longrightarrow> i \<in> set (source_segments c) \<Longrightarrow>
      \<exists>s. findSegment i db = Some s \<and> sg_orderId s = ch_orderId c"
    and "t \<in> set (db_segments db) \<Longrightarrow> sg_sourceChangeOrderId t = Some x \<Longrightarrow>
      \<exists>c. findChange x db = Some c \<and> (ch_changeType c = EXTENSION \<longrightarrow>
        (\<exists>s. projectedSourceSegment c db = Some s \<and> next_segment s db = Some t))"
    and "r \<in> set (db_considerations db) \<Longrightarrow>
      \<exists>s. findSegment (rc_segmentId r) db = Some s \<and> sg_orderId s = rc_orderId r"
proof -
  note chain = timeline_okD(1) [OF ok] and links = links_okD [OF timeline_okD(2) [OF ok]]
  have find: "findSegment (sg_id s) db = Some s" if "s \<in> set (db_segments db)" for s
    using find_segment_unique [OF chain_okD(1) [OF chain] that] by (simp add: findSegment_def)
  have seg: "\<exists>s. findSegment i db = Some s \<and> sg_orderId s = q" if "has_segment (db_segments db) i q" for i q
    using that find by (auto simp: has_segment_def)
  show "\<exists>s. findSegment i db = Some s \<and> sg_orderId s = ch_orderId c"
    if "c \<in> set (db_changes db)" "i \<in> set (source_segments c)"
  proof -
    have "change_link c \<in> set (map change_link (db_changes db))" using that(1) by simp
    moreover have "ln_root (change_link c) = Some i \<or> ln_detail (change_link c) = Some i"
      using that(2) by (auto simp: source_segments_def map_filter_simps change_link_def split: option.splits)
    ultimately have "has_segment (db_segments db) i (ln_orderId (change_link c))" by (rule links(2))
    then show ?thesis using seg by (simp add: change_link_def)
  qed
  show "\<exists>s. findSegment (rc_segmentId r) db = Some s \<and> sg_orderId s = rc_orderId r"
    if "r \<in> set (db_considerations db)"
    using links(4) [of "cons_link r"] that seg by (simp add: cons_link_def)
  show "\<exists>c. findChange x db = Some c \<and> (ch_changeType c = EXTENSION \<longrightarrow>
      (\<exists>s. projectedSourceSegment c db = Some s \<and> next_segment s db = Some t))"
    if t: "t \<in> set (db_segments db)" "sg_sourceChangeOrderId t = Some x"
  proof -
    obtain c where c: "c \<in> set (db_changes db)" "ch_id c = x"
      "ch_changeType c = EXTENSION \<longrightarrow> (\<exists>g \<in> set (db_segments db). link_source (change_link c) = Some (sg_id g)
         \<and> sg_orderId t = sg_orderId g \<and> sg_sequenceNo t = sg_sequenceNo g + 1)"
      using links(3) [OF t] by (auto simp: comes_from_def change_link_def)
    have "findChange x db = Some c"
      using find_row_unique [OF timeline_ids [OF ok] c(1)] c(2) by (simp add: findChange_def)
    moreover have "\<exists>s. projectedSourceSegment c db = Some s \<and> next_segment s db = Some t" if ext: "ch_changeType c = EXTENSION"
    proof -
      obtain g where g: "g \<in> set (db_segments db)" "link_source (change_link c) = Some (sg_id g)"
        "sg_orderId t = sg_orderId g" "sg_sequenceNo t = sg_sequenceNo g + 1" using c(3) ext by blast
      have "projectedSourceSegment c db = Some g"
        using g(2) find [OF g(1)]
        by (auto simp: projectedSourceSegment_def link_source_def change_link_def split: option.splits)
      moreover have "next_segment g db = Some t"
      proof -
        have tin: "t \<in> set (timeline (sg_orderId g) db)" using t(1) g(3) by (simp add: timeline_set)
        show ?thesis
        proof (cases "next_segment g db")
          case None
          then show ?thesis using tin g(4) by (auto simp: next_segment_def find_None_iff)
        next
          case (Some u)
          note un = next_segment_Some [OF Some]
          have "u = t"
            by (rule keys_inj(2) [OF chain_okD(1) [OF chain] _ t(1)]) (use un g in simp_all)
          then show ?thesis using Some by simp
        qed
      qed
      ultimately show ?thesis by blast
    qed
    ultimately show ?thesis by blast
  qed
qed

definition references_ok :: "sub_db \<Rightarrow> bool" where
  "references_ok db =
     (list_all (\<lambda>c. list_all (\<lambda>i. case findSegment i db of None \<Rightarrow> False
         | Some s \<Rightarrow> sg_orderId s = ch_orderId c) (source_segments c)) (db_changes db)
      \<and> list_all (\<lambda>t. case sg_sourceChangeOrderId t of None \<Rightarrow> True
         | Some x \<Rightarrow> (case findChange x db of None \<Rightarrow> False
             | Some c \<Rightarrow> ch_changeType c \<noteq> EXTENSION \<or> (case projectedSourceSegment c db of None \<Rightarrow> False
                 | Some s \<Rightarrow> next_segment s db = Some t))) (db_segments db)
      \<and> list_all (\<lambda>r. case findSegment (rc_segmentId r) db of None \<Rightarrow> False
         | Some s \<Rightarrow> sg_orderId s = rc_orderId r) (db_considerations db))"


section \<open>How extensions move\<close>

lemma run_moves:
  assumes "timeline_ok db"
  shows "all_move (db_changes db) (db_changes (sub_run ops db))"
  using assms
proof (induction ops arbitrary: db)
  case (Cons op ops)
  define db1 where "db1 = sub_run [op] db"
  have "all_move (db_changes db) (db_changes db1)" "timeline_ok db1"
    using Cons.prems sub_transaction_moves [OF Cons.prems] run_timeline [OF Cons.prems, of "[op]"]
    by (auto simp: db1_def sub_run_def split: sum.split)
  moreover have "sub_run (op # ops) db = sub_run ops db1" by (simp add: db1_def sub_run_def)
  ultimately show ?case using Cons.IH all_move_trans by metis
qed simp

lemma cancelled_stays: "extension_step\<^sup>*\<^sup>* ChgCANCELLED t \<Longrightarrow> t = ChgCANCELLED"
  using extension_machine.terminal_absorbing by simp

lemma change_unique:
  "timeline_ok db \<Longrightarrow> c \<in> set (db_changes db) \<Longrightarrow> findChange (ch_id c) db = Some c"
  using find_row_unique [OF timeline_ids] by (simp add: findChange_def)



text \<open>The commands that name the version of the change they were issued for.\<close>

fun names_version :: "sub_op \<Rightarrow> (id \<times> int) option" where
  "names_version (CreateQuote cf i x y z seen) = Some (i, in_version x)"
| "names_version (ApprovePrice cf i x seen) = Some (i, in_version x)"
| "names_version (SubmitConfirmation cf i x seen) = Some (i, in_version x)"
| "names_version (Cancel cf i x seen) = Some (i, in_version x)"
| "names_version (TakeOver i x seen) = Some (i, in_version x)"
| "names_version (ConfirmQuote cf i x y z seen) = Some (i, in_version x)"
| "names_version (RejectQuote cf i x y z seen) = Some (i, in_version x)"
| "names_version (FinalizeGeneration k t i a x v) = Some (i, in_version x)"
| "names_version op = None"

lemma state_ofE: "state_of r = Inr db' \<Longrightarrow> (\<And>x. r = Inr (x, db') \<Longrightarrow> P) \<Longrightarrow> P"
  using state_of_Inr by blast

lemma versioned_update:
  assumes "names_version op = Some (i, v)"
  shows "sub_run [op] db = db \<or> one_update i v db (sub_run [op] db)"
proof -
  note upd = approve_update submit_update cancel_update takeover_update quote_update confirm_update
    reject_update finalize_generation_update
  have "sub_transaction op db = Inr db' \<Longrightarrow> db' = db \<or> one_update i v db db'" for db'
    using assms by (cases op) (simp_all, (metis state_of_Inr upd)+)
  then show ?thesis by (auto simp: sub_run_def split: sum.split)
qed



end
