(* ===== verification/StrandedOrders.thy ===== *)
theory StrandedOrders
  imports ExtensionFacts
begin

text \<open>
  A scheduled segment leaves that status only when it is activated, and it is
  activated only while its change order is scheduled.  So an extension that is
  cancelled after its segment was scheduled leaves the segment behind for good:
  it is never activated, and the segment before it never expires, because it has
  a next segment.
\<close>

section \<open>Scheduled segments stay\<close>

lemma kept_many:
  "t \<in> set rows \<Longrightarrow> \<not> P t \<Longrightarrow> t \<in> set (snd (update_many P f rows))"
  by (force simp: update_many_map)

lemma kept_frame: "frame db' = frame db \<Longrightarrow> t \<in> set (db_segments db) \<Longrightarrow> t \<in> set (db_segments db')"
  by (simp add: frame_def)

lemma write_changes_segments: "write_changes rows db = Inr db' \<Longrightarrow> db_segments db' = db_segments db"
  by (auto simp: write_changes_def split: if_splits)

lemma base_kept:
  "ensureBaseSegmentInTransaction n q a db = Inr (s, db') \<Longrightarrow> t \<in> set (db_segments db) \<Longrightarrow> t \<in> set (db_segments db')"
  by (auto simp: ensureBaseSegmentInTransaction_def Let_def write_segments_Inr split: option.split_asm)

lemma insert_extension_segments: "insertExtension n now q r m md rs pl db = Inr db' \<Longrightarrow> db_segments db' = db_segments db"
  by (auto simp: insertExtension_def split: option.split_asm dest!: write_changes_segments)

lemma reserve_segments: "reserveCommand i a op k h n db = Inr (db' :: sub_db) \<Longrightarrow> db_segments db' = db_segments db"
  by (drule reserve_frame) (simp add: frame_def)

lemma segments_simps [simp]:
  "db_segments (completeCommand i t r n db) = db_segments db"
  "db_segments (cancelMarketingReminders z1 z2 db) = db_segments db"
  "db_segments (update_considerations P g db) = db_segments db"
  by (simp_all add: completeCommand_def cancelMarketingReminders_def update_considerations_def)

lemma create_segments:
  assumes "createExtension cf i x g n seen db = Inr (c, db')"
  shows "db_segments db' = db_segments db"
proof -
  have tx: "db_segments d = db_segments db" if t: "extensionTransaction k i x n pl db = Inr (c', d)" for k pl c' d
    using t unfolding extensionTransaction_def rbind_Inr_iff
    by (elim exE conjE) (auto dest!: insert_extension_segments reserve_segments)
  show ?thesis
    using assms tx transacted_cases unfolding createExtension_def rbind_Inr_iff
    by (elim exE conjE) (fastforce split: planned.split_asm prod.split_asm)
qed

lemma decide_segments:
  assumes "decideRenewal cf r i d n seen db = Inr (x, db')"
  shows "db_segments db' = db_segments db"
proof -
  have tx: "db_segments e = db_segments db" if t: "decisionTransaction k r i d n db = Inr (x', e)" for k x' e
    using t unfolding decisionTransaction_def Let_def rbind_Inr_iff
    by (elim exE conjE)
      (auto simp: result_simps split: if_split_asm dest!: insert_extension_segments reserve_segments)
  show ?thesis using assms tx unfolding decideRenewal_def Let_def rbind_Inr_iff
    by (elim exE conjE) (auto split: option.split_asm sum.split_asm if_split_asm)
qed

lemma enroll_segments: "enrollSegment cf i t n db = Inr (b, db') \<Longrightarrow> db_segments db' = db_segments db"
proof -
  have rem: "db_segments (enrollReminder m t s c r x d) = db_segments d" for m t s c r x d
    by (simp add: enrollReminder_def enqueueReminder_def upsertReminder_def enqueueLinked_def Let_def
      split: prod.split option.split)
  have fold: "db_segments (fold (enrollReminder m t s c r) xs d) = db_segments d" for m t s c r xs d
    by (induction xs arbitrary: d) (simp_all add: rem)
  have "db_segments (enrollRows s dl st ds t n db) = db_segments db" for s dl st ds
    by (auto simp: enrollRows_def Let_def fold enqueueLinked_def split: option.split)
  then show "enrollSegment cf i t n db = Inr (b, db') \<Longrightarrow> db_segments db' = db_segments db"
    by (auto simp: enrollSegment_def Let_def split: option.split_asm if_split_asm)
qed

lemma other_changes_segments: "writeOtherChanges rows qs cs db = Inr db' \<Longrightarrow> db_segments db' = db_segments db"
  by (auto simp: writeOtherChanges_def dest!: write_changes_segments)

lemma archive_kept:
  assumes "finalizeArchivedContract i db = Inr (r, db')" and t: "t \<in> set (db_segments db)"
  shows "t \<in> set (db_segments db')"
proof -
  obtain c where c: "List.find (\<lambda>c. ch_contractId c = Some (ai_contractId i)) (db_changes db) = Some c"
    using assms by (auto simp: finalizeArchivedContract_def split: option.splits)
  have ext: "t \<in> set (db_segments d)" if "finalizeExtension c i db = Inr (x, d)" for x d
    using that
  proof (cases rule: finalize_extension_cases)
    case late
    then show ?thesis using archive_frame kept_frame t by blast
  next
    case (scheduled xp db1 qt db2 db3 db4 segment)
    have "t \<in> set (db_segments db2)" using scheduled(6) archive_frame [OF scheduled(2)] t
      by (auto simp: write_segments_Inr frame_def)
    moreover have "frame db3 = frame db2" using scheduled(7) by (auto simp: enqueueActivation_def split: option.split_asm)
    moreover have "frame db4 = frame db3" by (rule update_change_frame [OF scheduled(8)]) simp
    ultimately show ?thesis using scheduled(10) by (auto intro: kept_frame)
  qed (use t in simp)
  show ?thesis
    using assms(1) c ext kept_frame [OF finalize_other_frame t]
    by (auto simp: finalizeArchivedContract_def finalizeVehicleSwap_def finalizeEarlyTermination_def
      finalizeManagedOther_def split: change_type.splits)
qed

lemma activate_kept:
  assumes run: "activate g n i now db = Inr (r, db')" and t: "t \<in> set (db_segments db)" "sg_status t = SegSCHEDULED"
    and ids: "segment_keys_unique (db_segments db)"
  shows "t \<in> set (db_segments db') \<or> (\<exists>x c. sg_sourceChangeOrderId t = Some x \<and> findChange x db = Some c
    \<and> ch_status c = ChgSCHEDULED)"
proof -
  obtain s c x where found: "findSegment i db = Some s" "sg_sourceChangeOrderId s = Some x" "findChange x db = Some c"
    using run unfolding activate_def by (force split: option.split_asm)
  have sw: "t \<in> set (db_segments d)" if w: "switchSegments now s c p db = Inr d" and ne: "sg_id t \<noteq> sg_id s" for p d
  proof -
    let ?P = "\<lambda>s. sg_id s = sg_id p \<and> sg_status s = SegACTIVE"
    let ?Q = "\<lambda>r. sg_id r = sg_id s \<and> sg_status r = SegSCHEDULED"
    have "t \<in> set (snd (update_many ?Q f (snd (update_many ?P h (db_segments db)))))" for f h
      using t ne by (intro kept_many) auto
    then show ?thesis using w by (auto simp: switchSegments_def Let_def write_segments_Inr dest!: write_changes_segments)
  qed
  have k: "db_segments (enqueueContinuationJobs g n now x s d) = db_segments d" for x s d
    using continuation_jobs_frame frame_parts by blast
  show ?thesis
  proof (cases "sg_id t = sg_id s")
    case True
    then have ts: "t = s" using keys_inj(1) [OF ids t(1)] findSegment_in [OF found(1)] by blast
    show ?thesis
    proof (cases "ch_status c = ChgSCHEDULED")
      case False
      then have "db_segments db' = db_segments db"
        using run found k by (auto simp: activate_def split: if_split_asm)
      then show ?thesis using t by simp
    qed (use ts found in auto)
  next
    case False
    then show ?thesis using run found sw t k by (auto simp: activate_def split: if_split_asm)
  qed
qed

lemma expire_kept:
  assumes "expireSegment cl i now seen db = Inr (r, db')" and t: "t \<in> set (db_segments db)" "sg_status t = SegSCHEDULED"
  shows "t \<in> set (db_segments db')"
proof -
  have rows: "t \<in> set (db_segments d)" if "expireRows s now order ls db = Inr d" for s order ls d
    using that
  proof (rule expire_rows_frame)
    fix db1 assume f: "frame d = frame db1" and w: "sg_status s = SegACTIVE \<and> write_segments (snd (update_many (\<lambda>r. sg_id r = sg_id s \<and> sg_status r = SegACTIVE)
      (\<lambda>s. s\<lparr>sg_completedAt := Some now, sg_status := SegCOMPLETED\<rparr>) (db_segments db))) db = Inr db1
     \<or> sg_status s \<noteq> SegACTIVE \<and> db1 = db"
    have "t \<in> set (db_segments db1)" using w t by (auto simp: write_segments_Inr intro!: kept_many)
    then show ?thesis using f by (simp add: frame_def)
  qed
  have ret: "db_segments (snd (ensureReturn e p q v dl d)) = db_segments d" for e p q v dl d
    by (simp add: ensureReturn_def split: option.split)
  have locks: "t \<in> set (db_segments d)" if l: "expireWithLocks cl s now db = Inr (x, d)" for s x d
  proof -
    have "d = db \<or> (\<exists>s' order ls d' e p q v dl. expireRows s' now order ls db = Inr d'
        \<and> d = snd (ensureReturn e p q v dl d'))"
      using l unfolding expireWithLocks_def rbind_Inr_iff
      by (elim exE conjE) (force simp: Let_def split: option.split_asm if_split_asm prod.split_asm)
    then show ?thesis using rows ret t by auto
  qed
  show ?thesis using assms locks by (auto simp: expireSegment_def split: option.split_asm if_split_asm)
qed

lemma terminate_kept:
  assumes "applyEarlyTerminationCoreBoundary a db = Inr db'" and t: "t \<in> set (db_segments db)" "sg_status t = SegSCHEDULED"
  shows "t \<in> set (db_segments db')"
proof -
  have "t \<in> set (snd (update_many (\<lambda>s. sg_id s = i \<and> sg_status s = SegACTIVE) f (db_segments db)))" for i f
    using t by (intro kept_many) auto
  then show ?thesis using assms(1) unfolding applyEarlyTerminationCoreBoundary_def Let_def
    by (auto simp: write_segments_Inr)
qed

lemma swap_kept:
  assumes "switchSwapSegment i n now db = Inr (Some db')" and t: "t \<in> set (db_segments db)" "sg_status t = SegSCHEDULED"
    and ids: "segment_keys_unique (db_segments db)"
  shows "t \<in> set (db_segments db')"
  using assms(1)
proof (cases rule: swap_cases)
  case (1 c src b l tm sn db1)
  have "src \<in> set (db_segments db)" "sg_status src = SegACTIVE" using 1 findSegment_in by blast+
  then have "sg_id t \<noteq> sg_id src" using keys_inj(1) [OF ids t(1)] t(2) by force
  then have "t \<in> set (upd_row sg_id (sg_id src) f (db_segments db))" for f
    using t(1) by (force simp: upd_row_def)
  then show ?thesis using 1 by (auto simp: write_segments_Inr)
qed

lemma scheduled_kept:
  assumes ok: "timeline_ok db" and run: "sub_transaction op db = Inr db'"
    and t: "t \<in> set (db_segments db)" "sg_status t = SegSCHEDULED"
  shows "t \<in> set (db_segments db') \<or> (\<exists>x c. sg_sourceChangeOrderId t = Some x \<and> findChange x db = Some c
    \<and> ch_status c = ChgSCHEDULED)"
proof (cases "\<exists>g n i now. op = Activate g n i now")
  case True
  then show ?thesis using run activate_kept [OF _ t chain_okD(1) [OF timeline_okD(1) [OF ok]]]
    by (auto dest!: state_of_Inr)
next
  case False
  note same = create_segments decide_segments enroll_segments other_changes_segments
  note swap = swap_kept [OF _ t chain_okD(1) [OF timeline_okD(1) [OF ok]]]
  note keep = base_kept [OF _ t(1)] archive_kept [OF _ t(1)] expire_kept [OF _ t] terminate_kept [OF _ t] swap
  note frames = quiet_frames [THEN kept_frame, OF _ t(1)] complete_frame [THEN kept_frame, OF t(1)]
    mark_frame [THEN kept_frame, OF t(1)] crossed_frame [THEN kept_frame, OF t(1)]
    foreign_frame [THEN kept_frame, OF t(1)]
  have "t \<in> set (db_segments db')"
    using run False t(1)
    by (cases op) (auto dest!: state_of_Inr intro: keep frames simp: same [THEN arg_cong [where f = set]]
      split: option.split_asm)
  then show ?thesis ..
qed

section \<open>Extensions cancelled after they were scheduled\<close>

definition stranded :: "contract_segment \<Rightarrow> sub_db \<Rightarrow> bool" where
  "stranded t db = (t \<in> set (db_segments db) \<and> sg_status t = SegSCHEDULED
     \<and> (case sg_sourceChangeOrderId t of None \<Rightarrow> False
        | Some x \<Rightarrow> (case findChange x db of None \<Rightarrow> False
            | Some c \<Rightarrow> ch_changeType c = EXTENSION \<and> ch_status c = ChgCANCELLED)))"

lemma stranded_step:
  assumes ok: "timeline_ok db" and st: "stranded t db"
  shows "stranded t (sub_run [op] db)"
proof (cases "sub_transaction op db")
  case (Inr db')
  obtain x c where c: "sg_sourceChangeOrderId t = Some x" "findChange x db = Some c" "ch_changeType c = EXTENSION"
    "ch_status c = ChgCANCELLED" and t: "t \<in> set (db_segments db)" "sg_status t = SegSCHEDULED"
    using st by (auto simp: stranded_def split: option.split_asm)
  have "t \<in> set (db_segments db')" using scheduled_kept [OF ok Inr t] c by auto
  moreover obtain d where d: "d \<in> set (db_changes db')" "moves c d"
    using sub_transaction_moves [OF ok Inr] findChange_in [OF c(2)] c(3) by (auto simp: all_move_def)
  moreover have "ch_status d = ChgCANCELLED" using d(2) c(4) cancelled_stays by (simp add: moves_def)
  moreover have "findChange x db' = Some d"
    using change_unique [OF subs.op_inv [OF ok Inr] d(1)] moves_parts [OF d(2)] findChange_in [OF c(2)] by simp
  ultimately show ?thesis
    using moves_parts [OF d(2)] c(1,3) t(2) Inr by (simp add: stranded_def sub_run_def)
qed (use st in \<open>simp add: sub_run_def\<close>)

lemma stranded_run: "timeline_ok db \<Longrightarrow> stranded t db \<Longrightarrow> stranded t (sub_run ops db)"
proof (induction ops arbitrary: db)
  case (Cons op ops)
  have "sub_run (op # ops) db = sub_run ops (sub_run [op] db)" by (simp add: sub_run_def)
  then show ?case using Cons.IH stranded_step [OF Cons.prems] run_timeline [OF Cons.prems(1)] by simp
qed simp

lemma stranded_activation:
  assumes "timeline_ok db" and "stranded t db"
  shows "\<not> is_ok (activate g n (sg_id t) now db)"
proof -
  obtain x c where c: "sg_sourceChangeOrderId t = Some x" "findChange x db = Some c" "ch_status c = ChgCANCELLED"
    and t: "t \<in> set (db_segments db)" "sg_status t = SegSCHEDULED"
    using assms(2) by (auto simp: stranded_def split: option.split_asm)
  have "findSegment (sg_id t) db = Some t"
    using find_segment_unique [OF chain_okD(1) [OF timeline_okD(1) [OF assms(1)]] t(1)] by (simp add: findSegment_def)
  then show ?thesis using c t(2) by (auto simp: activate_def is_ok_iff)
qed

lemma next_day:
  assumes "sg_startDate t = sg_endDate p + 86400000" and "sg_startDate t mod 86400000 = 0"
    and "0 < sg_startDate t" and "sg_startDate t \<le> 8640000000000000"
  shows "addUtcDays (Some (sg_endDate p)) 1 = Some (sg_startDate t)"
proof -
  obtain k where k: "sg_startDate t = ms_per_day * k" using assms(2) by (auto simp: mod_eq_0_iff_dvd elim!: dvdE)
  then have "0 < k" using assms(3) by (simp add: zero_less_mult_iff)
  moreover have e: "sg_endDate p = (k - 1) * ms_per_day" using assms(1) k by (simp add: algebra_simps)
  ultimately have "99 < utc_year (sg_endDate p)"
    using year_of_day_ge [of 100 "k - 1"] by (simp add: utc_year_def day_from_year_def)
  then show ?thesis using addUtcDays_shift [of "sg_endDate p" 1] assms(3,4) e k by (simp add: time_clip_def)
qed

lemma earliest_by_found: "t \<in> set rows \<Longrightarrow> P t \<Longrightarrow> earliest_by key P rows \<noteq> None"
proof -
  assume "t \<in> set rows" "P t"
  then have "set (sort_key key (filter P rows)) \<noteq> {}" by auto
  then show ?thesis by (cases "sort_key key (filter P rows)") (simp_all add: earliest_by_def first_row_def)
qed

lemma stranded_expiry:
  assumes ok: "timeline_ok db" and st: "stranded t db"
    and p: "p \<in> set (db_segments db)" "next_segment p db = Some t"
    and day: "sg_startDate t mod 86400000 = 0" "0 < sg_startDate t" "sg_startDate t \<le> 8640000000000000"
    and run: "expireSegment cl (sg_id p) now db db = Inr (r, db')"
  shows "r = ExpiryEXTENDED \<and> db' = db"
proof -
  have f: "seg_follows p t" by (rule next_segment_follows [OF ok p])
  have t: "t \<in> set (db_segments db)" "sg_status t = SegSCHEDULED" using st by (simp_all add: stranded_def)
  have "findSegment (sg_id p) db = Some p"
    using find_segment_unique [OF chain_okD(1) [OF timeline_okD(1) [OF ok]] p(1)] by (simp add: findSegment_def)
  moreover have "findEffectiveNextSegment p db \<noteq> None"
  proof -
    let ?P = "\<lambda>s. sg_orderId s = sg_orderId p \<and> sg_sequenceNo s > sg_sequenceNo p
        \<and> Some (sg_startDate s) = addUtcDays (Some (sg_endDate p)) 1
        \<and> (sg_status s = SegSCHEDULED \<or> sg_status s = SegACTIVE)"
    have "Some (sg_startDate t) = addUtcDays (Some (sg_endDate p)) 1"
      by (rule sym, rule next_day [OF _ day]) (use f in \<open>simp add: seg_follows_def\<close>)
    moreover have "sg_orderId t = sg_orderId p" "sg_sequenceNo p < sg_sequenceNo t"
      using f by (simp_all add: seg_follows_def)
    ultimately have "?P t" using t(2) by blast
    then show ?thesis unfolding findEffectiveNextSegment_def by (rule earliest_by_found [OF t(1)])
  qed
  ultimately show ?thesis using run by (auto simp: expireSegment_def)
qed

text \<open>
  C10 An extension that is cancelled (from manual takeover) after its segment was
  scheduled leaves the order in limbo: whatever happens afterwards, the segment is
  still scheduled, it can never be activated, and the segment before it never
  expires, since it counts as extended; no return of the vehicle is ever opened.
\<close>

theorem cancelled_extension_strands_order:
  assumes "timeline_ok db" and "stranded t db" and "db' = sub_run ops db"
    and "sg_startDate t mod 86400000 = 0" and "0 < sg_startDate t" and "sg_startDate t \<le> 8640000000000000"
    and "next_segment p db' = Some t" and "p \<in> set (db_segments db')"
  shows "t \<in> set (db_segments db') \<and> \<not> is_ok (activate g n (sg_id t) now db')
    \<and> (is_ok (expireSegment cl (sg_id p) now db' db') \<longrightarrow>
       expireSegment cl (sg_id p) now db' db' = Inr (ExpiryEXTENDED, db'))"
proof -
  have ok: "timeline_ok db'" and st: "stranded t db'"
    using run_timeline [OF assms(1)] stranded_run [OF assms(1,2)] assms(3) by simp_all
  have "expireSegment cl (sg_id p) now db' db' = Inr (ExpiryEXTENDED, db')"
    if "is_ok (expireSegment cl (sg_id p) now db' db')"
    using that stranded_expiry [OF ok st assms(8,7,4-6)] by (auto simp: is_ok_iff)
  then show ?thesis using st stranded_activation [OF ok st] by (auto simp: stranded_def)
qed

text \<open>The example, with the segment of its extension scheduled, and what two commands of an operator make of it.\<close>

definition demo_scheduled_change :: change_order where
  "demo_scheduled_change = (new_extension ''x'' 0 ''o'' None 1 ORIGINAL_PRICE None ''b'' (59 * 86400000) (89 * 86400000)
     (59 * 86400000 - 28800000))\<lparr>ch_status := ChgSCHEDULED, ch_version := 6\<rparr>"

definition demo_next_segment :: contract_segment where
  "demo_next_segment = demo_segment\<lparr>sg_id := ''s'', sg_segmentType := SegEXTENSION, sg_sequenceNo := 2,
     sg_status := SegSCHEDULED, sg_startDate := 59 * 86400000, sg_endDate := 89 * 86400000,
     sg_sourceChangeOrderId := Some ''x''\<rparr>"

definition scheduled_db :: sub_db where
  "scheduled_db = no_subscriptions\<lparr>db_orders := [demo_order], db_segments := [demo_segment, demo_next_segment],
     db_changes := [demo_scheduled_change]\<rparr>"

definition demo_cancel :: "sub_op list" where
  "demo_cancel = [TakeOver ''x'' (demo_input ''a'' ''c7'' 9 6) no_subscriptions,
     Cancel demo_config ''x'' (demo_input ''a'' ''c8'' 10 7) no_subscriptions]"

lemma scheduled_db_ok: "timeline_ok scheduled_db"
  by (simp add: timeline_ok_def chain_ok_def segment_keys_unique_def segment_dates_valid_def links_ok_def
    scheduled_db_def no_subscriptions_def demo_next_segment_def demo_segment_def base_segment_def demo_order_def
    demo_contract_def demo_scheduled_change_def new_extension_def change_link_def has_segment_def comes_from_def
    link_source_def seg_follows_def seg_before_def List.map_filter_def)

lemma demo_stranded: "stranded demo_next_segment (sub_run demo_cancel scheduled_db)
   \<and> db_segments (sub_run demo_cancel scheduled_db) = [demo_segment, demo_next_segment]"
  by code_simp

definition demo_closure :: expiry_closure where
  "demo_closure = \<lparr> ec_prepared = Inr ''r'', ec_completed = (\<lambda>r. Inr ()) \<rparr>"

definition demo_expiry :: "sub_db \<Rightarrow> (sub_error, expiry_outcome \<times> sub_db) result" where
  "demo_expiry db = expireSegment demo_closure ''b'' (100 * 86400000) db db"

lemma demo_expiry_ok: "is_ok (demo_expiry (sub_run demo_cancel scheduled_db))"
  by code_simp

theorem cancelled_extension_strands_order_witness:
  "db_segments (sub_run demo_cancel scheduled_db) = [demo_segment, demo_next_segment]
   \<and> \<not> is_ok (activate (\<lambda>v. []) (\<lambda>k. ''j'') ''s'' (60 * 86400000) (sub_run demo_cancel scheduled_db))
   \<and> demo_expiry (sub_run demo_cancel scheduled_db) = Inr (ExpiryEXTENDED, sub_run demo_cancel scheduled_db)"
proof -
  let ?db = "sub_run demo_cancel scheduled_db"
  have f: "sg_id demo_next_segment = ''s''" "sg_id demo_segment = ''b''" "sg_startDate demo_next_segment = 59 * 86400000"
    "sg_orderId demo_segment = ''o''" "sg_orderId demo_next_segment = ''o''" "sg_sequenceNo demo_segment = 1"
    "sg_sequenceNo demo_next_segment = 2"
    by (simp_all add: demo_next_segment_def demo_segment_def base_segment_def demo_order_def)
  have "next_segment demo_segment ?db = Some demo_next_segment"
    using demo_stranded by (simp add: next_segment_def timeline_def f)
  then show ?thesis
    using cancelled_extension_strands_order [OF run_timeline [OF scheduled_db_ok] conjunct1 [OF demo_stranded], of ?db "[]"]
      demo_stranded demo_expiry_ok by (simp add: f demo_expiry_def)
qed

end
