(* ===== verification/OpenExtensions.thy ===== *)
theory OpenExtensions
  imports StrandedOrders
begin

text \<open>
  What the expiry of a segment does to the extensions of it: nothing.  It looks for
  change orders in a column that extensions do not fill since they have a detail
  table of their own.
\<close>

section \<open>Extensions whose source segment expired\<close>

text \<open>
  No extension of a run has a source segment in the change order's own column: the
  column is from before extensions had a detail of their own.
\<close>

definition no_root :: "link \<Rightarrow> bool" where
  "no_root l = (ln_type l = EXTENSION \<longrightarrow> ln_root l = None)"

definition no_roots :: "sub_db \<Rightarrow> bool" where
  "no_roots db = list_all no_root (map change_link (db_changes db))"

lemma no_roots_links: "map change_link (db_changes db') = map change_link (db_changes db) \<Longrightarrow> no_roots db \<Longrightarrow> no_roots db'"
  by (simp only: no_roots_def)

lemma no_roots_frame: "frame db' = frame db \<Longrightarrow> no_roots db \<Longrightarrow> no_roots db'"
  using no_roots_links frame_parts by blast

lemma no_roots_changes: "db_changes db' = db_changes db \<Longrightarrow> no_roots db \<Longrightarrow> no_roots db'"
  by (simp add: no_roots_def)

lemma no_roots_segments [simp]: "no_roots (db\<lparr>db_segments := rows\<rparr>) = no_roots db"
  by (simp add: no_roots_def)

lemma insert_extension_roots: "insertExtension n now q r m md rs pl db = Inr db' \<Longrightarrow> no_roots db' = no_roots db"
  by (auto simp: insertExtension_def no_roots_def no_root_def new_extension_def change_link_def
    split: option.split_asm dest!: write_changes_rows)

lemma reserve_roots: "reserveCommand y a op k h n db = Inr (db' :: sub_db) \<Longrightarrow> no_roots db' = no_roots db"
  by (drule reserve_changes) (simp add: no_roots_def)

lemma roots_simps [simp]:
  "no_roots (completeCommand y ty r n db) = no_roots db"
  "no_roots (cancelMarketingReminders z1 z2 db) = no_roots db"
  "no_roots (update_considerations P g db) = no_roots db"
  by (simp_all add: no_roots_def)

lemma create_roots:
  assumes "createExtension cf i x g n seen db = Inr (c, db')" and "no_roots db"
  shows "no_roots db'"
proof -
  have tx: "no_roots d" if t: "extensionTransaction k i x n pl db = Inr (c', d)" for k pl c' d
    using t assms(2) unfolding extensionTransaction_def rbind_Inr_iff
    by (elim exE conjE) (auto dest!: insert_extension_roots reserve_roots)
  show ?thesis
    using assms tx transacted_cases unfolding createExtension_def rbind_Inr_iff
    by (elim exE conjE) (fastforce split: planned.split_asm prod.split_asm)
qed

lemma decide_roots:
  assumes "decideRenewal cf r i d n seen db = Inr (x, db')" and "no_roots db"
  shows "no_roots db'"
proof -
  have tx: "no_roots e" if t: "decisionTransaction k r i d n db = Inr (x', e)" for k x' e
    using t assms(2) unfolding decisionTransaction_def Let_def rbind_Inr_iff
    by (elim exE conjE)
      (auto simp: result_simps split: if_split_asm dest!: insert_extension_roots reserve_roots)
  show ?thesis using assms tx unfolding decideRenewal_def Let_def rbind_Inr_iff
    by (elim exE conjE) (auto split: option.split_asm sum.split_asm if_split_asm)
qed

lemma archive_links:
  assumes "finalizeArchivedContract i db = Inr (r, db')"
  shows "map change_link (db_changes db') = map change_link (db_changes db)"
proof -
  have ext: "map change_link (db_changes d) = map change_link (db_changes db)" if "finalizeExtension c i db = Inr (x, d)" for c x d
    using that
  proof (cases rule: finalize_extension_cases)
    case late
    then show ?thesis using archive_frame frame_parts by blast
  next
    case (scheduled xp db1 qt db2 db3 db4 segment)
    have "frame db4 = frame db2" using scheduled(7) update_change_frame [OF scheduled(8)]
      by (auto simp: enqueueActivation_def split: option.split_asm)
    then show ?thesis using archive_frame [OF scheduled(2)] scheduled(6,10)
      by (auto simp: write_segments_Inr frame_def)
  qed simp
  have other: "map change_link (db_changes d) = map change_link (db_changes db)" if "finalizeOther er b c i db = Inr (x, d)"
    for er b c x d
    using frame_parts [OF finalize_other_frame [OF that]] by simp
  show ?thesis
    using assms
    by (auto simp: finalizeArchivedContract_def finalizeVehicleSwap_def finalizeEarlyTermination_def
      finalizeManagedOther_def intro: ext other split: change_type.splits option.split_asm)
qed

lemma activate_links:
  assumes run: "activate g n i now db = Inr (r, db')"
  shows "map change_link (db_changes db') = map change_link (db_changes db)"
proof -
  have sw: "map change_link (db_changes d) = map change_link (db_changes db)" if "switchSegments now s c p db = Inr d" for s c p d
    using that by (auto simp: switchSegments_def Let_def write_segments_Inr map_update_many dest!: write_changes_rows)
  show ?thesis
    using run unfolding activate_def by (auto split: option.split_asm if_split_asm) (erule sw)+
qed

lemma expire_rows_changes:
  assumes "expireRows s t order ls db = Inr db'"
  shows "\<exists>(d :: sub_db) found. db_changes db' = db_changes (failExpiredChange found d) \<and> db_changes d = db_changes db
    \<and> (\<forall>c. found = Some c \<longrightarrow> c \<in> set (db_changes db) \<and> ch_sourceSegmentId c = Some (sg_id s))"
proof -
  let ?found = "latest_by ch_createdAt (\<lambda>c. ch_orderId c = so_id order \<and> ch_sourceSegmentId c = Some (sg_id s))"
  have f: "\<forall>c. ?found (db_changes d) = Some c \<longrightarrow> c \<in> set (db_changes d) \<and> ch_sourceSegmentId c = Some (sg_id s)" for d :: sub_db
    using latest_by_in by fastforce
  have "\<exists>d :: sub_db. db_changes db' = db_changes (failExpiredChange (?found (db_changes db)) d) \<and> db_changes d = db_changes db"
    using assms unfolding expireRows_def Let_def rbind_Inr_iff
    by (elim exE conjE)
      (clarsimp simp: write_segments_Inr split del: if_split, intro exI conjI, rule refl,
        auto simp: write_segments_Inr split: if_split_asm option.split)
  then show ?thesis using f [of db] by blast
qed

lemma expire_changes:
  assumes "expireSegment cl i now seen db = Inr (r, db')"
  shows "db_changes db' = db_changes db \<or> (\<exists>(d :: sub_db) found s. db_changes db' = db_changes (failExpiredChange found d)
    \<and> db_changes d = db_changes db
    \<and> (\<forall>c. found = Some c \<longrightarrow> c \<in> set (db_changes db) \<and> ch_sourceSegmentId c = Some s))"
proof -
  have ret: "db_changes (snd (ensureReturn e p q v dl d)) = db_changes d" for e p q v dl d
    by (simp add: ensureReturn_def split: option.split)
  have locks: "d = db \<or> (\<exists>s' order ls d' e p q v dl. expireRows s' now order ls db = Inr d'
        \<and> d = snd (ensureReturn e p q v dl d'))" if l: "expireWithLocks cl s now db = Inr (x, d)" for s x d
    using l unfolding expireWithLocks_def rbind_Inr_iff
    by (elim exE conjE) (force simp: Let_def split: option.split_asm if_split_asm prod.split_asm)
  have "db' = db \<or> (\<exists>s. expireWithLocks cl s now db = Inr (r, db'))"
    using assms by (auto simp: expireSegment_def split: option.split_asm if_split_asm)
  then have "db' = db \<or> (\<exists>s' order ls d'. expireRows s' now order ls db = Inr d' \<and> db_changes db' = db_changes d')"
    using locks ret by blast
  then show ?thesis
  proof (elim disjE exE conjE)
    fix s' order ls d' assume "expireRows s' now order ls db = Inr d'" and eq: "db_changes db' = db_changes d'"
    from expire_rows_changes [OF this(1)] show ?thesis unfolding eq by blast
  qed simp
qed

lemma fail_links: "map change_link (db_changes (failExpiredChange found d)) = map change_link (db_changes d)"
  using fail_expired_frame frame_parts by blast

lemma expire_links:
  "expireSegment cl i now seen db = Inr (r, db') \<Longrightarrow> map change_link (db_changes db') = map change_link (db_changes db)"
  using expire_changes fail_links by metis

lemma terminate_links:
  "applyEarlyTerminationCoreBoundary a db = Inr db' \<Longrightarrow> map change_link (db_changes db') = map change_link (db_changes db)"
  unfolding applyEarlyTerminationCoreBoundary_def Let_def
  by (auto simp: write_segments_Inr map_update_many)

lemma other_changes_roots:
  assumes "writeOtherChanges rows qs cs db = Inr db'" and "no_roots db"
  shows "no_roots db'"
proof -
  have "db_changes db' = rows" and eq: "extensions rows = extensions (db_changes db)"
    using assms(1) by (auto simp: writeOtherChanges_def dest!: write_changes_rows)
  moreover have "no_root (change_link c)" if "c \<in> set rows" for c
  proof (cases "ch_changeType c = EXTENSION")
    case True
    then have "c \<in> set (extensions rows)" using that by (simp add: extensions_def)
    then have "c \<in> set (extensions (db_changes db))" by (simp only: eq)
    then show ?thesis using assms(2) by (auto simp: extensions_def no_roots_def list_all_iff)
  qed (simp add: no_root_def change_link_def)
  ultimately show ?thesis by (simp add: no_roots_def list_all_iff)
qed

lemma sub_transaction_roots:
  assumes ok: "no_roots db" and run: "sub_transaction op db = Inr db'"
  shows "no_roots db'"
proof -
  note links = archive_links activate_links expire_links terminate_links
  note rows = ensure_base_changes swap_changes enroll_changes
  note quiet = links [THEN no_roots_links, OF _ ok] rows [THEN no_roots_changes, OF _ ok]
    quiet_frames [THEN no_roots_frame, OF _ ok] complete_frame [THEN no_roots_frame, OF ok]
    mark_frame [THEN no_roots_frame, OF ok] crossed_frame [THEN no_roots_frame, OF ok]
    foreign_frame [THEN no_roots_frame, OF ok]
  show ?thesis using run ok
    by (cases op) (auto dest!: state_of_Inr intro: create_roots decide_roots other_changes_roots quiet
      split: option.splits)
qed

interpretation rooted: guarded_ops sub_transaction no_roots
  by unfold_locales (rule sub_transaction_roots)

lemma run_roots: "no_roots (sub_run ops no_subscriptions)"
  unfolding sub_run_subs subs.run_def subs.commit_def [abs_def]
  using rooted.run_inv [of no_subscriptions ops]
  by (simp add: rooted.run_def rooted.commit_def [abs_def] no_roots_def no_subscriptions_def)

lemma extensions_map:
  "(\<And>c. c \<in> set rows \<Longrightarrow> ch_changeType (g c) = ch_changeType c \<and> (ch_changeType c = EXTENSION \<longrightarrow> g c = c)) \<Longrightarrow>
   extensions (map g rows) = extensions rows"
  unfolding extensions_def by (induction rows) auto


lemma demo_expired: "rbind (demo_expiry extended_db) (\<lambda>x. Inr (fst x)) = Inr (ExpiryEXPIRED ''r'')"
  "map ch_status (extensions (db_changes extended_db)) = [ChgDRAFT]"
  by code_simp+


end
