(* ===== verification/ExtensionTerms.thy ===== *)
theory ExtensionTerms
  imports ExtensionFacts
begin

text \<open>
  The fee an extension is quoted, and its dates beside the rent cycles of the order:
  the cycles are counted from the day of delivery, the dates of an extension from
  the end of the segment before it.
\<close>

section \<open>The fee\<close>

abbreviation fee :: "quote_preview \<Rightarrow> amount" where
  "fee p \<equiv> tm_monthlyFeeAmount (qp_terms p)"

lemma context_terms [simp]:
  "qp_terms (withPricingContext input p) = qp_terms p"
  "qp_baselineMonthlyFeeAmount (withPricingContext input p) = qp_baselineMonthlyFeeAmount p"
  by (simp_all add: withPricingContext_def Let_def)

lemma rate_floor: "a \<le> multiplyMoneyByRateFloor m r \<longleftrightarrow> a * 10 ^ snd r \<le> m * fst r"
proof -
  have n: "(0 :: int) < 10 ^ snd r" by simp
  have "m * fst r div 10 ^ snd r * 10 ^ snd r \<le> m * fst r"
    using n by (metis div_mult_mod_eq add.commute le_add_same_cancel2 pos_mod_sign add_le_cancel_left mult.commute)
  from order_trans [OF _ this]
  have "a * 10 ^ snd r \<le> m * fst r" if "a \<le> m * fst r div 10 ^ snd r"
    using mult_right_mono [OF that less_imp_le [OF n]] by blast
  moreover have "a \<le> m * fst r div 10 ^ snd r" if "a * 10 ^ snd r \<le> m * fst r"
    using zdiv_mono1 [OF that n] n by simp
  ultimately show ?thesis by (auto simp: multiplyMoneyByRateFloor_def)
qed

lemma vehicle_base_bounds:
  "calculateVehicleBase plan salePrice requested = Inr (base, cap) \<Longrightarrow>
   0 < base \<and> base * 10 ^ snd (sp_vehiclePackageRate plan) \<le> salePrice * fst (sp_vehiclePackageRate plan)"
  by (auto simp: calculateVehicleBase_def Let_def rate_floor [symmetric])

lemma current_version_fee:
  assumes "calculateCurrentVersion plans input = Inr p"
  shows "\<exists>plan \<in> set plans. \<exists>base sale. pi_subscriptionPlanId input = Some (sp_id plan)
    \<and> isCurrentPlanAvailable plan (pi_asOf input) \<and> pi_salePriceAmount input = Some sale \<and> 0 < base
    \<and> base * 10 ^ snd (sp_vehiclePackageRate plan) \<le> sale * fst (sp_vehiclePackageRate plan)
    \<and> fee p = base + pk_priceAmount (sp_mileagePackage plan) + pk_priceAmount (sp_energyPackage plan) + benefitPrice plan"
proof -
  obtain planId plan where p: "pi_subscriptionPlanId input = Some planId" "find_row sp_id planId plans = Some plan"
    using assms by (auto simp: calculateCurrentVersion_def split: option.split_asm)
  obtain sale base cap where "isCurrentPlanAvailable plan (pi_asOf input)" "pi_salePriceAmount input = Some sale"
      "calculateVehicleBase plan sale (pi_requestedVehicleBaseFeeAmount input) = Inr (base, cap)"
      "p = current_version_preview plan base cap sale"
    using assms p by (auto simp: calculateCurrentVersion_def split: option.split_asm)
  then show ?thesis
    using vehicle_base_bounds [of plan sale _ base cap] find_row_Some [OF p(2)] p(1)
    by (intro bexI [of _ plan]) (auto simp: current_version_preview_def Let_def)
qed

text \<open>
  C14 What an extension costs: at the original price the fee of the segment it extends;
  at the current version the packages of an available plan on top of a positive vehicle
  fee that is within the plan's rate of the vehicle's sale price; and an approved
  discount is positive, at most the current fee, and records that fee as its baseline.
\<close>

theorem extension_fee:
  assumes "calculate plans input = Inr p"
  shows "case pi_pricingMode input of
      ORIGINAL_PRICE \<Rightarrow> fee p = tm_monthlyFeeAmount (sg_terms (pi_sourceSegment input))
    | CURRENT_VERSION \<Rightarrow> \<exists>plan \<in> set plans. \<exists>base sale. pi_subscriptionPlanId input = Some (sp_id plan)
        \<and> isCurrentPlanAvailable plan (pi_asOf input) \<and> pi_salePriceAmount input = Some sale \<and> 0 < base
        \<and> base * 10 ^ snd (sp_vehiclePackageRate plan) \<le> sale * fst (sp_vehiclePackageRate plan)
        \<and> fee p = base + pk_priceAmount (sp_mileagePackage plan) + pk_priceAmount (sp_energyPackage plan)
            + benefitPrice plan
    | APPROVED_DISCOUNT \<Rightarrow> \<exists>q. calculate plans (input\<lparr>pi_pricingMode := CURRENT_VERSION\<rparr>) = Inr q
        \<and> pi_discountedMonthlyFeeAmount input = Some (fee p) \<and> 0 < fee p \<and> fee p \<le> fee q
        \<and> qp_baselineMonthlyFeeAmount p = Some (fee q)"
proof (cases "pi_pricingMode input")
  case CURRENT_VERSION
  then obtain b where "calculateCurrentVersion plans input = Inr b" "p = withPricingContext input b"
    using assms by (auto simp: calculate_def)
  then show ?thesis using current_version_fee CURRENT_VERSION by simp
next
  case ORIGINAL_PRICE
  then show ?thesis using assms by (auto simp: calculate_def originalPrice_def Let_def)
next
  case APPROVED_DISCOUNT
  then obtain b d where b: "calculateCurrentVersion plans input = Inr b" and d: "pi_discountedMonthlyFeeAmount input = Some d"
    "0 < d" "d \<le> fee b" "p = withPricingContext input (approvedDiscount b d)"
    using assms by (auto simp: calculate_def split: option.split_asm)
  have same: "calculateCurrentVersion plans (input\<lparr>pi_pricingMode := CURRENT_VERSION\<rparr>) = calculateCurrentVersion plans input"
    by (simp add: calculateCurrentVersion_def cong: option.case_cong)
  then show ?thesis using APPROVED_DISCOUNT b d
    by (auto simp: calculate_def approvedDiscount_def Let_def)
qed

definition demo_package :: "amount \<Rightarrow> pricing_package" where
  "demo_package price = \<lparr> pk_productId = ''p'', pk_productVersionId = ''pv'', pk_deletedAt = None, pk_active = True,
     pk_priceAmount = price, pk_columns = [] \<rparr>"

definition demo_plan :: subscription_plan where
  "demo_plan = \<lparr> sp_id = ''sp'', sp_deletedAt = None, sp_active = True, sp_effectiveFrom = 0, sp_effectiveTo = None,
     sp_minPeriodMonths = 1, sp_maxPeriodMonths = 12, sp_monthlyFeeMode = RATE_FORMULA,
     sp_baseMonthlyFeeAmount = None, sp_monthlyFeeRate = Some (2, 1), sp_productId = ''p'',
     sp_productVersionId = ''pv'', sp_productDeletedAt = None, sp_productStatus = ProdACTIVE,
     sp_productType = SUBSCRIPTION, sp_versionDeletedAt = None, sp_versionStatus = VerACTIVE,
     sp_versionEffectiveFrom = 0, sp_versionEffectiveTo = None, sp_vehiclePackage = demo_package 0,
     sp_vehiclePackageRate = (25, 2), sp_modelMembers = [''m''], sp_mileagePackage = demo_package 1,
     sp_monthlyMileageKm = 1500, sp_overMileageFeeAmount = 1, sp_energyPackage = demo_package 2,
     sp_monthlyEnergyKwh = None, sp_monthlyEnergyCount = None, sp_benefitPackage = None,
     sp_planName = [], sp_planNo = [] \<rparr>"

definition demo_pricing :: pricing_input where
  "demo_pricing = \<lparr> pi_asOf = 0, pi_discountedMonthlyFeeAmount = Some 4, pi_extensionMonths = Some 1,
     pi_pricingMode = APPROVED_DISCOUNT, pi_requestedVehicleBaseFeeAmount = None,
     pi_sourceSegment = demo_segment, pi_subscriptionPlanId = Some ''sp'', pi_salePriceAmount = Some 9,
     pi_modelDefinitionId = ''m'' \<rparr>"

lemma demo_priced: "is_ok (calculate [demo_plan] demo_pricing)"
  by code_simp

theorem extension_fee_witness:
  "\<exists>p q. calculate [demo_plan] demo_pricing = Inr p
    \<and> calculate [demo_plan] (demo_pricing\<lparr>pi_pricingMode := CURRENT_VERSION\<rparr>) = Inr q \<and> fee p = 4 \<and> 4 \<le> fee q"
proof -
  obtain p where p: "calculate [demo_plan] demo_pricing = Inr p" using demo_priced by (auto simp: is_ok_iff)
  show ?thesis using extension_fee [OF p] p by (auto simp: demo_pricing_def)
qed

section \<open>The dates\<close>

lemma addCalendarMonths_day:
  assumes d: "modern_day d" and n: "0 \<le> n" "n \<le> 150000"
  shows "addCalendarMonths (Some (d * ms_per_day)) n = Some (cycle_day d n * ms_per_day)"
proof -
  define k where "k = month_index d + n"
  have k: "k = 12 * year_of_day d + (month_of_day d + n)" using month_target(8) [OF d n] by (simp add: k_def)
  have k12: "year_of_day d + (month_of_day d + n) div 12 = k div 12" "(month_of_day d + n) mod 12 = k mod 12"
    unfolding k by simp_all
  show ?thesis
    using month_target [OF d n] clamped_utc_date [of k "date_of_day d"] date_of_day_bounds [of d]
    by (simp add: addCalendarMonths_def Let_def utc_of_day k12 k_def [symmetric] cycle_day_def)
qed

lemma addUtcDays_day:
  assumes "0 \<le> d" and "d + k \<le> 100000000" and "- 100000000 \<le> d + k"
  shows "addUtcDays (Some (d * ms_per_day)) k = Some ((d + k) * ms_per_day)"
proof -
  have "99 < utc_year (d * ms_per_day)"
    using year_of_day_ge [of 100 d] assms(1) by (simp add: utc_of_day day_from_year_def)
  then show ?thesis using addUtcDays_shift [of "d * ms_per_day" k] assms by (simp add: time_clip_def abs_le_iff)
qed

lemma cycle_mono: "0 \<le> m \<Longrightarrow> m \<le> n \<Longrightarrow> cycle_day d m \<le> cycle_day d n"
  using billing_days.start_le [of "nat m" "nat n" d] by simp

lemma cycle_mono_strict: "0 \<le> m \<Longrightarrow> m < n \<Longrightarrow> cycle_day d m < cycle_day d n"
  using billing_days.start_less [of "nat m" "nat n" d] by simp

lemma plan_after_day:
  assumes e: "sg_endDate s = (d - 1) * ms_per_day" and d: "modern_day d" "0 < d" and k: "0 < k" "k \<le> 120000"
  shows "pl_targetStartDate (plan_after s k) = Some (d * ms_per_day)"
    and "pl_targetEndDate (plan_after s k) = Some ((cycle_day d k - 1) * ms_per_day)"
proof -
  show start: "pl_targetStartDate (plan_after s k) = Some (d * ms_per_day)"
    using addUtcDays_day [of "d - 1" 1] d by (simp add: plan_after_def Let_def e modern_day_def)
  have "d \<le> cycle_day d k" using cycle_mono [of 0 k d] k by (simp add: cycle_day_0)
  then have "addUtcDays (Some (cycle_day d k * ms_per_day)) (- 1) = Some ((cycle_day d k - 1) * ms_per_day)"
    using addUtcDays_day [of "cycle_day d k" "- 1"] d(2) cycle_day_range(2) [OF d(1), of k] k by simp
  then show "pl_targetEndDate (plan_after s k) = Some ((cycle_day d k - 1) * ms_per_day)"
    using start addCalendarMonths_day [OF d(1), of k] k by (simp add: plan_after_def Let_def)
qed

text \<open>Months counted from a day and months counted from a later cycle of it.\<close>

lemma recounted_cycle:
  fixes d m k :: int
  shows "cycle_day (cycle_day d m) k \<le> cycle_day d (m + k)"
    and "cycle_day d (m + k) \<le> cycle_day (cycle_day d m) k + 3"
    and "date_of_day d \<le> 28 \<Longrightarrow> cycle_day (cycle_day d m) k = cycle_day d (m + k)"
  using month_len_bounds [of "month_index d + m"] month_len_bounds [of "month_index d + m + k"] date_of_day_bounds [of d]
  by (auto simp: cycle_day_def [of "cycle_day d m"] month_index_cycle_day date_of_cycle_day
    cycle_day_def [of d "m + k"] clamped_day_def add.assoc min_def)

text \<open>
  C13 An extension by k months after a base period of m months and the rent cycle of its
  last month: the cycle is billed by the extension exactly if it ends with the extension,
  which it does for every delivery up to the 28th of a month; otherwise (days 29 to 31)
  the extension may end up to three days before the cycle, and the cycle is not billed
  at all: billing stops with an error that names the extension's segment.
\<close>

theorem extension_last_cycle:
  assumes "timeline_ok db" and "t \<in> set (db_segments db)"
    and "modern delivery" and "0 < m" and "0 < k" and "m + k \<le> 120000"
    and "deriveOriginalSubscriptionPeriod (Some delivery) m = Inr p" and "pp_endDate p = Some (sg_endDate s)"
    and "modern (sg_endDate s + 86400000)"
    and "pl_targetStartDate (plan_after s k) = Some (sg_startDate t)"
    and "pl_targetEndDate (plan_after s k) = Some (sg_endDate t)"
    and "buildBillingCycleForDelivery (Some delivery) (m + k - 1) = Inr c"
  shows "\<exists>last. bc_periodEnd c = Some last \<and> sg_endDate t \<le> last \<and> last \<le> sg_endDate t + 3 * 86400000
    \<and> (date_of_day (shanghai_day delivery) \<le> 28 \<longrightarrow> last = sg_endDate t)
    \<and> resolveSegmentForPeriod (sg_orderId t) (bc_periodStart c) (Some (bc_periodEnd c)) db =
      (if last = sg_endDate t then Inr (terms_of_segment t)
       else Inl (ContractSegmentError ''BILLING_PERIOD_CROSSES_SEGMENT'' (Some (sg_id t))
         (case next_segment t db of None \<Rightarrow> None
          | Some u \<Rightarrow> if sg_startDate u \<le> last then sg_sourceChangeOrderId u else None)))"
proof -
  define d where "d = shanghai_day delivery"
  define e where "e = cycle_day d m"
  have d: "modern_day d" using modern_shanghai_day [OF assms(3)] by (simp add: d_def)
  have send: "sg_endDate s = (e - 1) * ms_per_day"
    using deriveOriginal_day [OF assms(3,4)] assms(4-8) by (auto simp: e_def d_def)
  have "shanghai_day (sg_endDate s + 86400000) = e" by (simp add: send shanghai_day_def algebra_simps)
  then have e: "modern_day e" using modern_shanghai_day [OF assms(9)] by simp
  have "d < e" using cycle_mono_strict [of 0 m d] assms(4) by (simp add: e_def cycle_day_0)
  then have "0 < e" using d by (simp add: modern_day_def)
  note plan = plan_after_day [OF send e this assms(5)]
  have t: "sg_startDate t = e * ms_per_day" "sg_endDate t = (cycle_day e k - 1) * ms_per_day"
    using plan assms(6,10,11) assms(4) by auto
  have c: "c = cycle_of_day d (m + k - 1)"
    using buildForDelivery_day [OF assms(3), of "m + k - 1"] assms(4,5,6,12) by (simp add: d_def)
  define last where "last = (cycle_day d (m + k) - 1) * ms_per_day"
  have ends: "bc_periodEnd c = Some last" "bc_periodStart c = Some (cycle_day d (m + k - 1) * ms_per_day)"
    by (simp_all add: c cycle_of_day_def last_def)
  have late: "sg_endDate t \<le> last" "last \<le> sg_endDate t + 3 * 86400000"
    using recounted_cycle(1,2) [of d m k] by (simp_all add: last_def t e_def)
  have same: "date_of_day d \<le> 28 \<longrightarrow> last = sg_endDate t"
    using recounted_cycle(3) [of d m k] by (simp add: last_def t e_def)
  have begins: "sg_startDate t \<le> cycle_day d (m + k - 1) * ms_per_day"
    using cycle_mono [of m "m + k - 1" d] assms(4,5) by (simp add: t e_def)
  have "cycle_day d (m + (k - 1)) \<le> cycle_day e (k - 1) + 3" unfolding e_def by (rule recounted_cycle(2))
  then have "cycle_day d (m + k - 1) < cycle_day e k"
    using cycle_day_step(1) [of e "k - 1"] by (simp add: algebra_simps)
  then have inside: "cycle_day d (m + k - 1) * ms_per_day \<le> sg_endDate t" by (simp add: t)
  show ?thesis
    using ends late same period_segment [OF assms(1,2) begins inside, of last] inside
    by (auto simp: d_def)
qed

text \<open>A delivery on 31 January 2024 for one month, extended by one.\<close>

definition leap_base :: contract_segment where
  "leap_base = demo_segment\<lparr>sg_startDate := 19753 * 86400000, sg_endDate := 19781 * 86400000\<rparr>"

definition leap_extension :: contract_segment where
  "leap_extension = demo_segment\<lparr>sg_id := ''s'', sg_segmentType := SegEXTENSION, sg_sequenceNo := 2,
     sg_status := SegSCHEDULED, sg_startDate := 19782 * 86400000, sg_endDate := 19810 * 86400000,
     sg_sourceChangeOrderId := Some ''x''\<rparr>"

definition leap_db :: sub_db where
  "leap_db = no_subscriptions\<lparr>db_segments := [leap_base, leap_extension],
     db_changes := [new_extension ''x'' 0 ''o'' None 1 CURRENT_VERSION None ''b'' (19782 * 86400000) (19810 * 86400000) 0]\<rparr>"

lemma leap_db_ok: "timeline_ok leap_db"
  by (simp add: timeline_ok_def chain_ok_def segment_keys_unique_def segment_dates_valid_def links_ok_def
    leap_db_def no_subscriptions_def leap_base_def leap_extension_def demo_segment_def base_segment_def demo_order_def
    demo_contract_def new_extension_def change_link_def has_segment_def comes_from_def
    link_source_def seg_follows_def seg_before_def List.map_filter_def)

lemma leap_period:
  "deriveOriginalSubscriptionPeriod (Some 1706659200000) 1 = Inr \<lparr> pp_startDate = Some (19753 * 86400000),
     pp_endDate = Some (19781 * 86400000) \<rparr>"
  using deriveOriginal_day [OF cycle_example(4), of 1] by (simp add: cycle_example)

lemma leap_extension_days: "cycle_day 19782 1 = 19811"
  by code_simp

lemma leap_plan:
  "pl_targetStartDate (plan_after leap_base 1) = Some (19782 * 86400000)"
  "pl_targetEndDate (plan_after leap_base 1) = Some (19810 * 86400000)"
  using plan_after_day [of leap_base 19782 1]
  by (simp_all add: leap_base_def modern_day_def leap_extension_days)

lemma leap_cycle: "\<exists>c. buildBillingCycleForDelivery (Some 1706659200000) 1 = Inr c \<and> bc_periodEnd c = Some (19812 * 86400000)"
  using cycle_example_build(1) by (simp add: cycle_of_day_def cycle_example)

theorem extension_last_cycle_witness:
  "\<exists>c. buildBillingCycleForDelivery (Some 1706659200000) 1 = Inr c
    \<and> resolveSegmentForPeriod ''o'' (bc_periodStart c) (Some (bc_periodEnd c)) leap_db =
      Inl (ContractSegmentError ''BILLING_PERIOD_CROSSES_SEGMENT'' (Some ''s'') None)"
proof -
  obtain c where c: "buildBillingCycleForDelivery (Some 1706659200000) 1 = Inr c" "bc_periodEnd c = Some (19812 * 86400000)"
    using leap_cycle by blast
  have t: "leap_extension \<in> set (db_segments leap_db)" by (simp add: leap_db_def)
  have f: "sg_endDate leap_base = 19781 * 86400000" "sg_startDate leap_extension = 19782 * 86400000"
    "sg_endDate leap_extension = 19810 * 86400000" "sg_orderId leap_extension = ''o''" "sg_id leap_extension = ''s''"
    by (simp_all add: leap_base_def leap_extension_def demo_segment_def base_segment_def demo_order_def)
  have n: "next_segment leap_extension leap_db = None"
    by (simp add: next_segment_def timeline_def leap_db_def leap_base_def leap_extension_def demo_segment_def base_segment_def
      demo_order_def)
  then show ?thesis
    using extension_last_cycle [OF leap_db_ok t cycle_example(4) _ _ _ leap_period, of 1 leap_base c] leap_plan c n
    by (simp add: f modern_def)
qed

end
