(* ===== verification/PriceApproval.thy ===== *)
theory PriceApproval
  imports ExtensionFacts
begin

text \<open>
  Two persons for a price: what a published extension charges, when it departs from
  the current version, was approved by somebody who did not make the quote.  The
  price columns of an order and the authors of the quotes are a view of the state
  that most operations leave as it is.
\<close>

section \<open>The price of an extension\<close>

record price_view =
  pw_type :: change_type
  pw_quote :: "id option"
  pw_confirmed :: "id option"
  pw_published :: bool
  pw_price :: "(pricing_mode \<times> id option) option"

definition price_view :: "change_order \<Rightarrow> price_view" where
  "price_view c = \<lparr> pw_type = ch_changeType c, pw_quote = ch_currentQuoteId c,
     pw_confirmed = ch_confirmedQuoteId c, pw_published = (ch_publishedAt c \<noteq> None),
     pw_price = map_option (\<lambda>d. (xd_pricingMode d, po_approvedBy (xd_priceOverride d))) (ch_extensionDetail c) \<rparr>"

definition author :: "change_quote \<Rightarrow> id \<times> id option" where
  "author q = (cq_id q, cq_createdBy q)"

definition prices :: "sub_db \<Rightarrow> price_view list \<times> (id \<times> id option) list" where
  "prices db = (map price_view (db_changes db), map author (db_quotes db))"

definition four_eyes :: "(id \<times> id option) list \<Rightarrow> price_view \<Rightarrow> bool" where
  "four_eyes authors v = (pw_type v = EXTENSION \<longrightarrow>
     (case pw_price v of None \<Rightarrow> False
      | Some (mode, approver) \<Rightarrow>
        (pw_confirmed v \<noteq> None \<longrightarrow> pw_confirmed v = pw_quote v \<and> pw_published v)
        \<and> (pw_published v \<and> mode \<noteq> CURRENT_VERSION \<longrightarrow> approver \<noteq> None)
        \<and> (approver \<noteq> None \<longrightarrow> (\<exists>q w. pw_quote v = Some q \<and> map_of authors q = Some w \<and> w \<noteq> approver))))"

definition prices_ok :: "sub_db \<Rightarrow> bool" where
  "prices_ok db = list_all (four_eyes (snd (prices db))) (fst (prices db))"

lemma prices_okI: "prices db' = prices db \<Longrightarrow> prices_ok db \<Longrightarrow> prices_ok db'"
  by (simp add: prices_ok_def)

section \<open>Operations that leave prices alone\<close>

lemma price_view_simps [simp]:
  "price_view (c\<lparr>ch_status := st\<rparr>) = price_view c"
  "price_view (c\<lparr>ch_version := v\<rparr>) = price_view c"
  "price_view (c\<lparr>ch_failureCode := fc\<rparr>) = price_view c"
  "price_view (c\<lparr>ch_contractId := ct\<rparr>) = price_view c"
  "price_view (c\<lparr>ch_cancelReason := cr\<rparr>) = price_view c"
  "price_view (c\<lparr>ch_publishedBy := pb\<rparr>) = price_view c"
  "price_view (c\<lparr>ch_manualTakeoverAt := ma\<rparr>) = price_view c"
  "price_view (c\<lparr>ch_manualTakeoverReason := mr\<rparr>) = price_view c"
  by (simp_all add: price_view_def)

lemma author_simps [simp]:
  "author (q\<lparr>cq_status := st\<rparr>) = author q" "author (q\<lparr>cq_confirmedAt := t\<rparr>) = author q"
  "author (q\<lparr>cq_rejectedAt := t\<rparr>) = author q"
  by (simp_all add: author_def)

lemma prices_simps [simp]:
  "prices (db\<lparr>db_segments := x0\<rparr>) = prices db"
  "prices (db\<lparr>db_orders := x1\<rparr>) = prices db" "prices (db\<lparr>db_contracts := x2\<rparr>) = prices db"
  "prices (db\<lparr>db_commands := x4\<rparr>) = prices db" "prices (db\<lparr>db_considerations := x3\<rparr>) = prices db"
  "prices (db\<lparr>db_reminders := x5\<rparr>) = prices db" "prices (db\<lparr>db_jobs := x6\<rparr>) = prices db"
  "prices (db\<lparr>db_vehicles := x7\<rparr>) = prices db" "prices (db\<lparr>db_plans := x8\<rparr>) = prices db"
  "prices (db\<lparr>db_tasks := x9\<rparr>) = prices db" "prices (db\<lparr>db_leases := x10\<rparr>) = prices db"
  "prices (db\<lparr>db_returns := x11\<rparr>) = prices db"
  by (simp_all add: prices_def)

lemma prices_helpers [simp]:
  "prices (completeCommand i t r n db) = prices db"
  "prices (set_resource i t r n db) = prices db"
  "prices (enqueueLinked y1 y2 y3 y4 y5 y6 y7 db) = prices db"
  "prices (cancelMarketingReminders z1 z2 db) = prices db"
  "prices (cancelRenewalJobs z3 z4 db) = prices db"
  "prices (update_considerations P g db) = prices db"
  "prices (settleConsideration z5 z6 db) = prices db"
  "prices (set_reminder_status z7 z8 db) = prices db"
  by (simp_all add: completeCommand_def set_resource_def enqueueLinked_def cancelMarketingReminders_def
    cancelRenewalJobs_def update_considerations_def settleConsideration_def set_reminder_status_def
    split: option.split)

lemma prices_quotes: "(\<And>q. author (f q) = author q) \<Longrightarrow> prices (update_quote i f db) = prices db"
  by (simp add: update_quote_def prices_def map_upd_row)

lemma prices_changes:
  "(\<And>c. price_view (f c) = price_view c) \<Longrightarrow> prices (db\<lparr>db_changes := snd (update_many P f (db_changes db))\<rparr>) = prices db"
  by (simp add: prices_def map_update_many)

lemma reserve_prices: "reserveCommand i a op k h n db = Inr db' \<Longrightarrow> prices db' = prices db"
  by (auto simp: reserveCommand_def split: if_splits)

lemma write_changes_prices:
  "write_changes rows db = Inr db' \<Longrightarrow> map price_view rows = map price_view (db_changes db) \<Longrightarrow> prices db' = prices db"
  by (auto simp: write_changes_def prices_def split: if_splits)

lemma update_change_prices:
  "update_change i f db = Inr db' \<Longrightarrow> (\<And>c. price_view (f c) = price_view c) \<Longrightarrow> prices db' = prices db"
  unfolding update_change_def by (erule write_changes_prices) (simp add: map_upd_row)

lemma update_contract_prices: "update_contract i f db = Inr db' \<Longrightarrow> prices db' = prices db"
  by (auto simp: update_contract_def split: if_splits)

lemma write_segments_prices: "write_segments rows db = Inr db' \<Longrightarrow> prices db' = prices db"
  by (auto simp: write_segments_Inr)

lemma run_command_prices:
  assumes "runChangeCommand op c i ex seen db = Inr (ch, db')"
    and "\<And>x y d d'. ex x y d = Inr d' \<Longrightarrow> prices d' = prices d"
  shows "prices db' = prices db"
  using assms(1)
proof (cases rule: run_command_cases)
  case (2 k)
  then show ?thesis
    using assms(2) by (auto simp: changeTransaction_def split: option.splits dest!: reserve_prices)
qed simp

lemma cancel_prices: "cancelChange cf c i seen db = Inr (ch, db') \<Longrightarrow> prices db' = prices db"
  unfolding cancelChange_def
  by (auto elim!: run_command_prices update_change_prices split: option.splits)

lemma takeover_prices: "manualTakeover c i seen db = Inr (ch, db') \<Longrightarrow> prices db' = prices db"
  unfolding manualTakeover_def
  by (auto elim!: run_command_prices update_change_prices split: option.splits)

lemma retry_prices: "retryAutomationJob c j i seen db = Inr (ch, db') \<Longrightarrow> prices db' = prices db"
proof -
  have tx: "retryTransaction op k c j i db = Inr (ch, db') \<Longrightarrow> prices db' = prices db" for op k
    by (auto simp: retryTransaction_def Let_def result_simps dest!: reserve_prices update_change_prices)
  assume "retryAutomationJob c j i seen db = Inr (ch, db')"
  then show ?thesis
    by (auto simp: retryAutomationJob_def Let_def split: option.splits dest!: transacted_cases tx)
qed

lemma reject_prices: "rejectQuote cf c i n v seen db = Inr (ch, db') \<Longrightarrow> prices db' = prices db"
  unfolding rejectQuote_def
  by (auto elim!: portal_command_cases dest!: reserve_prices update_change_prices
    simp: prices_quotes split: option.splits)

lemma reserve_generation_prices: "reserveGeneration cf c i gx n db = Inr (g, db') \<Longrightarrow> prices db' = prices db"
proof -
  have fresh: "freshGeneration k c i gx n db = Inr (g, db') \<Longrightarrow> prices db' = prices db" for k
    by (auto simp: freshGeneration_def Let_def split: option.splits if_splits
      dest!: reserve_prices update_change_prices)
  have recover: "recoverGeneration cm r c t gx db = Inr (g, db') \<Longrightarrow> prices db' = prices db" for cm r t
    by (auto simp: recoverGeneration_def split: option.splits)
  assume "reserveGeneration cf c i gx n db = Inr (g, db')"
  then show ?thesis
    unfolding reserveGeneration_def rbind_Inr_iff ensure_Inr_iff
    by (elim exE conjE) (auto split: option.split_asm resource_type.split_asm prod.split_asm dest!: fresh recover)
qed

lemma finalize_generation_prices: "finalizeGeneration k t c a i v db = Inr (ct, db') \<Longrightarrow> prices db' = prices db"
  by (auto simp: finalizeGeneration_def split: option.splits resource_type.splits
    dest!: update_contract_prices update_change_prices)

lemma abort_prices: "abortGenerationReservation k c t db = Inr db' \<Longrightarrow> prices db' = prices db"
proof -
  have unlink: "write_changes (snd (update_many P (\<lambda>c. c\<lparr>ch_contractId := None\<rparr>) (db_changes d))) d = Inr d'
      \<Longrightarrow> prices d' = prices d" for P d d'
    by (erule write_changes_prices) (simp add: map_update_many)
  assume "abortGenerationReservation k c t db = Inr db'"
  then show ?thesis
    by (auto simp: abortGenerationReservation_def split: option.splits if_splits
      dest!: update_contract_prices unlink)
qed

lemma archive_prices: "finalizeArchivedContract i db = Inr (r, db') \<Longrightarrow> prices db' = prices db"
proof -
  have evidence: "archiveContractEvidence t c a d = Inr d' \<Longrightarrow> prices d' = prices d" for t c a d d'
    unfolding archiveContractEvidence_def by (rule update_contract_prices)
  have job: "enqueueActivation n t c s d = Inr d' \<Longrightarrow> prices d' = prices d" for n t c s d d'
    by (auto simp: enqueueActivation_def split: option.split_asm)
  have ext: "prices d = prices db" if "finalizeExtension c i db = Inr (x, d)" for c x d
    using that
    by (cases rule: finalize_extension_cases)
      (auto dest!: evidence job write_segments_prices update_change_prices)
  have other: "prices d = prices db" if "finalizeOther er b c i db = Inr (x, d)" for er b c x d
    using that by (auto simp: finalizeOther_def split: if_splits dest!: evidence update_change_prices)
  assume "finalizeArchivedContract i db = Inr (r, db')"
  then show ?thesis
    by (auto simp: finalizeArchivedContract_def finalizeVehicleSwap_def finalizeEarlyTermination_def
      finalizeManagedOther_def intro: ext other split: change_type.splits option.split_asm)
qed

lemma activate_prices: "activate g n i now db = Inr (r, db') \<Longrightarrow> prices db' = prices db"
proof -
  have jobs: "prices (enqueueContinuations m t c s js d) = prices d" for m t c s js d
    by (induction m t c s js d rule: enqueueContinuations.induct) simp_all
  have sw: "prices d = prices db" if "switchSegments now s c p db = Inr d" for s c p d
    using that by (auto simp: switchSegments_def Let_def map_update_many
      dest!: write_segments_prices write_changes_prices) (simp add: prices_def)?
  assume "activate g n i now db = Inr (r, db')"
  then show ?thesis
    unfolding activate_def
    by (auto simp: enqueueContinuationJobs_def jobs split: option.split_asm if_split_asm) (erule sw)+
qed

lemma worker_prices:
  "prices (snd (completeIfReady c db)) = prices db"
  "prices (snd (markManualTakeover t j f db)) = prices db"
  "prices (takeOverCrossedChange c t db) = prices db"
  "prices (writeForeign w db) = prices db"
  "prices (failExpiredChange found db) = prices db"
  by (simp_all add: completeIfReady_def markManualTakeover_def takeOverCrossedChange_def writeForeign_def
    failExpiredChange_def Let_def prices_changes split: option.split)

lemma expire_prices: "expireSegment cl i now seen db = Inr (r, db') \<Longrightarrow> prices db' = prices db"
proof -
  have rows: "prices d' = prices d" if "expireRows s t order ls d = Inr d'" for s t order ls d d'
    using that unfolding expireRows_def Let_def
    by (auto simp: worker_prices split: if_splits option.split_asm dest!: write_segments_prices)
  have ret: "prices (snd (ensureReturn e p q v dl d)) = prices d" for e p q v dl d
    by (simp add: ensureReturn_def split: option.split)
  have locks: "prices d = prices db" if "expireWithLocks cl s now db = Inr (x, d)" for s x d
  proof -
    have "d = db \<or> (\<exists>s' order ls d' e p q v dl. expireRows s' now order ls db = Inr d'
        \<and> d = snd (ensureReturn e p q v dl d'))"
      using that unfolding expireWithLocks_def rbind_Inr_iff
      by (elim exE conjE) (force simp: Let_def split: option.split_asm if_split_asm prod.split_asm)
    then show ?thesis using rows ret by auto
  qed
  assume "expireSegment cl i now seen db = Inr (r, db')"
  then show ?thesis using locks by (auto simp: expireSegment_def split: option.split_asm if_split_asm)
qed

lemma terminate_prices: "applyEarlyTerminationCoreBoundary a db = Inr db' \<Longrightarrow> prices db' = prices db"
  unfolding applyEarlyTerminationCoreBoundary_def Let_def
  by (auto simp: write_segments_Inr prices_def update_considerations_def map_update_many)

lemma swap_prices: "switchSwapSegment i n now db = Inr (Some db') \<Longrightarrow> prices db' = prices db"
  by (erule swap_cases) (auto dest!: write_segments_prices)

lemma base_prices: "ensureBaseSegmentInTransaction n q a db = Inr (s, db') \<Longrightarrow> prices db' = prices db"
  by (auto simp: ensureBaseSegmentInTransaction_def Let_def split: option.split_asm dest!: write_segments_prices)

lemma enroll_prices: "enrollSegment cf i t n db = Inr (b, db') \<Longrightarrow> prices db' = prices db"
proof -
  have rem: "prices (enrollReminder m t s c r x d) = prices d" for m t s c r x d
    by (simp add: enrollReminder_def enqueueReminder_def upsertReminder_def Let_def split: prod.split option.split)
  have fold: "prices (fold (enrollReminder m t s c r) xs d) = prices d" for m t s c r xs d
    by (induction xs arbitrary: d) (simp_all add: rem)
  have "prices (enrollRows s dl st ds t n db) = prices db" for s dl st ds
    by (auto simp: enrollRows_def Let_def fold split: option.split)
  then show "enrollSegment cf i t n db = Inr (b, db') \<Longrightarrow> prices db' = prices db"
    by (auto simp: enrollSegment_def Let_def split: option.split_asm if_split_asm)
qed

lemma reminder_prices:
  "dispatchReminder s r l t db = Inr (x, db') \<Longrightarrow> prices db' = prices db"
  "retryReminder s a r l t seen db = Inr (x, db') \<Longrightarrow> prices db' = prices db"
  by (auto simp: retryReminder_def dispatchReminder_def Let_def split: option.splits if_splits)

lemma reconcile_prices: "reconcile a r t n db = Inr db' \<Longrightarrow> prices db' = prices db"
proof -
  have "prices (reconcileReminders m t q s rs d) = prices d" for m q s rs d
    by (induction m t q s rs d rule: reconcileReminders.induct) (simp_all add: enqueueReminder_def)
  then show "reconcile a r t n db = Inr db' \<Longrightarrow> prices db' = prices db"
    by (auto simp: reconcile_def split: option.split_asm)
qed

lemmas quiet_prices = cancel_prices takeover_prices retry_prices reject_prices reserve_generation_prices
  finalize_generation_prices abort_prices archive_prices activate_prices expire_prices
  terminate_prices swap_prices base_prices enroll_prices reminder_prices reconcile_prices

section \<open>Operations that price\<close>

lemma author_of:
  "findQuote i (db :: sub_db) = Some qt \<Longrightarrow> i = Some (cq_id qt) \<and> map_of (map author (db_quotes db)) (cq_id qt) = Some (cq_createdBy qt)"
proof -
  have row: "find_row cq_id k rows = Some qt \<Longrightarrow> k = cq_id qt \<and> map_of (map author rows) (cq_id qt) = Some (cq_createdBy qt)"
    for k rows by (induction rows) (auto simp: find_row_def author_def split: if_splits)
  assume "findQuote i db = Some qt"
  then show ?thesis using row by (auto simp: findQuote_def split: option.splits)
qed

lemma four_eyes_mono:
  "four_eyes A v \<Longrightarrow> (\<And>q w. map_of A q = Some w \<Longrightarrow> map_of B q = Some w) \<Longrightarrow> four_eyes B v"
  by (fastforce simp: four_eyes_def split: option.splits)

lemma update_prices_ok:
  assumes ok: "prices_ok db" and ids: "distinct (map ch_id (db_changes db))"
    and upd: "update_change i f d = Inr db'" and d: "db_changes d = db_changes db"
    and c: "findChange i db = Some c"
    and authors: "\<And>q w. map_of (map author (db_quotes db)) q = Some w \<Longrightarrow> map_of (map author (db_quotes d)) q = Some w"
    and new: "four_eyes (map author (db_quotes db)) (price_view c) \<Longrightarrow> four_eyes (map author (db_quotes d)) (price_view (f c))"
  shows "prices_ok db'"
proof -
  have db': "db' = d\<lparr>db_changes := upd_row ch_id i f (db_changes db)\<rparr>"
    using upd d by (auto simp: update_change_def write_changes_def split: if_splits)
  have ci: "c \<in> set (db_changes db)" "ch_id c = i" using findChange_in [OF c] by simp_all
  have old: "four_eyes (map author (db_quotes db)) (price_view e)" if "e \<in> set (db_changes db)" for e
    using ok that by (auto simp: prices_ok_def prices_def list_all_iff)
  have "four_eyes (map author (db_quotes d)) (price_view (if ch_id e = i then f e else e))" if e: "e \<in> set (db_changes db)" for e
  proof (cases "ch_id e = i")
    case True
    then have "e = c" using ids ci e by (auto simp: distinct_map dest: inj_onD)
    then show ?thesis using new [OF old [OF ci(1)]] True by simp
  qed (use four_eyes_mono [OF old [OF e] authors] in simp)
  then show ?thesis unfolding db' by (auto simp: prices_ok_def prices_def list_all_iff upd_row_def)
qed

lemma insert_extension_prices:
  "insertExtension n now q r m md rs pl db = Inr db' \<Longrightarrow> prices_ok db' = prices_ok db"
  by (auto simp: insertExtension_def write_changes_def prices_ok_def prices_def four_eyes_def price_view_def
    new_extension_def no_override_def split: option.split_asm if_split_asm)

lemma reserve_prices_ok: "reserveCommand i a op k h n db = Inr db' \<Longrightarrow> prices_ok db' = prices_ok db"
  by (simp add: prices_ok_def reserve_prices)

lemma prices_ok_simps [simp]:
  "prices_ok (completeCommand y ty r n db) = prices_ok db"
  "prices_ok (cancelMarketingReminders z1 z2 db) = prices_ok db"
  "prices_ok (update_considerations P g db) = prices_ok db"
  by (simp_all add: prices_ok_def)

lemma create_prices:
  assumes "createExtension cf i x g n seen db = Inr (c, db')" and "prices_ok db"
  shows "prices_ok db'"
proof -
  have tx: "prices_ok d" if t: "extensionTransaction k i x n pl db = Inr (c', d)" for k pl c' d
    using t assms(2) unfolding extensionTransaction_def rbind_Inr_iff
    by (elim exE conjE) (auto dest!: insert_extension_prices reserve_prices_ok)
  show ?thesis
    using assms tx transacted_cases unfolding createExtension_def rbind_Inr_iff
    by (elim exE conjE) (fastforce split: planned.split_asm prod.split_asm)
qed

lemma decide_prices:
  assumes "decideRenewal cf r i d n seen db = Inr (x, db')" and "prices_ok db"
  shows "prices_ok db'"
proof -
  have tx: "prices_ok e" if t: "decisionTransaction k r i d n db = Inr (x', e)" for k x' e
    using t assms(2) unfolding decisionTransaction_def Let_def rbind_Inr_iff
    by (elim exE conjE)
      (auto simp: result_simps split: if_split_asm dest!: insert_extension_prices reserve_prices_ok)
  show ?thesis using assms tx unfolding decideRenewal_def Let_def rbind_Inr_iff
    by (elim exE conjE) (auto split: option.split_asm sum.split_asm if_split_asm)
qed

lemma run_command_prices_ok:
  assumes run: "runChangeCommand op i inp ex seen db = Inr (ch, db')"
    and ok: "prices_ok db" "distinct (map ch_id (db_changes db))"
    and step: "\<And>c xp d d2. ex c xp d = Inr d2 \<Longrightarrow> findChange i d = Some c \<Longrightarrow>
      requireExtensionChangeProjection c d = Inr xp \<Longrightarrow> prices_ok d \<Longrightarrow> distinct (map ch_id (db_changes d)) \<Longrightarrow> prices_ok d2"
  shows "prices_ok db'"
  using run
proof (cases rule: run_command_cases)
  case (2 k)
  then show ?thesis
  proof (rule change_transaction_facts)
    fix d c xp d2 assume a: "reserveCommand (in_commandId inp) (ac_id (in_actor inp)) op k (in_requestHash inp) (in_now inp) db = Inr d"
      "findChange i d = Some c" "requireExtensionChangeProjection c d = Inr xp" "ex c xp d = Inr d2"
      "db' = completeCommand (in_commandId inp) ResCHANGE i (in_now inp) d2" "db_changes d = db_changes db"
    then show ?thesis using step [OF a(4,2,3)] ok reserve_prices_ok [OF a(1)] by simp
  qed
qed (use ok in simp)

lemma approve_prices:
  assumes run: "approvePriceOverride cf i inp seen db = Inr (ch, db')"
    and ok: "prices_ok db" "distinct (map ch_id (db_changes db))"
  shows "prices_ok db'"
  using run unfolding approvePriceOverride_def rbind_Inr_iff
proof (elim exE conjE, elim run_command_prices_ok [OF _ ok], clarsimp simp: result_simps)
  fix c xp and d d2 :: sub_db and qt rs
  assume c: "findChange i d = Some c" and d: "prices_ok d" "distinct (map ch_id (db_changes d))"
    and qt: "findQuote (ch_currentQuoteId c) d = Some qt" "cq_createdBy qt \<noteq> Some (ac_id (in_actor inp))"
    and upd: "update_change i (\<lambda>c. map_override (\<lambda>p. \<lparr> po_reason = Some rs, po_approvedBy = Some (ac_id (in_actor inp)),
      po_approvedAt = Some (in_now inp) \<rparr>) (c\<lparr>ch_version := ch_version c + 1\<rparr>)) d = Inr d2"
  show "prices_ok d2"
    by (rule update_prices_ok [OF d upd refl c])
      (use author_of [OF qt(1)] qt(2) in \<open>auto simp: four_eyes_def price_view_def map_override_def split: option.splits\<close>)
qed

lemma projection_price:
  "requireExtensionChangeProjection c d = Inr xp \<Longrightarrow> ch_extensionDetail c = Some x \<Longrightarrow>
   xp_pricingMode xp = xd_pricingMode x \<and> xp_priceOverride xp = xd_priceOverride x"
  by (auto simp: requireExtensionChangeProjection_def detail_or_def Let_def split: if_splits option.splits)

lemma submit_prices:
  assumes run: "submitCustomerConfirmation cf i inp seen db = Inr (ch, db')"
    and ok: "prices_ok db" "distinct (map ch_id (db_changes db))"
  shows "prices_ok db'"
  using run unfolding submitCustomerConfirmation_def rbind_Inr_iff
proof (elim exE conjE, elim run_command_prices_ok [OF _ ok], clarsimp simp: result_simps)
  fix c xp and d d2 :: sub_db and qt
  assume c: "findChange i d = Some c" and d: "prices_ok d" "distinct (map ch_id (db_changes d))"
    and xp: "requireExtensionChangeProjection c d = Inr xp"
    and g: "xp_pricingMode xp = CURRENT_VERSION
      \<or> (\<exists>a. po_approvedBy (xp_priceOverride xp) = Some a) \<and> (\<exists>t. po_approvedAt (xp_priceOverride xp) = Some t)"
    and upd: "update_change i (\<lambda>c. c\<lparr>ch_publishedAt := Some (in_now inp),
      ch_publishedBy := Some (ac_id (in_actor inp)), ch_version := ch_version c + 1\<rparr>) d = Inr d2"
  show "prices_ok d2"
    by (rule update_prices_ok [OF d upd refl c])
      (use projection_price [OF xp] projection_extension [OF xp] g in
        \<open>auto simp: four_eyes_def price_view_def split: option.splits\<close>)
qed

lemma confirm_prices:
  assumes run: "confirmQuote cf i inp q r seen db = Inr (ch, db')"
    and ok: "prices_ok db" "distinct (map ch_id (db_changes db))"
  shows "prices_ok db'"
  using run unfolding confirmQuote_def rbind_Inr_iff
proof (elim exE conjE portal_command_cases, use ok in simp, clarsimp)
  fix k c qt and d d2 :: sub_db
  assume res: "reserveCommand (in_commandId inp) (ac_id (in_actor inp)) ''PORTAL_CONFIRM_EXTENSION_QUOTE'' k
      (in_requestHash inp) (in_now inp) db = Inr d" and c: "findChange i d = Some c"
    and qt: "assertExactPublishableQuote c q r (in_now inp) d = Inr qt"
    and upd: "update_change i (\<lambda>c. c\<lparr>ch_confirmedQuoteId := Some (cq_id qt), ch_status := ChgCUSTOMER_CONFIRMED,
        ch_version := ch_version c + 1\<rparr>) (update_quote (cq_id qt) (\<lambda>q. q\<lparr>cq_confirmedAt := Some (in_now inp),
        cq_status := QuCUSTOMER_CONFIRMED\<rparr>) d) = Inr d2"
  have d: "prices_ok d" "distinct (map ch_id (db_changes d))"
    using ok reserve_prices_ok [OF res] reserve_changes [OF res] by simp_all
  have "findQuote (ch_currentQuoteId c) d = Some qt" "ch_publishedAt c \<noteq> None"
    using qt by (auto simp: assertExactPublishableQuote_def split: option.splits if_splits)
  note pub = author_of [OF this(1)] this(2)
  have same: "map author (db_quotes (update_quote (cq_id qt) (\<lambda>q. q\<lparr>cq_confirmedAt := Some (in_now inp),
        cq_status := QuCUSTOMER_CONFIRMED\<rparr>) d)) = map author (db_quotes d)"
    by (simp add: update_quote_def map_upd_row)
  show "prices_ok d2"
    by (rule update_prices_ok [OF d upd _ c], unfold same)
      (use pub in \<open>auto simp: four_eyes_def price_view_def split: option.splits\<close>)
qed

lemma quote_prices:
  assumes run: "createFormalQuote cf i inp x n seen db = Inr (qt, db')"
    and ok: "prices_ok db" "distinct (map ch_id (db_changes db))"
  shows "prices_ok db'"
proof -
  have tx: "prices_ok e" if t: "quoteTransaction cf k i inp x n db = Inr (q, e)" for k q e
  proof -
    obtain d where res: "reserveCommand (in_commandId inp) (ac_id (in_actor inp)) ''CREATE_FORMAL_QUOTE'' k
        (in_requestHash inp) (in_now inp) db = Inr d"
      using t by (auto simp: quoteTransaction_def)
    obtain c where c: "findChange i d = Some c" using t res by (auto simp: quoteTransaction_def split: option.split_asm)
    have d: "prices_ok d" "distinct (map ch_id (db_changes d))"
      using ok reserve_prices_ok [OF res] reserve_changes [OF res] by simp_all
    have free: "ch_confirmedQuoteId c = None" "ch_extensionDetail c \<noteq> None"
      using t res c unfolding quoteTransaction_def by (auto simp: Let_def result_simps assertQuoteMutable_def)
    have "\<exists>(d2 :: sub_db) d3. update_change i (quoted n) d2 = Inr d3 \<and> db_changes d2 = db_changes d
        \<and> (\<forall>p w. map_of (map author (db_quotes d)) p = Some w \<longrightarrow> map_of (map author (db_quotes d2)) p = Some w)
        \<and> prices_ok e = prices_ok d3"
      using t res c unfolding quoteTransaction_def
      by (clarsimp simp: Let_def result_simps)
        (rule exI, rule exI, rule conjI, assumption,
          auto simp: update_quote_def map_upd_row map_add_def split: option.split)
    then obtain d2 d3 :: sub_db where u: "update_change i (quoted n) d2 = Inr d3" "db_changes d2 = db_changes d"
      "\<And>p w. map_of (map author (db_quotes d)) p = Some w \<Longrightarrow> map_of (map author (db_quotes d2)) p = Some w"
      "prices_ok e = prices_ok d3" by blast
    have "prices_ok d3"
      by (rule update_prices_ok [OF d u(1,2) c u(3)])
        (use free in \<open>auto simp: four_eyes_def price_view_def quoted_def map_override_def split: option.splits\<close>)
    then show ?thesis using u(4) by simp
  qed
  then show ?thesis using run ok(1) unfolding createFormalQuote_def rbind_Inr_iff
    by (elim exE conjE) (auto split: option.split_asm sum.split_asm if_split_asm)
qed

lemma author_known:
  "map_of (map author (db_quotes db)) q = Some w \<longleftrightarrow> (\<exists>qt. findQuote (Some q) (db :: sub_db) = Some qt \<and> cq_createdBy qt = w)"
proof -
  have "map_of (map author rows) q = map_option cq_createdBy (find_row cq_id q rows)" for rows
    by (induction rows) (auto simp: find_row_def author_def)
  then show ?thesis by (auto simp: findQuote_def)
qed

lemma other_changes_prices:
  assumes run: "writeOtherChanges rows qs cs db = Inr db'" and ok: "prices_ok db"
  shows "prices_ok db'"
proof -
  have db': "db_changes db' = rows" "db_quotes db' = qs" and eq: "extensions rows = extensions (db_changes db)"
    and quotes: "list_all (\<lambda>c. ch_currentQuoteId c = None
      \<or> findQuote (ch_currentQuoteId c) (db\<lparr>db_quotes := qs\<rparr>) = findQuote (ch_currentQuoteId c) db) (extensions rows)"
    using run by (auto simp: writeOtherChanges_def write_changes_def split: if_splits)
  have "four_eyes (map author qs) (price_view c)" if c: "c \<in> set rows" for c
  proof (cases "ch_changeType c = EXTENSION")
    case True
    then have e: "c \<in> set (extensions rows)" using c by (simp add: extensions_def)
    then have "c \<in> set (db_changes db)" unfolding eq by (simp add: extensions_def)
    then have "four_eyes (map author (db_quotes db)) (price_view c)"
      using ok by (auto simp: prices_ok_def prices_def list_all_iff)
    moreover have "ch_currentQuoteId c = None \<or> findQuote (ch_currentQuoteId c) (db\<lparr>db_quotes := qs\<rparr>) = findQuote (ch_currentQuoteId c) db"
      using quotes e by (simp add: list_all_iff)
    ultimately show ?thesis
      using author_known [of "db\<lparr>db_quotes := qs\<rparr>"] author_known [of db]
      by (fastforce simp: four_eyes_def price_view_def split: option.splits)
  qed (simp add: four_eyes_def price_view_def)
  then show ?thesis using db' by (auto simp: prices_ok_def prices_def list_all_iff)
qed

section \<open>Every operation\<close>

lemma sub_transaction_prices:
  assumes ok: "timeline_ok db \<and> prices_ok db" and run: "sub_transaction op db = Inr db'"
  shows "timeline_ok db' \<and> prices_ok db'"
proof
  have p: "prices_ok db" and ids: "distinct (map ch_id (db_changes db))" using ok timeline_ids by auto
  note priced = approve_prices [OF _ p ids] submit_prices [OF _ p ids] confirm_prices [OF _ p ids]
    quote_prices [OF _ p ids] create_prices [OF _ p] decide_prices [OF _ p] other_changes_prices [OF _ p]
  note quiet = quiet_prices [THEN prices_okI, OF _ p] worker_prices [THEN prices_okI, OF p]
  show "prices_ok db'" using run p
    by (cases op) (auto dest!: state_of_Inr intro: priced quiet split: option.splits)
qed (use sub_transaction_timeline run ok in blast)

interpretation priced: guarded_ops sub_transaction "\<lambda>db. timeline_ok db \<and> prices_ok db"
  by unfold_locales (rule sub_transaction_prices)

lemma run_prices: "prices_ok (sub_run ops no_subscriptions)"
  using priced.run_inv [of no_subscriptions ops] no_subscriptions_ok
  unfolding sub_run_subs subs.run_def subs.commit_def [abs_def] priced.run_def priced.commit_def [abs_def]
  by (simp add: prices_ok_def prices_def no_subscriptions_def)

text \<open>
  C6 In every run an extension has its detail, and two persons are behind a price that is
  not the current one: once such an extension is published to its customer, somebody other
  than the author of the quote that is published has approved the price, and the quote the
  customer confirms is that one.
\<close>

theorem price_needs_second_person:
  assumes "db = sub_run ops no_subscriptions" and "findChange i db = Some c" and "ch_changeType c = EXTENSION"
  shows "\<exists>d. ch_extensionDetail c = Some d
    \<and> (ch_publishedAt c \<noteq> None \<and> xd_pricingMode d \<noteq> CURRENT_VERSION \<longrightarrow>
        (\<exists>approver qt. po_approvedBy (xd_priceOverride d) = Some approver
          \<and> findQuote (ch_currentQuoteId c) db = Some qt \<and> cq_createdBy qt \<noteq> Some approver))
    \<and> (ch_confirmedQuoteId c \<noteq> None \<longrightarrow>
        ch_confirmedQuoteId c = ch_currentQuoteId c \<and> ch_publishedAt c \<noteq> None)"
proof -
  have "c \<in> set (db_changes db)" using findChange_in [OF assms(2)] by simp
  then have "four_eyes (map author (db_quotes db)) (price_view c)"
    using run_prices [of ops] assms(1) by (auto simp: prices_ok_def prices_def list_all_iff)
  then show ?thesis
    using assms(3) by (auto simp: four_eyes_def price_view_def author_known split: option.splits)
qed

text \<open>An extension at the original price: \<open>a\<close> quotes it and cannot approve it, \<open>b\<close> can.\<close>

definition demo_quoting :: "id \<Rightarrow> sub_op list" where
  "demo_quoting approver =
     [CreateQuote demo_config ''x'' (demo_input ''a'' ''c1'' 1 0)
        \<lparr> qi_discountedMonthlyFeeAmount = None, qi_requestedVehicleBaseFeeAmount = None,
          qi_subscriptionPlanId = None \<rparr> ''q'' no_subscriptions,
      ApprovePrice demo_config ''x'' (demo_input approver ''c2'' 2 1) no_subscriptions,
      SubmitConfirmation demo_config ''x'' (demo_input ''a'' ''c3'' 3 2) no_subscriptions]"

definition published :: "sub_db \<Rightarrow> (change_type \<times> bool \<times> (pricing_mode \<times> id option) option) option" where
  "published db = map_option (\<lambda>c. (ch_changeType c, ch_publishedAt c \<noteq> None,
     map_option (\<lambda>d. (xd_pricingMode d, po_approvedBy (xd_priceOverride d))) (ch_extensionDetail c))) (findChange ''x'' db)"

lemma demo_published:
  "published (sub_run (demo_quoting ''b'') extended_db) = Some (EXTENSION, True, Some (ORIGINAL_PRICE, Some ''b''))"
  "published (sub_run (demo_quoting ''a'') extended_db) = Some (EXTENSION, False, Some (ORIGINAL_PRICE, None))"
  by code_simp+

theorem price_needs_second_person_witness:
  "\<exists>c d qt. findChange ''x'' (sub_run (demo_quoting ''b'') extended_db) = Some c \<and> ch_extensionDetail c = Some d
    \<and> po_approvedBy (xd_priceOverride d) = Some ''b'' \<and> ch_publishedAt c \<noteq> None
    \<and> findQuote (ch_currentQuoteId c) (sub_run (demo_quoting ''b'') extended_db) = Some qt \<and> cq_createdBy qt \<noteq> Some ''b''
    \<and> published (sub_run (demo_quoting ''a'') extended_db) = Some (EXTENSION, False, Some (ORIGINAL_PRICE, None))"
proof -
  obtain c where c: "findChange ''x'' (sub_run (demo_quoting ''b'') extended_db) = Some c" "ch_changeType c = EXTENSION"
    "ch_publishedAt c \<noteq> None" and d: "map_option (\<lambda>d. (xd_pricingMode d, po_approvedBy (xd_priceOverride d))) (ch_extensionDetail c)
      = Some (ORIGINAL_PRICE, Some ''b'')"
    using demo_published(1) by (auto simp: published_def)
  have db: "sub_run (demo_quoting ''b'') extended_db = sub_run (demo_start @ demo_create @ demo_quoting ''b'') no_subscriptions"
    by (simp add: extended_run)
  show ?thesis
    using price_needs_second_person [OF db c(1,2)] c d demo_published(2) by auto
qed

end
