(* ===== verification/Spec2Isabelle.thy ===== *)
theory Spec2Isabelle
  imports Calendars ClosureCase JobQueue FinanceFacts Csv JourneyFacts OpenExtensions ExtensionTerms
    PriceApproval
begin

text \<open>
  A verification development for the backend of a car subscription business
  (\<open>src/apps/api/src\<close>, a NestJS application over PostgreSQL).

  \<^bold>\<open>The program.\<close>  A customer's application is led to an active subscription by a
  \<^emph>\<open>journey\<close> (\<open>subscription-journey/\<close>): eleven steps, moved by repository
  operations in transactions, driven by leased jobs and an outbox.  An active
  subscription is billed month by month; the \<^emph>\<open>calendars\<close>
  (\<open>billing-automation.calendar.ts\<close> and four others) say for which days and when,
  and a leased \<^emph>\<open>job queue\<close> (\<open>billing-automation/\<close>) does the work.  The terms a month
  is billed by are those of the \<^emph>\<open>contract segment\<close> it lies in
  (\<open>subscription-change/\<close>): before a segment ends its customer is asked for a
  decision, an \<^emph>\<open>extension\<close> is quoted, approved, confirmed in the portal, signed and
  scheduled as the next segment, and the segments switch or the last one expires.  \<^emph>\<open>Finance\<close>
  (\<open>finance/finance.service.ts\<close>) books payments, write-offs and deposits on the
  bills and keeps the collection cases in step.  A subscription ends in a
  \<^emph>\<open>closure case\<close> (\<open>subscription-closure/\<close>), an event-sourced aggregate with a
  status machine whose settlement is resolved from the same bills.  \<^emph>\<open>Asset
  accounting\<close> (\<open>asset-accounting/\<close>) keeps the cost ledger of the vehicles.  Reports
  and imports are CSV; snapshots are stored as canonical JSON.

  \<^bold>\<open>Theories and sources.\<close>
  \<^item> \<open>Prelude\<close>: result sums with \<open>rbind\<close> and \<open>ensure\<close>, rows of tables; \<open>Interfaces\<close>: the
    locales \<open>cycle_calendar\<close>, \<open>status_machine\<close>, \<open>ranked_machine\<close>, \<open>leased_queue\<close> and
    \<open>guarded_ops\<close> with the lemmas their clients share.  Each is interpreted on the
    model in the theory of its component.
  \<^item> \<open>JsDate\<close>: ECMAScript \<open>Date\<close> (time values, \<open>Date.UTC\<close>, getters, \<open>toISOString\<close>);
    \<open>JsString\<close>: UTF-16 strings, \<open>trim\<close>, decimal numbers, \<open>JSON.stringify\<close> of a string.
  \<^item> \<open>Calendars\<close>: \<open>billing-automation.calendar.ts\<close>, \<open>subscription-performance-calendar.ts\<close>,
    \<open>mileage-review.calendar.ts\<close>, \<open>mileage-review.calculator.ts\<close>, \<open>auto-debit.calendar.ts\<close>,
    \<open>renewal-calendar.ts\<close>.
  \<^item> \<open>JobQueue\<close>: \<open>billing-automation.repository.ts\<close> and the decision of its worker.
  \<^item> \<open>ClosureMachine\<close>: transition matrices of \<open>subscription-closure.domain.ts\<close>;
    \<open>ClosureCase\<close>: cases, events, receipts, revisions of \<open>subscription-closure.repository.ts\<close>;
    \<open>Settlement\<close>: \<open>subscription-closure.settlement-resolver.ts\<close>.
  \<^item> \<open>FinanceDb\<close> (tables of \<open>schema.prisma\<close>), \<open>Finance\<close> (operations of
    \<open>finance.service.ts\<close>), \<open>FinanceLaws\<close> (the balance of the books), \<open>FinanceFacts\<close>
    (the properties that join finance and the settlement resolver).
  \<^item> \<open>CostLedger\<close>: the cost entries and summary of \<open>asset-accounting.domain.ts\<close>.
  \<^item> \<open>Csv\<close>: \<open>report-csv.ts\<close> and \<open>csv-parser.ts\<close>; \<open>CanonicalJson\<close>: the canonical values
    of \<open>asset-accounting.domain.ts\<close>, \<open>subscription-closure.domain.ts\<close> and
    \<open>subscription-journey-json.ts\<close>.
  \<^item> \<open>JourneySafety\<close> (what a stored payload may not hold), \<open>JourneyDb\<close> (status machine,
    tables, helpers), \<open>Journey\<close> (the operations of the repository), \<open>JourneyQueue\<close>
    (jobs, outbox and worker), \<open>JourneyAdmin\<close> (what \<open>subscription-journey.service.ts\<close>
    lets an administrator do), \<open>JourneyLeases\<close>, \<open>JourneyLaws\<close> and \<open>JourneyFacts\<close> (their
    properties).

  \<^item> \<open>ContractSegments\<close>: \<open>contract-segment.service.ts\<close>; \<open>ChangeDb\<close>: the tables of the
    change centre, \<open>subscription-change.domain.ts\<close> and
    \<open>subscription-extension-compat.ts\<close>; \<open>ExtensionPricing\<close>:
    \<open>subscription-extension-pricing.service.ts\<close>; \<open>Extensions\<close> and
    \<open>ExtensionCommands\<close>: \<open>subscription-extension.service.ts\<close> and the customer's side in
    \<open>portal-renewal.service.ts\<close>; \<open>ExtensionLifecycle\<close>: the agreement
    (\<open>subscription-extension-contract.service.ts\<close>), its archival
    (\<open>stage3-extension-archive.service.ts\<close>), the activation
    (\<open>subscription-extension-activation.service.ts\<close>), the expiry
    (\<open>subscription-expiry.service.ts\<close>) and the writes of a vehicle swap and of an
    early termination to segments; \<open>Renewals\<close>: \<open>renewal-consideration.service.ts\<close>.
  \<^item> \<open>ExtensionSteps\<close> makes these operations one type; \<open>SegmentTimeline\<close>,
    \<open>TimelineLaws\<close> and \<open>ExtensionMoves\<close> carry the timeline of the segments and the
    lifecycle of extensions through every operation; \<open>ExtensionFacts\<close>,
    \<open>StrandedOrders\<close>, \<open>OpenExtensions\<close>, \<open>ExtensionTerms\<close> and \<open>PriceApproval\<close> state the
    properties.

  \<^bold>\<open>State and operations.\<close>  A table is the list of its rows (records with the columns
  anything depends on), a transaction a function from the state of its aggregate
  to \<open>error + state\<close>; one that throws is rolled back, so \<open>Inl\<close> carries no state.
  \<open>finance_step\<close>, \<open>worker_step\<close>, \<open>journey_transaction\<close> and \<open>sub_transaction\<close> put the
  operations of an aggregate into one type, and runs of them, in any order and with refused ones
  among them, are what the invariants quantify over.  Row and advisory locks only
  order transactions and leave no trace.  The clock, generated identifiers and
  lease tokens are arguments; where a theorem needs identifiers to be fresh, the
  step checks it as the primary key does.  Facts owned by other modules (whether
  an order exists, a contract is signed, what a handler returned) are arguments.  What
  a command of the change centre reads before its transaction it reads in an earlier
  state, an argument nothing relates to the state of the transaction.  In a run of the
  change centre, steps stand for the other modules, which write their own tables in
  any way and change orders of the other types (\<open>writeForeign\<close>,
  \<open>writeOtherChanges\<close>).

  \<^bold>\<open>What the lemmas show.\<close>  Calendars: billing cycles tile the contract without gap or
  overlap, a day lies in one cycle, keys identify cycles, reviews and debit runs
  fall on the right Shanghai days.  Finance: every run keeps each bill split into
  paid and remaining, payments and deposits allocated within their amounts, and
  the settlement resolver accepts what finance produced.  Closure: the event
  history matches the case, versions guard writers, commands replay, closed cases
  are final, every path ends; and the lookup that makes a note block a resume.
  Queues: keys are unique, a lease is held by one worker, an expired lease is
  fenced, a failing job ends as a dead letter.  Journeys: the event log has no gap
  under any interleaving, ended journeys are final, retries are bounded, replayed
  requests are told from conflicting ones by canonical text.  Segments and
  extensions: the timeline of an order has no gap and no overlap under any
  interleaving, a billing period has one segment, extensions refine an abstract
  machine, stale commands change nothing, references resolve, fees keep their bounds,
  and a price that is not the current one is approved by a second person;
  and three behaviours that fall short: cancelling an extension after its segment is
  scheduled leaves the order stuck, expiry never fails an open extension, and
  extension dates leave the billing cycles for deliveries on the 29th to 31st.  CSV and canonical
  JSON: what is written is read back, and texts agree exactly on equal values.

  \<^bold>\<open>Bounds.\<close>  Calendar theorems range over instants from 1970 to 9999 in Shanghai
  time and up to 120000 cycles, inside which no ECMAScript date is invalid.
  Amounts are integers (fen), as the code keeps them in \<open>bigint\<close> columns or safe
  integers.  There is no fuel: every function is total, loops are recursions over
  lists or have a termination proof.

  \<^bold>\<open>Not modelled.\<close>  The web front end (\<open>apps/web\<close>), the release tooling
  (\<open>scripts/release\<close>, \<open>packages/release-foundation\<close>), controllers, DTO validation,
  guards and listing queries, storage, signing, SMS and payment providers (their
  answers enter as arguments), and the services that orchestrate them: orders,
  customers, handover work orders, closure documents and reports.  Of the change
  centre: the services of vehicle swap, early termination and other managed changes
  except for what they write to segments and change orders, entitlements, automatic
  debit, the generation of bills, and the repeated attempts of a transaction after a
  unique violation (the generation of an agreement, the numbers of segments); a
  caller's second attempt is another step of a run.  Numbers are
  integers, values are finite trees, hashes are parameters.
\<close>

end
